(* ===== verification/Prelude.thy ===== *)
theory Prelude
  imports Main "HOL-Library.Multiset" "HOL-Library.Char_ord" "HOL-Library.List_Lexorder"
begin

text \<open>
  Shared vocabulary of the development: the fragment of Go and of its standard library that the
  modelled packages use.

  \<^item> A Go \<open>string\<close> is a byte sequence, here a HOL \<open>string\<close> (a \<open>char list\<close>); the order on
    strings is the byte-wise lexicographic one of \<open>List_Lexorder\<close> and \<open>Char_ord\<close>.
  \<^item> A \<open>map[string]string\<close> is an association list.  A nil map and an empty map are the same
    value \<open>[]\<close>: every read the program makes of either gives the zero value, and their length
    is 0.
  \<^item> A \<open>time.Time\<close> is the integer number of nanoseconds since the Unix epoch and a
    \<open>time.Duration\<close> an integer number of nanoseconds.
  \<^item> \<open>slices.SortFunc\<close> is Go's insertion sort, together with the contract a caller may rely on
    (locale \<open>sort_func\<close>).
\<close>

named_theorems go_defs "unfolding rules of the standard-library model"
named_theorems crd_defs "unfolding rules of the conversions between API objects and the domain"

section \<open>Maps, strings, integers\<close>

type_synonym strmap = "(string \<times> string) list"

text \<open>\<open>m[k]\<close> of a \<open>map[string]string\<close>: the zero value for an absent key.\<close>

definition go_get :: "strmap \<Rightarrow> string \<Rightarrow> string" where
  "go_get m k = (case map_of m k of None \<Rightarrow> '''' | Some v \<Rightarrow> v)"

text \<open>\<open>m[k] = v\<close>.\<close>

fun go_put :: "strmap \<Rightarrow> string \<Rightarrow> string \<Rightarrow> strmap" where
  "go_put [] k v = [(k, v)]"
| "go_put ((k', v') # m) k v = (if k' = k then (k, v) # m else (k', v') # go_put m k v)"

text \<open>\<open>strings.HasPrefix(s, p)\<close>.\<close>

definition HasPrefix :: "string \<Rightarrow> string \<Rightarrow> bool" where
  "HasPrefix s p = (take (length p) s = p)"

text \<open>The value an \<open>int64\<close> (\<open>int32\<close>) holds after an operation whose exact result is \<open>x\<close>.\<close>

definition wrap64 :: "int \<Rightarrow> int" where
  "wrap64 x = (x + 2 ^ 63) mod 2 ^ 64 - 2 ^ 63"

definition wrap32 :: "int \<Rightarrow> int" where
  "wrap32 x = (x + 2 ^ 31) mod 2 ^ 32 - 2 ^ 31"

text \<open>Go's integer division truncates towards zero.\<close>

definition go_div :: "int \<Rightarrow> int \<Rightarrow> int" where
  "go_div a b = (if (a < 0) = (b < 0) then \<bar>a\<bar> div \<bar>b\<bar> else - (\<bar>a\<bar> div \<bar>b\<bar>))"

definition go_mod :: "int \<Rightarrow> int \<Rightarrow> int" where
  "go_mod a b = a - b * go_div a b"

section \<open>Time\<close>

type_synonym go_time = int
type_synonym go_duration = int

definition Second :: go_duration where "Second = 1000000000"
definition Minute :: go_duration where "Minute = 60 * Second"
definition Hour :: go_duration where "Hour = 60 * Minute"

text \<open>The zero \<open>time.Time\<close>: 0001-01-01T00:00:00Z.\<close>

definition zero_time :: go_time where "zero_time = - 62135596800 * Second"

text \<open>
  The IANA database is data outside the program: a parameter \<open>tzdb\<close> that gives, for a zone name,
  its offset in seconds east of UTC at a Unix second.  \<open>time.LoadLocation\<close> answers the names
  \<open>""\<close> and \<open>"UTC"\<close> itself.
\<close>

type_synonym location = "int \<Rightarrow> int"
type_synonym tzdb = "string \<Rightarrow> location option"

definition LoadLocation :: "tzdb \<Rightarrow> string \<Rightarrow> location option" where
  "LoadLocation tz name = (if name = '''' \<or> name = ''UTC'' then Some (\<lambda>_. 0) else tz name)"

text \<open>
  \<open>t.In(loc)\<close> is represented by the local wall-clock second, and \<open>Weekday\<close>, \<open>Hour\<close> and \<open>Minute\<close>
  read it off (1970-01-01 was a Thursday).
\<close>

definition time_In :: "go_time \<Rightarrow> location \<Rightarrow> int" where
  "time_In t loc = (let s = t div Second in s + loc s)"

definition t_Weekday :: "int \<Rightarrow> int" where "t_Weekday l = (l div 86400 + 4) mod 7"
definition t_Hour :: "int \<Rightarrow> int" where "t_Hour l = (l mod 86400) div 3600"
definition t_Minute :: "int \<Rightarrow> int" where "t_Minute l = (l mod 3600) div 60"

lemmas time_defs [go_defs] =
  Second_def Minute_def Hour_def zero_time_def time_In_def LoadLocation_def
  t_Weekday_def t_Hour_def t_Minute_def

lemma go_get_Nil [simp]: "go_get [] k = ''''"
  by (simp add: go_get_def)

lemma go_get_Cons [simp]: "go_get ((k', v) # m) k = (if k' = k then v else go_get m k)"
  by (simp add: go_get_def)

lemma go_get_put [simp]: "go_get (go_put m k v) k' = (if k' = k then v else go_get m k')"
  by (induction m k v rule: go_put.induct) auto

lemma wrap64_id: "- (2 ^ 63) \<le> x \<Longrightarrow> x < 2 ^ 63 \<Longrightarrow> wrap64 x = x"
  by (simp add: wrap64_def)

lemma wrap64_bounds: "- (2 ^ 63) \<le> wrap64 x" "wrap64 x < 2 ^ 63"
proof -
  have "0 \<le> (x + 2 ^ 63) mod 2 ^ 64" "(x + 2 ^ 63) mod 2 ^ 64 < 2 ^ 64" by simp_all
  then show "- (2 ^ 63) \<le> wrap64 x" "wrap64 x < 2 ^ 63" by (auto simp: wrap64_def)
qed

lemma t_Weekday_bounds: "0 \<le> t_Weekday l" "t_Weekday l \<le> 6"
  by (simp_all add: t_Weekday_def)

text \<open>Minutes since local midnight, as \<open>Hour()*60 + Minute()\<close> computes them.\<close>

lemma minutes_of_day: "t_Hour l * 60 + t_Minute l = (l mod 86400) div 60"
proof -
  have "l mod 3600 = (l mod 86400) mod 3600" by (simp add: mod_mod_cancel)
  moreover have "m div 3600 * 60 + m mod 3600 div 60 = m div 60" for m :: int
  proof -
    have "(m mod 3600 + 60 * (60 * (m div 3600))) div 60 = m mod 3600 div 60 + 60 * (m div 3600)"
      by (simp only: div_mult_self2)
    moreover have "m mod 3600 + 60 * (60 * (m div 3600)) = m" by simp
    ultimately have "m div 60 = m mod 3600 div 60 + 60 * (m div 3600)" by (simp only:)
    then show ?thesis by linarith
  qed
  ultimately show ?thesis by (simp add: t_Hour_def t_Minute_def)
qed

text \<open>The byte zero, which separates the parts of hashed identities.\<close>

definition NUL :: string where "NUL = [char_of (0::nat)]"

section \<open>Sorting\<close>

text \<open>
  \<open>insertionSortCmpFunc\<close> of package \<open>slices\<close>: element after element is moved left over the
  sorted prefix while it compares below its neighbour.  \<open>insertR\<close> works on the reversed prefix.
\<close>

fun insertR :: "('a \<Rightarrow> 'a \<Rightarrow> int) \<Rightarrow> 'a \<Rightarrow> 'a list \<Rightarrow> 'a list" where
  "insertR cmp x [] = [x]"
| "insertR cmp x (y # ys) = (if cmp x y < 0 then y # insertR cmp x ys else x # y # ys)"

definition SortFunc :: "('a \<Rightarrow> 'a \<Rightarrow> int) \<Rightarrow> 'a list \<Rightarrow> 'a list" where
  "SortFunc cmp xs = rev (fold (insertR cmp) xs [])"

text \<open>A strict weak ordering on a set, the documented requirement on a comparison function.\<close>

definition strict_weak :: "('a \<Rightarrow> 'a \<Rightarrow> int) \<Rightarrow> 'a set \<Rightarrow> bool" where
  "strict_weak cmp S \<longleftrightarrow>
     (\<forall>a\<in>S. \<not> cmp a a < 0) \<and>
     (\<forall>a\<in>S. \<forall>b\<in>S. \<forall>c\<in>S. cmp a b < 0 \<longrightarrow> cmp b c < 0 \<longrightarrow> cmp a c < 0) \<and>
     (\<forall>a\<in>S. \<forall>b\<in>S. \<forall>c\<in>S. \<not> cmp a b < 0 \<longrightarrow> \<not> cmp b c < 0 \<longrightarrow> \<not> cmp a c < 0)"

lemma strict_weak_key:
  fixes key :: "'a \<Rightarrow> 'k::linorder"
  assumes "\<And>a b. a \<in> S \<Longrightarrow> b \<in> S \<Longrightarrow> cmp a b < 0 \<longleftrightarrow> key a < key b"
  shows "strict_weak cmp S"
  using assms unfolding strict_weak_def by (auto dest: less_trans le_less_trans simp: not_less)

lemma strict_weak_subset: "strict_weak cmp S \<Longrightarrow> T \<subseteq> S \<Longrightarrow> strict_weak cmp T"
  unfolding strict_weak_def by blast

lemma mset_insertR: "mset (insertR cmp x ys) = add_mset x (mset ys)"
  by (induction ys) auto

lemma set_insertR: "set (insertR cmp x ys) = insert x (set ys)"
  by (induction ys) auto

lemma insertR_sorted:
  assumes "strict_weak cmp (insert x (set ys))" and "sorted_wrt (\<lambda>a b. \<not> cmp a b < 0) ys"
  shows "sorted_wrt (\<lambda>a b. \<not> cmp a b < 0) (insertR cmp x ys)"
  using assms
proof (induction ys)
  case Nil
  then show ?case by simp
next
  case (Cons y ys)
  note sw = Cons.prems(1)[unfolded strict_weak_def]
  show ?case
  proof (cases "cmp x y < 0")
    case True
    then have "\<not> cmp y x < 0" using sw by (meson insertCI list.set_intros(1))
    moreover have "sorted_wrt (\<lambda>a b. \<not> cmp a b < 0) (insertR cmp x ys)"
    proof (rule Cons.IH)
      show "strict_weak cmp (insert x (set ys))"
        using Cons.prems(1) by (rule strict_weak_subset) auto
      show "sorted_wrt (\<lambda>a b. \<not> cmp a b < 0) ys" using Cons.prems(2) by simp
    qed
    ultimately show ?thesis using True Cons.prems(2) by (simp add: set_insertR)
  next
    case False
    have "\<not> cmp x z < 0" if "z \<in> set ys" for z
    proof -
      have "\<not> cmp y z < 0" using that Cons.prems(2) by simp
      then show ?thesis using False sw that by (meson insertCI list.set_intros)
    qed
    then show ?thesis using False Cons.prems(2) by simp
  qed
qed

lemma fold_insertR:
  assumes "strict_weak cmp (set xs \<union> set ys)" and "sorted_wrt (\<lambda>a b. \<not> cmp a b < 0) ys"
  shows "mset (fold (insertR cmp) xs ys) = mset xs + mset ys"
    and "sorted_wrt (\<lambda>a b. \<not> cmp a b < 0) (fold (insertR cmp) xs ys)"
  using assms
proof (induction xs arbitrary: ys)
  case (Cons x xs)
  {
    case 1
    have "sorted_wrt (\<lambda>a b. \<not> cmp a b < 0) (insertR cmp x ys)"
      using 1 by (intro insertR_sorted) (auto elim: strict_weak_subset)
    with Cons.IH(1)[of "insertR cmp x ys"] 1 show ?case
      by (simp add: set_insertR mset_insertR Un_insert_right)
  next
    case 2
    have "sorted_wrt (\<lambda>a b. \<not> cmp a b < 0) (insertR cmp x ys)"
      using 2 by (intro insertR_sorted) (auto elim: strict_weak_subset)
    with Cons.IH(2)[of "insertR cmp x ys"] 2 show ?case
      by (simp add: set_insertR Un_insert_right)
  }
qed auto

lemma mset_fold_insertR: "mset (fold (insertR cmp) xs ys) = mset xs + mset ys"
  by (induction xs arbitrary: ys) (auto simp: mset_insertR)

text \<open>
  What a caller of \<open>slices.SortFunc\<close> may rely on: a permutation of the input, in ascending order
  when the comparison is a strict weak ordering on it.  Nothing is promised about ties.
\<close>

locale sort_func =
  fixes sortf :: "('a \<Rightarrow> 'a \<Rightarrow> int) \<Rightarrow> 'a list \<Rightarrow> 'a list"
  assumes sort_perm: "mset (sortf cmp xs) = mset xs"
    and sort_ascending: "strict_weak cmp (set xs) \<Longrightarrow> sorted_wrt (\<lambda>a b. \<not> cmp b a < 0) (sortf cmp xs)"
begin

lemma set_sort: "set (sortf cmp xs) = set xs"
  using sort_perm by (metis set_mset_mset)

lemma sort_Nil_iff: "sortf cmp xs = [] \<longleftrightarrow> xs = []"
  using sort_perm by (metis mset_zero_iff)

lemma head_least:
  assumes "strict_weak cmp (set xs)" and "sortf cmp xs = w # ws" and "x \<in> set xs"
  shows "\<not> cmp x w < 0"
proof -
  have asc: "sorted_wrt (\<lambda>a b. \<not> cmp b a < 0) (w # ws)"
    using sort_ascending[OF assms(1)] assms(2) by simp
  have mem: "x \<in> set (w # ws)" using assms(2,3) set_sort by metis
  have "w \<in> set xs" using assms(2) set_sort by (metis list.set_intros(1))
  then have "\<not> cmp w w < 0" using assms(1) by (simp add: strict_weak_def)
  with asc mem show ?thesis by auto
qed

end

interpretation go_sort: sort_func SortFunc
proof unfold_locales
  fix cmp :: "'a \<Rightarrow> 'a \<Rightarrow> int" and xs :: "'a list"
  show "mset (SortFunc cmp xs) = mset xs"
    by (simp add: SortFunc_def mset_fold_insertR)
  assume "strict_weak cmp (set xs)"
  then have "sorted_wrt (\<lambda>a b. \<not> cmp a b < 0) (fold (insertR cmp) xs [])"
    by (intro fold_insertR) auto
  then show "sorted_wrt (\<lambda>a b. \<not> cmp b a < 0) (SortFunc cmp xs)"
    by (simp add: SortFunc_def sorted_wrt_rev)
qed

end
