(* ===== verification/DomainTypes.thy ===== *)
theory DomainTypes
  imports Prelude
begin

text \<open>
  The data of package \<open>domain\<close> (\<open>src/internal/core/domain/types.go\<close>): power states, time windows,
  scopes, workload references, snapshots, targets, policies, overrides and decisions, with the
  methods the file declares on them.  A Go string type that is converted from an API string
  (\<open>PowerState\<close>, \<open>WorkloadKind\<close>, \<open>OwnershipType\<close>) stays an open string, and so does \<open>RuleKind\<close>,
  whose zero value occurs; the enumerations the program only produces itself (\<open>BlockType\<close>,
  \<open>ScopeSpecificity\<close>) are datatypes.
\<close>

section \<open>Power states\<close>

type_synonym PowerState = string

definition PowerStateOn :: PowerState where "PowerStateOn = ''on''"
definition PowerStateOff :: PowerState where "PowerStateOff = ''off''"

lemmas power_state_defs = PowerStateOn_def PowerStateOff_def

definition Opposite :: "PowerState \<Rightarrow> PowerState" where
  "Opposite s =
     (if s = PowerStateOn then PowerStateOff
      else if s = PowerStateOff then PowerStateOn
      else PowerStateOn)"

definition PowerState_IsValid :: "PowerState \<Rightarrow> bool" where
  "PowerState_IsValid s \<longleftrightarrow> s = PowerStateOn \<or> s = PowerStateOff"

type_synonym Priority = int
type_synonym Weekday = int

definition Sunday :: Weekday where "Sunday = 0"
definition Saturday :: Weekday where "Saturday = 6"

section \<open>Time windows and schedules\<close>

record TimeOfDay =
  tod_Hour :: int
  tod_Minute :: int

definition ToMinutes :: "TimeOfDay \<Rightarrow> int" where
  "ToMinutes t = tod_Hour t * 60 + tod_Minute t"

definition TimeOfDay_IsValid :: "TimeOfDay \<Rightarrow> bool" where
  "TimeOfDay_IsValid t \<longleftrightarrow>
     tod_Hour t \<ge> 0 \<and> tod_Hour t \<le> 23 \<and> tod_Minute t \<ge> 0 \<and> tod_Minute t \<le> 59"

record TimeWindow =
  tw_Start :: TimeOfDay
  tw_End :: TimeOfDay
  tw_Days :: "Weekday list"
  tw_Timezone :: string

definition CrossesMidnight :: "TimeWindow \<Rightarrow> bool" where
  "CrossesMidnight w \<longleftrightarrow> ToMinutes (tw_Start w) > ToMinutes (tw_End w)"

record Schedule =
  sch_Windows :: "TimeWindow list"
  sch_DesiredState :: PowerState

section \<open>Workloads and scopes\<close>

type_synonym WorkloadKind = string

definition WorkloadKindDeployment :: WorkloadKind where "WorkloadKindDeployment = ''Deployment''"
definition WorkloadKindStatefulSet :: WorkloadKind where "WorkloadKindStatefulSet = ''StatefulSet''"
definition WorkloadKindCronJob :: WorkloadKind where "WorkloadKindCronJob = ''CronJob''"

lemmas workload_kind_defs =
  WorkloadKindDeployment_def WorkloadKindStatefulSet_def WorkloadKindCronJob_def

record WorkloadRef =
  ref_Cluster :: string
  ref_APIVersion :: string
  ref_Namespace :: string
  ref_Name :: string
  ref_Kind :: WorkloadKind
  ref_UID :: string

record Scope =
  sc_TargetRefs :: "WorkloadRef list"
  sc_Namespaces :: "string list"
  sc_NamespaceGroups :: "string list"
  sc_NamespaceLabels :: strmap
  sc_WorkloadNames :: "string list"
  sc_WorkloadLabels :: strmap

datatype ScopeSpecificity = ScopeClusterWide | ScopeNamespace | ScopeWorkload

primrec specificity_rank :: "ScopeSpecificity \<Rightarrow> int" where
  "specificity_rank ScopeClusterWide = 0"
| "specificity_rank ScopeNamespace = 1"
| "specificity_rank ScopeWorkload = 2"

lemma specificity_rank_inj: "specificity_rank a = specificity_rank b \<longleftrightarrow> a = b"
  by (cases a; cases b) auto

instantiation ScopeSpecificity :: linorder
begin

definition less_eq_ScopeSpecificity :: "ScopeSpecificity \<Rightarrow> ScopeSpecificity \<Rightarrow> bool" where
  "less_eq_ScopeSpecificity a b \<longleftrightarrow> specificity_rank a \<le> specificity_rank b"

definition less_ScopeSpecificity :: "ScopeSpecificity \<Rightarrow> ScopeSpecificity \<Rightarrow> bool" where
  "less_ScopeSpecificity a b \<longleftrightarrow> specificity_rank a < specificity_rank b"

instance
  by standard
    (auto simp: less_eq_ScopeSpecificity_def less_ScopeSpecificity_def specificity_rank_inj)

end

lemmas specificity_order_defs = less_eq_ScopeSpecificity_def less_ScopeSpecificity_def

section \<open>Snapshots, observations, targets\<close>

record ResourceSummary =
  res_CPUMillicores :: int
  res_MemoryMiB :: int

record Snapshot =
  snap_ReplicaCount :: "int option"
  snap_Suspended :: "bool option"
  snap_Resources :: ResourceSummary
  snap_CapturedAt :: go_time
  snap_ResourceVersion :: string

record ObservedState =
  obs_Replicas :: int
  obs_Suspended :: bool

definition PowerStateFromObserved :: "ObservedState \<Rightarrow> WorkloadKind \<Rightarrow> PowerState" where
  "PowerStateFromObserved obs kind =
     (if kind = WorkloadKindCronJob
      then (if obs_Suspended obs then PowerStateOff else PowerStateOn)
      else (if obs_Replicas obs = 0 then PowerStateOff else PowerStateOn))"

type_synonym OwnershipType = string

definition OwnershipArgoCD :: OwnershipType where "OwnershipArgoCD = ''ArgoCD''"
definition OwnershipFlux :: OwnershipType where "OwnershipFlux = ''Flux''"
definition OwnershipHelm :: OwnershipType where "OwnershipHelm = ''Helm''"
definition OwnershipHPA :: OwnershipType where "OwnershipHPA = ''HPA''"

lemmas ownership_type_defs =
  OwnershipArgoCD_def OwnershipFlux_def OwnershipHelm_def OwnershipHPA_def

record OwnershipSignal =
  own_Type :: OwnershipType
  own_OptedIn :: bool

record Target =
  tgt_Ref :: WorkloadRef
  tgt_ObservedState :: ObservedState
  tgt_Ownership :: "OwnershipSignal list"
  tgt_Annotations :: strmap
  tgt_Labels :: strmap
  tgt_NamespaceLabels :: strmap
  tgt_Snapshot :: "Snapshot option"
  tgt_LastTransition :: "go_time option"
  tgt_DivergenceSince :: "go_time option"

section \<open>Rules and decisions\<close>

record PolicySpec =
  pol_Name :: string
  pol_Namespace :: string
  pol_Scope :: Scope
  pol_Schedule :: Schedule
  pol_Priority :: Priority
  pol_Description :: string
  pol_CreatedAt :: go_time

record OverrideSpec =
  ovr_Name :: string
  ovr_Namespace :: string
  ovr_Scope :: Scope
  ovr_State :: PowerState
  ovr_Priority :: Priority
  ovr_ExpiresAt :: go_time
  ovr_Reason :: string
  ovr_Reference :: string
  ovr_CreatedAt :: go_time

text \<open>\<open>!now.Before(o.ExpiresAt)\<close>.\<close>

definition IsExpired :: "OverrideSpec \<Rightarrow> go_time \<Rightarrow> bool" where
  "IsExpired ov now \<longleftrightarrow> \<not> now < ovr_ExpiresAt ov"

type_synonym RuleKind = string

definition RuleKindPolicy :: RuleKind where "RuleKindPolicy = ''PowerPolicy''"
definition RuleKindOverride :: RuleKind where "RuleKindOverride = ''PowerOverride''"

record RuleRef =
  rule_Kind :: RuleKind
  rule_Name :: string
  rule_Namespace :: string
  rule_Priority :: Priority
  rule_Specificity :: ScopeSpecificity
  rule_Description :: string
  rule_CreatedAt :: go_time

datatype BlockType =
    BlockSystemNamespace | BlockArgoCDManaged | BlockFluxManaged | BlockHelmManaged
  | BlockHPAControlled | BlockSnapshotMissing | BlockInsufficientInfo

primrec BlockType_string :: "BlockType \<Rightarrow> string" where
  "BlockType_string BlockSystemNamespace = ''SystemNamespace''"
| "BlockType_string BlockArgoCDManaged = ''ArgoCDManaged''"
| "BlockType_string BlockFluxManaged = ''FluxManaged''"
| "BlockType_string BlockHelmManaged = ''HelmManaged''"
| "BlockType_string BlockHPAControlled = ''HPAControlled''"
| "BlockType_string BlockSnapshotMissing = ''SnapshotMissing''"
| "BlockType_string BlockInsufficientInfo = ''InsufficientInfo''"

record BlockReason =
  br_Type :: BlockType
  br_Message :: string
  br_Waivable :: bool

record Decision =
  dec_DesiredState :: PowerState
  dec_WinningRule :: "RuleRef option"
  dec_SuppressedRules :: "RuleRef list"
  dec_BlockReasons :: "BlockReason list"
  dec_Divergent :: bool
  dec_SnapshotRequired :: bool

text \<open>The composite literal \<open>Decision{}\<close>.\<close>

definition zero_Decision :: Decision where
  "zero_Decision =
     \<lparr>dec_DesiredState = '''', dec_WinningRule = None, dec_SuppressedRules = [],
      dec_BlockReasons = [], dec_Divergent = False, dec_SnapshotRequired = False\<rparr>"

definition IsBlocked :: "Decision \<Rightarrow> bool" where
  "IsBlocked d \<longleftrightarrow> length (dec_BlockReasons d) > 0"

definition IsManaged :: "Decision \<Rightarrow> bool" where
  "IsManaged d \<longleftrightarrow> dec_WinningRule d \<noteq> None"

record EvaluatedRule =
  er_Ref :: RuleRef
  er_EffectiveState :: PowerState
  er_Specificity :: ScopeSpecificity

text \<open>The composite literal \<open>EvaluatedRule{}\<close>.\<close>

definition zero_EvaluatedRule :: EvaluatedRule where
  "zero_EvaluatedRule =
     \<lparr>er_Ref = \<lparr>rule_Kind = '''', rule_Name = '''', rule_Namespace = '''', rule_Priority = 0,
                rule_Specificity = ScopeClusterWide, rule_Description = '''',
                rule_CreatedAt = zero_time\<rparr>,
      er_EffectiveState = '''', er_Specificity = ScopeClusterWide\<rparr>"

record GuardrailConfig =
  gc_SystemNamespaces :: "string list"
  gc_CustomBlocklist :: "string list"
  gc_OptInAnnotation :: string
  gc_ExemptAnnotation :: string

definition DefaultGuardrailConfig :: GuardrailConfig where
  "DefaultGuardrailConfig =
     \<lparr>gc_SystemNamespaces = [''kube-system'', ''kube-public'', ''kube-node-lease'', ''aura-system''],
      gc_CustomBlocklist = [],
      gc_OptInAnnotation = ''aura.sh/power-eligible'',
      gc_ExemptAnnotation = ''aura.sh/power-exempt''\<rparr>"

section \<open>Preview results\<close>

record BlockedTarget =
  bt_Ref :: WorkloadRef
  bt_Reasons :: "BlockReason list"

record ConflictInfo =
  ci_Target :: WorkloadRef
  ci_Winner :: RuleRef
  ci_Suppressed :: "RuleRef list"

record PreviewResult =
  pr_AffectedOn :: "WorkloadRef list"
  pr_AffectedOff :: "WorkloadRef list"
  pr_Blocked :: "BlockedTarget list"
  pr_Unsupported :: "WorkloadRef list"
  pr_Conflicts :: "ConflictInfo list"
  pr_TotalAffected :: int

section \<open>Lemmas\<close>

lemma on_neq_off [simp]: "PowerStateOn \<noteq> PowerStateOff" "PowerStateOff \<noteq> PowerStateOn"
  "PowerStateOn \<noteq> ''''" "PowerStateOff \<noteq> ''''" "'''' \<noteq> PowerStateOn" "'''' \<noteq> PowerStateOff"
  by (simp_all add: power_state_defs)

lemma Opposite_simps [simp]:
  "Opposite PowerStateOn = PowerStateOff" "Opposite PowerStateOff = PowerStateOn"
  by (simp_all add: Opposite_def)

lemma Opposite_valid [simp]: "PowerState_IsValid (Opposite s)"
  by (simp add: Opposite_def PowerState_IsValid_def)

lemma PowerStateFromObserved_valid [simp]: "PowerState_IsValid (PowerStateFromObserved obs kind)"
  by (simp add: PowerStateFromObserved_def PowerState_IsValid_def)

lemma zero_Decision_simps [simp]:
  "dec_DesiredState zero_Decision = ''''" "dec_WinningRule zero_Decision = None"
  "dec_SuppressedRules zero_Decision = []" "dec_BlockReasons zero_Decision = []"
  "\<not> dec_Divergent zero_Decision" "\<not> dec_SnapshotRequired zero_Decision"
  "\<not> IsManaged zero_Decision" "\<not> IsBlocked zero_Decision"
  by (simp_all add: zero_Decision_def IsManaged_def IsBlocked_def)

lemma ToMinutes_bounds:
  assumes "TimeOfDay_IsValid t"
  shows "0 \<le> ToMinutes t" and "ToMinutes t < 1440"
  using assms by (auto simp: TimeOfDay_IsValid_def ToMinutes_def)

end
