(* ===== verification/Guardrails.thy ===== *)
theory Guardrails
  imports DomainTypes
begin

text \<open>
  Guardrails and ownership detection (\<open>src/internal/core/domain/guardrails.go\<close>): which targets may
  not be powered down, and how external management is recognised from annotations and labels.
\<close>

section \<open>The operations\<close>

definition IsExempt :: "Target \<Rightarrow> GuardrailConfig \<Rightarrow> bool" where
  "IsExempt target config =
     (if tgt_Annotations target = [] then False
      else go_get (tgt_Annotations target) (gc_ExemptAnnotation config) = ''true'')"

definition IsOptedIn :: "Target \<Rightarrow> GuardrailConfig \<Rightarrow> bool" where
  "IsOptedIn target config =
     (if tgt_Annotations target = [] then False
      else go_get (tgt_Annotations target) (gc_OptInAnnotation config) = ''true'')"

definition IsSystemNamespace :: "string \<Rightarrow> GuardrailConfig \<Rightarrow> bool" where
  "IsSystemNamespace namespace config =
     (if list_ex (\<lambda>ns. ns = namespace) (gc_SystemNamespaces config) then True
      else list_ex (\<lambda>ns. ns = namespace) (gc_CustomBlocklist config))"

definition checkSystemNamespace :: "Target \<Rightarrow> GuardrailConfig \<Rightarrow> BlockReason option" where
  "checkSystemNamespace target config =
     (if IsSystemNamespace (ref_Namespace (tgt_Ref target)) config
      then Some \<lparr>br_Type = BlockSystemNamespace,
                 br_Message = ''System namespace ('' @ ref_Namespace (tgt_Ref target)
                              @ '') is protected. Power-down is not allowed.'',
                 br_Waivable = False\<rparr>
      else None)"

text \<open>The body of the loop of \<open>checkOwnership\<close>: the block one signal adds, if any.\<close>

definition ownershipBlock :: "GuardrailConfig \<Rightarrow> OwnershipSignal \<Rightarrow> BlockReason option" where
  "ownershipBlock config signal =
     (if own_OptedIn signal then None
      else if own_Type signal = OwnershipArgoCD then
        Some \<lparr>br_Type = BlockArgoCDManaged,
              br_Message = ''Managed by Argo CD. Add annotation '' @ gc_OptInAnnotation config
                           @ ''=\"true\" to enable power management.'',
              br_Waivable = True\<rparr>
      else if own_Type signal = OwnershipFlux then
        Some \<lparr>br_Type = BlockFluxManaged,
              br_Message = ''Managed by Flux. Add annotation '' @ gc_OptInAnnotation config
                           @ ''=\"true\" to enable power management.'',
              br_Waivable = True\<rparr>
      else if own_Type signal = OwnershipHelm then
        Some \<lparr>br_Type = BlockHelmManaged,
              br_Message = ''Managed by Helm. Add annotation '' @ gc_OptInAnnotation config
                           @ ''=\"true\" to enable power management.'',
              br_Waivable = True\<rparr>
      else if own_Type signal = OwnershipHPA then
        Some \<lparr>br_Type = BlockHPAControlled,
              br_Message = ''Controlled by HPA. Scaling to 0 would conflict with autoscaling. Add annotation ''
                           @ gc_OptInAnnotation config @ ''=\"true\" to override.'',
              br_Waivable = True\<rparr>
      else None)"

definition checkOwnership :: "Target \<Rightarrow> GuardrailConfig \<Rightarrow> BlockReason list" where
  "checkOwnership target config = List.map_filter (ownershipBlock config) (tgt_Ownership target)"

definition EvaluateGuardrails :: "Target \<Rightarrow> GuardrailConfig \<Rightarrow> BlockReason list" where
  "EvaluateGuardrails target config =
     (if IsExempt target config then []
      else
        let reasons = (case checkSystemNamespace target config of Some block \<Rightarrow> [block] | None \<Rightarrow> [])
                      @ checkOwnership target config
        in if IsOptedIn target config then filter (\<lambda>r. \<not> br_Waivable r) reasons
           else reasons)"

definition hasArgoCDSignals :: "strmap \<Rightarrow> strmap \<Rightarrow> string list \<Rightarrow> bool" where
  "hasArgoCDSignals annotations labels customLabelKeys =
     (if list_ex (\<lambda>(key, _). HasPrefix key ''argocd.argoproj.io/'') annotations then True
      else if list_ex (\<lambda>(key, _). HasPrefix key ''argocd.argoproj.io/'') labels then True
      else if go_get labels ''app.kubernetes.io/instance'' \<noteq> '''' then True
      else list_ex (\<lambda>key. key \<noteq> '''' \<and> go_get labels key \<noteq> '''') customLabelKeys)"

definition hasFluxSignals :: "strmap \<Rightarrow> strmap \<Rightarrow> bool" where
  "hasFluxSignals annotations labels =
     (if list_ex (\<lambda>(key, _). HasPrefix key ''kustomize.toolkit.fluxcd.io/'' \<or> HasPrefix key ''fluxcd.io/'') labels
      then True
      else list_ex (\<lambda>(key, _). HasPrefix key ''kustomize.toolkit.fluxcd.io/'' \<or> HasPrefix key ''fluxcd.io/'') annotations)"

definition hasHelmSignals :: "strmap \<Rightarrow> bool" where
  "hasHelmSignals labels \<longleftrightarrow> go_get labels ''app.kubernetes.io/managed-by'' = ''Helm''"

definition DetectOwnershipWithArgoTracking ::
  "strmap \<Rightarrow> strmap \<Rightarrow> string \<Rightarrow> string list \<Rightarrow> strmap list \<Rightarrow> OwnershipSignal list" where
  "DetectOwnershipWithArgoTracking annotations labels optInAnnotation argoTrackingLabelKeys nsAnnotations =
     (let optedIn0 = (go_get annotations optInAnnotation = ''true'');
          optedIn = (case nsAnnotations of
                       [] \<Rightarrow> optedIn0
                     | ns0 # _ \<Rightarrow> if \<not> optedIn0 then go_get ns0 optInAnnotation = ''true'' else optedIn0)
      in (if hasArgoCDSignals annotations labels argoTrackingLabelKeys
          then [\<lparr>own_Type = OwnershipArgoCD, own_OptedIn = optedIn\<rparr>] else [])
         @ (if hasFluxSignals annotations labels
            then [\<lparr>own_Type = OwnershipFlux, own_OptedIn = optedIn\<rparr>] else [])
         @ (if hasHelmSignals labels
            then [\<lparr>own_Type = OwnershipHelm, own_OptedIn = optedIn\<rparr>] else []))"

definition DetectOwnership :: "strmap \<Rightarrow> strmap \<Rightarrow> string \<Rightarrow> strmap list \<Rightarrow> OwnershipSignal list" where
  "DetectOwnership annotations labels optInAnnotation nsAnnotations =
     DetectOwnershipWithArgoTracking annotations labels optInAnnotation [] nsAnnotations"

section \<open>Lemmas\<close>

lemma IsExempt_iff: "IsExempt t c \<longleftrightarrow> go_get (tgt_Annotations t) (gc_ExemptAnnotation c) = ''true''"
  by (auto simp: IsExempt_def)

lemma IsOptedIn_iff: "IsOptedIn t c \<longleftrightarrow> go_get (tgt_Annotations t) (gc_OptInAnnotation c) = ''true''"
  by (auto simp: IsOptedIn_def)

lemma IsSystemNamespace_iff:
  "IsSystemNamespace ns c \<longleftrightarrow> ns \<in> set (gc_SystemNamespaces c) \<union> set (gc_CustomBlocklist c)"
  by (auto simp: IsSystemNamespace_def list_ex_iff)

definition known_ownership :: "OwnershipType set" where
  "known_ownership = {OwnershipArgoCD, OwnershipFlux, OwnershipHelm, OwnershipHPA}"

lemma ownershipBlock_None_iff:
  "ownershipBlock c s = None \<longleftrightarrow> own_OptedIn s \<or> own_Type s \<notin> known_ownership"
  by (auto simp: ownershipBlock_def known_ownership_def)

lemma ownershipBlock_waivable: "ownershipBlock c s = Some b \<Longrightarrow> br_Waivable b"
  by (auto simp: ownershipBlock_def split: if_splits)

lemma ownershipBlock_not_system:
  "ownershipBlock c s = Some b \<Longrightarrow> br_Type b \<noteq> BlockSystemNamespace"
  by (auto simp: ownershipBlock_def split: if_splits)

lemma set_checkOwnership:
  "set (checkOwnership t c) = {b. \<exists>s\<in>set (tgt_Ownership t). ownershipBlock c s = Some b}"
  by (auto simp: checkOwnership_def List.map_filter_def image_iff) force

lemma checkOwnership_Nil_iff:
  "checkOwnership t c = [] \<longleftrightarrow>
     (\<forall>s\<in>set (tgt_Ownership t). own_OptedIn s \<or> own_Type s \<notin> known_ownership)"
proof -
  have "checkOwnership t c = [] \<longleftrightarrow> (\<forall>s\<in>set (tgt_Ownership t). ownershipBlock c s = None)"
    by (auto simp: checkOwnership_def List.map_filter_def filter_empty_conv)
  then show ?thesis by (simp add: ownershipBlock_None_iff)
qed

lemma checkOwnership_all_waivable: "filter (\<lambda>r. \<not> br_Waivable r) (checkOwnership t c) = []"
  using ownershipBlock_waivable by (auto simp: filter_empty_conv set_checkOwnership)

lemma EvaluateGuardrails_members:
  assumes "\<not> IsExempt t c"
  shows "b \<in> set (EvaluateGuardrails t c) \<longleftrightarrow>
     (IsSystemNamespace (ref_Namespace (tgt_Ref t)) c \<and> checkSystemNamespace t c = Some b) \<or>
     (\<not> IsOptedIn t c \<and> (\<exists>s\<in>set (tgt_Ownership t). ownershipBlock c s = Some b))"
  using assms
  by (simp add: EvaluateGuardrails_def checkSystemNamespace_def set_checkOwnership
      checkOwnership_all_waivable Let_def) blast

lemma EvaluateGuardrails_Nil_iff:
  "EvaluateGuardrails t c = [] \<longleftrightarrow>
     IsExempt t c \<or>
     (\<not> IsSystemNamespace (ref_Namespace (tgt_Ref t)) c \<and>
      (IsOptedIn t c \<or>
       (\<forall>s\<in>set (tgt_Ownership t). own_OptedIn s \<or> own_Type s \<notin> known_ownership)))"
proof -
  have "filter (\<lambda>r. \<not> br_Waivable r) (checkOwnership t c) = []"
    using ownershipBlock_waivable by (auto simp: filter_empty_conv set_checkOwnership)
  then show ?thesis
    by (auto simp: EvaluateGuardrails_def checkSystemNamespace_def checkOwnership_Nil_iff Let_def)
qed

lemma DetectOwnership_types:
  "s \<in> set (DetectOwnershipWithArgoTracking an lb ann keys nss) \<Longrightarrow> own_Type s \<in> known_ownership"
  by (auto simp: DetectOwnershipWithArgoTracking_def known_ownership_def Let_def split: if_splits)

lemma DetectOwnership_optedIn:
  "s \<in> set (DetectOwnershipWithArgoTracking an lb ann keys nss) \<Longrightarrow>
     own_OptedIn s \<longleftrightarrow> go_get an ann = ''true'' \<or> (\<exists>n ns. nss = n # ns \<and> go_get n ann = ''true'')"
  by (auto simp: DetectOwnershipWithArgoTracking_def Let_def split: if_splits list.splits)

section \<open>Properties\<close>

text \<open>
  The guardrails let a non-exempt target through exactly when its namespace is neither a system
  namespace nor on the blocklist, and the target is opted in or every recognised ownership signal
  on it is.  In particular no annotation unblocks a protected namespace.
\<close>

theorem EvaluateGuardrails_admits_iff:
  "\<not> IsExempt t c \<Longrightarrow>
   EvaluateGuardrails t c = [] \<longleftrightarrow>
     ref_Namespace (tgt_Ref t) \<notin> set (gc_SystemNamespaces c) \<union> set (gc_CustomBlocklist c) \<and>
     (go_get (tgt_Annotations t) (gc_OptInAnnotation c) = ''true'' \<or>
      (\<forall>s\<in>set (tgt_Ownership t). own_OptedIn s \<or> own_Type s \<notin> known_ownership))"
  by (auto simp: EvaluateGuardrails_Nil_iff IsSystemNamespace_iff IsOptedIn_iff)

definition sample_ref :: WorkloadRef where
  "sample_ref = \<lparr>ref_Cluster = '''', ref_APIVersion = ''apps/v1'', ref_Namespace = ''dev'',
     ref_Name = ''web'', ref_Kind = WorkloadKindDeployment, ref_UID = ''u1''\<rparr>"

definition sample_target :: Target where
  "sample_target = \<lparr>tgt_Ref = sample_ref,
     tgt_ObservedState = \<lparr>obs_Replicas = 3, obs_Suspended = False\<rparr>,
     tgt_Ownership = [], tgt_Annotations = [], tgt_Labels = [], tgt_NamespaceLabels = [],
     tgt_Snapshot = None, tgt_LastTransition = None, tgt_DivergenceSince = None\<rparr>"

lemma sample_target_simps [simp]:
  "tgt_Ref sample_target = sample_ref" "tgt_Ownership sample_target = []"
  "tgt_Annotations sample_target = []" "ref_Namespace sample_ref = ''dev''"
  "ref_Name sample_ref = ''web''" "ref_Kind sample_ref = WorkloadKindDeployment"
  "ref_UID sample_ref = ''u1''" "ref_APIVersion sample_ref = ''apps/v1''"
  "tgt_Snapshot sample_target = None"
  "tgt_ObservedState sample_target = \<lparr>obs_Replicas = 3, obs_Suspended = False\<rparr>"
  by (simp_all add: sample_target_def sample_ref_def)

lemma EvaluateGuardrails_admits_iff_witness:
  "\<not> IsExempt sample_target DefaultGuardrailConfig \<and>
   EvaluateGuardrails sample_target DefaultGuardrailConfig = []"
proof -
  have h: "\<not> IsExempt sample_target DefaultGuardrailConfig" by (simp add: IsExempt_def)
  show ?thesis
    using h EvaluateGuardrails_admits_iff[OF h] by (simp add: DefaultGuardrailConfig_def)
qed

text \<open>
  A workload on which discovery detects Argo CD, Flux or Helm, and whose workload and namespace
  annotations do not opt in, is blocked by the guardrails: every detected signal contributes a
  waivable block reason.
\<close>

theorem detected_ownership_blocks:
  assumes "tgt_Ownership t =
      DetectOwnershipWithArgoTracking an lb (gc_OptInAnnotation c) keys [nsan]"
    and "hasArgoCDSignals an lb keys \<or> hasFluxSignals an lb \<or> hasHelmSignals lb"
    and "go_get an (gc_OptInAnnotation c) \<noteq> ''true''" and "go_get nsan (gc_OptInAnnotation c) \<noteq> ''true''"
    and "\<not> IsExempt t c" and "\<not> IsOptedIn t c"
  shows "\<exists>b\<in>set (EvaluateGuardrails t c). br_Waivable b"
proof -
  obtain s where s: "s \<in> set (tgt_Ownership t)"
    using assms(1,2) by (fastforce simp: DetectOwnershipWithArgoTracking_def Let_def)
  have "\<not> own_OptedIn s" and "own_Type s \<in> known_ownership"
    using s assms(1,3,4) by (auto simp: DetectOwnership_optedIn intro: DetectOwnership_types)
  then obtain b where "ownershipBlock c s = Some b"
    by (metis ownershipBlock_None_iff option.exhaust)
  then show ?thesis
    using s assms(5,6) ownershipBlock_waivable EvaluateGuardrails_members by blast
qed

definition helm_labels :: strmap where
  "helm_labels = [(''app.kubernetes.io/managed-by'', ''Helm'')]"

definition helm_target :: Target where
  "helm_target = sample_target\<lparr>tgt_Ownership :=
     DetectOwnershipWithArgoTracking [] helm_labels ''aura.sh/power-eligible'' [] [[]]\<rparr>"

lemma detected_ownership_blocks_witness:
  "\<exists>b\<in>set (EvaluateGuardrails helm_target DefaultGuardrailConfig). br_Waivable b"
proof (rule detected_ownership_blocks[where an = "[]" and lb = helm_labels and keys = "[]" and nsan = "[]"])
  show "tgt_Ownership helm_target =
      DetectOwnershipWithArgoTracking [] helm_labels (gc_OptInAnnotation DefaultGuardrailConfig) [] [[]]"
    by (simp add: helm_target_def DefaultGuardrailConfig_def)
  show "hasArgoCDSignals [] helm_labels [] \<or> hasFluxSignals [] helm_labels \<or> hasHelmSignals helm_labels"
    by (simp add: hasHelmSignals_def helm_labels_def)
  show "\<not> IsExempt helm_target DefaultGuardrailConfig"
    by (simp add: IsExempt_def helm_target_def)
  show "\<not> IsOptedIn helm_target DefaultGuardrailConfig"
    by (simp add: IsOptedIn_def helm_target_def)
qed simp_all

end
