(* ===== verification/Savings.thy ===== *)
theory Savings
  imports Complex_Main Guardrails
begin

text \<open>
  The savings estimates (\<open>src/internal/core/domain/savings.go\<close> and the savings types of
  \<open>types.go\<close>).  A \<open>float64\<close> is the rational number it denotes, and every floating-point operation
  rounds its exact result with a function \<open>rnd\<close>, the rounding mode of the machine; the properties
  need of it only that it is monotone and keeps 0.  Infinities and NaN are not represented: they
  need products beyond \<open>10 ^ 308\<close>.
\<close>

section \<open>Floating point\<close>

type_synonym float64 = rat
type_synonym rounding = "rat \<Rightarrow> rat"

definition float_of_int :: "rounding \<Rightarrow> int \<Rightarrow> float64" where
  "float_of_int rnd i = rnd (of_int i)"

definition fadd :: "rounding \<Rightarrow> float64 \<Rightarrow> float64 \<Rightarrow> float64" where
  "fadd rnd a b = rnd (a + b)"

definition fmul :: "rounding \<Rightarrow> float64 \<Rightarrow> float64 \<Rightarrow> float64" where
  "fmul rnd a b = rnd (a * b)"

definition fdiv :: "rounding \<Rightarrow> float64 \<Rightarrow> float64 \<Rightarrow> float64" where
  "fdiv rnd a b = rnd (a / b)"

text \<open>\<open>time.Duration.Hours\<close>: whole hours and the rest in nanoseconds, converted apart.\<close>

definition Hours :: "rounding \<Rightarrow> go_duration \<Rightarrow> float64" where
  "Hours rnd d =
     (let h = go_div d Hour; nsec = go_mod d Hour
      in fadd rnd (float_of_int rnd h) (fdiv rnd (float_of_int rnd nsec) 3600000000000))"

lemmas float_defs = float_of_int_def fadd_def fmul_def fdiv_def

definition rounding_ok :: "rounding \<Rightarrow> bool" where
  "rounding_ok rnd \<longleftrightarrow> mono rnd \<and> rnd 0 = 0"

section \<open>Types\<close>

record CostConfig =
  cost_CPUPerHour :: float64
  cost_MemoryPerGiB :: float64

definition DefaultCostConfig :: "rounding \<Rightarrow> CostConfig" where
  "DefaultCostConfig rnd = \<lparr>cost_CPUPerHour = rnd (4 / 100), cost_MemoryPerGiB = rnd (8 / 1000)\<rparr>"

record SavingsEstimate =
  se_Target :: WorkloadRef
  se_CPUHoursSaved :: float64
  se_MemoryGiBHours :: float64
  se_EstimatedCost :: float64
  se_OffDuration :: go_duration
  se_DivergenceTime :: go_duration

definition zero_ref :: WorkloadRef where
  "zero_ref = \<lparr>ref_Cluster = '''', ref_APIVersion = '''', ref_Namespace = '''', ref_Name = '''',
     ref_Kind = '''', ref_UID = ''''\<rparr>"

definition zero_SavingsEstimate :: SavingsEstimate where
  "zero_SavingsEstimate = \<lparr>se_Target = zero_ref, se_CPUHoursSaved = 0, se_MemoryGiBHours = 0,
     se_EstimatedCost = 0, se_OffDuration = 0, se_DivergenceTime = 0\<rparr>"

record SavingsSummary =
  ss_TotalCPUHours :: float64
  ss_TotalMemoryGiB :: float64
  ss_TotalCost :: float64
  ss_ByNamespace :: "string \<rightharpoonup> SavingsEstimate"
  ss_ByPolicy :: "string \<rightharpoonup> SavingsEstimate"

section \<open>The operations\<close>

definition EstimateSavings ::
  "rounding \<Rightarrow> Target \<Rightarrow> go_duration \<Rightarrow> go_duration \<Rightarrow> CostConfig \<Rightarrow> SavingsEstimate" where
  "EstimateSavings rnd target offDuration divergenceTime costConfig =
     (let effectiveOff = wrap64 (offDuration - divergenceTime);
          effectiveOff = (if effectiveOff < 0 then 0 else effectiveOff);
          (cpuHours, memGiBHours) =
            (case tgt_Snapshot target of
               None \<Rightarrow> (0, 0)
             | Some s \<Rightarrow>
                 (fmul rnd (fdiv rnd (float_of_int rnd (res_CPUMillicores (snap_Resources s))) 1000)
                           (Hours rnd effectiveOff),
                  fmul rnd (fdiv rnd (float_of_int rnd (res_MemoryMiB (snap_Resources s))) 1024)
                           (Hours rnd effectiveOff)));
          estimatedCost = fadd rnd (fmul rnd cpuHours (cost_CPUPerHour costConfig))
                                   (fmul rnd memGiBHours (cost_MemoryPerGiB costConfig))
      in \<lparr>se_Target = tgt_Ref target, se_CPUHoursSaved = cpuHours, se_MemoryGiBHours = memGiBHours,
          se_EstimatedCost = estimatedCost, se_OffDuration = offDuration,
          se_DivergenceTime = divergenceTime\<rparr>)"

definition EstimatePotentialSavings ::
  "rounding \<Rightarrow> WorkloadRef \<Rightarrow> ResourceSummary \<Rightarrow> go_duration \<Rightarrow> CostConfig \<Rightarrow> SavingsEstimate" where
  "EstimatePotentialSavings rnd ref resources offHoursPerMonth costConfig =
     (let cpuHours = fmul rnd (fdiv rnd (float_of_int rnd (res_CPUMillicores resources)) 1000)
                              (Hours rnd offHoursPerMonth);
          memGiBHours = fmul rnd (fdiv rnd (float_of_int rnd (res_MemoryMiB resources)) 1024)
                                 (Hours rnd offHoursPerMonth);
          estimatedCost = fadd rnd (fmul rnd cpuHours (cost_CPUPerHour costConfig))
                                   (fmul rnd memGiBHours (cost_MemoryPerGiB costConfig))
      in \<lparr>se_Target = ref, se_CPUHoursSaved = cpuHours, se_MemoryGiBHours = memGiBHours,
          se_EstimatedCost = estimatedCost, se_OffDuration = offHoursPerMonth,
          se_DivergenceTime = 0\<rparr>)"

definition addSavings :: "rounding \<Rightarrow> SavingsEstimate \<Rightarrow> SavingsSummary \<Rightarrow> SavingsSummary" where
  "addSavings rnd e summary =
     (let ns = ref_Namespace (se_Target e);
          existing = (case ss_ByNamespace summary ns of None \<Rightarrow> zero_SavingsEstimate | Some x \<Rightarrow> x);
          existing = existing\<lparr>
            se_CPUHoursSaved := fadd rnd (se_CPUHoursSaved existing) (se_CPUHoursSaved e),
            se_MemoryGiBHours := fadd rnd (se_MemoryGiBHours existing) (se_MemoryGiBHours e),
            se_EstimatedCost := fadd rnd (se_EstimatedCost existing) (se_EstimatedCost e)\<rparr>
      in summary\<lparr>
           ss_TotalCPUHours := fadd rnd (ss_TotalCPUHours summary) (se_CPUHoursSaved e),
           ss_TotalMemoryGiB := fadd rnd (ss_TotalMemoryGiB summary) (se_MemoryGiBHours e),
           ss_TotalCost := fadd rnd (ss_TotalCost summary) (se_EstimatedCost e),
           ss_ByNamespace := (ss_ByNamespace summary)(ns \<mapsto> existing)\<rparr>)"

definition AggregateSavings :: "rounding \<Rightarrow> SavingsEstimate list \<Rightarrow> SavingsSummary" where
  "AggregateSavings rnd estimates =
     fold (addSavings rnd) estimates
       \<lparr>ss_TotalCPUHours = 0, ss_TotalMemoryGiB = 0, ss_TotalCost = 0,
        ss_ByNamespace = (\<lambda>_. None), ss_ByPolicy = (\<lambda>_. None)\<rparr>"

section \<open>Lemmas\<close>

lemma rnd_mono: "rounding_ok rnd \<Longrightarrow> a \<le> b \<Longrightarrow> rnd a \<le> rnd b"
  by (auto simp: rounding_ok_def dest: monoD)

lemma rnd_nonneg: "rounding_ok rnd \<Longrightarrow> 0 \<le> a \<Longrightarrow> 0 \<le> rnd a"
  using rnd_mono[of rnd 0 a] by (simp add: rounding_ok_def)

lemma rnd_zero: "rounding_ok rnd \<Longrightarrow> rnd 0 = 0"
  by (simp add: rounding_ok_def)

lemma go_div_nonneg: "0 \<le> d \<Longrightarrow> 0 \<le> go_div d Hour" "0 \<le> d \<Longrightarrow> 0 \<le> go_mod d Hour"
  by (simp_all add: go_div_def go_mod_def time_defs minus_mult_div_eq_mod)

lemma float_nonneg:
  assumes "rounding_ok rnd"
  shows "0 \<le> i \<Longrightarrow> 0 \<le> float_of_int rnd i" and "0 \<le> a \<Longrightarrow> 0 \<le> b \<Longrightarrow> 0 \<le> fadd rnd a b"
    and "0 \<le> a \<Longrightarrow> 0 \<le> b \<Longrightarrow> 0 \<le> fmul rnd a b" and "0 \<le> a \<Longrightarrow> 0 \<le> b \<Longrightarrow> 0 \<le> fdiv rnd a b"
  using rnd_nonneg[OF assms] by (simp_all add: float_defs)

lemma Hours_nonneg: "rounding_ok rnd \<Longrightarrow> 0 \<le> d \<Longrightarrow> 0 \<le> Hours rnd d"
  unfolding Hours_def Let_def by (intro float_nonneg) (simp_all add: go_div_nonneg)

lemma Hours_zero: "rounding_ok rnd \<Longrightarrow> Hours rnd 0 = 0"
  by (simp add: Hours_def float_defs go_div_def go_mod_def rnd_zero)

lemma scaled_nonneg:
  assumes "rounding_ok rnd" and "0 \<le> r" and "0 \<le> d" and "0 < k"
  shows "0 \<le> fmul rnd (fdiv rnd (float_of_int rnd r) k) (Hours rnd d)"
  using assms by (intro float_nonneg Hours_nonneg) auto

lemma cost_nonneg:
  assumes "rounding_ok rnd" and "0 \<le> a" "0 \<le> b" "0 \<le> p" "0 \<le> q"
  shows "0 \<le> fadd rnd (fmul rnd a p) (fmul rnd b q)"
  using assms by (intro float_nonneg)

lemma addSavings_simps:
  "ss_TotalCost (addSavings rnd e s) = fadd rnd (ss_TotalCost s) (se_EstimatedCost e)"
  "(case ss_ByNamespace (addSavings rnd e s) ns of None \<Rightarrow> 0 | Some x \<Rightarrow> se_EstimatedCost x) =
     (let old = (case ss_ByNamespace s ns of None \<Rightarrow> 0 | Some x \<Rightarrow> se_EstimatedCost x)
      in if ref_Namespace (se_Target e) = ns then fadd rnd old (se_EstimatedCost e) else old)"
  "ss_ByNamespace (addSavings rnd e s) ns = None \<longleftrightarrow>
     ss_ByNamespace s ns = None \<and> ns \<noteq> ref_Namespace (se_Target e)"
  by (auto simp: addSavings_def Let_def zero_SavingsEstimate_def split: option.split)

lemma fold_addSavings:
  "ss_TotalCost (fold (addSavings rnd) es s) = fold (\<lambda>e a. fadd rnd a (se_EstimatedCost e)) es (ss_TotalCost s)"
  "(case ss_ByNamespace (fold (addSavings rnd) es s) ns of None \<Rightarrow> 0 | Some x \<Rightarrow> se_EstimatedCost x) =
     fold (\<lambda>e a. fadd rnd a (se_EstimatedCost e)) (filter (\<lambda>e. ref_Namespace (se_Target e) = ns) es)
       (case ss_ByNamespace s ns of None \<Rightarrow> 0 | Some x \<Rightarrow> se_EstimatedCost x)"
  "ss_ByNamespace (fold (addSavings rnd) es s) ns = None \<longleftrightarrow>
     ss_ByNamespace s ns = None \<and> ns \<notin> (\<lambda>e. ref_Namespace (se_Target e)) ` set es"
proof (induction es arbitrary: s)
  case (Cons e es)
  { case 1 show ?case by (simp add: Cons.IH addSavings_simps) }
  { case 2 show ?case by (simp add: Cons.IH addSavings_simps Let_def) }
  { case 3 show ?case by (auto simp: Cons.IH addSavings_simps) }
qed simp_all

section \<open>Properties\<close>

text \<open>
  Savings are never negative and never counted while the workload diverged: for non-negative
  resource requests and prices the estimate is non-negative in every component, and when the
  divergence time reaches the off time it is zero.
\<close>

theorem EstimateSavings_sound:
  assumes "rounding_ok rnd" and "tgt_Snapshot t = Some s"
    and "0 \<le> res_CPUMillicores (snap_Resources s)" and "0 \<le> res_MemoryMiB (snap_Resources s)"
    and "0 \<le> cost_CPUPerHour cc" and "0 \<le> cost_MemoryPerGiB cc"
    and "0 \<le> off" "off < 2 ^ 63" and "0 \<le> dvg" "dvg < 2 ^ 63"
  shows "0 \<le> se_CPUHoursSaved (EstimateSavings rnd t off dvg cc) \<and>
         0 \<le> se_MemoryGiBHours (EstimateSavings rnd t off dvg cc) \<and>
         0 \<le> se_EstimatedCost (EstimateSavings rnd t off dvg cc) \<and>
         (off \<le> dvg \<longrightarrow> se_EstimatedCost (EstimateSavings rnd t off dvg cc) = 0)"
proof -
  have w: "wrap64 (off - dvg) = off - dvg" using assms by (intro wrap64_id) auto
  have "0 \<le> se_CPUHoursSaved (EstimateSavings rnd t off dvg cc)"
    "0 \<le> se_MemoryGiBHours (EstimateSavings rnd t off dvg cc)"
    "0 \<le> se_EstimatedCost (EstimateSavings rnd t off dvg cc)"
    using assms by (auto simp: EstimateSavings_def Let_def w intro!: cost_nonneg scaled_nonneg)
  moreover have "se_EstimatedCost (EstimateSavings rnd t off dvg cc) = 0" if "off \<le> dvg"
  proof -
    have "Hours rnd (if off - dvg < 0 then 0 else off - dvg) = 0"
      using that assms(1) by (auto simp: Hours_zero)
    then show ?thesis
      using assms(1,2) by (simp add: EstimateSavings_def Let_def w float_defs rnd_zero)
  qed
  ultimately show ?thesis by blast
qed

definition saver :: Target where
  "saver = sample_target\<lparr>tgt_Snapshot := Some \<lparr>snap_ReplicaCount = Some 2, snap_Suspended = None,
     snap_Resources = \<lparr>res_CPUMillicores = 500, res_MemoryMiB = 1024\<rparr>, snap_CapturedAt = 0,
     snap_ResourceVersion = ''7''\<rparr>\<rparr>"

theorem EstimateSavings_sound_witness:
  "0 \<le> se_EstimatedCost (EstimateSavings id saver (3 * Hour) Hour (DefaultCostConfig id)) \<and>
   se_EstimatedCost (EstimateSavings id saver (3 * Hour) Hour (DefaultCostConfig id)) = 56 / 1000"
proof -
  have "rounding_ok id" by (simp add: rounding_ok_def mono_def)
  moreover have "se_EstimatedCost (EstimateSavings id saver (3 * Hour) Hour (DefaultCostConfig id)) = 56 / 1000"
    by (simp add: EstimateSavings_def saver_def DefaultCostConfig_def wrap64_def Hours_def float_defs
        go_div_def go_mod_def time_defs)
  ultimately show ?thesis
    using EstimateSavings_sound[of id saver _ "DefaultCostConfig id" "3 * Hour" Hour]
    by (simp add: saver_def DefaultCostConfig_def time_defs)
qed

text \<open>
  Aggregation is exhaustive and per namespace: the total is the running sum over all
  estimates, a namespace has an entry exactly when an estimate names it, and its entry is the
  running sum over the estimates of that namespace.
\<close>

theorem AggregateSavings_by_namespace:
  "ss_TotalCost (AggregateSavings rnd es) = fold (\<lambda>e a. fadd rnd a (se_EstimatedCost e)) es 0 \<and>
   (ss_ByNamespace (AggregateSavings rnd es) ns \<noteq> None \<longleftrightarrow>
      ns \<in> (\<lambda>e. ref_Namespace (se_Target e)) ` set es) \<and>
   (case ss_ByNamespace (AggregateSavings rnd es) ns of None \<Rightarrow> 0 | Some x \<Rightarrow> se_EstimatedCost x) =
     fold (\<lambda>e a. fadd rnd a (se_EstimatedCost e)) (filter (\<lambda>e. ref_Namespace (se_Target e) = ns) es) 0"
  by (simp add: AggregateSavings_def fold_addSavings)

end
