(* ===== verification/ApiTypes.thy ===== *)
theory ApiTypes
  imports Savings
begin

text \<open>
  The objects the controllers read and write: the custom resources of
  \<open>src/api/v1alpha1\<close> (one record per Go struct, with its fields in order), the fields of the
  Kubernetes built-in kinds the program uses (\<open>Deployment\<close>, \<open>StatefulSet\<close>, \<open>CronJob\<close>, \<open>Namespace\<close>,
  \<open>HorizontalPodAutoscaler\<close>), and \<open>ports.AuditEvent\<close>.  A pointer to a value is an option, an
  \<open>int32\<close> an \<open>int\<close> (the conversions to it wrap), and \<open>TypeMeta\<close> and \<open>ListMeta\<close>, which the program never reads,
  are left out.
\<close>

section \<open>Metadata\<close>

record ObjectMeta =
  om_Name :: string
  om_GenerateName :: string
  om_Namespace :: string
  om_UID :: string
  om_ResourceVersion :: string
  om_Labels :: strmap
  om_Annotations :: strmap
  om_CreationTimestamp :: go_time
  om_DeletionTimestamp :: "go_time option"

record Condition =
  cond_Type :: string
  cond_Status :: string
  cond_LastTransitionTime :: go_time
  cond_Reason :: string
  cond_Message :: string

record NamespacedName =
  nn_Namespace :: string
  nn_Name :: string

section \<open>Policies, overrides, schedules, groups\<close>

record TargetReference =
  tref_Cluster :: string
  tref_APIVersion :: string
  tref_Namespace :: string
  tref_Name :: string
  tref_Kind :: string
  tref_UID :: string

record PolicyScope =
  scope_TargetRefs :: "TargetReference list"
  scope_Namespaces :: "string list"
  scope_NamespaceGroups :: "string list"
  scope_NamespaceLabels :: strmap
  scope_WorkloadNames :: "string list"
  scope_WorkloadLabels :: strmap

record TimeWindowSpec =
  tws_Start :: string
  tws_End :: string
  tws_Days :: "int list"
  tws_Timezone :: string

record PolicySchedule =
  psch_Windows :: "TimeWindowSpec list"
  psch_DesiredState :: string

record PowerPolicySpec =
  pps_Scope :: PolicyScope
  pps_Schedule :: PolicySchedule
  pps_Priority :: int
  pps_Description :: string

record PowerPolicyStatus =
  ppst_Conditions :: "Condition list"
  ppst_AffectedTargets :: int
  ppst_ActiveWindow :: bool
  ppst_NextTransition :: "go_time option"

record PowerPolicy =
  pp_Meta :: ObjectMeta
  pp_Spec :: PowerPolicySpec
  pp_Status :: PowerPolicyStatus

record PowerOverrideSpec =
  pos_Scope :: PolicyScope
  pos_State :: string
  pos_Priority :: int
  pos_ExpiresAt :: go_time
  pos_Reason :: string
  pos_Reference :: string

record PowerOverrideStatus =
  post_Conditions :: "Condition list"
  post_Phase :: string
  post_AffectedTargets :: int
  post_ExpiresIn :: string

record PowerOverride =
  po_Meta :: ObjectMeta
  po_Spec :: PowerOverrideSpec
  po_Status :: PowerOverrideStatus

record PowerNamespaceGroup =
  png_Meta :: ObjectMeta
  png_Namespaces :: "string list"

record PowerScheduleSpec =
  pss_Windows :: "TimeWindowSpec list"
  pss_DesiredState :: string
  pss_Description :: string

record PowerSchedule =
  ps_Meta :: ObjectMeta
  ps_Spec :: PowerScheduleSpec

section \<open>Targets\<close>

record PowerActionStatus =
  act_DesiredState :: string
  act_DecisionKey :: string
  act_Phase :: string
  act_AttemptedAt :: "go_time option"
  act_CompletedAt :: "go_time option"
  act_Message :: string
  act_RetryToken :: string
  act_AuditEventID :: string
  act_AuditPhase :: string
  act_AuditAction :: string
  act_AuditRuleName :: string
  act_NotificationSuppressed :: "bool option"
  act_NotificationSuppressionSource :: string
  act_NotificationSuppressionNamespaceUID :: string

record ObservedStateSpec =
  oss_Replicas :: int
  oss_Suspended :: bool
  oss_ActiveJobs :: int
  oss_PowerState :: string

record RuleReference =
  rr_Kind :: string
  rr_Name :: string
  rr_Namespace :: string
  rr_Priority :: int
  rr_Description :: string

record BlockReasonSpec =
  brs_Type :: string
  brs_Message :: string
  brs_Waivable :: bool

record SnapshotSpec =
  sn_Available :: bool
  sn_ReplicaCount :: "int option"
  sn_Suspended :: "bool option"
  sn_Resources :: ResourceSummary
  sn_CapturedAt :: "go_time option"
  sn_ResourceVersion :: string

record OwnershipSpec =
  os_Type :: string
  os_OptedIn :: bool

record SavingsSpec =
  svs_CPUHoursSaved :: float64
  svs_MemoryGiBHours :: float64
  svs_EstimatedCost :: float64

record PowerTargetStatus =
  ts_WorkloadLabels :: strmap
  ts_NamespaceLabels :: strmap
  ts_ObservedState :: ObservedStateSpec
  ts_DesiredState :: string
  ts_Managed :: bool
  ts_Divergent :: bool
  ts_WinningRule :: "RuleReference option"
  ts_SuppressedRules :: "RuleReference list"
  ts_Blocked :: bool
  ts_BlockReasons :: "BlockReasonSpec list"
  ts_Snapshot :: "SnapshotSpec option"
  ts_Ownership :: "OwnershipSpec list"
  ts_Savings :: "SavingsSpec option"
  ts_LastTransition :: "go_time option"
  ts_LastReconciliation :: "go_time option"
  ts_ConsecutiveFailures :: int
  ts_Action :: "PowerActionStatus option"
  ts_Conditions :: "Condition list"

record PowerTarget =
  pt_Meta :: ObjectMeta
  pt_TargetRef :: TargetReference
  pt_Status :: PowerTargetStatus

section \<open>Built-in kinds\<close>

text \<open>Resource quantities: milli-CPUs and bytes, as \<open>MilliValue()\<close> and \<open>Value()\<close> report them.\<close>

record Container =
  ctr_RequestCPU :: "int option"
  ctr_LimitCPU :: "int option"
  ctr_RequestMemory :: "int option"
  ctr_LimitMemory :: "int option"

record Scalable =
  wl_Meta :: ObjectMeta
  wl_Replicas :: "int option"
  wl_Containers :: "Container list"

type_synonym Deployment = Scalable
type_synonym StatefulSet = Scalable

record CronJob =
  cj_Meta :: ObjectMeta
  cj_Suspend :: "bool option"
  cj_Containers :: "Container list"
  cj_Active :: nat

record HPA =
  hpa_Namespace :: string
  hpa_TargetAPIVersion :: string
  hpa_TargetKind :: string
  hpa_TargetName :: string

section \<open>Audit events\<close>

definition AuditWorkloadPoweredDown :: string where "AuditWorkloadPoweredDown = ''workload.powered_down''"
definition AuditWorkloadRestored :: string where "AuditWorkloadRestored = ''workload.restored''"
definition AuditExecutionError :: string where "AuditExecutionError = ''execution.error''"

definition NotificationPolicyLabel :: string where
  "NotificationPolicyLabel = ''power.aura.sh/notification-policy''"
definition NotificationPolicyDisabled :: string where "NotificationPolicyDisabled = ''disabled''"

record AuditEvent =
  ae_ID :: string
  ae_Timestamp :: go_time
  ae_Action :: string
  ae_Actor :: string
  ae_Target :: WorkloadRef
  ae_Result :: string
  ae_Reason :: string
  ae_RuleName :: string
  ae_SuppressNotification :: bool
  ae_NotificationSuppressionSource :: string
  ae_NotificationSuppressionNamespaceUID :: string

record AuditResourceReference =
  arr_Cluster :: string
  arr_APIVersion :: string
  arr_Namespace :: string
  arr_Name :: string
  arr_Kind :: string
  arr_UID :: string

record PowerAuditEventSpec =
  aes_Timestamp :: go_time
  aes_Action :: string
  aes_Actor :: string
  aes_Target :: AuditResourceReference
  aes_Result :: string
  aes_Reason :: string
  aes_RuleName :: string
  aes_NotificationSuppressed :: bool
  aes_NotificationSuppressionSource :: string
  aes_NotificationSuppressionNamespaceUID :: string

record PowerAuditEvent =
  pae_Meta :: ObjectMeta
  pae_Spec :: PowerAuditEventSpec

text \<open>One page of a list of audit events with the token that continues it.\<close>

record PowerAuditEventPage =
  page_Items :: "PowerAuditEvent list"
  page_Continue :: string

text \<open>The fields of \<open>notifications.Event\<close> that the recorder fills in.\<close>

record Notification =
  nt_AuditEventRef :: string
  nt_Action :: string
  nt_TargetNamespace :: string
  nt_TargetName :: string
  nt_TargetKind :: string
  nt_TargetUID :: string
  nt_Result :: string
  nt_Reason :: string
  nt_RuleName :: string
  nt_Timestamp :: go_time

section \<open>Semantic equality\<close>

text \<open>
  \<open>equality.Semantic.DeepEqual\<close>: maps are compared by their entries, an absent map and an empty one
  are equal.
\<close>

definition semantic_eq_map :: "strmap \<Rightarrow> strmap \<Rightarrow> bool" where
  "semantic_eq_map a b \<longleftrightarrow> list_all (\<lambda>kv. map_of a (fst kv) = map_of b (fst kv)) (a @ b)"

definition status_eq :: "PowerTargetStatus \<Rightarrow> PowerTargetStatus \<Rightarrow> bool" where
  "status_eq a b \<longleftrightarrow>
     semantic_eq_map (ts_WorkloadLabels a) (ts_WorkloadLabels b) \<and>
     semantic_eq_map (ts_NamespaceLabels a) (ts_NamespaceLabels b) \<and>
     a\<lparr>ts_WorkloadLabels := [], ts_NamespaceLabels := []\<rparr> =
     b\<lparr>ts_WorkloadLabels := [], ts_NamespaceLabels := []\<rparr>"

lemma semantic_eq_map_iff: "semantic_eq_map a b \<longleftrightarrow> map_of a = map_of b"
proof
  assume e: "semantic_eq_map a b"
  show "map_of a = map_of b"
  proof
    fix k
    have "k \<in> fst ` set (a @ b) \<Longrightarrow> map_of a k = map_of b k"
      using e by (force simp: semantic_eq_map_def list_all_iff)
    moreover have "k \<notin> fst ` set (a @ b) \<Longrightarrow> map_of a k = map_of b k"
      by (simp add: image_Un map_of_eq_None_iff[THEN iffD2])
    ultimately show "map_of a k = map_of b k" by blast
  qed
qed (simp add: semantic_eq_map_def list_all_iff)

lemma semantic_eq_map_get: "semantic_eq_map a b \<Longrightarrow> go_get a k = go_get b k"
  by (simp add: semantic_eq_map_iff go_get_def)

end
