(* ===== verification/Effects.thy ===== *)
theory Effects
  imports ApiTypes "HOL-Library.State_Monad"
begin

text \<open>
  The effects of the controllers.  A run is described by the trace of the calls it made to the
  outside (newest first), each with its arguments and the answer it got.  The answers come from an
  environment that is unconstrained: an answer may depend on everything that happened before, so
  that the theorems hold for every behaviour of the API server, of its caches, of concurrent writers
  and of the clock.  Code is written in the state monad over traces.

  A write of an object returns the object as the server answers it, because the Kubernetes client
  decodes the answer into the object the caller passed.
\<close>

section \<open>Errors\<close>

text \<open>
  An error value: its text and what \<open>errors.Is\<close> and the \<open>apierrors\<close> predicates find in its chain.
  Wrapping with \<open>%w\<close> keeps the chain.
\<close>

record go_error =
  err_Text :: string
  err_NotFound :: bool
  err_Conflict :: bool
  err_AlreadyExists :: bool
  err_SnapshotStale :: bool
  err_Canceled :: bool
  err_DeadlineExceeded :: bool

definition errors_New :: "string \<Rightarrow> go_error" where
  "errors_New msg = \<lparr>err_Text = msg, err_NotFound = False, err_Conflict = False,
     err_AlreadyExists = False, err_SnapshotStale = False, err_Canceled = False, err_DeadlineExceeded = False\<rparr>"

definition wrap_error :: "string \<Rightarrow> go_error \<Rightarrow> string \<Rightarrow> go_error" where
  "wrap_error front e back = e\<lparr>err_Text := front @ err_Text e @ back\<rparr>"

type_synonym 'a result = "go_error + 'a"

lemma errors_New_simps [simp]:
  "\<not> err_NotFound (errors_New m)" "\<not> err_Conflict (errors_New m)"
  "\<not> err_SnapshotStale (errors_New m)" "\<not> err_AlreadyExists (errors_New m)"
  "\<not> err_Canceled (errors_New m)" "\<not> err_DeadlineExceeded (errors_New m)"
  by (simp_all add: errors_New_def)

lemma wrap_error_simps [simp]:
  "err_NotFound (wrap_error b e a) = err_NotFound e" "err_Conflict (wrap_error b e a) = err_Conflict e"
  "err_SnapshotStale (wrap_error b e a) = err_SnapshotStale e"
  "err_AlreadyExists (wrap_error b e a) = err_AlreadyExists e"
  "err_Canceled (wrap_error b e a) = err_Canceled e" "err_DeadlineExceeded (wrap_error b e a) = err_DeadlineExceeded e"
  by (simp_all add: wrap_error_def)

section \<open>Formatting\<close>

text \<open>\<open>%d\<close> of an integer.\<close>

fun nat_digits :: "nat \<Rightarrow> string" where
  "nat_digits n = (if n < 10 then [char_of (48 + n)]
                   else nat_digits (n div 10) @ [char_of (48 + n mod 10)])"

declare nat_digits.simps [simp del]

definition go_itoa :: "int \<Rightarrow> string" where
  "go_itoa i = (if i < 0 then ''-'' @ nat_digits (nat (- i)) else nat_digits (nat i))"

text \<open>
  \<open>%q\<close> of a string: printable ASCII stands for itself, the quote and the backslash are escaped, the
  control characters have their letter or hexadecimal escape.  (Only error texts contain it; for
  multi-byte runes, which Kubernetes names do not contain, Go prints the rune.)
\<close>

definition hex_digit :: "nat \<Rightarrow> char" where
  "hex_digit n = (if n < 10 then char_of (48 + n) else char_of (87 + n))"

definition quote_char :: "char \<Rightarrow> string" where
  "quote_char c =
     (let n = of_char c :: nat in
      if n = 34 \<or> n = 92 then [char_of (92::nat), c]
      else if 32 \<le> n \<and> n < 127 then [c]
      else if 7 \<le> n \<and> n < 14 then [char_of (92::nat), ''abtnvfr'' ! (n - 7)]
      else [char_of (92::nat), CHR ''x'', hex_digit (n div 16), hex_digit (n mod 16)])"

definition go_quote :: "string \<Rightarrow> string" where
  "go_quote s = char_of (34::nat) # concat (map quote_char s) @ [char_of (34::nat)]"

section \<open>Calls and traces\<close>

text \<open>
  One constructor per kind of call.  A Boolean in a read tells whether it goes to the API server
  directly (\<open>APIReader\<close>) or through the client's cache.
\<close>

datatype (plugins only: code size) event =
    GetTarget bool NamespacedName "PowerTarget result"
  | GetPolicy NamespacedName "PowerPolicy result"
  | GetOverride NamespacedName "PowerOverride result"
  | GetGroup NamespacedName "PowerNamespaceGroup result"
  | GetDeployment bool NamespacedName "Deployment result"
  | GetStatefulSet bool NamespacedName "StatefulSet result"
  | GetCronJob bool NamespacedName "CronJob result"
  | GetNamespace bool string "ObjectMeta result"
  | ListTargets string "PowerTarget list result"
  | ListPolicies string "PowerPolicy list result"
  | ListOverrides string "PowerOverride list result"
  | ListHPAs bool string "HPA list result"
  | UpdateTarget PowerTarget "PowerTarget result"
  | StatusUpdateTarget PowerTarget "PowerTarget result"
  | StatusUpdatePolicy PowerPolicy "PowerPolicy result"
  | StatusUpdateOverride PowerOverride "PowerOverride result"
  | UpdateDeployment Deployment "Deployment result"
  | UpdateStatefulSet StatefulSet "StatefulSet result"
  | UpdateCronJob CronJob "CronJob result"
  | CreateAuditEvent PowerAuditEvent "PowerAuditEvent result"
  | GetAuditEvent NamespacedName "PowerAuditEvent result"
  | ListAuditEvents string strmap string "PowerAuditEventPage result"
  | DeleteAuditEvent PowerAuditEvent "unit result"
  | CreateTarget PowerTarget "PowerTarget result"
  | DeleteTarget PowerTarget "unit result"
  | UpdatePolicy PowerPolicy "PowerPolicy result"
  | CreatePolicy PowerPolicy "PowerPolicy result"
  | GetSchedule NamespacedName "PowerSchedule result"
  | ListSchedules "PowerSchedule list result"
  | CreateSchedule PowerSchedule "PowerSchedule result"
  | ListNamespaces bool "ObjectMeta list result"
  | ListDeployments string "Deployment list result"
  | ListStatefulSets string "StatefulSet list result"
  | ListCronJobs string "CronJob list result"
  | Enqueue Notification "unit result"
  | MetricAction string string bool
  | MetricReconciliation go_duration
  | Now go_time

type_synonym trace = "event list"
type_synonym 'a io = "(trace, 'a) state"

text \<open>The environment: the answer to each kind of call, given the trace so far.\<close>

record env =
  env_GetTarget :: "trace \<Rightarrow> bool \<Rightarrow> NamespacedName \<Rightarrow> PowerTarget result"
  env_GetPolicy :: "trace \<Rightarrow> NamespacedName \<Rightarrow> PowerPolicy result"
  env_GetOverride :: "trace \<Rightarrow> NamespacedName \<Rightarrow> PowerOverride result"
  env_GetGroup :: "trace \<Rightarrow> NamespacedName \<Rightarrow> PowerNamespaceGroup result"
  env_GetDeployment :: "trace \<Rightarrow> bool \<Rightarrow> NamespacedName \<Rightarrow> Deployment result"
  env_GetStatefulSet :: "trace \<Rightarrow> bool \<Rightarrow> NamespacedName \<Rightarrow> StatefulSet result"
  env_GetCronJob :: "trace \<Rightarrow> bool \<Rightarrow> NamespacedName \<Rightarrow> CronJob result"
  env_GetNamespace :: "trace \<Rightarrow> bool \<Rightarrow> string \<Rightarrow> ObjectMeta result"
  env_ListTargets :: "trace \<Rightarrow> string \<Rightarrow> PowerTarget list result"
  env_ListPolicies :: "trace \<Rightarrow> string \<Rightarrow> PowerPolicy list result"
  env_ListOverrides :: "trace \<Rightarrow> string \<Rightarrow> PowerOverride list result"
  env_ListHPAs :: "trace \<Rightarrow> bool \<Rightarrow> string \<Rightarrow> HPA list result"
  env_UpdateTarget :: "trace \<Rightarrow> PowerTarget \<Rightarrow> PowerTarget result"
  env_StatusUpdateTarget :: "trace \<Rightarrow> PowerTarget \<Rightarrow> PowerTarget result"
  env_StatusUpdatePolicy :: "trace \<Rightarrow> PowerPolicy \<Rightarrow> PowerPolicy result"
  env_StatusUpdateOverride :: "trace \<Rightarrow> PowerOverride \<Rightarrow> PowerOverride result"
  env_UpdateDeployment :: "trace \<Rightarrow> Deployment \<Rightarrow> Deployment result"
  env_UpdateStatefulSet :: "trace \<Rightarrow> StatefulSet \<Rightarrow> StatefulSet result"
  env_UpdateCronJob :: "trace \<Rightarrow> CronJob \<Rightarrow> CronJob result"
  env_CreateAuditEvent :: "trace \<Rightarrow> PowerAuditEvent \<Rightarrow> PowerAuditEvent result"
  env_GetAuditEvent :: "trace \<Rightarrow> NamespacedName \<Rightarrow> PowerAuditEvent result"
  env_ListAuditEvents :: "trace \<Rightarrow> string \<Rightarrow> strmap \<Rightarrow> string \<Rightarrow> PowerAuditEventPage result"
  env_DeleteAuditEvent :: "trace \<Rightarrow> PowerAuditEvent \<Rightarrow> unit result"
  env_CreateTarget :: "trace \<Rightarrow> PowerTarget \<Rightarrow> PowerTarget result"
  env_DeleteTarget :: "trace \<Rightarrow> PowerTarget \<Rightarrow> unit result"
  env_UpdatePolicy :: "trace \<Rightarrow> PowerPolicy \<Rightarrow> PowerPolicy result"
  env_CreatePolicy :: "trace \<Rightarrow> PowerPolicy \<Rightarrow> PowerPolicy result"
  env_GetSchedule :: "trace \<Rightarrow> NamespacedName \<Rightarrow> PowerSchedule result"
  env_ListSchedules :: "trace \<Rightarrow> PowerSchedule list result"
  env_CreateSchedule :: "trace \<Rightarrow> PowerSchedule \<Rightarrow> PowerSchedule result"
  env_ListNamespaces :: "trace \<Rightarrow> bool \<Rightarrow> ObjectMeta list result"
  env_ListDeployments :: "trace \<Rightarrow> string \<Rightarrow> Deployment list result"
  env_ListStatefulSets :: "trace \<Rightarrow> string \<Rightarrow> StatefulSet list result"
  env_ListCronJobs :: "trace \<Rightarrow> string \<Rightarrow> CronJob list result"
  env_Enqueue :: "trace \<Rightarrow> Notification \<Rightarrow> unit result"
  env_Now :: "trace \<Rightarrow> go_time"
  env_tzdb :: tzdb
  env_rnd :: rounding
  env_sha256 :: "string \<Rightarrow> string"
  env_GoSyntax :: "PowerAuditEventSpec \<Rightarrow> string"
  env_RFC3339 :: "go_time \<Rightarrow> string"
  env_RFC3339Nano :: "go_time \<Rightarrow> string"

abbreviation return :: "'a \<Rightarrow> ('s, 'a) state" where "return \<equiv> State_Monad.return"

text \<open>
  Calls and the logics below are independent of the kind of events, so that a component that talks
  to other services brings its own.
\<close>

definition call :: "('e list \<Rightarrow> 'r) \<Rightarrow> ('r \<Rightarrow> 'e) \<Rightarrow> ('e list, 'r) state" where
  "call answer ev = State (\<lambda>tr. (answer tr, ev (answer tr) # tr))"

definition time_Now :: "env \<Rightarrow> go_time io" where
  "time_Now E = call (env_Now E) Now"

text \<open>\<open>t.Sub(u)\<close> saturates at the bounds of a duration.\<close>

definition time_Sub :: "go_time \<Rightarrow> go_time \<Rightarrow> go_duration" where
  "time_Sub t u = max (- (2 ^ 63)) (min (2 ^ 63 - 1) (t - u))"

text \<open>
  An empty cluster, for examples: every read of a single object or of a list fails, every write is
  echoed, and the clock stands still.
\<close>

definition not_found :: go_error where
  "not_found = (errors_New ''not found'')\<lparr>err_NotFound := True\<rparr>"

definition empty_cluster :: env where
  "empty_cluster = \<lparr>env_GetTarget = (\<lambda>_ _ _. Inl not_found),
     env_GetPolicy = (\<lambda>_ _. Inl not_found),
     env_GetOverride = (\<lambda>_ _. Inl not_found),
     env_GetGroup = (\<lambda>_ _. Inl not_found),
     env_GetDeployment = (\<lambda>_ _ _. Inl not_found),
     env_GetStatefulSet = (\<lambda>_ _ _. Inl not_found),
     env_GetCronJob = (\<lambda>_ _ _. Inl not_found),
     env_GetNamespace = (\<lambda>_ _ _. Inl not_found),
     env_ListTargets = (\<lambda>_ _. Inl not_found),
     env_ListPolicies = (\<lambda>_ _. Inl not_found),
     env_ListOverrides = (\<lambda>_ _. Inl not_found),
     env_ListHPAs = (\<lambda>_ _ _. Inl not_found),
     env_UpdateTarget = (\<lambda>_ x. Inr x),
     env_StatusUpdateTarget = (\<lambda>_ x. Inr x),
     env_StatusUpdatePolicy = (\<lambda>_ x. Inr x),
     env_StatusUpdateOverride = (\<lambda>_ x. Inr x),
     env_UpdateDeployment = (\<lambda>_ x. Inr x),
     env_UpdateStatefulSet = (\<lambda>_ x. Inr x),
     env_UpdateCronJob = (\<lambda>_ x. Inr x),
     env_CreateAuditEvent = (\<lambda>_ x. Inr x),
     env_GetAuditEvent = (\<lambda>_ _. Inl not_found),
     env_ListAuditEvents = (\<lambda>_ _ _ _. Inl not_found),
     env_DeleteAuditEvent = (\<lambda>_ _. Inr ()),
     env_CreateTarget = (\<lambda>_ x. Inr x),
     env_DeleteTarget = (\<lambda>_ _. Inr ()),
     env_UpdatePolicy = (\<lambda>_ x. Inr x),
     env_CreatePolicy = (\<lambda>_ x. Inr x),
     env_GetSchedule = (\<lambda>_ _. Inl not_found),
     env_ListSchedules = (\<lambda>_. Inl not_found),
     env_CreateSchedule = (\<lambda>_ x. Inr x),
     env_ListNamespaces = (\<lambda>_ _. Inl not_found),
     env_ListDeployments = (\<lambda>_ _. Inl not_found),
     env_ListStatefulSets = (\<lambda>_ _. Inl not_found),
     env_ListCronJobs = (\<lambda>_ _. Inl not_found),
     env_Enqueue = (\<lambda>_ _. Inr ()),
     env_Now = (\<lambda>_. 0),
     env_tzdb = (\<lambda>_. None),
     env_rnd = id,
     env_sha256 = id,
     env_GoSyntax = (\<lambda>_. ''''),
     env_RFC3339 = (\<lambda>_. ''''),
     env_RFC3339Nano = (\<lambda>_. '''')\<rparr>"

section \<open>Reasoning about runs\<close>

text \<open>
  \<open>hoare P m Q\<close>: started in a trace that satisfies \<open>P\<close>, the program \<open>m\<close> ends with a value and a trace
  that satisfy \<open>Q\<close>.
\<close>

definition hoare :: "('s \<Rightarrow> bool) \<Rightarrow> ('s, 'a) state \<Rightarrow> ('a \<Rightarrow> 's \<Rightarrow> bool) \<Rightarrow> bool" where
  "hoare P m Q \<longleftrightarrow> (\<forall>tr. P tr \<longrightarrow> (case run_state m tr of (a, tr') \<Rightarrow> Q a tr'))"

lemma run_call [simp]: "run_state (call f ev) tr = (f tr, ev (f tr) # tr)"
  by (simp add: call_def)

lemma hoareI:
  "(\<And>tr a tr'. P tr \<Longrightarrow> run_state m tr = (a, tr') \<Longrightarrow> Q a tr') \<Longrightarrow> hoare P m Q"
  by (auto simp: hoare_def)

lemma hoareD: "hoare P m Q \<Longrightarrow> run_state m tr = (a, tr') \<Longrightarrow> P tr \<Longrightarrow> Q a tr'"
  by (auto simp: hoare_def)

lemma hoare_return: "(\<And>tr. P tr \<Longrightarrow> Q x tr) \<Longrightarrow> hoare P (return x) Q"
  by (simp add: hoare_def)

lemma hoare_call: "(\<And>tr. P tr \<Longrightarrow> Q (f tr) (ev (f tr) # tr)) \<Longrightarrow> hoare P (call f ev) Q"
  by (simp add: hoare_def)

lemma hoare_bind:
  "hoare P m R \<Longrightarrow> (\<And>x. hoare (R x) (f x) Q) \<Longrightarrow> hoare P (State_Monad.bind m f) Q"
  by (fastforce simp: hoare_def split: prod.splits)

lemma hoare_weaken:
  "hoare P' m Q' \<Longrightarrow> (\<And>tr. P tr \<Longrightarrow> P' tr) \<Longrightarrow> (\<And>a tr. Q' a tr \<Longrightarrow> Q a tr) \<Longrightarrow> hoare P m Q"
  by (fastforce simp: hoare_def split: prod.splits)

text \<open>
  \<open>emits A m\<close>: every call \<open>m\<close> makes satisfies \<open>A\<close>, and the trace only grows.
\<close>

definition emits :: "('e \<Rightarrow> bool) \<Rightarrow> ('e list, 'a) state \<Rightarrow> bool" where
  "emits A m \<longleftrightarrow> (\<forall>tr. \<exists>new. snd (run_state m tr) = new @ tr \<and> (\<forall>e\<in>set new. A e))"

named_theorems emits_intros "introduction rules for the calls a program makes"

lemma emitsD:
  assumes "emits A m" and "run_state m tr = (a, tr')"
  obtains new where "tr' = new @ tr" and "\<forall>e\<in>set new. A e"
  using assms unfolding emits_def by (metis snd_conv)

lemma emits_events: "emits A m \<Longrightarrow> run_state m [] = (a, tr) \<Longrightarrow> e \<in> set tr \<Longrightarrow> A e"
  by (metis append_Nil2 emitsD)

lemma emits_grows: "emits A m \<Longrightarrow> run_state m tr = (a, tr') \<Longrightarrow> set tr \<subseteq> set tr'"
  by (elim emitsD) auto

lemma emits_return [emits_intros, simp]: "emits A (return x)"
  by (simp add: emits_def)

lemma emits_call [emits_intros]: "(\<And>r. A (ev r)) \<Longrightarrow> emits A (call f ev)"
  by (simp add: emits_def)

lemma emits_bind [emits_intros]:
  assumes "emits A m" and "\<And>x. emits A (f x)"
  shows "emits A (State_Monad.bind m f)"
  unfolding emits_def
proof
  fix tr
  obtain a tr1 where m: "run_state m tr = (a, tr1)" by fastforce
  obtain n1 where n1: "tr1 = n1 @ tr" "\<forall>e\<in>set n1. A e" using assms(1) m by (rule emitsD)
  obtain b tr2 where f: "run_state (f a) tr1 = (b, tr2)" by fastforce
  obtain n2 where n2: "tr2 = n2 @ tr1" "\<forall>e\<in>set n2. A e" using assms(2) f by (rule emitsD)
  show "\<exists>new. snd (run_state (State_Monad.bind m f) tr) = new @ tr \<and> (\<forall>e\<in>set new. A e)"
    using m f n1 n2 by (intro exI[of _ "n2 @ n1"]) auto
qed

lemma emits_mono: "emits A m \<Longrightarrow> (\<And>e. A e \<Longrightarrow> B e) \<Longrightarrow> emits B m"
  unfolding emits_def by blast

lemma emits_if [emits_intros]: "(b \<Longrightarrow> emits A m) \<Longrightarrow> (\<not> b \<Longrightarrow> emits A m') \<Longrightarrow> emits A (if b then m else m')"
  by simp

lemma emits_sum [emits_intros]:
  "(\<And>e. x = Inl e \<Longrightarrow> emits A (f e)) \<Longrightarrow> (\<And>v. x = Inr v \<Longrightarrow> emits A (g v)) \<Longrightarrow> emits A (case_sum f g x)"
  by (cases x) auto

lemma emits_option [emits_intros]:
  "(x = None \<Longrightarrow> emits A m) \<Longrightarrow> (\<And>v. x = Some v \<Longrightarrow> emits A (f v)) \<Longrightarrow> emits A (case_option m f x)"
  by (cases x) auto

lemma emits_prod [emits_intros]: "(\<And>a b. x = (a, b) \<Longrightarrow> emits A (f a b)) \<Longrightarrow> emits A (case_prod f x)"
  by (cases x) auto

lemma emits_Let [emits_intros]: "emits A (f x) \<Longrightarrow> emits A (let y = x in f y)"
  by simp

lemma emits_time_Now [emits_intros]: "(\<And>t. A (Now t)) \<Longrightarrow> emits A (time_Now E)"
  by (simp add: time_Now_def emits_call)

end
