(* ===== verification/Readiness.thy ===== *)
theory Readiness
  imports Effects
begin

text \<open>
  The readiness check of the controller (\<open>src/cmd/controller/notification_suppression_readiness.go\<close>): the
  controller is ready only when the stored versions of the audit events and of the targets have the fields in which a suppressed
  notification is recorded, since the API server drops fields that are not in the schema.
\<close>

section \<open>Custom resource definitions\<close>

text \<open>What the check reads of \<open>JSONSchemaProps\<close>; an enumeration is a list of raw JSON texts.\<close>

datatype JSONSchemaProps =
  JSONSchemaProps (js_Type: string) (js_Enum: "string list") (js_Properties: "(string \<times> JSONSchemaProps) list")

text \<open>The outer option is the pointer \<open>Schema\<close>, the inner one \<open>OpenAPIV3Schema\<close>.\<close>

record CRDVersion =
  crdv_Storage :: bool
  crdv_Schema :: "JSONSchemaProps option option"

type_synonym crd_reader = "string \<Rightarrow> CRDVersion list result"

section \<open>The check\<close>

definition storageSchema :: "CRDVersion list \<Rightarrow> JSONSchemaProps option" where
  "storageSchema versions =
     (case find (\<lambda>v. crdv_Storage v \<and> crdv_Schema v \<noteq> None) versions of
        None \<Rightarrow> None
      | Some v \<Rightarrow> (case crdv_Schema v of None \<Rightarrow> None | Some schema \<Rightarrow> schema))"

fun descend :: "string \<Rightarrow> JSONSchemaProps \<Rightarrow> string list \<Rightarrow> JSONSchemaProps result" where
  "descend name current [] = Inr current"
| "descend name current (segment # path) =
     (case map_of (js_Properties current) segment of
        None \<Rightarrow> Inl (errors_New (name @ '' schema lacks '' @ segment))
      | Some n \<Rightarrow> descend name n path)"

text \<open>An absent key of \<open>Properties\<close> gives the zero value.\<close>

definition field :: "JSONSchemaProps \<Rightarrow> string \<Rightarrow> JSONSchemaProps" where
  "field schema key = (case map_of (js_Properties schema) key of None \<Rightarrow> JSONSchemaProps '''' [] [] | Some f \<Rightarrow> f)"

definition checkSchema :: "crd_reader \<Rightarrow> string \<times> string list \<Rightarrow> go_error option" where
  "checkSchema reader = (\<lambda>(name, path).
     case reader name of
       Inl err \<Rightarrow> Some (wrap_error (''read '' @ name @ '': '') err '''')
     | Inr versions \<Rightarrow>
         (case storageSchema versions of
            None \<Rightarrow> Some (errors_New (name @ '' has no storage schema''))
          | Some schema \<Rightarrow>
              (case descend name schema path of
                 Inl err \<Rightarrow> Some err
               | Inr current \<Rightarrow>
                   if js_Type (field current ''notificationSuppressed'') \<noteq> ''boolean'' \<or>
                      js_Type (field current ''notificationSuppressionSource'') \<noteq> ''string'' \<or>
                      js_Type (field current ''notificationSuppressionNamespaceUID'') \<noteq> ''string''
                   then Some (errors_New (name @ '' suppression schema is incomplete''))
                   else
                     let enums = js_Enum (field current ''notificationSuppressionSource'') in
                     if length enums \<noteq> 1 \<or> hd enums \<noteq> CHR 0x22 # ''namespace-label'' @ [CHR 0x22]
                     then Some (errors_New (name @ '' suppression source enum is incompatible''))
                     else None)))"

fun first_error :: "('a \<Rightarrow> go_error option) \<Rightarrow> 'a list \<Rightarrow> go_error option" where
  "first_error check [] = None"
| "first_error check (x # xs) = (case check x of Some err \<Rightarrow> Some err | None \<Rightarrow> first_error check xs)"

definition suppressionChecks :: "(string \<times> string list) list" where
  "suppressionChecks = [(''powerauditevents.power.aura.sh'', [''spec'']), (''powertargets.power.aura.sh'', [''status'', ''action''])]"

definition notificationSuppressionSchemaCheck :: "crd_reader \<Rightarrow> go_error option" where
  "notificationSuppressionSchemaCheck reader = first_error (checkSchema reader) suppressionChecks"

section \<open>What readiness means\<close>

text \<open>Specification: what the API server keeps of an object is what the schema mentions.\<close>

datatype json_value = JBool bool | JText string | JObject "(string \<times> json_value) list"

fun prune :: "JSONSchemaProps \<Rightarrow> json_value \<Rightarrow> json_value" where
  "prune schema (JObject members) =
     JObject (concat (map (\<lambda>(k, v). case map_of (js_Properties schema) k of None \<Rightarrow> [] | Some s \<Rightarrow> [(k, prune s v)]) members))"
| "prune schema v = v"

fun accepts :: "JSONSchemaProps \<Rightarrow> json_value \<Rightarrow> bool" where
  "accepts schema (JBool b) \<longleftrightarrow> js_Type schema = ''boolean''"
| "accepts schema (JText s) \<longleftrightarrow> js_Type schema = ''string'' \<and>
     (js_Enum schema \<noteq> [] \<longrightarrow> CHR 0x22 # s @ [CHR 0x22] \<in> set (js_Enum schema))"
| "accepts schema (JObject members) \<longleftrightarrow>
     (\<forall>(k, v)\<in>set members. case map_of (js_Properties schema) k of None \<Rightarrow> True | Some s \<Rightarrow> accepts s v)"

text \<open>The record of a suppression by the label of the namespace with this identifier.\<close>

definition suppression_mark :: "(string \<times> json_value) list" where
  "suppression_mark = [(''notificationSuppressed'', JBool True), (''notificationSuppressionSource'', JText ''namespace-label'')]"

definition suppression_record :: "string \<Rightarrow> json_value" where
  "suppression_record uid = JObject (suppression_mark @ [(''notificationSuppressionNamespaceUID'', JText uid)])"

lemma first_error_None: "first_error check xs = None \<longleftrightarrow> (\<forall>x\<in>set xs. check x = None)"
  by (induction xs) (auto split: option.splits)

lemma typed_field: "js_Type (field schema k) = t \<Longrightarrow> t \<noteq> '''' \<Longrightarrow> map_of (js_Properties schema) k = Some (field schema k)"
  by (auto simp: field_def split: option.splits)

lemma checkSchema_None:
  assumes "checkSchema reader (name, path) = None"
  obtains versions schema current where "reader name = Inr versions" "storageSchema versions = Some schema"
    "descend name schema path = Inr current" "js_Type (field current ''notificationSuppressed'') = ''boolean''"
    "js_Type (field current ''notificationSuppressionSource'') = ''string''"
    "js_Type (field current ''notificationSuppressionNamespaceUID'') = ''string''"
    "js_Enum (field current ''notificationSuppressionSource'') = [CHR 0x22 # ''namespace-label'' @ [CHR 0x22]]"
proof -
  have "\<exists>x. xs = [x] \<and> x = y" if "length xs = 1" "hd xs = y" for xs and y :: string
    using that by (cases xs) auto
  with assms that show ?thesis
    by (auto simp: checkSchema_def Let_def split: sum.splits option.splits if_splits)
qed

text \<open>
  A controller that is ready records suppressed notifications in full: the stored schema of both resources has, at the
  place where the program writes them, the fields of a suppression, prunes none of them and accepts the mark of a suppression.
\<close>

theorem ready_keeps_suppression:
  assumes "notificationSuppressionSchemaCheck reader = None" and "(name, path) \<in> set suppressionChecks"
  shows "\<exists>versions schema current. reader name = Inr versions \<and> storageSchema versions = Some schema \<and>
    descend name schema path = Inr current \<and> accepts current (JObject suppression_mark) \<and>
    prune current (suppression_record uid) = suppression_record uid"
proof -
  have "checkSchema reader (name, path) = None"
    using assms by (auto simp: notificationSuppressionSchemaCheck_def first_error_None)
  then obtain versions schema current where c: "reader name = Inr versions" "storageSchema versions = Some schema"
      "descend name schema path = Inr current"
    and t: "js_Type (field current ''notificationSuppressed'') = ''boolean''"
      "js_Type (field current ''notificationSuppressionSource'') = ''string''"
      "js_Type (field current ''notificationSuppressionNamespaceUID'') = ''string''"
    and e: "js_Enum (field current ''notificationSuppressionSource'') = [CHR 0x22 # ''namespace-label'' @ [CHR 0x22]]"
    by (rule checkSchema_None)
  have "accepts current (JObject suppression_mark) \<and> prune current (suppression_record uid) = suppression_record uid"
    using typed_field[OF t(1)] typed_field[OF t(2)] typed_field[OF t(3)] t e
    by (simp add: suppression_record_def suppression_mark_def)
  with c show ?thesis by blast
qed

definition suppression_schema :: JSONSchemaProps where
  "suppression_schema = JSONSchemaProps ''object'' []
     [(''notificationSuppressed'', JSONSchemaProps ''boolean'' [] []),
      (''notificationSuppressionSource'', JSONSchemaProps ''string'' [CHR 0x22 # ''namespace-label'' @ [CHR 0x22]] []),
      (''notificationSuppressionNamespaceUID'', JSONSchemaProps ''string'' [] [])]"

definition stored_version :: "JSONSchemaProps \<Rightarrow> CRDVersion list" where
  "stored_version schema = [\<lparr>crdv_Storage = False, crdv_Schema = None\<rparr>, \<lparr>crdv_Storage = True, crdv_Schema = Some (Some schema)\<rparr>]"

definition nested :: "string \<Rightarrow> JSONSchemaProps \<Rightarrow> JSONSchemaProps" where
  "nested key schema = JSONSchemaProps ''object'' [] [(key, schema)]"

definition demo_crds :: crd_reader where
  "demo_crds name = Inr (stored_version (if name = ''powerauditevents.power.aura.sh'' then nested ''spec'' suppression_schema
     else nested ''status'' (nested ''action'' suppression_schema)))"

theorem ready_keeps_suppression_witness:
  "\<exists>current. descend ''powertargets.power.aura.sh'' (nested ''status'' (nested ''action'' suppression_schema)) [''status'', ''action'']
     = Inr current \<and> prune current (suppression_record ''uid'') = suppression_record ''uid''"
proof -
  have "notificationSuppressionSchemaCheck demo_crds = None"
    by (simp add: notificationSuppressionSchemaCheck_def suppressionChecks_def checkSchema_def demo_crds_def stored_version_def
        storageSchema_def nested_def field_def suppression_schema_def)
  moreover have "(''powertargets.power.aura.sh'', [''status'', ''action'']) \<in> set suppressionChecks"
    by (simp add: suppressionChecks_def)
  ultimately show ?thesis
    using ready_keeps_suppression[of demo_crds "''powertargets.power.aura.sh''" "[''status'', ''action'']" "''uid''"]
    by (auto simp: demo_crds_def stored_version_def storageSchema_def simp del: descend.simps)
qed

end
