(* ===== verification/TimeWindows.thy ===== *)
theory TimeWindows
  imports DomainTypes
begin

text \<open>
  Evaluation of recurring time windows and schedules
  (\<open>src/internal/core/domain/timewindow.go\<close>), and its abstract specification: a window is a set
  of occurrences, one per selected day, each an interval of local minutes that may run past
  midnight.
\<close>

section \<open>The operations\<close>

definition previousWeekday :: "Weekday \<Rightarrow> Weekday" where
  "previousWeekday day = (if day = Sunday then Saturday else day - 1)"

definition containsDay :: "Weekday list \<Rightarrow> Weekday \<Rightarrow> bool" where
  "containsDay days day = list_ex (\<lambda>d. d = day) days"

definition isDayMatch :: "Weekday list \<Rightarrow> int \<Rightarrow> TimeWindow \<Rightarrow> bool" where
  "isDayMatch days localNow window =
     (if length days = 0 then True
      else
        let currentDay = t_Weekday localNow;
            currentMinutes = t_Hour localNow * 60 + t_Minute localNow
        in if CrossesMidnight window \<and> currentMinutes < ToMinutes (tw_End window)
           then containsDay days (previousWeekday currentDay)
           else containsDay days currentDay)"

definition IsInWindow :: "tzdb \<Rightarrow> TimeWindow \<Rightarrow> go_time \<Rightarrow> bool" where
  "IsInWindow tz window now =
     (case LoadLocation tz (tw_Timezone window) of
        None \<Rightarrow> False
      | Some loc \<Rightarrow>
          let localNow = time_In now loc in
          if \<not> isDayMatch (tw_Days window) localNow window then False
          else
            let currentMinutes = t_Hour localNow * 60 + t_Minute localNow;
                startMinutes = ToMinutes (tw_Start window);
                endMinutes = ToMinutes (tw_End window)
            in if \<not> CrossesMidnight window
               then currentMinutes \<ge> startMinutes \<and> currentMinutes < endMinutes
               else currentMinutes \<ge> startMinutes \<or> currentMinutes < endMinutes)"

definition IsInAnyWindow :: "tzdb \<Rightarrow> TimeWindow list \<Rightarrow> go_time \<Rightarrow> bool" where
  "IsInAnyWindow tz windows now = list_ex (\<lambda>w. IsInWindow tz w now) windows"

definition EvaluateSchedule :: "tzdb \<Rightarrow> Schedule \<Rightarrow> go_time \<Rightarrow> PowerState" where
  "EvaluateSchedule tz schedule now =
     (if length (sch_Windows schedule) = 0 then sch_DesiredState schedule
      else if IsInAnyWindow tz (sch_Windows schedule) now then sch_DesiredState schedule
      else Opposite (sch_DesiredState schedule))"

section \<open>Specification\<close>

text \<open>
  Day \<open>n\<close> is the \<open>n\<close>-th local day since the epoch.  The occurrence of a window that starts on
  day \<open>n\<close> covers the local minutes from its start to its end, or to its end on the next day.
\<close>

definition day_selected :: "TimeWindow \<Rightarrow> int \<Rightarrow> bool" where
  "day_selected w n \<longleftrightarrow> tw_Days w = [] \<or> (n + 4) mod 7 \<in> set (tw_Days w)"

definition window_length :: "TimeWindow \<Rightarrow> int" where
  "window_length w =
     (let s = ToMinutes (tw_Start w); e = ToMinutes (tw_End w)
      in if s > e then e + 1440 - s else e - s)"

definition occurrence_covers :: "TimeWindow \<Rightarrow> int \<Rightarrow> int \<Rightarrow> bool" where
  "occurrence_covers w n m \<longleftrightarrow>
     (let b = n * 1440 + ToMinutes (tw_Start w) in b \<le> m \<and> m < b + window_length w)"

definition window_valid :: "TimeWindow \<Rightarrow> bool" where
  "window_valid w \<longleftrightarrow> TimeOfDay_IsValid (tw_Start w) \<and> TimeOfDay_IsValid (tw_End w)"

definition window_active :: "TimeWindow \<Rightarrow> int \<Rightarrow> bool" where
  "window_active w m \<longleftrightarrow> (\<exists>n. day_selected w n \<and> occurrence_covers w n m)"

section \<open>Lemmas\<close>

lemma containsDay_iff: "containsDay days d \<longleftrightarrow> d \<in> set days"
  by (auto simp: containsDay_def list_ex_iff)

lemma previousWeekday_Weekday: "previousWeekday (t_Weekday l) = (l div 86400 - 1 + 4) mod 7"
proof -
  have "previousWeekday (k mod 7) = (k - 1) mod 7" for k :: int
  proof -
    have "(k - 1) mod 7 = (k mod 7 - 1) mod 7" by (simp add: mod_diff_left_eq)
    moreover have "k mod 7 \<noteq> 0 \<Longrightarrow> (k mod 7 - 1) mod 7 = k mod 7 - 1"
      by (rule mod_pos_pos_trivial) (use pos_mod_bound[of 7 k] pos_mod_sign[of 7 k] in linarith)+
    ultimately show ?thesis by (auto simp: previousWeekday_def Sunday_def Saturday_def)
  qed
  from this[of "l div 86400 + 4"] show ?thesis by (simp add: t_Weekday_def algebra_simps)
qed

lemma local_minute_split:
  fixes l :: int
  shows "l div 60 = l div 86400 * 1440 + l mod 86400 div 60"
    and "0 \<le> l mod 86400 div 60" and "l mod 86400 div 60 < 1440"
proof -
  have "(l mod 86400 + 60 * (1440 * (l div 86400))) div 60 = l mod 86400 div 60 + 1440 * (l div 86400)"
    by (simp only: div_mult_self2)
  moreover have "l mod 86400 + 60 * (1440 * (l div 86400)) = l" by simp
  ultimately have "l div 60 = l mod 86400 div 60 + 1440 * (l div 86400)" by (simp only:)
  then show "l div 60 = l div 86400 * 1440 + l mod 86400 div 60" by linarith
  have "0 \<le> l mod 86400" "l mod 86400 < 86400" by simp_all
  then show "0 \<le> l mod 86400 div 60" "l mod 86400 div 60 < 1440" by linarith+
qed

lemma day_cases:
  fixes n d :: int
  obtains "n = d" | "n = d - 1" | "n \<ge> d + 1" | "n \<le> d - 2"
  by linarith

text \<open>Only the occurrence of the current day and that of the previous day can cover a minute.\<close>

lemma occurrence_days:
  assumes valid: "window_valid w" and c: "0 \<le> c" "c < 1440"
  shows "occurrence_covers w n (d * 1440 + c) \<longleftrightarrow>
     (if CrossesMidnight w
      then (n = d \<and> ToMinutes (tw_Start w) \<le> c) \<or> (n = d - 1 \<and> c < ToMinutes (tw_End w))
      else n = d \<and> ToMinutes (tw_Start w) \<le> c \<and> c < ToMinutes (tw_End w))"
proof -
  let ?s = "ToMinutes (tw_Start w)" and ?e = "ToMinutes (tw_End w)"
  have b: "0 \<le> ?s" "?s < 1440" "0 \<le> ?e" "?e < 1440"
    using valid ToMinutes_bounds by (auto simp: window_valid_def)
  show ?thesis
  proof (cases "CrossesMidnight w")
    case True
    then have "occurrence_covers w n (d * 1440 + c) \<longleftrightarrow>
        n * 1440 + ?s \<le> d * 1440 + c \<and> d * 1440 + c < n * 1440 + ?e + 1440"
      by (auto simp: occurrence_covers_def window_length_def CrossesMidnight_def Let_def)
    also have "\<dots> \<longleftrightarrow> (n = d \<and> ?s \<le> c) \<or> (n = d - 1 \<and> c < ?e)"
      by (rule day_cases[of n d]) (use b c True in \<open>auto simp: CrossesMidnight_def\<close>)
    finally show ?thesis using True by simp
  next
    case False
    then have "occurrence_covers w n (d * 1440 + c) \<longleftrightarrow>
        n * 1440 + ?s \<le> d * 1440 + c \<and> d * 1440 + c < n * 1440 + ?e"
      by (auto simp: occurrence_covers_def window_length_def CrossesMidnight_def Let_def)
    also have "\<dots> \<longleftrightarrow> n = d \<and> ?s \<le> c \<and> c < ?e"
      by (rule day_cases[of n d]) (use b c False in \<open>auto simp: CrossesMidnight_def\<close>)
    finally show ?thesis using False by simp
  qed
qed

lemma isDayMatch_iff:
  "isDayMatch (tw_Days w) l w \<longleftrightarrow>
     day_selected w (if CrossesMidnight w \<and> l mod 86400 div 60 < ToMinutes (tw_End w)
                     then l div 86400 - 1 else l div 86400)"
proof -
  have "t_Weekday l = (l div 86400 + 4) mod 7" by (simp add: t_Weekday_def)
  then show ?thesis
    using previousWeekday_Weekday[of l]
    by (auto simp: isDayMatch_def day_selected_def containsDay_iff minutes_of_day Let_def)
qed

lemma IsInWindow_active:
  assumes "window_valid w" and "LoadLocation tz (tw_Timezone w) = Some loc"
  shows "IsInWindow tz w now \<longleftrightarrow> window_active w (time_In now loc div 60)"
proof -
  define l where "l = time_In now loc"
  define c where "c = l mod 86400 div 60"
  define d where "d = l div 86400"
  have c: "0 \<le> c" "c < 1440" and m: "l div 60 = d * 1440 + c"
    unfolding c_def d_def by (rule local_minute_split)+
  note occ = occurrence_days[OF assms(1) c]
  have "IsInWindow tz w now \<longleftrightarrow>
      day_selected w (if CrossesMidnight w \<and> c < ToMinutes (tw_End w) then d - 1 else d) \<and>
      (if CrossesMidnight w then ToMinutes (tw_Start w) \<le> c \<or> c < ToMinutes (tw_End w)
       else ToMinutes (tw_Start w) \<le> c \<and> c < ToMinutes (tw_End w))"
    using assms(2)
    by (simp add: IsInWindow_def isDayMatch_iff minutes_of_day Let_def flip: l_def c_def d_def)
  also have "\<dots> \<longleftrightarrow> (\<exists>n. day_selected w n \<and> occurrence_covers w n (d * 1440 + c))"
    unfolding occ by (auto simp: CrossesMidnight_def)
  finally show ?thesis by (simp add: window_active_def m flip: l_def)
qed

lemma EvaluateSchedule_valid:
  "PowerState_IsValid (sch_DesiredState s) \<Longrightarrow> PowerState_IsValid (EvaluateSchedule tz s now)"
  by (simp add: EvaluateSchedule_def)

section \<open>Properties\<close>

text \<open>
  C6. A window contains an instant exactly when one of its occurrences does: the occurrence that
  starts on a selected local day covers the local minute, and an occurrence whose start is later
  than its end continues past midnight into the next day, whatever that day's selection is.
\<close>

theorem IsInWindow_refines_occurrences:
  assumes "window_valid w" and "LoadLocation tz (tw_Timezone w) = Some loc"
  shows "IsInWindow tz w now \<longleftrightarrow>
     (\<exists>n. day_selected w n \<and> occurrence_covers w n (time_In now loc div 60))"
  using IsInWindow_active[OF assms] by (simp add: window_active_def)

definition friday_night :: TimeWindow where
  "friday_night =
     \<lparr>tw_Start = \<lparr>tod_Hour = 22, tod_Minute = 0\<rparr>, tw_End = \<lparr>tod_Hour = 6, tod_Minute = 30\<rparr>,
      tw_Days = [5], tw_Timezone = ''UTC''\<rparr>"

lemma IsInWindow_refines_occurrences_witness:
  "window_valid friday_night \<and> LoadLocation (\<lambda>_. None) (tw_Timezone friday_night) = Some (\<lambda>_. 0) \<and>
   IsInWindow (\<lambda>_. None) friday_night (2 * 86400 * Second + 6 * Hour) \<and>
   (\<exists>n. day_selected friday_night n \<and> occurrence_covers friday_night n (2 * 1440 + 360))"
proof -
  have v: "window_valid friday_night"
    by (simp add: window_valid_def friday_night_def TimeOfDay_IsValid_def)
  have l: "LoadLocation (\<lambda>_. None) (tw_Timezone friday_night) = Some (\<lambda>_. 0)"
    by (simp add: LoadLocation_def friday_night_def)
  have i: "IsInWindow (\<lambda>_. None) friday_night (2 * 86400 * Second + 6 * Hour)"
    by code_simp
  have "time_In (2 * 86400 * Second + 6 * Hour) (\<lambda>_. 0) div 60 = 2 * 1440 + 360"
    by (simp add: time_defs)
  with IsInWindow_refines_occurrences[OF v l, of "2 * 86400 * Second + 6 * Hour"] v l i
  show ?thesis by simp
qed

text \<open>
  A schedule whose windows are well formed and whose zones are known yields its desired state
  exactly when it has no window or some window has an occurrence covering the instant, and the
  opposite state at every other instant.
\<close>

theorem EvaluateSchedule_spec:
  assumes "\<And>w. w \<in> set (sch_Windows s) \<Longrightarrow> window_valid w"
    and "\<And>w. w \<in> set (sch_Windows s) \<Longrightarrow> LoadLocation tz (tw_Timezone w) = Some (loc w)"
  shows "EvaluateSchedule tz s now =
     (if sch_Windows s = [] \<or> (\<exists>w\<in>set (sch_Windows s). window_active w (time_In now (loc w) div 60))
      then sch_DesiredState s else Opposite (sch_DesiredState s))"
proof -
  have "IsInAnyWindow tz (sch_Windows s) now \<longleftrightarrow>
      (\<exists>w\<in>set (sch_Windows s). window_active w (time_In now (loc w) div 60))"
    using IsInWindow_active assms by (auto simp: IsInAnyWindow_def list_ex_iff)
  then show ?thesis by (simp add: EvaluateSchedule_def)
qed

lemma EvaluateSchedule_spec_witness:
  "EvaluateSchedule (\<lambda>_. None) \<lparr>sch_Windows = [friday_night], sch_DesiredState = PowerStateOn\<rparr> 0 =
     (if window_active friday_night 0 then PowerStateOn else PowerStateOff)"
proof -
  let ?s = "\<lparr>sch_Windows = [friday_night], sch_DesiredState = PowerStateOn\<rparr>"
  have v: "window_valid w" if "w \<in> set (sch_Windows ?s)" for w
    using that by (simp add: window_valid_def friday_night_def TimeOfDay_IsValid_def)
  have l: "LoadLocation (\<lambda>_. None) (tw_Timezone w) = Some (\<lambda>_. 0)" if "w \<in> set (sch_Windows ?s)" for w
    using that by (simp add: LoadLocation_def friday_night_def)
  show ?thesis using EvaluateSchedule_spec[of ?s "\<lambda>_. None" "\<lambda>_ _. 0" 0, OF v l] by (simp add: time_defs)
qed

end
