(* ===== verification/Scopes.thy ===== *)
theory Scopes
  imports DomainTypes
begin

text \<open>
  Scope matching (\<open>src/internal/core/domain/scope.go\<close>): a target is selected when every non-empty
  selector of the scope selects it, and a scope with an unresolved namespace group selects nothing.
\<close>

section \<open>The operations\<close>

text \<open>The loop over \<open>scope.TargetRefs\<close>: a \<open>continue\<close> per mismatch, \<open>return true\<close> on a match.\<close>

definition targetRefMatches :: "WorkloadRef \<Rightarrow> WorkloadRef \<Rightarrow> bool" where
  "targetRefMatches t ref =
     (if ref_Namespace ref \<noteq> ref_Namespace t \<or> ref_Name ref \<noteq> ref_Name t \<or> ref_Kind ref \<noteq> ref_Kind t
      then False
      else if ref_Cluster ref \<noteq> '''' \<and> ref_Cluster ref \<noteq> ref_Cluster t then False
      else if ref_APIVersion ref \<noteq> '''' \<and> ref_APIVersion ref \<noteq> ref_APIVersion t then False
      else if ref_UID ref \<noteq> '''' \<and> ref_UID ref \<noteq> ref_UID t then False
      else True)"

definition matchesTargetRefs :: "Target \<Rightarrow> Scope \<Rightarrow> bool" where
  "matchesTargetRefs target scope =
     (if length (sc_TargetRefs scope) = 0 then True
      else list_ex (targetRefMatches (tgt_Ref target)) (sc_TargetRefs scope))"

definition matchesNamespaceNames :: "Target \<Rightarrow> Scope \<Rightarrow> bool" where
  "matchesNamespaceNames target scope =
     (if length (sc_Namespaces scope) = 0 then True
      else list_ex (\<lambda>ns. ns = ref_Namespace (tgt_Ref target)) (sc_Namespaces scope))"

definition labelsMatch :: "strmap \<Rightarrow> strmap \<Rightarrow> bool" where
  "labelsMatch targetLabels selectorLabels =
     (if targetLabels = [] \<and> length selectorLabels > 0 then False
      else list_all (\<lambda>(key, val). map_of targetLabels key = Some val) selectorLabels)"

definition matchesNamespaceLabels :: "Target \<Rightarrow> Scope \<Rightarrow> bool" where
  "matchesNamespaceLabels target scope =
     (if length (sc_NamespaceLabels scope) = 0 then True
      else labelsMatch (tgt_NamespaceLabels target) (sc_NamespaceLabels scope))"

definition matchesWorkloadNames :: "Target \<Rightarrow> Scope \<Rightarrow> bool" where
  "matchesWorkloadNames target scope =
     (if length (sc_WorkloadNames scope) = 0 then True
      else list_ex (\<lambda>name. name = ref_Name (tgt_Ref target)) (sc_WorkloadNames scope))"

definition matchesWorkloadLabels :: "Target \<Rightarrow> Scope \<Rightarrow> bool" where
  "matchesWorkloadLabels target scope =
     (if length (sc_WorkloadLabels scope) = 0 then True
      else labelsMatch (tgt_Labels target) (sc_WorkloadLabels scope))"

definition MatchesScope :: "Target \<Rightarrow> Scope \<Rightarrow> bool" where
  "MatchesScope target scope =
     (if length (sc_NamespaceGroups scope) > 0 then False
      else if \<not> matchesTargetRefs target scope then False
      else if \<not> matchesNamespaceNames target scope then False
      else if \<not> matchesNamespaceLabels target scope then False
      else if \<not> matchesWorkloadNames target scope then False
      else if \<not> matchesWorkloadLabels target scope then False
      else True)"

definition ComputeSpecificity :: "Scope \<Rightarrow> ScopeSpecificity" where
  "ComputeSpecificity scope =
     (if length (sc_TargetRefs scope) > 0 \<or> length (sc_WorkloadNames scope) > 0
         \<or> length (sc_WorkloadLabels scope) > 0
      then ScopeWorkload
      else if length (sc_Namespaces scope) > 0 \<or> length (sc_NamespaceGroups scope) > 0
         \<or> length (sc_NamespaceLabels scope) > 0
      then ScopeNamespace
      else ScopeClusterWide)"

section \<open>Specification\<close>

text \<open>
  The targets a selector admits, as sets.  An empty list or label selector admits every target; a
  target reference constrains cluster, API version and UID only where it names them.
\<close>

definition ref_admits :: "WorkloadRef \<Rightarrow> WorkloadRef set" where
  "ref_admits r =
     {t. ref_Namespace t = ref_Namespace r \<and> ref_Name t = ref_Name r \<and> ref_Kind t = ref_Kind r
       \<and> ref_Cluster r \<in> {'''', ref_Cluster t} \<and> ref_APIVersion r \<in> {'''', ref_APIVersion t}
       \<and> ref_UID r \<in> {'''', ref_UID t}}"

definition admits_any :: "'a list \<Rightarrow> ('a \<Rightarrow> 'b set) \<Rightarrow> 'b set" where
  "admits_any xs f = (if xs = [] then UNIV else \<Union>x\<in>set xs. f x)"

definition label_admits :: "strmap \<Rightarrow> strmap set" where
  "label_admits sel = {labels. \<forall>(k, v)\<in>set sel. map_of labels k = Some v}"

definition scope_admits :: "Scope \<Rightarrow> Target set" where
  "scope_admits sc =
     {t. sc_NamespaceGroups sc = []
       \<and> tgt_Ref t \<in> admits_any (sc_TargetRefs sc) ref_admits
       \<and> ref_Namespace (tgt_Ref t) \<in> admits_any (sc_Namespaces sc) (\<lambda>n. {n})
       \<and> tgt_NamespaceLabels t \<in> label_admits (sc_NamespaceLabels sc)
       \<and> ref_Name (tgt_Ref t) \<in> admits_any (sc_WorkloadNames sc) (\<lambda>n. {n})
       \<and> tgt_Labels t \<in> label_admits (sc_WorkloadLabels sc)}"

section \<open>Lemmas\<close>

named_theorems selector_simps "what each selector of a scope admits"

lemma targetRefMatches_iff: "targetRefMatches t r \<longleftrightarrow> t \<in> ref_admits r"
  by (auto simp: targetRefMatches_def ref_admits_def)

lemma matchesTargetRefs_iff [selector_simps]:
  "matchesTargetRefs t sc \<longleftrightarrow> tgt_Ref t \<in> admits_any (sc_TargetRefs sc) ref_admits"
  by (auto simp: matchesTargetRefs_def admits_any_def list_ex_iff targetRefMatches_iff)

lemma matchesNamespaceNames_iff [selector_simps]:
  "matchesNamespaceNames t sc \<longleftrightarrow> ref_Namespace (tgt_Ref t) \<in> admits_any (sc_Namespaces sc) (\<lambda>n. {n})"
  by (auto simp: matchesNamespaceNames_def admits_any_def list_ex_iff)

lemma matchesWorkloadNames_iff [selector_simps]:
  "matchesWorkloadNames t sc \<longleftrightarrow> ref_Name (tgt_Ref t) \<in> admits_any (sc_WorkloadNames sc) (\<lambda>n. {n})"
  by (auto simp: matchesWorkloadNames_def admits_any_def list_ex_iff)

lemma labelsMatch_iff: "labelsMatch labels sel \<longleftrightarrow> labels \<in> label_admits sel"
  by (cases sel) (auto simp: labelsMatch_def label_admits_def list_all_iff)

lemma matchesNamespaceLabels_iff [selector_simps]:
  "matchesNamespaceLabels t sc \<longleftrightarrow> tgt_NamespaceLabels t \<in> label_admits (sc_NamespaceLabels sc)"
  by (auto simp: matchesNamespaceLabels_def labelsMatch_iff label_admits_def)

lemma matchesWorkloadLabels_iff [selector_simps]:
  "matchesWorkloadLabels t sc \<longleftrightarrow> tgt_Labels t \<in> label_admits (sc_WorkloadLabels sc)"
  by (auto simp: matchesWorkloadLabels_def labelsMatch_iff label_admits_def)

lemma MatchesScope_admits: "MatchesScope t sc \<longleftrightarrow> t \<in> scope_admits sc"
  by (auto simp: MatchesScope_def scope_admits_def selector_simps)

lemma ComputeSpecificity_ClusterWide:
  "ComputeSpecificity sc = ScopeClusterWide \<longleftrightarrow>
     sc_TargetRefs sc = [] \<and> sc_WorkloadNames sc = [] \<and> sc_WorkloadLabels sc = [] \<and>
     sc_Namespaces sc = [] \<and> sc_NamespaceGroups sc = [] \<and> sc_NamespaceLabels sc = []"
  by (auto simp: ComputeSpecificity_def)

lemma admits_any_empty [simp]: "admits_any [] f = UNIV"
  by (simp add: admits_any_def)

lemma label_admits_empty [simp]: "label_admits [] = UNIV"
  by (simp add: label_admits_def)

lemma unlabelled_admitted_iff: "[] \<in> label_admits sel \<longleftrightarrow> sel = []"
  by (cases sel) (auto simp: label_admits_def)

section \<open>Properties\<close>

text \<open>
  C7. A scope selects exactly the intersection of what its non-empty selectors admit, and nothing
  at all while a namespace-group reference in it is unresolved.
\<close>

theorem MatchesScope_refines_admits: "{t. MatchesScope t sc} = scope_admits sc"
  by (simp add: MatchesScope_admits)

text \<open>
  The cluster-wide specificity is given exactly to the scopes that select every target: a
  scope admits all targets if and only if it is ranked below every namespace- or workload-level
  scope in priority resolution.
\<close>

theorem ComputeSpecificity_cluster_wide_iff:
  "ComputeSpecificity sc = ScopeClusterWide \<longleftrightarrow> {t. MatchesScope t sc} = UNIV"
proof
  assume "ComputeSpecificity sc = ScopeClusterWide"
  then show "{t. MatchesScope t sc} = UNIV"
    by (auto simp: ComputeSpecificity_ClusterWide MatchesScope_admits scope_admits_def)
next
  assume all: "{t. MatchesScope t sc} = UNIV"
  define fresh where "fresh xs = replicate (Suc (sum_list (map length xs))) CHR ''x''" for xs :: "string list"
  have fresh: "fresh xs \<notin> set xs" for xs
    using member_le_sum_list[of "length (fresh xs)" "map length xs"] by (force simp: fresh_def)
  define r where "r = \<lparr>ref_Cluster = '''', ref_APIVersion = '''',
     ref_Namespace = fresh (sc_Namespaces sc @ map ref_Namespace (sc_TargetRefs sc)),
     ref_Name = fresh (sc_WorkloadNames sc), ref_Kind = '''', ref_UID = ''''\<rparr>"
  define t where "t = \<lparr>tgt_Ref = r, tgt_ObservedState = \<lparr>obs_Replicas = 0, obs_Suspended = False\<rparr>,
     tgt_Ownership = [], tgt_Annotations = [], tgt_Labels = [], tgt_NamespaceLabels = [],
     tgt_Snapshot = None, tgt_LastTransition = None, tgt_DivergenceSince = None\<rparr>"
  have adm: "t \<in> scope_admits sc" using all MatchesScope_admits by blast
  have "sc_Namespaces sc = []"
    using adm fresh[of "sc_Namespaces sc @ map ref_Namespace (sc_TargetRefs sc)"]
    by (auto simp: scope_admits_def admits_any_def t_def r_def split: if_splits)
  moreover have "sc_TargetRefs sc = []"
    using adm fresh[of "sc_Namespaces sc @ map ref_Namespace (sc_TargetRefs sc)"]
    by (auto simp: scope_admits_def admits_any_def t_def r_def ref_admits_def split: if_splits)
  moreover have "sc_WorkloadNames sc = []"
    using adm fresh[of "sc_WorkloadNames sc"]
    by (auto simp: scope_admits_def admits_any_def t_def r_def split: if_splits)
  moreover have "sc_WorkloadLabels sc = []" "sc_NamespaceLabels sc = []" "sc_NamespaceGroups sc = []"
    using adm by (simp_all add: scope_admits_def unlabelled_admitted_iff t_def)
  ultimately show "ComputeSpecificity sc = ScopeClusterWide"
    by (simp add: ComputeSpecificity_ClusterWide)
qed

end
