(* ===== verification/Engine.thy ===== *)
theory Engine
  imports TimeWindows Scopes Guardrails "HOL-Library.Product_Lexorder"
begin

text \<open>
  The decision engine (\<open>src/internal/core/domain/engine.go\<close>): the rules that apply to a target are
  collected, ranked, and the winner is turned into a decision that the guardrails may block.
\<close>

section \<open>The operations\<close>

text \<open>The comparison function literal inside \<open>ResolvePriority\<close>.\<close>

definition compareRules :: "EvaluatedRule \<Rightarrow> EvaluatedRule \<Rightarrow> int" where
  "compareRules a b =
     (if rule_Priority (er_Ref a) \<noteq> rule_Priority (er_Ref b) then
        (if rule_Priority (er_Ref a) > rule_Priority (er_Ref b) then -1 else 1)
      else if er_EffectiveState a \<noteq> er_EffectiveState b then
        (if er_EffectiveState a = PowerStateOn then -1 else 1)
      else if er_Specificity a \<noteq> er_Specificity b then
        (if er_Specificity a > er_Specificity b then -1 else 1)
      else if rule_CreatedAt (er_Ref a) \<noteq> rule_CreatedAt (er_Ref b) then
        (if rule_CreatedAt (er_Ref a) > rule_CreatedAt (er_Ref b) then -1 else 1)
      else if rule_Name (er_Ref a) < rule_Name (er_Ref b) then -1
      else if rule_Name (er_Ref a) > rule_Name (er_Ref b) then 1
      else 0)"

definition ResolvePriority :: "EvaluatedRule list \<Rightarrow> EvaluatedRule \<times> EvaluatedRule list" where
  "ResolvePriority rules =
     (if length rules = 0 then (zero_EvaluatedRule, [])
      else if length rules = 1 then (rules ! 0, [])
      else
        let sorted = SortFunc compareRules rules
        in (sorted ! 0, drop 1 sorted))"

definition evaluatePolicy :: "tzdb \<Rightarrow> go_time \<Rightarrow> PolicySpec \<Rightarrow> EvaluatedRule" where
  "evaluatePolicy tz now policy =
     (let effectiveState = EvaluateSchedule tz (pol_Schedule policy) now;
          specificity = ComputeSpecificity (pol_Scope policy)
      in \<lparr>er_Ref = \<lparr>rule_Kind = RuleKindPolicy, rule_Name = pol_Name policy,
                     rule_Namespace = pol_Namespace policy, rule_Priority = pol_Priority policy,
                     rule_Specificity = specificity, rule_Description = pol_Description policy,
                     rule_CreatedAt = pol_CreatedAt policy\<rparr>,
          er_EffectiveState = effectiveState, er_Specificity = specificity\<rparr>)"

definition evaluateOverride :: "OverrideSpec \<Rightarrow> EvaluatedRule" where
  "evaluateOverride override =
     (let specificity = ComputeSpecificity (ovr_Scope override)
      in \<lparr>er_Ref = \<lparr>rule_Kind = RuleKindOverride, rule_Name = ovr_Name override,
                     rule_Namespace = ovr_Namespace override, rule_Priority = ovr_Priority override,
                     rule_Specificity = specificity, rule_Description = ovr_Reason override,
                     rule_CreatedAt = ovr_CreatedAt override\<rparr>,
          er_EffectiveState = ovr_State override, er_Specificity = specificity\<rparr>)"

definition collectApplicableRules ::
  "tzdb \<Rightarrow> Target \<Rightarrow> PolicySpec list \<Rightarrow> OverrideSpec list \<Rightarrow> go_time \<Rightarrow> EvaluatedRule list" where
  "collectApplicableRules tz target policies overrides now =
     map (evaluatePolicy tz now) (filter (\<lambda>p. MatchesScope target (pol_Scope p)) policies)
     @ map evaluateOverride
         (filter (\<lambda>v. \<not> IsExpired v now \<and> MatchesScope target (ovr_Scope v)) overrides)"

definition ComputeDecision ::
  "tzdb \<Rightarrow> Target \<Rightarrow> PolicySpec list \<Rightarrow> OverrideSpec list \<Rightarrow> GuardrailConfig \<Rightarrow> go_time \<Rightarrow> Decision" where
  "ComputeDecision tz target policies overrides config now =
     (if IsExempt target config then zero_Decision
      else
        let rules = collectApplicableRules tz target policies overrides now in
        if length rules = 0 then zero_Decision
        else
          let (winner, suppressed) = ResolvePriority rules;
              decision = zero_Decision\<lparr>dec_DesiredState := er_EffectiveState winner,
                                      dec_WinningRule := Some (er_Ref winner),
                                      dec_SuppressedRules := map er_Ref suppressed\<rparr>;
              blocks = EvaluateGuardrails target config;
              decision = (if dec_DesiredState decision = PowerStateOff \<and> length blocks > 0
                          then decision\<lparr>dec_BlockReasons := blocks\<rparr> else decision);
              observedPowerState =
                PowerStateFromObserved (tgt_ObservedState target) (ref_Kind (tgt_Ref target));
              decision = (if observedPowerState \<noteq> dec_DesiredState decision \<and> \<not> IsBlocked decision
                          then decision\<lparr>dec_Divergent := True\<rparr> else decision);
              decision = (if dec_DesiredState decision = PowerStateOff \<and> \<not> IsBlocked decision
                             \<and> tgt_Snapshot target = None
                          then decision\<lparr>dec_SnapshotRequired := True\<rparr> else decision)
          in decision)"

definition ComputeDecisions ::
  "tzdb \<Rightarrow> Target list \<Rightarrow> PolicySpec list \<Rightarrow> OverrideSpec list \<Rightarrow> GuardrailConfig \<Rightarrow> go_time \<Rightarrow> Decision list" where
  "ComputeDecisions tz targets policies overrides config now =
     map (\<lambda>target. ComputeDecision tz target policies overrides config now) targets"

section \<open>Specification: the rank of a rule\<close>

text \<open>
  Rules are ranked lexicographically: higher priority, then \<open>on\<close> before \<open>off\<close>, then the more
  specific scope, then the more recent creation, then the name.  The winner has the least key.
\<close>

type_synonym rule_key = "int \<times> bool \<times> int \<times> int \<times> string"

definition rule_key :: "EvaluatedRule \<Rightarrow> rule_key" where
  "rule_key r = (- rule_Priority (er_Ref r), er_EffectiveState r \<noteq> PowerStateOn,
     - specificity_rank (er_Specificity r), - rule_CreatedAt (er_Ref r), rule_Name (er_Ref r))"

text \<open>The same order written out: \<open>a\<close> is ranked no later than \<open>b\<close>.\<close>

definition ranked_before :: "EvaluatedRule \<Rightarrow> EvaluatedRule \<Rightarrow> bool" where
  "ranked_before a b \<longleftrightarrow>
     rule_Priority (er_Ref a) > rule_Priority (er_Ref b) \<or>
     rule_Priority (er_Ref a) = rule_Priority (er_Ref b) \<and>
       (er_EffectiveState a = PowerStateOn \<and> er_EffectiveState b \<noteq> PowerStateOn \<or>
        (er_EffectiveState a = PowerStateOn \<longleftrightarrow> er_EffectiveState b = PowerStateOn) \<and>
          (er_Specificity a > er_Specificity b \<or>
           er_Specificity a = er_Specificity b \<and>
             (rule_CreatedAt (er_Ref a) > rule_CreatedAt (er_Ref b) \<or>
              rule_CreatedAt (er_Ref a) = rule_CreatedAt (er_Ref b) \<and>
                rule_Name (er_Ref a) \<le> rule_Name (er_Ref b))))"

definition rules_valid :: "EvaluatedRule list \<Rightarrow> bool" where
  "rules_valid rules \<longleftrightarrow> (\<forall>r\<in>set rules. PowerState_IsValid (er_EffectiveState r))"

definition rule_set_valid :: "PolicySpec list \<Rightarrow> OverrideSpec list \<Rightarrow> bool" where
  "rule_set_valid ps os \<longleftrightarrow>
     (\<forall>p\<in>set ps. PowerState_IsValid (sch_DesiredState (pol_Schedule p))) \<and>
     (\<forall>v\<in>set os. PowerState_IsValid (ovr_State v))"

section \<open>Lemmas\<close>

lemma valid_state_cases:
  assumes "PowerState_IsValid s" and "PowerState_IsValid s'"
  obtains "s = s'" | "s = PowerStateOn" "s' = PowerStateOff" | "s = PowerStateOff" "s' = PowerStateOn"
  using assms by (auto simp: PowerState_IsValid_def)

lemma compareRules_key:
  assumes "PowerState_IsValid (er_EffectiveState a)" and "PowerState_IsValid (er_EffectiveState b)"
  shows "compareRules a b < 0 \<longleftrightarrow> rule_key a < rule_key b"
proof (cases "rule_Priority (er_Ref a) = rule_Priority (er_Ref b)")
  case True
  from assms show ?thesis
  proof (cases rule: valid_state_cases)
    case 1
    with True show ?thesis
      by (cases "rule_CreatedAt (er_Ref a) = rule_CreatedAt (er_Ref b)";
          cases "er_Specificity a = er_Specificity b")
        (simp_all add: compareRules_def rule_key_def less_ScopeSpecificity_def
          specificity_rank_inj less_le)
  qed (use True in \<open>simp_all add: compareRules_def rule_key_def\<close>)
qed (simp add: compareRules_def rule_key_def less_le)

lemma compareRules_strict_weak: "rules_valid rules \<Longrightarrow> strict_weak compareRules (set rules)"
  by (rule strict_weak_key[where key = rule_key]) (simp add: rules_valid_def compareRules_key)

lemma ResolvePriority_long:
  assumes "length rules > 1" and "ResolvePriority rules = (w, ws)"
  shows "SortFunc compareRules rules = w # ws"
proof -
  have "rules \<noteq> []" using assms(1) by auto
  then have "SortFunc compareRules rules \<noteq> []" by (simp add: go_sort.sort_Nil_iff)
  then obtain x xs where "SortFunc compareRules rules = x # xs" by (cases "SortFunc compareRules rules") simp_all
  with assms show ?thesis by (auto simp: ResolvePriority_def Let_def split: if_splits)
qed

lemma ResolvePriority_singleton [simp]: "ResolvePriority [r] = (r, [])"
  by (simp add: ResolvePriority_def)

lemma ResolvePriority_perm:
  assumes "ResolvePriority rules = (w, ws)" and "rules \<noteq> []"
  shows "mset (w # ws) = mset rules"
proof (cases "length rules > 1")
  case True
  then show ?thesis using assms ResolvePriority_long go_sort.sort_perm by metis
next
  case False
  with assms show ?thesis by (cases rules) auto
qed

lemma ResolvePriority_mem:
  "ResolvePriority rules = (w, ws) \<Longrightarrow> rules \<noteq> [] \<Longrightarrow> w \<in> set rules"
  using ResolvePriority_perm by (metis list.set_intros(1) set_mset_mset)

lemma ResolvePriority_least:
  assumes "ResolvePriority rules = (w, ws)" and "rules_valid rules" and "r \<in> set rules"
  shows "rule_key w \<le> rule_key r"
proof (cases "length rules > 1")
  case True
  have "SortFunc compareRules rules = w # ws" using True assms(1) by (rule ResolvePriority_long)
  then have "\<not> compareRules r w < 0"
    by (rule go_sort.head_least[OF compareRules_strict_weak[OF assms(2)] _ assms(3)])
  moreover have "w \<in> set rules" using ResolvePriority_mem assms(1,3) by fastforce
  ultimately show ?thesis
    using assms(2,3) compareRules_key[of r w] by (simp add: rules_valid_def not_less)
next
  case False
  with assms show ?thesis by (cases rules) auto
qed

lemma ranked_before_key: "ranked_before a b \<longleftrightarrow> rule_key a \<le> rule_key b"
  unfolding ranked_before_def rule_key_def
  by (auto simp: less_ScopeSpecificity_def specificity_rank_inj)

lemma ResolvePriority_ranked:
  assumes "ResolvePriority rules = (w, ws)" and "rules_valid rules" and "rules \<noteq> []"
  shows "sorted_wrt ranked_before (w # ws)"
proof (cases "length rules > 1")
  case True
  have sorted: "SortFunc compareRules rules = w # ws" using True assms(1) by (rule ResolvePriority_long)
  have "sorted_wrt (\<lambda>a b. \<not> compareRules b a < 0) (w # ws)"
    using go_sort.sort_ascending[OF compareRules_strict_weak[OF assms(2)]] sorted by simp
  moreover have mem: "set (w # ws) = set rules" using sorted go_sort.set_sort by metis
  have "ranked_before a b" if "a \<in> set (w # ws)" "b \<in> set (w # ws)" "\<not> compareRules b a < 0" for a b
    using that assms(2) mem compareRules_key[of b a] unfolding rules_valid_def ranked_before_key
    by (simp only: not_less)
  ultimately show ?thesis by (rule sorted_wrt_mono_rel[rotated])
next
  case False
  with assms show ?thesis by (cases rules) auto
qed

text \<open>Rules of pairwise different ranks have one ranking.\<close>

lemma ranking_unique:
  assumes "mset xs = mset ys" and "sorted_wrt ranked_before xs" and "sorted_wrt ranked_before ys"
    and "inj_on rule_key (set xs)"
  shows "xs = ys"
proof -
  have "sorted (map rule_key xs)" "sorted (map rule_key ys)"
    using assms(2,3) by (auto simp: sorted_wrt_map ranked_before_key elim!: sorted_wrt_mono_rel[rotated])
  moreover have "mset (map rule_key xs) = mset (map rule_key ys)" using assms(1) by simp
  ultimately have "map rule_key xs = map rule_key ys" by (metis properties_for_sort)
  moreover have "set xs = set ys" using assms(1) by (rule mset_eq_setD)
  ultimately show ?thesis using assms(4) by (metis map_inj_on sup.idem)
qed

lemma collect_valid:
  assumes "rule_set_valid ps os"
  shows "rules_valid (collectApplicableRules tz t ps os now)"
  unfolding rules_valid_def
proof
  fix r assume "r \<in> set (collectApplicableRules tz t ps os now)"
  then consider p where "p \<in> set ps" "r = evaluatePolicy tz now p"
    | v where "v \<in> set os" "r = evaluateOverride v"
    by (auto simp: collectApplicableRules_def)
  then show "PowerState_IsValid (er_EffectiveState r)"
    using assms EvaluateSchedule_valid
    by cases (simp_all add: rule_set_valid_def evaluatePolicy_def evaluateOverride_def Let_def)
qed

lemma mset_collect_cong:
  "mset ps = mset ps' \<Longrightarrow> mset os = mset os' \<Longrightarrow>
   mset (collectApplicableRules tz t ps os now) = mset (collectApplicableRules tz t ps' os' now)"
  by (simp add: collectApplicableRules_def)

text \<open>The winner's key does not depend on the order in which the rules were listed.\<close>

lemma winner_key_unique:
  assumes "ResolvePriority rs = (w, ws)" and "ResolvePriority rs' = (w', ws')"
    and "mset rs = mset rs'" and "rules_valid rs" and "rs \<noteq> []"
  shows "rule_key w = rule_key w'"
proof -
  have sets: "set rs = set rs'" using assms(3) by (metis set_mset_mset)
  then have valid': "rules_valid rs'" and ne: "rs' \<noteq> []" using assms(4,5) by (auto simp: rules_valid_def)
  have "w \<in> set rs'" using ResolvePriority_mem[OF assms(1,5)] sets by simp
  moreover have "w' \<in> set rs" using ResolvePriority_mem[OF assms(2) ne] sets by simp
  ultimately show ?thesis
    using ResolvePriority_least[OF assms(1,4)] ResolvePriority_least[OF assms(2) valid']
    by (meson order_antisym)
qed

lemma rule_key_state:
  assumes "rule_key a = rule_key b" "PowerState_IsValid (er_EffectiveState a)"
    "PowerState_IsValid (er_EffectiveState b)"
  shows "er_EffectiveState a = er_EffectiveState b"
  using assms by (auto simp: rule_key_def PowerState_IsValid_def)

text \<open>The decision in closed form.\<close>

lemma ComputeDecision_eq:
  "ComputeDecision tz t ps os c now =
     (let rules = collectApplicableRules tz t ps os now;
          winner = fst (ResolvePriority rules); suppressed = snd (ResolvePriority rules);
          desired = er_EffectiveState winner;
          blocks = (if desired = PowerStateOff then EvaluateGuardrails t c else [])
      in if IsExempt t c \<or> rules = [] then zero_Decision
         else \<lparr>dec_DesiredState = desired, dec_WinningRule = Some (er_Ref winner),
               dec_SuppressedRules = map er_Ref suppressed, dec_BlockReasons = blocks,
               dec_Divergent =
                 (PowerStateFromObserved (tgt_ObservedState t) (ref_Kind (tgt_Ref t)) \<noteq> desired
                  \<and> blocks = []),
               dec_SnapshotRequired =
                 (desired = PowerStateOff \<and> blocks = [] \<and> tgt_Snapshot t = None)\<rparr>)"
  by (auto simp: ComputeDecision_def zero_Decision_def IsBlocked_def Let_def split: prod.splits)

lemma ComputeDecision_managed:
  "IsManaged (ComputeDecision tz t ps os c now) \<longleftrightarrow>
     \<not> IsExempt t c \<and> collectApplicableRules tz t ps os now \<noteq> []"
  by (auto simp: ComputeDecision_eq IsManaged_def zero_Decision_def Let_def)

lemma ComputeDecision_blocks:
  "dec_BlockReasons (ComputeDecision tz t ps os c now) =
     (if dec_DesiredState (ComputeDecision tz t ps os c now) = PowerStateOff
      then EvaluateGuardrails t c else [])"
  by (auto simp: ComputeDecision_eq Let_def)

lemma ComputeDecision_blocked_iff:
  "IsBlocked (ComputeDecision tz t ps os c now) \<longleftrightarrow>
     dec_DesiredState (ComputeDecision tz t ps os c now) = PowerStateOff \<and> EvaluateGuardrails t c \<noteq> []"
  by (simp add: IsBlocked_def ComputeDecision_blocks)

lemma ComputeDecision_blocked_quiet:
  "IsBlocked (ComputeDecision tz t ps os c now) \<Longrightarrow>
   \<not> dec_Divergent (ComputeDecision tz t ps os c now) \<and>
   \<not> dec_SnapshotRequired (ComputeDecision tz t ps os c now)"
  unfolding ComputeDecision_eq IsBlocked_def by (auto simp: Let_def)

lemma ComputeDecision_not_exempt:
  "dec_DesiredState (ComputeDecision tz t ps os c now) \<noteq> '''' \<Longrightarrow> \<not> IsExempt t c"
  by (auto simp: ComputeDecision_eq Let_def split: if_splits)

lemma ComputeDecision_winner:
  assumes "IsManaged (ComputeDecision tz t ps os c now)"
  obtains w ws where "ResolvePriority (collectApplicableRules tz t ps os now) = (w, ws)"
    and "w \<in> set (collectApplicableRules tz t ps os now)"
    and "dec_DesiredState (ComputeDecision tz t ps os c now) = er_EffectiveState w"
    and "dec_WinningRule (ComputeDecision tz t ps os c now) = Some (er_Ref w)"
    and "dec_SuppressedRules (ComputeDecision tz t ps os c now) = map er_Ref ws"
proof -
  have ne: "\<not> IsExempt t c" "collectApplicableRules tz t ps os now \<noteq> []"
    using assms by (simp_all add: ComputeDecision_managed)
  obtain w ws where w: "ResolvePriority (collectApplicableRules tz t ps os now) = (w, ws)"
    by (cases "ResolvePriority (collectApplicableRules tz t ps os now)")
  show ?thesis
    by (rule that[OF w ResolvePriority_mem[OF w ne(2)]]) (use ne w in \<open>simp_all add: ComputeDecision_eq Let_def\<close>)
qed

lemma ComputeDecision_unmanaged:
  "\<not> IsManaged (ComputeDecision tz t ps os c now) \<Longrightarrow> ComputeDecision tz t ps os c now = zero_Decision"
  unfolding ComputeDecision_managed by (auto simp: ComputeDecision_eq Let_def)

text \<open>The decision on a ranking, and the rules it shows.\<close>

definition decision_of :: "Target \<Rightarrow> GuardrailConfig \<Rightarrow> EvaluatedRule \<Rightarrow> EvaluatedRule list \<Rightarrow> Decision" where
  "decision_of t c w ws =
     (let desired = er_EffectiveState w;
          blocks = (if desired = PowerStateOff then EvaluateGuardrails t c else [])
      in \<lparr>dec_DesiredState = desired, dec_WinningRule = Some (er_Ref w),
          dec_SuppressedRules = map er_Ref ws, dec_BlockReasons = blocks,
          dec_Divergent =
            (PowerStateFromObserved (tgt_ObservedState t) (ref_Kind (tgt_Ref t)) \<noteq> desired \<and> blocks = []),
          dec_SnapshotRequired = (desired = PowerStateOff \<and> blocks = [] \<and> tgt_Snapshot t = None)\<rparr>)"

definition shown_rules :: "Decision \<Rightarrow> RuleRef list" where
  "shown_rules d = (case dec_WinningRule d of None \<Rightarrow> [] | Some r \<Rightarrow> [r]) @ dec_SuppressedRules d"

lemma ComputeDecision_resolved:
  "\<not> IsExempt t c \<Longrightarrow> collectApplicableRules tz t ps os now \<noteq> [] \<Longrightarrow>
   ResolvePriority (collectApplicableRules tz t ps os now) = (w, ws) \<Longrightarrow>
   ComputeDecision tz t ps os c now = decision_of t c w ws"
  by (simp add: ComputeDecision_eq decision_of_def Let_def)

lemma resolved_order_independent:
  assumes "ResolvePriority rs = (w, ws)" and "ResolvePriority rs' = (w', ws')"
    and "mset rs = mset rs'" and "rules_valid rs" and "rs \<noteq> []"
  shows "er_EffectiveState w = er_EffectiveState w' \<and> rule_key w = rule_key w' \<and>
    mset (w # ws) = mset (w' # ws') \<and> (inj_on rule_key (set rs) \<longrightarrow> w = w' \<and> ws = ws')"
proof -
  have sets: "set rs = set rs'" using assms(3) by (rule mset_eq_setD)
  then have valid': "rules_valid rs'" and ne: "rs' \<noteq> []" using assms(4,5) by (auto simp: rules_valid_def)
  have key: "rule_key w = rule_key w'" using assms by (rule winner_key_unique)
  have "w \<in> set rs" "w' \<in> set rs"
    using ResolvePriority_mem[OF assms(1,5)] ResolvePriority_mem[OF assms(2) ne] sets by simp_all
  then have state: "er_EffectiveState w = er_EffectiveState w'"
    using rule_key_state[OF key] assms(4) by (simp add: rules_valid_def)
  have perm: "mset (w # ws) = mset rs" "mset (w' # ws') = mset rs'"
    using ResolvePriority_perm assms(1,2,5) ne by blast+
  have "w # ws = w' # ws'" if "inj_on rule_key (set rs)"
  proof (rule ranking_unique)
    show "mset (w # ws) = mset (w' # ws')" using perm assms(3) by simp
    show "inj_on rule_key (set (w # ws))" using that mset_eq_setD[OF perm(1)] by simp
  qed (rule ResolvePriority_ranked, fact+)+
  with key state perm assms(3) show ?thesis by simp
qed

lemma collect_expired:
  "IsExpired v now \<Longrightarrow>
   collectApplicableRules tz t ps (os @ v # os') now = collectApplicableRules tz t ps (os @ os') now"
  by (simp add: collectApplicableRules_def)

section \<open>Properties\<close>

text \<open>
  C4. Conflict resolution is a ranking: for a non-empty list of rules with valid states, the winner
  together with the suppressed rules are exactly the given rules, in the order of their ranks: higher
  priority first, at the same priority a rule that wants the workload on before every rule that wants
  it off, then the more specific scope, then the more recent creation, then the name.  So no given
  rule is ranked before the winner, and the suppressed rules are listed from the next best down.
\<close>

theorem ResolvePriority_selects_maximal:
  assumes "ResolvePriority rules = (w, ws)" and "rules \<noteq> []" and "rules_valid rules"
  shows "mset (w # ws) = mset rules \<and>
    (\<forall>r\<in>set rules. rule_Priority (er_Ref r) \<le> rule_Priority (er_Ref w)) \<and>
    (\<forall>r\<in>set rules. rule_Priority (er_Ref r) = rule_Priority (er_Ref w) \<longrightarrow>
       er_EffectiveState r = PowerStateOn \<longrightarrow> er_EffectiveState w = PowerStateOn) \<and>
    (\<forall>r\<in>set rules. rule_Priority (er_Ref r) = rule_Priority (er_Ref w) \<longrightarrow>
       er_EffectiveState r = er_EffectiveState w \<longrightarrow> er_Specificity r \<le> er_Specificity w) \<and>
    (\<forall>r\<in>set rules. ranked_before w r) \<and>
    sorted_wrt ranked_before (w # ws)"
proof -
  have least: "rule_key w \<le> rule_key r" if "r \<in> set rules" for r
    using ResolvePriority_least[OF assms(1,3) that] .
  show ?thesis
    using ResolvePriority_perm[OF assms(1,2)] ResolvePriority_ranked[OF assms(1,3,2)] least
    by (fastforce simp: rule_key_def less_eq_ScopeSpecificity_def ranked_before_key)
qed

definition sample_rule :: "string \<Rightarrow> int \<Rightarrow> PowerState \<Rightarrow> int \<Rightarrow> EvaluatedRule" where
  "sample_rule name prio st created =
     \<lparr>er_Ref = \<lparr>rule_Kind = RuleKindPolicy, rule_Name = name, rule_Namespace = '''',
        rule_Priority = prio, rule_Specificity = ScopeNamespace, rule_Description = '''',
        rule_CreatedAt = created\<rparr>, er_EffectiveState = st, er_Specificity = ScopeNamespace\<rparr>"

definition sample_rules :: "EvaluatedRule list" where
  "sample_rules = [sample_rule ''a'' 1 PowerStateOff 9, sample_rule ''e'' 5 PowerStateOn 2,
     sample_rule ''b'' 5 PowerStateOff 9, sample_rule ''d'' 5 PowerStateOn 3, sample_rule ''c'' 5 PowerStateOn 3]"

theorem ResolvePriority_selects_maximal_witness:
  "ResolvePriority sample_rules = (sample_rule ''c'' 5 PowerStateOn 3,
      [sample_rule ''d'' 5 PowerStateOn 3, sample_rule ''e'' 5 PowerStateOn 2,
       sample_rule ''b'' 5 PowerStateOff 9, sample_rule ''a'' 1 PowerStateOff 9]) \<and>
   sorted_wrt ranked_before (sample_rule ''c'' 5 PowerStateOn 3 #
      [sample_rule ''d'' 5 PowerStateOn 3, sample_rule ''e'' 5 PowerStateOn 2,
       sample_rule ''b'' 5 PowerStateOff 9, sample_rule ''a'' 1 PowerStateOff 9])"
proof -
  have run: "ResolvePriority sample_rules = (sample_rule ''c'' 5 PowerStateOn 3,
      [sample_rule ''d'' 5 PowerStateOn 3, sample_rule ''e'' 5 PowerStateOn 2,
       sample_rule ''b'' 5 PowerStateOff 9, sample_rule ''a'' 1 PowerStateOff 9])"
    by code_simp
  have valid: "rules_valid sample_rules" and ne: "sample_rules \<noteq> []" by code_simp+
  show ?thesis using ResolvePriority_selects_maximal[OF run ne valid] run by blast
qed

definition all_off :: OverrideSpec where
  "all_off = \<lparr>ovr_Name = ''all-off'', ovr_Namespace = ''aura'',
     ovr_Scope = \<lparr>sc_TargetRefs = [], sc_Namespaces = [], sc_NamespaceGroups = [],
        sc_NamespaceLabels = [], sc_WorkloadNames = [], sc_WorkloadLabels = []\<rparr>,
     ovr_State = PowerStateOff, ovr_Priority = 100, ovr_ExpiresAt = 50, ovr_Reason = ''drill'',
     ovr_Reference = '''', ovr_CreatedAt = 0\<rparr>"

text \<open>
  C5. The order in which the same policies and overrides are listed (an API server promises none)
  never changes what the decision does: the desired state, the management status, the block reasons,
  the divergence and the snapshot requirement are the same, the winner has the same rank (so the same
  name, priority and creation time), and the rules shown, winner and suppressed together, are the
  same.  When no two applicable rules have the same rank, which different names ensure, the two
  decisions are equal: same winning rule, same suppressed rules in the same order.
\<close>

theorem ComputeDecision_order_independent:
  assumes "mset ps = mset ps'" and "mset os = mset os'" and "rule_set_valid ps os"
  shows "let d = ComputeDecision tz t ps os c now; d' = ComputeDecision tz t ps' os' c now in
    dec_DesiredState d = dec_DesiredState d' \<and> IsManaged d = IsManaged d' \<and>
    dec_BlockReasons d = dec_BlockReasons d' \<and> dec_Divergent d = dec_Divergent d' \<and>
    dec_SnapshotRequired d = dec_SnapshotRequired d' \<and>
    map_option rule_Name (dec_WinningRule d) = map_option rule_Name (dec_WinningRule d') \<and>
    map_option rule_Priority (dec_WinningRule d) = map_option rule_Priority (dec_WinningRule d') \<and>
    map_option rule_CreatedAt (dec_WinningRule d) = map_option rule_CreatedAt (dec_WinningRule d') \<and>
    mset (shown_rules d) = mset (shown_rules d') \<and>
    (inj_on rule_key (set (collectApplicableRules tz t ps os now)) \<longrightarrow> d = d')"
proof (cases "IsManaged (ComputeDecision tz t ps os c now)")
  case True
  let ?d = "ComputeDecision tz t ps os c now" and ?d' = "ComputeDecision tz t ps' os' c now"
  let ?rs = "collectApplicableRules tz t ps os now" and ?rs' = "collectApplicableRules tz t ps' os' now"
  obtain w ws where w: "ResolvePriority ?rs = (w, ws)" by (cases "ResolvePriority ?rs")
  obtain w' ws' where w': "ResolvePriority ?rs' = (w', ws')" by (cases "ResolvePriority ?rs'")
  have ms: "mset ?rs = mset ?rs'" using assms(1,2) by (rule mset_collect_cong)
  have ne: "\<not> IsExempt t c" "?rs \<noteq> []" "?rs' \<noteq> []" using True ms by (auto simp: ComputeDecision_managed)
  note resolved = resolved_order_independent[OF w w' ms collect_valid[OF assms(3)] ne(2)]
  have d: "?d = decision_of t c w ws" "?d' = decision_of t c w' ws'"
    using ne w w' by (simp_all add: ComputeDecision_resolved)
  have "mset (w # ws) = mset (w' # ws')" using resolved by blast
  then have "mset (map er_Ref (w # ws)) = mset (map er_Ref (w' # ws'))" by (simp only: mset_map)
  then have "mset (shown_rules ?d) = mset (shown_rules ?d')"
    unfolding d by (simp add: shown_rules_def decision_of_def Let_def)
  moreover have "rule_Name (er_Ref w) = rule_Name (er_Ref w')"
    "rule_Priority (er_Ref w) = rule_Priority (er_Ref w')"
    "rule_CreatedAt (er_Ref w) = rule_CreatedAt (er_Ref w')"
    using resolved unfolding rule_key_def by simp_all
  moreover have "?d = ?d'" if "inj_on rule_key (set ?rs)" using resolved that unfolding d by blast
  moreover have "er_EffectiveState w = er_EffectiveState w'" using resolved by blast
  ultimately show ?thesis unfolding Let_def d by (simp add: decision_of_def IsManaged_def Let_def)
next
  case False
  then have "\<not> IsManaged (ComputeDecision tz t ps' os' c now)"
    using mset_collect_cong[OF assms(1,2), of tz t now] by (auto simp: ComputeDecision_managed)
  with False show ?thesis by (simp add: ComputeDecision_unmanaged)
qed

theorem ComputeDecision_order_independent_witness:
  "dec_WinningRule (ComputeDecision (\<lambda>_. None) sample_target []
      [all_off, all_off\<lparr>ovr_Name := ''keep'', ovr_State := PowerStateOn\<rparr>] DefaultGuardrailConfig 10) \<noteq> None \<and>
   ComputeDecision (\<lambda>_. None) sample_target []
      [all_off, all_off\<lparr>ovr_Name := ''keep'', ovr_State := PowerStateOn\<rparr>] DefaultGuardrailConfig 10 =
   ComputeDecision (\<lambda>_. None) sample_target []
      [all_off\<lparr>ovr_Name := ''keep'', ovr_State := PowerStateOn\<rparr>, all_off] DefaultGuardrailConfig 10"
proof -
  let ?k = "all_off\<lparr>ovr_Name := ''keep'', ovr_State := PowerStateOn\<rparr>"
  have "mset [all_off, ?k] = mset [?k, all_off]" by simp
  moreover have "rule_set_valid [] [all_off, ?k]" by code_simp
  moreover have "inj_on rule_key (set (collectApplicableRules (\<lambda>_. None) sample_target [] [all_off, ?k] 10))"
  proof -
    have "distinct (map rule_key (collectApplicableRules (\<lambda>_. None) sample_target [] [all_off, ?k] 10))"
      by code_simp
    then show ?thesis by (simp add: distinct_map)
  qed
  moreover have "dec_WinningRule (ComputeDecision (\<lambda>_. None) sample_target [] [all_off, ?k]
      DefaultGuardrailConfig 10) \<noteq> None" by code_simp
  ultimately show ?thesis
    using ComputeDecision_order_independent[of "[]" "[]" "[all_off, ?k]" "[?k, all_off]" "\<lambda>_. None"
      sample_target DefaultGuardrailConfig 10] unfolding Let_def by blast
qed

text \<open>
  Safety of the protected namespaces: whatever the rules, the annotations and the opt-ins say, a
  workload in a system or blocklisted namespace is never reported as divergent towards off, never
  asked for a snapshot, and a decision to turn it off carries a block reason.  Conversely, a
  decision to turn a workload on is never blocked.
\<close>

theorem protected_namespace_never_off:
  assumes "ref_Namespace (tgt_Ref t) \<in> set (gc_SystemNamespaces c) \<union> set (gc_CustomBlocklist c)"
  shows "(let d = ComputeDecision tz t ps os c now in
     (dec_DesiredState d = PowerStateOff \<longrightarrow>
        IsBlocked d \<and> \<not> dec_Divergent d \<and> \<not> dec_SnapshotRequired d \<and>
        (\<exists>b\<in>set (dec_BlockReasons d). br_Type b = BlockSystemNamespace \<and> \<not> br_Waivable b)) \<and>
     (dec_DesiredState d = PowerStateOn \<longrightarrow> \<not> IsBlocked d))"
proof -
  let ?d = "ComputeDecision tz t ps os c now"
  have sys: "IsSystemNamespace (ref_Namespace (tgt_Ref t)) c"
    using assms by (simp add: IsSystemNamespace_iff)
  have "IsBlocked ?d \<and> \<not> dec_Divergent ?d \<and> \<not> dec_SnapshotRequired ?d \<and>
      (\<exists>b\<in>set (dec_BlockReasons ?d). br_Type b = BlockSystemNamespace \<and> \<not> br_Waivable b)"
    if off: "dec_DesiredState ?d = PowerStateOff"
  proof -
    have ne: "\<not> IsExempt t c"
      using off ComputeDecision_not_exempt[of tz t ps os c now] by simp
    have blocks: "EvaluateGuardrails t c \<noteq> []"
      using ne sys by (simp add: EvaluateGuardrails_Nil_iff)
    then have bl: "IsBlocked ?d" using off by (simp add: ComputeDecision_blocked_iff)
    obtain b where b: "checkSystemNamespace t c = Some b" "br_Type b = BlockSystemNamespace" "\<not> br_Waivable b"
      using sys by (auto simp: checkSystemNamespace_def)
    then have "b \<in> set (EvaluateGuardrails t c)" using ne sys by (simp add: EvaluateGuardrails_members)
    then have "\<exists>b\<in>set (dec_BlockReasons ?d). br_Type b = BlockSystemNamespace \<and> \<not> br_Waivable b"
      using b off by (auto simp: ComputeDecision_blocks)
    with bl ComputeDecision_blocked_quiet[OF bl] show ?thesis by simp
  qed
  then show ?thesis by (simp add: Let_def ComputeDecision_blocked_iff)
qed

definition kube_system_target :: Target where
  "kube_system_target = sample_target\<lparr>tgt_Ref := sample_ref\<lparr>ref_Namespace := ''kube-system''\<rparr>,
     tgt_Annotations := [(''aura.sh/power-eligible'', ''true'')]\<rparr>"

theorem protected_namespace_never_off_witness:
  "dec_DesiredState (ComputeDecision (\<lambda>_. None) kube_system_target [] [all_off] DefaultGuardrailConfig 10)
     = PowerStateOff \<and>
   IsBlocked (ComputeDecision (\<lambda>_. None) kube_system_target [] [all_off] DefaultGuardrailConfig 10)"
proof -
  have ns: "ref_Namespace (tgt_Ref kube_system_target) \<in> set (gc_SystemNamespaces DefaultGuardrailConfig)
      \<union> set (gc_CustomBlocklist DefaultGuardrailConfig)"
    by code_simp
  have "dec_DesiredState (ComputeDecision (\<lambda>_. None) kube_system_target [] [all_off] DefaultGuardrailConfig 10)
     = PowerStateOff"
    by code_simp
  then show ?thesis
    using protected_namespace_never_off[OF ns, of "\<lambda>_. None" "[]" "[all_off]" 10]
    by (simp add: Let_def)
qed

text \<open>
  An override whose expiry has been reached is inert: wherever it stands in the list, the
  decision is the one computed without it.
\<close>

theorem expired_override_inert:
  "ovr_ExpiresAt v \<le> now \<Longrightarrow>
   ComputeDecision tz t ps (os @ v # os') c now = ComputeDecision tz t ps (os @ os') c now"
  by (simp add: ComputeDecision_def collect_expired IsExpired_def)

theorem expired_override_inert_witness:
  "ovr_ExpiresAt all_off \<le> 50 \<and>
   ComputeDecision (\<lambda>_. None) sample_target [] [all_off] DefaultGuardrailConfig 50 = zero_Decision \<and>
   ComputeDecision (\<lambda>_. None) sample_target [] [all_off] DefaultGuardrailConfig 49 \<noteq> zero_Decision"
proof -
  have e: "ovr_ExpiresAt all_off \<le> 50" by (simp add: all_off_def)
  have "ComputeDecision (\<lambda>_. None) sample_target [] [] DefaultGuardrailConfig 50 = zero_Decision"
    by (simp add: ComputeDecision_def collectApplicableRules_def)
  moreover have "dec_DesiredState (ComputeDecision (\<lambda>_. None) sample_target [] [all_off] DefaultGuardrailConfig 49)
      = PowerStateOff"
    by code_simp
  ultimately show ?thesis
    using e expired_override_inert[OF e, of "\<lambda>_. None" sample_target "[]" "[]" "[]" DefaultGuardrailConfig]
    by auto
qed

end
