(* ===== verification/Selection.thy ===== *)
theory Selection
  imports Effects Engine
begin

text \<open>
  From API objects to the domain: the resolution of namespace groups
  (\<open>src/internal/adapters/selection/scope.go\<close>), the conversions at the end of
  \<open>src/internal/adapters/driving/reconciler/target_reconciler.go\<close>, and \<open>fromTargetRef\<close> of
  \<open>src/internal/adapters/driven/kubernetes/helpers.go\<close>.
\<close>

section \<open>Scope resolution\<close>

definition fromTargetRef :: "TargetReference \<Rightarrow> WorkloadRef" where
  "fromTargetRef ref =
     \<lparr>ref_Cluster = tref_Cluster ref, ref_APIVersion = tref_APIVersion ref,
      ref_Namespace = tref_Namespace ref, ref_Name = tref_Name ref, ref_Kind = tref_Kind ref,
      ref_UID = tref_UID ref\<rparr>"

definition targetReferences :: "TargetReference list \<Rightarrow> WorkloadRef list" where
  "targetReferences refs =
     map (\<lambda>ref. \<lparr>ref_Cluster = tref_Cluster ref, ref_APIVersion = tref_APIVersion ref,
                 ref_Namespace = tref_Namespace ref, ref_Name = tref_Name ref,
                 ref_Kind = tref_Kind ref, ref_UID = tref_UID ref\<rparr>) refs"

text \<open>A copy of a map has the same entries.\<close>

definition cloneMap :: "strmap \<Rightarrow> strmap" where
  "cloneMap source = source"

text \<open>The inner loop over the namespaces of one group: \<open>seen\<close> and \<open>resolved.Namespaces\<close> grow together.\<close>

fun addNamespaces :: "string list \<Rightarrow> string list \<Rightarrow> string list \<Rightarrow> string list \<times> string list" where
  "addNamespaces [] seen resolved = (seen, resolved)"
| "addNamespaces (namespace # rest) seen resolved =
     (if namespace \<in> set seen then addNamespaces rest seen resolved
      else addNamespaces rest (namespace # seen) (resolved @ [namespace]))"

definition getGroup :: "env \<Rightarrow> NamespacedName \<Rightarrow> PowerNamespaceGroup result io" where
  "getGroup E key = call (\<lambda>tr. env_GetGroup E tr key) (GetGroup key)"

fun resolveGroups ::
  "env \<Rightarrow> string \<Rightarrow> string list \<Rightarrow> string list \<Rightarrow> string list \<Rightarrow> string list result io" where
  "resolveGroups E ruleNamespace [] seen resolved = return (Inr resolved)"
| "resolveGroups E ruleNamespace (name # names) seen resolved = do {
     r \<leftarrow> getGroup E \<lparr>nn_Namespace = ruleNamespace, nn_Name = name\<rparr>;
     case r of
       Inl err \<Rightarrow> return (Inl (wrap_error (''resolve namespace group '' @ go_quote name @
                    '' in namespace '' @ go_quote ruleNamespace @ '': '') err ''''))
     | Inr grp \<Rightarrow>
         (let (seen, resolved) = addNamespaces (png_Namespaces grp) seen resolved
          in resolveGroups E ruleNamespace names seen resolved)
   }"

definition ResolveScope :: "env \<Rightarrow> string \<Rightarrow> PolicyScope \<Rightarrow> Scope result io" where
  "ResolveScope E ruleNamespace scope = do {
     r \<leftarrow> resolveGroups E ruleNamespace (scope_NamespaceGroups scope) (scope_Namespaces scope)
            (scope_Namespaces scope);
     case r of
       Inl err \<Rightarrow> return (Inl err)
     | Inr namespaces \<Rightarrow> return (Inr
         \<lparr>sc_TargetRefs = targetReferences (scope_TargetRefs scope), sc_Namespaces = namespaces,
          sc_NamespaceGroups = [], sc_NamespaceLabels = cloneMap (scope_NamespaceLabels scope),
          sc_WorkloadNames = scope_WorkloadNames scope,
          sc_WorkloadLabels = cloneMap (scope_WorkloadLabels scope)\<rparr>)
   }"

text \<open>\<open>selection.Target\<close>: the projection of a target used by scope matching only.\<close>

definition selection_Target :: "PowerTarget \<Rightarrow> Target" where
  "selection_Target target =
     \<lparr>tgt_Ref = \<lparr>ref_Cluster = tref_Cluster (pt_TargetRef target),
                 ref_APIVersion = tref_APIVersion (pt_TargetRef target),
                 ref_Namespace = tref_Namespace (pt_TargetRef target),
                 ref_Name = tref_Name (pt_TargetRef target),
                 ref_Kind = tref_Kind (pt_TargetRef target), ref_UID = tref_UID (pt_TargetRef target)\<rparr>,
      tgt_ObservedState = \<lparr>obs_Replicas = 0, obs_Suspended = False\<rparr>, tgt_Ownership = [],
      tgt_Annotations = [], tgt_Labels = cloneMap (ts_WorkloadLabels (pt_Status target)),
      tgt_NamespaceLabels = cloneMap (ts_NamespaceLabels (pt_Status target)), tgt_Snapshot = None,
      tgt_LastTransition = None, tgt_DivergenceSince = None\<rparr>"

section \<open>Conversions\<close>

text \<open>\<open>s[i]-'0'\<close> is byte arithmetic and wraps.\<close>

definition byte_digit :: "string \<Rightarrow> nat \<Rightarrow> int" where
  "byte_digit s i = (of_char (s ! i) - 48) mod 256"

definition parseTimeOfDay :: "string \<Rightarrow> TimeOfDay" where
  "parseTimeOfDay s =
     (if length s \<ge> 5
      then \<lparr>tod_Hour = byte_digit s 0 * 10 + byte_digit s 1,
            tod_Minute = byte_digit s 3 * 10 + byte_digit s 4\<rparr>
      else \<lparr>tod_Hour = 0, tod_Minute = 0\<rparr>)"

definition toDomainTimeWindow :: "TimeWindowSpec \<Rightarrow> TimeWindow" where
  "toDomainTimeWindow w =
     \<lparr>tw_Start = parseTimeOfDay (tws_Start w), tw_End = parseTimeOfDay (tws_End w),
      tw_Days = tws_Days w, tw_Timezone = tws_Timezone w\<rparr>"

definition toDomainTargetReferences :: "TargetReference list \<Rightarrow> WorkloadRef list" where
  "toDomainTargetReferences refs =
     map (\<lambda>ref. \<lparr>ref_Cluster = tref_Cluster ref, ref_APIVersion = tref_APIVersion ref,
                 ref_Namespace = tref_Namespace ref, ref_Name = tref_Name ref,
                 ref_Kind = tref_Kind ref, ref_UID = tref_UID ref\<rparr>) refs"

definition toDomainScope :: "PolicyScope \<Rightarrow> Scope" where
  "toDomainScope s =
     \<lparr>sc_TargetRefs = toDomainTargetReferences (scope_TargetRefs s),
      sc_Namespaces = scope_Namespaces s, sc_NamespaceGroups = scope_NamespaceGroups s,
      sc_NamespaceLabels = scope_NamespaceLabels s, sc_WorkloadNames = scope_WorkloadNames s,
      sc_WorkloadLabels = scope_WorkloadLabels s\<rparr>"

definition toDomainPolicy :: "PowerPolicy \<Rightarrow> PolicySpec" where
  "toDomainPolicy p =
     \<lparr>pol_Name = om_Name (pp_Meta p), pol_Namespace = om_Namespace (pp_Meta p),
      pol_Scope = toDomainScope (pps_Scope (pp_Spec p)),
      pol_Schedule = \<lparr>sch_Windows = map toDomainTimeWindow (psch_Windows (pps_Schedule (pp_Spec p))),
                      sch_DesiredState = psch_DesiredState (pps_Schedule (pp_Spec p))\<rparr>,
      pol_Priority = pps_Priority (pp_Spec p), pol_Description = pps_Description (pp_Spec p),
      pol_CreatedAt = om_CreationTimestamp (pp_Meta p)\<rparr>"

definition toDomainOverride :: "PowerOverride \<Rightarrow> OverrideSpec" where
  "toDomainOverride ov =
     \<lparr>ovr_Name = om_Name (po_Meta ov), ovr_Namespace = om_Namespace (po_Meta ov),
      ovr_Scope = toDomainScope (pos_Scope (po_Spec ov)), ovr_State = pos_State (po_Spec ov),
      ovr_Priority = pos_Priority (po_Spec ov), ovr_ExpiresAt = pos_ExpiresAt (po_Spec ov),
      ovr_Reason = pos_Reason (po_Spec ov), ovr_Reference = pos_Reference (po_Spec ov),
      ovr_CreatedAt = om_CreationTimestamp (po_Meta ov)\<rparr>"

definition toDomainTarget :: "PowerTarget \<Rightarrow> Target" where
  "toDomainTarget t =
     (let st = pt_Status t; tr = pt_TargetRef t;
          ref = \<lparr>ref_Cluster = tref_Cluster tr, ref_APIVersion = tref_APIVersion tr,
                 ref_Namespace = tref_Namespace tr, ref_Name = tref_Name tr,
                 ref_Kind = tref_Kind tr, ref_UID = tref_UID tr\<rparr>;
          observed = \<lparr>obs_Replicas = oss_Replicas (ts_ObservedState st),
                      obs_Suspended = oss_Suspended (ts_ObservedState st)\<rparr>;
          snapshot = (case ts_Snapshot st of
              Some s \<Rightarrow> (if sn_Available s
                 then Some \<lparr>snap_ReplicaCount = sn_ReplicaCount s, snap_Suspended = sn_Suspended s,
                            snap_Resources = sn_Resources s, snap_CapturedAt = zero_time,
                            snap_ResourceVersion = sn_ResourceVersion s\<rparr>
                 else None)
            | None \<Rightarrow> None);
          ownership = map (\<lambda>x. \<lparr>own_Type = os_Type x, own_OptedIn = os_OptedIn x\<rparr>) (ts_Ownership st)
      in \<lparr>tgt_Ref = ref, tgt_ObservedState = observed, tgt_Ownership = ownership,
          tgt_Annotations = om_Annotations (pt_Meta t), tgt_Labels = ts_WorkloadLabels st,
          tgt_NamespaceLabels = ts_NamespaceLabels st, tgt_Snapshot = snapshot,
          tgt_LastTransition = None, tgt_DivergenceSince = None\<rparr>)"

lemmas toDomain_defs [crd_defs] =
  toDomainTimeWindow_def toDomainTargetReferences_def toDomainScope_def toDomainPolicy_def
  toDomainOverride_def

section \<open>Lemmas\<close>

lemma addNamespaces_inv:
  assumes "addNamespaces ns seen res = (seen', res')" and "set seen = set res"
  shows "set res' = set res \<union> set ns \<and> set seen' = set res' \<and> (distinct res \<longrightarrow> distinct res') \<and>
    (\<exists>more. res' = res @ more)"
  using assms
proof (induction ns arbitrary: seen res)
  case (Cons n ns)
  show ?case
  proof (cases "n \<in> set seen")
    case True
    with Cons.prems have "addNamespaces ns seen res = (seen', res')" by simp
    from Cons.IH[OF this Cons.prems(2)] show ?thesis using True Cons.prems(2) by auto
  next
    case False
    with Cons.prems have "addNamespaces ns (n # seen) (res @ [n]) = (seen', res')" by simp
    from Cons.IH[OF this] show ?thesis using False Cons.prems(2) by auto
  qed
qed simp

lemmas addNamespaces_spec =
  addNamespaces_inv[THEN conjunct1] addNamespaces_inv[THEN conjunct2, THEN conjunct1]
  addNamespaces_inv[THEN conjunct2, THEN conjunct2, THEN conjunct1, rule_format]
  addNamespaces_inv[THEN conjunct2, THEN conjunct2, THEN conjunct2]

text \<open>The successful reads of the groups, newest first.\<close>

definition group_reads :: "string \<Rightarrow> string list \<Rightarrow> PowerNamespaceGroup list \<Rightarrow> trace" where
  "group_reads ns names gs =
     rev (map2 (\<lambda>n g. GetGroup \<lparr>nn_Namespace = ns, nn_Name = n\<rparr> (Inr g)) names gs)"

lemma resolveGroups_Inr:
  assumes "run_state (resolveGroups E ns names seen res) tr = (Inr res', tr')" and "set seen = set res"
  shows "\<exists>gs. length gs = length names \<and> tr' = group_reads ns names gs @ tr \<and>
           set res' = set res \<union> (\<Union>g\<in>set gs. set (png_Namespaces g)) \<and>
           (distinct res \<longrightarrow> distinct res') \<and> (\<exists>more. res' = res @ more)"
  using assms
proof (induction names arbitrary: seen res tr)
  case Nil
  then show ?case by (auto simp: group_reads_def)
next
  case (Cons n names)
  let ?key = "\<lparr>nn_Namespace = ns, nn_Name = n\<rparr>"
  obtain g where g: "env_GetGroup E tr ?key = Inr g"
    using Cons.prems(1) by (cases "env_GetGroup E tr ?key") (auto simp: getGroup_def)
  obtain seen1 res1 where a: "addNamespaces (png_Namespaces g) seen res = (seen1, res1)" by fastforce
  note spec = addNamespaces_spec[OF a Cons.prems(2)]
  have "run_state (resolveGroups E ns names seen1 res1) (GetGroup ?key (Inr g) # tr) = (Inr res', tr')"
    using Cons.prems(1) g a by (simp add: getGroup_def)
  from Cons.IH[OF this spec(2)] obtain gs where gs: "length gs = length names"
    "tr' = group_reads ns names gs @ GetGroup ?key (Inr g) # tr"
    "set res' = set res1 \<union> (\<Union>g\<in>set gs. set (png_Namespaces g))"
    "distinct res1 \<longrightarrow> distinct res'" "\<exists>more. res' = res1 @ more"
    by blast
  then show ?case
    using spec by (intro exI[of _ "g # gs"]) (auto simp: group_reads_def)
qed

lemma resolveGroups_error_iff:
  assumes "run_state (resolveGroups E ns names seen res) tr = (r, tr')"
  shows "\<exists>new. tr' = new @ tr \<and>
    ((\<exists>e. r = Inl e) \<longleftrightarrow> (\<exists>k err. GetGroup k (Inl err) \<in> set new))"
  using assms
proof (induction names arbitrary: seen res tr)
  case (Cons n names)
  let ?key = "\<lparr>nn_Namespace = ns, nn_Name = n\<rparr>"
  show ?case
  proof (cases "env_GetGroup E tr ?key")
    case (Inl err)
    then show ?thesis
      using Cons.prems by (intro exI[of _ "[GetGroup ?key (Inl err)]"]) (auto simp: getGroup_def)
  next
    case (Inr g)
    obtain seen1 res1 where "addNamespaces (png_Namespaces g) seen res = (seen1, res1)" by fastforce
    with Cons.prems Inr
    have "run_state (resolveGroups E ns names seen1 res1) (GetGroup ?key (Inr g) # tr) = (r, tr')"
      by (simp add: getGroup_def)
    from Cons.IH[OF this] show ?thesis
    proof (elim exE conjE)
      fix new assume "tr' = new @ GetGroup ?key (Inr g) # tr"
        and "(\<exists>e. r = Inl e) \<longleftrightarrow> (\<exists>k err. GetGroup k (Inl err) \<in> set new)"
      then show ?thesis by (intro exI[of _ "new @ [GetGroup ?key (Inr g)]"]) simp
    qed
  qed
qed auto

definition group_read :: "event \<Rightarrow> bool" where
  "group_read e \<longleftrightarrow> (\<exists>k r. e = GetGroup k r)"

lemma emits_resolveGroups: "emits group_read (resolveGroups E ns names seen res)"
  by (induction names arbitrary: seen res)
    (auto intro!: emits_intros simp: getGroup_def group_read_def)

lemma emits_ResolveScope: "emits group_read (ResolveScope E ns s)"
  unfolding ResolveScope_def by (intro emits_intros emits_resolveGroups)

section \<open>Properties\<close>

text \<open>
  Resolving a scope against any cluster: when it succeeds, exactly the named groups were read,
  once each and in order, in the namespace of the rule; the resolved namespaces are the explicit ones followed
  by those of the groups, their union without a duplicate added; no group reference remains; and the other selectors are kept.
\<close>

theorem ResolveScope_union:
  assumes "run_state (ResolveScope E ns scope) tr = (Inr sc, tr')"
  shows "\<exists>gs. length gs = length (scope_NamespaceGroups scope) \<and>
     tr' = group_reads ns (scope_NamespaceGroups scope) gs @ tr \<and>
     set (sc_Namespaces sc) = set (scope_Namespaces scope) \<union> (\<Union>g\<in>set gs. set (png_Namespaces g)) \<and>
     (distinct (scope_Namespaces scope) \<longrightarrow> distinct (sc_Namespaces sc)) \<and>
     take (length (scope_Namespaces scope)) (sc_Namespaces sc) = scope_Namespaces scope \<and>
     sc\<lparr>sc_Namespaces := []\<rparr> =
       (toDomainScope scope)\<lparr>sc_Namespaces := [], sc_NamespaceGroups := []\<rparr>"
proof -
  obtain res where r: "run_state (resolveGroups E ns (scope_NamespaceGroups scope)
      (scope_Namespaces scope) (scope_Namespaces scope)) tr = (Inr res, tr')"
    and sc: "sc = \<lparr>sc_TargetRefs = targetReferences (scope_TargetRefs scope), sc_Namespaces = res,
          sc_NamespaceGroups = [], sc_NamespaceLabels = scope_NamespaceLabels scope,
          sc_WorkloadNames = scope_WorkloadNames scope,
          sc_WorkloadLabels = scope_WorkloadLabels scope\<rparr>"
    using assms by (auto simp: ResolveScope_def cloneMap_def split: prod.splits sum.splits)
  from resolveGroups_Inr[OF r] show ?thesis
    by (force simp: sc toDomainScope_def toDomainTargetReferences_def targetReferences_def)
qed

definition dev_group :: PowerNamespaceGroup where
  "dev_group = \<lparr>png_Meta = \<lparr>om_Name = ''dev'', om_GenerateName = '''', om_Namespace = ''aura'',
     om_UID = ''g1'', om_ResourceVersion = ''1'', om_Labels = [], om_Annotations = [],
     om_CreationTimestamp = 0, om_DeletionTimestamp = None\<rparr>, png_Namespaces = [''dev-a'', ''dev-b'']\<rparr>"

definition group_scope :: PolicyScope where
  "group_scope = \<lparr>scope_TargetRefs = [], scope_Namespaces = [''dev-b''],
     scope_NamespaceGroups = [''dev''], scope_NamespaceLabels = [], scope_WorkloadNames = [],
     scope_WorkloadLabels = []\<rparr>"

definition group_cluster :: env where
  "group_cluster = empty_cluster\<lparr>env_GetGroup := (\<lambda>_ _. Inr dev_group)\<rparr>"

theorem ResolveScope_union_witness:
  "fst (run_state (ResolveScope group_cluster ''aura'' group_scope) []) =
     Inr \<lparr>sc_TargetRefs = [], sc_Namespaces = [''dev-b'', ''dev-a''], sc_NamespaceGroups = [],
          sc_NamespaceLabels = [], sc_WorkloadNames = [], sc_WorkloadLabels = []\<rparr> \<and>
   (\<exists>gs. length gs = 1 \<and>
     snd (run_state (ResolveScope group_cluster ''aura'' group_scope) []) = group_reads ''aura'' [''dev''] gs)"
proof -
  let ?run = "run_state (ResolveScope group_cluster ''aura'' group_scope) []"
  have res: "fst ?run = Inr \<lparr>sc_TargetRefs = [], sc_Namespaces = [''dev-b'', ''dev-a''],
          sc_NamespaceGroups = [], sc_NamespaceLabels = [], sc_WorkloadNames = [], sc_WorkloadLabels = []\<rparr>"
    by (simp add: ResolveScope_def group_scope_def group_cluster_def getGroup_def dev_group_def
        targetReferences_def cloneMap_def)
  then have "?run = (Inr \<lparr>sc_TargetRefs = [], sc_Namespaces = [''dev-b'', ''dev-a''],
          sc_NamespaceGroups = [], sc_NamespaceLabels = [], sc_WorkloadNames = [], sc_WorkloadLabels = []\<rparr>, snd ?run)"
    by (simp add: prod_eq_iff)
  from ResolveScope_union[OF this]
  have "\<exists>gs. length gs = 1 \<and> snd ?run = group_reads ''aura'' [''dev''] gs"
    by (force simp: group_scope_def)
  with res show ?thesis by blast
qed

text \<open>
  A missing or unreadable group fails closed: the resolution returns an error, and no scope,
  exactly when one of its reads of a group failed.
\<close>

theorem ResolveScope_fails_closed:
  "(\<exists>e. fst (run_state (ResolveScope E ns scope) []) = Inl e) \<longleftrightarrow>
   (\<exists>key err. GetGroup key (Inl err) \<in> set (snd (run_state (ResolveScope E ns scope) [])))"
proof -
  obtain r tr where run: "run_state (resolveGroups E ns (scope_NamespaceGroups scope)
      (scope_Namespaces scope) (scope_Namespaces scope)) [] = (r, tr)" by fastforce
  from resolveGroups_error_iff[OF run] run show ?thesis
    by (cases r) (auto simp: ResolveScope_def)
qed

text \<open>
  An existing group without namespaces does not narrow a rule: a rule that selects by that
  group only resolves to a scope that every workload of the cluster matches.
\<close>

theorem empty_group_selects_everything:
  assumes "scope_TargetRefs scope = []" "scope_Namespaces scope = []" "scope_NamespaceGroups scope = [g]"
    "scope_NamespaceLabels scope = []" "scope_WorkloadNames scope = []" "scope_WorkloadLabels scope = []"
    and "env_GetGroup E tr \<lparr>nn_Namespace = ns, nn_Name = g\<rparr> = Inr grp" and "png_Namespaces grp = []"
  shows "\<exists>sc. fst (run_state (ResolveScope E ns scope) tr) = Inr sc \<and> (\<forall>t. MatchesScope t sc)"
proof -
  have "fst (run_state (ResolveScope E ns scope) tr) = Inr \<lparr>sc_TargetRefs = [], sc_Namespaces = [],
      sc_NamespaceGroups = [], sc_NamespaceLabels = [], sc_WorkloadNames = [], sc_WorkloadLabels = []\<rparr>"
    using assms by (simp add: ResolveScope_def getGroup_def targetReferences_def cloneMap_def)
  moreover have "MatchesScope t \<lparr>sc_TargetRefs = [], sc_Namespaces = [],
      sc_NamespaceGroups = [], sc_NamespaceLabels = [], sc_WorkloadNames = [], sc_WorkloadLabels = []\<rparr>" for t
    by (simp add: MatchesScope_admits scope_admits_def selector_simps)
  ultimately show ?thesis by blast
qed

theorem empty_group_selects_everything_witness:
  "\<exists>sc. fst (run_state (ResolveScope (empty_cluster\<lparr>env_GetGroup := (\<lambda>_ _. Inr (dev_group\<lparr>png_Namespaces := []\<rparr>))\<rparr>)
      ''aura'' (group_scope\<lparr>scope_Namespaces := []\<rparr>)) []) = Inr sc \<and> (\<forall>t. MatchesScope t sc)"
  by (rule empty_group_selects_everything[where grp = "dev_group\<lparr>png_Namespaces := []\<rparr>"])
    (simp_all add: group_scope_def)

end
