(* ===== verification/Executor.thy ===== *)
theory Executor
  imports Selection
begin

text \<open>
  The executor (\<open>src/internal/adapters/driven/kubernetes/executor.go\<close>) with the resource
  computation it shares with discovery (\<open>discovery.go\<close>): capturing a snapshot of a workload,
  powering it down and restoring it.  The interface \<open>ports.WorkloadExecutor\<close> is the record
  \<open>WorkloadExecutor\<close>; what its users may rely on is the locale \<open>workload_executor\<close>, interpreted on
  \<open>NewExecutor\<close>.
\<close>

section \<open>Resources\<close>

definition ptrInt32Val :: "int option \<Rightarrow> int" where
  "ptrInt32Val p = (case p of None \<Rightarrow> 1 | Some v \<Rightarrow> v)"

definition ptrBoolVal :: "bool option \<Rightarrow> bool" where
  "ptrBoolVal p = (case p of None \<Rightarrow> False | Some v \<Rightarrow> v)"

text \<open>The body of the loop over the containers.\<close>

definition addContainer :: "Container \<Rightarrow> int \<times> int \<Rightarrow> int \<times> int" where
  "addContainer c acc =
     (let (cpuMillis, memMiB) = acc;
          cpuMillis = (case ctr_RequestCPU c of
              Some cpu \<Rightarrow> wrap64 (cpuMillis + cpu)
            | None \<Rightarrow> (case ctr_LimitCPU c of Some cpu \<Rightarrow> wrap64 (cpuMillis + cpu) | None \<Rightarrow> cpuMillis));
          memMiB = (case ctr_RequestMemory c of
              Some memory \<Rightarrow> wrap64 (memMiB + go_div memory (1024 * 1024))
            | None \<Rightarrow> (case ctr_LimitMemory c of
                  Some memory \<Rightarrow> wrap64 (memMiB + go_div memory (1024 * 1024)) | None \<Rightarrow> memMiB))
      in (cpuMillis, memMiB))"

definition computePodResources :: "Container list \<Rightarrow> int \<Rightarrow> ResourceSummary" where
  "computePodResources containers replicas =
     (let (cpuMillis, memMiB) = fold addContainer containers (0, 0)
      in \<lparr>res_CPUMillicores = wrap64 (cpuMillis * replicas), res_MemoryMiB = wrap64 (memMiB * replicas)\<rparr>)"

definition computeDeploymentResources :: "Deployment \<Rightarrow> ResourceSummary" where
  "computeDeploymentResources dep = computePodResources (wl_Containers dep) (ptrInt32Val (wl_Replicas dep))"

definition computeStatefulSetResources :: "StatefulSet \<Rightarrow> ResourceSummary" where
  "computeStatefulSetResources ss = computePodResources (wl_Containers ss) (ptrInt32Val (wl_Replicas ss))"

definition computeCronJobResources :: "CronJob \<Rightarrow> ResourceSummary" where
  "computeCronJobResources cj = computePodResources (cj_Containers cj) 1"

section \<open>Client calls\<close>

definition getDeployment :: "env \<Rightarrow> bool \<Rightarrow> NamespacedName \<Rightarrow> Deployment result io" where
  "getDeployment E live key = call (\<lambda>tr. env_GetDeployment E tr live key) (GetDeployment live key)"

definition getStatefulSet :: "env \<Rightarrow> bool \<Rightarrow> NamespacedName \<Rightarrow> StatefulSet result io" where
  "getStatefulSet E live key = call (\<lambda>tr. env_GetStatefulSet E tr live key) (GetStatefulSet live key)"

definition getCronJob :: "env \<Rightarrow> bool \<Rightarrow> NamespacedName \<Rightarrow> CronJob result io" where
  "getCronJob E live key = call (\<lambda>tr. env_GetCronJob E tr live key) (GetCronJob live key)"

definition updateDeployment :: "env \<Rightarrow> Deployment \<Rightarrow> Deployment result io" where
  "updateDeployment E d = call (\<lambda>tr. env_UpdateDeployment E tr d) (UpdateDeployment d)"

definition updateStatefulSet :: "env \<Rightarrow> StatefulSet \<Rightarrow> StatefulSet result io" where
  "updateStatefulSet E d = call (\<lambda>tr. env_UpdateStatefulSet E tr d) (UpdateStatefulSet d)"

definition updateCronJob :: "env \<Rightarrow> CronJob \<Rightarrow> CronJob result io" where
  "updateCronJob E d = call (\<lambda>tr. env_UpdateCronJob E tr d) (UpdateCronJob d)"

lemmas workload_call_defs =
  getDeployment_def getStatefulSet_def getCronJob_def
  updateDeployment_def updateStatefulSet_def updateCronJob_def

definition ref_key :: "WorkloadRef \<Rightarrow> NamespacedName" where
  "ref_key ref = \<lparr>nn_Namespace = ref_Namespace ref, nn_Name = ref_Name ref\<rparr>"

section \<open>Checks\<close>

definition ErrSnapshotStale :: go_error where
  "ErrSnapshotStale = (errors_New ''workload changed after snapshot capture'')\<lparr>err_SnapshotStale := True\<rparr>"

definition verifyUID :: "WorkloadRef \<Rightarrow> string \<Rightarrow> go_error option" where
  "verifyUID ref actual =
     (if ref_UID ref \<noteq> '''' \<and> ref_UID ref \<noteq> actual
      then Some (errors_New (''workload UID changed for '' @ ref_Kind ref @ '' '' @ ref_Namespace ref @ ''/'' @
                 ref_Name ref @ '': expected '' @ ref_UID ref @ '', got '' @ actual))
      else None)"

definition verifySnapshotRevision :: "WorkloadRef \<Rightarrow> string \<Rightarrow> string \<Rightarrow> go_error option" where
  "verifySnapshotRevision ref expected actual =
     (if expected = ''''
      then Some (wrap_error '''' ErrSnapshotStale ('': snapshot for '' @ ref_Kind ref @ '' '' @ ref_Namespace ref @
                 ''/'' @ ref_Name ref @ '' has no resourceVersion''))
      else if expected \<noteq> actual
      then Some (wrap_error '''' ErrSnapshotStale ('': '' @ ref_Kind ref @ '' '' @ ref_Namespace ref @ ''/'' @
                 ref_Name ref @ '' expected resourceVersion '' @ expected @ '', got '' @ actual))
      else None)"

section \<open>Capture\<close>

definition captureDeployment :: "env \<Rightarrow> WorkloadRef \<Rightarrow> Snapshot result io" where
  "captureDeployment E ref = do {
     r \<leftarrow> getDeployment E False (ref_key ref);
     case r of
       Inl err \<Rightarrow> return (Inl err)
     | Inr dep \<Rightarrow>
         (case verifyUID ref (om_UID (wl_Meta dep)) of
            Some err \<Rightarrow> return (Inl err)
          | None \<Rightarrow>
              (let replicas = ptrInt32Val (wl_Replicas dep)
               in return (Inr \<lparr>snap_ReplicaCount = Some replicas, snap_Suspended = None,
                    snap_Resources = computeDeploymentResources dep, snap_CapturedAt = zero_time,
                    snap_ResourceVersion = om_ResourceVersion (wl_Meta dep)\<rparr>)))
   }"

definition captureStatefulSet :: "env \<Rightarrow> WorkloadRef \<Rightarrow> Snapshot result io" where
  "captureStatefulSet E ref = do {
     r \<leftarrow> getStatefulSet E False (ref_key ref);
     case r of
       Inl err \<Rightarrow> return (Inl err)
     | Inr ss \<Rightarrow>
         (case verifyUID ref (om_UID (wl_Meta ss)) of
            Some err \<Rightarrow> return (Inl err)
          | None \<Rightarrow>
              (let replicas = ptrInt32Val (wl_Replicas ss)
               in return (Inr \<lparr>snap_ReplicaCount = Some replicas, snap_Suspended = None,
                    snap_Resources = computeStatefulSetResources ss, snap_CapturedAt = zero_time,
                    snap_ResourceVersion = om_ResourceVersion (wl_Meta ss)\<rparr>)))
   }"

definition captureCronJob :: "env \<Rightarrow> WorkloadRef \<Rightarrow> Snapshot result io" where
  "captureCronJob E ref = do {
     r \<leftarrow> getCronJob E False (ref_key ref);
     case r of
       Inl err \<Rightarrow> return (Inl err)
     | Inr cj \<Rightarrow>
         (case verifyUID ref (om_UID (cj_Meta cj)) of
            Some err \<Rightarrow> return (Inl err)
          | None \<Rightarrow>
              (let suspended = ptrBoolVal (cj_Suspend cj)
               in return (Inr \<lparr>snap_ReplicaCount = None, snap_Suspended = Some suspended,
                    snap_Resources = computeCronJobResources cj, snap_CapturedAt = zero_time,
                    snap_ResourceVersion = om_ResourceVersion (cj_Meta cj)\<rparr>)))
   }"

definition unsupported_kind :: "WorkloadRef \<Rightarrow> go_error" where
  "unsupported_kind ref = errors_New (''unsupported workload kind: '' @ ref_Kind ref)"

definition CaptureSnapshot :: "env \<Rightarrow> WorkloadRef \<Rightarrow> Snapshot result io" where
  "CaptureSnapshot E ref =
     (if ref_Kind ref = WorkloadKindDeployment then captureDeployment E ref
      else if ref_Kind ref = WorkloadKindStatefulSet then captureStatefulSet E ref
      else if ref_Kind ref = WorkloadKindCronJob then captureCronJob E ref
      else return (Inl (unsupported_kind ref)))"

section \<open>Power down\<close>

text \<open>The error a failed write of a power-down is turned into; \<open>what\<close> is the kind in lower case.\<close>

definition powerDownFailed :: "WorkloadRef \<Rightarrow> string \<Rightarrow> string \<Rightarrow> go_error \<Rightarrow> go_error" where
  "powerDownFailed ref verb what err =
     (if err_Conflict err
      then wrap_error '''' ErrSnapshotStale ('': '' @ what @ '' '' @ ref_Namespace ref @ ''/'' @ ref_Name ref @
             '' changed during power-down'')
      else wrap_error (''failed to '' @ verb @ '' '' @ what @ '' '' @ ref_Namespace ref @ ''/'' @ ref_Name ref @ '': '') err '''')"

definition powerDownDeployment :: "env \<Rightarrow> WorkloadRef \<Rightarrow> string \<Rightarrow> go_error option io" where
  "powerDownDeployment E ref resourceVersion = do {
     r \<leftarrow> getDeployment E False (ref_key ref);
     case r of
       Inl err \<Rightarrow> return (Some err)
     | Inr dep \<Rightarrow>
         (case verifyUID ref (om_UID (wl_Meta dep)) of
            Some err \<Rightarrow> return (Some err)
          | None \<Rightarrow>
              (case verifySnapshotRevision ref resourceVersion (om_ResourceVersion (wl_Meta dep)) of
                 Some err \<Rightarrow> return (Some err)
               | None \<Rightarrow> do {
                   u \<leftarrow> updateDeployment E (dep\<lparr>wl_Replicas := Some 0\<rparr>);
                   case u of
                     Inl err \<Rightarrow> return (Some (powerDownFailed ref ''scale down'' ''deployment'' err))
                   | Inr _ \<Rightarrow> return None
                 }))
   }"

definition powerDownStatefulSet :: "env \<Rightarrow> WorkloadRef \<Rightarrow> string \<Rightarrow> go_error option io" where
  "powerDownStatefulSet E ref resourceVersion = do {
     r \<leftarrow> getStatefulSet E False (ref_key ref);
     case r of
       Inl err \<Rightarrow> return (Some err)
     | Inr ss \<Rightarrow>
         (case verifyUID ref (om_UID (wl_Meta ss)) of
            Some err \<Rightarrow> return (Some err)
          | None \<Rightarrow>
              (case verifySnapshotRevision ref resourceVersion (om_ResourceVersion (wl_Meta ss)) of
                 Some err \<Rightarrow> return (Some err)
               | None \<Rightarrow> do {
                   u \<leftarrow> updateStatefulSet E (ss\<lparr>wl_Replicas := Some 0\<rparr>);
                   case u of
                     Inl err \<Rightarrow> return (Some (powerDownFailed ref ''scale down'' ''statefulset'' err))
                   | Inr _ \<Rightarrow> return None
                 }))
   }"

definition powerDownCronJob :: "env \<Rightarrow> WorkloadRef \<Rightarrow> string \<Rightarrow> go_error option io" where
  "powerDownCronJob E ref resourceVersion = do {
     r \<leftarrow> getCronJob E False (ref_key ref);
     case r of
       Inl err \<Rightarrow> return (Some err)
     | Inr cj \<Rightarrow>
         (case verifyUID ref (om_UID (cj_Meta cj)) of
            Some err \<Rightarrow> return (Some err)
          | None \<Rightarrow>
              (case verifySnapshotRevision ref resourceVersion (om_ResourceVersion (cj_Meta cj)) of
                 Some err \<Rightarrow> return (Some err)
               | None \<Rightarrow> do {
                   u \<leftarrow> updateCronJob E (cj\<lparr>cj_Suspend := Some True\<rparr>);
                   case u of
                     Inl err \<Rightarrow> return (Some (powerDownFailed ref ''suspend'' ''cronjob'' err))
                   | Inr _ \<Rightarrow> return None
                 }))
   }"

definition PowerDown :: "env \<Rightarrow> WorkloadRef \<Rightarrow> Snapshot \<Rightarrow> go_error option io" where
  "PowerDown E ref snapshot =
     (if ref_Kind ref = WorkloadKindDeployment then powerDownDeployment E ref (snap_ResourceVersion snapshot)
      else if ref_Kind ref = WorkloadKindStatefulSet then powerDownStatefulSet E ref (snap_ResourceVersion snapshot)
      else if ref_Kind ref = WorkloadKindCronJob then powerDownCronJob E ref (snap_ResourceVersion snapshot)
      else return (Some (unsupported_kind ref)))"

section \<open>Restore\<close>

definition restoreDeployment :: "env \<Rightarrow> WorkloadRef \<Rightarrow> Snapshot \<Rightarrow> go_error option io" where
  "restoreDeployment E ref snapshot =
     (case snap_ReplicaCount snapshot of
        None \<Rightarrow> return (Some (errors_New (''snapshot missing replica count for deployment '' @
                  ref_Namespace ref @ ''/'' @ ref_Name ref)))
      | Some n \<Rightarrow> do {
          r \<leftarrow> getDeployment E False (ref_key ref);
          case r of
            Inl err \<Rightarrow> return (Some err)
          | Inr dep \<Rightarrow>
              (case verifyUID ref (om_UID (wl_Meta dep)) of
                 Some err \<Rightarrow> return (Some err)
               | None \<Rightarrow> do {
                   u \<leftarrow> updateDeployment E (dep\<lparr>wl_Replicas := Some n\<rparr>);
                   return (case u of Inl err \<Rightarrow> Some err | Inr _ \<Rightarrow> None)
                 })
        })"

definition restoreStatefulSet :: "env \<Rightarrow> WorkloadRef \<Rightarrow> Snapshot \<Rightarrow> go_error option io" where
  "restoreStatefulSet E ref snapshot =
     (case snap_ReplicaCount snapshot of
        None \<Rightarrow> return (Some (errors_New (''snapshot missing replica count for statefulset '' @
                  ref_Namespace ref @ ''/'' @ ref_Name ref)))
      | Some n \<Rightarrow> do {
          r \<leftarrow> getStatefulSet E False (ref_key ref);
          case r of
            Inl err \<Rightarrow> return (Some err)
          | Inr ss \<Rightarrow>
              (case verifyUID ref (om_UID (wl_Meta ss)) of
                 Some err \<Rightarrow> return (Some err)
               | None \<Rightarrow> do {
                   u \<leftarrow> updateStatefulSet E (ss\<lparr>wl_Replicas := Some n\<rparr>);
                   return (case u of Inl err \<Rightarrow> Some err | Inr _ \<Rightarrow> None)
                 })
        })"

definition restoreCronJob :: "env \<Rightarrow> WorkloadRef \<Rightarrow> Snapshot \<Rightarrow> go_error option io" where
  "restoreCronJob E ref snapshot =
     (case snap_Suspended snapshot of
        None \<Rightarrow> return (Some (errors_New (''snapshot missing suspend state for cronjob '' @
                  ref_Namespace ref @ ''/'' @ ref_Name ref)))
      | Some s \<Rightarrow> do {
          r \<leftarrow> getCronJob E False (ref_key ref);
          case r of
            Inl err \<Rightarrow> return (Some err)
          | Inr cj \<Rightarrow>
              (case verifyUID ref (om_UID (cj_Meta cj)) of
                 Some err \<Rightarrow> return (Some err)
               | None \<Rightarrow>
                   if cj_Suspend cj = Some s then return None
                   else do {
                     u \<leftarrow> updateCronJob E (cj\<lparr>cj_Suspend := Some s\<rparr>);
                     return (case u of Inl err \<Rightarrow> Some err | Inr _ \<Rightarrow> None)
                   })
        })"

definition Restore :: "env \<Rightarrow> WorkloadRef \<Rightarrow> Snapshot \<Rightarrow> go_error option io" where
  "Restore E ref snapshot =
     (if ref_Kind ref = WorkloadKindDeployment then restoreDeployment E ref snapshot
      else if ref_Kind ref = WorkloadKindStatefulSet then restoreStatefulSet E ref snapshot
      else if ref_Kind ref = WorkloadKindCronJob then restoreCronJob E ref snapshot
      else return (Some (unsupported_kind ref)))"

record WorkloadExecutor =
  ex_CaptureSnapshot :: "WorkloadRef \<Rightarrow> Snapshot result io"
  ex_PowerDown :: "WorkloadRef \<Rightarrow> Snapshot \<Rightarrow> go_error option io"
  ex_Restore :: "WorkloadRef \<Rightarrow> Snapshot \<Rightarrow> go_error option io"

definition NewExecutor :: "env \<Rightarrow> WorkloadExecutor" where
  "NewExecutor E = \<lparr>ex_CaptureSnapshot = CaptureSnapshot E, ex_PowerDown = PowerDown E, ex_Restore = Restore E\<rparr>"

section \<open>Specification\<close>

fun workload_read :: "event \<Rightarrow> bool" where
  "workload_read (GetDeployment _ _ _) = True"
| "workload_read (GetStatefulSet _ _ _) = True"
| "workload_read (GetCronJob _ _ _) = True"
| "workload_read _ = False"

fun workload_write :: "event \<Rightarrow> bool" where
  "workload_write (UpdateDeployment _ _) = True"
| "workload_write (UpdateStatefulSet _ _) = True"
| "workload_write (UpdateCronJob _ _) = True"
| "workload_write _ = False"

text \<open>The answer to a workload write: \<open>None\<close> when it was accepted.\<close>

fun write_error :: "event \<Rightarrow> go_error option" where
  "write_error (UpdateDeployment _ (Inl err)) = Some err"
| "write_error (UpdateStatefulSet _ (Inl err)) = Some err"
| "write_error (UpdateCronJob _ (Inl err)) = Some err"
| "write_error _ = None"

definition bound_to :: "WorkloadRef \<Rightarrow> ObjectMeta \<Rightarrow> bool" where
  "bound_to ref m \<longleftrightarrow> ref_UID ref = '''' \<or> om_UID m = ref_UID ref"

definition at_revision :: "Snapshot \<Rightarrow> ObjectMeta \<Rightarrow> bool" where
  "at_revision s m \<longleftrightarrow> snap_ResourceVersion s \<noteq> '''' \<and> om_ResourceVersion m = snap_ResourceVersion s"

text \<open>
  The one write a power-down may make: zero replicas (or suspension) on the incarnation the
  reference names, at the revision the snapshot was taken from.
\<close>

fun off_write :: "WorkloadRef \<Rightarrow> Snapshot \<Rightarrow> event \<Rightarrow> bool" where
  "off_write ref s (UpdateDeployment d _) \<longleftrightarrow> ref_Kind ref = WorkloadKindDeployment \<and>
     wl_Replicas d = Some 0 \<and> bound_to ref (wl_Meta d) \<and> at_revision s (wl_Meta d)"
| "off_write ref s (UpdateStatefulSet d _) \<longleftrightarrow> ref_Kind ref = WorkloadKindStatefulSet \<and>
     wl_Replicas d = Some 0 \<and> bound_to ref (wl_Meta d) \<and> at_revision s (wl_Meta d)"
| "off_write ref s (UpdateCronJob c _) \<longleftrightarrow> ref_Kind ref = WorkloadKindCronJob \<and>
     cj_Suspend c = Some True \<and> bound_to ref (cj_Meta c) \<and> at_revision s (cj_Meta c)"
| "off_write ref s _ \<longleftrightarrow> False"

text \<open>The one write a restoration may make: the value of the snapshot, on the same incarnation.\<close>

fun restore_write :: "WorkloadRef \<Rightarrow> Snapshot \<Rightarrow> event \<Rightarrow> bool" where
  "restore_write ref s (UpdateDeployment d _) \<longleftrightarrow> ref_Kind ref = WorkloadKindDeployment \<and>
     snap_ReplicaCount s \<noteq> None \<and> wl_Replicas d = snap_ReplicaCount s \<and> bound_to ref (wl_Meta d)"
| "restore_write ref s (UpdateStatefulSet d _) \<longleftrightarrow> ref_Kind ref = WorkloadKindStatefulSet \<and>
     snap_ReplicaCount s \<noteq> None \<and> wl_Replicas d = snap_ReplicaCount s \<and> bound_to ref (wl_Meta d)"
| "restore_write ref s (UpdateCronJob c _) \<longleftrightarrow> ref_Kind ref = WorkloadKindCronJob \<and>
     snap_Suspended s \<noteq> None \<and> cj_Suspend c = snap_Suspended s \<and> bound_to ref (cj_Meta c)"
| "restore_write ref s _ \<longleftrightarrow> False"

text \<open>
  \<open>write_contract W m\<close>: \<open>m\<close> reads workloads and then makes at most one workload write, which
  satisfies \<open>W\<close>; success means that the write was accepted, and an error that it was not.
\<close>

definition write_contract :: "(event \<Rightarrow> bool) \<Rightarrow> go_error option io \<Rightarrow> bool" where
  "write_contract W m \<longleftrightarrow>
     (\<forall>tr. \<exists>writes reads. snd (run_state m tr) = writes @ reads @ tr \<and>
        list_all workload_read reads \<and> length writes \<le> 1 \<and> list_all W writes \<and>
        (fst (run_state m tr) = None \<longrightarrow> list_all (\<lambda>e. write_error e = None) writes) \<and>
        (fst (run_state m tr) \<noteq> None \<longrightarrow> list_all (\<lambda>e. write_error e \<noteq> None) writes))"

locale workload_executor =
  fixes X :: WorkloadExecutor
  assumes capture_reads: "emits workload_read (ex_CaptureSnapshot X ref)"
    and powerdown_contract: "write_contract (off_write ref s) (ex_PowerDown X ref s)"
    and restore_contract: "write_contract (restore_write ref s) (ex_Restore X ref s)"
begin

lemma contract_emits: "write_contract W m \<Longrightarrow> emits (\<lambda>e. workload_read e \<or> W e) m"
  unfolding write_contract_def emits_def
  by (smt (verit) Un_iff append_assoc list_all_iff set_append)

lemma powerdown_emits: "emits (\<lambda>e. workload_read e \<or> off_write ref s e) (ex_PowerDown X ref s)"
  using powerdown_contract by (rule contract_emits)

lemma restore_emits: "emits (\<lambda>e. workload_read e \<or> restore_write ref s e) (ex_Restore X ref s)"
  using restore_contract by (rule contract_emits)

end

section \<open>Lemmas\<close>

lemma verifyUID_None: "verifyUID ref u = None \<longleftrightarrow> ref_UID ref = '''' \<or> u = ref_UID ref"
  by (auto simp: verifyUID_def)

lemma verifySnapshotRevision_None:
  "verifySnapshotRevision ref e a = None \<longleftrightarrow> e \<noteq> '''' \<and> a = e"
  by (auto simp: verifySnapshotRevision_def)

lemmas check_simps = verifyUID_None verifySnapshotRevision_None bound_to_def at_revision_def

lemma kinds_distinct [simp]:
  "WorkloadKindDeployment \<noteq> WorkloadKindStatefulSet" "WorkloadKindStatefulSet \<noteq> WorkloadKindDeployment"
  "WorkloadKindDeployment \<noteq> WorkloadKindCronJob" "WorkloadKindCronJob \<noteq> WorkloadKindDeployment"
  "WorkloadKindStatefulSet \<noteq> WorkloadKindCronJob" "WorkloadKindCronJob \<noteq> WorkloadKindStatefulSet"
  by (simp_all add: workload_kind_defs)

text \<open>The shapes a run of a writing operation may have.\<close>

lemma write_contract_cases:
  assumes "\<And>tr. (\<exists>err. run_state m tr = (Some err, tr)) \<or>
    (\<exists>e r. workload_read e \<and> run_state m tr = (r, e # tr)) \<or>
    (\<exists>w e r. workload_read e \<and> W w \<and> run_state m tr = (r, w # e # tr) \<and> (r = None \<longleftrightarrow> write_error w = None))"
  shows "write_contract W m"
  unfolding write_contract_def
proof
  fix tr
  from assms[of tr]
  show "\<exists>writes reads. snd (run_state m tr) = writes @ reads @ tr \<and>
        list_all workload_read reads \<and> length writes \<le> 1 \<and> list_all W writes \<and>
        (fst (run_state m tr) = None \<longrightarrow> list_all (\<lambda>e. write_error e = None) writes) \<and>
        (fst (run_state m tr) \<noteq> None \<longrightarrow> list_all (\<lambda>e. write_error e \<noteq> None) writes)"
  proof (elim disjE exE conjE)
    fix w e r
    assume "workload_read e" "W w" "run_state m tr = (r, w # e # tr)" "r = None \<longleftrightarrow> write_error w = None"
    then show ?thesis by (intro exI[of _ "[w]"] exI[of _ "[e]"]) simp
  next
    fix e r assume "workload_read e" "run_state m tr = (r, e # tr)"
    then show ?thesis by (intro exI[of _ "[]"] exI[of _ "[e]"]) simp
  next
    fix err assume "run_state m tr = (Some err, tr)"
    then show ?thesis by (intro exI[of _ "[]"]) simp
  qed
qed

lemma write_contract_failed:
  assumes "write_contract W m" and "fst (run_state m tr) \<noteq> None"
  obtains writes reads where "snd (run_state m tr) = writes @ reads @ tr" "list_all workload_read reads"
    "length writes \<le> 1" "list_all W writes" "list_all (\<lambda>e. write_error e \<noteq> None) writes"
  using assms(1)[unfolded write_contract_def, THEN spec, of tr]
  by (elim exE conjE) (rule that, assumption+, use assms(2) in blast)

lemma powerDownDeployment_contract:
  "ref_Kind ref = WorkloadKindDeployment \<Longrightarrow>
   write_contract (off_write ref s) (powerDownDeployment E ref (snap_ResourceVersion s))"
  by (rule write_contract_cases)
    (auto simp: powerDownDeployment_def workload_call_defs check_simps split: sum.split option.split)

lemma powerDownStatefulSet_contract:
  "ref_Kind ref = WorkloadKindStatefulSet \<Longrightarrow>
   write_contract (off_write ref s) (powerDownStatefulSet E ref (snap_ResourceVersion s))"
  by (rule write_contract_cases)
    (auto simp: powerDownStatefulSet_def workload_call_defs check_simps split: sum.split option.split)

lemma powerDownCronJob_contract:
  "ref_Kind ref = WorkloadKindCronJob \<Longrightarrow>
   write_contract (off_write ref s) (powerDownCronJob E ref (snap_ResourceVersion s))"
  by (rule write_contract_cases)
    (auto simp: powerDownCronJob_def workload_call_defs check_simps split: sum.split option.split)

lemma restoreDeployment_contract:
  "ref_Kind ref = WorkloadKindDeployment \<Longrightarrow> write_contract (restore_write ref s) (restoreDeployment E ref s)"
  by (rule write_contract_cases)
    (auto simp: restoreDeployment_def workload_call_defs check_simps split: sum.split option.split)

lemma restoreStatefulSet_contract:
  "ref_Kind ref = WorkloadKindStatefulSet \<Longrightarrow> write_contract (restore_write ref s) (restoreStatefulSet E ref s)"
  by (rule write_contract_cases)
    (auto simp: restoreStatefulSet_def workload_call_defs check_simps split: sum.split option.split)

lemma restoreCronJob_contract:
  "ref_Kind ref = WorkloadKindCronJob \<Longrightarrow> write_contract (restore_write ref s) (restoreCronJob E ref s)"
  by (rule write_contract_cases)
    (auto simp: restoreCronJob_def workload_call_defs check_simps split: sum.split option.split)

lemma unsupported_contract: "write_contract W (return (Some e))"
  by (rule write_contract_cases) simp

lemmas powerDown_contracts = powerDownDeployment_contract powerDownStatefulSet_contract
  powerDownCronJob_contract unsupported_contract

lemmas restore_contracts = restoreDeployment_contract restoreStatefulSet_contract
  restoreCronJob_contract unsupported_contract

lemma CaptureSnapshot_reads: "emits workload_read (CaptureSnapshot E ref)"
  unfolding CaptureSnapshot_def captureDeployment_def captureStatefulSet_def captureCronJob_def
    workload_call_defs
  by (intro emits_intros) simp_all

interpretation k8s: workload_executor "NewExecutor E" for E
proof
  show "emits workload_read (ex_CaptureSnapshot (NewExecutor E) ref)" for ref
    by (simp add: NewExecutor_def CaptureSnapshot_reads)
  show "write_contract (off_write ref s) (ex_PowerDown (NewExecutor E) ref s)" for ref s
    by (simp add: NewExecutor_def PowerDown_def powerDown_contracts)
  show "write_contract (restore_write ref s) (ex_Restore (NewExecutor E) ref s)" for ref s
    by (simp add: NewExecutor_def Restore_def restore_contracts)
qed

lemma PowerDown_stale_refused:
  assumes "run_state (PowerDown E ref s) tr = (Some err, tr')" and "err_SnapshotStale err"
  shows "\<exists>new. tr' = new @ tr \<and> (\<forall>e\<in>set new. workload_write e \<longrightarrow>
     (\<exists>x. write_error e = Some x \<and> (err_Conflict x \<or> err_SnapshotStale x)))"
  using assms
  by (auto simp: PowerDown_def powerDownDeployment_def powerDownStatefulSet_def powerDownCronJob_def
      workload_call_defs powerDownFailed_def split: if_splits sum.splits option.splits)

lemma PowerDown_ok:
  assumes "run_state (PowerDown E ref s) tr = (None, tr')"
  obtains w e where "tr' = w # e # tr" and "off_write ref s w" and "write_error w = None" and "workload_read e"
  using assms
  by (auto simp: PowerDown_def powerDownDeployment_def powerDownStatefulSet_def powerDownCronJob_def
      workload_call_defs check_simps split: if_splits sum.splits option.splits)

section \<open>Properties\<close>

text \<open>
  C8. A power-down makes at most one write, and only after reading the workload: zero replicas
  (suspension) on the incarnation named by the UID, carrying the resource version the snapshot was
  captured at, so that the API server's optimistic locking rejects it if the workload has changed
  since; it reports success exactly when such a write was made and accepted.
\<close>

theorem PowerDown_single_guarded_write:
  "\<exists>writes reads.
     snd (run_state (PowerDown E ref s) tr) = writes @ reads @ tr \<and>
     list_all workload_read reads \<and> length writes \<le> 1 \<and> list_all (off_write ref s) writes \<and>
     (fst (run_state (PowerDown E ref s) tr) = None \<longleftrightarrow>
        (\<exists>w. writes = [w] \<and> write_error w = None))"
proof (cases "fst (run_state (PowerDown E ref s) tr)")
  case None
  then obtain tr' where run: "run_state (PowerDown E ref s) tr = (None, tr')" by (metis prod.collapse)
  then obtain w e where "tr' = w # e # tr" "off_write ref s w" "write_error w = None" "workload_read e"
    by (rule PowerDown_ok)
  then show ?thesis by (intro exI[of _ "[w]"] exI[of _ "[e]"]) (simp add: run)
next
  case (Some err)
  have "write_contract (off_write ref s) (PowerDown E ref s)"
    using k8s.powerdown_contract[of ref s E] by (simp add: NewExecutor_def)
  moreover have "fst (run_state (PowerDown E ref s) tr) \<noteq> None" by (simp add: Some)
  ultimately obtain writes reads where "snd (run_state (PowerDown E ref s) tr) = writes @ reads @ tr"
    "list_all workload_read reads" "length writes \<le> 1" "list_all (off_write ref s) writes"
    "list_all (\<lambda>e. write_error e \<noteq> None) writes"
    by (rule write_contract_failed)
  then show ?thesis using Some by (intro exI[of _ writes] exI[of _ reads]) auto
qed

text \<open>
  \<open>ErrSnapshotStale\<close> means that nothing was powered down: when a power-down fails with it, no
  write was made, or the API server refused the write as a conflict (or with an error that is
  itself marked stale, which the API client never produces).
\<close>

theorem stale_means_not_applied:
  assumes "fst (run_state (PowerDown E ref s) []) = Some err" and "err_SnapshotStale err"
  shows "\<forall>e\<in>set (snd (run_state (PowerDown E ref s) [])). workload_write e \<longrightarrow>
     (\<exists>x. write_error e = Some x \<and> (err_Conflict x \<or> err_SnapshotStale x))"
  using PowerDown_stale_refused[of E ref s "[]"] assms by (metis append_Nil2 prod.collapse)

definition web_deployment :: Deployment where
  "web_deployment = \<lparr>wl_Meta = (png_Meta dev_group)\<lparr>om_Name := ''web'', om_Namespace := ''dev'',
     om_UID := ''u1'', om_ResourceVersion := ''42''\<rparr>, wl_Replicas = Some 3, wl_Containers = []\<rparr>"

definition web_cluster :: env where
  "web_cluster = empty_cluster\<lparr>env_GetDeployment := (\<lambda>_ _ _. Inr web_deployment)\<rparr>"

definition web_snapshot :: Snapshot where
  "web_snapshot = \<lparr>snap_ReplicaCount = Some 3, snap_Suspended = None,
     snap_Resources = \<lparr>res_CPUMillicores = 0, res_MemoryMiB = 0\<rparr>, snap_CapturedAt = zero_time,
     snap_ResourceVersion = ''42''\<rparr>"

lemmas web_defs = web_deployment_def web_cluster_def web_snapshot_def sample_ref_def dev_group_def

theorem stale_means_not_applied_witness:
  "\<exists>err. fst (run_state (PowerDown web_cluster sample_ref (web_snapshot\<lparr>snap_ResourceVersion := ''41''\<rparr>)) []) = Some err \<and>
     err_SnapshotStale err \<and>
     (\<forall>e\<in>set (snd (run_state (PowerDown web_cluster sample_ref (web_snapshot\<lparr>snap_ResourceVersion := ''41''\<rparr>)) [])).
        workload_write e \<longrightarrow> (\<exists>x. write_error e = Some x \<and> (err_Conflict x \<or> err_SnapshotStale x)))"
proof -
  let ?run = "run_state (PowerDown web_cluster sample_ref (web_snapshot\<lparr>snap_ResourceVersion := ''41''\<rparr>)) []"
  obtain err where err: "fst ?run = Some err" "err_SnapshotStale err"
    by (simp add: PowerDown_def powerDownDeployment_def getDeployment_def verifyUID_def
        verifySnapshotRevision_def web_defs ErrSnapshotStale_def)
  from stale_means_not_applied[OF err] err show ?thesis by blast
qed

text \<open>The power value an event carries: replicas or suspension, as read or as written.\<close>

datatype power_value = Replicas int | Suspension bool | NoValue

fun carried :: "event \<Rightarrow> power_value" where
  "carried (GetDeployment _ _ (Inr d)) = Replicas (ptrInt32Val (wl_Replicas d))"
| "carried (GetStatefulSet _ _ (Inr d)) = Replicas (ptrInt32Val (wl_Replicas d))"
| "carried (GetCronJob _ _ (Inr c)) = Suspension (ptrBoolVal (cj_Suspend c))"
| "carried (UpdateDeployment d _) = Replicas (ptrInt32Val (wl_Replicas d))"
| "carried (UpdateStatefulSet d _) = Replicas (ptrInt32Val (wl_Replicas d))"
| "carried (UpdateCronJob c _) = Suspension (ptrBoolVal (cj_Suspend c))"
| "carried _ = NoValue"

text \<open>
  C9. Restoration undoes power-down: a successful restore from a captured snapshot ends with a
  write of exactly the replica count (or suspension) that the capture read, with Kubernetes'
  default of one replica for an unset count; for a CronJob that already has the captured value it
  ends with the read that shows it.  The cluster may have changed arbitrarily in between.
\<close>

theorem capture_restore_roundtrip:
  assumes "run_state (CaptureSnapshot E ref) tr = (Inr s, tr1)"
    and "run_state (Restore E' ref s) tr2 = (None, tr3)"
  shows "carried (hd tr3) = carried (hd tr1) \<and> carried (hd tr1) \<noteq> NoValue"
proof -
  consider "ref_Kind ref = WorkloadKindDeployment" | "ref_Kind ref = WorkloadKindStatefulSet"
    | "ref_Kind ref = WorkloadKindCronJob"
    using assms(1) by (auto simp: CaptureSnapshot_def split: if_splits)
  then show ?thesis
  proof cases
    case 1
    with assms show ?thesis
      by (auto simp: CaptureSnapshot_def Restore_def captureDeployment_def restoreDeployment_def
          workload_call_defs ptrInt32Val_def split: sum.splits option.splits)
  next
    case 2
    with assms show ?thesis
      by (auto simp: CaptureSnapshot_def Restore_def captureStatefulSet_def restoreStatefulSet_def
          workload_call_defs ptrInt32Val_def split: sum.splits option.splits)
  next
    case 3
    with assms show ?thesis
      by (auto simp: CaptureSnapshot_def Restore_def captureCronJob_def restoreCronJob_def
          workload_call_defs ptrBoolVal_def split: sum.splits option.splits if_splits)
  qed
qed

theorem capture_restore_roundtrip_witness:
  "\<exists>s tr1 tr3. run_state (CaptureSnapshot web_cluster sample_ref) [] = (Inr s, tr1) \<and>
     run_state (Restore web_cluster sample_ref s) tr1 = (None, tr3) \<and>
     carried (hd tr3) = Replicas 3 \<and> carried (hd tr3) = carried (hd tr1)"
proof -
  let ?s = "web_snapshot\<lparr>snap_Resources := computeDeploymentResources web_deployment\<rparr>"
  have c: "run_state (CaptureSnapshot web_cluster sample_ref) [] =
      (Inr ?s, [GetDeployment False (ref_key sample_ref) (Inr web_deployment)])"
    by (simp add: CaptureSnapshot_def captureDeployment_def getDeployment_def verifyUID_def
        ptrInt32Val_def web_defs)
  obtain tr3 where r: "run_state (Restore web_cluster sample_ref ?s)
      [GetDeployment False (ref_key sample_ref) (Inr web_deployment)] = (None, tr3)"
    by (simp add: Restore_def restoreDeployment_def workload_call_defs verifyUID_def
        empty_cluster_def web_defs)
  have "carried (hd [GetDeployment False (ref_key sample_ref) (Inr web_deployment)]) = Replicas 3"
    by (simp add: ptrInt32Val_def web_deployment_def)
  with capture_restore_roundtrip[OF c r] c r show ?thesis by metis
qed

end
