(* ===== verification/TargetStatus.thy ===== *)
theory TargetStatus
  imports Executor
begin

text \<open>
  The bookkeeping of the target reconciler
  (\<open>src/internal/adapters/driving/reconciler/target_reconciler.go\<close>) that needs nothing from the
  cluster: writing a decision into the status of a target, the durable action record with its
  phases, and the identifiers under which actions and audit events are stored.  Sums of products are
  evaluated without fused multiply-add.
\<close>

section \<open>Constants\<close>

definition defaultRequeueAfter :: go_duration where "defaultRequeueAfter = 30 * Second"
definition errorRequeueAfter :: go_duration where "errorRequeueAfter = 10 * Second"
definition retryActionAnnotation :: string where "retryActionAnnotation = ''power.aura.sh/retry-action''"
definition statusCheckpointInterval :: go_duration where "statusCheckpointInterval = 5 * Minute"
definition actionConvergenceGrace :: go_duration where "actionConvergenceGrace = 2 * Minute"

section \<open>Writing the decision\<close>

definition set_status :: "(PowerTargetStatus \<Rightarrow> PowerTargetStatus) \<Rightarrow> PowerTarget \<Rightarrow> PowerTarget" where
  "set_status f t = t\<lparr>pt_Status := f (pt_Status t)\<rparr>"

definition set_labels :: "strmap \<Rightarrow> PowerTarget \<Rightarrow> PowerTarget" where
  "set_labels m t = t\<lparr>pt_Meta := (pt_Meta t)\<lparr>om_Labels := m\<rparr>\<rparr>"

text \<open>The accumulation of savings at a checkpoint.\<close>

definition accumulateSavings :: "rounding \<Rightarrow> PowerTargetStatus \<Rightarrow> string \<Rightarrow> go_time \<Rightarrow> PowerTargetStatus" where
  "accumulateSavings rnd st newDesired now =
     (case ts_LastReconciliation st of
        Some lastRec \<Rightarrow>
          (if newDesired = ''off'' \<and> oss_PowerState (ts_ObservedState st) = ''off'' then
             let hours = Hours rnd (time_Sub now lastRec) in
             if hours > 0 \<and> hours < 1 then
               let (cpuCores, memGiB) =
                     (case ts_Snapshot st of
                        Some s \<Rightarrow>
                          (if res_CPUMillicores (sn_Resources s) > 0
                           then (fdiv rnd (float_of_int rnd (res_CPUMillicores (sn_Resources s))) 1000,
                                 fdiv rnd (float_of_int rnd (res_MemoryMiB (sn_Resources s))) 1024)
                           else (1 / 4, 1 / 2))
                      | None \<Rightarrow> (1 / 4, 1 / 2));
                   savings = (case ts_Savings st of
                      None \<Rightarrow> \<lparr>svs_CPUHoursSaved = 0, svs_MemoryGiBHours = 0, svs_EstimatedCost = 0\<rparr>
                    | Some s \<Rightarrow> s)
               in st\<lparr>ts_Savings := Some
                    \<lparr>svs_CPUHoursSaved = fadd rnd (svs_CPUHoursSaved savings) (fmul rnd cpuCores hours),
                     svs_MemoryGiBHours = fadd rnd (svs_MemoryGiBHours savings) (fmul rnd memGiB hours),
                     svs_EstimatedCost = fadd rnd (svs_EstimatedCost savings)
                       (fmul rnd (fadd rnd (fmul rnd cpuCores (rnd (32 / 1000))) (fmul rnd memGiB (rnd (4 / 1000)))) hours)\<rparr>\<rparr>
             else st
           else st)
      | None \<Rightarrow> st)"

definition ruleReference :: "bool \<Rightarrow> RuleRef \<Rightarrow> RuleReference" where
  "ruleReference described r =
     \<lparr>rr_Kind = rule_Kind r, rr_Name = rule_Name r, rr_Namespace = rule_Namespace r,
      rr_Priority = wrap32 (rule_Priority r),
      rr_Description = (if described then rule_Description r else '''')\<rparr>"

definition updateTargetStatus :: "rounding \<Rightarrow> PowerTarget \<Rightarrow> Decision \<Rightarrow> go_time \<Rightarrow> PowerTarget" where
  "updateTargetStatus rnd t d nowTime =
     (let st = pt_Status t;
          previousDesired = ts_DesiredState st;
          newDesired = dec_DesiredState d;
          st = (if previousDesired \<noteq> newDesired \<and> newDesired \<noteq> ''''
                then st\<lparr>ts_LastTransition := Some nowTime\<rparr> else st);
          st = (if ts_LastTransition st = None \<and> newDesired \<noteq> ''''
                then st\<lparr>ts_LastTransition := Some nowTime\<rparr> else st);
          st = st\<lparr>ts_DesiredState := newDesired, ts_Managed := IsManaged d,
                  ts_Divergent := dec_Divergent d, ts_Blocked := IsBlocked d\<rparr>;
          checkpoint = (case ts_LastReconciliation st of
              None \<Rightarrow> True
            | Some lastRec \<Rightarrow> time_Sub nowTime lastRec \<ge> statusCheckpointInterval \<or> previousDesired \<noteq> newDesired);
          st = (if checkpoint
                then (accumulateSavings rnd st newDesired nowTime)\<lparr>ts_LastReconciliation := Some nowTime\<rparr>
                else st);
          st = st\<lparr>ts_WinningRule := map_option (ruleReference True) (dec_WinningRule d),
                  ts_SuppressedRules := map (ruleReference False) (dec_SuppressedRules d),
                  ts_BlockReasons := map (\<lambda>br. \<lparr>brs_Type = BlockType_string (br_Type br),
                     brs_Message = br_Message br, brs_Waivable = br_Waivable br\<rparr>) (dec_BlockReasons d)\<rparr>;
          label = (if IsBlocked d then ''blocked''
                   else if dec_Divergent d then ''divergent''
                   else dec_DesiredState d)
      in set_labels (go_put (om_Labels (pt_Meta t)) ''power.aura.sh/state'' label)
           (t\<lparr>pt_Status := st\<rparr>))"

section \<open>The action record\<close>

definition ruleNameFromDecision :: "Decision \<Rightarrow> string" where
  "ruleNameFromDecision d = (case dec_WinningRule d of Some r \<Rightarrow> rule_Name r | None \<Rightarrow> '''')"

definition powerDecisionKey :: "Decision \<Rightarrow> string" where
  "powerDecisionKey decision =
     (case dec_WinningRule decision of
        None \<Rightarrow> dec_DesiredState decision
      | Some rule \<Rightarrow> rule_Kind rule @ ''/'' @ rule_Namespace rule @ ''/'' @ rule_Name rule @ ''@'' @
          go_itoa (wrap64 (rule_CreatedAt rule)) @ '':'' @ dec_DesiredState decision)"

definition set_action :: "(PowerActionStatus \<Rightarrow> PowerActionStatus) \<Rightarrow> PowerTarget \<Rightarrow> PowerTarget" where
  "set_action f = set_status (\<lambda>st. st\<lparr>ts_Action := map_option f (ts_Action st)\<rparr>)"

definition completeAction :: "env \<Rightarrow> PowerTarget \<Rightarrow> string \<Rightarrow> string \<Rightarrow> PowerTarget io" where
  "completeAction E target phase message =
     (if ts_Action (pt_Status target) = None then return target
      else do {
        now \<leftarrow> time_Now E;
        return (set_action (\<lambda>a. a\<lparr>act_Phase := phase, act_CompletedAt := Some now, act_Message := message\<rparr>) target)
      })"

definition failAction :: "PowerTarget \<Rightarrow> go_error \<Rightarrow> PowerTarget" where
  "failAction target err =
     set_action (\<lambda>a. a\<lparr>act_Phase := ''Failed'', act_Message := err_Text err, act_CompletedAt := None\<rparr>) target"

definition markActionAuditPending :: "PowerTarget \<Rightarrow> PowerTarget" where
  "markActionAuditPending = set_action (\<lambda>a. a\<lparr>act_AuditPhase := ''Pending''\<rparr>)"

text \<open>
  \<open>env_sha256 E seed\<close> stands for the first 16 bytes of the digest in hexadecimal; \<open>NUL\<close> separates
  the parts of the seed.
\<close>

definition initializeActionAudit :: "env \<Rightarrow> PowerTarget \<Rightarrow> WorkloadRef \<Rightarrow> string \<Rightarrow> string \<Rightarrow> PowerTarget" where
  "initializeActionAudit E target ref action ruleName =
     set_action (\<lambda>a.
       let seed = ref_Cluster ref @ NUL @ ref_APIVersion ref @ NUL @ ref_Namespace ref @ NUL @
                  ref_Kind ref @ NUL @ ref_Name ref @ NUL @ ref_UID ref;
           seed = seed @ NUL @ act_DecisionKey a;
           seed = (case act_AttemptedAt a of
               Some attempted \<Rightarrow> seed @ NUL @ env_RFC3339Nano E attempted | None \<Rightarrow> seed)
       in a\<lparr>act_AuditEventID := ''action-'' @ env_sha256 E seed, act_AuditAction := action,
            act_AuditRuleName := ruleName\<rparr>) target"

definition actionIntentPersisted :: "PowerActionStatus option \<Rightarrow> PowerActionStatus option \<Rightarrow> bool" where
  "actionIntentPersisted persisted intended =
     (case (persisted, intended) of
        (Some p, Some i) \<Rightarrow>
          act_NotificationSuppressed p \<noteq> None \<and> act_NotificationSuppressed i \<noteq> None \<and>
          act_NotificationSuppressed p = act_NotificationSuppressed i \<and>
          act_NotificationSuppressionSource p = act_NotificationSuppressionSource i \<and>
          act_NotificationSuppressionNamespaceUID p = act_NotificationSuppressionNamespaceUID i \<and>
          act_AuditEventID p = act_AuditEventID i \<and> act_AuditAction p = act_AuditAction i \<and>
          act_AuditRuleName p = act_AuditRuleName i \<and> act_DesiredState p = act_DesiredState i \<and>
          act_DecisionKey p = act_DecisionKey i \<and> act_Phase p = act_Phase i \<and>
          act_RetryToken p = act_RetryToken i
      | _ \<Rightarrow> False)"

definition persistMutationBoundaryBlock :: "PowerTarget \<Rightarrow> BlockReasonSpec \<Rightarrow> PowerTarget" where
  "persistMutationBoundaryBlock target reason =
     set_status (\<lambda>st.
       let st = st\<lparr>ts_Blocked := True\<rparr>
       in if list_ex (\<lambda>existing. brs_Type existing = brs_Type reason) (ts_BlockReasons st) then st
          else st\<lparr>ts_BlockReasons := ts_BlockReasons st @ [reason]\<rparr>) target"

definition bumpFailures :: "PowerTarget \<Rightarrow> PowerTarget" where
  "bumpFailures = set_status (\<lambda>st. st\<lparr>ts_ConsecutiveFailures := wrap64 (ts_ConsecutiveFailures st + 1)\<rparr>)"

section \<open>Lemmas\<close>

named_theorems status_defs "unfolding rules for the updates of a target"

lemmas status_update_defs [status_defs] = set_status_def set_labels_def set_action_def failAction_def
  markActionAuditPending_def bumpFailures_def

lemma accumulateSavings_keeps [simp]:
  "ts_Action (accumulateSavings rnd st d now) = ts_Action st"
  "ts_Snapshot (accumulateSavings rnd st d now) = ts_Snapshot st"
  "ts_DesiredState (accumulateSavings rnd st d now) = ts_DesiredState st"
  "ts_Managed (accumulateSavings rnd st d now) = ts_Managed st"
  "ts_Divergent (accumulateSavings rnd st d now) = ts_Divergent st"
  "ts_Blocked (accumulateSavings rnd st d now) = ts_Blocked st"
  "ts_LastTransition (accumulateSavings rnd st d now) = ts_LastTransition st"
  "ts_Ownership (accumulateSavings rnd st d now) = ts_Ownership st"
  "ts_ObservedState (accumulateSavings rnd st d now) = ts_ObservedState st"
  "ts_ConsecutiveFailures (accumulateSavings rnd st d now) = ts_ConsecutiveFailures st"
  by (simp_all add: accumulateSavings_def Let_def split: option.split prod.split)

lemma updateTargetStatus_keeps [simp]:
  "ts_Action (pt_Status (updateTargetStatus rnd t d now)) = ts_Action (pt_Status t)"
  "ts_Snapshot (pt_Status (updateTargetStatus rnd t d now)) = ts_Snapshot (pt_Status t)"
  "ts_ObservedState (pt_Status (updateTargetStatus rnd t d now)) = ts_ObservedState (pt_Status t)"
  "pt_TargetRef (updateTargetStatus rnd t d now) = pt_TargetRef t"
  "om_Annotations (pt_Meta (updateTargetStatus rnd t d now)) = om_Annotations (pt_Meta t)"
  by (simp_all add: updateTargetStatus_def set_labels_def Let_def)

lemma go_put_idem [simp]: "go_put (go_put m k v) k v = go_put m k v"
  by (induction m k v rule: go_put.induct) auto

lemma updateTargetStatus_fields:
  "ts_DesiredState (pt_Status (updateTargetStatus rnd t d now)) = dec_DesiredState d"
  "ts_Managed (pt_Status (updateTargetStatus rnd t d now)) = IsManaged d"
  "ts_Divergent (pt_Status (updateTargetStatus rnd t d now)) = dec_Divergent d"
  "ts_Blocked (pt_Status (updateTargetStatus rnd t d now)) = IsBlocked d"
  "ts_WinningRule (pt_Status (updateTargetStatus rnd t d now)) = map_option (ruleReference True) (dec_WinningRule d)"
  "ts_SuppressedRules (pt_Status (updateTargetStatus rnd t d now)) = map (ruleReference False) (dec_SuppressedRules d)"
  by (simp_all add: updateTargetStatus_def set_labels_def Let_def)

lemma updateTargetStatus_LastTransition:
  "ts_LastTransition (pt_Status (updateTargetStatus rnd t d now)) =
     (if dec_DesiredState d \<noteq> '''' \<and>
         (dec_DesiredState d \<noteq> ts_DesiredState (pt_Status t) \<or> ts_LastTransition (pt_Status t) = None)
      then Some now else ts_LastTransition (pt_Status t))"
  by (auto simp: updateTargetStatus_def set_labels_def Let_def)

lemma updateTargetStatus_BlockReasons:
  "ts_BlockReasons (pt_Status (updateTargetStatus rnd t d now)) = map (\<lambda>br. \<lparr>brs_Type = BlockType_string (br_Type br),
      brs_Message = br_Message br, brs_Waivable = br_Waivable br\<rparr>) (dec_BlockReasons d)"
  by (simp add: updateTargetStatus_def set_labels_def Let_def)

definition state_label :: "Decision \<Rightarrow> string" where
  "state_label d = (if IsBlocked d then ''blocked'' else if dec_Divergent d then ''divergent'' else dec_DesiredState d)"

lemma updateTargetStatus_labels:
  "om_Labels (pt_Meta (updateTargetStatus rnd t d now)) =
     go_put (om_Labels (pt_Meta t)) ''power.aura.sh/state'' (state_label d)"
  by (simp add: updateTargetStatus_def set_labels_def state_label_def Let_def)

text \<open>A status that already shows the decision is a fixed point between checkpoints.\<close>

lemma updateTargetStatus_fixpoint:
  assumes "ts_DesiredState (pt_Status t) = dec_DesiredState d" "ts_Managed (pt_Status t) = IsManaged d"
    "ts_Divergent (pt_Status t) = dec_Divergent d" "ts_Blocked (pt_Status t) = IsBlocked d"
    "ts_WinningRule (pt_Status t) = map_option (ruleReference True) (dec_WinningRule d)"
    "ts_SuppressedRules (pt_Status t) = map (ruleReference False) (dec_SuppressedRules d)"
    "ts_BlockReasons (pt_Status t) = map (\<lambda>br. \<lparr>brs_Type = BlockType_string (br_Type br),
      brs_Message = br_Message br, brs_Waivable = br_Waivable br\<rparr>) (dec_BlockReasons d)"
    and "dec_DesiredState d \<noteq> '''' \<Longrightarrow> ts_LastTransition (pt_Status t) \<noteq> None"
    and "ts_LastReconciliation (pt_Status t) = Some checkpoint"
    and "time_Sub now checkpoint < statusCheckpointInterval"
    and "go_put (om_Labels (pt_Meta t)) ''power.aura.sh/state'' (state_label d) = om_Labels (pt_Meta t)"
  shows "updateTargetStatus rnd t d now = t"
proof -
  obtain meta ref st where t: "t = \<lparr>pt_Meta = meta, pt_TargetRef = ref, pt_Status = st\<rparr>" by (cases t)
  have "st\<lparr>ts_DesiredState := dec_DesiredState d, ts_Managed := IsManaged d, ts_Divergent := dec_Divergent d,
      ts_Blocked := IsBlocked d, ts_WinningRule := map_option (ruleReference True) (dec_WinningRule d),
      ts_SuppressedRules := map (ruleReference False) (dec_SuppressedRules d),
      ts_BlockReasons := map (\<lambda>br. \<lparr>brs_Type = BlockType_string (br_Type br),
      brs_Message = br_Message br, brs_Waivable = br_Waivable br\<rparr>) (dec_BlockReasons d)\<rparr> = st"
    using assms(1-7) unfolding t by (cases st) simp
  moreover have "meta\<lparr>om_Labels := go_put (om_Labels meta) ''power.aura.sh/state'' (state_label d)\<rparr> = meta"
    using assms(11) unfolding t by (cases meta) simp
  moreover have "\<not> (ts_LastTransition st = None \<and> dec_DesiredState d \<noteq> '''')"
    using assms(8) unfolding t by auto
  moreover have "ts_DesiredState st = dec_DesiredState d" "ts_LastReconciliation st = Some checkpoint"
    "\<not> statusCheckpointInterval \<le> time_Sub now checkpoint"
    using assms(1,9,10) unfolding t by simp_all
  ultimately show ?thesis
    unfolding updateTargetStatus_def set_labels_def Let_def state_label_def[symmetric] t by auto
qed

section \<open>Properties\<close>

text \<open>
  C10. Stable reconciliations are quiescent: writing the same decision into a target again, before
  the next savings checkpoint is due, changes nothing at all (neither status nor labels), so that it causes no
  further write and no watch event.
\<close>

theorem updateTargetStatus_quiescent:
  fixes rnd t d now
  defines "t1 \<equiv> updateTargetStatus rnd t d now"
  assumes "ts_LastReconciliation (pt_Status t1) = Some checkpoint"
    and "time_Sub now' checkpoint < statusCheckpointInterval"
  shows "updateTargetStatus rnd t1 d now' = t1"
proof (rule updateTargetStatus_fixpoint)
  show "ts_LastTransition (pt_Status t1) \<noteq> None" if "dec_DesiredState d \<noteq> ''''"
    using that by (simp add: t1_def updateTargetStatus_LastTransition)
qed (use assms(2,3) in \<open>simp_all add: t1_def updateTargetStatus_fields updateTargetStatus_BlockReasons
  updateTargetStatus_labels\<close>)

definition web_target :: PowerTarget where
  "web_target = \<lparr>pt_Meta = (png_Meta dev_group)\<lparr>om_Name := ''dev-web''\<rparr>,
     pt_TargetRef = \<lparr>tref_Cluster = '''', tref_APIVersion = ''apps/v1'', tref_Namespace = ''dev'',
       tref_Name = ''web'', tref_Kind = ''Deployment'', tref_UID = ''u1''\<rparr>,
     pt_Status = \<lparr>ts_WorkloadLabels = [], ts_NamespaceLabels = [],
       ts_ObservedState = \<lparr>oss_Replicas = 3, oss_Suspended = False, oss_ActiveJobs = 0, oss_PowerState = ''on''\<rparr>,
       ts_DesiredState = '''', ts_Managed = False, ts_Divergent = False, ts_WinningRule = None,
       ts_SuppressedRules = [], ts_Blocked = False, ts_BlockReasons = [], ts_Snapshot = None,
       ts_Ownership = [], ts_Savings = None, ts_LastTransition = None, ts_LastReconciliation = None,
       ts_ConsecutiveFailures = 0, ts_Action = None, ts_Conditions = []\<rparr>\<rparr>"

theorem updateTargetStatus_quiescent_witness:
  "updateTargetStatus id (updateTargetStatus id web_target zero_Decision 0) zero_Decision Minute =
   updateTargetStatus id web_target zero_Decision 0"
proof (rule updateTargetStatus_quiescent)
  show "ts_LastReconciliation (pt_Status (updateTargetStatus id web_target zero_Decision 0)) = Some 0"
    by (simp add: updateTargetStatus_def set_labels_def web_target_def Let_def)
  show "time_Sub Minute 0 < statusCheckpointInterval"
    by (simp add: time_Sub_def statusCheckpointInterval_def time_defs)
qed

end
