(* ===== verification/TargetReconcile.thy ===== *)
theory TargetReconcile
  imports TargetStatus
begin

text \<open>
  The target reconciler (\<open>src/internal/adapters/driving/reconciler/target_reconciler.go\<close> with
  \<open>namespace_scope.go\<close>): one reconciliation reads a target and all rules, computes the decision,
  and drives the workload towards it through a durable action record.  A Go function that changes
  the target it is given returns the changed target here.  Logging is left out.
\<close>

section \<open>Configuration\<close>

text \<open>
  The fields of the Go struct; \<open>rec_APIReader\<close> tells whether the direct reader is set, a nil
  \<open>Audit\<close> is \<open>None\<close>.
\<close>

record TargetReconciler =
  rec_ControlNamespace :: string
  rec_APIReader :: bool
  rec_Config :: GuardrailConfig
  rec_Executor :: WorkloadExecutor
  rec_Audit :: "(AuditEvent \<Rightarrow> go_error option io) option"
  rec_RequeueAfter :: go_duration

datatype outcome = Result go_duration | ResultErr go_error | Panicked

definition requeueAfter :: "TargetReconciler \<Rightarrow> go_duration" where
  "requeueAfter R = (if rec_RequeueAfter R > 0 then rec_RequeueAfter R else defaultRequeueAfter)"

definition namespaceIsManaged :: "string \<Rightarrow> string \<Rightarrow> bool" where
  "namespaceIsManaged controlNamespace candidate \<longleftrightarrow> controlNamespace = '''' \<or> candidate = controlNamespace"

text \<open>The namespace a list is restricted to; the empty one stands for no restriction.\<close>

definition namespaceListOptions :: "string \<Rightarrow> string" where
  "namespaceListOptions controlNamespace = controlNamespace"

definition nn_String :: "NamespacedName \<Rightarrow> string" where
  "nn_String k = nn_Namespace k @ ''/'' @ nn_Name k"

section \<open>Client calls\<close>

definition getTarget :: "env \<Rightarrow> bool \<Rightarrow> NamespacedName \<Rightarrow> PowerTarget result io" where
  "getTarget E live key = call (\<lambda>tr. env_GetTarget E tr live key) (GetTarget live key)"

definition updateTarget :: "env \<Rightarrow> PowerTarget \<Rightarrow> PowerTarget result io" where
  "updateTarget E t = call (\<lambda>tr. env_UpdateTarget E tr t) (UpdateTarget t)"

definition statusUpdateTarget :: "env \<Rightarrow> PowerTarget \<Rightarrow> PowerTarget result io" where
  "statusUpdateTarget E t = call (\<lambda>tr. env_StatusUpdateTarget E tr t) (StatusUpdateTarget t)"

definition listPolicies :: "env \<Rightarrow> string \<Rightarrow> PowerPolicy list result io" where
  "listPolicies E ns = call (\<lambda>tr. env_ListPolicies E tr ns) (ListPolicies ns)"

definition listOverrides :: "env \<Rightarrow> string \<Rightarrow> PowerOverride list result io" where
  "listOverrides E ns = call (\<lambda>tr. env_ListOverrides E tr ns) (ListOverrides ns)"

definition listHPAs :: "env \<Rightarrow> string \<Rightarrow> HPA list result io" where
  "listHPAs E ns = call (\<lambda>tr. env_ListHPAs E tr True ns) (ListHPAs True ns)"

definition getNamespace :: "env \<Rightarrow> string \<Rightarrow> ObjectMeta result io" where
  "getNamespace E ns = call (\<lambda>tr. env_GetNamespace E tr True ns) (GetNamespace True ns)"

definition recordAction :: "string \<Rightarrow> string \<Rightarrow> bool \<Rightarrow> unit io" where
  "recordAction action target ok = call (\<lambda>_. ()) (\<lambda>_. MetricAction action target ok)"

definition recordReconciliation :: "go_duration \<Rightarrow> unit io" where
  "recordReconciliation d = call (\<lambda>_. ()) (\<lambda>_. MetricReconciliation d)"

lemmas client_defs = getTarget_def updateTarget_def statusUpdateTarget_def listPolicies_def
  listOverrides_def listHPAs_def getNamespace_def recordAction_def recordReconciliation_def

definition ActionPowerDown :: string where "ActionPowerDown = ''power_down''"
definition ActionRestore :: string where "ActionRestore = ''restore''"

section \<open>Loading the rules\<close>

fun resolvePolicies :: "env \<Rightarrow> PowerPolicy list \<Rightarrow> PolicySpec list io" where
  "resolvePolicies E [] = return []"
| "resolvePolicies E (p # ps) = do {
     resolved \<leftarrow> ResolveScope E (om_Namespace (pp_Meta p)) (pps_Scope (pp_Spec p));
     rest \<leftarrow> resolvePolicies E ps;
     return (case resolved of Inl err \<Rightarrow> rest | Inr scope \<Rightarrow> (toDomainPolicy p)\<lparr>pol_Scope := scope\<rparr> # rest)
   }"

definition loadPolicies :: "env \<Rightarrow> TargetReconciler \<Rightarrow> PolicySpec list result io" where
  "loadPolicies E R = do {
     l \<leftarrow> listPolicies E (namespaceListOptions (rec_ControlNamespace R));
     case l of
       Inl err \<Rightarrow> return (Inl err)
     | Inr items \<Rightarrow> do { ps \<leftarrow> resolvePolicies E items; return (Inr ps) }
   }"

fun resolveOverrides :: "env \<Rightarrow> PowerOverride list \<Rightarrow> OverrideSpec list io" where
  "resolveOverrides E [] = return []"
| "resolveOverrides E (v # vs) = do {
     resolved \<leftarrow> ResolveScope E (om_Namespace (po_Meta v)) (pos_Scope (po_Spec v));
     rest \<leftarrow> resolveOverrides E vs;
     return (case resolved of Inl err \<Rightarrow> rest | Inr scope \<Rightarrow> (toDomainOverride v)\<lparr>ovr_Scope := scope\<rparr> # rest)
   }"

definition loadOverrides :: "env \<Rightarrow> TargetReconciler \<Rightarrow> OverrideSpec list result io" where
  "loadOverrides E R = do {
     l \<leftarrow> listOverrides E (namespaceListOptions (rec_ControlNamespace R));
     case l of
       Inl err \<Rightarrow> return (Inl err)
     | Inr items \<Rightarrow> do { vs \<leftarrow> resolveOverrides E items; return (Inr vs) }
   }"

section \<open>Live checks\<close>

record notificationDisposition =
  nd_Suppressed :: bool
  nd_Source :: string
  nd_NamespaceUID :: string

text \<open>The uncached read of the workload of a reference: its UID and annotations.\<close>

definition liveWorkload :: "env \<Rightarrow> WorkloadRef \<Rightarrow> ObjectMeta result io" where
  "liveWorkload E ref =
     (if ref_Kind ref = WorkloadKindDeployment
      then do { r \<leftarrow> getDeployment E True (ref_key ref); return (case r of Inl e \<Rightarrow> Inl e | Inr d \<Rightarrow> Inr (wl_Meta d)) }
      else if ref_Kind ref = WorkloadKindStatefulSet
      then do { r \<leftarrow> getStatefulSet E True (ref_key ref); return (case r of Inl e \<Rightarrow> Inl e | Inr d \<Rightarrow> Inr (wl_Meta d)) }
      else do { r \<leftarrow> getCronJob E True (ref_key ref); return (case r of Inl e \<Rightarrow> Inl e | Inr d \<Rightarrow> Inr (cj_Meta d)) })"

definition liveNotificationSuppression ::
  "env \<Rightarrow> TargetReconciler \<Rightarrow> WorkloadRef \<Rightarrow> notificationDisposition result io" where
  "liveNotificationSuppression E R ref =
     (if \<not> rec_APIReader R then return (Inl (errors_New ''live API reader is unavailable''))
      else if ref_Kind ref \<notin> {WorkloadKindDeployment, WorkloadKindStatefulSet, WorkloadKindCronJob}
      then return (Inl (errors_New (''unsupported workload kind '' @ go_quote (ref_Kind ref))))
      else do {
        w \<leftarrow> liveWorkload E ref;
        case w of
          Inl err \<Rightarrow> return (Inl (wrap_error (''read workload '' @ nn_String (ref_key ref) @ '': '') err ''''))
        | Inr workload \<Rightarrow>
            if ref_UID ref = '''' \<or> om_UID workload \<noteq> ref_UID ref
            then return (Inl (errors_New (''workload '' @ nn_String (ref_key ref) @ '' UID changed: expected '' @
                   go_quote (ref_UID ref) @ '', observed '' @ go_quote (om_UID workload))))
            else do {
              n \<leftarrow> getNamespace E (ref_Namespace ref);
              case n of
                Inl err \<Rightarrow> return (Inl (wrap_error (''read namespace '' @ ref_Namespace ref @ '': '') err ''''))
              | Inr ns \<Rightarrow>
                  if om_DeletionTimestamp ns \<noteq> None \<and> om_DeletionTimestamp ns \<noteq> Some zero_time
                  then return (Inl (errors_New (''namespace '' @ ref_Namespace ref @ '' is terminating'')))
                  else if go_get (om_Labels ns) NotificationPolicyLabel = NotificationPolicyDisabled
                  then return (Inr \<lparr>nd_Suppressed = True, nd_Source = ''namespace-label'', nd_NamespaceUID = om_UID ns\<rparr>)
                  else return (Inr \<lparr>nd_Suppressed = False, nd_Source = '''', nd_NamespaceUID = om_UID ns\<rparr>)
            }
      })"

definition liveHPAOptIn :: "env \<Rightarrow> TargetReconciler \<Rightarrow> WorkloadRef \<Rightarrow> bool result io" where
  "liveHPAOptIn E R ref =
     (if ref_Kind ref \<notin> {WorkloadKindDeployment, WorkloadKindStatefulSet}
      then return (Inl (errors_New (''HPA references unsupported workload kind '' @ go_quote (ref_Kind ref))))
      else do {
        w \<leftarrow> liveWorkload E ref;
        case w of
          Inl err \<Rightarrow> return (Inl err)
        | Inr workload \<Rightarrow>
            if ref_UID ref = '''' \<or> om_UID workload \<noteq> ref_UID ref
            then return (Inl (errors_New ''workload UID changed while verifying HPA opt-in''))
            else do {
              n \<leftarrow> getNamespace E (ref_Namespace ref);
              case n of
                Inl err \<Rightarrow> return (Inl err)
              | Inr ns \<Rightarrow> return (Inr
                  (go_get (om_Annotations workload) (gc_OptInAnnotation (rec_Config R)) = ''true'' \<or>
                   go_get (om_Annotations ns) (gc_OptInAnnotation (rec_Config R)) = ''true''))
            }
      })"

text \<open>Persisting a target whose checks failed; both outcomes refuse the power-down.\<close>

definition failClosed ::
  "env \<Rightarrow> PowerTarget \<Rightarrow> string \<Rightarrow> go_error \<Rightarrow> string \<Rightarrow> (bool \<times> go_error option \<times> PowerTarget) io" where
  "failClosed E target message err what =
     (let target = bumpFailures (persistMutationBoundaryBlock target
            \<lparr>brs_Type = BlockType_string BlockInsufficientInfo, brs_Message = message, brs_Waivable = False\<rparr>)
      in do {
        u \<leftarrow> statusUpdateTarget E target;
        case u of
          Inl statusErr \<Rightarrow> return (False, Some (wrap_error (what @ '': '') err
              (''; persist fail-closed status: '' @ err_Text statusErr)), target)
        | Inr target \<Rightarrow> return (False, Some (wrap_error (what @ '': '') err ''''), target)
      })"

fun clearHPAOptIn :: "OwnershipSpec list \<Rightarrow> OwnershipSpec list" where
  "clearHPAOptIn [] = [\<lparr>os_Type = OwnershipHPA, os_OptedIn = False\<rparr>]"
| "clearHPAOptIn (x # xs) =
     (if os_Type x = OwnershipHPA then x\<lparr>os_OptedIn := False\<rparr> # xs else x # clearHPAOptIn xs)"

definition hpa_targets :: "WorkloadRef \<Rightarrow> HPA \<Rightarrow> bool" where
  "hpa_targets ref h \<longleftrightarrow> hpa_TargetAPIVersion h = ref_APIVersion ref \<and> hpa_TargetKind h = ref_Kind ref \<and>
     hpa_TargetName h = ref_Name ref"

definition admitLiveHPA ::
  "env \<Rightarrow> TargetReconciler \<Rightarrow> PowerTarget \<Rightarrow> WorkloadRef \<Rightarrow> (bool \<times> go_error option \<times> PowerTarget) io" where
  "admitLiveHPA E R target ref =
     (if \<not> rec_APIReader R then return (True, None, target)
      else do {
        l \<leftarrow> listHPAs E (ref_Namespace ref);
        case l of
          Inl err \<Rightarrow> failClosed E target
            ''Unable to verify HPA ownership at mutation time; power-down is blocked.'' err ''list HorizontalPodAutoscalers''
        | Inr hpas \<Rightarrow>
            if \<not> list_ex (hpa_targets ref) hpas then return (True, None, target)
            else do {
              opt \<leftarrow> liveHPAOptIn E R ref;
              case opt of
                Inl err \<Rightarrow> failClosed E target
                  ''Unable to verify current workload and namespace HPA opt-in; power-down is blocked.'' err ''verify live HPA opt-in''
              | Inr optedIn \<Rightarrow>
                  if optedIn then return (True, None, target)
                  else
                    let target = set_status (\<lambda>st. st\<lparr>ts_Ownership := clearHPAOptIn (ts_Ownership st)\<rparr>) target;
                        target = persistMutationBoundaryBlock target
                          \<lparr>brs_Type = BlockType_string BlockHPAControlled,
                           brs_Message = ''A live HPA was detected at mutation time. Wait for discovery and add explicit opt-in before power-down.'',
                           brs_Waivable = True\<rparr>
                    in do {
                      u \<leftarrow> statusUpdateTarget E target;
                      case u of
                        Inl err \<Rightarrow> return (False, Some (wrap_error ''persist live HPA block: '' err ''''), target)
                      | Inr target \<Rightarrow> return (False, None, target)
                    }
            }
      })"

section \<open>Audit\<close>

text \<open>\<open>None\<close> is the panic of a call on a nil recorder.\<close>

definition recordAudit ::
  "env \<Rightarrow> TargetReconciler \<Rightarrow> PowerTarget option \<Rightarrow> WorkloadRef \<Rightarrow> string \<Rightarrow> string \<Rightarrow> string \<Rightarrow> string \<Rightarrow>
   go_error option option io" where
  "recordAudit E R target ref action result reason ruleName = do {
     disposition \<leftarrow>
       (case Option.bind target (\<lambda>t. Option.bind (ts_Action (pt_Status t)) (\<lambda>a.
               map_option (\<lambda>s. \<lparr>nd_Suppressed = s, nd_Source = act_NotificationSuppressionSource a,
                                nd_NamespaceUID = act_NotificationSuppressionNamespaceUID a\<rparr>)
                 (act_NotificationSuppressed a))) of
          Some d \<Rightarrow> return (Inr d)
        | None \<Rightarrow> liveNotificationSuppression E R ref);
     case disposition of
       Inl err \<Rightarrow> return (Some (Some (wrap_error ''resolve notification policy before audit: '' err '''')))
     | Inr d \<Rightarrow> do {
         now \<leftarrow> time_Now E;
         case rec_Audit R of
           None \<Rightarrow> return None
         | Some recorder \<Rightarrow> do {
             r \<leftarrow> recorder \<lparr>ae_ID = '''', ae_Timestamp = now, ae_Action = action,
                  ae_Actor = ''system/controller'', ae_Target = ref, ae_Result = result, ae_Reason = reason,
                  ae_RuleName = ruleName, ae_SuppressNotification = nd_Suppressed d,
                  ae_NotificationSuppressionSource = nd_Source d,
                  ae_NotificationSuppressionNamespaceUID = nd_NamespaceUID d\<rparr>;
             return (Some r)
           }
       }
   }"

definition auditSubject :: "string \<Rightarrow> (string \<times> string) option" where
  "auditSubject auditAction =
     (if auditAction = AuditWorkloadPoweredDown then Some (''Powered down by policy'', ActionPowerDown)
      else if auditAction = AuditWorkloadRestored then Some (''Restored from snapshot'', ActionRestore)
      else None)"

definition reconcilePendingAudit ::
  "env \<Rightarrow> TargetReconciler \<Rightarrow> PowerTarget \<Rightarrow> WorkloadRef \<Rightarrow> string \<Rightarrow> (bool \<times> go_error option \<times> PowerTarget) io" where
  "reconcilePendingAudit E R target ref metricTarget =
     (case ts_Action (pt_Status target) of
        None \<Rightarrow> return (False, None, target)
      | Some action \<Rightarrow>
          if act_AuditPhase action \<noteq> ''Pending'' \<or> act_AuditEventID action = '''' then return (False, None, target)
          else case rec_Audit R of
            None \<Rightarrow> return (True, Some (errors_New ''audit recorder is unavailable''), target)
          | Some recorder \<Rightarrow>
              (case act_NotificationSuppressed action of
                 None \<Rightarrow> do {
                   d \<leftarrow> liveNotificationSuppression E R ref;
                   case d of
                     Inl err \<Rightarrow> return (True, Some (wrap_error ''resolve notification policy for legacy pending action: '' err ''''), target)
                   | Inr disposition \<Rightarrow>
                       (let target = set_action (\<lambda>a. a\<lparr>act_NotificationSuppressed := Some (nd_Suppressed disposition),
                              act_NotificationSuppressionSource := nd_Source disposition,
                              act_NotificationSuppressionNamespaceUID := nd_NamespaceUID disposition\<rparr>) target
                        in do {
                          u \<leftarrow> statusUpdateTarget E target;
                          case u of
                            Inl err \<Rightarrow> return (True, Some (wrap_error ''persist notification policy for legacy pending action: '' err ''''), target)
                          | Inr target \<Rightarrow> return (True, None, target)
                        })
                 }
               | Some suppressed \<Rightarrow>
                   (case auditSubject (act_AuditAction action) of
                      None \<Rightarrow> return (True, Some (errors_New (''unsupported pending audit action '' @ go_quote (act_AuditAction action))), target)
                    | Some (reason, metricAction) \<Rightarrow> do {
                        now \<leftarrow> time_Now E;
                        let timestamp = (case act_CompletedAt action of None \<Rightarrow> now | Some c \<Rightarrow> c);
                        r \<leftarrow> recorder \<lparr>ae_ID = act_AuditEventID action, ae_Timestamp = timestamp,
                             ae_Action = act_AuditAction action, ae_Actor = ''system/controller'', ae_Target = ref,
                             ae_Result = ''success'', ae_Reason = reason, ae_RuleName = act_AuditRuleName action,
                             ae_SuppressNotification = suppressed,
                             ae_NotificationSuppressionSource = act_NotificationSuppressionSource action,
                             ae_NotificationSuppressionNamespaceUID = act_NotificationSuppressionNamespaceUID action\<rparr>;
                        case r of
                          Some err \<Rightarrow> return (True, Some err, target)
                        | None \<Rightarrow>
                            (let target = set_action (\<lambda>a. a\<lparr>act_AuditPhase := ''Recorded''\<rparr>) target
                             in do {
                               u \<leftarrow> statusUpdateTarget E target;
                               case u of
                                 Inl err \<Rightarrow> return (True, Some (wrap_error ''persist recorded audit checkpoint: '' err ''''), target)
                               | Inr target \<Rightarrow> do {
                                   _ \<leftarrow> recordAction metricAction metricTarget True;
                                   return (True, None, target)
                                 }
                             })
                      })))"

section \<open>The action state machine\<close>

text \<open>An operator or another controller has already restored the workload.\<close>

definition alreadyRestored :: "PowerTarget \<Rightarrow> PowerState \<Rightarrow> PowerState \<Rightarrow> bool" where
  "alreadyRestored target desired observed \<longleftrightarrow>
     desired = PowerStateOn \<and> observed = desired \<and> ts_Snapshot (pt_Status target) \<noteq> None \<and>
     (case ts_Action (pt_Status target) of
        None \<Rightarrow> True
      | Some action \<Rightarrow> act_Phase action = ''Converged'' \<or> act_Phase action = ''Contended'' \<or>
          (act_DesiredState action = desired \<and> act_Phase action \<noteq> ''InProgress'' \<and>
           act_AuditPhase action \<noteq> ''Pending''))"

text \<open>The test for an action that does not belong to the current decision and attempt.\<close>

definition actionSuperseded :: "PowerTarget \<Rightarrow> PowerActionStatus \<Rightarrow> Decision \<Rightarrow> bool" where
  "actionSuperseded target action decision \<longleftrightarrow>
     act_DesiredState action \<noteq> dec_DesiredState decision \<or>
     act_DecisionKey action \<noteq> powerDecisionKey decision \<or> act_Phase action = ''Failed'' \<or>
     go_get (om_Annotations (pt_Meta target)) retryActionAnnotation \<noteq> act_RetryToken action"

definition convergedAction :: "PowerTarget \<Rightarrow> Decision \<Rightarrow> go_time \<Rightarrow> PowerActionStatus" where
  "convergedAction target decision now =
     \<lparr>act_DesiredState = dec_DesiredState decision, act_DecisionKey = powerDecisionKey decision,
      act_Phase = ''Converged'', act_AttemptedAt = None, act_CompletedAt = Some now,
      act_Message = ''desired workload state already observed'',
      act_RetryToken = go_get (om_Annotations (pt_Meta target)) retryActionAnnotation,
      act_AuditEventID = '''', act_AuditPhase = '''', act_AuditAction = '''', act_AuditRuleName = '''',
      act_NotificationSuppressed = None, act_NotificationSuppressionSource = '''',
      act_NotificationSuppressionNamespaceUID = ''''\<rparr>"

text \<open>The part of \<open>reconcileExistingAction\<close> after the restored workload has been dealt with.\<close>

definition observeAction ::
  "env \<Rightarrow> PowerTarget \<Rightarrow> WorkloadRef \<Rightarrow> Decision \<Rightarrow> PowerState \<Rightarrow> (bool \<times> go_error option \<times> PowerTarget) io" where
  "observeAction E target ref decision observed =
     (case ts_Action (pt_Status target) of
        None \<Rightarrow> return (False, None, target)
      | Some action \<Rightarrow>
          let desired = dec_DesiredState decision in
          if actionSuperseded target action decision then return (False, None, target)
          else if observed = desired \<and> act_Phase action = ''InProgress'' then
            (let target = (if act_AuditEventID action = ''''
                   then initializeActionAudit E target ref
                          (if desired = PowerStateOn then AuditWorkloadRestored else AuditWorkloadPoweredDown)
                          (ruleNameFromDecision decision)
                   else target)
             in do {
               target \<leftarrow> completeAction E target ''Applied''
                 ''workload mutation outcome recovered from observed state; audit pending'';
               let target = markActionAuditPending target;
               u \<leftarrow> statusUpdateTarget E target;
               case u of
                 Inl err \<Rightarrow> return (True, Some err, target)
               | Inr target \<Rightarrow> return (True, None, target)
             })
          else if observed = desired then
            (if act_Phase action \<noteq> ''Converged'' then do {
               target \<leftarrow> completeAction E target ''Converged'' ''desired workload state observed'';
               return (False, None, target)
             } else return (False, None, target))
          else if act_Phase action = ''InProgress'' then return (False, None, target)
          else do {
            grace \<leftarrow> (case act_CompletedAt action of
                Some c \<Rightarrow> if act_Phase action = ''Applied''
                  then do { now \<leftarrow> time_Now E; return (time_Sub now c < actionConvergenceGrace) }
                  else return False
              | None \<Rightarrow> return False);
            if grace then return (True, None, target)
            else if act_Phase action \<noteq> ''Contended'' then
              (let target = set_action (\<lambda>a. a\<lparr>act_Phase := ''Contended'',
                     act_Message := ''desired state was not retained; another controller may own the same field'',
                     act_CompletedAt := None\<rparr>) target
               in do {
                 u \<leftarrow> statusUpdateTarget E target;
                 case u of
                   Inl err \<Rightarrow> return (True, Some err, target)
                 | Inr target \<Rightarrow> return (True, None, target)
               })
            else return (True, None, target)
          })"

definition reconcileExistingAction ::
  "env \<Rightarrow> PowerTarget \<Rightarrow> WorkloadRef \<Rightarrow> Decision \<Rightarrow> PowerState \<Rightarrow> (bool \<times> go_error option \<times> PowerTarget) io" where
  "reconcileExistingAction E target ref decision observed = do {
     target \<leftarrow>
       (if alreadyRestored target (dec_DesiredState decision) observed
        then do {
          now \<leftarrow> time_Now E;
          return (set_status (\<lambda>st. st\<lparr>ts_Snapshot := None,
            ts_Action := Some (convergedAction target decision now)\<rparr>) target)
        }
        else return target);
     observeAction E target ref decision observed
   }"

definition newAction ::
  "PowerTarget \<Rightarrow> Decision \<Rightarrow> notificationDisposition \<Rightarrow> go_time \<Rightarrow> PowerActionStatus" where
  "newAction target decision disposition now =
     \<lparr>act_DesiredState = dec_DesiredState decision, act_DecisionKey = powerDecisionKey decision,
      act_Phase = ''InProgress'', act_AttemptedAt = Some now, act_CompletedAt = None, act_Message = '''',
      act_RetryToken = go_get (om_Annotations (pt_Meta target)) retryActionAnnotation,
      act_AuditEventID = '''', act_AuditPhase = '''', act_AuditAction = '''', act_AuditRuleName = '''',
      act_NotificationSuppressed = Some (nd_Suppressed disposition),
      act_NotificationSuppressionSource = nd_Source disposition,
      act_NotificationSuppressionNamespaceUID = nd_NamespaceUID disposition\<rparr>"

definition beginAction ::
  "env \<Rightarrow> TargetReconciler \<Rightarrow> PowerTarget \<Rightarrow> Decision \<Rightarrow> WorkloadRef \<Rightarrow> string \<Rightarrow> string \<Rightarrow>
   (go_error option \<times> PowerTarget) io" where
  "beginAction E R target decision ref auditAction ruleName = do {
     d \<leftarrow> liveNotificationSuppression E R ref;
     case d of
       Inl err \<Rightarrow> return (Some (wrap_error ''capture live notification policy: '' err ''''), target)
     | Inr disposition \<Rightarrow> do {
         now \<leftarrow> time_Now E;
         let target = set_status (\<lambda>st. st\<lparr>ts_Action := Some (newAction target decision disposition now)\<rparr>) target;
         let target = initializeActionAudit E target ref auditAction ruleName;
         u \<leftarrow> statusUpdateTarget E target;
         case u of
           Inl err \<Rightarrow> return (Some err, target)
         | Inr target \<Rightarrow> do {
             g \<leftarrow> getTarget E True \<lparr>nn_Namespace = om_Namespace (pt_Meta target), nn_Name = om_Name (pt_Meta target)\<rparr>;
             case g of
               Inl err \<Rightarrow> return (Some (wrap_error ''verify persisted action intent: '' err ''''), target)
             | Inr persisted \<Rightarrow>
                 if \<not> actionIntentPersisted (ts_Action (pt_Status persisted)) (ts_Action (pt_Status target))
                 then return (Some (errors_New ''persisted action intent differs from the notification-safe intent''), target)
                 else return (None, target)
           }
       }
   }"

section \<open>Execution\<close>

definition available :: "PowerTarget \<Rightarrow> SnapshotSpec option" where
  "available target = (case ts_Snapshot (pt_Status target) of
     Some s \<Rightarrow> if sn_Available s then Some s else None | None \<Rightarrow> None)"

definition executePowerDown :: "TargetReconciler \<Rightarrow> PowerTarget \<Rightarrow> WorkloadRef \<Rightarrow> go_error option io" where
  "executePowerDown R target ref =
     (case available target of
        None \<Rightarrow> return (Some (errors_New ''refusing power-down without an available snapshot''))
      | Some s \<Rightarrow> ex_PowerDown (rec_Executor R) ref
          \<lparr>snap_ReplicaCount = sn_ReplicaCount s, snap_Suspended = sn_Suspended s,
           snap_Resources = \<lparr>res_CPUMillicores = 0, res_MemoryMiB = 0\<rparr>, snap_CapturedAt = zero_time,
           snap_ResourceVersion = sn_ResourceVersion s\<rparr>)"

definition captureAndPersistSnapshot ::
  "env \<Rightarrow> TargetReconciler \<Rightarrow> PowerTarget \<Rightarrow> WorkloadRef \<Rightarrow> (go_error option \<times> PowerTarget) io" where
  "captureAndPersistSnapshot E R target ref = do {
     c \<leftarrow> ex_CaptureSnapshot (rec_Executor R) ref;
     case c of
       Inl err \<Rightarrow> return (Some err, target)
     | Inr snapshot \<Rightarrow> do {
         now \<leftarrow> time_Now E;
         let target = set_status (\<lambda>st. st\<lparr>ts_Snapshot := Some
               \<lparr>sn_Available = True, sn_ReplicaCount = snap_ReplicaCount snapshot,
                sn_Suspended = snap_Suspended snapshot, sn_Resources = snap_Resources snapshot,
                sn_CapturedAt = Some now, sn_ResourceVersion = snap_ResourceVersion snapshot\<rparr>\<rparr>) target;
         u \<leftarrow> statusUpdateTarget E target;
         case u of
           Inl err \<Rightarrow> return (Some err, target)
         | Inr target \<Rightarrow> return (None, target)
       }
   }"

definition executeRestore :: "TargetReconciler \<Rightarrow> PowerTarget \<Rightarrow> WorkloadRef \<Rightarrow> go_error option io" where
  "executeRestore R target ref =
     (case available target of
        None \<Rightarrow> return (Some (errors_New ''refusing restore without an available snapshot''))
      | Some s \<Rightarrow> ex_Restore (rec_Executor R) ref
          \<lparr>snap_ReplicaCount = sn_ReplicaCount s, snap_Suspended = sn_Suspended s,
           snap_Resources = \<lparr>res_CPUMillicores = 0, res_MemoryMiB = 0\<rparr>, snap_CapturedAt = zero_time,
           snap_ResourceVersion = ''''\<rparr>)"

section \<open>Reconcile\<close>

text \<open>The tail shared in shape by both branches: the mutation was accepted.\<close>

definition checkpointApplied ::
  "env \<Rightarrow> TargetReconciler \<Rightarrow> NamespacedName \<Rightarrow> WorkloadRef \<Rightarrow> Decision \<Rightarrow> PowerTarget \<Rightarrow> string \<Rightarrow> string \<Rightarrow> outcome io" where
  "checkpointApplied E R req ref decision target metricAction what = do {
     let target = set_status (\<lambda>st. st\<lparr>ts_ConsecutiveFailures := 0\<rparr>) target;
     target \<leftarrow> completeAction E target ''Applied'' ''workload mutation accepted; waiting for observation'';
     let target = markActionAuditPending target;
     now \<leftarrow> time_Now E;
     let target = updateTargetStatus (env_rnd E) target decision now;
     u \<leftarrow> statusUpdateTarget E target;
     case u of
       Inl err \<Rightarrow> do {
         _ \<leftarrow> recordAction metricAction (nn_String req) False;
         a \<leftarrow> recordAudit E R (Some target) ref AuditExecutionError ''error''
                (what @ '' was accepted but its completion checkpoint was not persisted: '' @ err_Text err)
                (ruleNameFromDecision decision);
         return (if a = None then Panicked else Result errorRequeueAfter)
       }
     | Inr target \<Rightarrow> do {
         (handled, err, target) \<leftarrow> reconcilePendingAudit E R target ref (nn_String req);
         return (if err \<noteq> None then Result errorRequeueAfter else Result (10 * Second))
       }
   }"

definition reconcilePowerDown ::
  "env \<Rightarrow> TargetReconciler \<Rightarrow> NamespacedName \<Rightarrow> WorkloadRef \<Rightarrow> Decision \<Rightarrow> PowerTarget \<Rightarrow> outcome io" where
  "reconcilePowerDown E R req ref decision target = do {
     (captureErr, target) \<leftarrow> (if available target = None then captureAndPersistSnapshot E R target ref
                              else return (None, target));
     case captureErr of
       Some err \<Rightarrow> do {
         let target = bumpFailures target;
         _ \<leftarrow> statusUpdateTarget E target;
         _ \<leftarrow> recordAction ActionPowerDown (nn_String req) False;
         a \<leftarrow> recordAudit E R None ref AuditExecutionError ''error'' (err_Text err) '''';
         return (if a = None then Panicked else Result errorRequeueAfter)
       }
     | None \<Rightarrow> do {
         (admitted, inspectionErr, target) \<leftarrow> admitLiveHPA E R target ref;
         if \<not> admitted then return (Result errorRequeueAfter)
         else do {
           (beginErr, target) \<leftarrow> beginAction E R target decision ref AuditWorkloadPoweredDown (ruleNameFromDecision decision);
           case beginErr of
             Some err \<Rightarrow> return (Result errorRequeueAfter)
           | None \<Rightarrow> do {
               execErr \<leftarrow> executePowerDown R target ref;
               case execErr of
                 Some err \<Rightarrow> do {
                   let target = failAction (bumpFailures target) err;
                   let target = (if err_SnapshotStale err then set_status (\<lambda>st. st\<lparr>ts_Snapshot := None\<rparr>) target else target);
                   _ \<leftarrow> recordAction ActionPowerDown (nn_String req) False;
                   a \<leftarrow> recordAudit E R (Some target) ref AuditExecutionError ''error'' (err_Text err) '''';
                   if a = None then return Panicked
                   else do {
                     _ \<leftarrow> statusUpdateTarget E target;
                     return (Result errorRequeueAfter)
                   }
                 }
               | None \<Rightarrow> checkpointApplied E R req ref decision target ActionPowerDown ''power-down''
             }
         }
       }
   }"

definition reconcileRestore ::
  "env \<Rightarrow> TargetReconciler \<Rightarrow> NamespacedName \<Rightarrow> WorkloadRef \<Rightarrow> Decision \<Rightarrow> PowerTarget \<Rightarrow> outcome io" where
  "reconcileRestore E R req ref decision target = do {
     (beginErr, target) \<leftarrow> beginAction E R target decision ref AuditWorkloadRestored (ruleNameFromDecision decision);
     case beginErr of
       Some err \<Rightarrow> return (Result errorRequeueAfter)
     | None \<Rightarrow> do {
         execErr \<leftarrow> executeRestore R target ref;
         case execErr of
           Some err \<Rightarrow> do {
             let target = failAction (bumpFailures target) err;
             _ \<leftarrow> recordAction ActionRestore (nn_String req) False;
             a \<leftarrow> recordAudit E R (Some target) ref AuditExecutionError ''error'' (err_Text err) '''';
             if a = None then return Panicked
             else do {
               _ \<leftarrow> statusUpdateTarget E target;
               return (Result errorRequeueAfter)
             }
           }
         | None \<Rightarrow> checkpointApplied E R req ref decision target ActionRestore ''restore''
       }
   }"

text \<open>Step 7 and the end of a reconciliation.\<close>

definition persistStatus ::
  "env \<Rightarrow> TargetReconciler \<Rightarrow> PowerTargetStatus \<Rightarrow> PowerTarget \<Rightarrow> go_time \<Rightarrow> outcome io" where
  "persistStatus E R previousStatus target start = do {
     u \<leftarrow> (if \<not> status_eq previousStatus (pt_Status target) then statusUpdateTarget E target else return (Inr target));
     case u of
       Inl err \<Rightarrow> return (Result errorRequeueAfter)
     | Inr target \<Rightarrow> do {
         now \<leftarrow> time_Now E;
         _ \<leftarrow> recordReconciliation (time_Sub now start);
         return (Result (requeueAfter R))
       }
   }"

text \<open>Step 6: act on a decision that governs the target and is not blocked.\<close>

definition actOnDecision ::
  "env \<Rightarrow> TargetReconciler \<Rightarrow> NamespacedName \<Rightarrow> Target \<Rightarrow> Decision \<Rightarrow> PowerTargetStatus \<Rightarrow> PowerTarget \<Rightarrow> go_time \<Rightarrow> outcome io" where
  "actOnDecision E R req domainTarget decision previousStatus target start =
     (let ref = tgt_Ref domainTarget in
      if \<not> IsBlocked decision \<and> IsManaged decision then
        let observedState = PowerStateFromObserved (tgt_ObservedState domainTarget) (ref_Kind ref) in do {
          (handled, err, target) \<leftarrow> reconcileExistingAction E target ref decision observedState;
          if err \<noteq> None then return (Result errorRequeueAfter)
          else if handled then return (Result (requeueAfter R))
          else if dec_DesiredState decision = PowerStateOff \<and> observedState = PowerStateOn
          then reconcilePowerDown E R req ref decision target
          else if dec_DesiredState decision = PowerStateOn \<and> observedState = PowerStateOff
          then reconcileRestore E R req ref decision target
          else persistStatus E R previousStatus target start
        }
      else persistStatus E R previousStatus target start)"

definition Reconcile :: "env \<Rightarrow> TargetReconciler \<Rightarrow> NamespacedName \<Rightarrow> outcome io" where
  "Reconcile E R req =
     (if \<not> namespaceIsManaged (rec_ControlNamespace R) (nn_Namespace req) then return (Result 0)
      else do {
        start \<leftarrow> time_Now E;
        g \<leftarrow> getTarget E False req;
        case g of
          Inl err \<Rightarrow> return (if err_NotFound err then Result 0 else ResultErr err)
        | Inr target \<Rightarrow> do {
            ps \<leftarrow> loadPolicies E R;
            case ps of
              Inl err \<Rightarrow> return (Result errorRequeueAfter)
            | Inr policies \<Rightarrow> do {
                vs \<leftarrow> loadOverrides E R;
                case vs of
                  Inl err \<Rightarrow> return (Result errorRequeueAfter)
                | Inr overrides \<Rightarrow>
                    (let domainTarget = toDomainTarget target in
                     if ref_UID (tgt_Ref domainTarget) = '''' then return (Result errorRequeueAfter)
                     else do {
                       now \<leftarrow> time_Now E;
                       let decision = ComputeDecision (env_tzdb E) domainTarget policies overrides (rec_Config R) now;
                       let previousStatus = pt_Status target;
                       let previousLabels = om_Labels (pt_Meta target);
                       let target = updateTargetStatus (env_rnd E) target decision now;
                       u \<leftarrow> (if \<not> semantic_eq_map previousLabels (om_Labels (pt_Meta target))
                             then updateTarget E target else return (Inr target));
                       case u of
                         Inl err \<Rightarrow> return (Result errorRequeueAfter)
                       | Inr target \<Rightarrow> do {
                           (handled, err, target) \<leftarrow> reconcilePendingAudit E R target (tgt_Ref domainTarget) (nn_String req);
                           if err \<noteq> None then return (Result errorRequeueAfter)
                           else if handled then return (Result (requeueAfter R))
                           else actOnDecision E R req domainTarget decision previousStatus target start
                         }
                     })
              }
          }
      })"

end
