(* ===== verification/GoStrings.thy ===== *)
theory GoStrings
  imports Effects
begin

text \<open>
  The functions of Go's packages \<open>strconv\<close>, \<open>strings\<close> and \<open>sort\<close> that the program calls, with
  the round trip between \<open>%d\<close> and \<open>ParseInt\<close>.
\<close>

section \<open>Numbers\<close>

definition is_digit :: "char \<Rightarrow> bool" where
  "is_digit c \<longleftrightarrow> 48 \<le> (of_char c :: nat) \<and> (of_char c :: nat) \<le> 57"

definition digits_value :: "string \<Rightarrow> int" where
  "digits_value s = fold (\<lambda>c n. 10 * n + (int (of_char c) - 48)) s 0"

text \<open>
  \<open>strconv.ParseInt(s, 10, bits)\<close>: an optional sign, then at least one decimal digit and nothing
  else, in the range of the width.  Both kinds of error are \<open>None\<close>: the program never looks at the
  value that comes with an error.
\<close>

definition ParseInt :: "nat \<Rightarrow> string \<Rightarrow> int option" where
  "ParseInt bits s =
     (let signed = s \<noteq> [] \<and> (hd s = CHR ''-'' \<or> hd s = CHR ''+'');
          neg = s \<noteq> [] \<and> hd s = CHR ''-'';
          ds = (if signed then tl s else s);
          n = (if neg then - digits_value ds else digits_value ds)
      in if ds = [] \<or> \<not> list_all is_digit ds then None
         else if - (2 ^ (bits - 1)) \<le> n \<and> n < 2 ^ (bits - 1) then Some n else None)"

definition Atoi :: "string \<Rightarrow> int option" where "Atoi = ParseInt 64"

lemma digits_value_snoc: "digits_value (s @ [c]) = 10 * digits_value s + (int (of_char c) - 48)"
  by (simp add: digits_value_def)

lemma digits_value_Nil [simp]: "digits_value [] = 0"
  by (simp add: digits_value_def)

lemma is_digit_char_of: "d < 10 \<Longrightarrow> is_digit (char_of (48 + d :: nat))"
  by (simp add: is_digit_def)

lemma nat_digits_parse: "list_all is_digit (nat_digits n) \<and> nat_digits n \<noteq> [] \<and> digits_value (nat_digits n) = int n"
proof (induction n rule: nat_digits.induct)
  case (1 n)
  show ?case
  proof (cases "n < 10")
    case True
    then show ?thesis
      by (simp add: nat_digits.simps[of n] is_digit_char_of digits_value_def)
  next
    case False
    have "n mod 10 < 10" by simp
    with False 1 have "digits_value (nat_digits n) = 10 * int (n div 10) + int (n mod 10)"
      by (simp add: nat_digits.simps[of n] digits_value_snoc)
    also have "\<dots> = int n" by presburger
    finally show ?thesis
      using False 1 by (simp add: nat_digits.simps[of n] is_digit_char_of)
  qed
qed

lemma hd_nat_digits: "is_digit (hd (nat_digits n))"
  using nat_digits_parse[of n] by (cases "nat_digits n") auto

lemma digit_no_sign: "is_digit c \<Longrightarrow> c \<noteq> CHR ''-'' \<and> c \<noteq> CHR ''+''"
  by (auto simp: is_digit_def)

text \<open>\<open>ParseInt\<close> reads back what \<open>%d\<close> prints.\<close>

lemma ParseInt_itoa:
  assumes "- (2 ^ (bits - 1)) \<le> i" and "i < 2 ^ (bits - 1)"
  shows "ParseInt bits (go_itoa i) = Some i"
proof (cases "i < 0")
  case True
  with nat_digits_parse[of "nat (- i)"] assms show ?thesis by (simp add: ParseInt_def go_itoa_def Let_def)
next
  case False
  with nat_digits_parse[of "nat i"] digit_no_sign[OF hd_nat_digits[of "nat i"]] assms
  show ?thesis by (simp add: ParseInt_def go_itoa_def Let_def)
qed

lemma ParseInt_range: "ParseInt bits s = Some i \<Longrightarrow> - (2 ^ (bits - 1)) \<le> i \<and> i < 2 ^ (bits - 1)"
  unfolding ParseInt_def Let_def by (simp split: if_splits)

lemma power2_above: "\<exists>n. \<bar>i :: int\<bar> < 2 ^ n"
  using of_nat_less_two_power[of "nat \<bar>i\<bar>", where ?'a = int] by (intro exI[of _ "nat \<bar>i\<bar>"]) simp

lemma go_itoa_inj:
  assumes "go_itoa i = go_itoa j" shows "i = j"
proof -
  obtain n where n: "\<bar>\<bar>i\<bar> + \<bar>j\<bar>\<bar> < 2 ^ n" using power2_above by blast
  then have "\<bar>i\<bar> < 2 ^ n" "\<bar>j\<bar> < 2 ^ n" by linarith+
  then have "- (2 ^ (Suc n - 1)) \<le> i" "i < 2 ^ (Suc n - 1)" "- (2 ^ (Suc n - 1)) \<le> j" "j < 2 ^ (Suc n - 1)"
    by (simp_all only: diff_Suc_1 abs_less_iff minus_less_iff less_imp_le)
  then have "Some i = Some j" using ParseInt_itoa assms by metis
  then show ?thesis by blast
qed

section \<open>Strings\<close>

text \<open>\<open>strings.Join\<close>, \<open>strings.Split\<close> for a separator of one byte, and \<open>strings.TrimSpace\<close>.\<close>

fun Join :: "string list \<Rightarrow> string \<Rightarrow> string" where
  "Join [] sep = ''''"
| "Join [x] sep = x"
| "Join (x # y # ys) sep = x @ sep @ Join (y # ys) sep"

fun SplitByte :: "char \<Rightarrow> string \<Rightarrow> string list" where
  "SplitByte c [] = [[]]"
| "SplitByte c (x # xs) =
     (if x = c then [] # SplitByte c xs
      else case SplitByte c xs of [] \<Rightarrow> [[x]] | w # ws \<Rightarrow> (x # w) # ws)"

definition is_space :: "char \<Rightarrow> bool" where
  "is_space c \<longleftrightarrow> (of_char c :: nat) \<in> {9, 10, 11, 12, 13, 32}"

text \<open>
  What \<open>TrimSpace\<close> removes at both ends: the white space of Unicode (\<open>unicode.IsSpace\<close>), here in UTF-8;
  a text starts (or ends) with such a character exactly if it starts (or ends) with these bytes.
\<close>

definition unicode_spaces :: "string list" where
  "unicode_spaces = map (map char_of)
     ([[9], [10], [11], [12], [13], [32], [194, 133], [194, 160], [225, 154, 128]] @
      map (\<lambda>b. [226, 128, b]) ([128..<139] @ [168, 169, 175]) @ [[226, 129, 159], [227, 128, 128 :: nat]])"

definition leading :: "string list \<Rightarrow> string \<Rightarrow> nat" where
  "leading us s = (case find (\<lambda>u. take (length u) s = u) us of None \<Rightarrow> 0 | Some u \<Rightarrow> length u)"

function TrimLeading :: "string list \<Rightarrow> string \<Rightarrow> string" where
  "TrimLeading us s = (if s = [] \<or> leading us s = 0 then s else TrimLeading us (drop (leading us s) s))"
  by auto
termination by (relation "measure (\<lambda>(us, s). length s)") auto

declare TrimLeading.simps [simp del]

definition TrimSpace :: "string \<Rightarrow> string" where
  "TrimSpace s = rev (TrimLeading (map rev unicode_spaces) (rev (TrimLeading unicode_spaces s)))"

text \<open>A text of ASCII characters other than white space is not changed.\<close>

definition is_plain :: "char \<Rightarrow> bool" where
  "is_plain c \<longleftrightarrow> (of_char c :: nat) < 128 \<and> \<not> is_space c"

lemma is_plain_leading:
  assumes "list_all is_plain s" and "us \<in> {unicode_spaces, map rev unicode_spaces}"
  shows "TrimLeading us s = s"
proof (cases s)
  case (Cons c cs)
  have "list_all (\<lambda>u. u \<noteq> [] \<and> \<not> is_plain (hd u)) unicode_spaces \<and>
      list_all (\<lambda>u. u \<noteq> [] \<and> \<not> is_plain (hd u)) (map rev unicode_spaces)" by code_simp
  then have "\<forall>u\<in>set us. u \<noteq> [] \<and> \<not> is_plain (hd u)" using assms(2) unfolding list_all_iff by blast
  then have "take (length u) s \<noteq> u" if "u \<in> set us" for u
    using that assms(1) Cons by (cases u) auto
  then have "find (\<lambda>u. take (length u) s = u) us = None" by (simp add: find_None_iff)
  then have "leading us s = 0" by (simp add: leading_def)
  then show ?thesis by (simp add: TrimLeading.simps)
qed (simp add: TrimLeading.simps)

lemma TrimSpace_plain: "list_all is_plain w \<Longrightarrow> TrimSpace w = w"
  by (simp add: TrimSpace_def is_plain_leading list_all_rev)

lemma SplitByte_nonempty [simp]: "SplitByte c s \<noteq> []"
  by (induction s) (auto split: list.splits)

lemma SplitByte_no_sep: "c \<notin> set w \<Longrightarrow> SplitByte c w = [w]"
  by (induction w) auto

lemma SplitByte_append: "c \<notin> set w \<Longrightarrow> SplitByte c (w @ c # s) = w # SplitByte c s"
  by (induction w) auto

lemma Split_Join: "ws \<noteq> [] \<Longrightarrow> \<forall>w\<in>set ws. c \<notin> set w \<Longrightarrow> SplitByte c (Join ws [c]) = ws"
  by (induction ws "[c]" rule: Join.induct) (auto simp: SplitByte_no_sep SplitByte_append)

text \<open>\<open>sort.Strings\<close>: the sorted permutation is unique, whatever the algorithm.\<close>

definition sort_Strings :: "string list \<Rightarrow> string list" where "sort_Strings = sort"

lemma sort_Strings_facts [simp]:
  "set (sort_Strings xs) = set xs" "length (sort_Strings xs) = length xs" "mset (sort_Strings xs) = mset xs"
  by (simp_all add: sort_Strings_def)

lemma sort_Strings_perm: "mset xs = mset ys \<Longrightarrow> sort_Strings xs = sort_Strings ys"
  unfolding sort_Strings_def by (metis properties_for_sort mset_sort sorted_sort)

end
