(* ===== verification/RuleReconcile.thy ===== *)
theory RuleReconcile
  imports TargetReconcile GoStrings
begin

text \<open>
  The reconcilers of the rules (\<open>override_reconciler.go\<close> and \<open>policy_reconciler.go\<close> under
  \<open>src/internal/adapters/driving/reconciler\<close>): the override reconciler reports the life cycle of an
  override, the policy reconciler the number of targets a policy selects.  Neither changes a workload;
  the target reconciler reads the rules itself.
\<close>

section \<open>Durations\<close>

text \<open>\<open>d.Round(m)\<close> for a positive unit: half away from zero, saturating.\<close>

definition Duration_Round :: "go_duration \<Rightarrow> go_duration \<Rightarrow> go_duration" where
  "Duration_Round d m =
     (if m \<le> 0 then d
      else let r = go_mod d m in
        if d < 0 then
          (let r = - r in
           if r + r < m then d + r
           else if - (2 ^ 63) \<le> d - m + r then d - m + r else - (2 ^ 63))
        else if r + r < m then d - r
        else if d + m - r < 2 ^ 63 then d + m - r else 2 ^ 63 - 1)"

text \<open>The fraction part of a decimal with \<open>prec\<close> places, without trailing zeros.\<close>

fun frac_digits :: "nat \<Rightarrow> nat \<Rightarrow> string" where
  "frac_digits 0 v = ''''"
| "frac_digits (Suc prec) v = frac_digits prec (v div 10) @ [char_of (48 + v mod 10)]"

definition fmtFrac :: "nat \<Rightarrow> nat \<Rightarrow> string" where
  "fmtFrac prec v =
     (if v mod 10 ^ prec = 0 then ''''
      else ''.'' @ rev (dropWhile (\<lambda>c. c = CHR ''0'') (rev (frac_digits prec (v mod 10 ^ prec)))))"

text \<open>\<open>d.String()\<close>.\<close>

definition Duration_String :: "go_duration \<Rightarrow> string" where
  "Duration_String d =
     (let u = nat \<bar>d\<bar>; s = u div 10 ^ 9;
          body =
            (if u = 0 then ''0s''
             else if u < 1000 then nat_digits u @ ''ns''
             else if u < 10 ^ 6 then nat_digits (u div 1000) @ fmtFrac 3 u @ [char_of (194::nat), char_of (181::nat), CHR ''s'']
             else if u < 10 ^ 9 then nat_digits (u div 10 ^ 6) @ fmtFrac 6 u @ ''ms''
             else (if s div 3600 > 0 then nat_digits (s div 3600) @ ''h'' else '''') @
                  (if s div 60 > 0 then nat_digits (s div 60 mod 60) @ ''m'' else '''') @
                  nat_digits (s mod 60) @ fmtFrac 9 u @ ''s'')
      in if d < 0 then ''-'' @ body else body)"

section \<open>Client calls\<close>

definition getOverride :: "env \<Rightarrow> NamespacedName \<Rightarrow> PowerOverride result io" where
  "getOverride E key = call (\<lambda>tr. env_GetOverride E tr key) (GetOverride key)"

definition getPolicy :: "env \<Rightarrow> NamespacedName \<Rightarrow> PowerPolicy result io" where
  "getPolicy E key = call (\<lambda>tr. env_GetPolicy E tr key) (GetPolicy key)"

definition listTargets :: "env \<Rightarrow> string \<Rightarrow> PowerTarget list result io" where
  "listTargets E ns = call (\<lambda>tr. env_ListTargets E tr ns) (ListTargets ns)"

definition statusUpdateOverride :: "env \<Rightarrow> PowerOverride \<Rightarrow> PowerOverride result io" where
  "statusUpdateOverride E v = call (\<lambda>tr. env_StatusUpdateOverride E tr v) (StatusUpdateOverride v)"

definition statusUpdatePolicy :: "env \<Rightarrow> PowerPolicy \<Rightarrow> PowerPolicy result io" where
  "statusUpdatePolicy E p = call (\<lambda>tr. env_StatusUpdatePolicy E tr p) (StatusUpdatePolicy p)"

lemmas rule_call_defs = getOverride_def getPolicy_def listTargets_def statusUpdateOverride_def
  statusUpdatePolicy_def

section \<open>Overrides\<close>

definition activeCondition :: "string \<Rightarrow> go_time \<Rightarrow> string \<Rightarrow> string \<Rightarrow> Condition" where
  "activeCondition status now reason message =
     \<lparr>cond_Type = ''Active'', cond_Status = status, cond_LastTransitionTime = now, cond_Reason = reason,
      cond_Message = message\<rparr>"

definition OverrideReconciler_Reconcile :: "env \<Rightarrow> string \<Rightarrow> NamespacedName \<Rightarrow> outcome io" where
  "OverrideReconciler_Reconcile E controlNamespace req =
     (if \<not> namespaceIsManaged controlNamespace (nn_Namespace req) then return (Result 0)
      else do {
        g \<leftarrow> getOverride E req;
        case g of
          Inl err \<Rightarrow> return (if err_NotFound err then Result 0 else ResultErr err)
        | Inr override \<Rightarrow> do {
            now \<leftarrow> time_Now E;
            if pos_ExpiresAt (po_Spec override) < now then
              (if post_Phase (po_Status override) \<noteq> ''Expired'' then do {
                 stamp \<leftarrow> time_Now E;
                 u \<leftarrow> statusUpdateOverride E (override\<lparr>po_Status := (po_Status override)\<lparr>post_Phase := ''Expired'',
                        post_ExpiresIn := ''expired'',
                        post_Conditions := [activeCondition ''False'' stamp ''Expired'' ''Override has expired'']\<rparr>\<rparr>);
                 return (case u of Inl err \<Rightarrow> ResultErr err | Inr _ \<Rightarrow> Result 0)
               }
               else return (Result 0))
            else do {
              let timeUntilExpiration = time_Sub (pos_ExpiresAt (po_Spec override)) now;
              let expiresIn = Duration_String (Duration_Round timeUntilExpiration Minute);
              stamp \<leftarrow> time_Now E;
              u \<leftarrow> statusUpdateOverride E (override\<lparr>po_Status := (po_Status override)\<lparr>post_Phase := ''Active'',
                     post_ExpiresIn := expiresIn,
                     post_Conditions := [activeCondition ''True'' stamp ''Active''
                       (''Override active, expires in '' @ expiresIn)]\<rparr>\<rparr>);
              return (case u of Inl err \<Rightarrow> ResultErr err | Inr _ \<Rightarrow> Result timeUntilExpiration)
            }
          }
      })"

section \<open>Policies\<close>

definition matchesPolicyScope :: "Target \<Rightarrow> PolicySpec \<Rightarrow> bool" where
  "matchesPolicyScope target policy = MatchesScope target (pol_Scope policy)"

definition countAffectedTargets :: "env \<Rightarrow> string \<Rightarrow> PowerPolicy \<Rightarrow> int result io" where
  "countAffectedTargets E controlNamespace policy = do {
     l \<leftarrow> listTargets E (namespaceListOptions controlNamespace);
     case l of
       Inl err \<Rightarrow> return (Inl err)
     | Inr targets \<Rightarrow> do {
         r \<leftarrow> ResolveScope E (om_Namespace (pp_Meta policy)) (pps_Scope (pp_Spec policy));
         case r of
           Inl err \<Rightarrow> return (Inl err)
         | Inr resolved \<Rightarrow>
             let domainPolicy = (toDomainPolicy policy)\<lparr>pol_Scope := resolved\<rparr>
             in return (Inr (int (length (filter (\<lambda>t. matchesPolicyScope (toDomainTarget t) domainPolicy) targets))))
       }
   }"

definition PolicyReconciler_Reconcile :: "env \<Rightarrow> string \<Rightarrow> NamespacedName \<Rightarrow> outcome io" where
  "PolicyReconciler_Reconcile E controlNamespace req =
     (if \<not> namespaceIsManaged controlNamespace (nn_Namespace req) then return (Result 0)
      else do {
        g \<leftarrow> getPolicy E req;
        case g of
          Inl err \<Rightarrow> return (if err_NotFound err then Result 0 else ResultErr err)
        | Inr policy \<Rightarrow> do {
            c \<leftarrow> countAffectedTargets E controlNamespace policy;
            case c of
              Inl err \<Rightarrow> return (Result 0)
            | Inr targets \<Rightarrow>
                (let count = wrap32 targets in
                 if ppst_AffectedTargets (pp_Status policy) \<noteq> count then do {
                   _ \<leftarrow> statusUpdatePolicy E (policy\<lparr>pp_Status := (pp_Status policy)\<lparr>ppst_AffectedTargets := count\<rparr>\<rparr>);
                   return (Result 0)
                 }
                 else return (Result 0))
          }
      })"

section \<open>Lemmas\<close>

lemma go_mod_pos: "0 \<le> a \<Longrightarrow> 0 < b \<Longrightarrow> go_mod a b = a mod b"
  by (simp add: go_mod_def go_div_def minus_mult_div_eq_mod)

text \<open>Rounding stays within half a unit, unless it saturates.\<close>

lemma Duration_Round_near:
  assumes "0 \<le> d" and "0 < m" and "d + m \<le> 2 ^ 63"
  shows "2 * \<bar>Duration_Round d m - d\<bar> \<le> m" and "Duration_Round d m mod m = 0"
proof -
  let ?r = "d mod m"
  have r: "0 \<le> ?r" "?r < m" using assms by simp_all
  have round: "Duration_Round d m = (if ?r + ?r < m then d - ?r else d + m - ?r)"
    using assms r by (simp add: Duration_Round_def go_mod_pos Let_def)
  show "2 * \<bar>Duration_Round d m - d\<bar> \<le> m" unfolding round using r by (simp split: if_split)
  have "(d - ?r) mod m = 0" "(d + m - ?r) mod m = 0"
    by (simp_all add: mod_eq_0_iff_dvd dvd_minus_mod add.commute[of d m] add_diff_eq[symmetric])
  then show "Duration_Round d m mod m = 0" unfolding round by (simp split: if_split)
qed

text \<open>The run of the override reconciler on an override that it finds.\<close>

lemma override_run_expired:
  assumes "namespaceIsManaged cns (nn_Namespace req)" and "env_GetOverride E tr req = Inr v"
    and "pos_ExpiresAt (po_Spec v) < env_Now E (GetOverride req (Inr v) # tr)"
  shows "\<exists>out new. run_state (OverrideReconciler_Reconcile E cns req) tr =
      (out, new @ Now (env_Now E (GetOverride req (Inr v) # tr)) # GetOverride req (Inr v) # tr) \<and>
    (\<forall>w r. StatusUpdateOverride w r \<in> set new \<longrightarrow> po_Spec w = po_Spec v \<and> post_Phase (po_Status w) = ''Expired'') \<and>
    (post_Phase (po_Status v) \<noteq> ''Expired'' \<longrightarrow> (\<exists>w r. StatusUpdateOverride w r \<in> set new)) \<and>
    (\<forall>d. out = Result d \<longrightarrow> d = 0)"
  using assms by (auto simp: OverrideReconciler_Reconcile_def rule_call_defs time_Now_def split: sum.splits)

lemma override_run_active:
  assumes "namespaceIsManaged cns (nn_Namespace req)" and "env_GetOverride E tr req = Inr v"
    and "\<not> pos_ExpiresAt (po_Spec v) < env_Now E (GetOverride req (Inr v) # tr)"
  shows "\<exists>out new. run_state (OverrideReconciler_Reconcile E cns req) tr =
      (out, new @ Now (env_Now E (GetOverride req (Inr v) # tr)) # GetOverride req (Inr v) # tr) \<and>
    (\<forall>w r. StatusUpdateOverride w r \<in> set new \<longrightarrow> po_Spec w = po_Spec v \<and> post_Phase (po_Status w) = ''Active'') \<and>
    (\<exists>w r. StatusUpdateOverride w r \<in> set new) \<and>
    (\<forall>d. out = Result d \<longrightarrow> d = time_Sub (pos_ExpiresAt (po_Spec v)) (env_Now E (GetOverride req (Inr v) # tr)))"
  using assms by (auto simp: OverrideReconciler_Reconcile_def rule_call_defs time_Now_def Let_def split: sum.splits)

lemma IsExpired_toDomain [simp]: "IsExpired (toDomainOverride v) now \<longleftrightarrow> pos_ExpiresAt (po_Spec v) \<le> now"
  by (auto simp: IsExpired_def toDomainOverride_def)

section \<open>Properties\<close>

text \<open>
  The reported life cycle agrees with the engine: when the reconciler finds an override, every
  status it writes for it leaves the specification alone, says \<open>Expired\<close> only if the engine ignores
  the override at the instant that was read, and says \<open>Active\<close> only if the engine still honours it or
  it expires at that very instant.
\<close>

theorem override_phase_agrees:
  assumes "namespaceIsManaged cns (nn_Namespace req)" and "env_GetOverride E tr req = Inr v"
  shows "\<exists>out new now. run_state (OverrideReconciler_Reconcile E cns req) tr = (out, new @ Now now # GetOverride req (Inr v) # tr) \<and>
    (\<forall>w r. StatusUpdateOverride w r \<in> set new \<longrightarrow> po_Spec w = po_Spec v \<and>
       (post_Phase (po_Status w) = ''Expired'' \<and> IsExpired (toDomainOverride v) now \<or>
        post_Phase (po_Status w) = ''Active'' \<and>
          (\<not> IsExpired (toDomainOverride v) now \<or> pos_ExpiresAt (po_Spec v) = now)))"
proof (cases "pos_ExpiresAt (po_Spec v) < env_Now E (GetOverride req (Inr v) # tr)")
  case True
  from override_run_expired[OF assms True] True show ?thesis by fastforce
next
  case False
  from override_run_active[OF assms False] False show ?thesis by fastforce
qed

definition dev_override :: PowerOverride where
  "dev_override = \<lparr>po_Meta = png_Meta dev_group,
     po_Spec = \<lparr>pos_Scope = group_scope, pos_State = ''on'', pos_Priority = 0, pos_ExpiresAt = Hour,
       pos_Reason = ''maintenance'', pos_Reference = ''''\<rparr>,
     po_Status = \<lparr>post_Conditions = [], post_Phase = '''', post_AffectedTargets = 0, post_ExpiresIn = ''''\<rparr>\<rparr>"

definition override_cluster :: "go_time \<Rightarrow> env" where
  "override_cluster now = empty_cluster\<lparr>env_GetOverride := (\<lambda>_ _. Inr dev_override), env_Now := (\<lambda>_. now)\<rparr>"

theorem override_phase_agrees_witness:
  "\<exists>out new now. run_state (OverrideReconciler_Reconcile (override_cluster 0) ''aura'' \<lparr>nn_Namespace = ''aura'', nn_Name = ''v''\<rparr>) [] =
     (out, new @ [Now now, GetOverride \<lparr>nn_Namespace = ''aura'', nn_Name = ''v''\<rparr> (Inr dev_override)])"
  using override_phase_agrees[of "''aura''" "\<lparr>nn_Namespace = ''aura'', nn_Name = ''v''\<rparr>" "override_cluster 0" "[]" dev_override]
  by (auto simp: namespaceIsManaged_def override_cluster_def)

text \<open>
  C14. What happens at the expiry: an active override is scheduled for exactly its expiry (the wait is
  exact below the bound of a duration, some 292 years).  A reconciliation at that instant or later that
  finds the override not yet marked writes a status, for an override the engine already ignores, and
  asks for no further wake-up: a delay of zero is none.  After that instant the status is \<open>Expired\<close>;
  a reconciliation whose clock shows exactly the expiry still reports \<open>Active\<close>.
\<close>

theorem override_expiry_reached:
  fixes E tr v req E2 v2 tr2
  defines "now \<equiv> env_Now E (GetOverride req (Inr v) # tr)" and "now2 \<equiv> env_Now E2 (GetOverride req (Inr v2) # tr2)"
  assumes "namespaceIsManaged cns (nn_Namespace req)" and "env_GetOverride E tr req = Inr v"
    and "\<not> pos_ExpiresAt (po_Spec v) < now" and "pos_ExpiresAt (po_Spec v) - now < 2 ^ 63"
    and "run_state (OverrideReconciler_Reconcile E cns req) tr = (Result wait, tr')"
    and "env_GetOverride E2 tr2 req = Inr v2" and "po_Spec v2 = po_Spec v" and "post_Phase (po_Status v2) \<noteq> ''Expired''"
    and "now + wait \<le> now2"
  shows "now + wait = pos_ExpiresAt (po_Spec v) \<and> IsExpired (toDomainOverride v2) now2 \<and>
    (\<exists>out new w r. run_state (OverrideReconciler_Reconcile E2 cns req) tr2 = (out, new @ tr2) \<and>
       StatusUpdateOverride w r \<in> set new \<and> (\<forall>d. out = Result d \<longrightarrow> d = 0) \<and>
       post_Phase (po_Status w) = (if now2 = pos_ExpiresAt (po_Spec v) then ''Active'' else ''Expired''))"
proof -
  have "wait = time_Sub (pos_ExpiresAt (po_Spec v)) now"
    using override_run_active[OF assms(3,4)] assms(5,7) unfolding now_def by fastforce
  then have *: "now + wait = pos_ExpiresAt (po_Spec v)"
    using assms(5,6) by (simp add: time_Sub_def)
  then have reached: "pos_ExpiresAt (po_Spec v2) \<le> now2" using assms(9,11) by simp
  have "\<exists>out new w r. run_state (OverrideReconciler_Reconcile E2 cns req) tr2 = (out, new @ tr2) \<and>
       StatusUpdateOverride w r \<in> set new \<and> (\<forall>d. out = Result d \<longrightarrow> d = 0) \<and>
       post_Phase (po_Status w) = (if now2 = pos_ExpiresAt (po_Spec v) then ''Active'' else ''Expired'')"
  proof (cases "pos_ExpiresAt (po_Spec v2) < now2")
    case True
    then have ne: "now2 \<noteq> pos_ExpiresAt (po_Spec v)" using assms(9) by simp
    from override_run_expired[OF assms(3,8) True[unfolded now2_def]] assms(10)
    obtain out new w r where run: "run_state (OverrideReconciler_Reconcile E2 cns req) tr2 =
        (out, new @ Now now2 # GetOverride req (Inr v2) # tr2)"
      and w: "StatusUpdateOverride w r \<in> set new" "post_Phase (po_Status w) = ''Expired''"
      and out: "\<forall>d. out = Result d \<longrightarrow> d = 0"
      unfolding now2_def by blast
    show ?thesis
      by (intro exI[of _ out] exI[of _ "new @ [Now now2, GetOverride req (Inr v2)]"] exI[of _ w] exI[of _ r])
        (use run w out ne in simp)
  next
    case False
    then have eq: "now2 = pos_ExpiresAt (po_Spec v)" "time_Sub (pos_ExpiresAt (po_Spec v2)) now2 = 0"
      using reached assms(9) by (simp_all add: time_Sub_def)
    from override_run_active[OF assms(3,8) False[unfolded now2_def]]
    obtain out new w r where run: "run_state (OverrideReconciler_Reconcile E2 cns req) tr2 =
        (out, new @ Now now2 # GetOverride req (Inr v2) # tr2)"
      and w: "StatusUpdateOverride w r \<in> set new" "post_Phase (po_Status w) = ''Active''"
      and out: "\<forall>d. out = Result d \<longrightarrow> d = time_Sub (pos_ExpiresAt (po_Spec v2)) now2"
      unfolding now2_def by blast
    show ?thesis
      by (intro exI[of _ out] exI[of _ "new @ [Now now2, GetOverride req (Inr v2)]"] exI[of _ w] exI[of _ r])
        (use run w out eq in simp)
  qed
  with * reached show ?thesis by simp
qed

theorem override_expiry_reached_witness:
  "(\<exists>out new w r. run_state (OverrideReconciler_Reconcile (override_cluster (2 * Hour)) ''''
       \<lparr>nn_Namespace = ''aura'', nn_Name = ''v''\<rparr>) [] = (out, new @ []) \<and>
     StatusUpdateOverride w r \<in> set new \<and> (\<forall>d. out = Result d \<longrightarrow> d = 0) \<and> post_Phase (po_Status w) = ''Expired'') \<and>
   (\<exists>out new w r. run_state (OverrideReconciler_Reconcile (override_cluster Hour) ''''
       \<lparr>nn_Namespace = ''aura'', nn_Name = ''v''\<rparr>) [] = (out, new @ []) \<and>
     StatusUpdateOverride w r \<in> set new \<and> (\<forall>d. out = Result d \<longrightarrow> d = 0) \<and> post_Phase (po_Status w) = ''Active'')"
proof -
  let ?req = "\<lparr>nn_Namespace = ''aura'', nn_Name = ''v''\<rparr>"
  have "fst (run_state (OverrideReconciler_Reconcile (override_cluster 0) '''' ?req) []) = Result Hour"
    by (simp add: OverrideReconciler_Reconcile_def rule_call_defs time_Now_def namespaceIsManaged_def Let_def
        override_cluster_def empty_cluster_def dev_override_def time_Sub_def time_defs)
  then obtain tr' where run: "run_state (OverrideReconciler_Reconcile (override_cluster 0) '''' ?req) [] = (Result Hour, tr')"
    by (metis prod.collapse)
  have "\<exists>out new w r. run_state (OverrideReconciler_Reconcile (override_cluster later) '''' ?req) [] = (out, new @ []) \<and>
     StatusUpdateOverride w r \<in> set new \<and> (\<forall>d. out = Result d \<longrightarrow> d = 0) \<and>
     post_Phase (po_Status w) = (if later = Hour then ''Active'' else ''Expired'')" if "Hour \<le> later" for later
    using that override_expiry_reached[where v = dev_override and ?v2.0 = dev_override and ?E2.0 = "override_cluster later"
        and ?tr2.0 = "[]", OF _ _ _ _ run]
    by (simp add: namespaceIsManaged_def override_cluster_def dev_override_def time_defs)
  from this[of "2 * Hour"] this[of Hour] show ?thesis by (simp add: time_defs)
qed

text \<open>
  The number a policy reports is the number of targets it selects: a status the policy reconciler
  writes differs from the policy read only in \<open>AffectedTargets\<close>, which is the number (as an
  \<open>int32\<close>) of the listed targets that the policy's resolved scope admits, and it is written only
  when it changed.
\<close>

theorem policy_count_exact:
  assumes "run_state (PolicyReconciler_Reconcile E cns req) [] = (out, tr)" and "StatusUpdatePolicy w r \<in> set tr"
  shows "\<exists>p ts sc tr1 tr2. GetPolicy req (Inr p) \<in> set tr \<and> ListTargets cns (Inr ts) \<in> set tr \<and>
    run_state (ResolveScope E (om_Namespace (pp_Meta p)) (pps_Scope (pp_Spec p))) tr1 = (Inr sc, tr2) \<and>
    w = p\<lparr>pp_Status := (pp_Status p)\<lparr>ppst_AffectedTargets :=
      wrap32 (int (length (filter (\<lambda>t. toDomainTarget t \<in> scope_admits sc) ts)))\<rparr>\<rparr> \<and> w \<noteq> p"
proof -
  have managed: "namespaceIsManaged cns (nn_Namespace req)"
    using assms by (auto simp: PolicyReconciler_Reconcile_def split: if_splits)
  let ?tr1 = "[GetPolicy req (env_GetPolicy E [] req)]"
  obtain p where p: "env_GetPolicy E [] req = Inr p"
    using assms managed by (auto simp: PolicyReconciler_Reconcile_def rule_call_defs split: sum.splits)
  let ?tr2 = "ListTargets cns (env_ListTargets E ?tr1 cns) # ?tr1"
  obtain ts where ts: "env_ListTargets E ?tr1 cns = Inr ts"
    using assms managed p
    by (auto simp: PolicyReconciler_Reconcile_def countAffectedTargets_def rule_call_defs namespaceListOptions_def split: sum.splits)
  obtain r tr3 where r: "run_state (ResolveScope E (om_Namespace (pp_Meta p)) (pps_Scope (pp_Spec p))) ?tr2 = (r, tr3)"
    by (metis prod.collapse)
  obtain new where new: "tr3 = new @ ?tr2" "\<forall>e\<in>set new. group_read e"
    using emits_ResolveScope r by (rule emitsD)
  then have quiet: "StatusUpdatePolicy w' r' \<notin> set tr3" for w' r' using p by (auto simp: group_read_def)
  obtain sc where sc: "r = Inr sc"
    using assms managed p ts r quiet
    by (auto simp: PolicyReconciler_Reconcile_def countAffectedTargets_def rule_call_defs namespaceListOptions_def split: sum.splits)
  let ?n = "wrap32 (int (length (filter (\<lambda>t. toDomainTarget t \<in> scope_admits sc) ts)))"
  have "w = p\<lparr>pp_Status := (pp_Status p)\<lparr>ppst_AffectedTargets := ?n\<rparr>\<rparr> \<and> ppst_AffectedTargets (pp_Status p) \<noteq> ?n \<and> set tr3 \<subseteq> set tr"
    using assms managed p ts r sc quiet
    by (auto simp: PolicyReconciler_Reconcile_def countAffectedTargets_def rule_call_defs namespaceListOptions_def
        matchesPolicyScope_def MatchesScope_admits Let_def split: if_splits)
  moreover from this have "w \<noteq> p" by (metis PowerPolicy.select_convs(3) PowerPolicy.surjective PowerPolicy.update_convs(3) PowerPolicyStatus.select_convs(2) PowerPolicyStatus.surjective PowerPolicyStatus.update_convs(2))
  ultimately show ?thesis using p ts r sc new by fastforce
qed

definition everywhere_policy :: PowerPolicy where
  "everywhere_policy = \<lparr>pp_Meta = (png_Meta dev_group)\<lparr>om_Name := ''nights''\<rparr>,
     pp_Spec = \<lparr>pps_Scope = group_scope\<lparr>scope_Namespaces := [], scope_NamespaceGroups := []\<rparr>,
       pps_Schedule = \<lparr>psch_Windows = [], psch_DesiredState = ''off''\<rparr>, pps_Priority = 10, pps_Description = ''off''\<rparr>,
     pp_Status = \<lparr>ppst_Conditions = [], ppst_AffectedTargets = 0, ppst_ActiveWindow = False, ppst_NextTransition = None\<rparr>\<rparr>"

definition policy_cluster :: env where
  "policy_cluster = empty_cluster\<lparr>env_GetPolicy := (\<lambda>_ _. Inr everywhere_policy), env_ListTargets := (\<lambda>_ _. Inr [web_target])\<rparr>"

theorem policy_count_exact_witness:
  "\<exists>w r p ts sc. StatusUpdatePolicy w r \<in> set (snd (run_state (PolicyReconciler_Reconcile policy_cluster ''aura'' \<lparr>nn_Namespace = ''aura'', nn_Name = ''p''\<rparr>) [])) \<and>
     w = p\<lparr>pp_Status := (pp_Status p)\<lparr>ppst_AffectedTargets :=
       wrap32 (int (length (filter (\<lambda>t. toDomainTarget t \<in> scope_admits sc) ts)))\<rparr>\<rparr> \<and> w \<noteq> p"
proof -
  let ?run = "run_state (PolicyReconciler_Reconcile policy_cluster ''aura'' \<lparr>nn_Namespace = ''aura'', nn_Name = ''p''\<rparr>) []"
  have "\<exists>w r. StatusUpdatePolicy w r \<in> set (snd ?run)"
    by (simp add: PolicyReconciler_Reconcile_def countAffectedTargets_def rule_call_defs namespaceIsManaged_def
        policy_cluster_def everywhere_policy_def ResolveScope_def group_scope_def matchesPolicyScope_def
        MatchesScope_def matchesTargetRefs_def matchesNamespaceNames_def matchesNamespaceLabels_def matchesWorkloadNames_def
        matchesWorkloadLabels_def targetReferences_def cloneMap_def labelsMatch_def wrap32_def Let_def)
  then obtain w r where w: "StatusUpdatePolicy w r \<in> set (snd ?run)" by blast
  have "?run = (fst ?run, snd ?run)" by simp
  from policy_count_exact[OF this w] w show ?thesis by blast
qed

end
