(* ===== verification/Webhook.thy ===== *)
theory Webhook
  imports Selection
begin

text \<open>
  The admission webhooks (\<open>src/internal/adapters/driving/webhook/policy_validator.go\<close> and
  \<open>override_validator.go\<close>).  Decoding the request is done by the admission library: the handlers
  take its outcome as an argument.  What they admit is related to what the engine needs of a rule.
\<close>

section \<open>The operations\<close>

datatype Response = Allowed string | Denied string | Errored int go_error

text \<open>Comparisons of bytes with \<open>'0'\<close>, \<open>'9'\<close> and \<open>':'\<close>.\<close>

definition is_digit_byte :: "char \<Rightarrow> bool" where
  "is_digit_byte c \<longleftrightarrow> \<not> ((of_char c :: nat) < 48 \<or> (of_char c :: nat) > 57)"

definition windowField :: "int \<Rightarrow> string \<Rightarrow> string" where
  "windowField windowIndex field = ''spec.schedule.windows['' @ go_itoa windowIndex @ ''].'' @ field"

definition validateTimeOfDay :: "string \<Rightarrow> int \<Rightarrow> string \<Rightarrow> go_error option" where
  "validateTimeOfDay s windowIndex field =
     (let formatErr = errors_New (windowField windowIndex field @ '': must be HH:MM format (got '' @ go_quote s @ '')'')
      in if length s \<noteq> 5 \<or> s ! 2 \<noteq> CHR '':'' then Some formatErr
         else if \<not> list_all (\<lambda>index. is_digit_byte (s ! index)) [0, 1, 3, 4] then Some formatErr
         else
           let hour = byte_digit s 0 * 10 + byte_digit s 1;
               minute = byte_digit s 3 * 10 + byte_digit s 4
           in if hour < 0 \<or> hour > 23
              then Some (errors_New (windowField windowIndex field @ '': hour must be 0-23 (got '' @ go_itoa hour @ '')''))
              else if minute < 0 \<or> minute > 59
              then Some (errors_New (windowField windowIndex field @ '': minute must be 0-59 (got '' @ go_itoa minute @ '')''))
              else None)"

definition validateTimeWindow :: "tzdb \<Rightarrow> TimeWindowSpec \<Rightarrow> int \<Rightarrow> go_error option" where
  "validateTimeWindow tz w index =
     (if tws_Timezone w = '''' then Some (errors_New (windowField index ''timezone is required''))
      else if LoadLocation tz (tws_Timezone w) = None
      then Some (errors_New (windowField index ''timezone: invalid timezone '' @ go_quote (tws_Timezone w)))
      else case validateTimeOfDay (tws_Start w) index ''start'' of
        Some err \<Rightarrow> Some err
      | None \<Rightarrow> (case validateTimeOfDay (tws_End w) index ''end'' of
          Some err \<Rightarrow> Some err
        | None \<Rightarrow> (case find (\<lambda>d. d < 0 \<or> d > 6) (tws_Days w) of
            Some d \<Rightarrow> Some (errors_New (windowField index ''days: invalid weekday '' @ go_itoa d @ '' (must be 0-6)''))
          | None \<Rightarrow> None)))"

fun validateWindows :: "tzdb \<Rightarrow> TimeWindowSpec list \<Rightarrow> int \<Rightarrow> go_error option" where
  "validateWindows tz [] i = None"
| "validateWindows tz (w # ws) i =
     (case validateTimeWindow tz w i of Some err \<Rightarrow> Some err | None \<Rightarrow> validateWindows tz ws (i + 1))"

definition PolicyValidator_Handle :: "tzdb \<Rightarrow> PowerPolicy result \<Rightarrow> Response" where
  "PolicyValidator_Handle tz decoded =
     (case decoded of
        Inl err \<Rightarrow> Errored 400 err
      | Inr policy \<Rightarrow>
          (let sched = pps_Schedule (pp_Spec policy) in
           case validateWindows tz (psch_Windows sched) 0 of
             Some err \<Rightarrow> Denied (err_Text err)
           | None \<Rightarrow>
               if psch_DesiredState sched \<noteq> ''on'' \<and> psch_DesiredState sched \<noteq> ''off''
               then Denied (''spec.schedule.desiredState must be 'on' or 'off' (got '' @ go_quote (psch_DesiredState sched) @ '')'')
               else if pps_Priority (pp_Spec policy) < 0 then Denied ''spec.priority must be >= 0''
               else Allowed ''policy is valid''))"

text \<open>The clock is read once, after the test for a missing expiry.\<close>

definition OverrideValidator_Handle :: "(go_time \<Rightarrow> string) \<Rightarrow> go_time \<Rightarrow> PowerOverride result \<Rightarrow> Response" where
  "OverrideValidator_Handle formatRFC3339 now decoded =
     (case decoded of
        Inl err \<Rightarrow> Errored 400 err
      | Inr override \<Rightarrow>
          (let spec = po_Spec override in
           if pos_ExpiresAt spec = zero_time
           then Denied ''spec.expiresAt is required. Overrides must have an expiration timestamp. Use --duration or set spec.expiresAt.''
           else if \<not> pos_ExpiresAt spec > now
           then Denied (''spec.expiresAt must be in the future (got '' @ formatRFC3339 (pos_ExpiresAt spec) @ '')'')
           else if length (pos_Reason spec) < 3
           then Denied ''spec.reason is required and must be at least 3 characters. Provide a justification for this override.''
           else if pos_State spec \<noteq> ''on'' \<and> pos_State spec \<noteq> ''off''
           then Denied (''spec.state must be 'on' or 'off' (got '' @ go_quote (pos_State spec) @ '')'')
           else if pos_Priority spec < 0 then Denied ''spec.priority must be >= 0''
           else Allowed ''override is valid''))"

section \<open>Lemmas\<close>

lemma validateTimeOfDay_parse:
  assumes "validateTimeOfDay s i f = None"
  shows "length s = 5 \<and> s ! 2 = CHR '':'' \<and> TimeOfDay_IsValid (parseTimeOfDay s)"
  using assms
  by (auto simp: validateTimeOfDay_def parseTimeOfDay_def TimeOfDay_IsValid_def Let_def split: if_splits)

lemma validateTimeWindow_None:
  assumes "validateTimeWindow tz w i = None"
  shows "window_valid (toDomainTimeWindow w)" and "LoadLocation tz (tw_Timezone (toDomainTimeWindow w)) \<noteq> None"
    and "\<forall>d\<in>set (tw_Days (toDomainTimeWindow w)). 0 \<le> d \<and> d \<le> 6"
  using assms validateTimeOfDay_parse
  by (auto simp: validateTimeWindow_def toDomainTimeWindow_def window_valid_def find_None_iff
      split: if_splits option.splits)

lemma validateWindows_None:
  "validateWindows tz ws i = None \<Longrightarrow> w \<in> set ws \<Longrightarrow> \<exists>j. validateTimeWindow tz w j = None"
  by (induction tz ws i rule: validateWindows.induct) (auto split: option.splits)

lemma PolicyValidator_Allowed_iff:
  "PolicyValidator_Handle tz (Inr p) = Allowed m \<longleftrightarrow>
     m = ''policy is valid'' \<and> validateWindows tz (psch_Windows (pps_Schedule (pp_Spec p))) 0 = None \<and>
     PowerState_IsValid (psch_DesiredState (pps_Schedule (pp_Spec p))) \<and> 0 \<le> pps_Priority (pp_Spec p)"
  by (auto simp: PolicyValidator_Handle_def Let_def PowerState_IsValid_def power_state_defs split: option.splits)

section \<open>Properties\<close>

text \<open>
  C12. What the webhook admits the engine understands: the domain policy converted from an admitted
  object has windows with valid clock times, weekdays and time zones and a valid state, so that its
  schedule evaluates to the documented meaning at every instant: the desired state while an
  occurrence of a window is running (or always, without windows), the opposite state otherwise.
\<close>

theorem admitted_policy_evaluates:
  assumes "PolicyValidator_Handle tz (Inr p) = Allowed m"
  shows "(let s = pol_Schedule (toDomainPolicy p) in
     PowerState_IsValid (sch_DesiredState s) \<and>
     (\<forall>w\<in>set (sch_Windows s). window_valid w \<and> (\<forall>d\<in>set (tw_Days w). 0 \<le> d \<and> d \<le> 6)) \<and>
     EvaluateSchedule tz s now =
       (if sch_Windows s = [] \<or> (\<exists>w\<in>set (sch_Windows s).
             window_active w (time_In now (the (LoadLocation tz (tw_Timezone w))) div 60))
        then sch_DesiredState s else Opposite (sch_DesiredState s)))"
proof -
  let ?s = "pol_Schedule (toDomainPolicy p)"
  have ok: "window_valid w \<and> LoadLocation tz (tw_Timezone w) \<noteq> None \<and> (\<forall>d\<in>set (tw_Days w). 0 \<le> d \<and> d \<le> 6)"
    if w: "w \<in> set (sch_Windows ?s)" for w
  proof -
    obtain w0 where w0: "w = toDomainTimeWindow w0" "w0 \<in> set (psch_Windows (pps_Schedule (pp_Spec p)))"
      using w by (auto simp: toDomainPolicy_def)
    obtain j where "validateTimeWindow tz w0 j = None"
      using assms w0(2) validateWindows_None by (metis PolicyValidator_Allowed_iff)
    from validateTimeWindow_None[OF this] show ?thesis using w0(1) by simp
  qed
  have "IsInWindow tz w now = window_active w (time_In now (the (LoadLocation tz (tw_Timezone w))) div 60)"
    if "w \<in> set (sch_Windows ?s)" for w
    using ok[OF that] by (auto simp: IsInWindow_active)
  then have "IsInAnyWindow tz (sch_Windows ?s) now \<longleftrightarrow> (\<exists>w\<in>set (sch_Windows ?s).
      window_active w (time_In now (the (LoadLocation tz (tw_Timezone w))) div 60))"
    by (auto simp: IsInAnyWindow_def list_ex_iff)
  then have "EvaluateSchedule tz ?s now =
       (if sch_Windows ?s = [] \<or> (\<exists>w\<in>set (sch_Windows ?s).
             window_active w (time_In now (the (LoadLocation tz (tw_Timezone w))) div 60))
        then sch_DesiredState ?s else Opposite (sch_DesiredState ?s))"
    by (simp add: EvaluateSchedule_def)
  moreover have "PowerState_IsValid (sch_DesiredState ?s)"
    using assms by (simp add: PolicyValidator_Allowed_iff toDomainPolicy_def)
  ultimately show ?thesis using ok by (simp add: Let_def)
qed

definition office_policy :: PowerPolicy where
  "office_policy = \<lparr>pp_Meta = (png_Meta dev_group)\<lparr>om_Name := ''office''\<rparr>,
     pp_Spec = \<lparr>pps_Scope = group_scope,
       pps_Schedule = \<lparr>psch_Windows = [\<lparr>tws_Start = ''08:00'', tws_End = ''18:30'', tws_Days = [1, 2, 3, 4, 5],
            tws_Timezone = ''UTC''\<rparr>], psch_DesiredState = ''on''\<rparr>,
       pps_Priority = 10, pps_Description = ''office hours''\<rparr>,
     pp_Status = \<lparr>ppst_Conditions = [], ppst_AffectedTargets = 0, ppst_ActiveWindow = False,
       ppst_NextTransition = None\<rparr>\<rparr>"

theorem admitted_policy_evaluates_witness:
  "PolicyValidator_Handle (\<lambda>_. None) (Inr office_policy) = Allowed ''policy is valid'' \<and>
   PowerState_IsValid (sch_DesiredState (pol_Schedule (toDomainPolicy office_policy)))"
proof -
  have "PolicyValidator_Handle (\<lambda>_. None) (Inr office_policy) = Allowed ''policy is valid''" by code_simp
  with admitted_policy_evaluates[OF this, of 0] show ?thesis by (simp add: Let_def)
qed

text \<open>
  An override is admitted exactly when it expires in the future, gives a reason of at least
  three bytes, names a valid state and a non-negative priority; an admitted override is live in the
  engine from the moment of admission until its expiry.
\<close>

theorem OverrideValidator_admits_iff:
  "(\<exists>m. OverrideValidator_Handle fmt now (Inr v) = Allowed m) \<longleftrightarrow>
     pos_ExpiresAt (po_Spec v) \<noteq> zero_time \<and> \<not> IsExpired (toDomainOverride v) now \<and>
     3 \<le> length (pos_Reason (po_Spec v)) \<and> PowerState_IsValid (ovr_State (toDomainOverride v)) \<and>
     0 \<le> ovr_Priority (toDomainOverride v)"
  by (auto simp: OverrideValidator_Handle_def toDomainOverride_def IsExpired_def PowerState_IsValid_def
      power_state_defs Let_def)

end
