(* ===== verification/CliSession.thy ===== *)
theory CliSession
  imports RuleReconcile Webhook
begin

text \<open>
  The command line client: its session with the API server (\<open>src/internal/cli/httpclient.go\<close>, \<open>login.go\<close>) and the
  command that creates an override (\<open>override.go\<close>).  A run is the trace of the accesses to the configuration
  file, the HTTP requests and the clock; the file system and the server may answer anything.  The JSON and duration parsers and the
  formatting of times are arguments.  Flags and what the user types at a prompt are arguments of the commands; what they
  print is left out, as are the commands that only print an answer of the server.
\<close>

section \<open>Calls\<close>

record CLIConfig =
  cli_ServerURL :: string
  cli_AccessToken :: string
  cli_RefreshToken :: string
  cli_Username :: string

definition no_config :: CLIConfig where
  "no_config = \<lparr>cli_ServerURL = '''', cli_AccessToken = '''', cli_RefreshToken = '''', cli_Username = ''''\<rparr>"

text \<open>The body of a response: what can be read of it, and the error that ends it early, if any.\<close>

record cli_response =
  cr_StatusCode :: int
  cr_Status :: string
  cr_Body :: "string \<times> go_error option"

datatype (plugins only: code size) cli_event =
    ReadConfig "CLIConfig option result"
  | MakeConfigDir "unit result"
  | WriteConfig CLIConfig "unit result"
  | Send string string string "string option" "cli_response result"
  | CliClock go_time

type_synonym 'a cio = "(cli_event list, 'a) state"

record overrideTargetReference =
  otr_Namespace :: string
  otr_Name :: string
  otr_Kind :: string
  otr_UID :: string

record overrideCreateRequest =
  ocr_GenerateName :: string
  ocr_Namespace :: string
  ocr_Namespaces :: "string list"
  ocr_TargetRefs :: "overrideTargetReference list"
  ocr_State :: string
  ocr_Priority :: int
  ocr_ExpiresAt :: string
  ocr_Reason :: string
  ocr_Reference :: string

text \<open>\<open>cv_ReadConfig\<close> gives \<open>None\<close> when there is no file; the encoders cannot fail on strings.\<close>

record cenv =
  cv_ReadConfig :: "cli_event list \<Rightarrow> CLIConfig option result"
  cv_MakeConfigDir :: "cli_event list \<Rightarrow> unit result"
  cv_WriteConfig :: "cli_event list \<Rightarrow> CLIConfig \<Rightarrow> unit result"
  cv_NewRequest :: "string \<Rightarrow> string \<Rightarrow> go_error option"
  cv_Do :: "cli_event list \<Rightarrow> string \<Rightarrow> string \<Rightarrow> string \<Rightarrow> string option \<Rightarrow> cli_response result"
  cv_Now :: "cli_event list \<Rightarrow> go_time"
  cv_RefreshJSON :: "string \<Rightarrow> string"
  cv_LoginJSON :: "string \<Rightarrow> string \<Rightarrow> string"
  cv_DecodeTokens :: "string \<Rightarrow> (string \<times> string) result"
  cv_DecodeUser :: "string \<Rightarrow> (string \<times> string \<times> string) result"
  cv_OverrideJSON :: "overrideCreateRequest \<Rightarrow> string"
  cv_DecodeName :: "string \<Rightarrow> string result"
  cv_ParseDuration :: "string \<Rightarrow> go_duration result"
  cv_FormatRFC3339 :: "go_time \<Rightarrow> string"

text \<open>An error ends the function, with the text put before it.\<close>

definition or_fail :: "string \<Rightarrow> 'a result cio \<Rightarrow> ('a \<Rightarrow> 'b result cio) \<Rightarrow> 'b result cio" where
  "or_fail front m k = do {
     r \<leftarrow> m;
     case r of Inl err \<Rightarrow> return (Inl (wrap_error front err '''')) | Inr x \<Rightarrow> k x
   }"

section \<open>The configuration\<close>

definition loadConfig :: "cenv \<Rightarrow> CLIConfig result cio" where
  "loadConfig V = do {
     r \<leftarrow> call (cv_ReadConfig V) ReadConfig;
     return (case r of Inl err \<Rightarrow> Inl err | Inr None \<Rightarrow> Inr no_config | Inr (Some cfg) \<Rightarrow> Inr cfg)
   }"

definition saveConfig :: "cenv \<Rightarrow> CLIConfig \<Rightarrow> unit result cio" where
  "saveConfig V cfg = do {
     d \<leftarrow> call (cv_MakeConfigDir V) MakeConfigDir;
     case d of Inl err \<Rightarrow> return (Inl err) | Inr _ \<Rightarrow> call (\<lambda>tr. cv_WriteConfig V tr cfg) (WriteConfig cfg)
   }"

text \<open>\<open>strings.TrimRight(s, "/")\<close>.\<close>

definition TrimRightSlash :: "string \<Rightarrow> string" where
  "TrimRightSlash s = rev (dropWhile (\<lambda>c. c = CHR ''/'') (rev s))"

definition getServerURL :: "cenv \<Rightarrow> string \<Rightarrow> string result cio" where
  "getServerURL V apiURL =
     (if apiURL \<noteq> '''' then return (Inr (TrimRightSlash apiURL))
      else or_fail ''failed to load config: '' (loadConfig V) (\<lambda>cfg.
        return (if cli_ServerURL cfg \<noteq> '''' then Inr (TrimRightSlash (cli_ServerURL cfg))
          else Inl (errors_New ''no server URL configured. Run 'aura-power login --server <URL>' first''))))"

definition getAccessToken :: "cenv \<Rightarrow> string result cio" where
  "getAccessToken V = or_fail '''' (loadConfig V) (\<lambda>cfg.
     return (if cli_AccessToken cfg = '''' then Inl (errors_New ''not logged in. Run 'aura-power login' first'')
       else Inr (cli_AccessToken cfg)))"

section \<open>Requests\<close>

definition doJSONRequest :: "cenv \<Rightarrow> string \<Rightarrow> string \<Rightarrow> string \<Rightarrow> string option \<Rightarrow> cli_response result cio" where
  "doJSONRequest V httpMethod url token payload =
     (case cv_NewRequest V httpMethod url of
        Some err \<Rightarrow> return (Inl (wrap_error ''build request: '' err ''''))
      | None \<Rightarrow> do {
          r \<leftarrow> call (\<lambda>tr. cv_Do V tr httpMethod url token payload) (Send httpMethod url token payload);
          return (case r of
              Inl err \<Rightarrow> Inl (if err_DeadlineExceeded err then wrap_error ''request timed out after 30s: '' err ''''
                else wrap_error ''request failed: '' err '''')
            | Inr resp \<Rightarrow> Inr resp)
        })"

definition maxErrorBodyBytes :: nat where "maxErrorBodyBytes = 64 * 1024"

definition HTTPStatusError :: "string \<Rightarrow> string \<Rightarrow> go_error" where
  "HTTPStatusError status body =
     errors_New (if body = '''' then ''server returned '' @ status else ''server returned '' @ status @ '': '' @ body)"

definition requireStatus :: "cli_response \<Rightarrow> int list \<Rightarrow> string result" where
  "requireStatus resp expected =
     (let accepted = list_ex (\<lambda>status. cr_StatusCode resp = status) expected;
          (whole, broken) = cr_Body resp;
          (body, err) = (if \<not> accepted \<and> maxErrorBodyBytes < length whole then (take (maxErrorBodyBytes + 1) whole, None)
            else (whole, broken)) in
      case err of
        Some err \<Rightarrow> Inl (wrap_error ''read response body: '' err '''')
      | None \<Rightarrow>
          if accepted then Inr body
          else
            let message = TrimSpace body;
                message = (if length message > maxErrorBodyBytes then take maxErrorBodyBytes message @ ''...'' else message)
            in Inl (HTTPStatusError (cr_Status resp) message))"

text \<open>The exchange of the refresh token for two new tokens.\<close>

definition refreshTokenFlow :: "cenv \<Rightarrow> string \<Rightarrow> unit result cio" where
  "refreshTokenFlow V apiURL = do {
     c \<leftarrow> loadConfig V;
     case c of
       Inl _ \<Rightarrow> return (Inl (errors_New ''no refresh token available''))
     | Inr cfg \<Rightarrow>
         if cli_RefreshToken cfg = '''' then return (Inl (errors_New ''no refresh token available''))
         else
           (let serverURL = (if apiURL \<noteq> '''' then TrimRightSlash apiURL else cli_ServerURL cfg) in
            or_fail '''' (doJSONRequest V ''POST'' (serverURL @ ''/api/v1/auth/refresh'') ''''
              (Some (cv_RefreshJSON V (cli_RefreshToken cfg)))) (\<lambda>resp.
            case requireStatus resp [200] of
              Inl err \<Rightarrow> return (Inl (wrap_error ''refresh failed: '' err ''''))
            | Inr body \<Rightarrow>
                (case cv_DecodeTokens V body of
                   Inl err \<Rightarrow> return (Inl err)
                 | Inr (access, refresh) \<Rightarrow>
                     if access = '''' \<or> refresh = ''''
                     then return (Inl (errors_New ''refresh response did not contain both tokens''))
                     else saveConfig V (cfg\<lparr>cli_AccessToken := access, cli_RefreshToken := refresh\<rparr>))))
   }"

definition authenticatedRequestBytes ::
  "cenv \<Rightarrow> string \<Rightarrow> string \<Rightarrow> string \<Rightarrow> string option \<Rightarrow> cli_response result cio" where
  "authenticatedRequestBytes V apiURL httpMethod url payload =
     or_fail '''' (getAccessToken V) (\<lambda>token.
     or_fail '''' (doJSONRequest V httpMethod url token payload) (\<lambda>resp.
       if cr_StatusCode resp = 401 then
         or_fail ''session expired; run 'aura-power login' again: '' (refreshTokenFlow V apiURL) (\<lambda>_.
         or_fail '''' (getAccessToken V) (\<lambda>token.
         doJSONRequest V httpMethod url token payload))
       else return (Inr resp)))"

text \<open>The body is read before the request: \<open>None\<close> for no body.\<close>

definition authenticatedRequest ::
  "cenv \<Rightarrow> string \<Rightarrow> string \<Rightarrow> string \<Rightarrow> string result option \<Rightarrow> cli_response result cio" where
  "authenticatedRequest V apiURL httpMethod url body =
     (case body of
        None \<Rightarrow> authenticatedRequestBytes V apiURL httpMethod url None
      | Some (Inl err) \<Rightarrow> return (Inl (wrap_error ''read request body: '' err ''''))
      | Some (Inr payload) \<Rightarrow> authenticatedRequestBytes V apiURL httpMethod url (Some payload))"

definition authenticatedGet :: "cenv \<Rightarrow> string \<Rightarrow> string \<Rightarrow> cli_response result cio" where
  "authenticatedGet V apiURL url = authenticatedRequest V apiURL ''GET'' url None"

section \<open>Commands\<close>

text \<open>
  \<open>typedUser\<close> and \<open>typedPassword\<close> are what is typed if a prompt appears.  The result of a login is the user name and the
  server it prints.
\<close>

definition loginServer :: "cenv \<Rightarrow> string \<Rightarrow> string \<Rightarrow> string result cio" where
  "loginServer V apiURL server =
     (if server \<noteq> '''' then return (Inr server)
      else do {
        c \<leftarrow> loadConfig V;
        return (case c of
            Inr cfg \<Rightarrow>
              if cli_ServerURL cfg \<noteq> '''' then Inr (cli_ServerURL cfg)
              else if apiURL \<noteq> '''' then Inr apiURL
              else Inl (errors_New ''--server is required on first login'')
          | Inl _ \<Rightarrow> if apiURL \<noteq> '''' then Inr apiURL else Inl (errors_New ''--server is required on first login''))
      })"

definition runLogin ::
  "cenv \<Rightarrow> string \<Rightarrow> string \<Rightarrow> string \<Rightarrow> string \<Rightarrow> string \<Rightarrow> string result \<Rightarrow> (string \<times> string) result cio" where
  "runLogin V apiURL server username password typedUser typedPassword =
     or_fail '''' (loginServer V apiURL server) (\<lambda>server.
       let server = TrimRightSlash server;
           username = (if username = '''' then typedUser else username)
       in case (if password = '''' then typedPassword else Inr password) of
         Inl err \<Rightarrow> return (Inl (wrap_error ''failed to read password: '' err ''''))
       | Inr password \<Rightarrow>
           or_fail ''failed to connect to server: ''
             (doJSONRequest V ''POST'' (server @ ''/api/v1/auth/login'') '''' (Some (cv_LoginJSON V username password))) (\<lambda>resp.
           case requireStatus resp [200] of
             Inl err \<Rightarrow> return (Inl (if cr_StatusCode resp = 401 then wrap_error ''invalid credentials: '' err ''''
               else wrap_error ''login failed: '' err ''''))
           | Inr body \<Rightarrow>
               (case cv_DecodeTokens V body of
                  Inl err \<Rightarrow> return (Inl (wrap_error ''failed to parse response: '' err ''''))
                | Inr (access, refresh) \<Rightarrow>
                    if access = '''' \<or> refresh = ''''
                    then return (Inl (errors_New ''login response did not contain both tokens''))
                    else or_fail ''failed to save credentials: ''
                      (saveConfig V \<lparr>cli_ServerURL = server, cli_AccessToken = access, cli_RefreshToken = refresh,
                         cli_Username = username\<rparr>)
                      (\<lambda>_. return (Inr (username, server))))))"

definition runLogout :: "cenv \<Rightarrow> unit result cio" where
  "runLogout V = or_fail ''failed to clear credentials: '' (saveConfig V no_config) (\<lambda>_. return (Inr ()))"

text \<open>The user (identifier, name, role) and the server that are printed.\<close>

definition runWhoami :: "cenv \<Rightarrow> string \<Rightarrow> ((string \<times> string \<times> string) \<times> string) result cio" where
  "runWhoami V apiURL =
     or_fail '''' (getServerURL V apiURL) (\<lambda>serverURL.
     or_fail '''' (authenticatedGet V apiURL (serverURL @ ''/api/v1/auth/me'')) (\<lambda>resp.
       return (case requireStatus resp [200] of
           Inl err \<Rightarrow> Inl (wrap_error ''failed to get user info: '' err '''')
         | Inr body \<Rightarrow> (case cv_DecodeUser V body of Inl err \<Rightarrow> Inl err | Inr user \<Rightarrow> Inr (user, serverURL)))))"

definition validWorkloadKind :: "string \<Rightarrow> bool" where
  "validWorkloadKind kind \<longleftrightarrow> kind = ''Deployment'' \<or> kind = ''StatefulSet'' \<or> kind = ''CronJob''"

text \<open>\<open>strings.SplitN(target, "/", 2)\<close>, and the scope that a target means.\<close>

definition splitTarget :: "string \<Rightarrow> string \<times> string option" where
  "splitTarget target =
     (if CHR ''/'' \<in> set target
      then (takeWhile (\<lambda>c. c \<noteq> CHR ''/'') target, Some (tl (dropWhile (\<lambda>c. c \<noteq> CHR ''/'') target)))
      else (target, None))"

definition overrideScope :: "string \<Rightarrow> string \<Rightarrow> string \<Rightarrow> (string list \<times> overrideTargetReference list) result" where
  "overrideScope target kind uid =
     (case splitTarget target of
        (ns, Some name) \<Rightarrow>
          if kind = '''' then Inl (errors_New ''kind is required when target identifies a workload'')
          else if \<not> validWorkloadKind kind then Inl (errors_New (''invalid workload kind '' @ go_quote kind))
          else Inr ([], [\<lparr>otr_Namespace = ns, otr_Name = name, otr_Kind = kind, otr_UID = uid\<rparr>])
      | (ns, None) \<Rightarrow>
          if kind \<noteq> '''' \<or> uid \<noteq> '''' then Inl (errors_New ''kind and uid require a namespace/name target'')
          else Inr ([ns], []))"

definition runOverrideCreate ::
  "cenv \<Rightarrow> string \<Rightarrow> string \<Rightarrow> string \<Rightarrow> string \<Rightarrow> string \<Rightarrow> string \<Rightarrow> string \<Rightarrow> string \<Rightarrow> int \<Rightarrow> string result cio" where
  "runOverrideCreate V apiURL target kind uid state durationStr reason ref priority =
     or_fail '''' (getServerURL V apiURL) (\<lambda>serverURL.
       case overrideScope target kind uid of
         Inl err \<Rightarrow> return (Inl err)
       | Inr (namespaces, targetRefs) \<Rightarrow>
           (case cv_ParseDuration V durationStr of
              Inl err \<Rightarrow> return (Inl (wrap_error (''invalid duration '' @ go_quote durationStr @ '': '') err ''''))
            | Inr dur \<Rightarrow>
                if state \<noteq> ''on'' \<and> state \<noteq> ''off''
                then return (Inl (errors_New (''state must be 'on' or 'off', got '' @ go_quote state)))
                else do {
                  now \<leftarrow> call (cv_Now V) CliClock;
                  let payload = \<lparr>ocr_GenerateName = ''override-'', ocr_Namespace = '''', ocr_Namespaces = namespaces,
                    ocr_TargetRefs = targetRefs, ocr_State = state, ocr_Priority = priority,
                    ocr_ExpiresAt = cv_FormatRFC3339 V (now + dur), ocr_Reason = reason, ocr_Reference = ref\<rparr>;
                  or_fail '''' (authenticatedRequestBytes V apiURL ''POST'' (serverURL @ ''/api/v1/overrides'')
                    (Some (cv_OverrideJSON V payload))) (\<lambda>resp.
                  return (case requireStatus resp [201] of
                      Inl err \<Rightarrow> Inl (wrap_error ''failed to create override: '' err '''')
                    | Inr body \<Rightarrow> (case cv_DecodeName V body of
                          Inl err \<Rightarrow> Inl (wrap_error ''decode override response: '' err '''')
                        | Inr name \<Rightarrow> Inr name)))
                }))"

section \<open>Lemmas\<close>

lemma emits_or_fail: "emits P m \<Longrightarrow> (\<And>x. emits P (k x)) \<Longrightarrow> emits P (or_fail front m k)"
  unfolding or_fail_def by (intro emits_intros)

lemma or_fail_Inr:
  "run_state (or_fail front m k) tr = (Inr y, tr') \<Longrightarrow> \<exists>x tr1. run_state m tr = (Inr x, tr1) \<and> run_state (k x) tr1 = (Inr y, tr')"
  by (auto simp: or_fail_def split: prod.splits sum.splits)

lemma or_fail_cases:
  assumes "run_state (or_fail front m k) tr = (res, tr')"
  obtains err where "run_state m tr = (Inl err, tr')" "\<And>y. res \<noteq> Inr y"
  | x tr1 where "run_state m tr = (Inr x, tr1)" "run_state (k x) tr1 = (res, tr')"
  using assms by (auto simp: or_fail_def split: prod.splits sum.splits)

subsection \<open>The calls of a request\<close>

text \<open>Reads of the configuration, and requests.\<close>

fun reads :: "cli_event \<Rightarrow> bool" where
  "reads (ReadConfig _) = True"
| "reads _ = False"

text \<open>A request of a command carries a token; that for new tokens does not.\<close>

fun carries_token :: "string \<Rightarrow> string \<Rightarrow> string option \<Rightarrow> cli_event \<Rightarrow> bool" where
  "carries_token httpMethod url payload (Send m u tok p r) \<longleftrightarrow> m = httpMethod \<and> u = url \<and> p = payload \<and> tok \<noteq> ''''"
| "carries_token httpMethod url payload _ \<longleftrightarrow> False"

fun refreshes :: "cli_event \<Rightarrow> bool" where
  "refreshes (Send m u tok p r) \<longleftrightarrow> tok = ''''"
| "refreshes _ \<longleftrightarrow> False"

lemma loadConfig_run: "\<exists>r. run_state (loadConfig V) tr = (r, ReadConfig (cv_ReadConfig V tr) # tr) \<and>
    (\<forall>cfg. r = Inr cfg \<longrightarrow> cv_ReadConfig V tr = Inr (Some cfg) \<or> cfg = no_config)"
  by (auto simp: loadConfig_def split: sum.splits option.splits)

lemma getAccessToken_run:
  assumes "run_state (getAccessToken V) tr = (res, tr')"
  shows "\<exists>r. tr' = ReadConfig r # tr \<and> (\<forall>tok. res = Inr tok \<longrightarrow> tok \<noteq> '''' \<and> (\<exists>cfg. r = Inr (Some cfg) \<and> cli_AccessToken cfg = tok))"
  using assms
  by (auto simp: getAccessToken_def or_fail_def loadConfig_def no_config_def split: sum.splits option.splits if_splits)

lemma doJSONRequest_run:
  assumes "run_state (doJSONRequest V m url tok p) tr = (res, tr')"
  shows "tr' = tr \<and> (\<forall>resp. res \<noteq> Inr resp) \<or> (\<exists>r. tr' = Send m url tok p r # tr \<and> (\<forall>resp. res = Inr resp \<longrightarrow> r = Inr resp))"
  using assms by (auto simp: doJSONRequest_def split: option.splits sum.splits if_splits)

text \<open>What the renewal of the tokens adds to the trace.\<close>

inductive renewal :: "cenv \<Rightarrow> bool \<Rightarrow> cli_event list \<Rightarrow> bool" for V where
  unread: "renewal V False [ReadConfig r]"
| failed: "refreshes e \<Longrightarrow> renewal V False [e, ReadConfig r]"
| unsaved: "refreshes e \<Longrightarrow> renewal V False [MakeConfigDir d, e, ReadConfig r]"
| renewed: "refreshes e \<Longrightarrow> access \<noteq> '''' \<Longrightarrow> refresh \<noteq> '''' \<Longrightarrow>
    renewal V (w = Inr ()) [WriteConfig (cfg\<lparr>cli_AccessToken := access, cli_RefreshToken := refresh\<rparr>) w,
      MakeConfigDir d, e, ReadConfig (Inr (Some cfg))]"

lemma refreshTokenFlow_run:
  assumes "run_state (refreshTokenFlow V apiURL) tr = (res, tr')"
  shows "\<exists>new. tr' = new @ tr \<and> renewal V (res = Inr ()) new"
proof -
  define rd where "rd = ReadConfig (cv_ReadConfig V tr)"
  obtain c where c: "run_state (loadConfig V) tr = (c, rd # tr)"
    "\<forall>cfg. c = Inr cfg \<longrightarrow> cv_ReadConfig V tr = Inr (Some cfg) \<or> cfg = no_config"
    using loadConfig_run[of V tr] unfolding rd_def by blast
  show ?thesis
  proof (cases "\<exists>cfg. c = Inr cfg \<and> cli_RefreshToken cfg \<noteq> ''''")
    case False
    then have "res = Inl (errors_New ''no refresh token available'') \<and> tr' = rd # tr"
      using assms c(1) by (auto simp: refreshTokenFlow_def split: sum.splits)
    then show ?thesis using renewal.unread[of V] by (auto simp: rd_def)
  next
    case True
    then obtain cfg where cfg: "c = Inr cfg" "cli_RefreshToken cfg \<noteq> ''''" by blast
    then have rd: "rd = ReadConfig (Inr (Some cfg))" using c(2) by (auto simp: rd_def no_config_def)
    define url where "url = (if apiURL \<noteq> '''' then TrimRightSlash apiURL else cli_ServerURL cfg) @ ''/api/v1/auth/refresh''"
    define req where "req = doJSONRequest V ''POST'' url '''' (Some (cv_RefreshJSON V (cli_RefreshToken cfg)))"
    define finish where "finish resp = (case requireStatus resp [200] of
        Inl err \<Rightarrow> return (Inl (wrap_error ''refresh failed: '' err ''''))
      | Inr body \<Rightarrow>
          (case cv_DecodeTokens V body of
             Inl err \<Rightarrow> return (Inl err)
           | Inr (access, refresh) \<Rightarrow>
               if access = '''' \<or> refresh = ''''
               then return (Inl (errors_New ''refresh response did not contain both tokens''))
               else saveConfig V (cfg\<lparr>cli_AccessToken := access, cli_RefreshToken := refresh\<rparr>)))" for resp
    have "run_state (or_fail '''' req finish) (rd # tr) = (res, tr')"
      using assms c(1) cfg by (simp add: refreshTokenFlow_def req_def finish_def[abs_def] url_def Let_def)
    then show ?thesis
    proof (cases rule: or_fail_cases)
      case (1 err)
      from doJSONRequest_run[OF this(1)[unfolded req_def]] this(2) renewal.unread[of V] renewal.failed[of _ V]
      show ?thesis by (cases res) (fastforce simp: rd_def)+
    next
      case (2 resp tr1)
      then obtain r where tr1: "tr1 = Send ''POST'' url '''' (Some (cv_RefreshJSON V (cli_RefreshToken cfg))) r # rd # tr"
        using doJSONRequest_run[OF 2(1)[unfolded req_def]] by auto
      define e where "e = Send ''POST'' url '''' (Some (cv_RefreshJSON V (cli_RefreshToken cfg))) r"
      have e: "refreshes e" by (simp add: e_def)
      have "(\<exists>err. finish resp = return (Inl err)) \<or> (\<exists>access refresh. access \<noteq> '''' \<and> refresh \<noteq> '''' \<and>
          finish resp = saveConfig V (cfg\<lparr>cli_AccessToken := access, cli_RefreshToken := refresh\<rparr>))"
      proof (cases "requireStatus resp [200]")
        case body: (Inr body)
        show ?thesis
        proof (cases "cv_DecodeTokens V body")
          case (Inr tokens)
          obtain access refresh where "tokens = (access, refresh)" by (cases tokens)
          with body Inr have "finish resp = (if access = '''' \<or> refresh = ''''
              then return (Inl (errors_New ''refresh response did not contain both tokens''))
              else saveConfig V (cfg\<lparr>cli_AccessToken := access, cli_RefreshToken := refresh\<rparr>))"
            by (simp add: finish_def)
          then show ?thesis by (cases "access = '''' \<or> refresh = ''''") auto
        qed (use body in \<open>auto simp: finish_def\<close>)
      qed (auto simp: finish_def)
      then show ?thesis
      proof (elim disjE exE conjE)
        fix err assume "finish resp = return (Inl err)"
        then have "tr' = tr1 \<and> res \<noteq> Inr ()" using 2(2) by auto
        then show ?thesis using renewal.failed[OF e, of V "cv_ReadConfig V tr"] by (auto simp: tr1 e_def rd_def)
      next
        fix access refresh
        assume tok: "access \<noteq> ''''" "refresh \<noteq> ''''"
          and save: "finish resp = saveConfig V (cfg\<lparr>cli_AccessToken := access, cli_RefreshToken := refresh\<rparr>)"
        show ?thesis
        proof (cases "cv_MakeConfigDir V tr1")
          case (Inl err)
          then have "tr' = MakeConfigDir (Inl err) # tr1 \<and> res \<noteq> Inr ()"
            using 2(2) by (auto simp: save saveConfig_def)
          then show ?thesis using renewal.unsaved[OF e, of V "Inl err" "cv_ReadConfig V tr"] by (auto simp: tr1 e_def rd_def)
        next
          case (Inr u)
          define w where "w = cv_WriteConfig V (MakeConfigDir (Inr u) # tr1) (cfg\<lparr>cli_AccessToken := access, cli_RefreshToken := refresh\<rparr>)"
          have "res = w" "tr' = WriteConfig (cfg\<lparr>cli_AccessToken := access, cli_RefreshToken := refresh\<rparr>) w # MakeConfigDir (Inr u) # tr1"
            using 2(2) Inr by (auto simp: save saveConfig_def w_def)
          then show ?thesis using renewal.renewed[OF e tok, of V w cfg "Inr u"] by (auto simp: tr1 e_def rd)
        qed
      qed
    qed
  qed
qed

text \<open>
  What an authenticated request adds to the trace: a look at the configuration, the request, and after an answer of 401 the
  renewal of the tokens, then (only if they were stored) another look and the request once more.
\<close>

inductive exchange :: "cenv \<Rightarrow> string \<Rightarrow> string \<Rightarrow> string option \<Rightarrow> cli_response result \<Rightarrow> cli_event list \<Rightarrow> bool"
  for V m url p where
  unread: "(\<And>resp. res \<noteq> Inr resp) \<Longrightarrow> exchange V m url p res [ReadConfig r]"
| answered: "tok \<noteq> '''' \<Longrightarrow> (\<And>resp. res = Inr resp \<Longrightarrow> r = Inr resp) \<Longrightarrow>
    exchange V m url p res [Send m url tok p r, ReadConfig c]"
| lapsed: "tok \<noteq> '''' \<Longrightarrow> cr_StatusCode first = 401 \<Longrightarrow> renewal V ok new \<Longrightarrow> (\<And>resp. res \<noteq> Inr resp) \<Longrightarrow>
    exchange V m url p res (new @ [Send m url tok p (Inr first), ReadConfig c])"
| unreadable: "tok \<noteq> '''' \<Longrightarrow> cr_StatusCode first = 401 \<Longrightarrow> renewal V True new \<Longrightarrow> (\<And>resp. res \<noteq> Inr resp) \<Longrightarrow>
    exchange V m url p res (ReadConfig c' # new @ [Send m url tok p (Inr first), ReadConfig c])"
| repeated: "tok \<noteq> '''' \<Longrightarrow> cr_StatusCode first = 401 \<Longrightarrow> renewal V True new \<Longrightarrow> cli_AccessToken cfg = tok' \<Longrightarrow> tok' \<noteq> '''' \<Longrightarrow>
    (\<And>resp. res = Inr resp \<Longrightarrow> r = Inr resp) \<Longrightarrow>
    exchange V m url p res (Send m url tok' p r # ReadConfig (Inr (Some cfg)) # new @ [Send m url tok p (Inr first), ReadConfig c])"

lemma authenticatedRequestBytes_exchange:
  assumes "run_state (authenticatedRequestBytes V apiURL m url p) tr = (res, tr')"
  shows "\<exists>new. tr' = new @ tr \<and> exchange V m url p res new"
  using assms unfolding authenticatedRequestBytes_def
proof (cases rule: or_fail_cases)
  case (1 err)
  then show ?thesis using getAccessToken_run[OF 1(1)] exchange.unread[of res V m url p] by fastforce
next
  case (2 tok tr1)
  from getAccessToken_run[OF 2(1)] obtain c where tr1: "tr1 = ReadConfig c # tr" and tok: "tok \<noteq> ''''" by auto
  from 2(2) show ?thesis
  proof (cases rule: or_fail_cases)
    case (1 err)
    from doJSONRequest_run[OF 1(1)] show ?thesis
    proof (elim disjE exE conjE)
      assume "tr' = tr1"
      then show ?thesis using exchange.unread[of res V m url p c] 1(2) by (auto simp: tr1)
    next
      fix r assume "tr' = Send m url tok p r # tr1"
      then show ?thesis using exchange.answered[OF tok, of res r V m url p c] 1(2) by (auto simp: tr1)
    qed
  next
    case (2 first tr2)
    from doJSONRequest_run[OF 2(1)] have tr2: "tr2 = Send m url tok p (Inr first) # tr1" by auto
    show ?thesis
    proof (cases "cr_StatusCode first = 401")
      case False
      then have "res = Inr first" "tr' = tr2" using 2(2) by auto
      then show ?thesis using exchange.answered[OF tok, of res "Inr first" V m url p c] by (auto simp: tr1 tr2)
    next
      case lapse: True
      from 2(2) lapse have "run_state (or_fail ''session expired; run 'aura-power login' again: '' (refreshTokenFlow V apiURL) (\<lambda>_.
          or_fail '''' (getAccessToken V) (\<lambda>token. doJSONRequest V m url token p))) tr2 = (res, tr')" by simp
      then show ?thesis
      proof (cases rule: or_fail_cases)
        case (1 err)
        from refreshTokenFlow_run[OF 1(1)] exchange.lapsed[OF tok lapse, of V _ _ res m url p c] 1(2)
        show ?thesis by (fastforce simp: tr1 tr2)
      next
        case (2 u tr3)
        from refreshTokenFlow_run[OF 2(1)] obtain new where tr3: "tr3 = new @ tr2" and new: "renewal V True new" by auto
        from 2(2) show ?thesis
        proof (cases rule: or_fail_cases)
          case (1 err)
          from getAccessToken_run[OF 1(1)] exchange.unreadable[OF tok lapse new, of res m url p _ c] 1(2)
          show ?thesis by (fastforce simp: tr1 tr2 tr3)
        next
          case (2 tok' tr4)
          from getAccessToken_run[OF 2(1)] obtain cfg where tr4: "tr4 = ReadConfig (Inr (Some cfg)) # tr3"
            and cfg: "cli_AccessToken cfg = tok'" "tok' \<noteq> ''''" by auto
          from doJSONRequest_run[OF 2(2)] show ?thesis
          proof (elim disjE exE conjE)
            assume "tr' = tr4" "\<forall>resp. res \<noteq> Inr resp"
            then show ?thesis using exchange.unreadable[OF tok lapse new, of res m url p "Inr (Some cfg)" c]
              by (auto simp: tr1 tr2 tr3 tr4)
          next
            fix r assume "tr' = Send m url tok' p r # tr4" "\<forall>resp. res = Inr resp \<longrightarrow> r = Inr resp"
            then show ?thesis using exchange.repeated[OF tok lapse new cfg, of res r m url p c] by (auto simp: tr1 tr2 tr3 tr4)
          qed
        qed
      qed
    qed
  qed
qed

text \<open>Consequences for the counts of requests and for the file.\<close>

definition renews :: "cli_event list \<Rightarrow> CLIConfig \<Rightarrow> bool" where
  "renews tr cfg \<longleftrightarrow> cli_AccessToken cfg \<noteq> '''' \<and> cli_RefreshToken cfg \<noteq> '''' \<and>
     (\<exists>old. ReadConfig (Inr (Some old)) \<in> set tr \<and> cli_ServerURL cfg = cli_ServerURL old \<and> cli_Username cfg = cli_Username old)"

fun sends :: "cli_event \<Rightarrow> bool" where
  "sends (Send m u tok p r) \<longleftrightarrow> True"
| "sends _ \<longleftrightarrow> False"

lemma refreshes_not_carries_token: "refreshes e \<Longrightarrow> \<not> carries_token m url p e"
  by (cases e) simp_all

lemma refreshes_sends: "refreshes e \<Longrightarrow> sends e"
  by (cases e) simp_all

lemma renews_mono: "renews tr cfg \<Longrightarrow> set tr \<subseteq> set tr' \<Longrightarrow> renews tr' cfg"
  unfolding renews_def by blast

lemma renewal_requests:
  "renewal V ok new \<Longrightarrow> length (filter refreshes new) \<le> 1 \<and> filter (carries_token m url p) new = [] \<and>
     (\<forall>e\<in>set new. sends e \<longrightarrow> refreshes e)"
  by (induction rule: renewal.induct) (simp_all add: refreshes_not_carries_token)

lemma renewal_writes:
  "renewal V ok new \<Longrightarrow> (\<forall>cfg w. WriteConfig cfg w \<in> set new \<longrightarrow> renews new cfg) \<and>
     (ok \<longrightarrow> (\<exists>cfg. WriteConfig cfg (Inr ()) \<in> set new))"
proof (induction rule: renewal.induct)
  case (renewed e access refresh w cfg d)
  have e: "e \<noteq> WriteConfig c x" for c x using renewed(1) by auto
  show ?case using renewed e by (auto simp: renews_def)
qed auto

lemma exchange_requests:
  assumes "exchange V m url p res new"
  shows "length (filter (carries_token m url p) new) \<le> 2 \<and> length (filter refreshes new) \<le> 1 \<and>
    (\<forall>e\<in>set new. sends e \<longrightarrow> carries_token m url p e \<or> refreshes e) \<and>
    (length (filter (carries_token m url p) new) = 2 \<longrightarrow> (\<exists>cfg. WriteConfig cfg (Inr ()) \<in> set new))"
  using assms
proof (induction rule: exchange.induct)
  case (lapsed tok first ok new res c)
  then show ?case using renewal_requests[OF lapsed(3), of m url p] by auto
next
  case (unreadable tok first new res c' c)
  then show ?case using renewal_requests[OF unreadable(3), of m url p] by auto
next
  case (repeated tok first new cfg tok' res r c)
  then show ?case using renewal_requests[OF repeated(3), of m url p] renewal_writes[OF repeated(3)] by auto
qed simp_all

lemma renews_around: "renews new cfg \<Longrightarrow> renews (xs @ new @ ys) cfg"
  by (rule renews_mono) auto

lemma exchange_writes:
  assumes "exchange V m url p res new" and "WriteConfig cfg w \<in> set new"
  shows "renews new cfg"
  using assms
proof (induction rule: exchange.induct)
  case (lapsed tok first ok mid res c)
  then show ?case using renewal_writes[OF lapsed(3)] renews_around[of mid cfg "[]"] by auto
next
  case (unreadable tok first mid res c' c)
  then show ?case using renewal_writes[OF unreadable(3)] renews_around[of mid cfg "[ReadConfig c']"] by auto
next
  case (repeated tok first mid old tok' res r c)
  then show ?case
    using renewal_writes[OF repeated(3)] renews_around[of mid cfg "[Send m url tok' p r, ReadConfig (Inr (Some old))]"] by auto
qed simp_all

subsection \<open>The configuration as a file\<close>

text \<open>What a file holds after a trace: the last configuration that was stored.\<close>

fun config_stored :: "CLIConfig option \<Rightarrow> cli_event list \<Rightarrow> CLIConfig option" where
  "config_stored init [] = init"
| "config_stored init (WriteConfig cfg (Inr u) # tr) = Some cfg"
| "config_stored init (_ # tr) = config_stored init tr"

definition config_file :: "cenv \<Rightarrow> CLIConfig option \<Rightarrow> bool" where
  "config_file V init \<longleftrightarrow> (\<forall>tr. cv_ReadConfig V tr = Inr (config_stored init tr))"

lemma saveConfig_stored:
  "run_state (saveConfig V cfg) tr = (Inr u, tr') \<Longrightarrow> config_stored init tr' = Some cfg"
  by (auto simp: saveConfig_def split: sum.splits)

lemma loadConfig_file:
  "config_file V init \<Longrightarrow> run_state (loadConfig V) tr =
     (Inr (case config_stored init tr of None \<Rightarrow> no_config | Some cfg \<Rightarrow> cfg), ReadConfig (Inr (config_stored init tr)) # tr)"
  by (simp add: loadConfig_def config_file_def split: option.splits)

lemma TrimRightSlash_idem: "TrimRightSlash (TrimRightSlash s) = TrimRightSlash s"
  by (simp add: TrimRightSlash_def dropWhile_idem)

subsection \<open>The target of an override\<close>

text \<open>The scope that the server reads from the request: fields that are left out are empty.\<close>

definition requestedScope :: "overrideCreateRequest \<Rightarrow> PolicyScope" where
  "requestedScope r =
     \<lparr>scope_TargetRefs = map (\<lambda>t. \<lparr>tref_Cluster = '''', tref_APIVersion = '''', tref_Namespace = otr_Namespace t,
        tref_Name = otr_Name t, tref_Kind = otr_Kind t, tref_UID = otr_UID t\<rparr>) (ocr_TargetRefs r),
      scope_Namespaces = ocr_Namespaces r, scope_NamespaceGroups = [], scope_NamespaceLabels = [], scope_WorkloadNames = [],
      scope_WorkloadLabels = []\<rparr>"

text \<open>What the flags of the command name.\<close>

definition names_target :: "string \<Rightarrow> string \<Rightarrow> string \<Rightarrow> WorkloadRef \<Rightarrow> bool" where
  "names_target target kind uid w \<longleftrightarrow>
     (case splitTarget target of
        (ns, None) \<Rightarrow> ref_Namespace w = ns
      | (ns, Some name) \<Rightarrow> ref_Namespace w = ns \<and> ref_Name w = name \<and> ref_Kind w = kind \<and> (uid = '''' \<or> ref_UID w = uid))"

lemma splitTarget_name: "CHR ''/'' \<notin> set ns \<Longrightarrow> splitTarget (ns @ CHR ''/'' # name) = (ns, Some name)"
proof -
  assume ns: "CHR ''/'' \<notin> set ns"
  have "takeWhile (\<lambda>c. c \<noteq> CHR ''/'') (ns @ CHR ''/'' # name) = ns"
    and "dropWhile (\<lambda>c. c \<noteq> CHR ''/'') (ns @ CHR ''/'' # name) = CHR ''/'' # name"
    using ns by (induction ns) auto
  then show ?thesis by (simp add: splitTarget_def)
qed

lemma overrideScope_selects:
  assumes "overrideScope target kind uid = Inr (namespaces, targetRefs)" and "ocr_Namespaces r = namespaces" and "ocr_TargetRefs r = targetRefs"
  shows "MatchesScope t (toDomainScope (requestedScope r)) \<longleftrightarrow> names_target target kind uid (tgt_Ref t)"
proof (cases "splitTarget target")
  case (Pair ns name)
  show ?thesis
  proof (cases name)
    case None
    then have "ocr_Namespaces r = [ns]" "ocr_TargetRefs r = []"
      using assms Pair by (auto simp: overrideScope_def split: if_splits)
    then show ?thesis
      by (auto simp: MatchesScope_admits scope_admits_def requestedScope_def toDomainScope_def toDomainTargetReferences_def
          names_target_def Pair None admits_any_def)
  next
    case (Some n)
    then have "ocr_Namespaces r = []"
      "ocr_TargetRefs r = [\<lparr>otr_Namespace = ns, otr_Name = n, otr_Kind = kind, otr_UID = uid\<rparr>]"
      using assms Pair by (auto simp: overrideScope_def split: if_splits)
    then show ?thesis
      by (auto simp: MatchesScope_admits scope_admits_def requestedScope_def toDomainScope_def toDomainTargetReferences_def
          names_target_def Pair Some admits_any_def ref_admits_def)
  qed
qed

lemma getServerURL_run:
  assumes "run_state (getServerURL V apiURL) tr = (res, tr')"
  shows "\<exists>new. tr' = new @ tr \<and> (\<forall>e\<in>set new. reads e)"
proof (cases "apiURL = ''''")
  case True
  with assms show ?thesis
    by (auto simp: getServerURL_def or_fail_def loadConfig_def split: sum.splits option.splits if_splits
        intro!: exI[of _ "[ReadConfig _]"])
qed (use assms in \<open>auto simp: getServerURL_def\<close>)

lemma runOverrideCreate_run:
  assumes "run_state (runOverrideCreate V apiURL target kind uid state durationStr reason ref priority) tr = (res, tr')"
  shows "(\<exists>new. tr' = new @ tr \<and> (\<forall>e\<in>set new. reads e)) \<or>
    (\<exists>before serverURL namespaces refs dur payload resp after. tr' = after @ CliClock (cv_Now V (before @ tr)) # before @ tr \<and>
       (\<forall>e\<in>set before. reads e) \<and> overrideScope target kind uid = Inr (namespaces, refs) \<and> cv_ParseDuration V durationStr = Inr dur \<and>
       (state = ''on'' \<or> state = ''off'') \<and>
       payload = \<lparr>ocr_GenerateName = ''override-'', ocr_Namespace = '''', ocr_Namespaces = namespaces,
         ocr_TargetRefs = refs, ocr_State = state, ocr_Priority = priority,
         ocr_ExpiresAt = cv_FormatRFC3339 V (cv_Now V (before @ tr) + dur), ocr_Reason = reason, ocr_Reference = ref\<rparr> \<and>
       exchange V ''POST'' (serverURL @ ''/api/v1/overrides'') (Some (cv_OverrideJSON V payload)) resp after)"
  using assms unfolding runOverrideCreate_def
proof (cases rule: or_fail_cases)
  case (1 err)
  then show ?thesis using getServerURL_run by blast
next
  case (2 serverURL tr1)
  obtain start where start: "tr1 = start @ tr" "\<forall>e\<in>set start. reads e" using getServerURL_run[OF 2(1)] by blast
  show ?thesis
  proof (cases "\<exists>namespaces refs dur. overrideScope target kind uid = Inr (namespaces, refs) \<and> cv_ParseDuration V durationStr = Inr dur \<and>
      (state = ''on'' \<or> state = ''off'')")
    case False
    then have "tr' = tr1" using 2(2) by (auto split: sum.splits if_splits prod.splits)
    with start show ?thesis by blast
  next
    case True
    then obtain namespaces refs dur where args: "overrideScope target kind uid = Inr (namespaces, refs)"
      "cv_ParseDuration V durationStr = Inr dur" "state = ''on'' \<or> state = ''off''" by blast
    define payload where "payload = \<lparr>ocr_GenerateName = ''override-'', ocr_Namespace = '''', ocr_Namespaces = namespaces,
      ocr_TargetRefs = refs, ocr_State = state, ocr_Priority = priority,
      ocr_ExpiresAt = cv_FormatRFC3339 V (cv_Now V tr1 + dur), ocr_Reason = reason, ocr_Reference = ref\<rparr>"
    define m where "m = authenticatedRequestBytes V apiURL ''POST'' (serverURL @ ''/api/v1/overrides'') (Some (cv_OverrideJSON V payload))"
    obtain resp tr2 where run: "run_state m (CliClock (cv_Now V tr1) # tr1) = (resp, tr2)" by fastforce
    have "tr' = tr2" using 2(2) args run
      by (auto simp: or_fail_def m_def payload_def Let_def split: sum.splits prod.splits)
    with authenticatedRequestBytes_exchange[OF run[unfolded m_def]] show ?thesis
      using start args unfolding payload_def by (metis (no_types, lifting))
  qed
qed

text \<open>A successful answer to a request without a token.\<close>

definition answered_with :: "cli_event list \<Rightarrow> string \<Rightarrow> string \<Rightarrow> bool" where
  "answered_with tr url body \<longleftrightarrow>
     (\<exists>p resp. Send ''POST'' url '''' p (Inr resp) \<in> set tr \<and> cr_StatusCode resp = 200 \<and> cr_Body resp = (body, None))"

lemma requireStatus_Inr: "requireStatus resp [200] = Inr body \<Longrightarrow> cr_StatusCode resp = 200 \<and> cr_Body resp = (body, None)"
  by (cases "cr_Body resp") (auto simp: requireStatus_def Let_def split: option.splits if_splits)

lemma saveConfig_extends:
  "run_state (saveConfig V cfg) tr = (r, tr') \<Longrightarrow> set tr \<subseteq> set tr'"
  by (auto simp: saveConfig_def split: sum.splits)

lemma runLogin_stored:
  assumes "run_state (runLogin V apiURL server username password typedUser typedPassword) tr = (Inr (user, url), tr')"
  shows "\<exists>tok refresh body. config_stored init tr' = Some \<lparr>cli_ServerURL = url, cli_AccessToken = tok, cli_RefreshToken = refresh,
      cli_Username = user\<rparr> \<and> tok \<noteq> '''' \<and> cv_DecodeTokens V body = Inr (tok, refresh) \<and> TrimRightSlash url = url \<and>
      answered_with tr' (url @ ''/api/v1/auth/login'') body"
proof -
  obtain x pw resp tr1 tr2 body tok refresh where url: "url = TrimRightSlash x"
    and req: "run_state (doJSONRequest V ''POST'' (url @ ''/api/v1/auth/login'') '''' (Some (cv_LoginJSON V user pw))) tr1 = (Inr resp, tr2)"
    and body: "requireStatus resp [200] = Inr body" and tok: "cv_DecodeTokens V body = Inr (tok, refresh)" "tok \<noteq> ''''"
    and save: "run_state (saveConfig V \<lparr>cli_ServerURL = url, cli_AccessToken = tok, cli_RefreshToken = refresh, cli_Username = user\<rparr>) tr2
      = (Inr (), tr')"
    using assms unfolding runLogin_def by (auto simp: Let_def dest!: or_fail_Inr split: sum.splits if_splits prod.splits)
  have "Send ''POST'' (url @ ''/api/v1/auth/login'') '''' (Some (cv_LoginJSON V user pw)) (Inr resp) \<in> set tr'"
    using doJSONRequest_run[OF req] saveConfig_extends[OF save] by auto
  then have "answered_with tr' (url @ ''/api/v1/auth/login'') body"
    using requireStatus_Inr[OF body] unfolding answered_with_def by blast
  with tok saveConfig_stored[OF save, of init] show ?thesis by (auto simp: url TrimRightSlash_idem)
qed

section \<open>Properties\<close>

text \<open>
  C38. An authenticated request of the client repeats itself at most once: whatever the server and the file system answer, it is sent at
  most twice, always with a token, next to at most one request for new tokens, and no other request is sent; it is sent twice only after new
  tokens were stored; and all that is ever stored is the configuration read before with two new tokens that are not empty.
\<close>

theorem requests_repeated_once:
  assumes "run_state (authenticatedRequestBytes V apiURL m url p) tr = (res, tr')"
  shows "\<exists>new. tr' = new @ tr \<and> length (filter (carries_token m url p) new) \<le> 2 \<and> length (filter refreshes new) \<le> 1 \<and>
    filter sends new = filter (\<lambda>e. carries_token m url p e \<or> refreshes e) new \<and>
    (length (filter (carries_token m url p) new) = 2 \<longrightarrow> (\<exists>cfg. WriteConfig cfg (Inr ()) \<in> set new)) \<and>
    (\<forall>cfg w. WriteConfig cfg w \<in> set new \<longrightarrow> renews new cfg)"
proof -
  obtain new where new: "tr' = new @ tr" "exchange V m url p res new"
    using authenticatedRequestBytes_exchange[OF assms] by blast
  have "sends e" if "carries_token m url p e" for e using that by (cases e) simp_all
  then have "filter sends new = filter (\<lambda>e. carries_token m url p e \<or> refreshes e) new"
    using exchange_requests[OF new(2)] refreshes_sends by (intro filter_cong) auto
  with exchange_requests[OF new(2)] exchange_writes[OF new(2)] new(1) show ?thesis by blast
qed

text \<open>A client whose access token has lapsed, and a server that takes its refresh token.\<close>

definition demo_config :: CLIConfig where
  "demo_config = \<lparr>cli_ServerURL = ''https://power'', cli_AccessToken = ''old'', cli_RefreshToken = ''r1'', cli_Username = ''ann''\<rparr>"

definition demo_cli :: cenv where
  "demo_cli = \<lparr>cv_ReadConfig = (\<lambda>tr. Inr (config_stored (Some demo_config) tr)), cv_MakeConfigDir = (\<lambda>_. Inr ()),
     cv_WriteConfig = (\<lambda>_ _. Inr ()), cv_NewRequest = (\<lambda>_ _. None),
     cv_Do = (\<lambda>_ _ _ tok _. Inr (if tok = '''' then \<lparr>cr_StatusCode = 200, cr_Status = ''200 OK'', cr_Body = (''tokens'', None)\<rparr>
       else if tok = ''new'' then \<lparr>cr_StatusCode = 201, cr_Status = ''201 Created'', cr_Body = (''name'', None)\<rparr>
       else \<lparr>cr_StatusCode = 401, cr_Status = ''401 Unauthorized'', cr_Body = ('''', None)\<rparr>)),
     cv_Now = (\<lambda>_. 1000 * Second), cv_RefreshJSON = id, cv_LoginJSON = (@), cv_DecodeTokens = (\<lambda>_. Inr (''new'', ''r2'')),
     cv_DecodeUser = (\<lambda>_. Inr (''u1'', ''ann'', ''admin'')), cv_OverrideJSON = ocr_Reason, cv_DecodeName = Inr,
     cv_ParseDuration = (\<lambda>_. Inr Hour), cv_FormatRFC3339 = go_itoa\<rparr>"

definition demo_exchange :: "cli_response result \<times> cli_event list" where
  "demo_exchange = run_state (authenticatedRequestBytes demo_cli '''' ''POST'' ''https://power/x'' (Some ''body'')) []"

theorem requests_repeated_once_witness:
  "length (filter (carries_token ''POST'' ''https://power/x'' (Some ''body'')) (snd demo_exchange)) = 2 \<and>
   length (filter refreshes (snd demo_exchange)) = 1 \<and> (\<exists>cfg. WriteConfig cfg (Inr ()) \<in> set (snd demo_exchange))"
proof -
  have "run_state (authenticatedRequestBytes demo_cli '''' ''POST'' ''https://power/x'' (Some ''body'')) [] =
      (fst demo_exchange, snd demo_exchange)"
    by (simp add: demo_exchange_def)
  moreover have "length (filter (carries_token ''POST'' ''https://power/x'' (Some ''body'')) (snd demo_exchange)) = 2"
    and "length (filter refreshes (snd demo_exchange)) = 1"
    by code_simp+
  ultimately show ?thesis using requests_repeated_once by fastforce
qed

text \<open>
  C39. Logging in opens a session and logging out closes it: on a configuration file that keeps what is written, after a successful login the
  client addresses the server it logged in to, without trailing slashes, with a token from the server's answer; and after a
  logout it sends nothing.
\<close>

theorem login_opens_session:
  assumes "config_file V init"
    and "run_state (runLogin V apiURL server username password typedUser typedPassword) tr = (Inr (user, url), tr')" and "url \<noteq> ''''"
    and "run_state (runLogout V) tr = (Inr (), tr'')"
  shows "fst (run_state (getServerURL V '''') tr') = Inr url \<and> TrimRightSlash url = url \<and>
    (\<exists>tok body refresh. fst (run_state (getAccessToken V) tr') = Inr tok \<and> tok \<noteq> '''' \<and> cv_DecodeTokens V body = Inr (tok, refresh) \<and>
       answered_with tr' (url @ ''/api/v1/auth/login'') body) \<and>
    (\<exists>err. run_state (authenticatedRequestBytes V apiURL m u p) tr'' = (Inl err, ReadConfig (Inr (Some no_config)) # tr''))"
proof -
  obtain tok refresh body where st: "config_stored init tr' = Some \<lparr>cli_ServerURL = url, cli_AccessToken = tok, cli_RefreshToken = refresh,
      cli_Username = user\<rparr>" "tok \<noteq> ''''" "cv_DecodeTokens V body = Inr (tok, refresh)" "TrimRightSlash url = url"
      "answered_with tr' (url @ ''/api/v1/auth/login'') body"
    using runLogin_stored[OF assms(2), of init] by blast
  have "config_stored init tr'' = Some no_config"
    using assms(4) unfolding runLogout_def by (auto dest!: or_fail_Inr saveConfig_stored[of _ _ _ _ _ init])
  with st show ?thesis
    using assms(3)
    by (auto simp: getServerURL_def getAccessToken_def authenticatedRequestBytes_def or_fail_def loadConfig_file[OF assms(1)] no_config_def)
qed

definition demo_login :: "(string \<times> string) result \<times> cli_event list" where
  "demo_login = run_state (runLogin demo_cli '''' ''https://power/'' ''ann'' ''pw'' '''' (Inr '''')) []"

theorem login_opens_session_witness:
  "fst demo_login = Inr (''ann'', ''https://power'') \<and>
   fst (run_state (getServerURL demo_cli '''') (snd demo_login)) = Inr ''https://power'' \<and>
   (\<exists>tok. fst (run_state (getAccessToken demo_cli) (snd demo_login)) = Inr tok \<and> tok \<noteq> '''')"
proof -
  have login: "fst demo_login = Inr (''ann'', ''https://power'')" by code_simp
  then have "run_state (runLogin demo_cli '''' ''https://power/'' ''ann'' ''pw'' '''' (Inr '''')) [] =
      (Inr (''ann'', ''https://power''), snd demo_login)"
    by (simp add: demo_login_def prod_eq_iff)
  moreover have "config_file demo_cli (Some demo_config)" by (simp add: config_file_def demo_cli_def)
  moreover have "run_state (runLogout demo_cli) [] = (Inr (), [WriteConfig no_config (Inr ()), MakeConfigDir (Inr ())])"
    by (simp add: runLogout_def or_fail_def saveConfig_def demo_cli_def)
  ultimately show ?thesis using login login_opens_session[of demo_cli "Some demo_config"] by blast
qed

text \<open>What the flags of the command ask for, at a clock reading of the run.\<close>

definition asked_for ::
  "cenv \<Rightarrow> cli_event list \<Rightarrow> string \<Rightarrow> string \<Rightarrow> string \<Rightarrow> string \<Rightarrow> string \<Rightarrow> string \<Rightarrow> int \<Rightarrow> overrideCreateRequest \<Rightarrow> bool" where
  "asked_for V new target kind uid state durationStr reason priority payload \<longleftrightarrow>
     ocr_State payload = state \<and> state \<in> {''on'', ''off''} \<and> ocr_Reason payload = reason \<and> ocr_Priority payload = priority \<and>
     (\<exists>now dur. CliClock now \<in> set new \<and> cv_ParseDuration V durationStr = Inr dur \<and>
        ocr_ExpiresAt payload = cv_FormatRFC3339 V (now + dur)) \<and>
     (\<forall>t. MatchesScope t (toDomainScope (requestedScope payload)) \<longleftrightarrow> names_target target kind uid (tgt_Ref t))"

text \<open>
  C40. The command that creates an override asks for exactly what its flags say: every request it sends with a token carries one
  override, for a state that is \<open>on\<close> or \<open>off\<close>, that expires after the given duration counted from a clock reading, and whose scope, as
  the controllers read it, matches a workload exactly if the flags name it (never the whole cluster).
\<close>

theorem override_command_exact:
  assumes "run_state (runOverrideCreate V apiURL target kind uid state durationStr reason ref priority) tr = (res, tr')"
  shows "\<exists>new. tr' = new @ tr \<and> (\<forall>m u tok body r. Send m u tok body r \<in> set new \<longrightarrow> tok = '''' \<or>
    (\<exists>payload. m = ''POST'' \<and> body = Some (cv_OverrideJSON V payload) \<and>
       asked_for V new target kind uid state durationStr reason priority payload))"
proof (cases "\<exists>new. tr' = new @ tr \<and> (\<forall>e\<in>set new. reads e)")
  case True
  then obtain new where "tr' = new @ tr" "\<forall>e\<in>set new. reads e" by blast
  then show ?thesis by (intro exI[of _ new]) auto
next
  case False
  then obtain start serverURL namespaces refs dur payload resp rest
    where tr': "tr' = rest @ CliClock (cv_Now V (start @ tr)) # start @ tr" and start: "\<forall>e\<in>set start. reads e"
    and scope: "overrideScope target kind uid = Inr (namespaces, refs)" and dur: "cv_ParseDuration V durationStr = Inr dur"
    and state: "state = ''on'' \<or> state = ''off''"
    and payload: "payload = \<lparr>ocr_GenerateName = ''override-'', ocr_Namespace = '''', ocr_Namespaces = namespaces,
         ocr_TargetRefs = refs, ocr_State = state, ocr_Priority = priority,
         ocr_ExpiresAt = cv_FormatRFC3339 V (cv_Now V (start @ tr) + dur), ocr_Reason = reason, ocr_Reference = ref\<rparr>"
    and ex: "exchange V ''POST'' (serverURL @ ''/api/v1/overrides'') (Some (cv_OverrideJSON V payload)) resp rest"
    using runOverrideCreate_run[OF assms] by (elim disjE exE conjE[where P = "tr' = _"]) blast+
  define new where "new = rest @ CliClock (cv_Now V (start @ tr)) # start"
  have "MatchesScope t (toDomainScope (requestedScope payload)) \<longleftrightarrow> names_target target kind uid (tgt_Ref t)" for t
    by (rule overrideScope_selects[OF scope]) (simp_all add: payload)
  moreover have "CliClock (cv_Now V (start @ tr)) \<in> set new" by (simp add: new_def)
  moreover have "ocr_ExpiresAt payload = cv_FormatRFC3339 V (cv_Now V (start @ tr) + dur)" by (simp add: payload)
  ultimately have asked: "asked_for V new target kind uid state durationStr reason priority payload"
    using dur state unfolding asked_for_def by (intro conjI) (auto simp: payload)
  have "m = ''POST'' \<and> body = Some (cv_OverrideJSON V payload)"
    if "Send m u tok body r \<in> set new" "tok \<noteq> ''''" for m u tok body r
    using that start conjunct1[OF conjunct2[OF conjunct2[OF exchange_requests[OF ex]]]] unfolding new_def by fastforce
  moreover have "tr' = new @ tr" by (simp add: tr' new_def)
  ultimately show ?thesis using asked by blast
qed

definition demo_override :: "string result \<times> cli_event list" where
  "demo_override = run_state (runOverrideCreate demo_cli '''' ''dev/web'' ''Deployment'' '''' ''on'' ''1h'' ''release'' '''' 100) []"

fun token_of :: "cli_event \<Rightarrow> string" where
  "token_of (Send m u tok b r) = tok"
| "token_of _ = ''''"

theorem override_command_exact_witness:
  "fst demo_override = Inr ''name'' \<and>
   (\<exists>u r payload. Send ''POST'' u ''new'' (Some (cv_OverrideJSON demo_cli payload)) r \<in> set (snd demo_override) \<and>
     asked_for demo_cli (snd demo_override) ''dev/web'' ''Deployment'' '''' ''on'' ''1h'' ''release'' 100 payload)"
proof -
  have name: "fst demo_override = Inr ''name''" by code_simp
  have "list_ex (\<lambda>e. token_of e = ''new'') (snd demo_override)" by code_simp
  then obtain e where e: "e \<in> set (snd demo_override)" "token_of e = ''new''" unfolding list_ex_iff by blast
  have "\<exists>m u b r. e = Send m u ''new'' b r" using e(2) by (cases e) simp_all
  then obtain m u b r where sent: "Send m u ''new'' b r \<in> set (snd demo_override)" using e(1) by blast
  have "run_state (runOverrideCreate demo_cli '''' ''dev/web'' ''Deployment'' '''' ''on'' ''1h'' ''release'' '''' 100) [] =
      (fst demo_override, snd demo_override)"
    by (simp add: demo_override_def)
  from override_command_exact[OF this] obtain new where "snd demo_override = new"
    "\<forall>m u tok body r. Send m u tok body r \<in> set new \<longrightarrow> tok = '''' \<or>
      (\<exists>payload. m = ''POST'' \<and> body = Some (cv_OverrideJSON demo_cli payload) \<and>
         asked_for demo_cli new ''dev/web'' ''Deployment'' '''' ''on'' ''1h'' ''release'' 100 payload)"
    by auto
  with sent name show ?thesis by blast
qed

end
