(* ===== verification/Retry.thy ===== *)
theory Retry
  imports Effects
begin

text \<open>
  Two things several components use from outside: \<open>errors.Join\<close> of the standard library, and
  \<open>retry.OnError\<close> of the Kubernetes client library.  The latter is not part of the program: the
  operations that call it take it as a parameter, and the locale \<open>retry_OnError\<close> states what its
  documentation promises.
\<close>

section \<open>Joined errors\<close>

text \<open>
  The texts on separate lines; \<open>errors.Is\<close> finds what any of the errors holds.  Nil errors are
  dropped, and without any error left the result is nil.
\<close>

definition errors_Join :: "go_error option list \<Rightarrow> go_error option" where
  "errors_Join errs =
     (let es = List.map_filter id errs in
      if es = [] then None
      else Some \<lparr>err_Text = concat (map (\<lambda>e. err_Text e @ [char_of (10::nat)]) (butlast es)) @ err_Text (last es),
                 err_NotFound = list_ex err_NotFound es, err_Conflict = list_ex err_Conflict es,
                 err_AlreadyExists = list_ex err_AlreadyExists es, err_SnapshotStale = list_ex err_SnapshotStale es,
                 err_Canceled = list_ex err_Canceled es, err_DeadlineExceeded = list_ex err_DeadlineExceeded es\<rparr>)"

lemma errors_Join_None_iff: "errors_Join errs = None \<longleftrightarrow> (\<forall>e\<in>set errs. e = None)"
  by (auto simp: errors_Join_def Let_def map_filter_def filter_empty_conv)

section \<open>Retrying\<close>

text \<open>
  \<open>retried p fn first n s r s'\<close>: from the state \<open>s\<close>, at most \<open>n\<close> attempts of \<open>fn\<close> end in \<open>s'\<close> with the
  result \<open>r\<close>.  An attempt is repeated exactly if it failed with an error that \<open>p\<close> calls retriable and
  attempts are left.  The flag handed to \<open>fn\<close> tells whether it is the first attempt.
\<close>

inductive retried ::
  "(go_error \<Rightarrow> ('s, bool) state) \<Rightarrow> (bool \<Rightarrow> ('s, go_error option) state) \<Rightarrow> bool \<Rightarrow> nat \<Rightarrow> 's \<Rightarrow> go_error option \<Rightarrow> 's \<Rightarrow> bool"
  for p fn where
  success: "run_state (fn first) s = (None, s') \<Longrightarrow> retried p fn first (Suc n) s None s'"
| final: "run_state (fn first) s = (Some e, s1) \<Longrightarrow> run_state (p e) s1 = (again, s') \<Longrightarrow> \<not> again \<or> n = 0 \<Longrightarrow>
     retried p fn first (Suc n) s (Some e) s'"
| repeat: "run_state (fn first) s = (Some e, s1) \<Longrightarrow> run_state (p e) s1 = (True, s2) \<Longrightarrow>
     retried p fn False n s2 r s' \<Longrightarrow> retried p fn first (Suc n) s r s'"

locale retry_OnError =
  fixes OnError :: "nat \<Rightarrow> (go_error \<Rightarrow> ('s, bool) state) \<Rightarrow> (bool \<Rightarrow> ('s, go_error option) state) \<Rightarrow> ('s, go_error option) state"
  assumes OnError_retried: "0 < steps \<Longrightarrow> run_state (OnError steps p fn) s = (r, s') \<Longrightarrow> retried p fn True steps s r s'"
begin

text \<open>A property that every attempt and every look at an error keep is kept.\<close>

lemma OnError_invariant:
  assumes "0 < steps" and "run_state (OnError steps p fn) s = (r, s')" and "I s"
    and "\<And>first s r s'. run_state (fn first) s = (r, s') \<Longrightarrow> I s \<Longrightarrow> I s'"
    and "\<And>e s b s'. run_state (p e) s = (b, s') \<Longrightarrow> I s \<Longrightarrow> I s'"
  shows "I s'"
  using OnError_retried[OF assms(1,2)] assms(3)
proof (induction rule: retried.induct)
  case (success first s s' n)
  then show ?case by (intro assms(4)[OF success.hyps])
next
  case (final first s e s1 again s' n)
  then show ?case by (intro assms(5)[OF final.hyps(2)] assms(4)[OF final.hyps(1)])
next
  case (repeat first s e s1 s2 n r s')
  then show ?case by (intro repeat.IH assms(5)[OF repeat.hyps(2)] assms(4)[OF repeat.hyps(1)])
qed

text \<open>Success means that the last attempt succeeded.\<close>

lemma OnError_success:
  assumes "0 < steps" and "run_state (OnError steps p fn) s = (None, s')"
  shows "\<exists>first s1. run_state (fn first) s1 = (None, s')"
proof -
  have "\<exists>first s1. run_state (fn first) s1 = (None, s')" if "retried p fn first n s r s'" and "r = None" for first n s r s'
    using that
  proof (induction rule: retried.induct)
    case (success first s s' n)
    then show ?case by (intro exI)
  qed simp_all
  then show ?thesis using OnError_retried[OF assms] by simp
qed

end

text \<open>The contract can be met: the function that makes the attempts one after the other.\<close>

primrec attempts :: "nat \<Rightarrow> (go_error \<Rightarrow> ('s, bool) state) \<Rightarrow> (bool \<Rightarrow> ('s, go_error option) state) \<Rightarrow> bool \<Rightarrow> ('s, go_error option) state" where
  "attempts 0 p fn first = return None"
| "attempts (Suc n) p fn first = do {
     r \<leftarrow> fn first;
     case r of
       None \<Rightarrow> return None
     | Some e \<Rightarrow> do {
         again \<leftarrow> p e;
         if again \<and> n \<noteq> 0 then attempts n p fn False else return (Some e)
       }
   }"

lemma attempts_retried:
  assumes "0 < n" and "run_state (attempts n p fn first) s = (r, s')"
  shows "retried p fn first n s r s'"
  using assms
proof (induction n arbitrary: first s)
  case (Suc n)
  obtain r1 s1 where f: "run_state (fn first) s = (r1, s1)" by (rule prod.exhaust)
  show ?case
  proof (cases r1)
    case None
    from f None have f': "run_state (fn first) s = (None, s1)" by simp
    have "r = None \<and> s' = s1" using Suc.prems(2) f' by simp
    with retried.success[where fn = fn and first = first, OF f'] show ?thesis by simp
  next
    case (Some e)
    from f Some have f': "run_state (fn first) s = (Some e, s1)" by simp
    obtain again s2 where p: "run_state (p e) s1 = (again, s2)" by (rule prod.exhaust)
    show ?thesis
    proof (cases "again \<and> n \<noteq> 0")
      case True
      then have p': "run_state (p e) s1 = (True, s2)" using p by simp
      have "run_state (attempts n p fn False) s2 = (r, s')" using Suc.prems(2) f' p' True by simp
      with True have "retried p fn False n s2 r s'" by (intro Suc.IH) simp_all
      then show ?thesis by (rule retried.repeat[where p = p and fn = fn and first = first, OF f' p'])
    next
      case False
      have "r = Some e \<and> s' = s2" using Suc.prems(2) f' p False by auto
      with retried.final[where p = p and fn = fn and first = first, OF f' p] False show ?thesis by auto
    qed
  qed
qed simp

interpretation client_go: retry_OnError "\<lambda>steps p fn. attempts steps p fn True"
  by unfold_locales (rule attempts_retried)

end
