(* ===== verification/TraceInvariants.thy ===== *)
theory TraceInvariants
  imports Retry
begin

text \<open>
  Invariants of traces.  Many properties of the controllers say that every call of a certain kind was
  justified by what happened before it (a deletion by a record kept elsewhere, a delivery by a stored
  attempt).  The locale \<open>justification\<close> collects what such an invariant needs: the justification of a
  call survives when the trace grows.
\<close>

section \<open>Splitting rules\<close>

named_theorems hoare_splits "rules for the branches of a program"

lemma hoare_if [hoare_splits]: "(b \<Longrightarrow> hoare P m Q) \<Longrightarrow> (\<not> b \<Longrightarrow> hoare P m' Q) \<Longrightarrow> hoare P (if b then m else m') Q"
  by simp

lemma hoare_sum [hoare_splits]:
  "(\<And>e. x = Inl e \<Longrightarrow> hoare P (f e) Q) \<Longrightarrow> (\<And>v. x = Inr v \<Longrightarrow> hoare P (g v) Q) \<Longrightarrow> hoare P (case_sum f g x) Q"
  by (cases x) auto

lemma hoare_option [hoare_splits]:
  "(x = None \<Longrightarrow> hoare P m Q) \<Longrightarrow> (\<And>v. x = Some v \<Longrightarrow> hoare P (f v) Q) \<Longrightarrow> hoare P (case_option m f x) Q"
  by (cases x) auto

lemma hoare_prod [hoare_splits]: "(\<And>a b. x = (a, b) \<Longrightarrow> hoare P (f a b) Q) \<Longrightarrow> hoare P (case_prod f x) Q"
  by (cases x) auto

lemma hoare_Let [hoare_splits]: "hoare P (f x) Q \<Longrightarrow> hoare P (let y = x in f y) Q"
  by simp

lemma hoare_pre: "hoare P' m Q \<Longrightarrow> (\<And>s. P s \<Longrightarrow> P' s) \<Longrightarrow> hoare P m Q"
  by (rule hoare_weaken)

lemma hoare_False: "(\<And>s. \<not> P s) \<Longrightarrow> hoare P m Q"
  by (simp add: hoare_def)

lemma hoare_assume: "(b \<Longrightarrow> hoare P m Q) \<Longrightarrow> hoare (\<lambda>s. P s \<and> b) m Q"
  by (auto simp: hoare_def)

section \<open>Justified calls\<close>

text \<open>
  \<open>justified relevant G base tr\<close>: the trace grew from \<open>base\<close> to \<open>tr\<close>, and \<open>G\<close> held of every relevant
  call that was added and of the trace at that moment.
\<close>

definition justified :: "('e \<Rightarrow> bool) \<Rightarrow> ('e \<Rightarrow> 'e list \<Rightarrow> bool) \<Rightarrow> 'e list \<Rightarrow> 'e list \<Rightarrow> bool" where
  "justified relevant G base tr \<longleftrightarrow>
     (\<exists>new. tr = new @ base \<and> (\<forall>post e pre. new = post @ e # pre \<longrightarrow> relevant e \<longrightarrow> G e (pre @ base)))"

abbreviation keeps :: "('s \<Rightarrow> bool) \<Rightarrow> ('s, 'a) state \<Rightarrow> bool" where
  "keeps I m \<equiv> hoare I m (\<lambda>_. I)"

lemma keeps_bind: "keeps I m \<Longrightarrow> (\<And>x. keeps I (f x)) \<Longrightarrow> keeps I (State_Monad.bind m f)"
  by (rule hoare_bind)

lemma keeps_return [simp]: "keeps I (return x)"
  by (simp add: hoare_def)

lemma justified_refl [simp]: "justified relevant G base base"
  by (simp add: justified_def)

lemma justified_trans:
  assumes "justified relevant G base tr" and "justified relevant G tr tr'"
  shows "justified relevant G base tr'"
proof -
  obtain n1 where n1: "tr = n1 @ base" "\<forall>post e pre. n1 = post @ e # pre \<longrightarrow> relevant e \<longrightarrow> G e (pre @ base)"
    using assms(1) by (auto simp: justified_def)
  obtain n2 where n2: "tr' = n2 @ tr" "\<forall>post e pre. n2 = post @ e # pre \<longrightarrow> relevant e \<longrightarrow> G e (pre @ tr)"
    using assms(2) by (auto simp: justified_def)
  have "G e (pre @ base)" if "n2 @ n1 = post @ e # pre" "relevant e" for post e pre
  proof -
    from that(1) consider us where "n2 = post @ e # us" "pre = us @ n1" | us where "n1 = us @ e # pre"
      by (auto simp: append_eq_append_conv2 append_eq_Cons_conv Cons_eq_append_conv)
    then show ?thesis using n1 n2(2) that(2) by cases auto
  qed
  then show ?thesis unfolding justified_def using n1(1) n2(1) by (intro exI[of _ "n2 @ n1"]) simp
qed

lemma justified_mono:
  assumes "justified relevant G base tr" and "\<And>e. relevant' e \<Longrightarrow> relevant e" and "\<And>e tr. relevant' e \<Longrightarrow> G e tr \<Longrightarrow> H e tr"
  shows "justified relevant' H base tr"
proof -
  obtain new where "tr = new @ base" and "\<forall>post e pre. new = post @ e # pre \<longrightarrow> relevant e \<longrightarrow> G e (pre @ base)"
    using assms(1) by (auto simp: justified_def)
  moreover from this(2) have "\<forall>post e pre. new = post @ e # pre \<longrightarrow> relevant' e \<longrightarrow> H e (pre @ base)"
    using assms(2,3) by blast
  ultimately show ?thesis unfolding justified_def by blast
qed

lemma justified_Cons: "justified relevant G base tr \<Longrightarrow> (relevant e \<Longrightarrow> G e tr) \<Longrightarrow> justified relevant G base (e # tr)"
  unfolding justified_def by (elim exE) (rule_tac x = "e # new" in exI, auto simp: Cons_eq_append_conv)

lemma justifiedD: "justified relevant G [] (post @ e # pre) \<Longrightarrow> relevant e \<Longrightarrow> G e pre"
  by (auto simp: justified_def)

locale justification =
  fixes relevant :: "'e \<Rightarrow> bool" and G :: "'e \<Rightarrow> 'e list \<Rightarrow> bool"
  assumes G_mono: "G e tr \<Longrightarrow> set tr \<subseteq> set tr' \<Longrightarrow> G e tr'"
begin

text \<open>A program whose calls of this kind are justified where it starts.\<close>

lemma justified_emits:
  assumes "emits A m" and "\<And>e tr. A e \<Longrightarrow> relevant e \<Longrightarrow> P tr \<Longrightarrow> G e tr"
  shows "hoare (\<lambda>tr. justified relevant G base tr \<and> P tr) m (\<lambda>_. justified relevant G base)"
proof (rule hoareI)
  fix tr a tr' assume P: "justified relevant G base tr \<and> P tr" and run: "run_state m tr = (a, tr')"
  obtain new where new: "tr' = new @ tr" "\<forall>e\<in>set new. A e" using assms(1) run by (rule emitsD)
  have "G e (pre @ tr)" if "new = post @ e # pre" and "relevant e" for post e pre
    using that new(2) P assms(2)[of e tr] G_mono[of e tr "pre @ tr"] by auto
  then have "justified relevant G tr tr'" unfolding justified_def using new(1) by blast
  with P show "justified relevant G base tr'" by (blast intro: justified_trans)
qed

lemma irrelevant_keeps: "emits (\<lambda>e. \<not> relevant e) m \<Longrightarrow> keeps (justified relevant G base) m"
  using justified_emits[of "\<lambda>e. \<not> relevant e" m "\<lambda>_. True"] by simp

end

text \<open>Facts about the trace that only grow survive every program.\<close>

lemma emits_hoare_mono:
  assumes "emits A m" and "\<And>tr tr'. P tr \<Longrightarrow> set tr \<subseteq> set tr' \<Longrightarrow> P tr'"
  shows "keeps P m"
proof (rule hoareI)
  fix tr a tr' assume P: "P tr" and run: "run_state m tr = (a, tr')"
  show "P tr'" by (rule assms(2)[OF P emits_grows[OF assms(1) run]])
qed

lemma hoare_conj: "hoare P m Q \<Longrightarrow> hoare P' m Q' \<Longrightarrow> hoare (\<lambda>s. P s \<and> P' s) m (\<lambda>a s. Q a s \<and> Q' a s)"
  by (fastforce simp: hoare_def split: prod.splits)

lemma emits_extends:
  assumes "emits A m" and "run_state m s = (r, s')" and "\<exists>new. s = new @ tr \<and> (\<forall>e\<in>set new. A e)"
  shows "\<exists>new. s' = new @ tr \<and> (\<forall>e\<in>set new. A e)"
proof -
  obtain new where "s = new @ tr" "\<forall>e\<in>set new. A e" using assms(3) by blast
  moreover obtain more where "s' = more @ s" "\<forall>e\<in>set more. A e" using assms(1,2) by (rule emitsD)
  ultimately show ?thesis by (intro exI[of _ "more @ new"]) auto
qed

text \<open>Retrying makes only the calls of the attempts and of the looks at their errors.\<close>

lemma retry_emits:
  assumes "retry_OnError OnError" and "0 < steps" and "\<And>first. emits A (fn first)" and "\<And>e. emits A (p e)"
  shows "emits A (OnError steps p fn)"
  unfolding emits_def
proof
  fix tr
  obtain r tr' where run: "run_state (OnError steps p fn) tr = (r, tr')" by (rule prod.exhaust)
  have "\<exists>new. tr' = new @ tr \<and> (\<forall>e\<in>set new. A e)"
  proof (rule retry_OnError.OnError_invariant[where I = "\<lambda>s. \<exists>new. s = new @ tr \<and> (\<forall>e\<in>set new. A e)", OF assms(1,2) run])
    fix first s r s' assume "run_state (fn first) s = (r, s')" and "\<exists>new. s = new @ tr \<and> (\<forall>e\<in>set new. A e)"
    then show "\<exists>new. s' = new @ tr \<and> (\<forall>e\<in>set new. A e)" by (rule emits_extends[OF assms(3)])
  next
    fix e s b s' assume "run_state (p e) s = (b, s')" and "\<exists>new. s = new @ tr \<and> (\<forall>e\<in>set new. A e)"
    then show "\<exists>new. s' = new @ tr \<and> (\<forall>e\<in>set new. A e)" by (rule emits_extends[OF assms(4)])
  qed simp
  then show "\<exists>new. snd (run_state (OnError steps p fn) tr) = new @ tr \<and> (\<forall>e\<in>set new. A e)"
    using run by simp
qed

text \<open>Retrying keeps what the attempts and the looks at their errors keep.\<close>

lemma retry_keeps:
  assumes "retry_OnError OnError" and "0 < steps" and "\<And>first. keeps I (fn first)" and "\<And>e. keeps I (p e)"
  shows "keeps I (OnError steps p fn)"
proof (rule hoareI)
  fix s r s' assume "I s" and run: "run_state (OnError steps p fn) s = (r, s')"
  then show "I s'"
    using retry_OnError.OnError_invariant[where I = I, OF assms(1,2) run] hoareD[OF assms(3)] hoareD[OF assms(4)] by metis
qed

end
