(* ===== verification/AuthStore.thy ===== *)
theory AuthStore
  imports TraceInvariants
begin

text \<open>
  The store of users and pending changes (\<open>src/internal/adapters/driven/auth/store.go\<close> and
  \<open>sqlite_store.go\<close>).  The two tables are a value of type \<open>database\<close>; every SQL statement of the source
  is a constructor of \<open>sql_write\<close> with its meaning in \<open>sql_exec\<close>, or one of the queries.  SQLite runs a
  statement atomically, but between two statements of one request other processes that share the
  file may run theirs: the environment may replace the database before every statement
  (\<open>av_Interfere\<close>).  The relation \<open>evolves\<close> says what such interference may do, and the theorems about
  the handlers show that they themselves keep to it.
\<close>

section \<open>Users and pending changes\<close>

type_synonym Role = string

definition RoleMember :: Role where "RoleMember = ''member''"
definition RoleApprover :: Role where "RoleApprover = ''approver''"
definition RoleAdmin :: Role where "RoleAdmin = ''admin''"

lemmas role_defs = RoleMember_def RoleApprover_def RoleAdmin_def

record User =
  user_ID :: string
  user_Username :: string
  user_PasswordHash :: string
  user_Role :: Role
  user_CreatedAt :: go_time

record PendingChange =
  chg_ID :: string
  chg_UserID :: string
  chg_Username :: string
  chg_Action :: string
  chg_ResourceKind :: string
  chg_ResourceNamespace :: string
  chg_ResourceName :: string
  chg_ResourceVersion :: string
  chg_Payload :: string
  chg_Status :: string
  chg_CreatedAt :: go_time
  chg_ReviewedBy :: string
  chg_ReviewedAt :: "go_time option"

text \<open>A row of \<open>pending_changes\<close>: unlike the struct, \<open>reviewed_by\<close> may be NULL.\<close>

record pending_row =
  row_Change :: PendingChange
  row_ReviewedBy :: "string option"

record database =
  db_Users :: "User list"
  db_Changes :: "pending_row list"

text \<open>\<open>Scan\<close>: the struct of a row; a NULL reviewer is the empty string.\<close>

definition scanChange :: "pending_row \<Rightarrow> PendingChange" where
  "scanChange r = (row_Change r)\<lparr>chg_ReviewedBy := (case row_ReviewedBy r of None \<Rightarrow> '''' | Some by \<Rightarrow> by)\<rparr>"

abbreviation row_ID :: "pending_row \<Rightarrow> string" where "row_ID r \<equiv> chg_ID (row_Change r)"
abbreviation row_Status :: "pending_row \<Rightarrow> string" where "row_Status r \<equiv> chg_Status (row_Change r)"
abbreviation row_UserID :: "pending_row \<Rightarrow> string" where "row_UserID r \<equiv> chg_UserID (row_Change r)"
abbreviation row_ReviewedAt :: "pending_row \<Rightarrow> go_time option" where "row_ReviewedAt r \<equiv> chg_ReviewedAt (row_Change r)"

section \<open>Statements\<close>

text \<open>
  The statements that write, with their bound arguments in the order of the source.
  \<open>BeginDecision interim reviewer now id leaseExpiredBefore\<close>,
  \<open>FinalizeDecision final now id interim reviewer\<close>.
\<close>

datatype sql_write =
    InsertUser User
  | SetUserRole Role string
  | RemoveUser string
  | InsertChange PendingChange
  | BeginDecision string string go_time string go_time
  | CancelDecision string string
  | FinalizeDecision string go_time string string string

text \<open>\<open>UPDATE \<dots> SET f WHERE P\<close>: the number of rows and the table.\<close>

definition sql_update :: "('a \<Rightarrow> bool) \<Rightarrow> ('a \<Rightarrow> 'a) \<Rightarrow> 'a list \<Rightarrow> nat \<times> 'a list" where
  "sql_update P f rows = (length (filter P rows), map (\<lambda>r. if P r then f r else r) rows)"

text \<open>
  \<open>earlier\<close> is how SQLite compares two time stamps in the form in which the driver stores them; a
  comparison with NULL is never true.
\<close>

definition leaseable :: "(go_time \<Rightarrow> go_time \<Rightarrow> bool) \<Rightarrow> string \<Rightarrow> string \<Rightarrow> go_time \<Rightarrow> pending_row \<Rightarrow> bool" where
  "leaseable earlier interim ident expired r \<longleftrightarrow>
     row_ID r = ident \<and>
     (row_Status r = ''pending'' \<or>
      (row_Status r = interim \<and> (case row_ReviewedAt r of None \<Rightarrow> False | Some t \<Rightarrow> earlier t expired)))"

definition leased :: "string \<Rightarrow> string \<Rightarrow> go_time \<Rightarrow> pending_row \<Rightarrow> pending_row" where
  "leased interim reviewer now r =
     r\<lparr>row_Change := (row_Change r)\<lparr>chg_Status := interim, chg_ReviewedAt := Some now\<rparr>,
       row_ReviewedBy := (if row_Status r = ''pending'' then Some reviewer else row_ReviewedBy r)\<rparr>"

definition cancellable :: "string \<Rightarrow> string \<Rightarrow> pending_row \<Rightarrow> bool" where
  "cancellable ident reviewer r \<longleftrightarrow>
     row_ID r = ident \<and> row_Status r \<in> {''approving'', ''rejecting''} \<and> row_ReviewedBy r = Some reviewer"

definition cancelled :: "pending_row \<Rightarrow> pending_row" where
  "cancelled r = r\<lparr>row_Change := (row_Change r)\<lparr>chg_Status := ''pending'', chg_ReviewedAt := None\<rparr>, row_ReviewedBy := None\<rparr>"

definition finalizable :: "string \<Rightarrow> string \<Rightarrow> string \<Rightarrow> pending_row \<Rightarrow> bool" where
  "finalizable ident interim reviewer r \<longleftrightarrow>
     row_ID r = ident \<and> row_Status r = interim \<and> row_ReviewedBy r = Some reviewer"

definition finalized :: "string \<Rightarrow> go_time \<Rightarrow> pending_row \<Rightarrow> pending_row" where
  "finalized final now r = r\<lparr>row_Change := (row_Change r)\<lparr>chg_Status := final, chg_ReviewedAt := Some now\<rparr>\<rparr>"

text \<open>
  The result is \<open>None\<close> when a constraint of the schema refuses the row: \<open>id\<close> is the primary key of
  both tables and \<open>username\<close> is unique.  (SQLite does not enforce the foreign key: that needs a PRAGMA
  the program does not set.)
\<close>

fun sql_exec :: "(go_time \<Rightarrow> go_time \<Rightarrow> bool) \<Rightarrow> sql_write \<Rightarrow> database \<Rightarrow> nat option \<times> database" where
  "sql_exec earlier (InsertUser u) db =
     (if list_ex (\<lambda>v. user_ID v = user_ID u \<or> user_Username v = user_Username u) (db_Users db) then (None, db)
      else (Some 1, db\<lparr>db_Users := db_Users db @ [u]\<rparr>))"
| "sql_exec earlier (SetUserRole role ident) db =
     (let (n, us) = sql_update (\<lambda>u. user_ID u = ident) (\<lambda>u. u\<lparr>user_Role := role\<rparr>) (db_Users db) in
      (Some n, db\<lparr>db_Users := us\<rparr>))"
| "sql_exec earlier (RemoveUser ident) db =
     (Some (length (filter (\<lambda>u. user_ID u = ident) (db_Users db))),
      db\<lparr>db_Users := filter (\<lambda>u. user_ID u \<noteq> ident) (db_Users db)\<rparr>)"
| "sql_exec earlier (InsertChange c) db =
     (if list_ex (\<lambda>r. row_ID r = chg_ID c) (db_Changes db) then (None, db)
      else (Some 1, db\<lparr>db_Changes := db_Changes db @
        [\<lparr>row_Change = c\<lparr>chg_ReviewedBy := '''', chg_ReviewedAt := None\<rparr>, row_ReviewedBy = None\<rparr>]\<rparr>))"
| "sql_exec earlier (BeginDecision interim reviewer now ident expired) db =
     (let (n, rs) = sql_update (leaseable earlier interim ident expired) (leased interim reviewer now) (db_Changes db) in
      (Some n, db\<lparr>db_Changes := rs\<rparr>))"
| "sql_exec earlier (CancelDecision ident reviewer) db =
     (let (n, rs) = sql_update (cancellable ident reviewer) cancelled (db_Changes db) in
      (Some n, db\<lparr>db_Changes := rs\<rparr>))"
| "sql_exec earlier (FinalizeDecision final now ident interim reviewer) db =
     (let (n, rs) = sql_update (finalizable ident interim reviewer) (finalized final now) (db_Changes db) in
      (Some n, db\<lparr>db_Changes := rs\<rparr>))"

section \<open>Calls of the API server\<close>

text \<open>
  The objects an approved change may concern (\<open>client.Object\<close> of the two kinds), and the claims of a
  token, which the events below mention.
\<close>

datatype managed = PolicyObject PowerPolicy | OverrideObject PowerOverride

datatype managed_kind = PolicyKind | OverrideKind

datatype user_key = ByUsername string | ByID string

text \<open>
  An event of the API server.  A statement records the database it found and, if it writes, the one it left.
\<close>

datatype (plugins only: code size) deed =
    Execute database sql_write "nat result" database
  | QueryUser database user_key "User option result"
  | QueryUsers database "User list result"
  | QueryChange database string "pending_row option result"
  | QueryOpen database "pending_row list result"
  | RandRead "nat list"
  | HashPasswordCall string "string result"
  | ServerClock go_time
  | GetManaged managed_kind NamespacedName "managed result"
  | CreateManaged managed "managed result"
  | UpdateManaged managed "managed result"
  | DeleteManaged managed string "unit result"
  | CreateApproval PowerAuditEvent "PowerAuditEvent result"
  | GetApproval NamespacedName "PowerAuditEvent result"

type_synonym deeds = "deed list"
type_synonym 'a aio = "(deeds, 'a) state"

text \<open>
  The claims of a session token and the outcome of parsing one.  \<open>tok_HMAC\<close> tells whether the header of the
  token names a signing method of the HMAC family.
\<close>

record Claims =
  cl_UserID :: string
  cl_Username :: string
  cl_Role :: Role
  cl_ExpiresAt :: "go_time option"
  cl_IssuedAt :: "go_time option"
  cl_Issuer :: string

record Token =
  tok_Claims :: Claims
  tok_Valid :: bool

text \<open>
  The environment.  \<open>av_Fault\<close> makes a statement fail; the flag tells whether it took effect all the same (the
  process may learn of an error after the commit).  The JSON decoders, \<open>bcrypt\<close> and the JWT library are not part of the program.
\<close>

record aenv =
  av_Initial :: database
  av_Interfere :: "deeds \<Rightarrow> database \<Rightarrow> database"
  av_Fault :: "deeds \<Rightarrow> (go_error \<times> bool) option"
  av_Before :: "go_time \<Rightarrow> go_time \<Rightarrow> bool"
  av_Clock :: "deeds \<Rightarrow> go_time"
  av_RandRead :: "deeds \<Rightarrow> nat list"
  av_HashPassword :: "deeds \<Rightarrow> string \<Rightarrow> string result"
  av_ComparePassword :: "string \<Rightarrow> string \<Rightarrow> bool"
  av_SignedString :: "string \<Rightarrow> Claims \<Rightarrow> string result"
  av_ParseWithClaims :: "go_time \<Rightarrow> string \<Rightarrow> (bool \<Rightarrow> string result) \<Rightarrow> Token result"
  av_GetManaged :: "deeds \<Rightarrow> managed_kind \<Rightarrow> NamespacedName \<Rightarrow> managed result"
  av_CreateManaged :: "deeds \<Rightarrow> managed \<Rightarrow> managed result"
  av_UpdateManaged :: "deeds \<Rightarrow> managed \<Rightarrow> managed result"
  av_DeleteManaged :: "deeds \<Rightarrow> managed \<Rightarrow> string \<Rightarrow> unit result"
  av_CreateApproval :: "deeds \<Rightarrow> PowerAuditEvent \<Rightarrow> PowerAuditEvent result"
  av_GetApproval :: "deeds \<Rightarrow> NamespacedName \<Rightarrow> PowerAuditEvent result"
  av_DecodePolicy :: "string \<Rightarrow> PowerPolicy result"
  av_DecodeOverride :: "string \<Rightarrow> PowerOverride result"
  av_rnd :: rounding

text \<open>The database after a trace, and the one the next statement finds.\<close>

fun db_after :: "aenv \<Rightarrow> deeds \<Rightarrow> database" where
  "db_after A [] = av_Initial A"
| "db_after A (Execute db w r db' # tr) = db'"
| "db_after A (QueryUser db k r # tr) = db"
| "db_after A (QueryUsers db r # tr) = db"
| "db_after A (QueryChange db i r # tr) = db"
| "db_after A (QueryOpen db r # tr) = db"
| "db_after A (e # tr) = db_after A tr"

definition db_found :: "aenv \<Rightarrow> deeds \<Rightarrow> database" where
  "db_found A tr = av_Interfere A tr (db_after A tr)"

definition constraint_failed :: go_error where
  "constraint_failed = errors_New ''constraint failed''"

definition statement :: "aenv \<Rightarrow> sql_write \<Rightarrow> deeds \<Rightarrow> database \<times> nat result \<times> database" where
  "statement A w tr =
     (let db = db_found A tr; (n, db') = sql_exec (av_Before A) w db in
      case av_Fault A tr of
        Some (e, effective) \<Rightarrow> (db, Inl e, if effective then db' else db)
      | None \<Rightarrow> (db, (case n of None \<Rightarrow> Inl constraint_failed | Some k \<Rightarrow> Inr k), db'))"

definition db_Exec :: "aenv \<Rightarrow> sql_write \<Rightarrow> nat result aio" where
  "db_Exec A w = do {
     (_, r, _) \<leftarrow> call (statement A w) (\<lambda>(db, r, db'). Execute db w r db');
     return r
   }"

definition read_answer :: "aenv \<Rightarrow> (database \<Rightarrow> 'a) \<Rightarrow> deeds \<Rightarrow> database \<times> 'a result" where
  "read_answer A q tr =
     (let db = db_found A tr in (db, case av_Fault A tr of Some (e, _) \<Rightarrow> Inl e | None \<Rightarrow> Inr (q db)))"

definition db_Query :: "aenv \<Rightarrow> (database \<Rightarrow> 'a) \<Rightarrow> (database \<Rightarrow> 'a result \<Rightarrow> deed) \<Rightarrow> 'a result aio" where
  "db_Query A q ev = do {
     (_, r) \<leftarrow> call (read_answer A q) (\<lambda>(db, r). ev db r);
     return r
   }"

definition server_clock :: "aenv \<Rightarrow> go_time aio" where
  "server_clock A = call (av_Clock A) ServerClock"

section \<open>Operations of the store\<close>

definition ErrUserNotFound :: go_error where "ErrUserNotFound = errors_New ''user not found''"
definition ErrUserExists :: go_error where "ErrUserExists = errors_New ''username already exists''"
definition ErrPendingNotFound :: go_error where "ErrPendingNotFound = errors_New ''pending change not found''"
definition ErrInvalidPendingChange :: go_error where "ErrInvalidPendingChange = errors_New ''invalid pending change''"
definition ErrPendingDecisionConflict :: go_error where
  "ErrPendingDecisionConflict = errors_New ''pending change decision conflict''"

definition hex_EncodeToString :: "nat list \<Rightarrow> string" where
  "hex_EncodeToString bs = concat (map (\<lambda>b. [hex_digit (b div 16), hex_digit (b mod 16)]) bs)"

definition GenerateID :: "aenv \<Rightarrow> string aio" where
  "GenerateID A = do { b \<leftarrow> call (\<lambda>tr. take 16 (av_RandRead A tr)) RandRead; return (hex_EncodeToString b) }"

definition HashPassword :: "aenv \<Rightarrow> string \<Rightarrow> string result aio" where
  "HashPassword A password = call (\<lambda>tr. av_HashPassword A tr password) (HashPasswordCall password)"

definition CheckPassword :: "aenv \<Rightarrow> string \<Rightarrow> string \<Rightarrow> bool" where
  "CheckPassword A password hash = av_ComparePassword A hash password"

definition CreateUser :: "aenv \<Rightarrow> string \<Rightarrow> string \<Rightarrow> Role \<Rightarrow> User result aio" where
  "CreateUser A username password role = do {
     h \<leftarrow> HashPassword A password;
     case h of
       Inl e \<Rightarrow> return (Inl e)
     | Inr hash \<Rightarrow> do {
         ident \<leftarrow> GenerateID A;
         now \<leftarrow> server_clock A;
         let user = \<lparr>user_ID = ident, user_Username = username, user_PasswordHash = hash, user_Role = role, user_CreatedAt = now\<rparr>;
         r \<leftarrow> db_Exec A (InsertUser user);
         case r of Inl _ \<Rightarrow> return (Inl ErrUserExists) | Inr _ \<Rightarrow> return (Inr user)
       }
   }"

fun user_matches :: "user_key \<Rightarrow> User \<Rightarrow> bool" where
  "user_matches (ByUsername name) u \<longleftrightarrow> user_Username u = name"
| "user_matches (ByID ident) u \<longleftrightarrow> user_ID u = ident"

definition getUser :: "aenv \<Rightarrow> user_key \<Rightarrow> User result aio" where
  "getUser A k = do {
     r \<leftarrow> db_Query A (\<lambda>db. find (user_matches k) (db_Users db)) (\<lambda>db. QueryUser db k);
     case r of
       Inl e \<Rightarrow> return (Inl e)
     | Inr None \<Rightarrow> return (Inl ErrUserNotFound)
     | Inr (Some user) \<Rightarrow> return (Inr user)
   }"

definition GetUserByUsername :: "aenv \<Rightarrow> string \<Rightarrow> User result aio" where
  "GetUserByUsername A username = getUser A (ByUsername username)"

definition GetUserByID :: "aenv \<Rightarrow> string \<Rightarrow> User result aio" where
  "GetUserByID A ident = getUser A (ByID ident)"

text \<open>\<open>ORDER BY created_at\<close>; rows with the same time stamp stay in the order of the table.\<close>

definition by_created :: "aenv \<Rightarrow> ('a \<Rightarrow> go_time) \<Rightarrow> 'a \<Rightarrow> 'a \<Rightarrow> int" where
  "by_created A created a b =
     (if av_Before A (created a) (created b) then - 1 else if av_Before A (created b) (created a) then 1 else 0)"

text \<open>The password hash is not selected.\<close>

definition ListUsers :: "aenv \<Rightarrow> User list result aio" where
  "ListUsers A =
     db_Query A (\<lambda>db. map (\<lambda>u. u\<lparr>user_PasswordHash := ''''\<rparr>) (SortFunc (by_created A user_CreatedAt) (db_Users db))) QueryUsers"

definition UpdateUser :: "aenv \<Rightarrow> string \<Rightarrow> Role \<Rightarrow> go_error option aio" where
  "UpdateUser A ident role = do {
     r \<leftarrow> db_Exec A (SetUserRole role ident);
     return (case r of Inl e \<Rightarrow> Some e | Inr rows \<Rightarrow> if rows = 0 then Some ErrUserNotFound else None)
   }"

definition DeleteUser :: "aenv \<Rightarrow> string \<Rightarrow> go_error option aio" where
  "DeleteUser A ident = do {
     r \<leftarrow> db_Exec A (RemoveUser ident);
     return (case r of Inl e \<Rightarrow> Some e | Inr rows \<Rightarrow> if rows = 0 then Some ErrUserNotFound else None)
   }"

definition ValidatePassword :: "aenv \<Rightarrow> User \<Rightarrow> string \<Rightarrow> bool" where
  "ValidatePassword A user password = CheckPassword A password (user_PasswordHash user)"

definition CreatePendingChange :: "aenv \<Rightarrow> PendingChange \<Rightarrow> PendingChange result aio" where
  "CreatePendingChange A change = do {
     let change = (if chg_ResourceNamespace change = '''' then change\<lparr>chg_ResourceNamespace := ''aura-system''\<rparr> else change);
     ident \<leftarrow> GenerateID A;
     now \<leftarrow> server_clock A;
     let change = change\<lparr>chg_ID := ident, chg_Status := ''pending'', chg_CreatedAt := now\<rparr>;
     r \<leftarrow> db_Exec A (InsertChange change);
     case r of Inl e \<Rightarrow> return (Inl e) | Inr _ \<Rightarrow> return (Inr change)
   }"

definition openChanges :: "aenv \<Rightarrow> database \<Rightarrow> pending_row list" where
  "openChanges A db =
     SortFunc (\<lambda>a b. by_created A (\<lambda>r. chg_CreatedAt (row_Change r)) b a)
       (filter (\<lambda>r. row_Status r \<in> {''pending'', ''approving'', ''rejecting''}) (db_Changes db))"

definition ListPendingChanges :: "aenv \<Rightarrow> PendingChange list result aio" where
  "ListPendingChanges A = do {
     r \<leftarrow> db_Query A (openChanges A) QueryOpen;
     case r of Inl e \<Rightarrow> return (Inl e) | Inr rows \<Rightarrow> return (Inr (map scanChange rows))
   }"

definition GetPendingChange :: "aenv \<Rightarrow> string \<Rightarrow> PendingChange result aio" where
  "GetPendingChange A ident = do {
     r \<leftarrow> db_Query A (\<lambda>db. find (\<lambda>r. row_ID r = ident) (db_Changes db)) (\<lambda>db. QueryChange db ident);
     case r of
       Inl e \<Rightarrow> return (Inl e)
     | Inr None \<Rightarrow> return (Inl ErrPendingNotFound)
     | Inr (Some row) \<Rightarrow> return (Inr (scanChange row))
   }"

definition BeginPendingDecision :: "aenv \<Rightarrow> string \<Rightarrow> string \<Rightarrow> string \<Rightarrow> PendingChange result aio" where
  "BeginPendingDecision A ident reviewerID decision =
     (let interim = (if decision = ''approve'' then ''approving'' else decision @ ''ing'') in
      if decision \<noteq> ''approve'' \<and> decision \<noteq> ''reject'' then return (Inl ErrInvalidPendingChange)
      else do {
        now \<leftarrow> server_clock A;
        r \<leftarrow> db_Exec A (BeginDecision interim reviewerID now ident (now - 5 * Minute));
        case r of
          Inl e \<Rightarrow> return (Inl e)
        | Inr rows \<Rightarrow>
            if rows = 0 then do {
              g \<leftarrow> GetPendingChange A ident;
              case g of
                Inl getErr \<Rightarrow> return (Inl getErr)
              | Inr _ \<Rightarrow> return (Inl ErrPendingDecisionConflict)
            }
            else GetPendingChange A ident
      })"

definition CancelPendingDecision :: "aenv \<Rightarrow> string \<Rightarrow> string \<Rightarrow> go_error option aio" where
  "CancelPendingDecision A ident reviewerID = do {
     r \<leftarrow> db_Exec A (CancelDecision ident reviewerID);
     return (case r of Inl e \<Rightarrow> Some e | Inr rows \<Rightarrow> if rows = 0 then Some ErrPendingDecisionConflict else None)
   }"

definition FinalizePendingDecision :: "aenv \<Rightarrow> string \<Rightarrow> string \<Rightarrow> string \<Rightarrow> PendingChange result aio" where
  "FinalizePendingDecision A ident reviewerID decision =
     (if decision \<noteq> ''reject'' \<and> decision \<noteq> ''approve'' then return (Inl ErrInvalidPendingChange)
      else do {
        let (interim, final) = (if decision = ''reject'' then (''rejecting'', ''rejected'') else (''approving'', ''approved''));
        now \<leftarrow> server_clock A;
        r \<leftarrow> db_Exec A (FinalizeDecision final now ident interim reviewerID);
        case r of
          Inl e \<Rightarrow> return (Inl e)
        | Inr rows \<Rightarrow> if rows = 0 then return (Inl ErrPendingDecisionConflict) else GetPendingChange A ident
      })"

definition ApprovePendingChange :: "aenv \<Rightarrow> string \<Rightarrow> string \<Rightarrow> PendingChange result aio" where
  "ApprovePendingChange A ident reviewerID = do {
     r \<leftarrow> BeginPendingDecision A ident reviewerID ''approve'';
     case r of Inl e \<Rightarrow> return (Inl e) | Inr _ \<Rightarrow> FinalizePendingDecision A ident reviewerID ''approve''
   }"

definition RejectPendingChange :: "aenv \<Rightarrow> string \<Rightarrow> string \<Rightarrow> PendingChange result aio" where
  "RejectPendingChange A ident reviewerID = do {
     r \<leftarrow> BeginPendingDecision A ident reviewerID ''reject'';
     case r of Inl e \<Rightarrow> return (Inl e) | Inr _ \<Rightarrow> FinalizePendingDecision A ident reviewerID ''reject''
   }"

lemmas store_defs = GetUserByID_def GetUserByUsername_def getUser_def db_Query_def db_Exec_def server_clock_def

end
