(* ===== verification/ChangeLedger.thy ===== *)
theory ChangeLedger
  imports AuthStore
begin

text \<open>
  The rules every process that shares the database keeps.  \<open>admissible\<close> says which statements the API
  server issues in which databases, \<open>evolves\<close> is what a sequence of them can do, \<open>ledger\<close> is the invariant
  of the tables, and \<open>succeeds\<close> relates a row to what later becomes of it.  The locale \<open>shared_database\<close> is
  the interface between a server and the other processes: it assumes only that they keep the rules.
\<close>

section \<open>The rules\<close>

fun admissible :: "sql_write \<Rightarrow> database \<Rightarrow> bool" where
  "admissible (InsertChange c) db \<longleftrightarrow> chg_Status c = ''pending''"
| "admissible (BeginDecision interim reviewer now ident expired) db \<longleftrightarrow>
     interim = ''rejecting'' \<or>
     interim = ''approving'' \<and> (\<forall>r\<in>set (db_Changes db). row_ID r = ident \<longrightarrow> row_UserID r \<noteq> reviewer)"
| "admissible (FinalizeDecision final now ident interim reviewer) db \<longleftrightarrow>
     interim = ''approving'' \<and> final = ''approved'' \<or> interim = ''rejecting'' \<and> final = ''rejected''"
| "admissible w db \<longleftrightarrow> True"

inductive evolves :: "(go_time \<Rightarrow> go_time \<Rightarrow> bool) \<Rightarrow> database \<Rightarrow> database \<Rightarrow> bool" for before where
  refl [intro, simp]: "evolves before db db"
| step: "evolves before db db1 \<Longrightarrow> admissible w db1 \<Longrightarrow> evolves before db (snd (sql_exec before w db1))"

lemma evolves_trans: "evolves before db1 db2 \<Longrightarrow> evolves before db db1 \<Longrightarrow> evolves before db db2"
  by (induction rule: evolves.induct) (auto intro: evolves.step)

lemma evolves_exec: "evolves before db db1 \<Longrightarrow> admissible w db1 \<Longrightarrow> sql_exec before w db1 = (n, db2) \<Longrightarrow> evolves before db db2"
  using evolves.step by fastforce

section \<open>The invariant\<close>

definition ledger_row :: "pending_row \<Rightarrow> bool" where
  "ledger_row r \<longleftrightarrow>
     row_Status r \<in> {''pending'', ''approving'', ''rejecting'', ''approved'', ''rejected''} \<and>
     (row_Status r = ''pending'' \<longleftrightarrow> row_ReviewedBy r = None) \<and>
     (row_Status r = ''pending'' \<longleftrightarrow> row_ReviewedAt r = None) \<and>
     (row_Status r \<in> {''approving'', ''approved''} \<longrightarrow> row_ReviewedBy r \<noteq> Some (row_UserID r))"

definition ledger :: "database \<Rightarrow> bool" where
  "ledger db \<longleftrightarrow>
     distinct (map user_ID (db_Users db)) \<and> distinct (map user_Username (db_Users db)) \<and>
     distinct (map row_ID (db_Changes db)) \<and> (\<forall>r\<in>set (db_Changes db). ledger_row r)"

lemma sql_update_ids:
  assumes "\<And>r. key (f r) = key r"
  shows "map key (snd (sql_update P f rows)) = map key rows"
  using assms by (simp add: sql_update_def)

lemma sql_update_rows: "r \<in> set (snd (sql_update P f rows)) \<longleftrightarrow> (\<exists>r0\<in>set rows. r = (if P r0 then f r0 else r0))"
  by (auto simp: sql_update_def)

lemma row_ids [simp]:
  "row_ID (leased i rvw now r) = row_ID r" "row_ID (cancelled r) = row_ID r" "row_ID (finalized f now r) = row_ID r"
  by (simp_all add: leased_def cancelled_def finalized_def)

lemma leased_row:
  "ledger_row r \<Longrightarrow> leaseable before i ident expired r \<Longrightarrow> i = ''rejecting'' \<or> i = ''approving'' \<and> row_UserID r \<noteq> rvw \<Longrightarrow>
   ledger_row (leased i rvw now r)"
  by (elim disjE; cases "row_Status r = ''pending''"; auto simp: ledger_row_def leaseable_def leased_def)

lemma cancelled_row: "ledger_row (cancelled r)"
  by (simp add: ledger_row_def cancelled_def)

lemma finalized_row:
  "ledger_row r \<Longrightarrow> finalizable ident i rvw r \<Longrightarrow> i = ''approving'' \<and> f = ''approved'' \<or> i = ''rejecting'' \<and> f = ''rejected'' \<Longrightarrow>
   ledger_row (finalized f now r)"
  by (elim disjE; simp add: ledger_row_def finalizable_def finalized_def)

text \<open>What the statements on pending changes do to the table.\<close>

fun row_change :: "(go_time \<Rightarrow> go_time \<Rightarrow> bool) \<Rightarrow> sql_write \<Rightarrow> pending_row \<Rightarrow> pending_row" where
  "row_change before (BeginDecision i rvw now ident expired) r = (if leaseable before i ident expired r then leased i rvw now r else r)"
| "row_change before (CancelDecision ident rvw) r = (if cancellable ident rvw r then cancelled r else r)"
| "row_change before (FinalizeDecision f now ident i rvw) r = (if finalizable ident i rvw r then finalized f now r else r)"
| "row_change before w r = r"

lemma row_change_others [simp]:
  "map (row_change before (InsertUser u)) rs = rs" "map (row_change before (SetUserRole role i)) rs = rs"
  "map (row_change before (RemoveUser i)) rs = rs" "map (row_change before (InsertChange c)) rs = rs"
  by (simp_all add: map_idI)

lemma exec_changes:
  "\<exists>more. db_Changes (snd (sql_exec before w db)) = map (row_change before w) (db_Changes db) @ more \<and>
     (\<forall>r\<in>set more. \<exists>c. w = InsertChange c \<and> r = \<lparr>row_Change = c\<lparr>chg_ReviewedBy := '''', chg_ReviewedAt := None\<rparr>, row_ReviewedBy = None\<rparr> \<and>
        chg_ID c \<notin> set (map row_ID (db_Changes db))) \<and> length more \<le> 1"
proof (cases w)
  case (InsertChange c)
  show ?thesis
  proof (cases "list_ex (\<lambda>r. row_ID r = chg_ID c) (db_Changes db)")
    case True
    then show ?thesis using InsertChange by (intro exI[of _ "[]"]) simp
  next
    case False
    then show ?thesis using InsertChange
      by (intro exI[of _ "[\<lparr>row_Change = c\<lparr>chg_ReviewedBy := '''', chg_ReviewedAt := None\<rparr>, row_ReviewedBy = None\<rparr>]"]) (auto simp: list_ex_iff)
  qed
qed (auto simp: sql_update_def Let_def intro!: exI[of _ "[]"])

lemma row_change_id [simp]: "row_ID (row_change before w r) = row_ID r"
  by (cases w) simp_all

lemma ledger_row_change:
  assumes "ledger_row r" and "admissible w db" and "r \<in> set (db_Changes db)"
  shows "ledger_row (row_change before w r)"
proof (cases w)
  case (BeginDecision i rvw now ident expired)
  show ?thesis using assms BeginDecision leased_row[OF assms(1)] by (auto simp: leaseable_def)
next
  case (FinalizeDecision f now ident i rvw)
  show ?thesis using assms FinalizeDecision finalized_row[OF assms(1)] by auto
qed (use assms(1) in \<open>simp_all add: cancelled_row\<close>)

lemma exec_users:
  assumes "distinct (map user_ID (db_Users db)) \<and> distinct (map user_Username (db_Users db))"
  shows "distinct (map user_ID (db_Users (snd (sql_exec before w db)))) \<and>
    distinct (map user_Username (db_Users (snd (sql_exec before w db))))"
proof (cases w)
  case (SetUserRole role ident)
  have "map key (map (\<lambda>u. if user_ID u = ident then u\<lparr>user_Role := role\<rparr> else u) us) = map key us"
    if "\<And>u. key (u\<lparr>user_Role := role\<rparr>) = key u" for key :: "User \<Rightarrow> string" and us
    using that by simp
  then show ?thesis using assms SetUserRole by (simp add: sql_update_def del: map_map)
qed (use assms in \<open>auto simp: sql_update_def Let_def list_ex_iff distinct_map_filter\<close>)

lemma ledger_exec:
  assumes "ledger db" and "admissible w db"
  shows "ledger (snd (sql_exec before w db))"
proof -
  obtain more where more: "db_Changes (snd (sql_exec before w db)) = map (row_change before w) (db_Changes db) @ more"
    "\<forall>r\<in>set more. \<exists>c. w = InsertChange c \<and> r = \<lparr>row_Change = c\<lparr>chg_ReviewedBy := '''', chg_ReviewedAt := None\<rparr>, row_ReviewedBy = None\<rparr> \<and>
        chg_ID c \<notin> set (map row_ID (db_Changes db))" "length more \<le> 1"
    using exec_changes[of before w db] by blast
  have ids: "map row_ID (map (row_change before w) (db_Changes db)) = map row_ID (db_Changes db)" by simp
  have new: "row_ID r \<notin> set (map row_ID (db_Changes db)) \<and> ledger_row r" if "r \<in> set more" for r
    using more(2) that assms(2) by (auto simp: ledger_row_def)
  have "distinct (map row_ID (map (row_change before w) (db_Changes db) @ more))"
    unfolding map_append ids distinct_append
    using assms(1) new more(3) by (cases more) (auto simp: ledger_def)
  moreover have "\<forall>r\<in>set (map (row_change before w) (db_Changes db) @ more). ledger_row r"
    using new ledger_row_change[OF _ assms(2)] assms(1) by (auto simp: ledger_def)
  ultimately show ?thesis
    using assms(1) exec_users[of db before w] more(1) by (simp add: ledger_def)
qed

lemma ledger_evolves: "evolves before db db' \<Longrightarrow> ledger db \<Longrightarrow> ledger db'"
  by (induction rule: evolves.induct) (auto intro: ledger_exec)

section \<open>What becomes of a change\<close>

text \<open>The part of a change that its requester wrote and that nobody alters.\<close>

definition asked :: "PendingChange \<Rightarrow> PendingChange" where
  "asked c = c\<lparr>chg_Status := '''', chg_ReviewedBy := '''', chg_ReviewedAt := None\<rparr>"

definition decided :: "pending_row \<Rightarrow> bool" where
  "decided r \<longleftrightarrow> row_Status r \<in> {''approved'', ''rejected''}"

definition succeeds :: "pending_row \<Rightarrow> pending_row \<Rightarrow> bool" where
  "succeeds r r' \<longleftrightarrow> asked (row_Change r') = asked (row_Change r) \<and> (decided r \<longrightarrow> r' = r)"

lemma asked_updates [simp]:
  "asked (row_Change (leased i rvw now r)) = asked (row_Change r)" "asked (row_Change (cancelled r)) = asked (row_Change r)"
  "asked (row_Change (finalized f now r)) = asked (row_Change r)"
  by (simp_all add: asked_def leased_def cancelled_def finalized_def)

lemma undecided:
  "leaseable before i ident expired r \<Longrightarrow> i = ''approving'' \<or> i = ''rejecting'' \<Longrightarrow> \<not> decided r"
  "cancellable ident rvw r \<Longrightarrow> \<not> decided r"
  "finalizable ident i rvw r \<Longrightarrow> i = ''approving'' \<or> i = ''rejecting'' \<Longrightarrow> \<not> decided r"
  by (auto simp: decided_def leaseable_def cancellable_def finalizable_def)

lemma succeeds_change: "admissible w db \<Longrightarrow> succeeds r (row_change before w r)"
  by (cases w) (auto simp: succeeds_def dest: undecided)

lemma exec_succession:
  assumes "admissible w db" and "r \<in> set (db_Changes db)"
  shows "\<exists>r'\<in>set (db_Changes (snd (sql_exec before w db))). succeeds r r'"
proof -
  have "row_change before w r \<in> set (db_Changes (snd (sql_exec before w db)))"
    using exec_changes[of before w db] assms(2) by auto
  with succeeds_change[OF assms(1)] show ?thesis by blast
qed

lemma evolves_succession:
  "evolves before db db' \<Longrightarrow> r \<in> set (db_Changes db) \<Longrightarrow> \<exists>r'\<in>set (db_Changes db'). succeeds r r'"
proof (induction rule: evolves.induct)
  case refl
  then show ?case by (auto simp: succeeds_def)
next
  case (step db db1 w)
  then obtain r1 where "r1 \<in> set (db_Changes db1)" "succeeds r r1" by blast
  with exec_succession[OF step.hyps(2)] show ?case by (fastforce simp: succeeds_def)
qed

lemma asked_eqD:
  "asked c = asked c' \<Longrightarrow> chg_ID c = chg_ID c'" "asked c = asked c' \<Longrightarrow> chg_UserID c = chg_UserID c'"
  by (cases c; cases c'; simp add: asked_def)+

lemma asked_scan [simp]: "asked (scanChange r) = asked (row_Change r)"
  by (simp add: asked_def scanChange_def split: option.split)

text \<open>A request that is on record stays on record, and identifies its row.\<close>

definition on_record :: "PendingChange \<Rightarrow> database \<Rightarrow> bool" where
  "on_record c db \<longleftrightarrow> (\<exists>r\<in>set (db_Changes db). asked (row_Change r) = asked c)"

lemma on_record_evolves: "on_record c db \<Longrightarrow> evolves before db db' \<Longrightarrow> on_record c db'"
  unfolding on_record_def using evolves_succession by (fastforce simp: succeeds_def)

lemma distinct_mapD: "distinct (map f xs) \<Longrightarrow> x \<in> set xs \<Longrightarrow> y \<in> set xs \<Longrightarrow> f x = f y \<Longrightarrow> x = y"
  by (auto simp: distinct_map dest: inj_onD)

lemma on_record_unique:
  assumes "ledger db" and "on_record c db" and "r \<in> set (db_Changes db)" and "row_ID r = chg_ID c"
  shows "asked (row_Change r) = asked c"
proof -
  obtain r0 where r0: "r0 \<in> set (db_Changes db)" "asked (row_Change r0) = asked c" using assms(2) by (auto simp: on_record_def)
  moreover have "row_ID r0 = chg_ID c" using r0(2) by (rule asked_eqD)
  ultimately show ?thesis
    using assms distinct_mapD[of row_ID "db_Changes db" r r0] by (simp add: ledger_def)
qed

section \<open>Servers that share a database\<close>

locale shared_database =
  fixes A :: aenv
  assumes rely: "evolves (av_Before A) db (av_Interfere A tr db)"
begin

abbreviation evolved :: "database \<Rightarrow> deeds \<Rightarrow> bool" where
  "evolved db tr \<equiv> evolves (av_Before A) db (db_after A tr)"

lemma found_evolves: "evolves (av_Before A) (db_after A tr) (db_found A tr)"
  unfolding db_found_def by (rule rely)

lemma evolved_found: "evolved db tr \<Longrightarrow> evolves (av_Before A) db (db_found A tr)"
  by (rule evolves_trans[OF found_evolves])

lemma Exec_evolves:
  "hoare (\<lambda>tr. evolved db tr \<and> admissible w (db_found A tr)) (db_Exec A w) (\<lambda>_. evolved db)"
  unfolding db_Exec_def hoare_def
  by (auto simp: statement_def Let_def evolved_found dest: evolves_exec[OF evolved_found] split: prod.splits option.splits)

lemma Exec_keeps: "(\<And>db. admissible w db) \<Longrightarrow> keeps (evolved db) (db_Exec A w)"
  by (rule hoare_pre[OF Exec_evolves]) simp

lemma Query_evolves:
  assumes "\<And>db r tr. db_after A (ev db r # tr) = db"
  shows "hoare (evolved db) (db_Query A q ev) (\<lambda>r tr. evolved db tr \<and> (\<forall>x. r = Inr x \<longrightarrow> x = q (db_after A tr)))"
  unfolding db_Query_def hoare_def
  using assms by (auto simp: read_answer_def Let_def evolved_found split: prod.splits option.splits)

lemma Query_keeps: "(\<And>db r tr. db_after A (ev db r # tr) = db) \<Longrightarrow> keeps (evolved db) (db_Query A q ev)"
  by (rule hoare_weaken[OF Query_evolves]) auto

lemma call_keeps: "(\<And>r tr. db_after A (ev r # tr) = db_after A tr) \<Longrightarrow> keeps (evolved db) (call f ev)"
  by (rule hoare_call) simp

named_theorems ledger_intros "programs that keep the rules"

lemmas store_keeps [ledger_intros] = keeps_return keeps_bind hoare_splits

lemma basic_keeps [ledger_intros]:
  "keeps (evolved db) (server_clock A)" "keeps (evolved db) (GenerateID A)" "keeps (evolved db) (HashPassword A p)"
  "keeps (evolved db) (getUser A k)" "keeps (evolved db) (ListUsers A)" "keeps (evolved db) (ListPendingChanges A)"
  "keeps (evolved db) (GetPendingChange A i)"
  unfolding server_clock_def GenerateID_def HashPassword_def getUser_def ListUsers_def ListPendingChanges_def GetPendingChange_def
  by (intro store_keeps call_keeps Query_keeps; simp)+

lemma write_keeps [ledger_intros]:
  "keeps (evolved db) (CreateUser A n p role)" "keeps (evolved db) (UpdateUser A i role)" "keeps (evolved db) (DeleteUser A i)"
  "keeps (evolved db) (CreatePendingChange A c)" "keeps (evolved db) (CancelPendingDecision A i rvw)"
  "keeps (evolved db) (FinalizePendingDecision A i rvw d)" "keeps (evolved db) (BeginPendingDecision A i rvw ''reject'')"
  unfolding CreateUser_def UpdateUser_def DeleteUser_def CreatePendingChange_def CancelPendingDecision_def FinalizePendingDecision_def
    BeginPendingDecision_def Let_def
  by (intro store_keeps basic_keeps Exec_keeps; simp split: if_splits)+

end

end
