(* ===== verification/Sessions.thy ===== *)
theory Sessions
  imports AuthStore
begin

text \<open>
  Session tokens (\<open>src/internal/adapters/driven/auth/jwt.go\<close>), the middleware that checks them
  (\<open>src/internal/adapters/driving/api/auth_middleware.go\<close>), and the handlers that hand them out
  (\<open>auth_handlers.go\<close>).  The JWT library is a parameter (\<open>av_SignedString\<close>, \<open>av_ParseWithClaims\<close>), and so is the
  result of \<open>ShouldBindJSON\<close>; a theorem that needs a property of the library has it as a hypothesis.
\<close>

section \<open>Tokens\<close>

record JWTService =
  jwt_SecretKey :: string
  jwt_AccessTokenTTL :: go_duration
  jwt_RefreshTokenTTL :: go_duration

definition NewJWTService :: "aenv \<Rightarrow> JWTService \<Rightarrow> JWTService aio" where
  "NewJWTService A config = do {
     config \<leftarrow> (if jwt_SecretKey config = '''' then do {
                  a \<leftarrow> GenerateID A;
                  b \<leftarrow> GenerateID A;
                  return (config\<lparr>jwt_SecretKey := a @ b\<rparr>)
                } else return config);
     let config = (if jwt_AccessTokenTTL config = 0 then config\<lparr>jwt_AccessTokenTTL := Hour\<rparr> else config);
     let config = (if jwt_RefreshTokenTTL config = 0 then config\<lparr>jwt_RefreshTokenTTL := 7 * 24 * Hour\<rparr> else config);
     return config
   }"

record TokenPair =
  tp_AccessToken :: string
  tp_RefreshToken :: string
  tp_ExpiresAt :: int

definition tokenClaims :: "User \<Rightarrow> go_time \<Rightarrow> go_time \<Rightarrow> Claims" where
  "tokenClaims user now expiresAt =
     \<lparr>cl_UserID = user_ID user, cl_Username = user_Username user, cl_Role = user_Role user,
      cl_ExpiresAt = Some expiresAt, cl_IssuedAt = Some now, cl_Issuer = ''aura-power''\<rparr>"

definition GenerateTokens :: "aenv \<Rightarrow> JWTService \<Rightarrow> User \<Rightarrow> TokenPair result aio" where
  "GenerateTokens A s user = do {
     now \<leftarrow> server_clock A;
     let expiresAt = now + jwt_AccessTokenTTL s;
     case av_SignedString A (jwt_SecretKey s) (tokenClaims user now expiresAt) of
       Inl e \<Rightarrow> return (Inl e)
     | Inr accessStr \<Rightarrow>
         case av_SignedString A (jwt_SecretKey s) (tokenClaims user now (now + jwt_RefreshTokenTTL s)) of
           Inl e \<Rightarrow> return (Inl e)
         | Inr refreshStr \<Rightarrow>
             return (Inr \<lparr>tp_AccessToken = accessStr, tp_RefreshToken = refreshStr, tp_ExpiresAt = expiresAt div Second\<rparr>)
   }"

text \<open>The function that gives the parser the key: the argument tells whether the signing method is of the HMAC family.\<close>

definition keyFunc :: "JWTService \<Rightarrow> bool \<Rightarrow> string result" where
  "keyFunc s hmac = (if hmac then Inr (jwt_SecretKey s) else Inl (errors_New ''unexpected signing method''))"

definition ValidateToken :: "aenv \<Rightarrow> JWTService \<Rightarrow> string \<Rightarrow> Claims result aio" where
  "ValidateToken A s tokenStr = do {
     now \<leftarrow> server_clock A;
     case av_ParseWithClaims A now tokenStr (keyFunc s) of
       Inl e \<Rightarrow> return (Inl e)
     | Inr token \<Rightarrow> return (if tok_Valid token then Inr (tok_Claims token) else Inl (errors_New ''invalid token''))
   }"

section \<open>Requests and responses\<close>

text \<open>
  The parts of a request that the handlers read: the path, the headers \<open>Authorization\<close> and \<open>X-Forwarded-Proto\<close>
  (empty when absent), the cookies, whether the connection is encrypted, and the path parameter \<open>id\<close>.
\<close>

record http_request =
  rq_Path :: string
  rq_Authorization :: string
  rq_Cookies :: "(string \<times> string) list"
  rq_TLS :: bool
  rq_ForwardedProto :: string
  rq_Param :: string

text \<open>What the middleware stores in the context of the request; an unset key reads as the empty string.\<close>

record session =
  ses_UserID :: string
  ses_Username :: string
  ses_Role :: string

datatype body =
    ErrorBody string
  | DecisionErrorBody string string
  | TokensBody TokenPair
  | MessageBody string
  | AccountBody string string Role
  | AccountsBody "User list" nat
  | ChangeBody PendingChange
  | ChangesBody "PendingChange list" nat
  | FlagBody string

record cookie =
  ck_Name :: string
  ck_Value :: string
  ck_MaxAge :: int
  ck_Path :: string
  ck_Secure :: bool
  ck_HttpOnly :: bool
  ck_SameSiteLax :: bool

record response =
  rs_Status :: int
  rs_Cookies :: "cookie list"
  rs_Body :: body

definition reply :: "int \<Rightarrow> body \<Rightarrow> response" where
  "reply status b = \<lparr>rs_Status = status, rs_Cookies = [], rs_Body = b\<rparr>"

text \<open>\<open>strings.EqualFold(s, t)\<close> for an ASCII \<open>t\<close>: besides the case of letters, the long s and the Kelvin sign fold into ASCII.\<close>

definition fold_ascii :: "char \<Rightarrow> char" where
  "fold_ascii c = (let n = of_char c :: nat in if 65 \<le> n \<and> n \<le> 90 then char_of (n + 32) else c)"

fun fold_string :: "string \<Rightarrow> string" where
  "fold_string (a # b # d # s) =
     (if [a, b] = [char_of (197::nat), char_of (191::nat)] then CHR ''s'' # fold_string (d # s)
      else if [a, b, d] = [char_of (226::nat), char_of (132::nat), char_of (170::nat)] then CHR ''k'' # fold_string s
      else fold_ascii a # fold_string (b # d # s))"
| "fold_string [a, b] = (if [a, b] = [char_of (197::nat), char_of (191::nat)] then ''s'' else [fold_ascii a, fold_ascii b])"
| "fold_string [a] = [fold_ascii a]"
| "fold_string [] = []"

definition isSecureRequest :: "http_request \<Rightarrow> bool" where
  "isSecureRequest rq \<longleftrightarrow> rq_TLS rq \<or> fold_string (rq_ForwardedProto rq) = ''https''"

text \<open>\<open>strings.SplitN(h, " ", 2)\<close> has two parts when there is a space; the token is what follows the first one.\<close>

definition bearerToken :: "string \<Rightarrow> string" where
  "bearerToken h =
     (if h \<noteq> '''' \<and> CHR '' '' \<in> set h \<and> takeWhile (\<lambda>c. c \<noteq> CHR '' '') h = ''Bearer''
      then tl (dropWhile (\<lambda>c. c \<noteq> CHR '' '') h) else '''')"

definition sessionToken :: "http_request \<Rightarrow> string" where
  "sessionToken rq =
     (let token = bearerToken (rq_Authorization rq) in
      if token = '''' then (case map_of (rq_Cookies rq) ''aura_session'' of None \<Rightarrow> '''' | Some v \<Rightarrow> v) else token)"

text \<open>\<open>Inl\<close> is the response of an aborted request, \<open>Inr\<close> the context with which it goes on.\<close>

definition AuthMiddleware :: "aenv \<Rightarrow> JWTService \<Rightarrow> http_request \<Rightarrow> (response + session) aio" where
  "AuthMiddleware A s rq =
     (if \<not> HasPrefix (rq_Path rq) ''/api/'' then return (Inr \<lparr>ses_UserID = '''', ses_Username = '''', ses_Role = ''''\<rparr>)
      else
        let token = sessionToken rq in
        if token = '''' then return (Inl (reply 401 (ErrorBody ''missing authorization'')))
        else do {
          r \<leftarrow> ValidateToken A s token;
          case r of
            Inl _ \<Rightarrow> return (Inl (reply 401 (ErrorBody ''invalid or expired token'')))
          | Inr claims \<Rightarrow>
              return (Inr \<lparr>ses_UserID = cl_UserID claims, ses_Username = cl_Username claims, ses_Role = cl_Role claims\<rparr>)
        })"

definition RequireRole :: "Role list \<Rightarrow> session \<Rightarrow> response option" where
  "RequireRole roles ses =
     (if list_ex (\<lambda>r. ses_Role ses = r) roles then None else Some (reply 403 (ErrorBody ''insufficient permissions'')))"

section \<open>Login, refresh, logout\<close>

text \<open>\<open>int(d.Seconds())\<close>: a floating-point number of seconds, truncated.\<close>

definition wholeSeconds :: "rounding \<Rightarrow> go_duration \<Rightarrow> int" where
  "wholeSeconds rnd d =
     (let secs = fadd rnd (float_of_int rnd (go_div d Second)) (fdiv rnd (float_of_int rnd (go_mod d Second)) 1000000000) in
      if secs < 0 then - \<lfloor>- secs\<rfloor> else \<lfloor>secs\<rfloor>)"

definition sessionCookies :: "http_request \<Rightarrow> string \<Rightarrow> int \<Rightarrow> string \<Rightarrow> int \<Rightarrow> cookie list" where
  "sessionCookies rq access maxAge refresh refreshMaxAge =
     [\<lparr>ck_Name = ''aura_session'', ck_Value = access, ck_MaxAge = maxAge, ck_Path = ''/'',
       ck_Secure = isSecureRequest rq, ck_HttpOnly = True, ck_SameSiteLax = True\<rparr>,
      \<lparr>ck_Name = ''aura_refresh'', ck_Value = refresh, ck_MaxAge = refreshMaxAge, ck_Path = ''/api/v1/auth'',
       ck_Secure = isSecureRequest rq, ck_HttpOnly = True, ck_SameSiteLax = True\<rparr>]"

definition sendTokens :: "aenv \<Rightarrow> JWTService \<Rightarrow> http_request \<Rightarrow> User \<Rightarrow> response aio" where
  "sendTokens A s rq user = do {
     r \<leftarrow> GenerateTokens A s user;
     case r of
       Inl _ \<Rightarrow> return (reply 500 (ErrorBody ''failed to generate token''))
     | Inr tokens \<Rightarrow>
         return \<lparr>rs_Status = 200,
                 rs_Cookies = sessionCookies rq (tp_AccessToken tokens) (wholeSeconds (av_rnd A) (jwt_AccessTokenTTL s))
                   (tp_RefreshToken tokens) (wholeSeconds (av_rnd A) (jwt_RefreshTokenTTL s)),
                 rs_Body = TokensBody tokens\<rparr>
   }"

definition handleLogin :: "aenv \<Rightarrow> JWTService \<Rightarrow> http_request \<Rightarrow> (string \<times> string) result \<Rightarrow> response aio" where
  "handleLogin A s rq bound = (case bound of
       Inl _ \<Rightarrow> return (reply 400 (ErrorBody ''username and password required''))
     | Inr (username, password) \<Rightarrow> do {
         r \<leftarrow> GetUserByUsername A username;
         case r of
           Inl _ \<Rightarrow> return (reply 401 (ErrorBody ''invalid credentials''))
         | Inr user \<Rightarrow>
             if \<not> ValidatePassword A user password then return (reply 401 (ErrorBody ''invalid credentials''))
             else sendTokens A s rq user
       })"

definition refreshToken :: "http_request \<Rightarrow> string result \<Rightarrow> string option" where
  "refreshToken rq bound = (case bound of
       Inr t \<Rightarrow> if t \<noteq> '''' then Some t
                else (case map_of (rq_Cookies rq) ''aura_refresh'' of Some v \<Rightarrow> if v = '''' then None else Some v | None \<Rightarrow> None)
     | Inl _ \<Rightarrow> (case map_of (rq_Cookies rq) ''aura_refresh'' of Some v \<Rightarrow> if v = '''' then None else Some v | None \<Rightarrow> None))"

definition handleRefresh :: "aenv \<Rightarrow> JWTService \<Rightarrow> http_request \<Rightarrow> string result \<Rightarrow> response aio" where
  "handleRefresh A s rq bound = (case refreshToken rq bound of
       None \<Rightarrow> return (reply 400 (ErrorBody ''refreshToken required''))
     | Some token \<Rightarrow> do {
         r \<leftarrow> ValidateToken A s token;
         case r of
           Inl _ \<Rightarrow> return (reply 401 (ErrorBody ''invalid refresh token''))
         | Inr claims \<Rightarrow> do {
             u \<leftarrow> GetUserByID A (cl_UserID claims);
             case u of
               Inl _ \<Rightarrow> return (reply 401 (ErrorBody ''user not found''))
             | Inr user \<Rightarrow> sendTokens A s rq user
           }
       })"

definition handleLogout :: "http_request \<Rightarrow> response" where
  "handleLogout rq = \<lparr>rs_Status = 200, rs_Cookies = sessionCookies rq '''' (- 1) '''' (- 1), rs_Body = MessageBody ''logged out''\<rparr>"

section \<open>Accounts\<close>

definition handleMe :: "aenv \<Rightarrow> session \<Rightarrow> response aio" where
  "handleMe A ses = do {
     r \<leftarrow> GetUserByID A (ses_UserID ses);
     return (case r of
         Inl _ \<Rightarrow> reply 404 (ErrorBody ''user not found'')
       | Inr user \<Rightarrow> reply 200 (AccountBody (user_ID user) (user_Username user) (user_Role user)))
   }"

definition handleListUsers :: "aenv \<Rightarrow> response aio" where
  "handleListUsers A = do {
     r \<leftarrow> ListUsers A;
     return (case r of
         Inl e \<Rightarrow> reply 500 (ErrorBody (err_Text e))
       | Inr users \<Rightarrow> reply 200 (AccountsBody users (length users)))
   }"

definition validRole :: "Role \<Rightarrow> bool" where
  "validRole role \<longleftrightarrow> role = RoleMember \<or> role = RoleApprover \<or> role = RoleAdmin"

definition handleCreateUser :: "aenv \<Rightarrow> (string \<times> string \<times> Role) result \<Rightarrow> response aio" where
  "handleCreateUser A bound = (case bound of
       Inl e \<Rightarrow> return (reply 400 (ErrorBody (err_Text e)))
     | Inr (username, password, role) \<Rightarrow>
         if \<not> validRole role then return (reply 400 (ErrorBody ''role must be member, approver, or admin''))
         else do {
           r \<leftarrow> CreateUser A username password role;
           return (case r of
               Inl e \<Rightarrow> reply 409 (ErrorBody (err_Text e))
             | Inr user \<Rightarrow> reply 201 (AccountBody (user_ID user) (user_Username user) (user_Role user)))
         })"

definition handleUpdateUser :: "aenv \<Rightarrow> http_request \<Rightarrow> Role result \<Rightarrow> response aio" where
  "handleUpdateUser A rq bound = (case bound of
       Inl e \<Rightarrow> return (reply 400 (ErrorBody (err_Text e)))
     | Inr role \<Rightarrow>
         if \<not> validRole role then return (reply 400 (ErrorBody ''role must be member, approver, or admin''))
         else do {
           r \<leftarrow> UpdateUser A (rq_Param rq) role;
           return (case r of Some e \<Rightarrow> reply 404 (ErrorBody (err_Text e)) | None \<Rightarrow> reply 200 (FlagBody ''updated''))
         })"

definition handleDeleteUser :: "aenv \<Rightarrow> http_request \<Rightarrow> response aio" where
  "handleDeleteUser A rq = do {
     r \<leftarrow> DeleteUser A (rq_Param rq);
     return (case r of Some e \<Rightarrow> reply 404 (ErrorBody (err_Text e)) | None \<Rightarrow> reply 200 (FlagBody ''deleted''))
   }"

end
