(* ===== verification/Approval.thy ===== *)
theory Approval
  imports ChangeLedger Sessions
begin

text \<open>
  The approval workflow of the API server (\<open>src/internal/adapters/driving/api/auth_handlers.go\<close>): members ask
  for a change of a policy or an override, another user with the right role approves or rejects it, and an
  approved change is applied to the cluster.  The reads of the server come from informer caches, which
  replace the object they are given; their answers, like those of the writes, are those of the environment.
\<close>

section \<open>Requests\<close>

record AuthHandlers =
  ah_JWT :: JWTService
  ah_HasClient :: bool
  ah_ControlNamespace :: string

definition NewAuthHandlers :: "JWTService \<Rightarrow> bool \<Rightarrow> string list \<Rightarrow> AuthHandlers" where
  "NewAuthHandlers s c namespaces =
     \<lparr>ah_JWT = s, ah_HasClient = c,
      ah_ControlNamespace = (if namespaces \<noteq> [] \<and> hd namespaces \<noteq> '''' then hd namespaces else ''aura-system'')\<rparr>"

record pendingChangeRequest =
  pcr_Action :: string
  pcr_ResourceKind :: string
  pcr_ResourceNamespace :: string
  pcr_ResourceName :: string
  pcr_ResourceVersion :: string
  pcr_Payload :: string

definition invalidPendingChange :: "string \<Rightarrow> go_error" where
  "invalidPendingChange msg = wrap_error '''' ErrInvalidPendingChange ('': '' @ msg)"

definition validatePendingRequest :: "pendingChangeRequest \<Rightarrow> go_error option" where
  "validatePendingRequest req =
     (if pcr_Action req \<noteq> ''create'' \<and> pcr_Action req \<noteq> ''update'' \<and> pcr_Action req \<noteq> ''delete'' then
        Some (invalidPendingChange ''action must be create, update, or delete'')
      else if pcr_ResourceKind req \<noteq> ''PowerPolicy'' \<and> pcr_ResourceKind req \<noteq> ''PowerOverride'' then
        Some (invalidPendingChange ''resourceKind must be PowerPolicy or PowerOverride'')
      else if (pcr_Action req = ''update'' \<or> pcr_Action req = ''delete'') \<and> pcr_ResourceVersion req = '''' then
        Some (invalidPendingChange (''resourceVersion is required for '' @ pcr_Action req))
      else if pcr_Action req \<noteq> ''delete'' \<and> length (pcr_Payload req) = 0 then
        Some (invalidPendingChange (''payload is required for '' @ pcr_Action req))
      else None)"

definition requestedChange :: "session \<Rightarrow> pendingChangeRequest \<Rightarrow> PendingChange" where
  "requestedChange ses req =
     \<lparr>chg_ID = '''', chg_UserID = ses_UserID ses, chg_Username = ses_Username ses, chg_Action = pcr_Action req,
      chg_ResourceKind = pcr_ResourceKind req, chg_ResourceNamespace = pcr_ResourceNamespace req,
      chg_ResourceName = pcr_ResourceName req, chg_ResourceVersion = pcr_ResourceVersion req,
      chg_Payload = pcr_Payload req, chg_Status = '''', chg_CreatedAt = zero_time, chg_ReviewedBy = '''', chg_ReviewedAt = None\<rparr>"

definition handleCreatePending :: "aenv \<Rightarrow> AuthHandlers \<Rightarrow> session \<Rightarrow> pendingChangeRequest result \<Rightarrow> response aio" where
  "handleCreatePending A h ses bound = (case bound of
       Inl e \<Rightarrow> return (reply 400 (ErrorBody (''invalid pending change: '' @ err_Text e)))
     | Inr req \<Rightarrow>
         let req = (if pcr_ResourceNamespace req = '''' then req\<lparr>pcr_ResourceNamespace := ah_ControlNamespace h\<rparr> else req) in
         if pcr_ResourceNamespace req \<noteq> ah_ControlNamespace h then
           return (reply 422 (ErrorBody ''resource namespace must match the configured control namespace''))
         else (case validatePendingRequest req of
             Some e \<Rightarrow> return (reply 400 (ErrorBody (err_Text e)))
           | None \<Rightarrow> do {
               r \<leftarrow> CreatePendingChange A (requestedChange ses req);
               return (case r of
                   Inl _ \<Rightarrow> reply 500 (ErrorBody ''failed to persist pending change'')
                 | Inr change \<Rightarrow> reply 201 (ChangeBody change))
             }))"

definition handleListPending :: "aenv \<Rightarrow> AuthHandlers \<Rightarrow> response aio" where
  "handleListPending A h = do {
     r \<leftarrow> ListPendingChanges A;
     return (case r of
         Inl e \<Rightarrow> reply 500 (ErrorBody (err_Text e))
       | Inr changes \<Rightarrow>
           let filtered = filter (\<lambda>c. chg_ResourceNamespace c = ah_ControlNamespace h) changes in
           reply 200 (ChangesBody filtered (length filtered)))
   }"

definition handleGetPending :: "aenv \<Rightarrow> AuthHandlers \<Rightarrow> http_request \<Rightarrow> response aio" where
  "handleGetPending A h rq = do {
     r \<leftarrow> GetPendingChange A (rq_Param rq);
     return (case r of
         Inl e \<Rightarrow> reply 404 (ErrorBody (err_Text e))
       | Inr change \<Rightarrow>
           if chg_ResourceNamespace change \<noteq> ah_ControlNamespace h then reply 404 (ErrorBody ''pending change not found'')
           else reply 200 (ChangeBody change))
   }"

section \<open>Reviewers\<close>

definition requireCurrentReviewer :: "aenv \<Rightarrow> string \<Rightarrow> User result aio" where
  "requireCurrentReviewer A userID = do {
     r \<leftarrow> GetUserByID A userID;
     return (case r of
         Inl _ \<Rightarrow> Inl (errors_New ''reviewer account is no longer active'')
       | Inr user \<Rightarrow>
           if user_Role user \<noteq> RoleApprover \<and> user_Role user \<noteq> RoleAdmin
           then Inl (errors_New ''reviewer no longer has approval permission'')
           else Inr user)
   }"

definition decisionOwner :: "aenv \<Rightarrow> PendingChange \<Rightarrow> User \<Rightarrow> User aio" where
  "decisionOwner A change current =
     (if chg_ReviewedBy change = '''' \<or> chg_ReviewedBy change = user_ID current then return current
      else do {
        r \<leftarrow> GetUserByID A (chg_ReviewedBy change);
        return (case r of
            Inr owner \<Rightarrow> owner
          | Inl _ \<Rightarrow> \<lparr>user_ID = chg_ReviewedBy change, user_Username = chg_ReviewedBy change, user_PasswordHash = '''',
                      user_Role = '''', user_CreatedAt = zero_time\<rparr>)
      })"

section \<open>The audit record of a decision\<close>

definition createApproval :: "aenv \<Rightarrow> PowerAuditEvent \<Rightarrow> PowerAuditEvent result aio" where
  "createApproval A e = call (\<lambda>tr. av_CreateApproval A tr e) (CreateApproval e)"

definition getApproval :: "aenv \<Rightarrow> NamespacedName \<Rightarrow> PowerAuditEvent result aio" where
  "getApproval A k = call (\<lambda>tr. av_GetApproval A tr k) (GetApproval k)"

definition approvalAction :: "PendingChange \<Rightarrow> string" where
  "approvalAction change =
     go_get [(''PowerPolicy/create'', ''policy.created''), (''PowerPolicy/update'', ''policy.modified''),
             (''PowerPolicy/delete'', ''policy.deleted''), (''PowerOverride/create'', ''override.created''),
             (''PowerOverride/update'', ''override.modified''), (''PowerOverride/delete'', ''override.deleted'')]
       (chg_ResourceKind change @ ''/'' @ chg_Action change)"

definition approvalEvent :: "PendingChange \<Rightarrow> User \<Rightarrow> bool \<Rightarrow> go_time \<Rightarrow> PowerAuditEvent" where
  "approvalEvent change reviewer approved now =
     (let decision = (if approved then ''approved'' else ''rejected'');
          outcome = (if approved then ''success'' else ''blocked'');
          action = approvalAction change in
      \<lparr>pae_Meta = \<lparr>om_Name = ''approval-'' @ chg_ID change, om_GenerateName = '''', om_Namespace = chg_ResourceNamespace change,
          om_UID = '''', om_ResourceVersion = '''',
          om_Labels = [(''power.aura.sh/action'', action), (''power.aura.sh/approval-id'', chg_ID change)],
          om_Annotations = [], om_CreationTimestamp = zero_time, om_DeletionTimestamp = None\<rparr>,
       pae_Spec = \<lparr>aes_Timestamp = now, aes_Action = action, aes_Actor = user_Username reviewer,
          aes_Target = \<lparr>arr_Cluster = '''', arr_APIVersion = '''', arr_Namespace = chg_ResourceNamespace change,
            arr_Name = chg_ResourceName change, arr_Kind = chg_ResourceKind change, arr_UID = ''''\<rparr>,
          aes_Result = outcome, aes_Reason = ''approval request '' @ chg_ID change @ '' was '' @ decision,
          aes_RuleName = '''', aes_NotificationSuppressed = False, aes_NotificationSuppressionSource = '''',
          aes_NotificationSuppressionNamespaceUID = ''''\<rparr>\<rparr>)"

definition sameDecision :: "PowerAuditEventSpec \<Rightarrow> PowerAuditEventSpec \<Rightarrow> bool" where
  "sameDecision a b \<longleftrightarrow>
     aes_Action a = aes_Action b \<and> aes_Result a = aes_Result b \<and> aes_Target a = aes_Target b \<and> aes_Reason a = aes_Reason b"

definition recordApprovalDecision :: "aenv \<Rightarrow> PendingChange \<Rightarrow> User \<Rightarrow> bool \<Rightarrow> go_error option aio" where
  "recordApprovalDecision A change reviewer approved = do {
     now \<leftarrow> server_clock A;
     let ev = approvalEvent change reviewer approved now;
     r \<leftarrow> createApproval A ev;
     case r of
       Inr _ \<Rightarrow> return None
     | Inl err \<Rightarrow>
         if \<not> err_AlreadyExists err then return (Some (wrap_error ''record approval audit: '' err ''''))
         else do {
           g \<leftarrow> getApproval A \<lparr>nn_Namespace = om_Namespace (pae_Meta ev), nn_Name = om_Name (pae_Meta ev)\<rparr>;
           return (case g of
               Inl getErr \<Rightarrow> Some (wrap_error ''verify existing approval audit: '' getErr '''')
             | Inr existing \<Rightarrow>
                 if \<not> sameDecision (pae_Spec existing) (pae_Spec ev)
                 then Some (errors_New ''existing approval audit does not match the durable decision'')
                 else None)
         }
   }"

section \<open>Applying a change\<close>

text \<open>
  An error of \<open>applyPendingChange\<close>: its text, and whether \<open>errors.Is\<close> finds \<open>errPendingMutationNotApplied\<close>,
  \<open>errStalePendingChange\<close>, or an \<open>AlreadyExists\<close> in it.
\<close>

record apply_error =
  ap_Text :: string
  ap_NotApplied :: bool
  ap_Stale :: bool
  ap_AlreadyExists :: bool

definition notApplied :: "string \<Rightarrow> go_error \<Rightarrow> apply_error" where
  "notApplied msg e =
     \<lparr>ap_Text = ''approved mutation was not applied: '' @ msg @ err_Text e, ap_NotApplied = True, ap_Stale = False,
      ap_AlreadyExists = err_AlreadyExists e\<rparr>"

definition staleChange :: apply_error where
  "staleChange =
     \<lparr>ap_Text = ''approved mutation was not applied: resource changed since the approval request'', ap_NotApplied = True,
      ap_Stale = True, ap_AlreadyExists = False\<rparr>"

definition uncertain :: "string \<Rightarrow> go_error \<Rightarrow> apply_error" where
  "uncertain operation e =
     \<lparr>ap_Text = operation @ '' result is uncertain; retry the same approval: '' @ err_Text e, ap_NotApplied = False,
      ap_Stale = False, ap_AlreadyExists = err_AlreadyExists e\<rparr>"

definition getManaged :: "aenv \<Rightarrow> managed_kind \<Rightarrow> NamespacedName \<Rightarrow> managed result aio" where
  "getManaged A kind k = call (\<lambda>tr. av_GetManaged A tr kind k) (GetManaged kind k)"

definition createManaged :: "aenv \<Rightarrow> managed \<Rightarrow> managed result aio" where
  "createManaged A m = call (\<lambda>tr. av_CreateManaged A tr m) (CreateManaged m)"

definition updateManaged :: "aenv \<Rightarrow> managed \<Rightarrow> managed result aio" where
  "updateManaged A m = call (\<lambda>tr. av_UpdateManaged A tr m) (UpdateManaged m)"

definition deleteManaged :: "aenv \<Rightarrow> managed \<Rightarrow> string \<Rightarrow> unit result aio" where
  "deleteManaged A m version = call (\<lambda>tr. av_DeleteManaged A tr m version) (DeleteManaged m version)"

fun managed_Meta :: "managed \<Rightarrow> ObjectMeta" where
  "managed_Meta (PolicyObject p) = pp_Meta p"
| "managed_Meta (OverrideObject o') = po_Meta o'"

fun with_Meta :: "(ObjectMeta \<Rightarrow> ObjectMeta) \<Rightarrow> managed \<Rightarrow> managed" where
  "with_Meta f (PolicyObject p) = PolicyObject (p\<lparr>pp_Meta := f (pp_Meta p)\<rparr>)"
| "with_Meta f (OverrideObject o') = OverrideObject (o'\<lparr>po_Meta := f (po_Meta o')\<rparr>)"

fun clearPendingObjectStatus :: "managed \<Rightarrow> managed" where
  "clearPendingObjectStatus (PolicyObject p) =
     PolicyObject (p\<lparr>pp_Status := \<lparr>ppst_Conditions = [], ppst_AffectedTargets = 0, ppst_ActiveWindow = False, ppst_NextTransition = None\<rparr>\<rparr>)"
| "clearPendingObjectStatus (OverrideObject o') =
     OverrideObject (o'\<lparr>po_Status := \<lparr>post_Conditions = [], post_Phase = '''', post_AffectedTargets = 0, post_ExpiresIn = ''''\<rparr>\<rparr>)"

fun applyPendingObjectSpec :: "managed \<Rightarrow> managed \<Rightarrow> managed" where
  "applyPendingObjectSpec (PolicyObject live) (PolicyObject desired) = PolicyObject (live\<lparr>pp_Spec := pp_Spec desired\<rparr>)"
| "applyPendingObjectSpec (OverrideObject live) (OverrideObject desired) = OverrideObject (live\<lparr>po_Spec := po_Spec desired\<rparr>)"
| "applyPendingObjectSpec live desired = live"

definition scope_eq :: "PolicyScope \<Rightarrow> PolicyScope \<Rightarrow> bool" where
  "scope_eq a b \<longleftrightarrow>
     semantic_eq_map (scope_NamespaceLabels a) (scope_NamespaceLabels b) \<and>
     semantic_eq_map (scope_WorkloadLabels a) (scope_WorkloadLabels b) \<and>
     a\<lparr>scope_NamespaceLabels := [], scope_WorkloadLabels := []\<rparr> = b\<lparr>scope_NamespaceLabels := [], scope_WorkloadLabels := []\<rparr>"

fun pendingObjectEqual :: "managed \<Rightarrow> managed \<Rightarrow> bool" where
  "pendingObjectEqual (PolicyObject live) (PolicyObject desired) \<longleftrightarrow>
     scope_eq (pps_Scope (pp_Spec live)) (pps_Scope (pp_Spec desired)) \<and>
     (pp_Spec live)\<lparr>pps_Scope := pps_Scope (pp_Spec desired)\<rparr> = pp_Spec desired"
| "pendingObjectEqual (OverrideObject live) (OverrideObject desired) \<longleftrightarrow>
     scope_eq (pos_Scope (po_Spec live)) (pos_Scope (po_Spec desired)) \<and>
     (po_Spec live)\<lparr>pos_Scope := pos_Scope (po_Spec desired)\<rparr> = po_Spec desired"
| "pendingObjectEqual live desired \<longleftrightarrow> False"

definition decodePayload :: "aenv \<Rightarrow> managed_kind \<Rightarrow> string \<Rightarrow> managed result" where
  "decodePayload A kind payload = (case kind of
       PolicyKind \<Rightarrow> (case av_DecodePolicy A payload of Inl e \<Rightarrow> Inl e | Inr p \<Rightarrow> Inr (PolicyObject p))
     | OverrideKind \<Rightarrow> (case av_DecodeOverride A payload of Inl e \<Rightarrow> Inl e | Inr o' \<Rightarrow> Inr (OverrideObject o')))"

definition changeKey :: "PendingChange \<Rightarrow> NamespacedName" where
  "changeKey change = \<lparr>nn_Namespace = chg_ResourceNamespace change, nn_Name = chg_ResourceName change\<rparr>"

text \<open>The namespace of an object that names none is that of the change.\<close>

definition desiredObject :: "PendingChange \<Rightarrow> managed \<Rightarrow> managed" where
  "desiredObject change decoded =
     (if om_Namespace (managed_Meta decoded) = '''' then with_Meta (\<lambda>m. m\<lparr>om_Namespace := chg_ResourceNamespace change\<rparr>) decoded
      else decoded)"

definition applyDelete :: "aenv \<Rightarrow> PendingChange \<Rightarrow> managed_kind \<Rightarrow> managed result \<Rightarrow> apply_error option aio" where
  "applyDelete A change kind got = (case got of
       Inl err \<Rightarrow> return (if err_NotFound err then None else Some (notApplied ''read resource before delete: '' err))
     | Inr live \<Rightarrow>
         if om_ResourceVersion (managed_Meta live) \<noteq> chg_ResourceVersion change then return (Some staleChange)
         else do {
           r \<leftarrow> deleteManaged A live (chg_ResourceVersion change);
           case r of
             Inr _ \<Rightarrow> return None
           | Inl err \<Rightarrow> do {
               g \<leftarrow> getManaged A kind (changeKey change);
               return (case g of
                   Inl readErr \<Rightarrow> if err_NotFound readErr then None else Some (uncertain ''delete'' err)
                 | Inr fresh \<Rightarrow>
                     if om_ResourceVersion (managed_Meta fresh) = chg_ResourceVersion change
                     then Some (notApplied ''delete approved resource: '' err) else Some (uncertain ''delete'' err))
             }
         })"

definition applyCreate :: "aenv \<Rightarrow> PendingChange \<Rightarrow> managed_kind \<Rightarrow> managed \<Rightarrow> managed result \<Rightarrow> apply_error option aio" where
  "applyCreate A change kind desired got = (case got of
       Inl err \<Rightarrow>
         if \<not> err_NotFound err then return (Some (notApplied ''read resource before create: '' err))
         else do {
           let desired = clearPendingObjectStatus (with_Meta (\<lambda>m. m\<lparr>om_ResourceVersion := ''''\<rparr>) desired);
           r \<leftarrow> createManaged A desired;
           case r of
             Inr _ \<Rightarrow> return None
           | Inl createErr \<Rightarrow> do {
               g \<leftarrow> getManaged A kind (changeKey change);
               return (case g of
                   Inr fresh \<Rightarrow> if pendingObjectEqual fresh desired then None else Some (uncertain ''create'' createErr)
                 | Inl readErr \<Rightarrow>
                     if err_NotFound readErr then Some (notApplied ''create approved resource: '' createErr)
                     else Some (uncertain ''create'' createErr))
             }
         }
     | Inr live \<Rightarrow>
         if pendingObjectEqual live desired then return None
         else return (Some (notApplied '''' ((errors_New (chg_ResourceKind change @ ''s '' @ go_quote (chg_ResourceName change) @ '' already exists''))
                \<lparr>err_AlreadyExists := True\<rparr>))))"

definition applyUpdate :: "aenv \<Rightarrow> PendingChange \<Rightarrow> managed_kind \<Rightarrow> managed \<Rightarrow> managed result \<Rightarrow> apply_error option aio" where
  "applyUpdate A change kind desired got = (case got of
       Inl err \<Rightarrow> return (Some (notApplied ''read resource before update: '' err))
     | Inr live \<Rightarrow>
         if pendingObjectEqual live desired then return None
         else if om_ResourceVersion (managed_Meta live) \<noteq> chg_ResourceVersion change then return (Some staleChange)
         else do {
           r \<leftarrow> updateManaged A (applyPendingObjectSpec live desired);
           case r of
             Inr _ \<Rightarrow> return None
           | Inl err \<Rightarrow> do {
               g \<leftarrow> getManaged A kind (changeKey change);
               return (case g of
                   Inl _ \<Rightarrow> Some (uncertain ''update'' err)
                 | Inr fresh \<Rightarrow>
                     if pendingObjectEqual fresh desired then None
                     else if om_ResourceVersion (managed_Meta fresh) = chg_ResourceVersion change
                     then Some (notApplied ''update approved resource: '' err)
                     else Some (uncertain ''update'' err))
             }
         })"

definition applyPendingObject :: "aenv \<Rightarrow> PendingChange \<Rightarrow> managed_kind \<Rightarrow> apply_error option aio" where
  "applyPendingObject A change kind = do {
     got \<leftarrow> getManaged A kind (changeKey change);
     if chg_Action change = ''delete'' then applyDelete A change kind got
     else if chg_Action change = ''create'' \<or> chg_Action change = ''update'' then
       (case decodePayload A kind (chg_Payload change) of
          Inl err \<Rightarrow> return (Some (notApplied ''decode approved payload: '' err))
        | Inr decoded \<Rightarrow>
            let desired = desiredObject change decoded in
            if om_Name (managed_Meta desired) \<noteq> chg_ResourceName change
               \<or> om_Namespace (managed_Meta desired) \<noteq> chg_ResourceNamespace change
            then return (Some (notApplied '''' (errors_New ''payload identity does not match pending change'')))
            else if chg_Action change = ''create'' then applyCreate A change kind desired got
            else applyUpdate A change kind desired got)
     else return (Some (notApplied '''' (invalidPendingChange (''unsupported action '' @ go_quote (chg_Action change)))))
   }"

definition storedRequest :: "PendingChange \<Rightarrow> pendingChangeRequest" where
  "storedRequest change =
     \<lparr>pcr_Action = chg_Action change, pcr_ResourceKind = chg_ResourceKind change,
      pcr_ResourceNamespace = chg_ResourceNamespace change, pcr_ResourceName = chg_ResourceName change,
      pcr_ResourceVersion = chg_ResourceVersion change, pcr_Payload = chg_Payload change\<rparr>"

definition applyPendingChange :: "aenv \<Rightarrow> AuthHandlers \<Rightarrow> PendingChange \<Rightarrow> apply_error option aio" where
  "applyPendingChange A h change =
     (if \<not> ah_HasClient h then
        return (Some \<lparr>ap_Text = ''Kubernetes client is unavailable'', ap_NotApplied = False, ap_Stale = False, ap_AlreadyExists = False\<rparr>)
      else if chg_ResourceNamespace change \<noteq> ah_ControlNamespace h then
        return (Some (notApplied '''' (errors_New ''resource namespace is outside the configured control namespace'')))
      else case validatePendingRequest (storedRequest change) of
        Some err \<Rightarrow> return (Some (notApplied '''' err))
      | None \<Rightarrow>
          if chg_ResourceKind change = ''PowerPolicy'' then applyPendingObject A change PolicyKind
          else if chg_ResourceKind change = ''PowerOverride'' then applyPendingObject A change OverrideKind
          else return (Some \<lparr>ap_Text = ''invalid pending change: unsupported resource kind '' @ go_quote (chg_ResourceKind change),
                             ap_NotApplied = False, ap_Stale = False, ap_AlreadyExists = False\<rparr>))"

section \<open>Decisions\<close>

text \<open>
  The handlers hold a mutex; the theorems do not rely on it, because another process may run between any two
  statements anyway.
\<close>

definition handleApprove :: "aenv \<Rightarrow> AuthHandlers \<Rightarrow> session \<Rightarrow> http_request \<Rightarrow> response aio" where
  "handleApprove A h ses rq = do {
     let ident = rq_Param rq;
     let reviewerID = ses_UserID ses;
     rv \<leftarrow> requireCurrentReviewer A reviewerID;
     case rv of
       Inl err \<Rightarrow> return (reply 403 (ErrorBody (err_Text err)))
     | Inr reviewer \<Rightarrow> do {
         c \<leftarrow> GetPendingChange A ident;
         case c of
           Inl err \<Rightarrow> return (reply 404 (ErrorBody (err_Text err)))
         | Inr change \<Rightarrow>
             if chg_ResourceNamespace change \<noteq> ah_ControlNamespace h then return (reply 404 (ErrorBody ''pending change not found''))
             else if chg_UserID change = reviewerID then return (reply 403 (ErrorBody ''requesters cannot approve their own change''))
             else do {
               b \<leftarrow> BeginPendingDecision A ident reviewerID ''approve'';
               case b of
                 Inl _ \<Rightarrow> return (reply 409 (ErrorBody ''pending change already has another decision''))
               | Inr change \<Rightarrow> do {
                   owner \<leftarrow> decisionOwner A change reviewer;
                   applied \<leftarrow> applyPendingChange A h change;
                   case applied of
                     Some err \<Rightarrow> do {
                       _ \<leftarrow> (if ap_NotApplied err then CancelPendingDecision A ident (user_ID owner) else return None);
                       return (reply (if ap_Stale err \<or> ap_AlreadyExists err then 409 else 422) (DecisionErrorBody (ap_Text err) (chg_Status change)))
                     }
                   | None \<Rightarrow> do {
                       recorded \<leftarrow> recordApprovalDecision A change owner True;
                       case recorded of
                         Some err \<Rightarrow> return (reply 422 (DecisionErrorBody (err_Text err) (chg_Status change)))
                       | None \<Rightarrow> do {
                           f \<leftarrow> FinalizePendingDecision A ident (user_ID owner) ''approve'';
                           return (case f of
                               Inl _ \<Rightarrow> reply 500 (ErrorBody ''resource applied but approval could not be finalized; retry safely'')
                             | Inr change \<Rightarrow> reply 200 (ChangeBody change))
                         }
                     }
                 }
             }
       }
   }"

definition handleReject :: "aenv \<Rightarrow> AuthHandlers \<Rightarrow> session \<Rightarrow> http_request \<Rightarrow> response aio" where
  "handleReject A h ses rq = do {
     let ident = rq_Param rq;
     let reviewerID = ses_UserID ses;
     rv \<leftarrow> requireCurrentReviewer A reviewerID;
     case rv of
       Inl err \<Rightarrow> return (reply 403 (ErrorBody (err_Text err)))
     | Inr reviewer \<Rightarrow> do {
         c \<leftarrow> GetPendingChange A ident;
         case c of
           Inl err \<Rightarrow> return (reply 404 (ErrorBody (err_Text err)))
         | Inr change \<Rightarrow>
             if chg_ResourceNamespace change \<noteq> ah_ControlNamespace h then return (reply 404 (ErrorBody ''pending change not found''))
             else do {
               b \<leftarrow> BeginPendingDecision A ident reviewerID ''reject'';
               case b of
                 Inl _ \<Rightarrow> return (reply 409 (ErrorBody ''pending change already has another decision''))
               | Inr change \<Rightarrow> do {
                   owner \<leftarrow> decisionOwner A change reviewer;
                   recorded \<leftarrow> recordApprovalDecision A change owner False;
                   case recorded of
                     Some err \<Rightarrow> do {
                       _ \<leftarrow> CancelPendingDecision A ident (user_ID owner);
                       return (reply 422 (DecisionErrorBody (err_Text err) (chg_Status change)))
                     }
                   | None \<Rightarrow> do {
                       f \<leftarrow> FinalizePendingDecision A ident (user_ID owner) ''reject'';
                       return (case f of
                           Inl err \<Rightarrow> reply 404 (ErrorBody (err_Text err))
                         | Inr change \<Rightarrow> reply 200 (ChangeBody change))
                     }
                 }
             }
       }
   }"

section \<open>Routes\<close>

text \<open>
  The routes of \<open>RegisterRoutes\<close> and \<open>RegisterProtectedRoutes\<close>, each with the result of \<open>ShouldBindJSON\<close> where the handler
  binds a body, and the middleware in front of them.
\<close>

datatype route =
    PostLogin "(string \<times> string) result"
  | PostRefresh "string result"
  | PostLogout
  | GetMe
  | PostPending "pendingChangeRequest result"
  | GetUsers
  | PostUsers "(string \<times> string \<times> Role) result"
  | PutUser "Role result"
  | DeleteUserRoute
  | GetPendings
  | GetPending
  | PostApprove
  | PostReject

fun required_roles :: "route \<Rightarrow> Role list option" where
  "required_roles GetUsers = Some [RoleAdmin]"
| "required_roles (PostUsers _) = Some [RoleAdmin]"
| "required_roles (PutUser _) = Some [RoleAdmin]"
| "required_roles DeleteUserRoute = Some [RoleAdmin]"
| "required_roles GetPendings = Some [RoleApprover, RoleAdmin]"
| "required_roles GetPending = Some [RoleApprover, RoleAdmin]"
| "required_roles PostApprove = Some [RoleApprover, RoleAdmin]"
| "required_roles PostReject = Some [RoleApprover, RoleAdmin]"
| "required_roles _ = None"

fun protectedHandler :: "aenv \<Rightarrow> AuthHandlers \<Rightarrow> route \<Rightarrow> session \<Rightarrow> http_request \<Rightarrow> response aio" where
  "protectedHandler A h (PostPending bound) ses rq = handleCreatePending A h ses bound"
| "protectedHandler A h GetUsers ses rq = handleListUsers A"
| "protectedHandler A h (PostUsers bound) ses rq = handleCreateUser A bound"
| "protectedHandler A h (PutUser bound) ses rq = handleUpdateUser A rq bound"
| "protectedHandler A h DeleteUserRoute ses rq = handleDeleteUser A rq"
| "protectedHandler A h GetPendings ses rq = handleListPending A h"
| "protectedHandler A h GetPending ses rq = handleGetPending A h rq"
| "protectedHandler A h PostApprove ses rq = handleApprove A h ses rq"
| "protectedHandler A h PostReject ses rq = handleReject A h ses rq"
| "protectedHandler A h _ ses rq = handleMe A ses"

definition serveProtected :: "aenv \<Rightarrow> AuthHandlers \<Rightarrow> route \<Rightarrow> http_request \<Rightarrow> response aio" where
  "serveProtected A h rt rq = do {
     m \<leftarrow> AuthMiddleware A (ah_JWT h) rq;
     case m of
       Inl resp \<Rightarrow> return resp
     | Inr ses \<Rightarrow>
         (case (case required_roles rt of None \<Rightarrow> None | Some roles \<Rightarrow> RequireRole roles ses) of
            Some resp \<Rightarrow> return resp
          | None \<Rightarrow> protectedHandler A h rt ses rq)
   }"

fun serve :: "aenv \<Rightarrow> AuthHandlers \<Rightarrow> route \<Rightarrow> http_request \<Rightarrow> response aio" where
  "serve A h (PostLogin bound) rq = handleLogin A (ah_JWT h) rq bound"
| "serve A h (PostRefresh bound) rq = handleRefresh A (ah_JWT h) rq bound"
| "serve A h PostLogout rq = return (handleLogout rq)"
| "serve A h rt rq = serveProtected A h rt rq"

end
