(* ===== verification/Preview.thy ===== *)
theory Preview
  imports Engine
begin

text \<open>
  The impact preview (\<open>src/internal/core/domain/preview.go\<close>): the decisions of every target under
  the current rules are compared with those under a hypothetical rule set, without persisting
  anything.
\<close>

section \<open>The operations\<close>

text \<open>The body of the loop over the targets: what one target adds to the result.\<close>

definition previewStep ::
  "tzdb \<Rightarrow> PolicySpec list \<Rightarrow> PolicySpec list \<Rightarrow> OverrideSpec list \<Rightarrow> OverrideSpec list \<Rightarrow>
   GuardrailConfig \<Rightarrow> go_time \<Rightarrow> Target \<Rightarrow> PreviewResult \<Rightarrow> PreviewResult" where
  "previewStep tz currentPolicies newPolicies currentOverrides newOverrides config now target result =
     (if IsExempt target config then result
      else
        let newDecision = ComputeDecision tz target newPolicies newOverrides config now in
        if \<not> IsManaged newDecision then result
        else
          let currentDecision = ComputeDecision tz target currentPolicies currentOverrides config now;
              result =
                (if IsBlocked newDecision then
                   result\<lparr>pr_Blocked := pr_Blocked result @
                     [\<lparr>bt_Ref = tgt_Ref target, bt_Reasons = dec_BlockReasons newDecision\<rparr>]\<rparr>
                 else if dec_DesiredState currentDecision \<noteq> dec_DesiredState newDecision
                         \<or> \<not> IsManaged currentDecision then
                   (if dec_DesiredState newDecision = PowerStateOn then
                      result\<lparr>pr_AffectedOn := pr_AffectedOn result @ [tgt_Ref target]\<rparr>
                    else if dec_DesiredState newDecision = PowerStateOff then
                      result\<lparr>pr_AffectedOff := pr_AffectedOff result @ [tgt_Ref target]\<rparr>
                    else result)
                 else result)
          in (case dec_WinningRule newDecision of
                Some rule \<Rightarrow>
                  (if length (dec_SuppressedRules newDecision) > 0 then
                     result\<lparr>pr_Conflicts := pr_Conflicts result @
                       [\<lparr>ci_Target = tgt_Ref target, ci_Winner = rule,
                         ci_Suppressed = dec_SuppressedRules newDecision\<rparr>]\<rparr>
                   else result)
              | None \<Rightarrow> result))"

definition empty_preview :: PreviewResult where
  "empty_preview = \<lparr>pr_AffectedOn = [], pr_AffectedOff = [], pr_Blocked = [], pr_Unsupported = [],
     pr_Conflicts = [], pr_TotalAffected = 0\<rparr>"

definition computePreview ::
  "tzdb \<Rightarrow> Target list \<Rightarrow> PolicySpec list \<Rightarrow> PolicySpec list \<Rightarrow> OverrideSpec list \<Rightarrow> OverrideSpec list \<Rightarrow>
   GuardrailConfig \<Rightarrow> go_time \<Rightarrow> PreviewResult" where
  "computePreview tz targets currentPolicies newPolicies currentOverrides newOverrides config now =
     (let result = fold (previewStep tz currentPolicies newPolicies currentOverrides newOverrides config now)
                     targets empty_preview
      in result\<lparr>pr_TotalAffected := int (length (pr_AffectedOn result) + length (pr_AffectedOff result)
                                        + length (pr_Blocked result))\<rparr>)"

definition PreviewPolicy ::
  "tzdb \<Rightarrow> PolicySpec \<Rightarrow> Target list \<Rightarrow> PolicySpec list \<Rightarrow> OverrideSpec list \<Rightarrow> GuardrailConfig \<Rightarrow> go_time \<Rightarrow> PreviewResult" where
  "PreviewPolicy tz policy targets existingPolicies existingOverrides config now =
     (let hypotheticalPolicies = existingPolicies @ [policy]
      in computePreview tz targets existingPolicies hypotheticalPolicies
           existingOverrides existingOverrides config now)"

definition PreviewOverride ::
  "tzdb \<Rightarrow> OverrideSpec \<Rightarrow> Target list \<Rightarrow> PolicySpec list \<Rightarrow> OverrideSpec list \<Rightarrow> GuardrailConfig \<Rightarrow> go_time \<Rightarrow> PreviewResult" where
  "PreviewOverride tz override targets existingPolicies existingOverrides config now =
     (let hypotheticalOverrides = existingOverrides @ [override]
      in computePreview tz targets existingPolicies existingPolicies
           existingOverrides hypotheticalOverrides config now)"

section \<open>Specification: the class of one target\<close>

text \<open>What becomes of a target when the rules change from one decision to another.\<close>

datatype impact = NotGoverned | Unchanged | TurnsOn | TurnsOff | Refused

definition impact_of :: "Decision \<Rightarrow> Decision \<Rightarrow> impact" where
  "impact_of old new =
     (if \<not> IsManaged new then NotGoverned
      else if IsBlocked new then Refused
      else if IsManaged old \<and> dec_DesiredState old = dec_DesiredState new then Unchanged
      else if dec_DesiredState new = PowerStateOn then TurnsOn
      else if dec_DesiredState new = PowerStateOff then TurnsOff
      else Unchanged)"

definition refs_with :: "(Target \<Rightarrow> impact) \<Rightarrow> impact \<Rightarrow> Target list \<Rightarrow> WorkloadRef list" where
  "refs_with f i ts = map tgt_Ref (filter (\<lambda>t. f t = i) ts)"

definition in_conflict :: "Decision \<Rightarrow> bool" where
  "in_conflict d \<longleftrightarrow> IsManaged d \<and> dec_SuppressedRules d \<noteq> []"

section \<open>Lemmas\<close>

lemma exempt_not_managed: "IsExempt t c \<Longrightarrow> \<not> IsManaged (ComputeDecision tz t ps os c now)"
  by (simp add: ComputeDecision_managed)

lemma previewStep_classes:
  fixes tz ps ps' os os' c now t r
  defines "i \<equiv> impact_of (ComputeDecision tz t ps os c now) (ComputeDecision tz t ps' os' c now)"
  defines "r' \<equiv> previewStep tz ps ps' os os' c now t r"
  shows "pr_AffectedOn r' = pr_AffectedOn r @ (if i = TurnsOn then [tgt_Ref t] else [])"
    and "pr_AffectedOff r' = pr_AffectedOff r @ (if i = TurnsOff then [tgt_Ref t] else [])"
    and "map bt_Ref (pr_Blocked r') = map bt_Ref (pr_Blocked r) @ (if i = Refused then [tgt_Ref t] else [])"
    and "pr_Unsupported r' = pr_Unsupported r"
    and "map ci_Target (pr_Conflicts r') = map ci_Target (pr_Conflicts r) @
           (if in_conflict (ComputeDecision tz t ps' os' c now) then [tgt_Ref t] else [])"
proof -
  have ex: "IsExempt t c \<Longrightarrow> \<not> IsManaged (ComputeDecision tz t ps' os' c now)"
    by (rule exempt_not_managed)
  show "pr_AffectedOn r' = pr_AffectedOn r @ (if i = TurnsOn then [tgt_Ref t] else [])"
    "pr_AffectedOff r' = pr_AffectedOff r @ (if i = TurnsOff then [tgt_Ref t] else [])"
    "map bt_Ref (pr_Blocked r') = map bt_Ref (pr_Blocked r) @ (if i = Refused then [tgt_Ref t] else [])"
    "pr_Unsupported r' = pr_Unsupported r"
    using ex unfolding r'_def i_def previewStep_def impact_of_def Let_def
    by (auto split: option.split)
  show "map ci_Target (pr_Conflicts r') = map ci_Target (pr_Conflicts r) @
           (if in_conflict (ComputeDecision tz t ps' os' c now) then [tgt_Ref t] else [])"
    using ex unfolding r'_def previewStep_def Let_def in_conflict_def
    by (auto simp: IsManaged_def split: option.split)
qed

lemma fold_previewStep:
  fixes tz ps ps' os os' c now
  defines "i \<equiv> \<lambda>t. impact_of (ComputeDecision tz t ps os c now) (ComputeDecision tz t ps' os' c now)"
  defines "run \<equiv> fold (previewStep tz ps ps' os os' c now)"
  shows "pr_AffectedOn (run ts r) = pr_AffectedOn r @ refs_with i TurnsOn ts"
    and "pr_AffectedOff (run ts r) = pr_AffectedOff r @ refs_with i TurnsOff ts"
    and "map bt_Ref (pr_Blocked (run ts r)) = map bt_Ref (pr_Blocked r) @ refs_with i Refused ts"
    and "pr_Unsupported (run ts r) = pr_Unsupported r"
    and "map ci_Target (pr_Conflicts (run ts r)) = map ci_Target (pr_Conflicts r) @
           map tgt_Ref (filter (\<lambda>t. in_conflict (ComputeDecision tz t ps' os' c now)) ts)"
  unfolding run_def
  by (induction ts arbitrary: r) (simp_all add: previewStep_classes i_def refs_with_def)

lemma computePreview_classes:
  fixes tz ps ps' os os' c now ts
  defines "i \<equiv> \<lambda>t. impact_of (ComputeDecision tz t ps os c now) (ComputeDecision tz t ps' os' c now)"
  defines "r \<equiv> computePreview tz ts ps ps' os os' c now"
  shows "pr_AffectedOn r = refs_with i TurnsOn ts" and "pr_AffectedOff r = refs_with i TurnsOff ts"
    and "map bt_Ref (pr_Blocked r) = refs_with i Refused ts" and "pr_Unsupported r = []"
    and "pr_TotalAffected r = int (length (refs_with i TurnsOn ts) + length (refs_with i TurnsOff ts)
           + length (refs_with i Refused ts))"
    and "map ci_Target (pr_Conflicts r) =
           map tgt_Ref (filter (\<lambda>t. in_conflict (ComputeDecision tz t ps' os' c now)) ts)"
proof -
  have len: "length (pr_Blocked x) = length (map bt_Ref (pr_Blocked x))" for x by simp
  show "pr_AffectedOn r = refs_with i TurnsOn ts" "pr_AffectedOff r = refs_with i TurnsOff ts"
    "map bt_Ref (pr_Blocked r) = refs_with i Refused ts" "pr_Unsupported r = []"
    "map ci_Target (pr_Conflicts r) =
       map tgt_Ref (filter (\<lambda>t. in_conflict (ComputeDecision tz t ps' os' c now)) ts)"
    by (simp_all add: r_def i_def computePreview_def empty_preview_def Let_def fold_previewStep)
  show "pr_TotalAffected r = int (length (refs_with i TurnsOn ts) + length (refs_with i TurnsOff ts)
           + length (refs_with i Refused ts))"
    unfolding r_def i_def computePreview_def Let_def
    by (simp add: empty_preview_def fold_previewStep len del: length_map)
qed

lemma in_conflict_iff:
  "in_conflict (ComputeDecision tz t ps os c now) \<longleftrightarrow>
     \<not> IsExempt t c \<and> length (collectApplicableRules tz t ps os now) \<ge> 2"
proof (cases "IsManaged (ComputeDecision tz t ps os c now)")
  case True
  then obtain w ws where w: "ResolvePriority (collectApplicableRules tz t ps os now) = (w, ws)"
    and s: "dec_SuppressedRules (ComputeDecision tz t ps os c now) = map er_Ref ws"
    by (rule ComputeDecision_winner)
  have m: "\<not> IsExempt t c" "collectApplicableRules tz t ps os now \<noteq> []"
    using True by (simp_all add: ComputeDecision_managed)
  have "length (w # ws) = length (collectApplicableRules tz t ps os now)"
    using ResolvePriority_perm[OF w m(2)] by (rule mset_eq_length)
  then show ?thesis using True s m by (cases ws) (auto simp: in_conflict_def)
next
  case False
  then show ?thesis by (auto simp: in_conflict_def ComputeDecision_managed)
qed

section \<open>Properties\<close>

text \<open>
  The preview is exact: the workloads it lists as turning on, turning off and blocked are, in
  the order of the targets, those whose decision after adding the policy is of that class, and the
  total counts them all.  The decision under the new rules is the one the engine computes once the
  policy is stored.
\<close>

theorem PreviewPolicy_exact:
  "let cls = (\<lambda>t. impact_of (ComputeDecision tz t ps os c now) (ComputeDecision tz t (ps @ [p]) os c now));
       r = PreviewPolicy tz p ts ps os c now
   in pr_AffectedOn r = refs_with cls TurnsOn ts \<and>
      pr_AffectedOff r = refs_with cls TurnsOff ts \<and>
      map bt_Ref (pr_Blocked r) = refs_with cls Refused ts \<and>
      pr_TotalAffected r = int (length (filter (\<lambda>t. cls t \<in> {TurnsOn, TurnsOff, Refused}) ts))"
proof -
  have count: "length (filter (\<lambda>t. f t = TurnsOn) ts) + length (filter (\<lambda>t. f t = TurnsOff) ts)
      + length (filter (\<lambda>t. f t = Refused) ts)
      = length (filter (\<lambda>t. f t \<in> {TurnsOn, TurnsOff, Refused}) ts)" for f :: "Target \<Rightarrow> impact"
    by (induction ts) auto
  show ?thesis
    unfolding PreviewPolicy_def Let_def
    by (simp only: computePreview_classes refs_with_def length_map count simp_thms)
qed

text \<open>
  The conflicts a preview of an override reports are exactly the non-exempt targets that at
  least two rules would apply to, the new override included.
\<close>

theorem PreviewOverride_conflicts_exact:
  "map ci_Target (pr_Conflicts (PreviewOverride tz v ts ps os c now)) =
   map tgt_Ref (filter (\<lambda>t. \<not> IsExempt t c \<and>
     length (collectApplicableRules tz t ps (os @ [v]) now) \<ge> 2) ts)"
proof -
  have "in_conflict (ComputeDecision tz t ps (os @ [v]) c now) \<longleftrightarrow>
      \<not> IsExempt t c \<and> length (collectApplicableRules tz t ps (os @ [v]) now) \<ge> 2" for t
    by (rule in_conflict_iff)
  then show ?thesis
    unfolding PreviewOverride_def Let_def by (simp add: computePreview_classes)
qed

end
