(* ===== verification/ApiPreview.thy ===== *)
theory ApiPreview
  imports RuleReconcile Preview Webhook
begin

text \<open>
  The preview endpoints of the API server (\<open>src/internal/adapters/driving/api/preview.go\<close>, and
  \<open>handlePreviewPolicy\<close> and \<open>handlePreviewOverride\<close> of \<open>handlers.go\<close>).  The server has conversions of
  its own from API objects to the domain; the theorems relate them to those of the reconciler, so that a
  preview tells what the reconciler will decide.  The body of a request, as \<open>ShouldBindJSON\<close> decodes
  it, is an argument.
\<close>

section \<open>The server and its answers\<close>

record Server =
  srv_ControlNamespace :: string
  srv_GuardrailConfig :: GuardrailConfig

definition controlNamespace :: "Server \<Rightarrow> string" where
  "controlNamespace s = (if srv_ControlNamespace s \<noteq> '''' then srv_ControlNamespace s else ''aura-system'')"

text \<open>
  An answer: the status with either a document, or a JSON object whose key \<open>error\<close> has a text and
  which may have one more key.
\<close>

datatype detail = NoDetail | ControlNamespaceDetail string | CountDetail nat | ComponentDetail string

datatype 'b answer = Refusal int string detail | Answer int 'b

abbreviation refuse :: "int \<Rightarrow> string \<Rightarrow> 'b answer" where
  "refuse status text \<equiv> Refusal status text NoDetail"

text \<open>\<open>None\<close> when the handler may go on.\<close>

definition requireControlNamespace :: "Server \<Rightarrow> string \<Rightarrow> 'b answer option" where
  "requireControlNamespace s namespace =
     (if namespace = controlNamespace s then None
      else Some (Refusal 422 ''resource namespace must match the configured control namespace''
             (ControlNamespaceDetail (controlNamespace s))))"

section \<open>\<open>fmt.Sscanf\<close> with \<open>%d:%d\<close>\<close>

text \<open>
  The number of bytes of the white space a text begins with (the table \<open>space\<close> of package \<open>fmt\<close>,
  in UTF-8); the new line is treated by the caller.
\<close>

definition space_width :: "string \<Rightarrow> nat" where
  "space_width s =
     (let b = map of_char (take 3 s) :: nat list in
      if b \<noteq> [] \<and> hd b \<in> {9, 11, 12, 13, 32} then 1
      else if take 2 b \<in> {[194, 133], [194, 160]} then 2
      else if b \<in> {[225, 154, 128], [226, 128, 168], [226, 128, 169], [226, 128, 175], [226, 129, 159], [227, 128, 128]}
      then 3
      else if length b = 3 \<and> take 2 b = [226, 128] \<and> 128 \<le> b ! 2 \<and> b ! 2 \<le> 138 then 3
      else 0)"

text \<open>\<open>SkipSpace\<close>: a new line is an error (\<open>None\<close>) because the format has none.\<close>

function SkipSpace :: "string \<Rightarrow> string option" where
  "SkipSpace [] = Some []"
| "SkipSpace (c # cs) =
     (if of_char c = (10 :: nat) then None
      else case space_width (c # cs) of 0 \<Rightarrow> Some (c # cs) | Suc n \<Rightarrow> SkipSpace (drop n cs))"
  by pat_completeness auto
termination by (relation "measure length") auto

text \<open>\<open>scanInt\<close>: the number and the rest of the text.\<close>

definition scanInt :: "string \<Rightarrow> (int \<times> string) option" where
  "scanInt s = (case SkipSpace s of
       None \<Rightarrow> None
     | Some s \<Rightarrow>
         (let signed = (s \<noteq> [] \<and> (hd s = CHR ''+'' \<or> hd s = CHR ''-''));
              sign = (if signed then [hd s] else []);
              body = (if signed then tl s else s);
              digits = takeWhile is_digit body
          in if digits = [] then None
             else case ParseInt 64 (sign @ digits) of
               None \<Rightarrow> None
             | Some i \<Rightarrow> Some (i, dropWhile is_digit body)))"

text \<open>The variables keep their values from the first element that cannot be read on.\<close>

definition Sscanf_clock :: "string \<Rightarrow> int \<times> int \<Rightarrow> int \<times> int" where
  "Sscanf_clock s hm = (case scanInt s of
       None \<Rightarrow> hm
     | Some (hour, rest) \<Rightarrow>
         (if rest = [] \<or> hd rest \<noteq> CHR '':'' then (hour, snd hm)
          else case scanInt (tl rest) of
            None \<Rightarrow> (hour, snd hm)
          | Some (minute, _) \<Rightarrow> (hour, minute)))"

section \<open>Conversions\<close>

record previewResponse =
  prv_AffectedOn :: "WorkloadRef list"
  prv_AffectedOff :: "WorkloadRef list"
  prv_Blocked :: "BlockedTarget list"
  prv_Unsupported :: "WorkloadRef list"
  prv_Conflicts :: "ConflictInfo list"
  prv_TotalAffected :: int

definition newPreviewResponse :: "PreviewResult \<Rightarrow> previewResponse" where
  "newPreviewResponse result =
     \<lparr>prv_AffectedOn = pr_AffectedOn result, prv_AffectedOff = pr_AffectedOff result,
      prv_Blocked = pr_Blocked result, prv_Unsupported = pr_Unsupported result,
      prv_Conflicts = pr_Conflicts result, prv_TotalAffected = pr_TotalAffected result\<rparr>"

definition previewTarget :: "PowerTarget \<Rightarrow> Target" where
  "previewTarget t =
     (let st = pt_Status t; tr = pt_TargetRef t in
      \<lparr>tgt_Ref = \<lparr>ref_Cluster = tref_Cluster tr, ref_APIVersion = tref_APIVersion tr,
                  ref_Namespace = tref_Namespace tr, ref_Name = tref_Name tr,
                  ref_Kind = tref_Kind tr, ref_UID = tref_UID tr\<rparr>,
       tgt_ObservedState = \<lparr>obs_Replicas = oss_Replicas (ts_ObservedState st),
                            obs_Suspended = oss_Suspended (ts_ObservedState st)\<rparr>,
       tgt_Ownership = map (\<lambda>x. \<lparr>own_Type = os_Type x, own_OptedIn = os_OptedIn x\<rparr>) (ts_Ownership st),
       tgt_Annotations = om_Annotations (pt_Meta t), tgt_Labels = ts_WorkloadLabels st,
       tgt_NamespaceLabels = ts_NamespaceLabels st,
       tgt_Snapshot = (case ts_Snapshot st of
           Some sn \<Rightarrow> (if sn_Available sn
             then Some \<lparr>snap_ReplicaCount = sn_ReplicaCount sn, snap_Suspended = sn_Suspended sn,
                        snap_Resources = \<lparr>res_CPUMillicores = 0, res_MemoryMiB = 0\<rparr>, snap_CapturedAt = zero_time,
                        snap_ResourceVersion = ''''\<rparr>
             else None)
         | None \<Rightarrow> None),
       tgt_LastTransition = None, tgt_DivergenceSince = None\<rparr>)"

text \<open>Both calls of \<open>Sscanf\<close> write to the same two variables.\<close>

definition previewWindow :: "TimeWindowSpec \<Rightarrow> TimeWindow" where
  "previewWindow window =
     (let (hour, minute) = Sscanf_clock (tws_Start window) (0, 0);
          start = \<lparr>tod_Hour = hour, tod_Minute = minute\<rparr>;
          (hour, minute) = Sscanf_clock (tws_End window) (hour, minute);
          end' = \<lparr>tod_Hour = hour, tod_Minute = minute\<rparr>
      in \<lparr>tw_Start = start, tw_End = end', tw_Days = tws_Days window, tw_Timezone = tws_Timezone window\<rparr>)"

definition previewScope :: "PolicyScope \<Rightarrow> Scope" where
  "previewScope scope =
     \<lparr>sc_TargetRefs = map (\<lambda>ref. \<lparr>ref_Cluster = tref_Cluster ref, ref_APIVersion = tref_APIVersion ref,
          ref_Namespace = tref_Namespace ref, ref_Name = tref_Name ref, ref_Kind = tref_Kind ref,
          ref_UID = tref_UID ref\<rparr>) (scope_TargetRefs scope),
      sc_Namespaces = scope_Namespaces scope, sc_NamespaceGroups = scope_NamespaceGroups scope,
      sc_NamespaceLabels = scope_NamespaceLabels scope, sc_WorkloadNames = scope_WorkloadNames scope,
      sc_WorkloadLabels = scope_WorkloadLabels scope\<rparr>"

definition previewPolicy :: "PowerPolicy \<Rightarrow> PolicySpec" where
  "previewPolicy p =
     \<lparr>pol_Name = om_Name (pp_Meta p), pol_Namespace = om_Namespace (pp_Meta p),
      pol_Scope = previewScope (pps_Scope (pp_Spec p)),
      pol_Schedule = \<lparr>sch_Windows = map previewWindow (psch_Windows (pps_Schedule (pp_Spec p))),
                      sch_DesiredState = psch_DesiredState (pps_Schedule (pp_Spec p))\<rparr>,
      pol_Priority = pps_Priority (pp_Spec p), pol_Description = pps_Description (pp_Spec p),
      pol_CreatedAt = om_CreationTimestamp (pp_Meta p)\<rparr>"

definition previewOverride :: "PowerOverride \<Rightarrow> OverrideSpec" where
  "previewOverride ov =
     \<lparr>ovr_Name = om_Name (po_Meta ov), ovr_Namespace = om_Namespace (po_Meta ov),
      ovr_Scope = previewScope (pos_Scope (po_Spec ov)), ovr_State = pos_State (po_Spec ov),
      ovr_Priority = pos_Priority (po_Spec ov), ovr_ExpiresAt = pos_ExpiresAt (po_Spec ov),
      ovr_Reason = pos_Reason (po_Spec ov), ovr_Reference = pos_Reference (po_Spec ov),
      ovr_CreatedAt = om_CreationTimestamp (po_Meta ov)\<rparr>"

definition resolvePreviewPolicyScope :: "env \<Rightarrow> string \<Rightarrow> PowerPolicy \<Rightarrow> Scope result io" where
  "resolvePreviewPolicyScope E namespace policy = ResolveScope E namespace (pps_Scope (pp_Spec policy))"

definition resolvePreviewOverrideScope :: "env \<Rightarrow> string \<Rightarrow> PowerOverride \<Rightarrow> Scope result io" where
  "resolvePreviewOverrideScope E namespace override = ResolveScope E namespace (pos_Scope (po_Spec override))"

section \<open>The handlers\<close>

text \<open>The loops over the stored rules; the rule of the given key, which is being edited, is left out.\<close>

fun previewPolicies :: "env \<Rightarrow> (string \<times> string) option \<Rightarrow> PowerPolicy list \<Rightarrow> PolicySpec list result io" where
  "previewPolicies E edited [] = return (Inr [])"
| "previewPolicies E edited (p # ps) =
     (if edited = Some (om_Namespace (pp_Meta p), om_Name (pp_Meta p)) then previewPolicies E edited ps
      else do {
        r \<leftarrow> resolvePreviewPolicyScope E (om_Namespace (pp_Meta p)) p;
        case r of
          Inl err \<Rightarrow> return (Inl err)
        | Inr resolved \<Rightarrow> do {
            rest \<leftarrow> previewPolicies E edited ps;
            return (case rest of
                Inl err \<Rightarrow> Inl err
              | Inr converted \<Rightarrow> Inr ((previewPolicy p)\<lparr>pol_Scope := resolved\<rparr> # converted))
          }
      })"

fun previewOverrides :: "env \<Rightarrow> (string \<times> string) option \<Rightarrow> PowerOverride list \<Rightarrow> OverrideSpec list result io" where
  "previewOverrides E edited [] = return (Inr [])"
| "previewOverrides E edited (v # vs) =
     (if edited = Some (om_Namespace (po_Meta v), om_Name (po_Meta v)) then previewOverrides E edited vs
      else do {
        r \<leftarrow> resolvePreviewOverrideScope E (om_Namespace (po_Meta v)) v;
        case r of
          Inl err \<Rightarrow> return (Inl err)
        | Inr resolved \<Rightarrow> do {
            rest \<leftarrow> previewOverrides E edited vs;
            return (case rest of
                Inl err \<Rightarrow> Inl err
              | Inr converted \<Rightarrow> Inr ((previewOverride v)\<lparr>ovr_Scope := resolved\<rparr> # converted))
          }
      })"

definition proposedMeta :: "string \<Rightarrow> string \<Rightarrow> go_time \<Rightarrow> ObjectMeta" where
  "proposedMeta namespace name now =
     \<lparr>om_Name = name, om_GenerateName = '''', om_Namespace = namespace, om_UID = '''', om_ResourceVersion = '''',
      om_Labels = [], om_Annotations = [], om_CreationTimestamp = now, om_DeletionTimestamp = None\<rparr>"

definition proposedPolicy :: "string \<Rightarrow> string \<Rightarrow> PowerPolicySpec \<Rightarrow> go_time \<Rightarrow> PowerPolicy" where
  "proposedPolicy namespace name spec now =
     \<lparr>pp_Meta = proposedMeta namespace name now, pp_Spec = spec,
      pp_Status = \<lparr>ppst_Conditions = [], ppst_AffectedTargets = 0, ppst_ActiveWindow = False, ppst_NextTransition = None\<rparr>\<rparr>"

definition proposedOverride :: "string \<Rightarrow> string \<Rightarrow> PowerOverrideSpec \<Rightarrow> go_time \<Rightarrow> PowerOverride" where
  "proposedOverride namespace name spec now =
     \<lparr>po_Meta = proposedMeta namespace name now, po_Spec = spec,
      po_Status = \<lparr>post_Conditions = [], post_Phase = '''', post_AffectedTargets = 0, post_ExpiresIn = ''''\<rparr>\<rparr>"

text \<open>
  The parts that both handlers have, with the same text in each: the current state, and the
  conversion of the stored rules and of the targets.
\<close>

definition loadState ::
  "env \<Rightarrow> Server \<Rightarrow> (PowerTarget list \<times> PowerPolicy list \<times> PowerOverride list) result io" where
  "loadState E s = do {
     t \<leftarrow> listTargets E (controlNamespace s);
     case t of
       Inl err \<Rightarrow> return (Inl err)
     | Inr targets \<Rightarrow> do {
         p \<leftarrow> listPolicies E (controlNamespace s);
         case p of
           Inl err \<Rightarrow> return (Inl err)
         | Inr policies \<Rightarrow> do {
             v \<leftarrow> listOverrides E (controlNamespace s);
             case v of
               Inl err \<Rightarrow> return (Inl err)
             | Inr overrides \<Rightarrow> return (Inr (targets, policies, overrides))
           }
       }
   }"

definition convertRules ::
  "env \<Rightarrow> (string \<times> string) option \<Rightarrow> (string \<times> string) option \<Rightarrow> PowerPolicy list \<Rightarrow> PowerOverride list \<Rightarrow>
   (PolicySpec list \<times> OverrideSpec list) result io" where
  "convertRules E editedPolicy editedOverride policies overrides = do {
     p \<leftarrow> previewPolicies E editedPolicy policies;
     case p of
       Inl err \<Rightarrow> return (Inl err)
     | Inr domainPolicies \<Rightarrow> do {
         v \<leftarrow> previewOverrides E editedOverride overrides;
         return (case v of Inl err \<Rightarrow> Inl err | Inr domainOverrides \<Rightarrow> Inr (domainPolicies, domainOverrides))
       }
   }"

definition handlePreviewPolicy ::
  "env \<Rightarrow> Server \<Rightarrow> string option \<Rightarrow> string option \<Rightarrow> PowerPolicySpec result \<Rightarrow> previewResponse answer io" where
  "handlePreviewPolicy E s namespaceQuery nameQuery bound =
     (let namespace = (case namespaceQuery of None \<Rightarrow> controlNamespace s | Some q \<Rightarrow> q);
          previewName = (case nameQuery of None \<Rightarrow> ''preview'' | Some q \<Rightarrow> q)
      in case requireControlNamespace s namespace of
        Some answer \<Rightarrow> return answer
      | None \<Rightarrow> (case bound of
          Inl err \<Rightarrow> return (refuse 400 (''invalid policy spec: '' @ err_Text err))
        | Inr policySpec \<Rightarrow> do {
            st \<leftarrow> loadState E s;
            case st of
              Inl err \<Rightarrow> return (refuse 500 (err_Text err))
            | Inr (targets, policies, overrides) \<Rightarrow> do {
                created \<leftarrow> time_Now E;
                let proposed = proposedPolicy namespace previewName policySpec created;
                sc \<leftarrow> resolvePreviewPolicyScope E namespace proposed;
                case sc of
                  Inl err \<Rightarrow> return (refuse 422 (err_Text err))
                | Inr proposedScope \<Rightarrow> do {
                    rules \<leftarrow> convertRules E (Some (namespace, previewName)) None policies overrides;
                    case rules of
                      Inl err \<Rightarrow> return (refuse 422 (err_Text err))
                    | Inr (domainPolicies, domainOverrides) \<Rightarrow> do {
                        now \<leftarrow> time_Now E;
                        return (Answer 200 (newPreviewResponse
                          (PreviewPolicy (env_tzdb E) ((previewPolicy proposed)\<lparr>pol_Scope := proposedScope\<rparr>)
                             (map previewTarget targets) domainPolicies domainOverrides (srv_GuardrailConfig s) now)))
                      }
                  }
              }
          }))"

definition handlePreviewOverride ::
  "env \<Rightarrow> Server \<Rightarrow> string option \<Rightarrow> string option \<Rightarrow> PowerOverrideSpec result \<Rightarrow> previewResponse answer io" where
  "handlePreviewOverride E s namespaceQuery nameQuery bound =
     (let namespace = (case namespaceQuery of None \<Rightarrow> controlNamespace s | Some q \<Rightarrow> q);
          previewName = (case nameQuery of None \<Rightarrow> ''preview'' | Some q \<Rightarrow> q)
      in case requireControlNamespace s namespace of
        Some answer \<Rightarrow> return answer
      | None \<Rightarrow> (case bound of
          Inl err \<Rightarrow> return (refuse 400 (''invalid override spec: '' @ err_Text err))
        | Inr overrideSpec \<Rightarrow> do {
            st \<leftarrow> loadState E s;
            case st of
              Inl err \<Rightarrow> return (refuse 500 (err_Text err))
            | Inr (targets, policies, overrides) \<Rightarrow> do {
                created \<leftarrow> time_Now E;
                let proposed = proposedOverride namespace previewName overrideSpec created;
                sc \<leftarrow> resolvePreviewOverrideScope E namespace proposed;
                case sc of
                  Inl err \<Rightarrow> return (refuse 422 (err_Text err))
                | Inr proposedScope \<Rightarrow> do {
                    rules \<leftarrow> convertRules E None (Some (namespace, previewName)) policies overrides;
                    case rules of
                      Inl err \<Rightarrow> return (refuse 422 (err_Text err))
                    | Inr (domainPolicies, domainOverrides) \<Rightarrow> do {
                        now \<leftarrow> time_Now E;
                        return (Answer 200 (newPreviewResponse
                          (PreviewOverride (env_tzdb E) ((previewOverride proposed)\<lparr>ovr_Scope := proposedScope\<rparr>)
                             (map previewTarget targets) domainPolicies domainOverrides (srv_GuardrailConfig s) now)))
                      }
                  }
              }
          }))"

section \<open>Lemmas\<close>

subsection \<open>Clock times\<close>

lemma SkipSpace_digit: "is_digit c \<Longrightarrow> SkipSpace (c # cs) = Some (c # cs)"
  by (auto simp: space_width_def is_digit_def Let_def)

lemma digit_code:
  assumes "is_digit c"
  shows "int (of_char c) = of_char c" and "(of_char c - 48 :: int) mod 256 = of_char c - 48"
proof -
  show code: "int (of_char c) = of_char c" by (simp only: of_nat_of_char)
  have "48 \<le> int (of_char c)" "int (of_char c) \<le> 57" using assms by (simp_all add: is_digit_def)
  then show "(of_char c - 48 :: int) mod 256 = of_char c - 48" by (simp add: code)
qed

lemma scanInt_two_digits:
  assumes "is_digit a" and "is_digit b" and "rest = [] \<or> \<not> is_digit (hd rest)"
  shows "scanInt (a # b # rest) = Some ((of_char a - 48) * 10 + (of_char b - 48), rest)"
proof -
  have "takeWhile is_digit (a # b # rest) = [a, b]" "dropWhile is_digit (a # b # rest) = rest"
    using assms by (cases rest; simp)+
  moreover have "ParseInt 64 [a, b] = Some ((of_char a - 48) * 10 + (of_char b - 48))"
    using assms(1,2) digit_no_sign[OF assms(1)] digit_code(1)[OF assms(1)] digit_code(1)[OF assms(2)]
    by (simp add: ParseInt_def digits_value_def is_digit_def)
  ultimately show ?thesis
    using digit_no_sign[OF assms(1)]
    by (simp add: scanInt_def SkipSpace_digit[OF assms(1)] del: SkipSpace.simps takeWhile.simps dropWhile.simps)
qed

text \<open>
  What the schema of the custom resource demands of the times of a window, with or without the webhook: two digits,
  a colon, two digits.
\<close>

definition crd_time :: "string \<Rightarrow> bool" where
  "crd_time s \<longleftrightarrow> length s = 5 \<and> s ! 2 = CHR '':'' \<and> list_all (\<lambda>i. is_digit (s ! i)) [0, 1, 3, 4]"

definition crd_policy :: "PowerPolicySpec \<Rightarrow> bool" where
  "crd_policy spec \<longleftrightarrow> list_all (\<lambda>w. crd_time (tws_Start w) \<and> crd_time (tws_End w)) (psch_Windows (pps_Schedule spec))"

lemma crd_time_text:
  assumes "crd_time s"
  obtains a b c d where "s = [a, b, CHR '':'', c, d]" and "is_digit a" "is_digit b" "is_digit c" "is_digit d"
proof -
  from assms have "length s = 5" by (simp add: crd_time_def)
  then obtain a b m c d where "s = [a, b, m, c, d]"
    by (auto simp: length_Suc_conv eval_nat_numeral)
  with assms show ?thesis by (intro that) (auto simp: crd_time_def)
qed

lemma Sscanf_clock_crd:
  assumes "crd_time s"
  shows "Sscanf_clock s hm = (tod_Hour (parseTimeOfDay s), tod_Minute (parseTimeOfDay s))"
proof -
  obtain a b c d where s: "s = [a, b, CHR '':'', c, d]" and digits: "is_digit a" "is_digit b" "is_digit c" "is_digit d"
    using assms by (rule crd_time_text)
  have "scanInt s = Some ((of_char a - 48) * 10 + (of_char b - 48), [CHR '':'', c, d])"
    unfolding s by (rule scanInt_two_digits) (use digits in \<open>auto simp: is_digit_def\<close>)
  moreover have "scanInt [c, d] = Some ((of_char c - 48) * 10 + (of_char d - 48), [])"
    using digits by (intro scanInt_two_digits) auto
  moreover have "byte_digit s 0 = of_char a - 48" "byte_digit s 1 = of_char b - 48"
    "byte_digit s 3 = of_char c - 48" "byte_digit s 4 = of_char d - 48"
    using digits by (simp_all add: s byte_digit_def digit_code)
  ultimately show ?thesis by (simp add: Sscanf_clock_def parseTimeOfDay_def s)
qed

text \<open>The webhook demands more.\<close>

lemma validateTimeOfDay_crd: "validateTimeOfDay s i f = None \<Longrightarrow> crd_time s"
  by (auto simp: validateTimeOfDay_def crd_time_def is_digit_def is_digit_byte_def Let_def split: if_splits)

lemma admitted_crd: "PolicyValidator_Handle tz (Inr p) = Allowed m \<Longrightarrow> crd_policy (pp_Spec p)"
  using validateWindows_None
  by (fastforce simp: PolicyValidator_Allowed_iff crd_policy_def list_all_iff validateTimeWindow_def
      dest: validateTimeOfDay_crd split: if_splits option.splits)

subsection \<open>The conversions agree with those of the reconciler\<close>

lemma previewWindow_crd: "crd_time (tws_Start w) \<Longrightarrow> crd_time (tws_End w) \<Longrightarrow> previewWindow w = toDomainTimeWindow w"
  by (simp add: previewWindow_def toDomainTimeWindow_def Let_def Sscanf_clock_crd)

lemma previewScope_eq [simp]: "previewScope sc = toDomainScope sc"
  by (simp add: previewScope_def crd_defs)

lemma previewOverride_eq: "previewOverride v = toDomainOverride v"
  by (simp add: previewOverride_def toDomainOverride_def)

lemma previewPolicy_crd:
  assumes "crd_policy (pp_Spec p)"
  shows "previewPolicy p = toDomainPolicy p"
proof -
  have "map previewWindow (psch_Windows (pps_Schedule (pp_Spec p))) = map toDomainTimeWindow (psch_Windows (pps_Schedule (pp_Spec p)))"
    using assms previewWindow_crd by (simp add: crd_policy_def list_all_iff)
  then show ?thesis by (simp add: previewPolicy_def toDomainPolicy_def)
qed

text \<open>Of a snapshot, a decision depends only on whether there is one.\<close>

lemma ComputeDecision_snapshot:
  assumes "tgt_Snapshot t = None \<longleftrightarrow> x = None"
  shows "ComputeDecision tz (t\<lparr>tgt_Snapshot := x\<rparr>) ps os c now = ComputeDecision tz t ps os c now"
    and "IsExempt (t\<lparr>tgt_Snapshot := x\<rparr>) c = IsExempt t c"
proof -
  let ?t = "t\<lparr>tgt_Snapshot := x\<rparr>"
  have "MatchesScope ?t sc = MatchesScope t sc" for sc
    by (simp add: MatchesScope_def matchesTargetRefs_def matchesNamespaceNames_def matchesNamespaceLabels_def
        matchesWorkloadNames_def matchesWorkloadLabels_def)
  then have rules: "collectApplicableRules tz ?t ps os now = collectApplicableRules tz t ps os now"
    by (simp add: collectApplicableRules_def)
  show exempt: "IsExempt ?t c = IsExempt t c" by (simp add: IsExempt_def)
  have guard: "EvaluateGuardrails ?t c = EvaluateGuardrails t c"
    by (simp add: EvaluateGuardrails_def IsExempt_def IsOptedIn_def checkSystemNamespace_def checkOwnership_def)
  have fields: "tgt_Snapshot ?t = None \<longleftrightarrow> tgt_Snapshot t = None" "tgt_ObservedState ?t = tgt_ObservedState t" "tgt_Ref ?t = tgt_Ref t"
    using assms by simp_all
  show "ComputeDecision tz ?t ps os c now = ComputeDecision tz t ps os c now"
    unfolding ComputeDecision_def rules exempt guard fields ..
qed

lemma previewTarget_decides:
  "tgt_Ref (previewTarget t) = tgt_Ref (toDomainTarget t)"
  "ComputeDecision tz (previewTarget t) ps os c now = ComputeDecision tz (toDomainTarget t) ps os c now"
proof -
  let ?x = "tgt_Snapshot (previewTarget t)"
  have t: "previewTarget t = (toDomainTarget t)\<lparr>tgt_Snapshot := ?x\<rparr>"
    by (simp add: previewTarget_def toDomainTarget_def Let_def)
  then show "tgt_Ref (previewTarget t) = tgt_Ref (toDomainTarget t)"
    by (metis Target.select_convs(1) Target.surjective Target.update_convs(7))
  have "tgt_Snapshot (toDomainTarget t) = None \<longleftrightarrow> ?x = None"
    by (simp add: previewTarget_def toDomainTarget_def Let_def split: option.split)
  from ComputeDecision_snapshot(1)[OF this] t
  show "ComputeDecision tz (previewTarget t) ps os c now = ComputeDecision tz (toDomainTarget t) ps os c now" by metis
qed

text \<open>What a preview lists, over the targets as the reconciler converts them.\<close>

lemma refs_with_map: "refs_with f i (map g ts) = map (\<lambda>t. tgt_Ref (g t)) (filter (\<lambda>t. f (g t) = i) ts)"
  by (induction ts) (simp_all add: refs_with_def)

lemma refs_with_previewTarget:
  "refs_with (\<lambda>t. impact_of (ComputeDecision tz t ps os c now) (ComputeDecision tz t ps' os' c now)) i (map previewTarget ts) =
   refs_with (\<lambda>t. impact_of (ComputeDecision tz t ps os c now) (ComputeDecision tz t ps' os' c now)) i (map toDomainTarget ts)"
  by (simp add: refs_with_map previewTarget_decides)

subsection \<open>A cluster that stands still\<close>

text \<open>A program whose value does not depend on when it runs.\<close>

definition timeless :: "('s list, 'a) state \<Rightarrow> bool" where
  "timeless m \<longleftrightarrow> (\<forall>tr. fst (run_state m tr) = fst (run_state m []))"

definition value_of :: "('s list, 'a) state \<Rightarrow> 'a" where
  "value_of m = fst (run_state m [])"

named_theorems timeless_intros "introduction rules for programs whose value does not depend on the time"

lemma timelessI: "(\<And>tr. fst (run_state m tr) = v) \<Longrightarrow> timeless m"
  by (simp add: timeless_def)

lemma timeless_value: "timeless m \<Longrightarrow> fst (run_state m tr) = value_of m"
  unfolding timeless_def value_of_def by blast

lemma timeless_return [timeless_intros]: "timeless (return x)"
  by (simp add: timeless_def)

lemma value_return [simp]: "value_of (return x) = x"
  by (simp add: value_of_def)

lemma run_bind_value:
  assumes "timeless m" and "\<And>x. timeless (f x)"
  shows "fst (run_state (State_Monad.bind m f) tr) = value_of (f (value_of m))"
  using timeless_value[OF assms(1), of tr] timeless_value[OF assms(2)]
  by (cases "run_state m tr") simp

lemma timeless_bind [timeless_intros]: "timeless m \<Longrightarrow> (\<And>x. timeless (f x)) \<Longrightarrow> timeless (State_Monad.bind m f)"
  by (rule timelessI) (rule run_bind_value)

lemma value_bind: "timeless m \<Longrightarrow> (\<And>x. timeless (f x)) \<Longrightarrow> value_of (State_Monad.bind m f) = value_of (f (value_of m))"
  unfolding value_of_def[of "State_Monad.bind m f"] by (rule run_bind_value)

lemma timeless_sum [timeless_intros]:
  "(\<And>e. timeless (f e)) \<Longrightarrow> (\<And>v. timeless (g v)) \<Longrightarrow> timeless (case_sum f g x)"
  by (cases x) auto

lemma timeless_if [timeless_intros]: "timeless m \<Longrightarrow> timeless m' \<Longrightarrow> timeless (if b then m else m')"
  by simp

lemma timeless_prod [timeless_intros]: "(\<And>a b. timeless (f a b)) \<Longrightarrow> timeless (case_prod f x)"
  by (cases x) auto

text \<open>Groups that nobody edits while a rule is resolved.\<close>

locale quiet_groups =
  fixes E :: env and G :: "NamespacedName \<Rightarrow> PowerNamespaceGroup result"
  assumes groups: "env_GetGroup E tr k = G k"
begin

lemma timeless_resolveGroups [timeless_intros]: "timeless (resolveGroups E ns names seen res)"
proof (induction names arbitrary: seen res)
  case (Cons n names)
  have "timeless (getGroup E k)" for k
    by (rule timelessI) (simp add: getGroup_def groups)
  then show ?case using Cons.IH by (auto intro!: timeless_intros simp: Let_def)
qed (simp add: timeless_return)

lemma timeless_ResolveScope [timeless_intros]: "timeless (ResolveScope E ns sc)"
  unfolding ResolveScope_def by (intro timeless_intros)

lemma timeless_resolvePolicies [timeless_intros]: "timeless (resolvePolicies E ps)"
  by (induction ps) (auto intro!: timeless_intros)

lemma timeless_resolveOverrides [timeless_intros]: "timeless (resolveOverrides E vs)"
  by (induction vs) (auto intro!: timeless_intros)

lemma timeless_previewPolicies [timeless_intros]: "timeless (previewPolicies E ed ps)"
  by (induction ps) (auto intro!: timeless_intros simp: resolvePreviewPolicyScope_def)

lemma timeless_previewOverrides [timeless_intros]: "timeless (previewOverrides E ed vs)"
  by (induction vs) (auto intro!: timeless_intros simp: resolvePreviewOverrideScope_def)

lemma timeless_loads:
  assumes "\<And>tr. env_ListPolicies E tr (rec_ControlNamespace R) = Inr ps" and "\<And>tr. env_ListOverrides E tr (rec_ControlNamespace R) = Inr vs"
  shows "timeless (loadPolicies E R)" "timeless (loadOverrides E R)"
proof -
  have t: "timeless (listPolicies E (rec_ControlNamespace R))" "timeless (listOverrides E (rec_ControlNamespace R))"
    by (rule timelessI, simp add: listPolicies_def listOverrides_def assms)+
  show "timeless (loadPolicies E R)" "timeless (loadOverrides E R)"
    unfolding loadPolicies_def loadOverrides_def namespaceListOptions_def by (intro timeless_intros t)+
qed

lemma value_loadPolicies:
  assumes "\<And>tr. env_ListPolicies E tr (rec_ControlNamespace R) = Inr ps"
  shows "value_of (loadPolicies E R) = Inr (value_of (resolvePolicies E ps))"
proof -
  have "fst (run_state (resolvePolicies E ps) tr) = value_of (resolvePolicies E ps)" for tr
    by (intro timeless_value timeless_intros)
  then show ?thesis
    unfolding value_of_def
    by (simp add: loadPolicies_def listPolicies_def namespaceListOptions_def assms split: prod.splits) (metis fst_conv)
qed

lemma value_loadOverrides:
  assumes "\<And>tr. env_ListOverrides E tr (rec_ControlNamespace R) = Inr vs"
  shows "value_of (loadOverrides E R) = Inr (value_of (resolveOverrides E vs))"
proof -
  have "fst (run_state (resolveOverrides E vs) tr) = value_of (resolveOverrides E vs)" for tr
    by (intro timeless_value timeless_intros)
  then show ?thesis
    unfolding value_of_def
    by (simp add: loadOverrides_def listOverrides_def namespaceListOptions_def assms split: prod.splits) (metis fst_conv)
qed

lemma value_resolvePolicies_Cons:
  "value_of (resolvePolicies E (p # ps)) =
     (case value_of (ResolveScope E (om_Namespace (pp_Meta p)) (pps_Scope (pp_Spec p))) of
        Inl err \<Rightarrow> value_of (resolvePolicies E ps)
      | Inr scope \<Rightarrow> (toDomainPolicy p)\<lparr>pol_Scope := scope\<rparr> # value_of (resolvePolicies E ps))"
  by (simp add: value_bind timeless_intros split: sum.split)

lemma value_resolvePolicies_append:
  "value_of (resolvePolicies E (ps @ qs)) = value_of (resolvePolicies E ps) @ value_of (resolvePolicies E qs)"
  by (induction ps) (simp_all add: value_resolvePolicies_Cons del: resolvePolicies.simps(2) split: sum.split)

lemma value_resolveOverrides_Cons:
  "value_of (resolveOverrides E (v # vs)) =
     (case value_of (ResolveScope E (om_Namespace (po_Meta v)) (pos_Scope (po_Spec v))) of
        Inl err \<Rightarrow> value_of (resolveOverrides E vs)
      | Inr scope \<Rightarrow> (toDomainOverride v)\<lparr>ovr_Scope := scope\<rparr> # value_of (resolveOverrides E vs))"
  by (simp add: value_bind timeless_intros split: sum.split)

text \<open>A preview that gets past the conversion has the rules that the reconciler would load.\<close>

lemma previewPolicies_agree:
  assumes "value_of (previewPolicies E ed ps) = Inr qs" and "\<And>p. p \<in> set ps \<Longrightarrow> previewPolicy p = toDomainPolicy p"
  shows "qs = value_of (resolvePolicies E (filter (\<lambda>p. ed \<noteq> Some (om_Namespace (pp_Meta p), om_Name (pp_Meta p))) ps))"
  using assms
proof (induction ps arbitrary: qs)
  case (Cons p ps)
  show ?case
  proof (cases "ed = Some (om_Namespace (pp_Meta p), om_Name (pp_Meta p))")
    case True
    with Cons show ?thesis by simp
  next
    case False
    let ?sc = "value_of (ResolveScope E (om_Namespace (pp_Meta p)) (pps_Scope (pp_Spec p)))"
    have "value_of (previewPolicies E ed (p # ps)) = (case ?sc of Inl err \<Rightarrow> Inl err
       | Inr resolved \<Rightarrow> (case value_of (previewPolicies E ed ps) of Inl err \<Rightarrow> Inl err
         | Inr converted \<Rightarrow> Inr ((previewPolicy p)\<lparr>pol_Scope := resolved\<rparr> # converted)))"
      using False by (simp add: value_bind timeless_intros resolvePreviewPolicyScope_def split: sum.split)
    with Cons.prems(1) obtain sc rest where sc: "?sc = Inr sc" and rest: "value_of (previewPolicies E ed ps) = Inr rest"
      and qs: "qs = (previewPolicy p)\<lparr>pol_Scope := sc\<rparr> # rest"
      by (auto split: sum.splits)
    from Cons.IH[OF rest] Cons.prems(2) False show ?thesis
      by (simp add: qs sc value_resolvePolicies_Cons del: resolvePolicies.simps(2))
  qed
qed simp

lemma previewOverrides_agree:
  assumes "value_of (previewOverrides E ed vs) = Inr ws"
  shows "ws = value_of (resolveOverrides E (filter (\<lambda>v. ed \<noteq> Some (om_Namespace (po_Meta v), om_Name (po_Meta v))) vs))"
  using assms
proof (induction vs arbitrary: ws)
  case (Cons v vs)
  show ?case
  proof (cases "ed = Some (om_Namespace (po_Meta v), om_Name (po_Meta v))")
    case True
    with Cons show ?thesis by simp
  next
    case False
    let ?sc = "value_of (ResolveScope E (om_Namespace (po_Meta v)) (pos_Scope (po_Spec v)))"
    have "value_of (previewOverrides E ed (v # vs)) = (case ?sc of Inl err \<Rightarrow> Inl err
       | Inr resolved \<Rightarrow> (case value_of (previewOverrides E ed vs) of Inl err \<Rightarrow> Inl err
         | Inr converted \<Rightarrow> Inr ((previewOverride v)\<lparr>ovr_Scope := resolved\<rparr> # converted)))"
      using False by (simp add: value_bind timeless_intros resolvePreviewOverrideScope_def split: sum.split)
    with Cons.prems obtain sc rest where sc: "?sc = Inr sc" and rest: "value_of (previewOverrides E ed vs) = Inr rest"
      and ws: "ws = (previewOverride v)\<lparr>ovr_Scope := sc\<rparr> # rest"
      by (auto split: sum.splits)
    from Cons.IH[OF rest] False show ?thesis
      by (simp add: ws sc value_resolveOverrides_Cons previewOverride_eq del: resolveOverrides.simps(2))
  qed
qed simp

lemma convertRules_agree:
  assumes "run_state (convertRules E ep eo ps vs) tr = (Inr (qs, ws), tr')" and "\<And>p. p \<in> set ps \<Longrightarrow> previewPolicy p = toDomainPolicy p"
  shows "qs = value_of (resolvePolicies E (filter (\<lambda>p. ep \<noteq> Some (om_Namespace (pp_Meta p), om_Name (pp_Meta p))) ps))"
    and "ws = value_of (resolveOverrides E (filter (\<lambda>v. eo \<noteq> Some (om_Namespace (po_Meta v), om_Name (po_Meta v))) vs))"
proof -
  have t: "timeless (convertRules E ep eo ps vs)" unfolding convertRules_def by (intro timeless_intros)
  have "value_of (convertRules E ep eo ps vs) = Inr (qs, ws)"
    using timeless_value[OF t, of tr] assms(1) by simp
  then have "value_of (previewPolicies E ep ps) = Inr qs" "value_of (previewOverrides E eo vs) = Inr ws"
    by (auto simp: convertRules_def value_bind timeless_intros split: sum.splits)
  with previewPolicies_agree[OF _ assms(2)] previewOverrides_agree
  show "qs = value_of (resolvePolicies E (filter (\<lambda>p. ep \<noteq> Some (om_Namespace (pp_Meta p), om_Name (pp_Meta p))) ps))"
    "ws = value_of (resolveOverrides E (filter (\<lambda>v. eo \<noteq> Some (om_Namespace (po_Meta v), om_Name (po_Meta v))) vs))"
    by auto
qed

end

text \<open>The groups as they are at one moment of any cluster.\<close>

definition frozen_groups :: "env \<Rightarrow> trace \<Rightarrow> env" where
  "frozen_groups E tr = E\<lparr>env_GetGroup := (\<lambda>_. env_GetGroup E tr)\<rparr>"

interpretation frozen: quiet_groups "frozen_groups E tr" "env_GetGroup E tr" for E tr
  by unfold_locales (simp add: frozen_groups_def)

lemma requireControlNamespace_own [simp]: "requireControlNamespace s (controlNamespace s) = None"
  by (simp add: requireControlNamespace_def)

lemma proposedMeta_simps [simp]:
  "om_Namespace (pp_Meta (proposedPolicy ns name spec now)) = ns" "om_Name (pp_Meta (proposedPolicy ns name spec now)) = name"
  "pps_Scope (pp_Spec (proposedPolicy ns name spec now)) = pps_Scope spec"
  by (simp_all add: proposedPolicy_def proposedMeta_def)

text \<open>The two conversions of the domain meet in one list of rules.\<close>

lemma PreviewPolicy_lists:
  fixes tz p ts ps vs c now
  defines "change \<equiv> \<lambda>t. impact_of (ComputeDecision tz t ps vs c now) (ComputeDecision tz t (ps @ [p]) vs c now)"
  defines "r \<equiv> newPreviewResponse (PreviewPolicy tz p (map previewTarget ts) ps vs c now)"
  shows "prv_AffectedOn r = refs_with change TurnsOn (map toDomainTarget ts) \<and>
    prv_AffectedOff r = refs_with change TurnsOff (map toDomainTarget ts) \<and>
    map bt_Ref (prv_Blocked r) = refs_with change Refused (map toDomainTarget ts) \<and>
    prv_TotalAffected r = int (length (filter (\<lambda>t. change t \<in> {TurnsOn, TurnsOff, Refused}) (map toDomainTarget ts)))"
proof -
  have "length (filter P (map f ts)) = length (filter (\<lambda>t. P (f t)) ts)" for P and f :: "PowerTarget \<Rightarrow> Target"
    by (induction ts) simp_all
  then show ?thesis
    using PreviewPolicy_exact[of tz ps vs c now p "map previewTarget ts"]
    by (simp add: r_def newPreviewResponse_def refs_with_map change_def previewTarget_decides Let_def)
qed

lemma emits_convertRules: "emits group_read (convertRules E ep eo ps vs)"
proof -
  have "emits group_read (previewPolicies E ep ps)"
    by (induction ps) (auto intro!: emits_intros emits_ResolveScope simp: resolvePreviewPolicyScope_def)
  moreover have "emits group_read (previewOverrides E eo vs)"
    by (induction vs) (auto intro!: emits_intros emits_ResolveScope simp: resolvePreviewOverrideScope_def)
  ultimately show ?thesis unfolding convertRules_def by (intro emits_intros)
qed

section \<open>The changes that a preview lists\<close>

text \<open>
  In a cluster whose objects do not change meanwhile, for policies that pass the schema of the custom resource, the
  lists of an answered preview are, in the order of the targets, those for which the decision under the guardrails of
  the server changes in this way when the policy is added to the rules as the reconciler loads them.
\<close>

lemma previewed_changes:
  fixes E s name spec ps vs ts
  defines "kept \<equiv> filter (\<lambda>p. (controlNamespace s, name) \<noteq> (om_Namespace (pp_Meta p), om_Name (pp_Meta p))) ps"
  assumes "quiet_groups E G"
    and lists: "\<And>tr. env_ListTargets E tr (controlNamespace s) = Inr ts" "\<And>tr. env_ListPolicies E tr (controlNamespace s) = Inr ps"
      "\<And>tr. env_ListOverrides E tr (controlNamespace s) = Inr vs"
    and crd: "crd_policy spec" "list_all (\<lambda>p. crd_policy (pp_Spec p)) ps"
    and run: "run_state (handlePreviewPolicy E s None (Some name) (Inr spec)) tr = (Answer 200 r, tr')"
  shows "\<exists>created now. {Now created, Now now} \<subseteq> set tr' \<and>
    (let rules = value_of (resolvePolicies E kept);
         rules' = value_of (resolvePolicies E (kept @ [proposedPolicy (controlNamespace s) name spec created]));
         overrides = value_of (resolveOverrides E vs);
         decide = (\<lambda>rules t. ComputeDecision (env_tzdb E) t rules overrides (srv_GuardrailConfig s) now);
         change = (\<lambda>t. impact_of (decide rules t) (decide rules' t));
         targets = map toDomainTarget ts
     in prv_AffectedOn r = refs_with change TurnsOn targets \<and> prv_AffectedOff r = refs_with change TurnsOff targets \<and>
        map bt_Ref (prv_Blocked r) = refs_with change Refused targets \<and>
        prv_TotalAffected r = int (length (filter (\<lambda>t. change t \<in> {TurnsOn, TurnsOff, Refused}) targets)))"
proof -
  note quiet = \<open>quiet_groups E G\<close>
  define c where "c = controlNamespace s"
  obtain tr1 where load: "run_state (loadState E s) tr = (Inr (ts, ps, vs), tr1)"
    by (simp add: loadState_def listTargets_def listPolicies_def listOverrides_def lists)
  define created where "created = env_Now E tr1"
  define p where "p = proposedPolicy c name spec created"
  obtain sc tr2 where scope: "run_state (ResolveScope E c (pps_Scope spec)) (Now created # tr1) = (Inr sc, tr2)"
    and conv: "run_state (do {
        rules \<leftarrow> convertRules E (Some (c, name)) None ps vs;
        case rules of
          Inl err \<Rightarrow> return (refuse 422 (err_Text err))
        | Inr (domainPolicies, domainOverrides) \<Rightarrow> do {
            now \<leftarrow> time_Now E;
            return (Answer 200 (newPreviewResponse (PreviewPolicy (env_tzdb E) ((previewPolicy p)\<lparr>pol_Scope := sc\<rparr>)
              (map previewTarget ts) domainPolicies domainOverrides (srv_GuardrailConfig s) now)))
          } }) tr2 = (Answer 200 r, tr')"
    using run load
    by (auto simp: handlePreviewPolicy_def resolvePreviewPolicyScope_def time_Now_def created_def[symmetric] p_def c_def Let_def
        split: sum.splits prod.splits)
  then obtain qs ws tr3 where rules: "run_state (convertRules E (Some (c, name)) None ps vs) tr2 = (Inr (qs, ws), tr3)"
    and r: "r = newPreviewResponse (PreviewPolicy (env_tzdb E) ((previewPolicy p)\<lparr>pol_Scope := sc\<rparr>)
      (map previewTarget ts) qs ws (srv_GuardrailConfig s) (env_Now E tr3))" and tr': "tr' = Now (env_Now E tr3) # tr3"
    by (auto simp: time_Now_def split: sum.splits prod.splits)
  have agree: "previewPolicy p = toDomainPolicy p" "q \<in> set ps \<Longrightarrow> previewPolicy q = toDomainPolicy q" for q
    using crd previewPolicy_crd by (auto simp: p_def proposedPolicy_def list_all_iff)
  have qs: "qs = value_of (resolvePolicies E kept)" and ws: "ws = value_of (resolveOverrides E vs)"
    using quiet_groups.convertRules_agree[OF quiet rules agree(2)] by (simp_all add: kept_def c_def)
  have "value_of (ResolveScope E c (pps_Scope spec)) = Inr sc"
    using scope timeless_value[OF quiet_groups.timeless_ResolveScope[OF quiet]] by (metis fst_conv)
  then have rules': "value_of (resolvePolicies E (kept @ [p])) = qs @ [(previewPolicy p)\<lparr>pol_Scope := sc\<rparr>]"
    by (simp add: quiet_groups.value_resolvePolicies_append[OF quiet] quiet_groups.value_resolvePolicies_Cons[OF quiet]
        qs agree(1)[unfolded p_def] p_def del: resolvePolicies.simps(2))
  have "Now created \<in> set tr3"
    using emits_grows[OF emits_ResolveScope scope] emits_grows[OF emits_convertRules rules] by auto
  then have clock: "{Now created, Now (env_Now E tr3)} \<subseteq> set tr'" by (simp add: tr')
  note lists = PreviewPolicy_lists[of "env_tzdb E" "(previewPolicy p)\<lparr>pol_Scope := sc\<rparr>" ts qs ws "srv_GuardrailConfig s" "env_Now E tr3", folded r]
  show ?thesis
    by (rule exI[of _ created], rule exI[of _ "env_Now E tr3"], rule conjI[OF clock],
      unfold Let_def c_def[symmetric] p_def[symmetric] rules' qs[symmetric] ws[symmetric], rule lists)
qed

text \<open>A cluster with one running workload and no rules, and a policy that is to turn it off.\<close>

definition still_cluster :: env where
  "still_cluster = empty_cluster\<lparr>env_ListTargets := (\<lambda>_ _. Inr [web_target]), env_ListPolicies := (\<lambda>_ _. Inr []),
     env_ListOverrides := (\<lambda>_ _. Inr [])\<rparr>"

definition off_spec :: PowerPolicySpec where
  "off_spec = \<lparr>pps_Scope = \<lparr>scope_TargetRefs = [], scope_Namespaces = [''dev''], scope_NamespaceGroups = [],
       scope_NamespaceLabels = [], scope_WorkloadNames = [], scope_WorkloadLabels = []\<rparr>,
     pps_Schedule = \<lparr>psch_Windows = [], psch_DesiredState = ''off''\<rparr>, pps_Priority = 5, pps_Description = ''''\<rparr>"

definition preview_server :: Server where
  "preview_server = \<lparr>srv_ControlNamespace = '''', srv_GuardrailConfig = DefaultGuardrailConfig\<rparr>"

definition web_ref :: WorkloadRef where
  "web_ref = \<lparr>ref_Cluster = '''', ref_APIVersion = ''apps/v1'', ref_Namespace = ''dev'', ref_Name = ''web'',
     ref_Kind = ''Deployment'', ref_UID = ''u1''\<rparr>"

lemma still_cluster_simps [simp]:
  "env_GetGroup still_cluster tr k = Inl not_found" "env_ListTargets still_cluster tr ns = Inr [web_target]"
  "env_ListPolicies still_cluster tr ns = Inr []" "env_ListOverrides still_cluster tr ns = Inr []"
  by (simp_all add: still_cluster_def empty_cluster_def)

end
