(* ===== verification/Notifications.thy ===== *)
theory Notifications
  imports Retry GoStrings
begin

text \<open>
  The notification dispatcher (\<open>src/internal/adapters/driven/notifications/dispatcher.go\<close> and
  \<open>senders.go\<close>) and its custom resource (\<open>src/api/v1alpha1/powernotificationchannel_types.go\<close>).  The
  dispatcher talks to the API server, to the secret store and to webhooks, so it has its own calls
  and its own environment, which again may answer anything.  Logging is left out.  The map of the
  throttle, which the code guards with a mutex and which only one goroutine uses, is passed along.
\<close>

section \<open>Data\<close>

record SecretKeyRef =
  skr_Name :: string
  skr_Key :: string

record PowerNotificationChannelSpec =
  ncs_Type :: string
  ncs_URL :: string
  ncs_URLFrom :: "SecretKeyRef option"
  ncs_Events :: "string list"
  ncs_NamespaceFilter :: "string list"
  ncs_Throttle :: string
  ncs_Enabled :: bool

record NotificationAttemptStatus =
  na_ID :: string
  na_EventIDs :: "string list"
  na_AuditEventRefs :: "string list"
  na_Phase :: string
  na_StartedAt :: go_time
  na_CompletedAt :: "go_time option"
  na_ProviderStatusCode :: int
  na_AttemptCount :: int
  na_Response :: string

record PowerNotificationChannelStatus =
  ncst_LastNotification :: "go_time option"
  ncst_LastError :: string
  ncst_TotalSent :: int
  ncst_TotalErrors :: int
  ncst_LastAttempt :: "NotificationAttemptStatus option"
  ncst_RecentAttempts :: "NotificationAttemptStatus list"

record PowerNotificationChannel =
  nc_Meta :: ObjectMeta
  nc_Spec :: PowerNotificationChannelSpec
  nc_Status :: PowerNotificationChannelStatus

record TargetRef =
  ntr_Namespace :: string
  ntr_Name :: string
  ntr_Kind :: string
  ntr_UID :: string

record Event =
  ev_AuditEventRef :: string
  ev_AttemptID :: string
  ev_EventIDs :: "string list"
  ev_AuditEventRefs :: "string list"
  ev_Action :: string
  ev_Target :: TargetRef
  ev_Result :: string
  ev_Reason :: string
  ev_RuleName :: string
  ev_Timestamp :: go_time

record DeliveryResponse =
  dr_StatusCode :: int
  dr_Attempts :: int

text \<open>
  A payload is its JSON value.  \<open>json.Marshal\<close> of strings, lists and maps with string keys cannot
  fail.
\<close>

datatype json = JStr string | JArr "json list" | JObj "(string \<times> json) list"

text \<open>What \<open>url.ParseRequestURI\<close> finds; \<open>url_User\<close> tells whether there is user information.\<close>

record URL =
  url_Scheme :: string
  url_Host :: string
  url_User :: bool

section \<open>Calls\<close>

datatype (plugins only: code size) notice =
    Clock go_time
  | ListChannels string "PowerNotificationChannel list result"
  | GetChannel NamespacedName "PowerNotificationChannel result"
  | StatusUpdateChannel PowerNotificationChannel "PowerNotificationChannel result"
  | GetSecret NamespacedName "strmap result"
  | ContextErr "go_error option"
  | Backoff go_duration "go_error option"
  | Post string json "int result"

type_synonym notices = "notice list"
type_synonym 'a nio = "(notices, 'a) state"

text \<open>
  \<open>ne_Wait\<close> is the wait for a timer or the end of the context, whichever is first; the latter gives
  the error of the context.  \<open>ne_Do\<close> is one HTTP request, with the status code of the answer.  The
  formats of times, \<open>%q\<close>, the digest (its first 16 bytes in hexadecimal) and the two parsers are
  those of the standard library.
\<close>

record nenv =
  ne_Now :: "notices \<Rightarrow> go_time"
  ne_ListChannels :: "notices \<Rightarrow> string \<Rightarrow> PowerNotificationChannel list result"
  ne_GetChannel :: "notices \<Rightarrow> NamespacedName \<Rightarrow> PowerNotificationChannel result"
  ne_StatusUpdateChannel :: "notices \<Rightarrow> PowerNotificationChannel \<Rightarrow> PowerNotificationChannel result"
  ne_GetSecret :: "notices \<Rightarrow> NamespacedName \<Rightarrow> strmap result"
  ne_CtxErr :: "notices \<Rightarrow> go_error option"
  ne_Wait :: "notices \<Rightarrow> go_duration \<Rightarrow> go_error option"
  ne_NewRequest :: "string \<Rightarrow> go_error option"
  ne_Do :: "notices \<Rightarrow> string \<Rightarrow> json \<Rightarrow> int result"
  ne_sha256 :: "string \<Rightarrow> string"
  ne_RFC3339 :: "go_time \<Rightarrow> string"
  ne_RFC3339Nano :: "go_time \<Rightarrow> string"
  ne_ClockFormat :: "go_time \<Rightarrow> string"
  ne_Quote :: "string \<Rightarrow> string"
  ne_ParseDuration :: "string \<Rightarrow> go_duration option"
  ne_ParseRequestURI :: "string \<Rightarrow> URL option"

definition clock :: "nenv \<Rightarrow> go_time nio" where
  "clock N = call (ne_Now N) Clock"

definition ctx_Err :: "nenv \<Rightarrow> go_error option nio" where
  "ctx_Err N = call (ne_CtxErr N) ContextErr"

definition getChannel :: "nenv \<Rightarrow> NamespacedName \<Rightarrow> PowerNotificationChannel result nio" where
  "getChannel N key = call (\<lambda>tr. ne_GetChannel N tr key) (GetChannel key)"

definition statusUpdateChannel :: "nenv \<Rightarrow> PowerNotificationChannel \<Rightarrow> PowerNotificationChannel result nio" where
  "statusUpdateChannel N c = call (\<lambda>tr. ne_StatusUpdateChannel N tr c) (StatusUpdateChannel c)"

definition getSecret :: "nenv \<Rightarrow> NamespacedName \<Rightarrow> strmap result nio" where
  "getSecret N key = call (\<lambda>tr. ne_GetSecret N tr key) (GetSecret key)"

definition http_Do :: "nenv \<Rightarrow> string \<Rightarrow> json \<Rightarrow> int result nio" where
  "http_Do N url payload = call (\<lambda>tr. ne_Do N tr url payload) (Post url payload)"

definition wait_backoff :: "nenv \<Rightarrow> go_duration \<Rightarrow> go_error option nio" where
  "wait_backoff N d = call (\<lambda>tr. ne_Wait N tr d) (Backoff d)"

lemmas notice_call_defs = clock_def ctx_Err_def getChannel_def statusUpdateChannel_def getSecret_def http_Do_def wait_backoff_def

type_synonym nretrier = "nat \<Rightarrow> (go_error \<Rightarrow> bool nio) \<Rightarrow> (bool \<Rightarrow> go_error option nio) \<Rightarrow> go_error option nio"

section \<open>Senders\<close>

definition nl :: string where "nl = [char_of (10::nat)]"

text \<open>The bullet U+2022 between blanks, in UTF-8.\<close>

definition bullet :: string where
  "bullet = '' '' @ [char_of (226::nat), char_of (128::nat), char_of (162::nat)] @ '' ''"

text \<open>The loop of \<open>httpPostDetailed\<close> with \<open>n\<close> of its three iterations left.\<close>

primrec httpAttempts :: "nenv \<Rightarrow> string \<Rightarrow> json \<Rightarrow> nat \<Rightarrow> int \<Rightarrow> go_error option \<Rightarrow> (DeliveryResponse \<times> go_error option) nio" where
  "httpAttempts N url payload 0 lastStatus lastErr = return (\<lparr>dr_StatusCode = lastStatus, dr_Attempts = 3\<rparr>, lastErr)"
| "httpAttempts N url payload (Suc n) lastStatus lastErr =
     (let attempt = 2 - int n in do {
        w \<leftarrow> (if attempt > 0 then wait_backoff N (attempt * attempt * Second) else return None);
        case w of
          Some err \<Rightarrow> return (\<lparr>dr_StatusCode = 0, dr_Attempts = attempt\<rparr>, Some err)
        | None \<Rightarrow> do {
            c \<leftarrow> ctx_Err N;
            case c of
              Some err \<Rightarrow> return (\<lparr>dr_StatusCode = 0, dr_Attempts = attempt\<rparr>, Some err)
            | None \<Rightarrow>
                (case ne_NewRequest N url of
                   Some err \<Rightarrow> return (\<lparr>dr_StatusCode = 0, dr_Attempts = attempt + 1\<rparr>, Some (wrap_error ''create request: '' err ''''))
                 | None \<Rightarrow> do {
                     r \<leftarrow> http_Do N url payload;
                     case r of
                       Inl err \<Rightarrow> httpAttempts N url payload n lastStatus (Some (wrap_error ''request failed: '' err ''''))
                     | Inr code \<Rightarrow>
                         if 200 \<le> code \<and> code < 300
                         then return (\<lparr>dr_StatusCode = code, dr_Attempts = attempt + 1\<rparr>, None)
                         else httpAttempts N url payload n code (Some (errors_New (''webhook returned '' @ go_itoa code)))
                   })
          }
      })"

definition httpPostDetailed :: "nenv \<Rightarrow> string \<Rightarrow> json \<Rightarrow> (DeliveryResponse \<times> go_error option) nio" where
  "httpPostDetailed N url payload = httpAttempts N url payload 3 0 None"

definition httpPost :: "nenv \<Rightarrow> string \<Rightarrow> json \<Rightarrow> go_error option nio" where
  "httpPost N url payload = do { r \<leftarrow> httpPostDetailed N url payload; return (snd r) }"

definition actionLabels :: "(string \<times> string) list" where
  "actionLabels =
     [(''workload.powered_down'', ''Workload Powered Down''),
      (''workload.restored'', ''Workload Restored''),
      (''execution.error'', ''Execution Error''),
      (''override.created'', ''Override Created''),
      (''override.expired'', ''Override Expired'')]"

definition formatActionLabel :: "string \<Rightarrow> string" where
  "formatActionLabel action = (case map_of actionLabels action of Some l \<Rightarrow> l | None \<Rightarrow> action)"

text \<open>A sender; the observable ones also report what the provider answered.\<close>

record Sender =
  sd_Type :: string
  sd_Send :: "string \<Rightarrow> Event \<Rightarrow> go_error option nio"
  sd_SendWithResult :: "(string \<Rightarrow> Event \<Rightarrow> (DeliveryResponse \<times> go_error option) nio) option"

definition decoratedText :: "string \<Rightarrow> string \<Rightarrow> json" where
  "decoratedText label text_value = JObj [(''decoratedText'', JObj [(''topLabel'', JStr label), (''text'', JStr text_value)])]"

definition googleChatPayload :: "nenv \<Rightarrow> Event \<Rightarrow> json" where
  "googleChatPayload N event =
     JObj [(''cardsV2'', JArr [JObj [
       (''cardId'', JStr ''aura-power-event''),
       (''card'', JObj [
         (''header'', JObj [(''title'', JStr ''Aura Power''), (''subtitle'', JStr (formatActionLabel (ev_Action event)))]),
         (''sections'', JArr [JObj [(''widgets'', JArr [
            decoratedText ''Target'' (ntr_Namespace (ev_Target event) @ ''/'' @ ntr_Name (ev_Target event) @ '' ('' @ ntr_Kind (ev_Target event) @ '')''),
            decoratedText ''Action'' (ev_Reason event),
            decoratedText ''Rule'' (ev_RuleName event),
            decoratedText ''Result'' (ev_Result event),
            decoratedText ''Time'' (ne_RFC3339 N (ev_Timestamp event)),
            decoratedText ''Correlation'' (ev_AttemptID event)])]])])]])]"

definition mrkdwn :: "string \<Rightarrow> json" where
  "mrkdwn text_value = JObj [(''type'', JStr ''mrkdwn''), (''text'', JStr text_value)]"

definition slackPayload :: "nenv \<Rightarrow> Event \<Rightarrow> json" where
  "slackPayload N event =
     JObj [(''blocks'', JArr [
       JObj [(''type'', JStr ''header''),
         (''text'', JObj [(''type'', JStr ''plain_text''), (''text'', JStr (''Aura Power: '' @ formatActionLabel (ev_Action event)))])],
       JObj [(''type'', JStr ''section''),
         (''fields'', JArr [
            mrkdwn (''*Target:*'' @ nl @ ntr_Namespace (ev_Target event) @ ''/'' @ ntr_Name (ev_Target event)),
            mrkdwn (''*Kind:*'' @ nl @ ntr_Kind (ev_Target event)),
            mrkdwn (''*Rule:*'' @ nl @ ev_RuleName event),
            mrkdwn (''*Result:*'' @ nl @ ev_Result event)])],
       JObj [(''type'', JStr ''context''),
         (''elements'', JArr [mrkdwn (ev_Reason event @ bullet @ ne_ClockFormat N (ev_Timestamp event) @ bullet @ ev_AttemptID event)])]])]"

definition genericPayload :: "nenv \<Rightarrow> Event \<Rightarrow> json" where
  "genericPayload N event =
     JObj [(''version'', JStr ''1''), (''event'', JStr (ev_Action event)), (''timestamp'', JStr (ne_RFC3339 N (ev_Timestamp event))),
       (''correlation'', JObj [(''attemptID'', JStr (ev_AttemptID event)), (''eventIDs'', JArr (map JStr (ev_EventIDs event))),
          (''auditEventRefs'', JArr (map JStr (ev_AuditEventRefs event)))]),
       (''target'', JObj [(''namespace'', JStr (ntr_Namespace (ev_Target event))), (''name'', JStr (ntr_Name (ev_Target event))),
          (''kind'', JStr (ntr_Kind (ev_Target event))), (''uid'', JStr (ntr_UID (ev_Target event)))]),
       (''action'', JObj [(''type'', JStr (ev_Action event)), (''result'', JStr (ev_Result event)),
          (''reason'', JStr (ev_Reason event)), (''ruleName'', JStr (ev_RuleName event))])]"

text \<open>The senders: \<open>Send\<close> drops what \<open>SendWithResult\<close> observed.\<close>

definition payloadSender :: "nenv \<Rightarrow> string \<Rightarrow> (Event \<Rightarrow> json) \<Rightarrow> Sender" where
  "payloadSender N type_name payload =
     \<lparr>sd_Type = type_name,
      sd_Send = (\<lambda>url event. do { r \<leftarrow> httpPostDetailed N url (payload event); return (snd r) }),
      sd_SendWithResult = Some (\<lambda>url event. httpPostDetailed N url (payload event))\<rparr>"

definition GoogleChatSender :: "nenv \<Rightarrow> Sender" where
  "GoogleChatSender N = payloadSender N ''google-chat'' (googleChatPayload N)"

definition SlackSender :: "nenv \<Rightarrow> Sender" where
  "SlackSender N = payloadSender N ''slack'' (slackPayload N)"

definition GenericSender :: "nenv \<Rightarrow> Sender" where
  "GenericSender N = payloadSender N ''generic'' (genericPayload N)"

end
