(* ===== verification/ApiEffects.thy ===== *)
theory ApiEffects
  imports Approval ApiPreview Notifications
begin

text \<open>
  The calls of the API server (\<open>src/internal/adapters/driving/api\<close>).  Its handlers use what the
  controllers use (the rules, the targets, the groups, the clock) and what the sessions use, and they call
  the API server of the cluster for kinds of their own.  A run is again the trace of all calls; programs over
  the events of the controllers and of the sessions are lifted to it.
\<close>

section \<open>Calls\<close>

text \<open>The objects that a handler reads, writes or deletes on behalf of a user.\<close>

datatype resource =
    PolicyResource PowerPolicy
  | OverrideResource PowerOverride
  | GroupResource PowerNamespaceGroup
  | ChannelResource PowerNotificationChannel

datatype resource_kind = PolicyResources | OverrideResources | GroupResources | ChannelResources

fun resource_Kind :: "resource \<Rightarrow> resource_kind" where
  "resource_Kind (PolicyResource p) = PolicyResources"
| "resource_Kind (OverrideResource v) = OverrideResources"
| "resource_Kind (GroupResource g) = GroupResources"
| "resource_Kind (ChannelResource c) = ChannelResources"

fun resource_Meta :: "resource \<Rightarrow> ObjectMeta" where
  "resource_Meta (PolicyResource p) = pp_Meta p"
| "resource_Meta (OverrideResource v) = po_Meta v"
| "resource_Meta (GroupResource g) = png_Meta g"
| "resource_Meta (ChannelResource c) = nc_Meta c"

fun map_Meta :: "(ObjectMeta \<Rightarrow> ObjectMeta) \<Rightarrow> resource \<Rightarrow> resource" where
  "map_Meta f (PolicyResource p) = PolicyResource (p\<lparr>pp_Meta := f (pp_Meta p)\<rparr>)"
| "map_Meta f (OverrideResource v) = OverrideResource (v\<lparr>po_Meta := f (po_Meta v)\<rparr>)"
| "map_Meta f (GroupResource g) = GroupResource (g\<lparr>png_Meta := f (png_Meta g)\<rparr>)"
| "map_Meta f (ChannelResource c) = ChannelResource (c\<lparr>nc_Meta := f (nc_Meta c)\<rparr>)"

datatype (plugins only: code size) api_event =
    Kube event
  | Session deed
  | ListLabelled string strmap "PowerTarget list result"
  | ListLimited string nat "PowerTarget list result"
  | ListGroups string "PowerNamespaceGroup list result"
  | ListChannels string "PowerNotificationChannel list result"
  | PingStore "go_error option"
  | GetResource resource_kind NamespacedName "resource result"
  | CreateResource resource "resource result"
  | UpdateResource resource "resource result"
  | DeleteResource resource_kind NamespacedName "unit result"
  | WriteString string "unit result"

type_synonym api_trace = "api_event list"
type_synonym 'a sio = "(api_trace, 'a) state"

text \<open>
  The environment.  At every moment there is an environment for the calls of the controllers and one for those of
  the sessions; both may depend on everything that happened before.  The formatting of numbers and times and the order
  in which Go enumerates a map are parameters too.
\<close>

record server_env =
  sv_Kube :: "api_trace \<Rightarrow> env"
  sv_Session :: "api_trace \<Rightarrow> aenv"
  sv_ListLabelled :: "api_trace \<Rightarrow> string \<Rightarrow> strmap \<Rightarrow> PowerTarget list result"
  sv_ListLimited :: "api_trace \<Rightarrow> string \<Rightarrow> nat \<Rightarrow> PowerTarget list result"
  sv_ListGroups :: "api_trace \<Rightarrow> string \<Rightarrow> PowerNamespaceGroup list result"
  sv_ListChannels :: "api_trace \<Rightarrow> string \<Rightarrow> PowerNotificationChannel list result"
  sv_PingStore :: "api_trace \<Rightarrow> go_error option"
  sv_GetResource :: "api_trace \<Rightarrow> resource_kind \<Rightarrow> NamespacedName \<Rightarrow> resource result"
  sv_CreateResource :: "api_trace \<Rightarrow> resource \<Rightarrow> resource result"
  sv_UpdateResource :: "api_trace \<Rightarrow> resource \<Rightarrow> resource result"
  sv_DeleteResource :: "api_trace \<Rightarrow> resource_kind \<Rightarrow> NamespacedName \<Rightarrow> unit result"
  sv_WriteString :: "api_trace \<Rightarrow> string \<Rightarrow> unit result"
  sv_Enumerate :: "api_trace \<Rightarrow> (string \<times> float64) list \<Rightarrow> (string \<times> float64) list"
  sv_FormatFixed :: "nat \<Rightarrow> float64 \<Rightarrow> string"
  sv_FormatTime :: "go_time \<Rightarrow> string"
  sv_rnd :: rounding

text \<open>
  A program over other events, run at this point: it sees the answers of the environment of this moment and its
  calls are added to the trace.
\<close>

definition embed :: "('e \<Rightarrow> api_event) \<Rightarrow> (api_trace \<Rightarrow> ('e list, 'a) state) \<Rightarrow> 'a sio" where
  "embed ev m = State (\<lambda>tr. let (a, new) = run_state (m tr) [] in (a, map ev new @ tr))"

definition kube :: "server_env \<Rightarrow> (env \<Rightarrow> 'a io) \<Rightarrow> 'a sio" where
  "kube S m = embed Kube (\<lambda>tr. m (sv_Kube S tr))"

definition in_session :: "server_env \<Rightarrow> (aenv \<Rightarrow> 'a aio) \<Rightarrow> 'a sio" where
  "in_session S m = embed Session (\<lambda>tr. m (sv_Session S tr))"

definition listLabelled :: "server_env \<Rightarrow> string \<Rightarrow> strmap \<Rightarrow> PowerTarget list result sio" where
  "listLabelled S ns labels = call (\<lambda>tr. sv_ListLabelled S tr ns labels) (ListLabelled ns labels)"

definition listLimited :: "server_env \<Rightarrow> string \<Rightarrow> nat \<Rightarrow> PowerTarget list result sio" where
  "listLimited S ns n = call (\<lambda>tr. sv_ListLimited S tr ns n) (ListLimited ns n)"

definition listGroups :: "server_env \<Rightarrow> string \<Rightarrow> PowerNamespaceGroup list result sio" where
  "listGroups S ns = call (\<lambda>tr. sv_ListGroups S tr ns) (ListGroups ns)"

definition listChannelObjects :: "server_env \<Rightarrow> string \<Rightarrow> PowerNotificationChannel list result sio" where
  "listChannelObjects S ns = call (\<lambda>tr. sv_ListChannels S tr ns) (ListChannels ns)"

definition pingStore :: "server_env \<Rightarrow> go_error option sio" where
  "pingStore S = call (sv_PingStore S) PingStore"

definition getResource :: "server_env \<Rightarrow> resource_kind \<Rightarrow> NamespacedName \<Rightarrow> resource result sio" where
  "getResource S k key = call (\<lambda>tr. sv_GetResource S tr k key) (GetResource k key)"

definition createResource :: "server_env \<Rightarrow> resource \<Rightarrow> resource result sio" where
  "createResource S r = call (\<lambda>tr. sv_CreateResource S tr r) (CreateResource r)"

definition updateResource :: "server_env \<Rightarrow> resource \<Rightarrow> resource result sio" where
  "updateResource S r = call (\<lambda>tr. sv_UpdateResource S tr r) (UpdateResource r)"

definition deleteResource :: "server_env \<Rightarrow> resource_kind \<Rightarrow> NamespacedName \<Rightarrow> unit result sio" where
  "deleteResource S k key = call (\<lambda>tr. sv_DeleteResource S tr k key) (DeleteResource k key)"

definition writeString :: "server_env \<Rightarrow> string \<Rightarrow> unit result sio" where
  "writeString S s = call (\<lambda>tr. sv_WriteString S tr s) (WriteString s)"

lemmas server_calls = listLabelled_def listLimited_def listGroups_def listChannelObjects_def pingStore_def
  getResource_def createResource_def updateResource_def deleteResource_def writeString_def

section \<open>Lemmas\<close>

lemma run_embed: "run_state (embed ev m) tr = (fst (run_state (m tr) []), map ev (snd (run_state (m tr) [])) @ tr)"
  by (simp add: embed_def split_beta)

lemma emits_embed:
  assumes "\<And>tr. emits A (m tr)" and "\<And>e. A e \<Longrightarrow> B (ev e)"
  shows "emits B (embed ev m)"
  unfolding emits_def
proof
  fix tr
  obtain a new where run: "run_state (m tr) [] = (a, new)" by fastforce
  have "\<forall>e\<in>set new. A e" using emits_events[OF assms(1) run] by blast
  then show "\<exists>new. snd (run_state (embed ev m) tr) = new @ tr \<and> (\<forall>e\<in>set new. B e)"
    using assms(2) by (intro exI[of _ "map ev new"]) (auto simp: run_embed run)
qed

lemma emits_kube: "(\<And>E. emits A (m E)) \<Longrightarrow> (\<And>e. A e \<Longrightarrow> B (Kube e)) \<Longrightarrow> emits B (kube S m)"
  unfolding kube_def by (rule emits_embed)

lemma emits_in_session: "(\<And>A. emits P (m A)) \<Longrightarrow> (\<And>e. P e \<Longrightarrow> B (Session e)) \<Longrightarrow> emits B (in_session S m)"
  unfolding in_session_def by (rule emits_embed)

end
