(* ===== verification/AuditLog.thy ===== *)
theory AuditLog
  imports Effects
begin

text \<open>
  The audit recorder (\<open>src/internal/adapters/driven/kubernetes/audit.go\<close>): an audit event is stored
  as a \<open>PowerAuditEvent\<close>, read back and compared, and only then handed to the notification queue.
\<close>

section \<open>The operations\<close>

text \<open>\<open>ar_Notifier\<close> tells whether a notification dispatcher is attached.\<close>

record AuditRecorder =
  ar_Namespace :: string
  ar_Notifier :: bool

definition createAuditEvent :: "env \<Rightarrow> PowerAuditEvent \<Rightarrow> PowerAuditEvent result io" where
  "createAuditEvent E e = call (\<lambda>tr. env_CreateAuditEvent E tr e) (CreateAuditEvent e)"

definition getAuditEvent :: "env \<Rightarrow> NamespacedName \<Rightarrow> PowerAuditEvent result io" where
  "getAuditEvent E key = call (\<lambda>tr. env_GetAuditEvent E tr key) (GetAuditEvent key)"

definition enqueue :: "env \<Rightarrow> Notification \<Rightarrow> unit result io" where
  "enqueue E n = call (\<lambda>tr. env_Enqueue E tr n) (Enqueue n)"

lemmas audit_call_defs = createAuditEvent_def getAuditEvent_def enqueue_def

definition validateNotificationDisposition :: "AuditEvent \<Rightarrow> go_error option" where
  "validateNotificationDisposition event =
     (if ae_SuppressNotification event then
        (if ae_NotificationSuppressionSource event \<noteq> ''namespace-label''
            \<or> ae_NotificationSuppressionNamespaceUID event = ''''
         then Some (errors_New ''suppressed notification requires a live namespace-label decision bound to a namespace UID'')
         else None)
      else if ae_NotificationSuppressionSource event \<noteq> ''''
      then Some (errors_New ''notification suppression source is set for a deliverable event'')
      else None)"

definition isNotifiableAction :: "string \<Rightarrow> bool" where
  "isNotifiableAction action \<longleftrightarrow>
     action \<in> {''workload.powered_down'', ''workload.restored'', ''execution.error'',
               ''override.created'', ''override.expired'', ''policy.created'', ''policy.deleted''}"

definition truncateSecond :: "go_time \<Rightarrow> go_time" where
  "truncateSecond t = t div Second * Second"

definition auditSpecsEqual :: "PowerAuditEventSpec \<Rightarrow> PowerAuditEventSpec \<Rightarrow> bool" where
  "auditSpecsEqual left right \<longleftrightarrow>
     left\<lparr>aes_Timestamp := truncateSecond (aes_Timestamp left)\<rparr> =
     right\<lparr>aes_Timestamp := truncateSecond (aes_Timestamp right)\<rparr>"

definition auditSpec :: "AuditEvent \<Rightarrow> PowerAuditEventSpec" where
  "auditSpec event =
     \<lparr>aes_Timestamp = ae_Timestamp event, aes_Action = ae_Action event, aes_Actor = ae_Actor event,
      aes_Target = \<lparr>arr_Cluster = ref_Cluster (ae_Target event), arr_APIVersion = ref_APIVersion (ae_Target event),
        arr_Namespace = ref_Namespace (ae_Target event), arr_Name = ref_Name (ae_Target event),
        arr_Kind = ref_Kind (ae_Target event), arr_UID = ref_UID (ae_Target event)\<rparr>,
      aes_Result = ae_Result event, aes_Reason = ae_Reason event, aes_RuleName = ae_RuleName event,
      aes_NotificationSuppressed = ae_SuppressNotification event,
      aes_NotificationSuppressionSource = ae_NotificationSuppressionSource event,
      aes_NotificationSuppressionNamespaceUID = ae_NotificationSuppressionNamespaceUID event\<rparr>"

definition newAuditEvent :: "AuditRecorder \<Rightarrow> AuditEvent \<Rightarrow> PowerAuditEvent" where
  "newAuditEvent A event =
     (let labels = [(''power.aura.sh/action'', ae_Action event),
                    (''power.aura.sh/target-namespace'', ref_Namespace (ae_Target event)),
                    (''power.aura.sh/target-name'', ref_Name (ae_Target event)),
                    (''power.aura.sh/target-kind'', ref_Kind (ae_Target event)),
                    (''power.aura.sh/target-uid'', ref_UID (ae_Target event))]
      in \<lparr>pae_Meta = \<lparr>om_Name = ae_ID event,
             om_GenerateName = (if ae_ID event \<noteq> '''' then '''' else ''evt-''),
             om_Namespace = ar_Namespace A, om_UID = '''', om_ResourceVersion = '''',
             om_Labels = (if ae_SuppressNotification event
                then labels @ [(''power.aura.sh/notification-suppressed'', ''true'')] else labels),
             om_Annotations = [], om_CreationTimestamp = zero_time, om_DeletionTimestamp = None\<rparr>,
          pae_Spec = auditSpec event\<rparr>)"

text \<open>Creation, or the adoption of the event of an earlier attempt with the same identifier.\<close>

definition createOrAdopt :: "env \<Rightarrow> AuditRecorder \<Rightarrow> AuditEvent \<Rightarrow> PowerAuditEvent result io" where
  "createOrAdopt E A event = do {
     let auditEvent = newAuditEvent A event;
     c \<leftarrow> createAuditEvent E auditEvent;
     case c of
       Inr created \<Rightarrow> return (Inr created)
     | Inl err \<Rightarrow>
         if ae_ID event \<noteq> '''' \<and> err_AlreadyExists err then do {
           g \<leftarrow> getAuditEvent E \<lparr>nn_Namespace = ar_Namespace A, nn_Name = ae_ID event\<rparr>;
           case g of
             Inl getErr \<Rightarrow> return (Inl (wrap_error ''failed to verify existing audit event: '' getErr ''''))
           | Inr existing \<Rightarrow>
               if \<not> auditSpecsEqual (pae_Spec existing) (pae_Spec auditEvent)
               then return (Inl (errors_New (''audit event '' @ ar_Namespace A @ ''/'' @ ae_ID event @
                      '' already exists with different semantics'')))
               else return (Inr existing)
         }
         else return (Inl (wrap_error ''failed to create audit event: '' err ''''))
   }"

definition Record :: "env \<Rightarrow> AuditRecorder \<Rightarrow> AuditEvent \<Rightarrow> go_error option io" where
  "Record E A event =
     (case validateNotificationDisposition event of
        Some err \<Rightarrow> return (Some err)
      | None \<Rightarrow> do {
          c \<leftarrow> createOrAdopt E A event;
          case c of
            Inl err \<Rightarrow> return (Some err)
          | Inr auditEvent \<Rightarrow> do {
              g \<leftarrow> getAuditEvent E \<lparr>nn_Namespace = om_Namespace (pae_Meta auditEvent), nn_Name = om_Name (pae_Meta auditEvent)\<rparr>;
              case g of
                Inl err \<Rightarrow> return (Some (wrap_error ''verify persisted audit event: '' err ''''))
              | Inr persisted \<Rightarrow>
                  if \<not> auditSpecsEqual (pae_Spec persisted) (auditSpec event)
                  then return (Some (errors_New (''audit event '' @ om_Namespace (pae_Meta auditEvent) @ ''/'' @
                         om_Name (pae_Meta auditEvent) @
                         '' persisted with a different notification disposition or semantics: intended='' @
                         env_GoSyntax E (auditSpec event) @ '' persisted='' @ env_GoSyntax E (pae_Spec persisted))))
                  else if ar_Notifier A \<and> \<not> aes_NotificationSuppressed (pae_Spec persisted) \<and>
                          isNotifiableAction (ae_Action event) then do {
                    q \<leftarrow> enqueue E \<lparr>nt_AuditEventRef = om_Namespace (pae_Meta persisted) @ ''/'' @ om_Name (pae_Meta persisted),
                         nt_Action = ae_Action event, nt_TargetNamespace = ref_Namespace (ae_Target event),
                         nt_TargetName = ref_Name (ae_Target event), nt_TargetKind = ref_Kind (ae_Target event),
                         nt_TargetUID = ref_UID (ae_Target event), nt_Result = ae_Result event,
                         nt_Reason = ae_Reason event, nt_RuleName = ae_RuleName event,
                         nt_Timestamp = ae_Timestamp event\<rparr>;
                    case q of
                      Inl err \<Rightarrow> return (Some (wrap_error ''audit event persisted but notification enqueue must be retried: '' err ''''))
                    | Inr _ \<Rightarrow> return None
                  }
                  else return None
            }
        })"

section \<open>Lemmas\<close>

fun audit_call :: "event \<Rightarrow> bool" where
  "audit_call (CreateAuditEvent _ _) = True"
| "audit_call (GetAuditEvent _ _) = True"
| "audit_call (Enqueue _ _) = True"
| "audit_call _ = False"

lemma emits_Record: "emits audit_call (Record E A ev)"
  unfolding Record_def createOrAdopt_def audit_call_defs by (intro emits_intros) simp_all

lemma auditSpecsEqual_suppressed:
  assumes "auditSpecsEqual a b"
  shows "aes_NotificationSuppressed a = aes_NotificationSuppressed b"
proof -
  have "aes_NotificationSuppressed (a\<lparr>aes_Timestamp := truncateSecond (aes_Timestamp a)\<rparr>) =
    aes_NotificationSuppressed (b\<lparr>aes_Timestamp := truncateSecond (aes_Timestamp b)\<rparr>)"
    using assms by (simp only: auditSpecsEqual_def)
  then show ?thesis by simp
qed

text \<open>Creation never enqueues.\<close>

lemma createOrAdopt_no_enqueue: "emits (\<lambda>e. audit_call e \<and> (\<forall>n r. e \<noteq> Enqueue n r)) (createOrAdopt E A ev)"
  unfolding createOrAdopt_def audit_call_defs by (intro emits_intros) simp_all

definition verified :: "AuditEvent \<Rightarrow> trace \<Rightarrow> bool" where
  "verified ev tr \<longleftrightarrow> (\<exists>key p. GetAuditEvent key (Inr p) \<in> set tr \<and> auditSpecsEqual (pae_Spec p) (auditSpec ev))"

lemma verifiedI [intro]:
  "auditSpecsEqual (pae_Spec p) (auditSpec ev) \<Longrightarrow> GetAuditEvent key (Inr p) \<in> set tr \<Longrightarrow> verified ev tr"
  by (auto simp: verified_def)

lemma auditSpec_suppressed [simp]: "aes_NotificationSuppressed (auditSpec ev) = ae_SuppressNotification ev"
  by (simp add: auditSpec_def)

lemma Record_run:
  assumes "run_state (Record E A ev) [] = (r, tr)"
  shows "(r = None \<longrightarrow> verified ev tr) \<and>
    ((\<exists>n q. Enqueue n q \<in> set tr) \<longrightarrow>
       verified ev tr \<and> ar_Notifier A \<and> \<not> ae_SuppressNotification ev \<and> isNotifiableAction (ae_Action ev))"
proof (cases "validateNotificationDisposition ev")
  case None
  obtain c tr1 where c: "run_state (createOrAdopt E A ev) [] = (c, tr1)" by fastforce
  have quiet: "Enqueue n q \<notin> set tr1" for n q
    using emits_events[OF createOrAdopt_no_enqueue c] by blast
  show ?thesis
  proof (cases c)
    case (Inl e)
    then show ?thesis using assms None c quiet by (auto simp: Record_def)
  next
    case (Inr a)
    let ?key = "\<lparr>nn_Namespace = om_Namespace (pae_Meta a), nn_Name = om_Name (pae_Meta a)\<rparr>"
    show ?thesis
    proof (cases "env_GetAuditEvent E tr1 ?key")
      case (Inl e)
      then show ?thesis using assms None c Inr quiet by (auto simp: Record_def audit_call_defs)
    next
      case (Inr p)
      with assms None c \<open>c = Inr a\<close> quiet show ?thesis
        using auditSpecsEqual_suppressed[of "pae_Spec p" "auditSpec ev"]
        by (auto simp: Record_def audit_call_defs intro!: verifiedI[of p _ ?key] split: if_splits sum.splits)
    qed
  qed
qed (use assms in \<open>auto simp: Record_def\<close>)

section \<open>Properties\<close>

text \<open>
  C11. Audit before notification: an event is handed to the notification queue only after the
  stored record was read back and found equal to the intended one (up to sub-second time), only if
  notifications are not suppressed for it, and only for the notifiable actions; and recording
  succeeds only if the stored record was so verified.
\<close>

theorem Record_verifies_before_notifying:
  assumes "run_state (Record E A ev) [] = (r, tr)"
  shows "(r = None \<longrightarrow> verified ev tr) \<and>
    ((\<exists>n q. Enqueue n q \<in> set tr) \<longrightarrow>
       verified ev tr \<and> \<not> ae_SuppressNotification ev \<and> isNotifiableAction (ae_Action ev))"
  using Record_run[OF assms] by blast

definition sample_event :: AuditEvent where
  "sample_event = \<lparr>ae_ID = '''', ae_Timestamp = 5, ae_Action = AuditWorkloadRestored, ae_Actor = ''system/controller'',
     ae_Target = sample_ref, ae_Result = ''success'', ae_Reason = '''', ae_RuleName = '''',
     ae_SuppressNotification = False, ae_NotificationSuppressionSource = '''',
     ae_NotificationSuppressionNamespaceUID = ''''\<rparr>"

definition sample_recorder :: AuditRecorder where
  "sample_recorder = \<lparr>ar_Namespace = ''aura'', ar_Notifier = True\<rparr>"

definition audit_cluster :: env where
  "audit_cluster = empty_cluster\<lparr>env_GetAuditEvent := (\<lambda>_ _. Inr (newAuditEvent sample_recorder sample_event))\<rparr>"

theorem Record_verifies_before_notifying_witness:
  "\<exists>tr n q. run_state (Record audit_cluster sample_recorder sample_event) [] = (None, tr) \<and>
     Enqueue n q \<in> set tr \<and> verified sample_event tr"
proof -
  let ?run = "run_state (Record audit_cluster sample_recorder sample_event) []"
  have "fst ?run = None \<and> (\<exists>n q. Enqueue n q \<in> set (snd ?run))"
    by (simp add: Record_def createOrAdopt_def audit_call_defs audit_cluster_def sample_recorder_def
        sample_event_def newAuditEvent_def validateNotificationDisposition_def empty_cluster_def
        auditSpecsEqual_def auditSpec_def isNotifiableAction_def AuditWorkloadRestored_def Let_def)
  moreover have "?run = (fst ?run, snd ?run)" by simp
  ultimately show ?thesis using Record_verifies_before_notifying by metis
qed

end
