(* ===== verification/AuditHistory.thy ===== *)
theory AuditHistory
  imports AuditLog GoStrings
begin

text \<open>
  Reading and expiring the audit history
  (\<open>src/internal/adapters/driven/kubernetes/audit.go\<close>, \<open>List\<close> and \<open>CleanupExpired\<close>, and the
  retention setting of \<open>runAuditCleanup\<close> in \<open>src/cmd/controller/main.go\<close>).  Both operations walk the
  pages of a list as long as the server hands out continuation tokens, which it may do for ever: the
  loops are partial functions from the trace, and \<open>None\<close> means that they do not return.
\<close>

section \<open>List\<close>

record AuditListOptions =
  alo_Target :: "WorkloadRef option"
  alo_Action :: "string option"
  alo_Since :: "go_time option"
  alo_Limit :: int

definition listAuditEvents :: "env \<Rightarrow> string \<Rightarrow> strmap \<Rightarrow> string \<Rightarrow> PowerAuditEventPage result io" where
  "listAuditEvents E ns labels token = call (\<lambda>tr. env_ListAuditEvents E tr ns labels token) (ListAuditEvents ns labels token)"

definition deleteAuditEvent :: "env \<Rightarrow> PowerAuditEvent \<Rightarrow> unit result io" where
  "deleteAuditEvent E e = call (\<lambda>tr. env_DeleteAuditEvent E tr e) (DeleteAuditEvent e)"

text \<open>The label requirements of the list options, which the client library combines by conjunction.\<close>

definition auditLabels :: "AuditListOptions \<Rightarrow> strmap" where
  "auditLabels opts =
     (case alo_Target opts of
        None \<Rightarrow> []
      | Some t \<Rightarrow> [(''power.aura.sh/target-namespace'', ref_Namespace t), (''power.aura.sh/target-name'', ref_Name t)]
          @ (if ref_Kind t \<noteq> '''' then [(''power.aura.sh/target-kind'', ref_Kind t)] else [])
          @ (if ref_UID t \<noteq> '''' then [(''power.aura.sh/target-uid'', ref_UID t)] else []))
     @ (case alo_Action opts of None \<Rightarrow> [] | Some a \<Rightarrow> [(''power.aura.sh/action'', a)])"

definition auditLimit :: "AuditListOptions \<Rightarrow> nat" where
  "auditLimit opts = (if alo_Limit opts \<le> 0 \<or> alo_Limit opts > 1000 then 1000 else nat (alo_Limit opts))"

definition toDomainAuditEvent :: "PowerAuditEvent \<Rightarrow> AuditEvent" where
  "toDomainAuditEvent item =
     (let s = pae_Spec item; t = aes_Target s in
      \<lparr>ae_ID = '''', ae_Timestamp = aes_Timestamp s, ae_Action = aes_Action s, ae_Actor = aes_Actor s,
       ae_Target = \<lparr>ref_Cluster = arr_Cluster t, ref_APIVersion = arr_APIVersion t, ref_Namespace = arr_Namespace t,
         ref_Name = arr_Name t, ref_Kind = arr_Kind t, ref_UID = arr_UID t\<rparr>,
       ae_Result = aes_Result s, ae_Reason = aes_Reason s, ae_RuleName = aes_RuleName s,
       ae_SuppressNotification = aes_NotificationSuppressed s,
       ae_NotificationSuppressionSource = aes_NotificationSuppressionSource s,
       ae_NotificationSuppressionNamespaceUID = aes_NotificationSuppressionNamespaceUID s\<rparr>)"

definition too_old :: "go_time option \<Rightarrow> PowerAuditEvent \<Rightarrow> bool" where
  "too_old since item \<longleftrightarrow> (case since of None \<Rightarrow> False | Some s \<Rightarrow> aes_Timestamp (pae_Spec item) < s)"

text \<open>The loop over the items of a page.\<close>

fun collectItems :: "go_time option \<Rightarrow> nat \<Rightarrow> PowerAuditEvent list \<Rightarrow> AuditEvent list \<Rightarrow> AuditEvent list" where
  "collectItems since limit [] events = events"
| "collectItems since limit (item # items) events =
     (if too_old since item then collectItems since limit items events
      else let events = events @ [toDomainAuditEvent item]
           in if length events \<ge> limit then events else collectItems since limit items events)"

text \<open>The loop over the pages.\<close>

partial_function (option) listPages ::
  "env \<Rightarrow> string \<Rightarrow> strmap \<Rightarrow> go_time option \<Rightarrow> nat \<Rightarrow> string \<Rightarrow> AuditEvent list \<Rightarrow> trace \<Rightarrow>
   (AuditEvent list result \<times> trace) option" where
  "listPages E ns labels since limit continueToken events tr =
     (if \<not> length events < limit then Some (Inr events, tr)
      else case run_state (listAuditEvents E ns labels continueToken) tr of
        (l, tr) \<Rightarrow>
          (case l of
             Inl err \<Rightarrow> Some (Inl err, tr)
           | Inr page \<Rightarrow>
               let events = collectItems since limit (page_Items page) events
               in if page_Continue page = '''' then Some (Inr events, tr)
                  else listPages E ns labels since limit (page_Continue page) events tr))"

definition AuditRecorder_List ::
  "env \<Rightarrow> AuditRecorder \<Rightarrow> AuditListOptions \<Rightarrow> trace \<Rightarrow> (AuditEvent list result \<times> trace) option" where
  "AuditRecorder_List E A opts tr =
     listPages E (ar_Namespace A) (auditLabels opts) (alo_Since opts) (auditLimit opts) '''' [] tr"

section \<open>CleanupExpired\<close>

definition maxDeletesPerRun :: nat where "maxDeletesPerRun = 500"

text \<open>
  \<open>time.Now().Add(-time.Duration(retentionDays) * 24 * time.Hour)\<close>: the product of the durations is a
  product of \<open>int64\<close> values.
\<close>

definition retentionOffset :: "int \<Rightarrow> go_duration" where
  "retentionOffset retentionDays = wrap64 (wrap64 (wrap64 (- retentionDays) * 24) * Hour)"

text \<open>The loop over the items of a page; the flag tells that the maximum was reached.\<close>

fun cleanupItems :: "env \<Rightarrow> go_time \<Rightarrow> PowerAuditEvent list \<Rightarrow> nat \<Rightarrow> (bool \<times> nat) io" where
  "cleanupItems E cutoff [] deleted = return (False, deleted)"
| "cleanupItems E cutoff (item # items) deleted =
     (if om_CreationTimestamp (pae_Meta item) < cutoff then do {
        r \<leftarrow> deleteAuditEvent E item;
        case r of
          Inl err \<Rightarrow> cleanupItems E cutoff items deleted
        | Inr _ \<Rightarrow>
            let deleted = deleted + 1
            in if deleted \<ge> maxDeletesPerRun then return (True, deleted)
               else cleanupItems E cutoff items deleted
      }
      else cleanupItems E cutoff items deleted)"

partial_function (option) cleanupPages ::
  "env \<Rightarrow> string \<Rightarrow> go_time \<Rightarrow> string \<Rightarrow> nat \<Rightarrow> trace \<Rightarrow> ((nat \<times> go_error option) \<times> trace) option" where
  "cleanupPages E ns cutoff continueToken deleted tr =
     (case run_state (listAuditEvents E ns [] continueToken) tr of
        (l, tr) \<Rightarrow>
          (case l of
             Inl err \<Rightarrow> Some ((deleted, Some err), tr)
           | Inr page \<Rightarrow>
               (case run_state (cleanupItems E cutoff (page_Items page) deleted) tr of
                  ((full, deleted), tr) \<Rightarrow>
                    if full then Some ((deleted, None), tr)
                    else if page_Continue page = '''' then Some ((deleted, None), tr)
                    else cleanupPages E ns cutoff (page_Continue page) deleted tr)))"

definition CleanupExpired ::
  "env \<Rightarrow> AuditRecorder \<Rightarrow> int \<Rightarrow> trace \<Rightarrow> ((nat \<times> go_error option) \<times> trace) option" where
  "CleanupExpired E A retentionDays tr =
     (case run_state (time_Now E) tr of
        (now, tr) \<Rightarrow> cleanupPages E (ar_Namespace A) (now + retentionOffset retentionDays) '''' 0 tr)"

text \<open>\<open>AUDIT_RETENTION_DAYS\<close> as \<open>runAuditCleanup\<close> reads it.\<close>

definition auditRetentionDays :: "string \<Rightarrow> int" where
  "auditRetentionDays v =
     (case Atoi v of Some parsed \<Rightarrow> if v \<noteq> '''' \<and> parsed > 0 then parsed else 7 | None \<Rightarrow> 7)"

section \<open>Lemmas\<close>

text \<open>What a page contributes: the recent items, up to the limit.\<close>

lemma collectItems_take:
  "length events < limit \<Longrightarrow> collectItems since limit items events =
     take limit (events @ map toDomainAuditEvent (filter (\<lambda>i. \<not> too_old since i) items))"
proof (induction items arbitrary: events)
  case (Cons item items)
  show ?case
  proof (cases "too_old since item \<or> length events + 1 < limit")
    case True
    with Cons show ?thesis by (auto simp: Let_def take_Cons')
  next
    case False
    with Cons.prems have "limit = length events + 1" by simp
    with False show ?thesis by (simp add: Let_def)
  qed
qed simp

lemma collectItems_length: "length events < limit \<Longrightarrow> length (collectItems since limit items events) \<le> limit"
  by (simp add: collectItems_take)

lemma listPages_bounded:
  assumes "listPages E ns labels since limit tok events tr = Some (Inr found, tr')" and "length events \<le> limit"
  shows "length found \<le> limit"
proof -
  define P where "P = (\<lambda>(_ :: env) (_ :: string) (_ :: strmap) (_ :: go_time option) limit (_ :: string)
    (events :: AuditEvent list) (_ :: trace) (r :: AuditEvent list result, _ :: trace).
    length events \<le> limit \<longrightarrow> (\<forall>found. r = Inr found \<longrightarrow> length found \<le> limit))"
  have "P E ns labels since limit tok events tr (Inr found, tr')"
  proof (rule listPages.raw_induct[OF _ assms(1), where P = P])
    fix f E ns labels since limit tok events tr y
    assume IH: "\<And>E ns labels since limit tok events tr y.
        f E ns labels since limit tok events tr = Some y \<Longrightarrow> P E ns labels since limit tok events tr y"
      and "(if \<not> length events < limit then Some (Inr events, tr)
      else case run_state (listAuditEvents E ns labels tok) tr of
        (l, tr) \<Rightarrow> (case l of Inl err \<Rightarrow> Some (Inl err, tr)
           | Inr page \<Rightarrow> let events = collectItems since limit (page_Items page) events
               in if page_Continue page = '''' then Some (Inr events, tr)
                  else f E ns labels since limit (page_Continue page) events tr)) = Some y"
    then show "P E ns labels since limit tok events tr y"
      using collectItems_length[of events limit since]
      by (auto simp: P_def listAuditEvents_def Let_def split: if_splits sum.splits)
  qed
  then show ?thesis using assms(2) by (simp add: P_def)
qed

text \<open>
  A server that answers the tokens of one list consistently: its pages, from a token on, hold the
  given items, and the chain of pages ends.  (An empty page may carry a token.)
\<close>

inductive serves :: "env \<Rightarrow> string \<Rightarrow> strmap \<Rightarrow> string \<Rightarrow> PowerAuditEvent list \<Rightarrow> bool"
  for E ns labels where
  last: "(\<And>tr. env_ListAuditEvents E tr ns labels tok = Inr \<lparr>page_Items = items, page_Continue = ''''\<rparr>) \<Longrightarrow>
     serves E ns labels tok items"
| more: "(\<And>tr. env_ListAuditEvents E tr ns labels tok = Inr \<lparr>page_Items = xs, page_Continue = tok'\<rparr>) \<Longrightarrow>
     tok' \<noteq> '''' \<Longrightarrow> serves E ns labels tok' ys \<Longrightarrow> serves E ns labels tok (xs @ ys)"

lemma listPages_serves:
  assumes "serves E ns labels tok items" and "length events < limit"
  shows "\<exists>tr'. listPages E ns labels since limit tok events tr =
     Some (Inr (take limit (events @ map toDomainAuditEvent (filter (\<lambda>i. \<not> too_old since i) items))), tr')"
  using assms
proof (induction arbitrary: events tr)
  case (last tok items)
  then show ?case
    by (simp add: listPages.simps[of E ns labels since limit tok] listAuditEvents_def collectItems_take Let_def)
next
  case (more tok xs tok' ys)
  let ?m = "\<lambda>xs. map toDomainAuditEvent (filter (\<lambda>i. \<not> too_old since i) xs)"
  let ?events = "collectItems since limit xs events"
  have ev: "?events = take limit (events @ ?m xs)" using more.prems by (rule collectItems_take)
  have step: "listPages E ns labels since limit tok events tr =
      listPages E ns labels since limit tok' ?events (ListAuditEvents ns labels tok (env_ListAuditEvents E tr ns labels tok) # tr)"
    using more.hyps(1)[of tr] more.hyps(2) more.prems
    by (simp add: listPages.simps[of E ns labels since limit tok events] listAuditEvents_def Let_def)
  show ?case
  proof (cases "length ?events < limit")
    case True
    then have "?events = events @ ?m xs" unfolding ev by simp
    with more.IH[OF True] step show ?thesis by simp
  next
    case False
    then have "limit \<le> length (events @ ?m xs)" unfolding ev by simp
    with False step ev show ?thesis
      by (simp add: listPages.simps[of E ns labels since limit tok'])
  qed
qed

lemma auditLimit_bounds: "0 < auditLimit opts" "auditLimit opts \<le> 1000"
  by (auto simp: auditLimit_def)

text \<open>
  The deletions of a run are counted, bounded and justified: every call of the loop is a list call
  or a deletion of an expired event.
\<close>

fun deletions :: "trace \<Rightarrow> PowerAuditEvent list" where
  "deletions [] = []"
| "deletions (DeleteAuditEvent e (Inr u) # tr) = e # deletions tr"
| "deletions (_ # tr) = deletions tr"

definition cleanup_event :: "go_time \<Rightarrow> event \<Rightarrow> bool" where
  "cleanup_event cutoff e \<longleftrightarrow> (\<exists>ns ls tok r. e = ListAuditEvents ns ls tok r) \<or>
     (\<exists>i r. e = DeleteAuditEvent i r \<and> om_CreationTimestamp (pae_Meta i) < cutoff)"

lemma deletions_append: "deletions (xs @ ys) = deletions xs @ deletions ys"
  by (induction xs rule: deletions.induct) auto

lemma cleanupItems_emits: "emits (cleanup_event cutoff) (cleanupItems E cutoff items deleted)"
  by (induction E cutoff items deleted rule: cleanupItems.induct)
    (auto intro!: emits_intros simp: deleteAuditEvent_def cleanup_event_def Let_def)

lemma cleanupItems_counts:
  assumes "run_state (cleanupItems E cutoff items deleted) tr = ((full, n), tr')"
    and "deleted < maxDeletesPerRun"
  shows "n + length (deletions tr) = deleted + length (deletions tr') \<and> n \<le> maxDeletesPerRun \<and>
    (full \<longleftrightarrow> n = maxDeletesPerRun)"
  using assms
proof (induction items arbitrary: deleted tr)
  case (Cons item items)
  then show ?case
    by (cases "env_DeleteAuditEvent E tr item")
      (fastforce simp: deleteAuditEvent_def Let_def split: if_splits)+
qed auto

lemma cleanupPages_sound:
  assumes "cleanupPages E ns cutoff tok deleted tr = Some ((n, err), tr')" and "deleted < maxDeletesPerRun"
  shows "n + length (deletions tr) = deleted + length (deletions tr') \<and> n \<le> maxDeletesPerRun \<and>
    (\<exists>new. tr' = new @ tr \<and> (\<forall>e\<in>set new. cleanup_event cutoff e))"
proof -
  define P where "P = (\<lambda>(_ :: env) (_ :: string) cutoff (_ :: string) deleted tr ((n, err :: go_error option), tr').
    deleted < maxDeletesPerRun \<longrightarrow>
    (n + length (deletions tr) = deleted + length (deletions tr') \<and> n \<le> maxDeletesPerRun \<and>
    (\<exists>new. tr' = new @ tr \<and> (\<forall>e\<in>set new. cleanup_event cutoff e))))"
  have "P E ns cutoff tok deleted tr ((n, err), tr')"
  proof (rule cleanupPages.raw_induct[OF _ assms(1), where P = P])
    fix f E ns cutoff tok deleted tr y
    assume IH: "\<And>E ns cutoff tok deleted tr y. f E ns cutoff tok deleted tr = Some y \<Longrightarrow> P E ns cutoff tok deleted tr y"
      and run: "(case run_state (listAuditEvents E ns [] tok) tr of
        (l, tr) \<Rightarrow> (case l of Inl err \<Rightarrow> Some ((deleted, Some err), tr)
           | Inr page \<Rightarrow> (case run_state (cleanupItems E cutoff (page_Items page) deleted) tr of
                  ((full, deleted), tr) \<Rightarrow>
                    if full then Some ((deleted, None), tr)
                    else if page_Continue page = '''' then Some ((deleted, None), tr)
                    else f E ns cutoff (page_Continue page) deleted tr))) = Some y"
    obtain n err tr' where y: "y = ((n, err), tr')" by (metis prod.collapse)
    let ?ev = "ListAuditEvents ns [] tok (env_ListAuditEvents E tr ns [] tok)"
    have ev: "cleanup_event cutoff ?ev" by (simp add: cleanup_event_def)
    show "P E ns cutoff tok deleted tr y"
    proof (cases "env_ListAuditEvents E tr ns [] tok")
      case (Inl e)
      with run ev show ?thesis by (auto simp: P_def y listAuditEvents_def)
    next
      case (Inr page)
      obtain full d tr1 where items: "run_state (cleanupItems E cutoff (page_Items page) deleted) (?ev # tr) = ((full, d), tr1)"
        by (metis prod.collapse)
      obtain new where new: "tr1 = new @ ?ev # tr" "\<forall>e\<in>set new. cleanup_event cutoff e"
        using cleanupItems_emits items by (rule emitsD)
      show ?thesis
      proof (cases "full \<or> page_Continue page = ''''")
        case True
        with run Inr items new ev cleanupItems_counts[OF items] show ?thesis
          by (auto simp: P_def y listAuditEvents_def intro!: exI[of _ "new @ [?ev]"] split: if_splits)
      next
        case False
        with run Inr items have "f E ns cutoff (page_Continue page) d tr1 = Some ((n, err), tr')"
          by (simp add: y listAuditEvents_def)
        from IH[OF this] have IH': "d < maxDeletesPerRun \<Longrightarrow> n + length (deletions tr1) = d + length (deletions tr') \<and>
            n \<le> maxDeletesPerRun \<and> (\<exists>new. tr' = new @ tr1 \<and> (\<forall>e\<in>set new. cleanup_event cutoff e))"
          by (simp add: P_def)
        show ?thesis unfolding P_def y prod.case
        proof
          assume "deleted < maxDeletesPerRun"
          note c = cleanupItems_counts[OF items this]
          with False have "d < maxDeletesPerRun" by auto
          note IH'[OF this]
          then obtain new' where "tr' = new' @ tr1" "\<forall>e\<in>set new'. cleanup_event cutoff e" by blast
          with new ev have "\<exists>new. tr' = new @ tr \<and> (\<forall>e\<in>set new. cleanup_event cutoff e)"
            by (intro exI[of _ "new' @ new @ [?ev]"]) auto
          with c IH'[OF \<open>d < maxDeletesPerRun\<close>] show "n + length (deletions tr) = deleted + length (deletions tr') \<and>
              n \<le> maxDeletesPerRun \<and> (\<exists>new. tr' = new @ tr \<and> (\<forall>e\<in>set new. cleanup_event cutoff e))"
            by simp
        qed
      qed
    qed
  qed
  then show ?thesis using assms(2) by (simp add: P_def)
qed

lemma retentionOffset_exact:
  assumes "0 \<le> days" and "days \<le> 106751"
  shows "retentionOffset days = - (days * 24 * Hour)"
proof -
  have "wrap64 (- days) = - days" using assms by (intro wrap64_id) simp_all
  moreover have "wrap64 (- days * 24) = - days * 24" using assms by (intro wrap64_id) simp_all
  moreover have "wrap64 (- days * 24 * Hour) = - days * 24 * Hour"
    using assms by (intro wrap64_id) (simp_all add: time_defs)
  ultimately show ?thesis by (simp add: retentionOffset_def)
qed

lemma retentionOffset_wraps:
  assumes "106752 \<le> days" and "days \<le> 213503"
  shows "retentionOffset days = 2 ^ 64 - days * 24 * Hour" and "0 < retentionOffset days"
proof -
  have 1: "wrap64 (- days) = - days" using assms by (intro wrap64_id) simp_all
  have 2: "wrap64 (- days * 24) = - days * 24" using assms by (intro wrap64_id) simp_all
  have "(- (days * 24 * Hour) + 2 ^ 63) mod 2 ^ 64 = (- (days * 24 * Hour) + 2 ^ 63 + 2 ^ 64) mod (2 ^ 64 :: int)"
    by (simp only: mod_add_self2)
  also have "\<dots> = - (days * 24 * Hour) + 2 ^ 63 + 2 ^ 64"
    by (rule mod_pos_pos_trivial) (use assms in \<open>simp_all add: time_defs\<close>)
  finally have "(- (days * 24 * Hour) + 2 ^ 63) mod 2 ^ 64 = - (days * 24 * Hour) + 2 ^ 63 + 2 ^ 64" .
  then have "wrap64 (- days * 24 * Hour) = 2 ^ 64 - days * 24 * Hour" by (simp add: wrap64_def)
  with 1 2 show *: "retentionOffset days = 2 ^ 64 - days * 24 * Hour" by (simp add: retentionOffset_def)
  show "0 < retentionOffset days" unfolding * using assms by (simp add: time_defs)
qed

lemma cleanupPages_single:
  assumes "env_ListAuditEvents E tr ns [] tok = Inr \<lparr>page_Items = items, page_Continue = ''''\<rparr>"
  shows "cleanupPages E ns cutoff tok deleted tr =
    (case run_state (cleanupItems E cutoff items deleted)
        (ListAuditEvents ns [] tok (Inr \<lparr>page_Items = items, page_Continue = ''''\<rparr>) # tr) of
       ((full, deleted), tr) \<Rightarrow> Some ((deleted, None), tr))"
  by (subst cleanupPages.simps) (simp add: listAuditEvents_def assms split: prod.split)

section \<open>Properties\<close>

text \<open>
  C13. Listing the history terminates and is exact: whenever the server serves the selected events in
  a finite chain of pages, the call returns the events not older than \<open>Since\<close>, in the order of the
  pages, cut at the limit, and the limit is never above 1000.
\<close>

theorem List_exact:
  assumes "serves E (ar_Namespace A) (auditLabels opts) '''' items"
  shows "\<exists>tr'. AuditRecorder_List E A opts tr =
     Some (Inr (take (auditLimit opts) (map toDomainAuditEvent (filter (\<lambda>i. \<not> too_old (alo_Since opts) i) items))), tr')
     \<and> auditLimit opts \<le> 1000"
  using listPages_serves[OF assms, of "[]" "auditLimit opts"] auditLimit_bounds[of opts]
  by (simp add: AuditRecorder_List_def)

definition history_cluster :: env where
  "history_cluster = empty_cluster\<lparr>env_ListAuditEvents := (\<lambda>_ _ _ token.
     Inr (if token = '''' then \<lparr>page_Items = [], page_Continue = ''next''\<rparr>
          else \<lparr>page_Items = [newAuditEvent sample_recorder sample_event], page_Continue = ''''\<rparr>))\<rparr>"

definition all_events :: AuditListOptions where
  "all_events = \<lparr>alo_Target = None, alo_Action = None, alo_Since = Some 5, alo_Limit = 0\<rparr>"

lemma history_serves: "serves history_cluster ns labels '''' [newAuditEvent sample_recorder sample_event]"
proof -
  have "serves history_cluster ns labels ''next'' [newAuditEvent sample_recorder sample_event]"
    by (rule serves.last) (simp add: history_cluster_def)
  then have "serves history_cluster ns labels '''' ([] @ [newAuditEvent sample_recorder sample_event])"
    by (rule serves.more[rotated 2]) (simp_all add: history_cluster_def)
  then show ?thesis by simp
qed

theorem List_exact_witness:
  "\<exists>tr'. AuditRecorder_List history_cluster sample_recorder all_events [] =
     Some (Inr [toDomainAuditEvent (newAuditEvent sample_recorder sample_event)], tr')"
proof -
  have "\<not> too_old (alo_Since all_events) (newAuditEvent sample_recorder sample_event)"
    by (simp add: all_events_def too_old_def newAuditEvent_def auditSpec_def sample_event_def Let_def)
  moreover have "auditLimit all_events = 1000" by (simp add: all_events_def auditLimit_def)
  ultimately show ?thesis
    using List_exact[OF history_serves, of sample_recorder all_events "[]"] by simp
qed

text \<open>
  The history kept for a caller is bounded for every behaviour of the server: a list that is
  returned has at most the requested number of events, and at most 1000.
\<close>

theorem List_bounded:
  assumes "AuditRecorder_List E A opts tr = Some (Inr found, tr')"
  shows "length found \<le> 1000 \<and> (0 < alo_Limit opts \<longrightarrow> int (length found) \<le> alo_Limit opts)"
proof -
  have "length found \<le> auditLimit opts"
    by (rule listPages_bounded[OF assms[unfolded AuditRecorder_List_def]]) simp
  then show ?thesis by (auto simp: auditLimit_def split: if_splits)
qed

theorem List_bounded_witness:
  "\<exists>found tr'. AuditRecorder_List history_cluster sample_recorder all_events [] = Some (Inr found, tr') \<and> length found \<le> 1000"
  using List_exact_witness List_bounded[of history_cluster sample_recorder all_events "[]"] by blast

text \<open>
  Expiry removes only what has expired: with a retention of up to 106751 days, a run that returns
  deletes only events created before the retention period began, reports exactly the number of
  accepted deletions, and never more than 500.
\<close>

theorem CleanupExpired_only_expired:
  assumes "CleanupExpired E A days tr = Some ((n, err), tr')" and "0 \<le> days" and "days \<le> 106751"
  shows "n \<le> 500 \<and> (\<exists>new now. tr' = new @ Now now # tr \<and> n = length (deletions new) \<and>
    (\<forall>i r. DeleteAuditEvent i r \<in> set new \<longrightarrow> om_CreationTimestamp (pae_Meta i) < now - days * 24 * Hour))"
proof -
  let ?now = "env_Now E tr"
  have "cleanupPages E (ar_Namespace A) (?now - days * 24 * Hour) '''' 0 (Now ?now # tr) = Some ((n, err), tr')"
    using assms(1) by (simp add: CleanupExpired_def time_Now_def retentionOffset_exact[OF assms(2,3)])
  from cleanupPages_sound[OF this] obtain new where new: "tr' = new @ Now ?now # tr"
    "\<forall>e\<in>set new. cleanup_event (?now - days * 24 * Hour) e" "n \<le> 500" "n = length (deletions new)"
    by (auto simp: maxDeletesPerRun_def deletions_append)
  then show ?thesis by (fastforce simp: cleanup_event_def)
qed

definition old_event :: PowerAuditEvent where
  "old_event = newAuditEvent sample_recorder sample_event"

definition expired_cluster :: env where
  "expired_cluster = empty_cluster\<lparr>env_Now := (\<lambda>_. 8 * 24 * Hour), env_ListAuditEvents := (\<lambda>_ _ _ _.
     Inr \<lparr>page_Items = [old_event], page_Continue = ''''\<rparr>)\<rparr>"

theorem CleanupExpired_only_expired_witness:
  "\<exists>new now. CleanupExpired expired_cluster sample_recorder 7 [] = Some ((1, None), new @ [Now now]) \<and>
     length (deletions new) = 1"
proof -
  have "env_ListAuditEvents expired_cluster tr ns [] tok = Inr \<lparr>page_Items = [old_event], page_Continue = ''''\<rparr>" for tr ns tok
    by (simp add: expired_cluster_def)
  then have "\<exists>tr'. CleanupExpired expired_cluster sample_recorder 7 [] = Some ((1, None), tr')"
    by (simp add: CleanupExpired_def time_Now_def cleanupPages_single deleteAuditEvent_def retentionOffset_exact
        maxDeletesPerRun_def old_event_def newAuditEvent_def Let_def)
      (simp add: expired_cluster_def empty_cluster_def time_defs)
  then obtain tr' where run: "CleanupExpired expired_cluster sample_recorder 7 [] = Some ((1, None), tr')" ..
  obtain new now where "tr' = new @ [Now now]" "1 = length (deletions new)"
    using CleanupExpired_only_expired[OF run] by auto
  with run show ?thesis by metis
qed

text \<open>
  A very long retention is not honoured: the duration overflows, and for 106752 to 213503 days
  the cutoff lies in the future, so that an event created at this very moment, listed on the first
  page, is deleted.
\<close>

theorem CleanupExpired_long_retention:
  assumes "106752 \<le> days" and "days \<le> 213503"
    and "\<And>tr. env_ListAuditEvents E tr (ar_Namespace A) [] '''' = Inr \<lparr>page_Items = [item], page_Continue = ''''\<rparr>"
    and "om_CreationTimestamp (pae_Meta item) \<le> env_Now E tr"
  shows "\<exists>n tr' r. CleanupExpired E A days tr = Some ((n, None), tr') \<and> DeleteAuditEvent item r \<in> set tr'"
proof -
  let ?now = "env_Now E tr"
  have "om_CreationTimestamp (pae_Meta item) < ?now + retentionOffset days"
    using assms(4) retentionOffset_wraps(2)[OF assms(1,2)] by linarith
  then show ?thesis
    by (cases "env_DeleteAuditEvent E (ListAuditEvents (ar_Namespace A) [] '''' (Inr \<lparr>page_Items = [item], page_Continue = ''''\<rparr>) # Now ?now # tr) item")
      (auto simp: CleanupExpired_def time_Now_def cleanupPages_single[OF assms(3)] deleteAuditEvent_def
        maxDeletesPerRun_def Let_def)
qed

theorem CleanupExpired_long_retention_witness:
  "\<exists>n tr' r. CleanupExpired expired_cluster sample_recorder 110000 [] = Some ((n, None), tr') \<and>
     DeleteAuditEvent old_event r \<in> set tr'"
  by (rule CleanupExpired_long_retention)
    (simp_all add: expired_cluster_def old_event_def newAuditEvent_def time_defs Let_def)

end
