(* ===== verification/AuditPages.thy ===== *)
theory AuditPages
  imports ApiEffects AuditHistory
begin

text \<open>
  Walking the pages of the audit history in the API server
  (\<open>src/internal/adapters/driving/api/audit_pages.go\<close>) and the escaping of CSV fields (\<open>csvEscape\<close> of
  \<open>handlers.go\<close>).  The newest events are kept by sorting what is retained together with each page by the
  loops of the source, which swap neighbours in place; the theorems compare this with sorting the whole history.
  The walk lasts as long as the server hands out continuation tokens, so it is a partial function of the trace.
\<close>

section \<open>Limits\<close>

definition defaultAuditLimit :: nat where "defaultAuditLimit = 50"
definition maxAuditLimit :: nat where "maxAuditLimit = 500"
definition auditPageSize :: nat where "auditPageSize = 200"

text \<open>\<open>strconv.ParseUint(s, 10, bits)\<close>: decimal digits only, in the range of the width.\<close>

definition ParseUint :: "nat \<Rightarrow> string \<Rightarrow> nat option" where
  "ParseUint bits s =
     (if s = [] \<or> \<not> list_all is_digit s then None
      else if digits_value s < 2 ^ bits then Some (nat (digits_value s)) else None)"

definition parseAuditLimit :: "string \<Rightarrow> nat" where
  "parseAuditLimit value =
     (if value = '''' then defaultAuditLimit
      else case ParseUint 16 value of
        None \<Rightarrow> defaultAuditLimit
      | Some parsed \<Rightarrow>
          if parsed = 0 then defaultAuditLimit
          else if parsed > maxAuditLimit then maxAuditLimit
          else parsed)"

section \<open>Sorting and retaining\<close>

definition newer :: "PowerAuditEvent \<Rightarrow> PowerAuditEvent \<Rightarrow> bool" where
  "newer a b \<longleftrightarrow> om_CreationTimestamp (pae_Meta a) > om_CreationTimestamp (pae_Meta b)"

definition swap :: "'a list \<Rightarrow> nat \<Rightarrow> nat \<Rightarrow> 'a list" where
  "swap xs i j = xs[i := xs ! j, j := xs ! i]"

text \<open>The inner loop: the element at \<open>j\<close> moves left while it is newer than its neighbour.\<close>

fun moveLeft :: "nat \<Rightarrow> PowerAuditEvent list \<Rightarrow> PowerAuditEvent list" where
  "moveLeft 0 events = events"
| "moveLeft (Suc j) events =
     (if newer (events ! Suc j) (events ! j) then moveLeft j (swap events (Suc j) j) else events)"

definition sortAuditNewest :: "PowerAuditEvent list \<Rightarrow> PowerAuditEvent list" where
  "sortAuditNewest events = fold moveLeft [1..<length events] events"

definition retainNewest :: "PowerAuditEvent list \<Rightarrow> PowerAuditEvent list \<Rightarrow> nat \<Rightarrow> PowerAuditEvent list" where
  "retainNewest events incoming limit =
     (let events = sortAuditNewest (events @ incoming)
      in if length events > limit then take limit events else events)"

section \<open>The walk\<close>

text \<open>
  \<open>visit\<close> gets a page and the state it keeps, and may end the walk with an error.  The result is that state,
  the number of items and the error.  (The client library takes the page size and the token from the raw options.)
\<close>

partial_function (option) visitAuditPages ::
  "server_env \<Rightarrow> string \<Rightarrow> strmap \<Rightarrow> ('s \<Rightarrow> PowerAuditEvent list \<Rightarrow> ('s \<times> go_error option) sio) \<Rightarrow>
   nat \<Rightarrow> string \<Rightarrow> 's \<Rightarrow> api_trace \<Rightarrow> (('s \<times> nat \<times> go_error option) \<times> api_trace) option" where
  "visitAuditPages S ns labels visit seen continueToken s tr =
     (case run_state (kube S (\<lambda>E. listAuditEvents E ns labels continueToken)) tr of
        (l, tr) \<Rightarrow>
          (case l of
             Inl err \<Rightarrow> Some ((s, seen, Some err), tr)
           | Inr page \<Rightarrow>
               let seen = seen + length (page_Items page)
               in (case run_state (visit s (page_Items page)) tr of
                     ((s, err), tr) \<Rightarrow>
                       (case err of
                          Some e \<Rightarrow> Some ((s, seen, Some e), tr)
                        | None \<Rightarrow>
                            if page_Continue page = '''' then Some ((s, seen, None), tr)
                            else visitAuditPages S ns labels visit seen (page_Continue page) s tr))))"

section \<open>CSV\<close>

text \<open>\<open>strings.ReplaceAll(s, "\"", "\"\"")\<close>.\<close>

definition double_quotes :: "string \<Rightarrow> string" where
  "double_quotes s = concat (map (\<lambda>c. if c = CHR 0x22 then [c, c] else [c]) s)"

definition csvEscape :: "string \<Rightarrow> string" where
  "csvEscape s =
     (if list_ex (\<lambda>c. c = CHR '','' \<or> c = CHR 0x22 \<or> c = CHR 0x0A) s
      then CHR 0x22 # double_quotes s @ [CHR 0x22] else s)"

text \<open>\<open>%t\<close>, and the line of one event in the export: of the fields only the reason is escaped.\<close>

definition format_bool :: "bool \<Rightarrow> string" where
  "format_bool b = (if b then ''true'' else ''false'')"

definition auditLine :: "server_env \<Rightarrow> PowerAuditEvent \<Rightarrow> string" where
  "auditLine S e =
     (let spec = pae_Spec e; t = aes_Target spec in
      Join [sv_FormatTime S (aes_Timestamp spec), aes_Action spec, arr_Namespace t, arr_Name t, arr_Kind t,
            aes_Result spec, csvEscape (aes_Reason spec), aes_RuleName spec,
            format_bool (aes_NotificationSuppressed spec), aes_NotificationSuppressionSource spec,
            aes_NotificationSuppressionNamespaceUID spec] '','' @ [CHR 0x0A])"

section \<open>Specification: reading CSV\<close>

text \<open>A reader of records as RFC 4180 describes them: a field, then the fields up to the end of the line.\<close>

fun read_quoted :: "string \<Rightarrow> (string \<times> string) option" where
  "read_quoted [] = None"
| "read_quoted [c] = (if c = CHR 0x22 then Some ([], []) else None)"
| "read_quoted (c # d # s) =
     (if c = CHR 0x22 then
        (if d = CHR 0x22 then map_option (\<lambda>(field, rest). (CHR 0x22 # field, rest)) (read_quoted s)
         else Some ([], d # s))
      else map_option (\<lambda>(field, rest). (c # field, rest)) (read_quoted (d # s)))"

definition separator :: "char \<Rightarrow> bool" where
  "separator c \<longleftrightarrow> c = CHR '','' \<or> c = CHR 0x0A"

definition read_field :: "string \<Rightarrow> (string \<times> string) option" where
  "read_field s =
     (if s \<noteq> [] \<and> hd s = CHR 0x22 then read_quoted (tl s)
      else Some (takeWhile (\<lambda>c. \<not> separator c) s, dropWhile (\<lambda>c. \<not> separator c) s))"

fun read_fields :: "nat \<Rightarrow> string \<Rightarrow> (string list \<times> string) option" where
  "read_fields 0 s = None"
| "read_fields (Suc n) s =
     (case read_field s of
        Some (field, c # rest) \<Rightarrow>
          (if c = CHR '','' then map_option (\<lambda>(cells, rest). (field # cells, rest)) (read_fields n rest)
           else if c = CHR 0x0A then Some ([field], rest) else None)
      | _ \<Rightarrow> None)"

text \<open>Every field takes at least its separator from the text.\<close>

definition read_record :: "string \<Rightarrow> (string list \<times> string) option" where
  "read_record s = read_fields (Suc (length s)) s"

fun read_all :: "nat \<Rightarrow> string \<Rightarrow> string list list option" where
  "read_all n [] = Some []"
| "read_all 0 (c # s) = None"
| "read_all (Suc n) (c # s) =
     (case read_record (c # s) of None \<Rightarrow> None | Some (cells, rest) \<Rightarrow> map_option (\<lambda>cs. cells # cs) (read_all n rest))"

definition read_csv :: "string \<Rightarrow> string list list option" where
  "read_csv s = read_all (length s) s"

definition plain :: "string \<Rightarrow> bool" where
  "plain s \<longleftrightarrow> list_all (\<lambda>c. \<not> separator c \<and> c \<noteq> CHR 0x22) s"

section \<open>Lemmas\<close>

subsection \<open>The sort is the stable sort by age\<close>

definition age :: "PowerAuditEvent \<Rightarrow> int" where
  "age e = - om_CreationTimestamp (pae_Meta e)"

lemma newer_age: "newer a b \<longleftrightarrow> age a < age b"
  by (simp add: newer_def age_def)

text \<open>The newest events of a history: what the answers are compared with.\<close>

definition newest :: "nat \<Rightarrow> PowerAuditEvent list \<Rightarrow> PowerAuditEvent list" where
  "newest limit history = take limit (sort_key age history)"

text \<open>Inserting an element behind the elements that are not younger than it.\<close>

fun insertAfter :: "PowerAuditEvent \<Rightarrow> PowerAuditEvent list \<Rightarrow> PowerAuditEvent list" where
  "insertAfter x [] = [x]"
| "insertAfter x (y # ys) = (if age x < age y then x # y # ys else y # insertAfter x ys)"

lemma insertAfter_snoc:
  "sorted (map age (ys @ [y])) \<Longrightarrow> insertAfter x (ys @ [y]) = (if age x < age y then insertAfter x ys @ [y] else ys @ [y, x])"
  by (induction ys) (auto simp: sorted_append)

lemma length_moveLeft [simp]: "length (moveLeft j xs) = length xs"
  by (induction j xs rule: moveLeft.induct) (auto simp: swap_def)

lemma moveLeft_insert:
  "sorted (map age ys) \<Longrightarrow> moveLeft (length ys) (ys @ x # zs) = insertAfter x ys @ zs"
proof (induction ys arbitrary: zs rule: rev_induct)
  case (snoc y ys)
  have "swap ((ys @ [y]) @ x # zs) (Suc (length ys)) (length ys) = ys @ x # y # zs"
    by (simp add: swap_def nth_append list_update_append)
  moreover have "newer (((ys @ [y]) @ x # zs) ! Suc (length ys)) (((ys @ [y]) @ x # zs) ! length ys) \<longleftrightarrow> age x < age y"
    by (simp add: newer_age nth_append)
  ultimately show ?case
    using snoc.IH[of "y # zs"] snoc.prems by (simp add: insertAfter_snoc[OF snoc.prems] sorted_append)
qed simp

text \<open>In terms of the library: \<open>insort_key\<close> inserts before equal elements, so it builds the stable sort from the right.\<close>

lemma sort_key_snoc: "sort_key age (xs @ [x]) = insertAfter x (sort_key age xs)"
proof (rule properties_for_sort_key)
  have set: "mset (insertAfter x ys) = add_mset x (mset ys)" for ys by (induction ys) auto
  then show "mset (insertAfter x (sort_key age xs)) = mset (xs @ [x])" by simp
  have sorted: "sorted (map age (insertAfter x ys))" if "sorted (map age ys)" for ys
    using that
  proof (induction ys)
    case (Cons y ys)
    then show ?case using set[of ys] by (auto simp: set_mset_mset[symmetric] simp del: set_mset_mset)
  qed simp
  then show "sorted (map age (insertAfter x (sort_key age xs)))" by simp
  have filter: "sorted (map age ys) \<Longrightarrow> filter (\<lambda>e. age k = age e) (insertAfter x ys) = filter (\<lambda>e. age k = age e) (ys @ [x])" for k ys
  proof (induction ys)
    case (Cons y ys)
    then have "age x < age y \<Longrightarrow> filter (\<lambda>e. age x = age e) ys = []" by (auto simp: filter_empty_conv)
    with Cons show ?case by auto
  qed simp
  have "filter (\<lambda>e. age k = age e) (sort_key age xs) = filter (\<lambda>e. age k = age e) xs" for k
    using sort_key_stable[of age "age k" xs] by (simp add: eq_commute)
  then show "filter (\<lambda>e. age k = age e) (insertAfter x (sort_key age xs)) = filter (\<lambda>e. age k = age e) (xs @ [x])" for k
    by (simp add: filter)
qed

lemma sort_step:
  assumes "i < length events" and "sorted (map age (take i events))"
  shows "moveLeft i events = insertAfter (events ! i) (take i events) @ drop (Suc i) events"
proof -
  have "events = take i events @ events ! i # drop (Suc i) events" using assms(1) by (simp add: id_take_nth_drop)
  moreover have "length (take i events) = i" using assms(1) by simp
  ultimately show ?thesis using moveLeft_insert[OF assms(2), of "events ! i" "drop (Suc i) events"] by simp
qed

lemma sortAuditNewest_sort: "sortAuditNewest events = sort_key age events"
proof -
  have "i \<le> length events \<Longrightarrow> 0 < i \<Longrightarrow> fold moveLeft [1..<i] events = sort_key age (take i events) @ drop i events" for i
  proof (induction i)
    case (Suc i)
    show ?case
    proof (cases "i = 0")
      case True
      with Suc.prems show ?thesis by (cases events) auto
    next
      case False
      let ?es = "sort_key age (take i events) @ drop i events"
      have i: "i < length events" "length (sort_key age (take i events)) = i" using Suc.prems by simp_all
      have "fold moveLeft [1..<Suc i] events = moveLeft i ?es" using False Suc by simp
      also have "\<dots> = insertAfter (events ! i) (sort_key age (take i events)) @ drop (Suc i) events"
        using i sort_step[of i ?es] by (simp add: nth_append)
      also have "\<dots> = sort_key age (take (Suc i) events) @ drop (Suc i) events"
        using i by (simp add: take_Suc_conv_app_nth sort_key_snoc)
      finally show ?thesis .
    qed
  qed simp
  from this[of "length events"] show ?thesis by (cases events) (auto simp: sortAuditNewest_def)
qed

text \<open>Retaining the newest events page by page is retaining the newest of all pages.\<close>

lemma insertAfter_take: "take n (insertAfter x ys) = take n (insertAfter x (take n ys))"
  by (induction ys arbitrary: n) (auto simp: take_Cons')

lemma newest_snoc: "newest n (xs @ [x]) = take n (insertAfter x (newest n xs))"
  unfolding newest_def sort_key_snoc by (rule insertAfter_take)

lemma newest_again: "newest n (newest n xs @ ys) = newest n (xs @ ys)"
proof (induction ys rule: rev_induct)
  case Nil
  show ?case by (simp add: newest_def sort_key_id_if_sorted take_map[symmetric] sorted_wrt_take)
next
  case (snoc y ys)
  then show ?case by (simp only: append_assoc[symmetric] newest_snoc)
qed

lemma retainNewest_newest: "retainNewest (newest n xs) page n = newest n (xs @ page)"
proof -
  have "retainNewest (newest n xs) page n = newest n (newest n xs @ page)"
    by (simp add: retainNewest_def newest_def sortAuditNewest_sort Let_def)
  then show ?thesis by (simp only: newest_again)
qed

subsection \<open>Limits and escaping\<close>

lemma parseAuditLimit_bounds: "1 \<le> parseAuditLimit v \<and> parseAuditLimit v \<le> 500"
  by (auto simp: parseAuditLimit_def defaultAuditLimit_def maxAuditLimit_def split: option.split)

text \<open>What is escaped can be read back, whatever it contains.\<close>

lemma read_quoted_doubled:
  assumes "rest = [] \<or> separator (hd rest)"
  shows "read_quoted (double_quotes s @ CHR 0x22 # rest) = Some (s, rest)"
proof (induction s)
  case Nil
  show ?case using assms by (cases rest) (auto simp: double_quotes_def separator_def)
next
  case (Cons c s)
  obtain d t where dt: "double_quotes s @ CHR 0x22 # rest = d # t" by (cases "double_quotes s @ CHR 0x22 # rest") auto
  show ?case
  proof (cases "c = CHR 0x22")
    case True
    then show ?thesis using Cons by (simp add: double_quotes_def)
  next
    case False
    then have "double_quotes (c # s) @ CHR 0x22 # rest = c # d # t" using dt by (simp add: double_quotes_def)
    then show ?thesis using False Cons dt by simp
  qed
qed

lemma plain_csvEscape: "plain s \<Longrightarrow> csvEscape s = s"
  by (auto simp: csvEscape_def plain_def separator_def list_ex_iff list_all_iff)

lemma read_field_escaped:
  assumes "rest \<noteq> []" and "separator (hd rest)"
  shows "read_field (csvEscape s @ rest) = Some (s, rest)"
proof (cases "list_ex (\<lambda>c. c = CHR '','' \<or> c = CHR 0x22 \<or> c = CHR 0x0A) s")
  case True
  then show ?thesis using read_quoted_doubled[of rest s] assms by (simp add: csvEscape_def read_field_def)
next
  case False
  then have s: "\<forall>c\<in>set s. \<not> separator c \<and> c \<noteq> CHR 0x22" by (auto simp: list_ex_iff separator_def)
  have "s @ rest \<noteq> [] \<and> hd (s @ rest) \<noteq> CHR 0x22" using s assms by (cases s) (auto simp: separator_def)
  moreover have "takeWhile (\<lambda>c. \<not> separator c) (s @ rest) = s" "dropWhile (\<lambda>c. \<not> separator c) (s @ rest) = rest"
    using s assms by (cases rest; simp)+
  ultimately show ?thesis using False by (simp add: csvEscape_def read_field_def)
qed

lemma read_fields_escaped:
  assumes "cells \<noteq> []" and "length cells \<le> n"
  shows "read_fields n (Join (map csvEscape cells) '','' @ CHR 0x0A # rest) = Some (cells, rest)"
  using assms
proof (induction cells arbitrary: n)
  case (Cons f cells)
  then obtain m where n: "n = Suc m" by (cases n) auto
  show ?case
  proof (cases cells)
    case Nil
    then show ?thesis by (simp add: n read_field_escaped separator_def)
  next
    case (Cons g gs)
    let ?rest = "Join (map csvEscape cells) '','' @ CHR 0x0A # rest"
    have "Join (map csvEscape (f # cells)) '','' @ CHR 0x0A # rest = csvEscape f @ CHR '','' # ?rest" using Cons by simp
    moreover have "read_field (csvEscape f @ CHR '','' # ?rest) = Some (f, CHR '','' # ?rest)"
      by (rule read_field_escaped) (simp_all add: separator_def)
    moreover have "read_fields m ?rest = Some (cells, rest)" using Cons.IH[of m] Cons.prems Cons n by simp
    ultimately show ?thesis by (simp add: n)
  qed
qed simp

lemma length_Join: "length xs \<le> Suc (length (Join xs '',''))"
  by (induction xs "'',''" rule: Join.induct) auto

lemma read_record_escaped:
  assumes "cells \<noteq> []"
  shows "read_record (Join (map csvEscape cells) '','' @ CHR 0x0A # rest) = Some (cells, rest)"
  unfolding read_record_def by (rule read_fields_escaped[OF assms]) (use length_Join[of "map csvEscape cells"] in simp)

definition csv_line :: "string list \<Rightarrow> string" where
  "csv_line cells = Join (map csvEscape cells) '','' @ [CHR 0x0A]"

lemma read_all_lines:
  "[] \<notin> set records \<Longrightarrow> length records \<le> n \<Longrightarrow> read_all n (concat (map csv_line records)) = Some records"
proof (induction records arbitrary: n)
  case (Cons cells records)
  then obtain m where n: "n = Suc m" "length records \<le> m" by (cases n) auto
  let ?rest = "concat (map csv_line records)"
  have "csv_line cells @ ?rest \<noteq> []" by (simp add: csv_line_def)
  then obtain c s where cs: "csv_line cells @ ?rest = c # s" by (cases "csv_line cells @ ?rest") auto
  have "read_record (csv_line cells @ ?rest) = Some (cells, ?rest)"
    using read_record_escaped[of cells ?rest] Cons.prems(1) by (auto simp: csv_line_def)
  moreover have "read_all m ?rest = Some records" using Cons n(2) by simp
  ultimately show ?case using cs n(1) by simp
qed simp

lemma read_csv_lines:
  assumes "[] \<notin> set records"
  shows "read_csv (concat (map csv_line records)) = Some records"
  unfolding read_csv_def
proof (rule read_all_lines[OF assms])
  show "length records \<le> length (concat (map csv_line records))"
    by (induction records) (auto simp: csv_line_def)
qed

text \<open>The fields of an exported event, and the line as one of escaped fields.\<close>

definition auditCells :: "server_env \<Rightarrow> PowerAuditEvent \<Rightarrow> string list" where
  "auditCells S e =
     (let spec = pae_Spec e; t = aes_Target spec in
      [sv_FormatTime S (aes_Timestamp spec), aes_Action spec, arr_Namespace t, arr_Name t, arr_Kind t, aes_Result spec,
       aes_Reason spec, aes_RuleName spec, format_bool (aes_NotificationSuppressed spec),
       aes_NotificationSuppressionSource spec, aes_NotificationSuppressionNamespaceUID spec])"

definition printable :: "server_env \<Rightarrow> PowerAuditEvent \<Rightarrow> bool" where
  "printable S e \<longleftrightarrow> list_all plain ((auditCells S e)[6 := ''''])"

lemma auditLine_cells: "printable S e \<Longrightarrow> auditLine S e = csv_line (auditCells S e)"
  by (simp add: printable_def auditLine_def csv_line_def auditCells_def Let_def plain_csvEscape eval_nat_numeral)

subsection \<open>The walk\<close>

text \<open>
  A server that answers the tokens of one list consistently: its pages, from a token on, hold the given items, and
  the chain of pages ends.
\<close>

inductive hands_out :: "server_env \<Rightarrow> string \<Rightarrow> strmap \<Rightarrow> string \<Rightarrow> PowerAuditEvent list \<Rightarrow> bool"
  for S ns labels where
  final: "(\<And>tr. env_ListAuditEvents (sv_Kube S tr) [] ns labels tok = Inr \<lparr>page_Items = items, page_Continue = ''''\<rparr>) \<Longrightarrow>
     hands_out S ns labels tok items"
| further: "(\<And>tr. env_ListAuditEvents (sv_Kube S tr) [] ns labels tok = Inr \<lparr>page_Items = xs, page_Continue = tok'\<rparr>) \<Longrightarrow>
     tok' \<noteq> '''' \<Longrightarrow> hands_out S ns labels tok' ys \<Longrightarrow> hands_out S ns labels tok (xs @ ys)"

lemma run_page:
  "run_state (kube S (\<lambda>E. listAuditEvents E ns labels tok)) tr =
     (let r = env_ListAuditEvents (sv_Kube S tr) [] ns labels tok in (r, Kube (ListAuditEvents ns labels tok r) # tr))"
  by (simp add: kube_def run_embed listAuditEvents_def Let_def)

text \<open>A visitor that cannot fail and whose state depends only on the items seen so far.\<close>

lemma visitAuditPages_exact:
  assumes "hands_out S ns labels tok items" and visit: "\<And>xs page. visit (g xs) page = return (g (xs @ page), None)"
  shows "\<exists>tr'. visitAuditPages S ns labels visit n tok (g xs) tr = Some ((g (xs @ items), n + length items, None), tr')"
  using assms(1)
proof (induction tok items arbitrary: xs n tr rule: hands_out.induct)
  case (final tok items)
  then show ?case by (subst visitAuditPages.simps) (simp add: run_page Let_def visit)
next
  case (further tok ys tok' zs)
  obtain tr' where "visitAuditPages S ns labels visit (n + length ys) tok' (g (xs @ ys))
      (Kube (ListAuditEvents ns labels tok (Inr \<lparr>page_Items = ys, page_Continue = tok'\<rparr>)) # tr) =
      Some ((g ((xs @ ys) @ zs), (n + length ys) + length zs, None), tr')"
    using further.IH by blast
  then show ?case using further.hyps(1,2) by (subst visitAuditPages.simps) (simp add: run_page Let_def visit add.assoc)
qed

end
