(* ===== verification/Discoverer.thy ===== *)
theory Discoverer
  imports TargetReconcile
begin

text \<open>
  Workload discovery (\<open>src/internal/adapters/driven/kubernetes/discovery.go\<close> and the record
  \<open>DiscoveredWorkload\<close> of \<open>src/internal/ports/workload.go\<close>).  The discoverer reads the API server
  directly.  An index \<open>map[string]bool\<close> is the list of its keys, and a map from namespace names is the
  association list it is built from, with the newest entry first.
\<close>

section \<open>The operations\<close>

record DiscoveredWorkload =
  dw_Ref :: WorkloadRef
  dw_Replicas :: int
  dw_Suspended :: bool
  dw_ActiveJobs :: int
  dw_Annotations :: strmap
  dw_Labels :: strmap
  dw_NamespaceLabels :: strmap
  dw_NamespaceAnnotations :: strmap
  dw_Resources :: ResourceSummary
  dw_HPAControlled :: bool

definition listNamespaces :: "env \<Rightarrow> bool \<Rightarrow> ObjectMeta list result io" where
  "listNamespaces E live = call (\<lambda>tr. env_ListNamespaces E tr live) (ListNamespaces live)"

definition listDeployments :: "env \<Rightarrow> string \<Rightarrow> Deployment list result io" where
  "listDeployments E ns = call (\<lambda>tr. env_ListDeployments E tr ns) (ListDeployments ns)"

definition listStatefulSets :: "env \<Rightarrow> string \<Rightarrow> StatefulSet list result io" where
  "listStatefulSets E ns = call (\<lambda>tr. env_ListStatefulSets E tr ns) (ListStatefulSets ns)"

definition listCronJobs :: "env \<Rightarrow> string \<Rightarrow> CronJob list result io" where
  "listCronJobs E ns = call (\<lambda>tr. env_ListCronJobs E tr ns) (ListCronJobs ns)"

lemmas discovery_call_defs = listNamespaces_def listDeployments_def listStatefulSets_def listCronJobs_def
  listHPAs_def getNamespace_def

definition depReplicas :: "Deployment \<Rightarrow> int" where
  "depReplicas dep = ptrInt32Val (wl_Replicas dep)"

definition workloadIdentity :: "string \<Rightarrow> string \<Rightarrow> string \<Rightarrow> string \<Rightarrow> string" where
  "workloadIdentity ns apiVersion kind name = ns @ NUL @ apiVersion @ NUL @ kind @ NUL @ name"

fun indexedHPATargets :: "HPA list \<Rightarrow> (string \<Rightarrow> bool) \<Rightarrow> string list" where
  "indexedHPATargets [] incl = []"
| "indexedHPATargets (hpa # hpas) incl =
     (if \<not> incl (hpa_Namespace hpa) then indexedHPATargets hpas incl
      else if hpa_TargetAPIVersion hpa \<noteq> ''apps/v1'' \<or>
              (hpa_TargetKind hpa \<noteq> ''Deployment'' \<and> hpa_TargetKind hpa \<noteq> ''StatefulSet'') \<or> hpa_TargetName hpa = ''''
      then indexedHPATargets hpas incl
      else workloadIdentity (hpa_Namespace hpa) (hpa_TargetAPIVersion hpa) (hpa_TargetKind hpa) (hpa_TargetName hpa)
             # indexedHPATargets hpas incl)"

text \<open>The metadata of the selected namespaces, and the look-up with the zero value for the rest.\<close>

definition included :: "string list \<Rightarrow> string \<Rightarrow> bool" where
  "included namespaces ns \<longleftrightarrow> namespaces = [] \<or> ns \<in> set namespaces"

definition namespaceIndex :: "string list \<Rightarrow> ObjectMeta list \<Rightarrow> (string \<times> ObjectMeta) list" where
  "namespaceIndex namespaces items = rev (map (\<lambda>ns. (om_Name ns, ns)) (filter (\<lambda>ns. included namespaces (om_Name ns)) items))"

definition nsMap :: "(ObjectMeta \<Rightarrow> strmap) \<Rightarrow> (string \<times> ObjectMeta) list \<Rightarrow> string \<Rightarrow> strmap" where
  "nsMap field index ns = (case map_of index ns of None \<Rightarrow> [] | Some meta \<Rightarrow> field meta)"

text \<open>
  The three literals \<open>ports.DiscoveredWorkload{...}\<close>, given the namespace's metadata and the index of
  the HPA targets.
\<close>

definition discoveredDeployment :: "strmap \<Rightarrow> strmap \<Rightarrow> string list \<Rightarrow> string \<Rightarrow> Deployment \<Rightarrow> DiscoveredWorkload" where
  "discoveredDeployment nsAnnotations nsLabels hpaTargets ns dep =
     \<lparr>dw_Ref = \<lparr>ref_Cluster = '''', ref_APIVersion = ''apps/v1'', ref_Namespace = ns, ref_Name = om_Name (wl_Meta dep),
        ref_Kind = WorkloadKindDeployment, ref_UID = om_UID (wl_Meta dep)\<rparr>,
      dw_Replicas = depReplicas dep, dw_Suspended = False, dw_ActiveJobs = 0,
      dw_Annotations = om_Annotations (wl_Meta dep), dw_Labels = om_Labels (wl_Meta dep),
      dw_NamespaceLabels = nsLabels, dw_NamespaceAnnotations = nsAnnotations,
      dw_Resources = computeDeploymentResources dep,
      dw_HPAControlled = (workloadIdentity ns ''apps/v1'' ''Deployment'' (om_Name (wl_Meta dep)) \<in> set hpaTargets)\<rparr>"

definition discoveredStatefulSet :: "strmap \<Rightarrow> strmap \<Rightarrow> string list \<Rightarrow> string \<Rightarrow> StatefulSet \<Rightarrow> DiscoveredWorkload" where
  "discoveredStatefulSet nsAnnotations nsLabels hpaTargets ns ss =
     \<lparr>dw_Ref = \<lparr>ref_Cluster = '''', ref_APIVersion = ''apps/v1'', ref_Namespace = ns, ref_Name = om_Name (wl_Meta ss),
        ref_Kind = WorkloadKindStatefulSet, ref_UID = om_UID (wl_Meta ss)\<rparr>,
      dw_Replicas = ptrInt32Val (wl_Replicas ss), dw_Suspended = False, dw_ActiveJobs = 0,
      dw_Annotations = om_Annotations (wl_Meta ss), dw_Labels = om_Labels (wl_Meta ss),
      dw_NamespaceLabels = nsLabels, dw_NamespaceAnnotations = nsAnnotations,
      dw_Resources = computeStatefulSetResources ss,
      dw_HPAControlled = (workloadIdentity ns ''apps/v1'' ''StatefulSet'' (om_Name (wl_Meta ss)) \<in> set hpaTargets)\<rparr>"

definition discoveredCronJob :: "strmap \<Rightarrow> strmap \<Rightarrow> string \<Rightarrow> CronJob \<Rightarrow> DiscoveredWorkload" where
  "discoveredCronJob nsAnnotations nsLabels ns cj =
     \<lparr>dw_Ref = \<lparr>ref_Cluster = '''', ref_APIVersion = ''batch/v1'', ref_Namespace = ns, ref_Name = om_Name (cj_Meta cj),
        ref_Kind = WorkloadKindCronJob, ref_UID = om_UID (cj_Meta cj)\<rparr>,
      dw_Replicas = 0, dw_Suspended = ptrBoolVal (cj_Suspend cj), dw_ActiveJobs = wrap32 (int (cj_Active cj)),
      dw_Annotations = om_Annotations (cj_Meta cj), dw_Labels = om_Labels (cj_Meta cj),
      dw_NamespaceLabels = nsLabels, dw_NamespaceAnnotations = nsAnnotations,
      dw_Resources = computeCronJobResources cj, dw_HPAControlled = False\<rparr>"

text \<open>The result of a discovery from the lists it read.\<close>

definition discoveredAll ::
  "string list \<Rightarrow> ObjectMeta list \<Rightarrow> Deployment list \<Rightarrow> StatefulSet list \<Rightarrow> CronJob list \<Rightarrow> HPA list \<Rightarrow>
   DiscoveredWorkload list" where
  "discoveredAll namespaces nsList deployments statefulSets cronJobs hpas =
     (let index = namespaceIndex namespaces nsList;
          annotations = nsMap om_Annotations index; labels = nsMap om_Labels index;
          hpaTargets = indexedHPATargets hpas (included namespaces);
          of_meta = (\<lambda>f m. let ns = om_Namespace m in f (annotations ns) (labels ns))
      in map (\<lambda>d. of_meta discoveredDeployment (wl_Meta d) hpaTargets (om_Namespace (wl_Meta d)) d)
           (filter (\<lambda>d. included namespaces (om_Namespace (wl_Meta d))) deployments)
         @ map (\<lambda>s. of_meta discoveredStatefulSet (wl_Meta s) hpaTargets (om_Namespace (wl_Meta s)) s)
           (filter (\<lambda>s. included namespaces (om_Namespace (wl_Meta s))) statefulSets)
         @ map (\<lambda>c. discoveredCronJob (annotations (om_Namespace (cj_Meta c))) (labels (om_Namespace (cj_Meta c)))
                  (om_Namespace (cj_Meta c)) c)
           (filter (\<lambda>c. included namespaces (om_Namespace (cj_Meta c))) cronJobs))"

definition DiscoverAll :: "env \<Rightarrow> string list \<Rightarrow> DiscoveredWorkload list result io" where
  "DiscoverAll E namespaces = do {
     n \<leftarrow> listNamespaces E True;
     case n of Inl err \<Rightarrow> return (Inl err) | Inr nsList \<Rightarrow> do {
     d \<leftarrow> listDeployments E '''';
     case d of Inl err \<Rightarrow> return (Inl err) | Inr deployments \<Rightarrow> do {
     s \<leftarrow> listStatefulSets E '''';
     case s of Inl err \<Rightarrow> return (Inl err) | Inr statefulSets \<Rightarrow> do {
     c \<leftarrow> listCronJobs E '''';
     case c of Inl err \<Rightarrow> return (Inl err) | Inr cronJobs \<Rightarrow> do {
     h \<leftarrow> listHPAs E '''';
     case h of Inl err \<Rightarrow> return (Inl err)
     | Inr hpas \<Rightarrow> return (Inr (discoveredAll namespaces nsList deployments statefulSets cronJobs hpas)) }}}}}"

definition DiscoverByNamespace :: "env \<Rightarrow> string \<Rightarrow> DiscoveredWorkload list result io" where
  "DiscoverByNamespace E namespace = do {
     n \<leftarrow> getNamespace E namespace;
     case n of Inl err \<Rightarrow> return (Inl err) | Inr ns \<Rightarrow> do {
     h \<leftarrow> listHPAs E namespace;
     case h of Inl err \<Rightarrow> return (Inl err) | Inr hpas \<Rightarrow> do {
     let hpaTargets = indexedHPATargets hpas (\<lambda>_. True);
     d \<leftarrow> listDeployments E namespace;
     case d of Inl err \<Rightarrow> return (Inl err) | Inr deployments \<Rightarrow> do {
     s \<leftarrow> listStatefulSets E namespace;
     case s of Inl err \<Rightarrow> return (Inl err) | Inr statefulSets \<Rightarrow> do {
     c \<leftarrow> listCronJobs E namespace;
     case c of Inl err \<Rightarrow> return (Inl err) | Inr cronJobs \<Rightarrow>
       return (Inr (map (discoveredDeployment (om_Annotations ns) (om_Labels ns) hpaTargets namespace) deployments
         @ map (discoveredStatefulSet (om_Annotations ns) (om_Labels ns) hpaTargets namespace) statefulSets
         @ map (discoveredCronJob (om_Annotations ns) (om_Labels ns) namespace) cronJobs)) }}}}}"

section \<open>Lemmas\<close>

lemma append_sep_inj: "z \<notin> set x \<Longrightarrow> z \<notin> set y \<Longrightarrow> x @ z # u = y @ z # v \<Longrightarrow> x = y \<and> u = v"
  by (induction x arbitrary: y) (auto simp: Cons_eq_append_conv)

text \<open>Identities do not collide for namespaces without NUL and the two scalable kinds.\<close>

lemma workloadIdentity_inj:
  assumes "NUL ! 0 \<notin> set ns" and "NUL ! 0 \<notin> set ns'"
    and "kind \<in> {''Deployment'', ''StatefulSet''}" and "kind' \<in> {''Deployment'', ''StatefulSet''}"
  shows "workloadIdentity ns ''apps/v1'' kind name = workloadIdentity ns' ''apps/v1'' kind' name' \<longleftrightarrow>
    ns = ns' \<and> kind = kind' \<and> name = name'"
proof
  assume eq: "workloadIdentity ns ''apps/v1'' kind name = workloadIdentity ns' ''apps/v1'' kind' name'"
  have nul: "NUL @ s = NUL ! 0 # s" for s by (simp add: NUL_def)
  have "ns @ NUL ! 0 # (''apps/v1'' @ NUL @ kind @ NUL @ name) = ns' @ NUL ! 0 # (''apps/v1'' @ NUL @ kind' @ NUL @ name')"
    using eq by (simp only: workloadIdentity_def nul)
  then have 1: "ns = ns'" "''apps/v1'' @ NUL @ kind @ NUL @ name = ''apps/v1'' @ NUL @ kind' @ NUL @ name'"
    using append_sep_inj[OF assms(1,2)] by blast+
  then have "kind @ NUL ! 0 # name = kind' @ NUL ! 0 # name'" by (simp only: same_append_eq nul list.inject)
  moreover have "NUL ! 0 \<notin> set kind" "NUL ! 0 \<notin> set kind'" using assms(3,4)
    by (elim insertE; simp add: NUL_def char_of_eq_iff)+
  ultimately show "ns = ns' \<and> kind = kind' \<and> name = name'"
    using append_sep_inj 1(1) by metis
qed simp

lemma indexedHPATargets_iff:
  "i \<in> set (indexedHPATargets hpas incl) \<longleftrightarrow>
     (\<exists>h\<in>set hpas. incl (hpa_Namespace h) \<and> hpa_TargetAPIVersion h = ''apps/v1'' \<and>
        hpa_TargetKind h \<in> {''Deployment'', ''StatefulSet''} \<and> hpa_TargetName h \<noteq> '''' \<and>
        i = workloadIdentity (hpa_Namespace h) (hpa_TargetAPIVersion h) (hpa_TargetKind h) (hpa_TargetName h))"
  by (induction hpas incl rule: indexedHPATargets.induct) auto

lemma hpa_index_complete:
  assumes "kind \<in> {''Deployment'', ''StatefulSet''}" and "name \<noteq> ''''" and "incl (ref_Namespace ref)"
    and "ref_APIVersion ref = ''apps/v1''" and "ref_Kind ref = kind" and "ref_Name ref = name"
    and "list_ex (hpa_targets ref) (filter (\<lambda>h. hpa_Namespace h = ref_Namespace ref) hpas)"
  shows "workloadIdentity (ref_Namespace ref) ''apps/v1'' kind name \<in> set (indexedHPATargets hpas incl)"
proof -
  obtain h where "h \<in> set hpas" "hpa_Namespace h = ref_Namespace ref" "hpa_targets ref h"
    using assms(7) by (auto simp: list_ex_iff)
  with assms(1-6) show ?thesis unfolding indexedHPATargets_iff hpa_targets_def by (intro bexI[of _ h]) auto
qed

definition valid_namespaces :: "string \<Rightarrow> HPA list \<Rightarrow> bool" where
  "valid_namespaces ns hpas \<longleftrightarrow> NUL ! 0 \<notin> set ns \<and> list_all (\<lambda>h. NUL ! 0 \<notin> set (hpa_Namespace h)) hpas"

lemma hpa_index_unnamed:
  assumes "valid_namespaces ns hpas" and "kind \<in> {''Deployment'', ''StatefulSet''}"
  shows "workloadIdentity ns ''apps/v1'' kind '''' \<notin> set (indexedHPATargets hpas incl)"
  using assms by (auto simp: indexedHPATargets_iff valid_namespaces_def list_all_iff workloadIdentity_inj)

text \<open>The index agrees with the match that the target reconciler makes at mutation time.\<close>

lemma hpa_index_agrees:
  assumes "valid_namespaces ns hpas" and "incl ns" and "kind \<in> {''Deployment'', ''StatefulSet''}" and "name \<noteq> ''''"
    and "ref_APIVersion ref = ''apps/v1''" and "ref_Kind ref = kind" and "ref_Name ref = name"
  shows "workloadIdentity ns ''apps/v1'' kind name \<in> set (indexedHPATargets hpas incl) \<longleftrightarrow>
    list_ex (hpa_targets ref) (filter (\<lambda>h. hpa_Namespace h = ns) hpas)"
proof -
  have "NUL ! 0 \<notin> set (hpa_Namespace h)" if "h \<in> set hpas" for h
    using assms(1) that by (auto simp: valid_namespaces_def list_all_iff)
  moreover have "NUL ! 0 \<notin> set ns" using assms(1) by (simp add: valid_namespaces_def)
  ultimately show ?thesis
    using assms(2-) by (auto simp: indexedHPATargets_iff list_ex_iff hpa_targets_def workloadIdentity_inj)
qed

lemma DiscoverAll_run:
  assumes "run_state (DiscoverAll E namespaces) tr = (Inr ws, tr')"
  shows "\<exists>nsList ds ss cs hs. ws = discoveredAll namespaces nsList ds ss cs hs \<and>
    tr' = ListHPAs True '''' (Inr hs) # ListCronJobs '''' (Inr cs) # ListStatefulSets '''' (Inr ss) #
          ListDeployments '''' (Inr ds) # ListNamespaces True (Inr nsList) # tr"
  using assms by (auto simp: DiscoverAll_def discovery_call_defs split: sum.splits)

lemma discoveredAll_cases:
  assumes "w \<in> set (discoveredAll namespaces nsList ds ss cs hs)"
  obtains (scalable) kind name where "kind \<in> {''Deployment'', ''StatefulSet''}" "ref_Kind (dw_Ref w) = kind"
      "ref_APIVersion (dw_Ref w) = ''apps/v1''" "ref_Name (dw_Ref w) = name" "included namespaces (ref_Namespace (dw_Ref w))"
      "dw_HPAControlled w \<longleftrightarrow> workloadIdentity (ref_Namespace (dw_Ref w)) ''apps/v1'' kind name \<in> set (indexedHPATargets hs (included namespaces))"
    | (cron) "ref_Kind (dw_Ref w) = WorkloadKindCronJob" "\<not> dw_HPAControlled w"
  using assms
  by (fastforce simp: discoveredAll_def Let_def discoveredDeployment_def discoveredStatefulSet_def discoveredCronJob_def
      WorkloadKindDeployment_def WorkloadKindStatefulSet_def)

text \<open>A cluster at rest: every list and read is answered from the same objects, at any time.\<close>

record objects =
  obj_Namespaces :: "ObjectMeta list"
  obj_Deployments :: "Deployment list"
  obj_StatefulSets :: "StatefulSet list"
  obj_CronJobs :: "CronJob list"
  obj_HPAs :: "HPA list"

definition in_ns :: "('a \<Rightarrow> string) \<Rightarrow> string \<Rightarrow> 'a list \<Rightarrow> 'a list" where
  "in_ns ns_of ns xs = filter (\<lambda>x. ns = '''' \<or> ns_of x = ns) xs"

definition at_rest :: "env \<Rightarrow> objects \<Rightarrow> bool" where
  "at_rest E K \<longleftrightarrow>
     (\<forall>tr. env_ListNamespaces E tr True = Inr (obj_Namespaces K)) \<and>
     (\<forall>tr ns. env_ListDeployments E tr ns = Inr (in_ns (\<lambda>d. om_Namespace (wl_Meta d)) ns (obj_Deployments K))) \<and>
     (\<forall>tr ns. env_ListStatefulSets E tr ns = Inr (in_ns (\<lambda>d. om_Namespace (wl_Meta d)) ns (obj_StatefulSets K))) \<and>
     (\<forall>tr ns. env_ListCronJobs E tr ns = Inr (in_ns (\<lambda>d. om_Namespace (cj_Meta d)) ns (obj_CronJobs K))) \<and>
     (\<forall>tr ns. env_ListHPAs E tr True ns = Inr (in_ns hpa_Namespace ns (obj_HPAs K))) \<and>
     (\<forall>tr ns. env_GetNamespace E tr True ns =
        (case filter (\<lambda>m. om_Name m = ns) (obj_Namespaces K) of [] \<Rightarrow> Inl not_found | m # _ \<Rightarrow> Inr m))"

lemma in_ns_simps [simp]: "in_ns f '''' xs = xs" "ns \<noteq> '''' \<Longrightarrow> in_ns f ns xs = filter (\<lambda>x. f x = ns) xs"
  by (simp_all add: in_ns_def)

lemma included_single [simp]: "included [ns] m \<longleftrightarrow> m = ns"
  by (simp add: included_def)

lemma indexedHPATargets_single:
  "indexedHPATargets (filter (\<lambda>h. hpa_Namespace h = ns) hs) (\<lambda>_. True) = indexedHPATargets hs (included [ns])"
  by (induction hs) auto

lemma namespaceIndex_single:
  assumes "filter (\<lambda>m. om_Name m = ns) nsList = [m]"
  shows "nsMap field (namespaceIndex [ns] nsList) ns = field m"
  using assms filter_set[of "\<lambda>m. om_Name m = ns" nsList] by (auto simp: namespaceIndex_def nsMap_def)

section \<open>Properties\<close>

text \<open>
  C15. Discovery and the check at mutation time agree on autoscalers, except where discovery does not
  look.  A discovered Deployment or StatefulSet (with a name, as every object has) that one of the
  autoscalers read in the same discovery, in its namespace, targets by the very test the target
  reconciler applies before a power-down is marked as controlled by an HPA; and when no namespace
  contains the separator NUL, which Kubernetes forbids, nothing else is marked.  A CronJob never is,
  although the reconciler's test would match an autoscaler that names it.
\<close>

theorem DiscoverAll_hpa_agrees:
  assumes "run_state (DiscoverAll E namespaces) tr = (Inr ws, ListHPAs True '''' (Inr hpas) # tr')" and "w \<in> set ws"
  shows "let matched = list_ex (hpa_targets (dw_Ref w)) (filter (\<lambda>h. hpa_Namespace h = ref_Namespace (dw_Ref w)) hpas);
      expected = (ref_Kind (dw_Ref w) \<in> {WorkloadKindDeployment, WorkloadKindStatefulSet} \<and>
        ref_Name (dw_Ref w) \<noteq> '''' \<and> matched)
    in (expected \<longrightarrow> dw_HPAControlled w) \<and>
       (valid_namespaces (ref_Namespace (dw_Ref w)) hpas \<longrightarrow> (dw_HPAControlled w \<longleftrightarrow> expected)) \<and>
       (ref_Kind (dw_Ref w) \<notin> {WorkloadKindDeployment, WorkloadKindStatefulSet} \<longrightarrow>
          ref_Kind (dw_Ref w) = WorkloadKindCronJob \<and> \<not> dw_HPAControlled w)"
proof -
  obtain nsList ds ss cs where "ws = discoveredAll namespaces nsList ds ss cs hpas"
    using DiscoverAll_run[OF assms(1)] by auto
  with assms(2) have "w \<in> set (discoveredAll namespaces nsList ds ss cs hpas)" by simp
  then show ?thesis
  proof (cases rule: discoveredAll_cases)
    case (scalable kind name)
    then have kinds: "kind \<in> {WorkloadKindDeployment, WorkloadKindStatefulSet}"
      by (auto simp: WorkloadKindDeployment_def WorkloadKindStatefulSet_def)
    from scalable hpa_index_complete[of kind name "included namespaces" "dw_Ref w" hpas]
      hpa_index_agrees[of "ref_Namespace (dw_Ref w)" hpas "included namespaces" kind name "dw_Ref w"] kinds
      hpa_index_unnamed[of "ref_Namespace (dw_Ref w)" hpas kind "included namespaces"]
    show ?thesis unfolding Let_def by (cases "name = ''''") auto
  next
    case cron
    then show ?thesis by (simp add: WorkloadKindCronJob_def WorkloadKindDeployment_def WorkloadKindStatefulSet_def)
  qed
qed

definition web_hpa :: HPA where
  "web_hpa = \<lparr>hpa_Namespace = ''dev'', hpa_TargetAPIVersion = ''apps/v1'', hpa_TargetKind = ''Deployment'', hpa_TargetName = ''web''\<rparr>"

definition busy_cluster :: env where
  "busy_cluster = empty_cluster\<lparr>env_ListNamespaces := (\<lambda>_ _. Inr [(png_Meta dev_group)\<lparr>om_Name := ''dev''\<rparr>]),
     env_GetNamespace := (\<lambda>_ _ ns. if ns = ''dev'' then Inr ((png_Meta dev_group)\<lparr>om_Name := ''dev''\<rparr>) else Inl not_found),
     env_ListDeployments := (\<lambda>_ ns. Inr (in_ns (\<lambda>d. om_Namespace (wl_Meta d)) ns [web_deployment])),
     env_ListStatefulSets := (\<lambda>_ _. Inr []), env_ListCronJobs := (\<lambda>_ _. Inr []),
     env_ListHPAs := (\<lambda>_ _ ns. Inr (in_ns hpa_Namespace ns [web_hpa]))\<rparr>"

lemma busy_run: "run_state (DiscoverAll busy_cluster []) [] =
    (Inr (discoveredAll [] [(png_Meta dev_group)\<lparr>om_Name := ''dev''\<rparr>] [web_deployment] [] [] [web_hpa]),
     [ListHPAs True '''' (Inr [web_hpa]), ListCronJobs '''' (Inr []), ListStatefulSets '''' (Inr []),
      ListDeployments '''' (Inr [web_deployment]), ListNamespaces True (Inr [(png_Meta dev_group)\<lparr>om_Name := ''dev''\<rparr>])])"
  by (simp add: DiscoverAll_def discovery_call_defs busy_cluster_def)

theorem DiscoverAll_hpa_agrees_witness:
  "\<exists>w. discoveredAll [] [(png_Meta dev_group)\<lparr>om_Name := ''dev''\<rparr>] [web_deployment] [] [] [web_hpa] = [w] \<and> dw_HPAControlled w"
proof -
  let ?ws = "discoveredAll [] [(png_Meta dev_group)\<lparr>om_Name := ''dev''\<rparr>] [web_deployment] [] [] [web_hpa]"
  obtain w where w: "?ws = [w]" by (simp add: discoveredAll_def included_def Let_def)
  have ref: "ref_Namespace (dw_Ref w) = ''dev''" "ref_Name (dw_Ref w) = ''web''" "ref_Kind (dw_Ref w) = ''Deployment''"
    "ref_APIVersion (dw_Ref w) = ''apps/v1''"
    using w by (auto simp: discoveredAll_def included_def Let_def discoveredDeployment_def web_deployment_def WorkloadKindDeployment_def)
  have "dw_HPAControlled w"
    using DiscoverAll_hpa_agrees[OF busy_run, of w] w ref
    by (simp add: web_hpa_def hpa_targets_def WorkloadKindDeployment_def Let_def)
  with w show ?thesis by blast
qed

text \<open>
  Discovering one namespace and discovering the cluster restricted to it are the same: on a
  cluster at rest, for a namespace that exists (once), \<open>DiscoverByNamespace\<close> and \<open>DiscoverAll\<close> with
  that namespace selected return the same workloads in the same order, with the same metadata,
  resources and autoscaler marks.
\<close>

theorem DiscoverByNamespace_equiv:
  assumes "at_rest E K" and "filter (\<lambda>m. om_Name m = ns) (obj_Namespaces K) = [m]" and "ns \<noteq> ''''"
  shows "\<exists>ws. fst (run_state (DiscoverByNamespace E ns) tr) = Inr ws \<and> fst (run_state (DiscoverAll E [ns]) tr') = Inr ws"
  using assms(1,3)
  by (simp add: at_rest_def DiscoverByNamespace_def DiscoverAll_def discovery_call_defs discoveredAll_def
      indexedHPATargets_single namespaceIndex_single[OF assms(2)] assms(2) Let_def cong: map_cong)

theorem DiscoverByNamespace_equiv_witness:
  "\<exists>ws. fst (run_state (DiscoverByNamespace busy_cluster ''dev'') []) = Inr ws \<and>
     fst (run_state (DiscoverAll busy_cluster [''dev'']) []) = Inr ws"
proof (rule DiscoverByNamespace_equiv)
  show "at_rest busy_cluster \<lparr>obj_Namespaces = [(png_Meta dev_group)\<lparr>om_Name := ''dev''\<rparr>], obj_Deployments = [web_deployment],
      obj_StatefulSets = [], obj_CronJobs = [], obj_HPAs = [web_hpa]\<rparr>"
    by (simp add: at_rest_def busy_cluster_def in_ns_def)
qed simp_all

end
