(* ===== verification/ApiHandlers.thy ===== *)
theory ApiHandlers
  imports AuditPages Discoverer
begin

text \<open>
  The handlers of the API server that only read (\<open>src/internal/adapters/driving/api/handlers.go\<close>); those that write
  and the routes are in \<open>ApiRoutes\<close>.  Query parameters, path parameters and the result of
  \<open>ShouldBindJSON\<close> are arguments of a handler.  The documents are the JSON objects of the source with a
  constructor for each; a CSV export is the sequence of its \<open>WriteString\<close> calls.
\<close>

section \<open>Documents\<close>

record statusCounts =
  stc_TotalTargets :: nat
  stc_PoweredOn :: nat
  stc_PoweredOff :: nat
  stc_Blocked :: nat
  stc_Divergent :: nat
  stc_ActivePolicies :: nat
  stc_ActiveOverrides :: nat

record recentEvent =
  rev_Timestamp :: go_time
  rev_Action :: string
  rev_Target :: AuditResourceReference
  rev_Result :: string
  rev_Reason :: string
  rev_RuleName :: string

record transition =
  tn_Policy :: string
  tn_State :: string
  tn_Time :: string
  tn_Namespace :: string

record dashboard =
  db_Summary :: statusCounts
  db_Governed :: nat
  db_Efficiency :: float64
  db_CPUHours :: float64
  db_MemoryGiBHours :: float64
  db_EstimatedCost :: float64
  db_RecentEvents :: "recentEvent list"
  db_NextTransitions :: "transition list"
  db_GeneratedAt :: go_time

record explanation =
  ex_Ref :: TargetReference
  ex_EffectiveState :: string
  ex_ObservedState :: ObservedStateSpec
  ex_WinningRule :: "RuleReference option"
  ex_SuppressedRules :: "RuleReference list"
  ex_Blocked :: bool
  ex_BlockReasons :: "BlockReasonSpec list"
  ex_Snapshot :: "SnapshotSpec option"
  ex_Ownership :: "OwnershipSpec list"
  ex_Savings :: "SavingsSpec option"
  ex_LastTransition :: "go_time option"

record workloadSavings =
  ws_Namespace :: string
  ws_Name :: string
  ws_Kind :: string
  ws_CPUHours :: float64
  ws_MemoryGiBH :: float64
  ws_EstCost :: float64
  ws_DesiredState :: string

datatype document =
    HealthDocument
  | ReadyDocument
  | StatusDocument statusCounts
  | DashboardDocument dashboard
  | DiscoverDocument nat nat nat
  | TargetsDocument "PowerTarget list" nat
  | ExplainDocument explanation
  | PreviewDocument previewResponse
  | SavingsDocument float64 float64 float64
  | BreakdownDocument "workloadSavings list" "(string \<times> float64) list" nat nat
  | StreamDocument
  | AuditDocument "PowerAuditEvent list" nat nat
  | PoliciesDocument "PowerPolicy list" nat
  | OverridesDocument "PowerOverride list" nat
  | NamespacesDocument "string list"
  | GroupsDocument "PowerNamespaceGroup list" nat
  | ChannelsDocument "PowerNotificationChannel list" nat
  | NamedDocument string string
  | UpdatedDocument string string
  | DeletedDocument string

section \<open>Reading\<close>

text \<open>Most handlers begin with the list of all targets.\<close>

definition withTargets :: "server_env \<Rightarrow> Server \<Rightarrow> (PowerTarget list \<Rightarrow> document answer sio) \<Rightarrow> document answer sio" where
  "withTargets S s k = do {
     t \<leftarrow> kube S (\<lambda>E. listTargets E (controlNamespace s));
     case t of
       Inl err \<Rightarrow> return (refuse 500 (err_Text err))
     | Inr targets \<Rightarrow> k targets
   }"

definition handleHealthz :: "document answer sio" where
  "handleHealthz = return (Answer 200 HealthDocument)"

definition handleReadyz :: "server_env \<Rightarrow> Server \<Rightarrow> bool \<Rightarrow> document answer sio" where
  "handleReadyz S s hasStore = do {
     l \<leftarrow> listLimited S (controlNamespace s) 1;
     case l of
       Inl err \<Rightarrow> return (Refusal 503 (err_Text err) (ComponentDetail ''kubernetes''))
     | Inr _ \<Rightarrow>
         if hasStore then do {
           p \<leftarrow> pingStore S;
           return (case p of
               Some err \<Rightarrow> Refusal 503 (err_Text err) (ComponentDetail ''database'')
             | None \<Rightarrow> Answer 200 ReadyDocument)
         } else return (Answer 200 ReadyDocument)
   }"

text \<open>A list whose error the handler ignores is empty then.\<close>

definition or_empty :: "'a list result \<Rightarrow> 'a list" where
  "or_empty r = (case r of Inl _ \<Rightarrow> [] | Inr xs \<Rightarrow> xs)"

definition activeOverrides :: "PowerOverride list \<Rightarrow> nat" where
  "activeOverrides vs = length (filter (\<lambda>v. post_Phase (po_Status v) = ''Active'') vs)"

datatype status_class = ClassBlocked | ClassDivergent | ClassOff | ClassOn

definition statusClass :: "PowerTarget \<Rightarrow> status_class" where
  "statusClass t =
     (if ts_Blocked (pt_Status t) then ClassBlocked
      else if ts_Divergent (pt_Status t) then ClassDivergent
      else if ts_DesiredState (pt_Status t) = ''off'' then ClassOff
      else ClassOn)"

definition countClass :: "status_class \<Rightarrow> PowerTarget list \<Rightarrow> nat" where
  "countClass c ts = length (filter (\<lambda>t. statusClass t = c) ts)"

definition handleStatus :: "server_env \<Rightarrow> Server \<Rightarrow> document answer sio" where
  "handleStatus S s = withTargets S s (\<lambda>targets. do {
     policies \<leftarrow> kube S (\<lambda>E. listPolicies E (controlNamespace s));
     overrides \<leftarrow> kube S (\<lambda>E. listOverrides E (controlNamespace s));
     return (Answer 200 (StatusDocument
       \<lparr>stc_TotalTargets = length targets, stc_PoweredOn = countClass ClassOn targets,
        stc_PoweredOff = countClass ClassOff targets, stc_Blocked = countClass ClassBlocked targets,
        stc_Divergent = countClass ClassDivergent targets, stc_ActivePolicies = length (or_empty policies),
        stc_ActiveOverrides = activeOverrides (or_empty overrides)\<rparr>))
   })"

text \<open>The sums over the savings of the targets, in their order.\<close>

definition addTargetSavings :: "rounding \<Rightarrow> PowerTarget \<Rightarrow> float64 \<times> float64 \<times> float64 \<Rightarrow> float64 \<times> float64 \<times> float64" where
  "addTargetSavings rnd t acc =
     (case ts_Savings (pt_Status t) of
        None \<Rightarrow> acc
      | Some sv \<Rightarrow> (case acc of (cpu, memory, cost) \<Rightarrow>
          (fadd rnd cpu (svs_CPUHoursSaved sv), fadd rnd memory (svs_MemoryGiBHours sv), fadd rnd cost (svs_EstimatedCost sv))))"

definition totalSavings :: "rounding \<Rightarrow> PowerTarget list \<Rightarrow> float64 \<times> float64 \<times> float64" where
  "totalSavings rnd ts = fold (addTargetSavings rnd) ts (0, 0, 0)"

definition looksOff :: "PowerTarget \<Rightarrow> bool" where
  "looksOff t \<longleftrightarrow> oss_PowerState (ts_ObservedState (pt_Status t)) = ''off'' \<or> oss_Replicas (ts_ObservedState (pt_Status t)) = 0"

definition recent :: "PowerAuditEvent \<Rightarrow> recentEvent" where
  "recent e =
     \<lparr>rev_Timestamp = om_CreationTimestamp (pae_Meta e), rev_Action = aes_Action (pae_Spec e),
      rev_Target = aes_Target (pae_Spec e), rev_Result = aes_Result (pae_Spec e), rev_Reason = aes_Reason (pae_Spec e),
      rev_RuleName = aes_RuleName (pae_Spec e)\<rparr>"

definition nextTransitions :: "PowerPolicy list \<Rightarrow> transition list" where
  "nextTransitions ps =
     take 5 (concat (map (\<lambda>p.
       map (\<lambda>w. \<lparr>tn_Policy = om_Name (pp_Meta p), tn_State = psch_DesiredState (pps_Schedule (pp_Spec p)),
                 tn_Time = tws_End w, tn_Namespace = om_Namespace (pp_Meta p)\<rparr>)
         (filter (\<lambda>w. tws_Start w \<noteq> '''' \<and> tws_End w \<noteq> '''') (psch_Windows (pps_Schedule (pp_Spec p))))) ps))"

definition dashboardOf ::
  "rounding \<Rightarrow> PowerTarget list \<Rightarrow> PowerPolicy list \<Rightarrow> PowerOverride list \<Rightarrow> PowerAuditEvent list \<Rightarrow> go_time \<Rightarrow> dashboard" where
  "dashboardOf rnd targets policies overrides recentAudit now =
     (let governed = length (filter (\<lambda>t. ts_Managed (pt_Status t)) targets);
          (cpu, memory, cost) = totalSavings rnd targets
      in \<lparr>db_Summary = \<lparr>stc_TotalTargets = length targets,
             stc_PoweredOn = length (filter (\<lambda>t. \<not> looksOff t) targets),
             stc_PoweredOff = length (filter looksOff targets),
             stc_Blocked = length (filter (\<lambda>t. ts_Blocked (pt_Status t)) targets),
             stc_Divergent = length (filter (\<lambda>t. ts_Divergent (pt_Status t)) targets),
             stc_ActivePolicies = length policies, stc_ActiveOverrides = activeOverrides overrides\<rparr>,
          db_Governed = governed,
          db_Efficiency = (if length targets > 0
             then fmul rnd (fdiv rnd (float_of_int rnd (int governed)) (float_of_int rnd (int (length targets)))) 100 else 0),
          db_CPUHours = cpu, db_MemoryGiBHours = memory, db_EstimatedCost = cost,
          db_RecentEvents = map recent (take 10 recentAudit),
          db_NextTransitions = nextTransitions policies, db_GeneratedAt = now\<rparr>)"

text \<open>A handler that walks the audit history may not return.\<close>

type_synonym handling = "api_trace \<Rightarrow> (document answer \<times> api_trace) option"

definition returns :: "document answer sio \<Rightarrow> handling" where
  "returns m tr = Some (run_state m tr)"

definition retain :: "nat \<Rightarrow> PowerAuditEvent list \<Rightarrow> PowerAuditEvent list \<Rightarrow> (PowerAuditEvent list \<times> go_error option) sio" where
  "retain limit events page = return (retainNewest events page limit, None)"

definition handleDashboard :: "server_env \<Rightarrow> Server \<Rightarrow> handling" where
  "handleDashboard S s tr =
     (case run_state (kube S (\<lambda>E. listTargets E (controlNamespace s))) tr of
        (Inl err, tr) \<Rightarrow> Some (refuse 500 (err_Text err), tr)
      | (Inr targets, tr) \<Rightarrow>
          (case run_state (kube S (\<lambda>E. listPolicies E (controlNamespace s))) tr of (policies, tr) \<Rightarrow>
            (case run_state (kube S (\<lambda>E. listOverrides E (controlNamespace s))) tr of (overrides, tr) \<Rightarrow>
              (case visitAuditPages S (controlNamespace s) [] (retain 10) 0 '''' [] tr of
                 None \<Rightarrow> None
               | Some ((recentAudit, _, _), tr) \<Rightarrow>
                   returns (do {
                     now \<leftarrow> kube S time_Now;
                     return (Answer 200 (DashboardDocument
                       (dashboardOf (sv_rnd S) targets (or_empty policies) (or_empty overrides) recentAudit now)))
                   }) tr))))"

definition handleDiscover :: "server_env \<Rightarrow> Server \<Rightarrow> document answer sio" where
  "handleDiscover S s = withTargets S s (\<lambda>targets.
     return (Answer 200 (DiscoverDocument (length targets) (length (filter (\<lambda>t. \<not> ts_Blocked (pt_Status t)) targets))
       (length (filter (\<lambda>t. ts_Blocked (pt_Status t)) targets)))))"

definition handleListTargets :: "server_env \<Rightarrow> Server \<Rightarrow> string \<Rightarrow> string \<Rightarrow> document answer sio" where
  "handleListTargets S s namespace state = do {
     l \<leftarrow> listLabelled S (controlNamespace s)
            (if namespace \<noteq> '''' then [(''power.aura.sh/target-namespace'', namespace)] else []);
     return (case l of
         Inl err \<Rightarrow> refuse 500 (err_Text err)
       | Inr targets \<Rightarrow>
           (let filtered = filter (\<lambda>t. \<not> (state \<noteq> '''' \<and> ts_DesiredState (pt_Status t) \<noteq> state)) targets
            in Answer 200 (TargetsDocument filtered (length filtered))))
   }"

definition explain :: "PowerTarget \<Rightarrow> explanation" where
  "explain t =
     (let st = pt_Status t in
      \<lparr>ex_Ref = pt_TargetRef t, ex_EffectiveState = ts_DesiredState st, ex_ObservedState = ts_ObservedState st,
       ex_WinningRule = ts_WinningRule st, ex_SuppressedRules = ts_SuppressedRules st, ex_Blocked = ts_Blocked st,
       ex_BlockReasons = ts_BlockReasons st, ex_Snapshot = ts_Snapshot st, ex_Ownership = ts_Ownership st,
       ex_Savings = ts_Savings st, ex_LastTransition = ts_LastTransition st\<rparr>)"

definition handleExplainTarget ::
  "server_env \<Rightarrow> Server \<Rightarrow> string \<Rightarrow> string \<Rightarrow> string \<Rightarrow> string \<Rightarrow> document answer sio" where
  "handleExplainTarget S s ns name kind uid = do {
     l \<leftarrow> listLabelled S (controlNamespace s)
            [(''power.aura.sh/target-namespace'', ns), (''power.aura.sh/target-name'', name)];
     return (case l of
         Inl err \<Rightarrow> refuse 500 (err_Text err)
       | Inr items \<Rightarrow>
           (let targets = (if kind \<noteq> '''' \<or> uid \<noteq> ''''
                  then filter (\<lambda>t. \<not> (kind \<noteq> '''' \<and> tref_Kind (pt_TargetRef t) \<noteq> kind) \<and>
                                   \<not> (uid \<noteq> '''' \<and> tref_UID (pt_TargetRef t) \<noteq> uid)) items
                  else items)
            in if length targets = 0 then refuse 404 ''target not found''
               else if length targets > 1
               then Refusal 409 ''target reference is ambiguous; specify kind and optionally uid'' (CountDetail (length targets))
               else Answer 200 (ExplainDocument (explain (targets ! 0)))))
   }"

definition handleSavings :: "server_env \<Rightarrow> Server \<Rightarrow> document answer sio" where
  "handleSavings S s = withTargets S s (\<lambda>targets.
     (case totalSavings (sv_rnd S) targets of (cpu, memory, cost) \<Rightarrow> return (Answer 200 (SavingsDocument cpu memory cost))))"

text \<open>\<open>namespaceTotals[ns] += cost\<close>; the enumeration of the map has some order.\<close>

fun addTotal :: "rounding \<Rightarrow> string \<Rightarrow> float64 \<Rightarrow> (string \<times> float64) list \<Rightarrow> (string \<times> float64) list" where
  "addTotal rnd ns cost [] = [(ns, fadd rnd 0 cost)]"
| "addTotal rnd ns cost ((n, c) # totals) =
     (if n = ns then (n, fadd rnd c cost) # totals else (n, c) # addTotal rnd ns cost totals)"

definition savingsOf :: "PowerTarget \<Rightarrow> SavingsSpec option" where
  "savingsOf t =
     (case ts_Savings (pt_Status t) of
        None \<Rightarrow> None
      | Some sv \<Rightarrow>
          (if svs_CPUHoursSaved sv > 0 \<or> svs_MemoryGiBHours sv > 0 \<or> svs_EstimatedCost sv > 0 then Some sv else None))"

definition savingsItem :: "PowerTarget \<Rightarrow> SavingsSpec \<Rightarrow> workloadSavings" where
  "savingsItem t sv =
     \<lparr>ws_Namespace = tref_Namespace (pt_TargetRef t), ws_Name = tref_Name (pt_TargetRef t),
      ws_Kind = tref_Kind (pt_TargetRef t), ws_CPUHours = svs_CPUHoursSaved sv, ws_MemoryGiBH = svs_MemoryGiBHours sv,
      ws_EstCost = svs_EstimatedCost sv, ws_DesiredState = ts_DesiredState (pt_Status t)\<rparr>"

definition breakdownItems :: "PowerTarget list \<Rightarrow> workloadSavings list" where
  "breakdownItems targets = List.map_filter (\<lambda>t. map_option (savingsItem t) (savingsOf t)) targets"

definition namespaceTotals :: "rounding \<Rightarrow> workloadSavings list \<Rightarrow> (string \<times> float64) list" where
  "namespaceTotals rnd items = fold (\<lambda>w. addTotal rnd (ws_Namespace w) (ws_EstCost w)) items []"

definition handleSavingsBreakdown :: "server_env \<Rightarrow> Server \<Rightarrow> document answer sio" where
  "handleSavingsBreakdown S s = withTargets S s (\<lambda>targets. do {
     let items = breakdownItems targets;
     tr \<leftarrow> State_Monad.get;
     return (Answer 200 (BreakdownDocument items (sv_Enumerate S tr (namespaceTotals (sv_rnd S) items))
       (length (filter (\<lambda>t. ts_DesiredState (pt_Status t) = ''off'') targets)) (length targets)))
   })"

definition savingsLine :: "server_env \<Rightarrow> PowerTarget \<Rightarrow> SavingsSpec \<Rightarrow> string" where
  "savingsLine S t sv =
     Join [tref_Namespace (pt_TargetRef t), tref_Name (pt_TargetRef t), tref_Kind (pt_TargetRef t),
           sv_FormatFixed S 2 (svs_CPUHoursSaved sv), sv_FormatFixed S 2 (svs_MemoryGiBHours sv),
           sv_FormatFixed S 4 (svs_EstimatedCost sv), ts_DesiredState (pt_Status t)] '','' @ [CHR 0x0A]"

fun writeSavings :: "server_env \<Rightarrow> PowerTarget list \<Rightarrow> unit sio" where
  "writeSavings S [] = return ()"
| "writeSavings S (t # ts) =
     (case ts_Savings (pt_Status t) of
        None \<Rightarrow> writeSavings S ts
      | Some sv \<Rightarrow>
          if svs_CPUHoursSaved sv = 0 \<and> svs_MemoryGiBHours sv = 0 \<and> svs_EstimatedCost sv = 0 then writeSavings S ts
          else do { _ \<leftarrow> writeString S (savingsLine S t sv); writeSavings S ts })"

definition handleSavingsExport :: "server_env \<Rightarrow> Server \<Rightarrow> document answer sio" where
  "handleSavingsExport S s = withTargets S s (\<lambda>targets. do {
     _ \<leftarrow> writeString S (''namespace,name,kind,cpu_hours_saved,memory_gib_hours_saved,estimated_cost_usd,desired_state'' @ [CHR 0x0A]);
     writeSavings S targets;
     return (Answer 200 StreamDocument)
   })"

text \<open>A page of the audit export: the first line that cannot be written ends the walk.\<close>

fun writeEvents :: "server_env \<Rightarrow> PowerAuditEvent list \<Rightarrow> go_error option sio" where
  "writeEvents S [] = return None"
| "writeEvents S (e # es) = do {
     w \<leftarrow> writeString S (auditLine S e);
     case w of Inl err \<Rightarrow> return (Some err) | Inr _ \<Rightarrow> writeEvents S es
   }"

definition exportPage :: "server_env \<Rightarrow> unit \<Rightarrow> PowerAuditEvent list \<Rightarrow> (unit \<times> go_error option) sio" where
  "exportPage S s page = do { err \<leftarrow> writeEvents S page; return ((), err) }"

definition auditHeader :: string where
  "auditHeader = ''timestamp,action,target_namespace,target_name,target_kind,result,reason,rule_name,notification_suppressed,notification_suppression_source,notification_suppression_namespace_uid'' @ [CHR 0x0A]"

definition handleAuditExport :: "server_env \<Rightarrow> Server \<Rightarrow> handling" where
  "handleAuditExport S s tr =
     (case run_state (writeString S auditHeader) tr of (_, tr) \<Rightarrow>
       (case visitAuditPages S (controlNamespace s) [] (exportPage S) 0 '''' () tr of
          None \<Rightarrow> None
        | Some (_, tr) \<Rightarrow> Some (Answer 200 StreamDocument, tr)))"

definition auditQueryLabels :: "string \<Rightarrow> string \<Rightarrow> string \<Rightarrow> string \<Rightarrow> strmap" where
  "auditQueryLabels targetNs targetName targetKind targetUID =
     (if targetNs \<noteq> '''' \<and> targetName \<noteq> '''' then
        [(''power.aura.sh/target-namespace'', targetNs), (''power.aura.sh/target-name'', targetName)]
        @ (if targetKind \<noteq> '''' then [(''power.aura.sh/target-kind'', targetKind)] else [])
        @ (if targetUID \<noteq> '''' then [(''power.aura.sh/target-uid'', targetUID)] else [])
      else [])"

definition handleAuditList ::
  "server_env \<Rightarrow> Server \<Rightarrow> string \<Rightarrow> string \<Rightarrow> string \<Rightarrow> string \<Rightarrow> string \<Rightarrow> handling" where
  "handleAuditList S s targetNs targetName targetKind targetUID limitQuery tr =
     (let limit = parseAuditLimit limitQuery in
      case visitAuditPages S (controlNamespace s) (auditQueryLabels targetNs targetName targetKind targetUID) (retain limit)
             0 '''' [] tr of
        None \<Rightarrow> None
      | Some ((items, total', err), tr) \<Rightarrow>
          Some (case err of
              Some e \<Rightarrow> refuse 500 (err_Text e)
            | None \<Rightarrow> Answer 200 (AuditDocument items (length items) total'), tr))"

definition handleListPolicies :: "server_env \<Rightarrow> Server \<Rightarrow> document answer sio" where
  "handleListPolicies S s = do {
     l \<leftarrow> kube S (\<lambda>E. listPolicies E (controlNamespace s));
     return (case l of Inl err \<Rightarrow> refuse 500 (err_Text err) | Inr items \<Rightarrow> Answer 200 (PoliciesDocument items (length items)))
   }"

definition handleListOverrides :: "server_env \<Rightarrow> Server \<Rightarrow> document answer sio" where
  "handleListOverrides S s = do {
     l \<leftarrow> kube S (\<lambda>E. listOverrides E (controlNamespace s));
     return (case l of Inl err \<Rightarrow> refuse 500 (err_Text err) | Inr items \<Rightarrow> Answer 200 (OverridesDocument items (length items)))
   }"

definition handleListNamespaces :: "server_env \<Rightarrow> document answer sio" where
  "handleListNamespaces S = do {
     l \<leftarrow> kube S (\<lambda>E. listNamespaces E False);
     return (case l of Inl err \<Rightarrow> refuse 500 (err_Text err) | Inr items \<Rightarrow> Answer 200 (NamespacesDocument (map om_Name items)))
   }"

definition handleListNamespaceGroups :: "server_env \<Rightarrow> Server \<Rightarrow> document answer sio" where
  "handleListNamespaceGroups S s = do {
     l \<leftarrow> listGroups S (controlNamespace s);
     return (case l of
         Inl _ \<Rightarrow> Answer 200 (GroupsDocument [] 0)
       | Inr items \<Rightarrow> Answer 200 (GroupsDocument items (length items)))
   }"

definition handleListNotificationChannels :: "server_env \<Rightarrow> Server \<Rightarrow> document answer sio" where
  "handleListNotificationChannels S s = do {
     l \<leftarrow> listChannelObjects S (controlNamespace s);
     return (case l of
         Inl err \<Rightarrow> refuse 500 (err_Text err)
       | Inr items \<Rightarrow> Answer 200 (ChannelsDocument items (length items)))
   }"

end
