(* ===== verification/ApiRoutes.thy ===== *)
theory ApiRoutes
  imports ApiHandlers
begin

text \<open>
  The handlers that write on behalf of a user, and the routes of the API server with their middleware
  (\<open>src/internal/adapters/driving/api/handlers.go\<close> and \<open>setupRoutes\<close> of \<open>server.go\<close>).  The routes of
  the sessions and of the approval workflow are in theory \<open>Approval\<close>.
\<close>

section \<open>Writing\<close>

text \<open>
  What the four handlers that create an object have in common: the noun of the error texts, the scope that must
  resolve (for rules), the default and the test of the namespace.  The answer names the object as the API server of the
  cluster returned it.
\<close>

definition createObject ::
  "server_env \<Rightarrow> Server \<Rightarrow> string \<Rightarrow> (resource \<Rightarrow> PolicyScope option) \<Rightarrow> resource result \<Rightarrow> document answer sio" where
  "createObject S s noun scope_of bound = (case bound of
       Inl err \<Rightarrow> return (refuse 400 (''invalid '' @ noun @ '': '' @ err_Text err))
     | Inr obj \<Rightarrow>
         (let obj = (if om_Namespace (resource_Meta obj) = ''''
                then map_Meta (\<lambda>m. m\<lparr>om_Namespace := controlNamespace s\<rparr>) obj else obj)
          in case requireControlNamespace s (om_Namespace (resource_Meta obj)) of
            Some answer \<Rightarrow> return answer
          | None \<Rightarrow> do {
              resolved \<leftarrow> (case scope_of obj of
                  None \<Rightarrow> return None
                | Some scope \<Rightarrow> do {
                    r \<leftarrow> kube S (\<lambda>E. ResolveScope E (om_Namespace (resource_Meta obj)) scope);
                    return (case r of Inl err \<Rightarrow> Some err | Inr _ \<Rightarrow> None)
                  });
              case resolved of
                Some err \<Rightarrow> return (refuse 422 (err_Text err))
              | None \<Rightarrow> do {
                  r \<leftarrow> createResource S obj;
                  return (case r of
                      Inl err \<Rightarrow> refuse 500 (''failed to create '' @ noun @ '': '' @ err_Text err)
                    | Inr created \<Rightarrow> Answer 201 (NamedDocument (om_Name (resource_Meta created)) (om_Namespace (resource_Meta created))))
                }
            }))"

fun rule_scope :: "resource \<Rightarrow> PolicyScope option" where
  "rule_scope (PolicyResource p) = Some (pps_Scope (pp_Spec p))"
| "rule_scope (OverrideResource v) = Some (pos_Scope (po_Spec v))"
| "rule_scope _ = None"

definition bound_as :: "('a \<Rightarrow> resource) \<Rightarrow> 'a result \<Rightarrow> resource result" where
  "bound_as wrap bound = (case bound of Inl err \<Rightarrow> Inl err | Inr x \<Rightarrow> Inr (wrap x))"

definition handleCreatePolicy :: "server_env \<Rightarrow> Server \<Rightarrow> PowerPolicy result \<Rightarrow> document answer sio" where
  "handleCreatePolicy S s bound = createObject S s ''policy'' rule_scope (bound_as PolicyResource bound)"

definition handleCreateOverride :: "server_env \<Rightarrow> Server \<Rightarrow> PowerOverride result \<Rightarrow> document answer sio" where
  "handleCreateOverride S s bound = createObject S s ''override'' rule_scope (bound_as OverrideResource bound)"

definition handleCreateNamespaceGroup :: "server_env \<Rightarrow> Server \<Rightarrow> PowerNamespaceGroup result \<Rightarrow> document answer sio" where
  "handleCreateNamespaceGroup S s bound = createObject S s ''group'' rule_scope (bound_as GroupResource bound)"

definition handleCreateNotificationChannel ::
  "server_env \<Rightarrow> Server \<Rightarrow> PowerNotificationChannel result \<Rightarrow> document answer sio" where
  "handleCreateNotificationChannel S s bound = createObject S s ''channel'' rule_scope (bound_as ChannelResource bound)"

text \<open>The typed client answers with an object of the kind it was asked for.\<close>

definition handleUpdatePolicy ::
  "server_env \<Rightarrow> Server \<Rightarrow> string \<Rightarrow> string \<Rightarrow> PowerPolicy result \<Rightarrow> document answer sio" where
  "handleUpdatePolicy S s ns name bound = (case requireControlNamespace s ns of
       Some answer \<Rightarrow> return answer
     | None \<Rightarrow> do {
         g \<leftarrow> getResource S PolicyResources \<lparr>nn_Namespace = ns, nn_Name = name\<rparr>;
         case g of
           Inr (PolicyResource existing) \<Rightarrow> (case bound of
               Inl err \<Rightarrow> return (refuse 400 (''invalid policy: '' @ err_Text err))
             | Inr updated \<Rightarrow> do {
                 let existing = existing\<lparr>pp_Spec := pp_Spec updated\<rparr>;
                 r \<leftarrow> kube S (\<lambda>E. ResolveScope E (om_Namespace (pp_Meta existing)) (pps_Scope (pp_Spec existing)));
                 case r of
                   Inl err \<Rightarrow> return (refuse 422 (err_Text err))
                 | Inr _ \<Rightarrow> do {
                     u \<leftarrow> updateResource S (PolicyResource existing);
                     return (case u of
                         Inl err \<Rightarrow> refuse 500 (''failed to update policy: '' @ err_Text err)
                       | Inr stored \<Rightarrow> Answer 200 (UpdatedDocument (om_Name (resource_Meta stored)) (om_Namespace (resource_Meta stored))))
                   }
               })
         | _ \<Rightarrow> return (refuse 404 ''policy not found'')
       })"

definition handleUpdateNotificationChannel ::
  "server_env \<Rightarrow> Server \<Rightarrow> string \<Rightarrow> string \<Rightarrow> PowerNotificationChannelSpec result \<Rightarrow> document answer sio" where
  "handleUpdateNotificationChannel S s ns name bound = (case requireControlNamespace s ns of
       Some answer \<Rightarrow> return answer
     | None \<Rightarrow> do {
         g \<leftarrow> getResource S ChannelResources \<lparr>nn_Namespace = ns, nn_Name = name\<rparr>;
         case g of
           Inr (ChannelResource existing) \<Rightarrow> (case bound of
               Inl err \<Rightarrow> return (refuse 400 (''invalid payload: '' @ err_Text err))
             | Inr spec \<Rightarrow> do {
                 u \<leftarrow> updateResource S (ChannelResource (existing\<lparr>nc_Spec := spec\<rparr>));
                 return (case u of
                     Inl err \<Rightarrow> refuse 500 (''failed to update channel: '' @ err_Text err)
                   | Inr _ \<Rightarrow> Answer 200 (NamedDocument name ns))
               })
         | _ \<Rightarrow> return (refuse 404 ''channel not found'')
       })"

text \<open>What the four handlers that delete an object have in common.\<close>

definition deleteObject :: "server_env \<Rightarrow> Server \<Rightarrow> string \<Rightarrow> resource_kind \<Rightarrow> string \<Rightarrow> string \<Rightarrow> document answer sio" where
  "deleteObject S s noun kind ns name = (case requireControlNamespace s ns of
       Some answer \<Rightarrow> return answer
     | None \<Rightarrow> do {
         d \<leftarrow> deleteResource S kind \<lparr>nn_Namespace = ns, nn_Name = name\<rparr>;
         return (case d of
             Inl err \<Rightarrow> refuse 500 (''failed to delete '' @ noun @ '': '' @ err_Text err)
           | Inr _ \<Rightarrow> Answer 200 (DeletedDocument name))
       })"

definition handleDeletePolicy :: "server_env \<Rightarrow> Server \<Rightarrow> string \<Rightarrow> string \<Rightarrow> document answer sio" where
  "handleDeletePolicy S s = deleteObject S s ''policy'' PolicyResources"

definition handleDeleteOverride :: "server_env \<Rightarrow> Server \<Rightarrow> string \<Rightarrow> string \<Rightarrow> document answer sio" where
  "handleDeleteOverride S s = deleteObject S s ''override'' OverrideResources"

definition handleDeleteNamespaceGroup :: "server_env \<Rightarrow> Server \<Rightarrow> string \<Rightarrow> string \<Rightarrow> document answer sio" where
  "handleDeleteNamespaceGroup S s = deleteObject S s ''group'' GroupResources"

definition handleDeleteNotificationChannel :: "server_env \<Rightarrow> Server \<Rightarrow> string \<Rightarrow> string \<Rightarrow> document answer sio" where
  "handleDeleteNotificationChannel S s = deleteObject S s ''channel'' ChannelResources"

section \<open>Routes\<close>

datatype api_route =
    GetHealthz
  | GetReadyz
  | GetStatus
  | GetDashboard
  | GetDiscover
  | GetTargets string string
  | GetExplain string string string string
  | PostPreviewPolicy "string option" "string option" "PowerPolicySpec result"
  | PostPreviewOverride "string option" "string option" "PowerOverrideSpec result"
  | GetSavings
  | GetSavingsBreakdown
  | GetSavingsExport
  | GetAudit string string string string string
  | GetAuditExport
  | GetPolicies
  | GetOverrides
  | GetNamespaces
  | GetNamespaceGroups
  | GetNotificationChannels
  | PostPolicy "PowerPolicy result"
  | PutPolicy string string "PowerPolicy result"
  | PostOverride "PowerOverride result"
  | PostNamespaceGroup "PowerNamespaceGroup result"
  | PostNotificationChannel "PowerNotificationChannel result"
  | PutNotificationChannel string string "PowerNotificationChannelSpec result"
  | DeletePolicy string string
  | DeleteOverride string string
  | DeleteNamespaceGroup string string
  | DeleteNotificationChannel string string

text \<open>The roles of the groups \<open>write\<close> and \<open>del\<close>.\<close>

fun route_roles :: "api_route \<Rightarrow> Role list option" where
  "route_roles (PostPolicy _) = Some [RoleApprover, RoleAdmin]"
| "route_roles (PutPolicy _ _ _) = Some [RoleApprover, RoleAdmin]"
| "route_roles (PostOverride _) = Some [RoleApprover, RoleAdmin]"
| "route_roles (PostNamespaceGroup _) = Some [RoleApprover, RoleAdmin]"
| "route_roles (PostNotificationChannel _) = Some [RoleApprover, RoleAdmin]"
| "route_roles (PutNotificationChannel _ _ _) = Some [RoleApprover, RoleAdmin]"
| "route_roles (DeletePolicy _ _) = Some [RoleAdmin]"
| "route_roles (DeleteOverride _ _) = Some [RoleAdmin]"
| "route_roles (DeleteNamespaceGroup _ _) = Some [RoleAdmin]"
| "route_roles (DeleteNotificationChannel _ _) = Some [RoleAdmin]"
| "route_roles _ = None"

definition previewAnswer :: "previewResponse answer \<Rightarrow> document answer" where
  "previewAnswer a = (case a of Refusal status text d \<Rightarrow> Refusal status text d | Answer status r \<Rightarrow> Answer status (PreviewDocument r))"

fun api_handler :: "server_env \<Rightarrow> Server \<Rightarrow> bool \<Rightarrow> api_route \<Rightarrow> handling" where
  "api_handler S s store GetHealthz = returns handleHealthz"
| "api_handler S s store GetReadyz = returns (handleReadyz S s store)"
| "api_handler S s store GetStatus = returns (handleStatus S s)"
| "api_handler S s store GetDashboard = handleDashboard S s"
| "api_handler S s store GetDiscover = returns (handleDiscover S s)"
| "api_handler S s store (GetTargets namespace state) = returns (handleListTargets S s namespace state)"
| "api_handler S s store (GetExplain ns name kind uid) = returns (handleExplainTarget S s ns name kind uid)"
| "api_handler S s store (PostPreviewPolicy ns name bound) =
     returns (do { a \<leftarrow> kube S (\<lambda>E. handlePreviewPolicy E s ns name bound); return (previewAnswer a) })"
| "api_handler S s store (PostPreviewOverride ns name bound) =
     returns (do { a \<leftarrow> kube S (\<lambda>E. handlePreviewOverride E s ns name bound); return (previewAnswer a) })"
| "api_handler S s store GetSavings = returns (handleSavings S s)"
| "api_handler S s store GetSavingsBreakdown = returns (handleSavingsBreakdown S s)"
| "api_handler S s store GetSavingsExport = returns (handleSavingsExport S s)"
| "api_handler S s store (GetAudit ns name kind uid limit) = handleAuditList S s ns name kind uid limit"
| "api_handler S s store GetAuditExport = handleAuditExport S s"
| "api_handler S s store GetPolicies = returns (handleListPolicies S s)"
| "api_handler S s store GetOverrides = returns (handleListOverrides S s)"
| "api_handler S s store GetNamespaces = returns (handleListNamespaces S)"
| "api_handler S s store GetNamespaceGroups = returns (handleListNamespaceGroups S s)"
| "api_handler S s store GetNotificationChannels = returns (handleListNotificationChannels S s)"
| "api_handler S s store (PostPolicy bound) = returns (handleCreatePolicy S s bound)"
| "api_handler S s store (PutPolicy ns name bound) = returns (handleUpdatePolicy S s ns name bound)"
| "api_handler S s store (PostOverride bound) = returns (handleCreateOverride S s bound)"
| "api_handler S s store (PostNamespaceGroup bound) = returns (handleCreateNamespaceGroup S s bound)"
| "api_handler S s store (PostNotificationChannel bound) = returns (handleCreateNotificationChannel S s bound)"
| "api_handler S s store (PutNotificationChannel ns name bound) = returns (handleUpdateNotificationChannel S s ns name bound)"
| "api_handler S s store (DeletePolicy ns name) = returns (handleDeletePolicy S s ns name)"
| "api_handler S s store (DeleteOverride ns name) = returns (handleDeleteOverride S s ns name)"
| "api_handler S s store (DeleteNamespaceGroup ns name) = returns (handleDeleteNamespaceGroup S s ns name)"
| "api_handler S s store (DeleteNotificationChannel ns name) = returns (handleDeleteNotificationChannel S s ns name)"

text \<open>The answer of a middleware that ends a request.\<close>

definition aborted :: "response \<Rightarrow> document answer" where
  "aborted r = refuse (rs_Status r) (case rs_Body r of ErrorBody text \<Rightarrow> text | _ \<Rightarrow> '''')"

text \<open>
  \<open>setupRoutes\<close>: the health endpoints are open; when a JWT service is configured all others pass the session
  middleware and then that of their group; without one they are open.
\<close>

definition is_health :: "api_route \<Rightarrow> bool" where
  "is_health rt \<longleftrightarrow> rt = GetHealthz \<or> rt = GetReadyz"

definition serveApi ::
  "server_env \<Rightarrow> Server \<Rightarrow> JWTService option \<Rightarrow> bool \<Rightarrow> api_route \<Rightarrow> http_request \<Rightarrow> handling" where
  "serveApi S s jwt store rt rq tr =
     (case jwt of
        None \<Rightarrow> api_handler S s store rt tr
      | Some j \<Rightarrow>
          if is_health rt then api_handler S s store rt tr
          else (case run_state (in_session S (\<lambda>A. AuthMiddleware A j rq)) tr of
            (Inl resp, tr) \<Rightarrow> Some (aborted resp, tr)
          | (Inr ses, tr) \<Rightarrow>
              (case (case route_roles rt of None \<Rightarrow> None | Some roles \<Rightarrow> RequireRole roles ses) of
                 Some resp \<Rightarrow> Some (aborted resp, tr)
               | None \<Rightarrow> api_handler S s store rt tr)))"

end
