(* ===== verification/ApprovalSafety.thy ===== *)
theory ApprovalSafety
  imports Approval
begin

text \<open>
  Who may change the cluster through the approval workflow, and what the shared database looks like while
  any number of servers work on it.
\<close>

section \<open>Serving keeps the rules\<close>

lemma find_SomeD: "find P xs = Some x \<Longrightarrow> x \<in> set xs \<and> P x"
  by (induction xs) (auto split: if_splits)

lemma scanChange_ID [simp]: "chg_ID (scanChange r) = row_ID r" "chg_UserID (scanChange r) = row_UserID r"
  "chg_Status (scanChange r) = row_Status r"
  by (simp_all add: scanChange_def split: option.split)

text \<open>What a look at a change tells.\<close>

definition looked_up :: "string \<Rightarrow> PendingChange \<Rightarrow> deeds \<Rightarrow> bool" where
  "looked_up ident c tr \<longleftrightarrow> (\<exists>db row. QueryChange db ident (Inr (Some row)) \<in> set tr \<and> c = scanChange row)"

text \<open>The lease an approval needs.\<close>

definition lease_taken :: "string \<Rightarrow> string \<Rightarrow> deeds \<Rightarrow> bool" where
  "lease_taken ident rvw tr \<longleftrightarrow>
     (\<exists>db now n db'. Execute db (BeginDecision ''approving'' rvw now ident (now - 5 * Minute)) (Inr n) db' \<in> set tr \<and> 0 < n)"

context shared_database
begin

lemma ledger_here: "ledger db \<Longrightarrow> evolved db tr \<Longrightarrow> ledger (db_after A tr)"
  by (rule ledger_evolves)

definition known :: "string \<Rightarrow> PendingChange \<Rightarrow> deeds \<Rightarrow> bool" where
  "known ident c tr \<longleftrightarrow> on_record c (db_after A tr) \<and> chg_ID c = ident \<and> looked_up ident c tr"

lemma GetPendingChange_known:
  "hoare (evolved db) (GetPendingChange A ident) (\<lambda>r tr. evolved db tr \<and> (\<forall>c. r = Inr c \<longrightarrow> known ident c tr))"
proof (rule hoareI, rule conjI)
  fix tr r tr' assume ev: "evolved db tr" and run: "run_state (GetPendingChange A ident) tr = (r, tr')"
  show "evolved db tr'" by (rule hoareD[OF basic_keeps(7) run ev])
  show "\<forall>c. r = Inr c \<longrightarrow> known ident c tr'"
  proof (intro allI impI)
    fix c assume "r = Inr c"
    with run obtain db row where "tr' = QueryChange db ident (Inr (Some row)) # tr" "c = scanChange row"
      "find (\<lambda>r. row_ID r = ident) (db_Changes db) = Some row"
      by (auto simp: GetPendingChange_def db_Query_def read_answer_def Let_def split: option.splits)
    then show "known ident c tr'"
      by (auto simp: known_def on_record_def looked_up_def dest: find_SomeD)
  qed
qed

lemma begin_admissible:
  assumes "ledger db" and "evolved db tr" and "on_record c (db_after A tr)" and "chg_UserID c \<noteq> rvw"
  shows "admissible (BeginDecision ''approving'' rvw now (chg_ID c) expired) (db_found A tr)"
proof -
  have l: "ledger (db_found A tr)" by (rule ledger_evolves[OF evolved_found[OF assms(2)] assms(1)])
  have c: "on_record c (db_found A tr)" by (rule on_record_evolves[OF assms(3) found_evolves])
  have "row_UserID r \<noteq> rvw" if "r \<in> set (db_Changes (db_found A tr))" "row_ID r = chg_ID c" for r
    using on_record_unique[OF l c that] assms(4) asked_eqD(2) by metis
  then show ?thesis by simp
qed

lemma evolved_on_record: "evolved db tr \<Longrightarrow> on_record c db \<Longrightarrow> on_record c (db_after A tr)"
  by (rule on_record_evolves)

lemma BeginPendingDecision_approve:
  assumes "ledger db0"
  shows "hoare (\<lambda>tr. evolved db0 tr \<and> on_record c (db_after A tr) \<and> chg_ID c = ident \<and> chg_UserID c \<noteq> rvw)
    (BeginPendingDecision A ident rvw ''approve'')
    (\<lambda>r tr. evolved db0 tr \<and> (\<forall>c'. r = Inr c' \<longrightarrow> known ident c' tr \<and> asked c' = asked c \<and> lease_taken ident rvw tr))"
proof (rule hoareI)
  fix tr r tr'
  assume P: "evolved db0 tr \<and> on_record c (db_after A tr) \<and> chg_ID c = ident \<and> chg_UserID c \<noteq> rvw"
    and run: "run_state (BeginPendingDecision A ident rvw ''approve'') tr = (r, tr')"
  define now where "now = av_Clock A tr"
  define w where "w = BeginDecision ''approving'' rvw now ident (now - 5 * Minute)"
  define tr1 where "tr1 = ServerClock now # tr"
  obtain q tr2 where ex: "run_state (db_Exec A w) tr1 = (q, tr2)" by (rule prod.exhaust)
  have adm: "admissible w (db_found A tr1)"
    unfolding w_def using P begin_admissible[OF assms, of tr1 c rvw now] by (auto simp: tr1_def)
  have ev2: "evolved db0 tr2" by (rule hoareD[OF Exec_evolves ex]) (use P adm in \<open>auto simp: tr1_def\<close>)
  have ev2': "evolved (db_after A tr1) tr2" by (rule hoareD[OF Exec_evolves ex]) (use adm in auto)
  have rec2: "on_record c (db_after A tr2)"
    by (rule evolved_on_record[OF ev2']) (use P in \<open>simp add: tr1_def\<close>)
  have lease: "lease_taken ident rvw tr2" if "q = Inr n" "n \<noteq> 0" for n
    using ex that unfolding lease_taken_def w_def
    by (auto simp: db_Exec_def split: prod.splits) blast
  have rest: "run_state (case q of Inl e \<Rightarrow> return (Inl e)
      | Inr rows \<Rightarrow> if rows = 0 then do { g \<leftarrow> GetPendingChange A ident;
            case g of Inl getErr \<Rightarrow> return (Inl getErr) | Inr _ \<Rightarrow> return (Inl ErrPendingDecisionConflict) }
          else GetPendingChange A ident) tr2 = (r, tr')"
    using run ex by (simp add: BeginPendingDecision_def server_clock_def w_def tr1_def now_def)
  have keeps_rest: "keeps (evolved db0) (case q of Inl e \<Rightarrow> return (Inl e)
      | Inr rows \<Rightarrow> if rows = 0 then do { g \<leftarrow> GetPendingChange A ident;
            case g of Inl getErr \<Rightarrow> return (Inl getErr) | Inr _ \<Rightarrow> return (Inl ErrPendingDecisionConflict) }
          else GetPendingChange A ident)"
    by (intro store_keeps basic_keeps)
  have keep: "evolved db0 tr'" by (rule hoareD[OF keeps_rest rest ev2])
  show "evolved db0 tr' \<and> (\<forall>c'. r = Inr c' \<longrightarrow> known ident c' tr' \<and> asked c' = asked c \<and> lease_taken ident rvw tr')"
  proof (intro conjI allI impI)
    show "evolved db0 tr'" by (rule keep)
  next
    fix c' assume r: "r = Inr c'"
    then obtain n where q: "q = Inr n" "n \<noteq> 0" and g: "run_state (GetPendingChange A ident) tr2 = (Inr c', tr')"
      using rest by (auto split: sum.splits if_splits prod.splits)
    show k: "known ident c' tr'" using hoareD[OF GetPendingChange_known g ev2] by simp
    have ev3: "evolved (db_after A tr2) tr'" by (rule hoareD[OF basic_keeps(7) g]) simp
    have rec3: "on_record c (db_after A tr')" by (rule evolved_on_record[OF ev3 rec2])
    obtain row where row: "row \<in> set (db_Changes (db_after A tr'))" "asked (row_Change row) = asked c'"
      using k by (auto simp: known_def on_record_def)
    have "row_ID row = chg_ID c" using asked_eqD(1)[OF row(2)] k P by (simp add: known_def)
    from on_record_unique[OF ledger_here[OF assms keep] rec3 row(1) this] row(2)
    show "asked c' = asked c" by simp
    have "emits (\<lambda>_. True) (GetPendingChange A ident)"
      unfolding GetPendingChange_def db_Query_def by (intro emits_intros) simp_all
    from emits_grows[OF this g] lease[OF q] show "lease_taken ident rvw tr'"
      unfolding lease_taken_def by blast
  qed
qed

lemma cluster_keeps [ledger_intros]:
  "keeps (evolved db) (getManaged A kind k)" "keeps (evolved db) (createManaged A m)" "keeps (evolved db) (updateManaged A m)"
  "keeps (evolved db) (deleteManaged A m v)" "keeps (evolved db) (createApproval A ev)" "keeps (evolved db) (getApproval A k)"
  unfolding getManaged_def createManaged_def updateManaged_def deleteManaged_def createApproval_def getApproval_def
  by (intro call_keeps; simp)+

lemma decision_keeps [ledger_intros]:
  "keeps (evolved db) (requireCurrentReviewer A i)" "keeps (evolved db) (decisionOwner A c u)"
  "keeps (evolved db) (recordApprovalDecision A c u b)" "keeps (evolved db) (applyPendingChange A h c)"
proof -
  show "keeps (evolved db) (requireCurrentReviewer A i)" "keeps (evolved db) (decisionOwner A c u)"
    "keeps (evolved db) (recordApprovalDecision A c u b)"
    unfolding requireCurrentReviewer_def decisionOwner_def recordApprovalDecision_def GetUserByID_def
    by (intro ledger_intros)+
  have parts: "keeps (evolved db) (applyDelete A c kind got)" "keeps (evolved db) (applyCreate A c kind m got)"
    "keeps (evolved db) (applyUpdate A c kind m got)" for c kind m got
    unfolding applyDelete_def applyCreate_def applyUpdate_def by (intro ledger_intros)+
  show "keeps (evolved db) (applyPendingChange A h c)"
    unfolding applyPendingChange_def applyPendingObject_def by (intro ledger_intros parts)
qed

end

section \<open>Mutations\<close>

fun mutation :: "deed \<Rightarrow> bool" where
  "mutation (CreateManaged _ _) = True"
| "mutation (UpdateManaged _ _) = True"
| "mutation (DeleteManaged _ _ _) = True"
| "mutation _ = False"

definition kindOf :: "PendingChange \<Rightarrow> managed_kind" where
  "kindOf c = (if chg_ResourceKind c = ''PowerPolicy'' then PolicyKind else OverrideKind)"

text \<open>
  The mutation is what the change says: an object is created from the payload, without a version or a status, where
  none was found; an object is updated in its specification alone; and what is updated or deleted was read in the version the
  requester had seen.
\<close>

fun carries_out :: "aenv \<Rightarrow> PendingChange \<Rightarrow> deed \<Rightarrow> deeds \<Rightarrow> bool" where
  "carries_out A c (CreateManaged m r) tr \<longleftrightarrow>
     chg_Action c = ''create'' \<and>
     (\<exists>decoded e. decodePayload A (kindOf c) (chg_Payload c) = Inr decoded \<and> GetManaged (kindOf c) (changeKey c) (Inl e) \<in> set tr \<and>
        err_NotFound e \<and> om_Name (managed_Meta (desiredObject c decoded)) = chg_ResourceName c \<and>
        om_Namespace (managed_Meta (desiredObject c decoded)) = chg_ResourceNamespace c \<and>
        m = clearPendingObjectStatus (with_Meta (\<lambda>m. m\<lparr>om_ResourceVersion := ''''\<rparr>) (desiredObject c decoded)))"
| "carries_out A c (UpdateManaged m r) tr \<longleftrightarrow>
     chg_Action c = ''update'' \<and>
     (\<exists>decoded live. decodePayload A (kindOf c) (chg_Payload c) = Inr decoded \<and> GetManaged (kindOf c) (changeKey c) (Inr live) \<in> set tr \<and>
        om_ResourceVersion (managed_Meta live) = chg_ResourceVersion c \<and> m = applyPendingObjectSpec live (desiredObject c decoded))"
| "carries_out A c (DeleteManaged m version r) tr \<longleftrightarrow>
     chg_Action c = ''delete'' \<and> GetManaged (kindOf c) (changeKey c) (Inr m) \<in> set tr \<and>
     om_ResourceVersion (managed_Meta m) = chg_ResourceVersion c \<and> version = chg_ResourceVersion c"
| "carries_out A c _ tr \<longleftrightarrow> False"

text \<open>What the handler knows when it applies a change: the reviewer may approve, did not ask for the change, and holds the lease.\<close>

definition reviewer_seen :: "string \<Rightarrow> deeds \<Rightarrow> bool" where
  "reviewer_seen rvw tr \<longleftrightarrow> (\<exists>db u. QueryUser db (ByID rvw) (Inr (Some u)) \<in> set tr \<and> user_Role u \<in> {RoleApprover, RoleAdmin})"

definition entitled :: "string \<Rightarrow> string \<Rightarrow> PendingChange \<Rightarrow> deeds \<Rightarrow> bool" where
  "entitled ident rvw c tr \<longleftrightarrow> reviewer_seen rvw tr \<and> lease_taken ident rvw tr \<and> looked_up ident c tr \<and> chg_UserID c \<noteq> rvw"

definition four_eyes :: "aenv \<Rightarrow> AuthHandlers \<Rightarrow> string \<Rightarrow> string \<Rightarrow> deed \<Rightarrow> deeds \<Rightarrow> bool" where
  "four_eyes A h ident rvw e tr \<longleftrightarrow>
     (\<exists>c. entitled ident rvw c tr \<and> chg_ResourceNamespace c = ah_ControlNamespace h \<and> carries_out A c e tr)"

lemma entitled_mono: "entitled ident rvw c tr \<Longrightarrow> set tr \<subseteq> set tr' \<Longrightarrow> entitled ident rvw c tr'"
  unfolding entitled_def reviewer_seen_def lease_taken_def looked_up_def by blast

lemma carries_out_mono: "carries_out A c e tr \<Longrightarrow> set tr \<subseteq> set tr' \<Longrightarrow> carries_out A c e tr'"
  by (cases e) auto

lemma four_eyes_mono: "four_eyes A h ident rvw e tr \<Longrightarrow> set tr \<subseteq> set tr' \<Longrightarrow> four_eyes A h ident rvw e tr'"
  unfolding four_eyes_def using entitled_mono carries_out_mono by blast

interpretation approving: justification mutation "four_eyes A h ident rvw" for A h ident rvw
  by unfold_locales (rule four_eyes_mono)

abbreviation overseen :: "aenv \<Rightarrow> AuthHandlers \<Rightarrow> string \<Rightarrow> string \<Rightarrow> deeds \<Rightarrow> deeds \<Rightarrow> bool" where
  "overseen A h ident rvw \<equiv> justified mutation (four_eyes A h ident rvw)"

text \<open>Programs that do not touch the cluster's policies and overrides.\<close>

abbreviation quiet :: "'a aio \<Rightarrow> bool" where
  "quiet m \<equiv> emits (\<lambda>e. \<not> mutation e) m"

lemma quiet_Exec: "quiet (db_Exec A w)"
  unfolding db_Exec_def by (intro emits_intros) (simp split: prod.split)

lemma quiet_Query: "(\<And>db r. \<not> mutation (ev db r)) \<Longrightarrow> quiet (db_Query A q ev)"
  unfolding db_Query_def by (intro emits_intros) (simp split: prod.split)

lemma quiet_basic [emits_intros]:
  "quiet (server_clock A)" "quiet (getUser A k)" "quiet (GetPendingChange A i)" "quiet (getManaged A kind key)"
  "quiet (createApproval A ev)" "quiet (getApproval A key)"
  unfolding server_clock_def getUser_def GetPendingChange_def getManaged_def createApproval_def getApproval_def
  by (intro emits_intros quiet_Query; simp)+

lemma quiet_store [emits_intros]:
  "quiet (BeginPendingDecision A i rvw d)" "quiet (CancelPendingDecision A i rvw)" "quiet (FinalizePendingDecision A i rvw d)"
  "quiet (requireCurrentReviewer A i)" "quiet (decisionOwner A c u)" "quiet (recordApprovalDecision A c u b)"
  unfolding BeginPendingDecision_def CancelPendingDecision_def FinalizePendingDecision_def requireCurrentReviewer_def
    decisionOwner_def recordApprovalDecision_def GetUserByID_def
  by (intro emits_intros quiet_Exec)+

lemma quiet_overseen: "quiet m \<Longrightarrow> keeps (overseen A h ident rvw base) m"
  by (rule approving.irrelevant_keeps)

lemma mutate_overseen:
  assumes "\<And>tr r. P tr \<Longrightarrow> four_eyes A h ident rvw (ev r) tr"
  shows "hoare (\<lambda>tr. overseen A h ident rvw base tr \<and> P tr) (call f ev) (\<lambda>_. overseen A h ident rvw base)"
  using assms by (intro hoare_call) (auto intro: justified_Cons)

lemma getManaged_seen:
  "hoare (\<lambda>tr. overseen A h ident rvw base tr \<and> entitled ident rvw c tr) (getManaged A kind key)
     (\<lambda>r tr. overseen A h ident rvw base tr \<and> entitled ident rvw c tr \<and> GetManaged kind key r \<in> set tr)"
  unfolding getManaged_def
  by (rule hoare_call) (auto intro: justified_Cons elim: entitled_mono)

lemma quiet_tail:
  assumes "hoare P m (\<lambda>_. overseen A h ident rvw base)" and "\<And>x. quiet (f x)"
  shows "hoare P (State_Monad.bind m f) (\<lambda>_. overseen A h ident rvw base)"
  by (rule hoare_bind[OF assms(1) quiet_overseen[OF assms(2)]])

lemma quiet_here: "quiet m \<Longrightarrow> hoare (\<lambda>tr. overseen A h ident rvw base tr \<and> P tr) m (\<lambda>_. overseen A h ident rvw base)"
  by (rule hoare_pre[OF quiet_overseen]) auto

lemma applyDelete_overseen:
  assumes "chg_Action c = ''delete''" and "chg_ResourceNamespace c = ah_ControlNamespace h" and "kind = kindOf c"
  shows "hoare (\<lambda>tr. overseen A h ident rvw base tr \<and> entitled ident rvw c tr \<and> GetManaged kind (changeKey c) got \<in> set tr)
    (applyDelete A c kind got) (\<lambda>_. overseen A h ident rvw base)"
  unfolding applyDelete_def
proof (intro hoare_sum hoare_if)
  fix live assume live: "got = Inr live" "\<not> om_ResourceVersion (managed_Meta live) \<noteq> chg_ResourceVersion c"
  show "hoare (\<lambda>tr. overseen A h ident rvw base tr \<and> entitled ident rvw c tr \<and> GetManaged kind (changeKey c) got \<in> set tr)
    (do { r \<leftarrow> deleteManaged A live (chg_ResourceVersion c);
       case r of
         Inr _ \<Rightarrow> return None
       | Inl err \<Rightarrow> do {
           g \<leftarrow> getManaged A kind (changeKey c);
           return (case g of
               Inl readErr \<Rightarrow> if err_NotFound readErr then None else Some (uncertain ''delete'' err)
             | Inr fresh \<Rightarrow>
                 if om_ResourceVersion (managed_Meta fresh) = chg_ResourceVersion c
                 then Some (notApplied ''delete approved resource: '' err) else Some (uncertain ''delete'' err))
         } }) (\<lambda>_. overseen A h ident rvw base)"
  proof (rule quiet_tail)
    show "hoare (\<lambda>tr. overseen A h ident rvw base tr \<and> entitled ident rvw c tr \<and> GetManaged kind (changeKey c) got \<in> set tr)
      (deleteManaged A live (chg_ResourceVersion c)) (\<lambda>_. overseen A h ident rvw base)"
      unfolding deleteManaged_def using live assms
      by (intro mutate_overseen) (auto simp: four_eyes_def intro!: exI[of _ c])
  qed (intro emits_intros)
qed (auto intro!: quiet_here)

lemma applyCreate_overseen:
  assumes "chg_Action c = ''create''" and "chg_ResourceNamespace c = ah_ControlNamespace h" and "kind = kindOf c"
    and "decodePayload A kind (chg_Payload c) = Inr decoded" and "om_Name (managed_Meta (desiredObject c decoded)) = chg_ResourceName c"
    and "om_Namespace (managed_Meta (desiredObject c decoded)) = chg_ResourceNamespace c"
  shows "hoare (\<lambda>tr. overseen A h ident rvw base tr \<and> entitled ident rvw c tr \<and> GetManaged kind (changeKey c) got \<in> set tr)
    (applyCreate A c kind (desiredObject c decoded) got) (\<lambda>_. overseen A h ident rvw base)"
proof (cases got)
  case (Inl err)
  show ?thesis
  proof (cases "err_NotFound err")
    case True
    show ?thesis
      unfolding applyCreate_def Let_def Inl sum.case
      apply (simp only: True not_True_eq_False if_False)
      apply (rule quiet_tail)
      subgoal
        unfolding createManaged_def using assms True
        by (intro mutate_overseen) (auto simp: four_eyes_def intro!: exI[of _ c])
      subgoal by (intro emits_intros)
      done
  next
    case False
    then show ?thesis using Inl by (auto simp: applyCreate_def intro!: quiet_here)
  qed
next
  case (Inr live)
  then show ?thesis by (auto simp: applyCreate_def intro!: quiet_here)
qed

lemma applyUpdate_overseen:
  assumes "chg_Action c = ''update''" and "chg_ResourceNamespace c = ah_ControlNamespace h" and "kind = kindOf c"
    and "decodePayload A kind (chg_Payload c) = Inr decoded"
  shows "hoare (\<lambda>tr. overseen A h ident rvw base tr \<and> entitled ident rvw c tr \<and> GetManaged kind (changeKey c) got \<in> set tr)
    (applyUpdate A c kind (desiredObject c decoded) got) (\<lambda>_. overseen A h ident rvw base)"
proof (cases got)
  case (Inr live)
  show ?thesis
  proof (cases "pendingObjectEqual live (desiredObject c decoded) \<or> om_ResourceVersion (managed_Meta live) \<noteq> chg_ResourceVersion c")
    case False
    then show ?thesis
      unfolding applyUpdate_def Inr sum.case
      apply (simp only: de_Morgan_disj not_not simp_thms if_False)
      apply (rule quiet_tail)
      subgoal
        unfolding updateManaged_def using assms False
        by (intro mutate_overseen) (auto simp: four_eyes_def intro!: exI[of _ c])
      subgoal by (intro emits_intros)
      done
  next
    case True
    then show ?thesis using Inr by (auto simp: applyUpdate_def intro!: quiet_here)
  qed
qed (auto simp: applyUpdate_def intro!: quiet_here)

lemma applyPendingObject_overseen:
  assumes "chg_ResourceNamespace c = ah_ControlNamespace h" and "kind = kindOf c"
  shows "hoare (\<lambda>tr. overseen A h ident rvw base tr \<and> entitled ident rvw c tr) (applyPendingObject A c kind) (\<lambda>_. overseen A h ident rvw base)"
  unfolding applyPendingObject_def Let_def
  by (rule hoare_bind[OF getManaged_seen])
    (intro hoare_splits; intro quiet_here emits_return applyDelete_overseen applyCreate_overseen applyUpdate_overseen assms; auto)

lemma applyPendingChange_overseen:
  "hoare (\<lambda>tr. overseen A h ident rvw base tr \<and> entitled ident rvw c tr) (applyPendingChange A h c) (\<lambda>_. overseen A h ident rvw base)"
  unfolding applyPendingChange_def
  by (intro hoare_splits; intro quiet_here emits_return applyPendingObject_overseen) (simp_all add: kindOf_def)

section \<open>Approvals\<close>

lemma requireCurrentReviewer_seen:
  "hoare (\<lambda>_. True) (requireCurrentReviewer A rvw) (\<lambda>r tr. \<forall>u. r = Inr u \<longrightarrow> reviewer_seen rvw tr \<and> user_ID u = rvw)"
  by (auto simp: hoare_def requireCurrentReviewer_def GetUserByID_def getUser_def db_Query_def read_answer_def Let_def reviewer_seen_def
      split: prod.splits option.splits if_splits dest!: find_SomeD)

lemma reviewer_seen_grows: "quiet m \<Longrightarrow> keeps (reviewer_seen rvw) m"
  by (erule emits_hoare_mono) (auto simp: reviewer_seen_def)

lemma entitled_grows: "quiet m \<Longrightarrow> keeps (entitled ident rvw c) m"
  by (erule emits_hoare_mono) (rule entitled_mono)

lemma hoare_ex: "(\<And>c. Z c \<Longrightarrow> hoare (P c) m Q) \<Longrightarrow> hoare (\<lambda>s. \<exists>c. P c s \<and> Z c) m Q"
  by (rule hoareI, elim exE conjE) (rule hoareD)

context shared_database
begin

abbreviation oversight :: "AuthHandlers \<Rightarrow> string \<Rightarrow> string \<Rightarrow> database \<Rightarrow> deeds \<Rightarrow> deeds \<Rightarrow> bool" where
  "oversight h ident rvw db base tr \<equiv> evolved db tr \<and> overseen A h ident rvw base tr"

lemma oversight_keeps: "keeps (evolved db) m \<Longrightarrow> quiet m \<Longrightarrow> keeps (oversight h ident rvw db base) m"
  by (rule hoare_conj[OF _ quiet_overseen])

lemma oversight_quiet:
  "keeps (evolved db) m \<Longrightarrow> quiet m \<Longrightarrow> hoare (\<lambda>tr. oversight h ident rvw db base tr \<and> P tr) m (\<lambda>_. oversight h ident rvw db base)"
  by (rule hoare_pre[OF oversight_keeps]) auto

lemma oversight_reviewer:
  "hoare (oversight h ident rvw db base) (requireCurrentReviewer A rvw)
     (\<lambda>r tr. oversight h ident rvw db base tr \<and> (\<forall>u. r = Inr u \<longrightarrow> reviewer_seen rvw tr))"
  by (rule hoare_weaken[OF hoare_conj[OF oversight_keeps[OF decision_keeps(1) quiet_store(4)] requireCurrentReviewer_seen]]) auto

lemma oversight_look:
  "hoare (\<lambda>tr. oversight h ident rvw db base tr \<and> reviewer_seen rvw tr) (GetPendingChange A ident)
     (\<lambda>r tr. oversight h ident rvw db base tr \<and> reviewer_seen rvw tr \<and> (\<forall>c. r = Inr c \<longrightarrow> known ident c tr))"
  by (rule hoare_weaken[OF hoare_conj[OF GetPendingChange_known
        hoare_conj[OF quiet_overseen[OF quiet_basic(3)] reviewer_seen_grows[OF quiet_basic(3)]]]]) auto

lemma oversight_begin:
  assumes "ledger db"
  shows "hoare (\<lambda>tr. \<exists>c. (oversight h ident rvw db base tr \<and> reviewer_seen rvw tr \<and> known ident c tr) \<and> chg_UserID c \<noteq> rvw)
    (BeginPendingDecision A ident rvw ''approve'')
    (\<lambda>r tr. oversight h ident rvw db base tr \<and> (\<forall>c'. r = Inr c' \<longrightarrow> entitled ident rvw c' tr))"
proof (rule hoare_ex)
  fix c :: PendingChange assume other: "chg_UserID c \<noteq> rvw"
  have entitled: "entitled ident rvw c' tr"
    if "known ident c' tr" "asked c' = asked c" "lease_taken ident rvw tr" "reviewer_seen rvw tr" for c' tr
    using that other asked_eqD(2)[OF that(2)] by (simp add: known_def entitled_def)
  show "hoare (\<lambda>tr. oversight h ident rvw db base tr \<and> reviewer_seen rvw tr \<and> known ident c tr)
    (BeginPendingDecision A ident rvw ''approve'')
    (\<lambda>r tr. oversight h ident rvw db base tr \<and> (\<forall>c'. r = Inr c' \<longrightarrow> entitled ident rvw c' tr))"
    by (rule hoare_weaken[OF hoare_conj[OF BeginPendingDecision_approve[OF assms, of c ident rvw]
          hoare_conj[OF quiet_overseen[OF quiet_store(1), of A h ident rvw base] reviewer_seen_grows[where rvw = rvw, OF quiet_store(1)]]]])
      (use other in \<open>simp_all add: known_def[of ident c] entitled\<close>)
qed

lemma oversight_owner:
  "hoare (\<lambda>tr. oversight h ident rvw db base tr \<and> entitled ident rvw c tr) (decisionOwner A c u)
     (\<lambda>_ tr. oversight h ident rvw db base tr \<and> entitled ident rvw c tr)"
  by (rule hoare_conj[OF oversight_keeps[OF decision_keeps(2) quiet_store(5)] entitled_grows[OF quiet_store(5)]])

lemma oversight_apply:
  "hoare (\<lambda>tr. oversight h ident rvw db base tr \<and> entitled ident rvw c tr) (applyPendingChange A h c) (\<lambda>_. oversight h ident rvw db base)"
  by (rule hoare_pre[OF hoare_conj[OF decision_keeps(4) applyPendingChange_overseen]]) auto

lemma handleApprove_oversight:
  assumes "ledger db"
  shows "keeps (oversight h (rq_Param rq) (ses_UserID ses) db base) (handleApprove A h ses rq)"
  unfolding handleApprove_def Let_def
  apply (rule hoare_bind[OF oversight_reviewer])
  apply (rule hoare_sum)
  subgoal by (rule hoare_return) simp
  apply (rule hoare_bind[OF hoare_pre[OF oversight_look[where h = h and ident = "rq_Param rq" and rvw = "ses_UserID ses" and db = db and base = base]]])
  subgoal by simp
  apply (rule hoare_sum)
  subgoal by (rule hoare_return) simp
  apply (rule hoare_if)
  subgoal by (rule hoare_return) simp
  apply (rule hoare_if)
  subgoal by (rule hoare_return) simp
  apply (rule hoare_bind[OF hoare_pre[OF oversight_begin[where h = h and ident = "rq_Param rq" and rvw = "ses_UserID ses" and db = db and base = base, OF assms]]])
  subgoal by auto
  apply (rule hoare_sum)
  subgoal by (rule hoare_return) simp
  apply (rule hoare_bind[OF hoare_pre[OF oversight_owner[where h = h and ident = "rq_Param rq" and rvw = "ses_UserID ses" and db = db and base = base]]])
  subgoal by simp
  apply (rule hoare_bind[OF oversight_apply[where h = h and ident = "rq_Param rq" and rvw = "ses_UserID ses" and db = db and base = base]])
  by (intro oversight_keeps ledger_intros emits_intros)

end

end
