(* ===== verification/ApprovalRun.thy ===== *)
theory ApprovalRun
  imports ApprovalSafety
begin

text \<open>
  A server that answers requests one after the other, on a database that other servers use at the same
  time: the invariant of the database, the oversight of every mutation, and what the answers of the approval
  handlers promise.
\<close>

section \<open>The server\<close>

inductive handles :: "aenv \<Rightarrow> AuthHandlers \<Rightarrow> deeds \<Rightarrow> deeds \<Rightarrow> bool" for A h where
  idle [intro, simp]: "handles A h tr tr"
| request: "handles A h tr tr1 \<Longrightarrow> run_state (serve A h rt rq) tr1 = (resp, tr') \<Longrightarrow> handles A h tr tr'"

lemma quiet_accounts [emits_intros]:
  "quiet (GenerateID A)" "quiet (HashPassword A p)" "quiet (ListUsers A)" "quiet (ListPendingChanges A)"
  "quiet (CreateUser A n p role)" "quiet (UpdateUser A i role)" "quiet (DeleteUser A i)" "quiet (CreatePendingChange A c)"
  "quiet (ValidateToken A s t)" "quiet (AuthMiddleware A s rq)" "quiet (sendTokens A s rq u)"
proof -
  show id: "quiet (GenerateID A)" and hash: "quiet (HashPassword A p)" for p
    unfolding GenerateID_def HashPassword_def by (intro emits_intros; simp)+
  show "quiet (ListUsers A)" "quiet (ListPendingChanges A)"
    unfolding ListUsers_def ListPendingChanges_def by (intro emits_intros quiet_Query; simp)+
  show "quiet (CreateUser A n p role)" "quiet (UpdateUser A i role)" "quiet (DeleteUser A i)" "quiet (CreatePendingChange A c)"
    unfolding CreateUser_def UpdateUser_def DeleteUser_def CreatePendingChange_def by (intro emits_intros quiet_Exec id hash)+
  show token: "quiet (ValidateToken A s t)" for t unfolding ValidateToken_def by (intro emits_intros)
  show "quiet (AuthMiddleware A s rq)" "quiet (sendTokens A s rq u)"
    unfolding AuthMiddleware_def sendTokens_def GenerateTokens_def Let_def by (intro emits_intros token)+
qed

lemmas handler_defs = handleLogin_def handleRefresh_def handleMe_def handleListUsers_def handleCreateUser_def handleUpdateUser_def
  handleDeleteUser_def handleCreatePending_def handleListPending_def handleGetPending_def GetUserByID_def GetUserByUsername_def

lemma quiet_handlers [emits_intros]:
  "quiet (handleLogin A s rq b)" "quiet (handleRefresh A s rq b')" "quiet (handleMe A ses)" "quiet (handleListUsers A)"
  "quiet (handleCreateUser A b2)" "quiet (handleUpdateUser A rq b3)" "quiet (handleDeleteUser A rq)"
  "quiet (handleCreatePending A h ses b4)" "quiet (handleListPending A h)" "quiet (handleGetPending A h rq)" "quiet (handleReject A h ses rq)"
  unfolding handler_defs handleReject_def Let_def by (intro emits_intros)+

text \<open>Every mutation of a server is overseen by some reviewer of some change.\<close>

definition reviewed :: "aenv \<Rightarrow> AuthHandlers \<Rightarrow> deed \<Rightarrow> deeds \<Rightarrow> bool" where
  "reviewed A h e tr \<longleftrightarrow> (\<exists>ident rvw. four_eyes A h ident rvw e tr)"

interpretation serving: justification mutation "reviewed A h" for A h
  by unfold_locales (auto simp: reviewed_def intro: four_eyes_mono)

context shared_database
begin

lemma session_keeps [ledger_intros]:
  "keeps (evolved db) (ValidateToken A s t)" "keeps (evolved db) (AuthMiddleware A s rq)" "keeps (evolved db) (sendTokens A s rq u)"
  unfolding ValidateToken_def AuthMiddleware_def sendTokens_def GenerateTokens_def Let_def by (intro ledger_intros)+

lemma handler_keeps [ledger_intros]:
  "keeps (evolved db) (handleLogin A s rq b)" "keeps (evolved db) (handleRefresh A s rq b')" "keeps (evolved db) (handleMe A ses)"
  "keeps (evolved db) (handleListUsers A)" "keeps (evolved db) (handleCreateUser A b2)" "keeps (evolved db) (handleUpdateUser A rq b3)"
  "keeps (evolved db) (handleDeleteUser A rq)" "keeps (evolved db) (handleCreatePending A h ses b4)"
  "keeps (evolved db) (handleListPending A h)" "keeps (evolved db) (handleGetPending A h rq)" "keeps (evolved db) (handleReject A h ses rq)"
  unfolding handler_defs handleReject_def Let_def by (intro ledger_intros)+

lemma handleApprove_reviewed:
  assumes "ledger db" and "evolved db tr" and "run_state (handleApprove A h ses rq) tr = (resp, tr')"
  shows "evolved db tr' \<and> justified mutation (reviewed A h) tr tr'"
proof -
  have "oversight h (rq_Param rq) (ses_UserID ses) db tr tr'"
    by (rule hoareD[OF handleApprove_oversight[OF assms(1)] assms(3)]) (simp add: assms(2))
  moreover from this have "justified mutation (reviewed A h) tr tr'"
    unfolding reviewed_def by (elim conjE justified_mono) blast+
  ultimately show ?thesis by simp
qed

abbreviation lawful :: "AuthHandlers \<Rightarrow> database \<Rightarrow> deeds \<Rightarrow> deeds \<Rightarrow> bool" where
  "lawful h db base tr \<equiv> evolved db tr \<and> justified mutation (reviewed A h) base tr"

lemma lawful_keeps: "keeps (evolved db) m \<Longrightarrow> quiet m \<Longrightarrow> keeps (lawful h db base) m"
  by (rule hoare_conj[OF _ serving.irrelevant_keeps])

lemma handleApprove_lawful: "ledger db \<Longrightarrow> keeps (lawful h db base) (handleApprove A h ses rq)"
  by (rule hoareI) (use handleApprove_reviewed justified_trans in blast)

lemma protectedHandler_lawful:
  assumes "ledger db"
  shows "keeps (lawful h db base) (protectedHandler A h rt ses rq)"
  by (cases rt) (simp_all only: protectedHandler.simps,
    (intro lawful_keeps handler_keeps quiet_handlers handleApprove_lawful[OF assms])+)

lemma serve_lawful:
  assumes "ledger db"
  shows "keeps (lawful h db base) (serve A h rt rq)"
proof -
  have protected: "keeps (lawful h db base) (serveProtected A h rt rq)" for rt
    unfolding serveProtected_def
    by (intro hoare_bind[OF lawful_keeps[OF session_keeps(2) quiet_accounts(10)]] hoare_splits protectedHandler_lawful assms keeps_return)
  show ?thesis
    by (cases rt) (simp_all only: serve.simps,
      (intro protected lawful_keeps handler_keeps quiet_handlers keeps_return)+)
qed

lemma serves_lawful: "handles A h tr tr' \<Longrightarrow> ledger db \<Longrightarrow> evolved db tr \<Longrightarrow> lawful h db tr tr'"
proof (induction rule: handles.induct)
  case (request tr tr1 rt rq resp tr')
  show ?case by (rule hoareD[OF serve_lawful[OF request.prems(1)] request.hyps(2) request.IH[OF request.prems]])
qed simp

end

section \<open>Other servers\<close>

text \<open>
  What another server of the same program does to the database while it answers a request; it may do so
  between any two statements of this one.
\<close>

definition alone :: "aenv \<Rightarrow> database \<Rightarrow> aenv" where
  "alone P db = P\<lparr>av_Initial := db, av_Interfere := (\<lambda>_ db. db)\<rparr>"

definition after_peer :: "aenv \<Rightarrow> AuthHandlers \<Rightarrow> route \<times> http_request \<Rightarrow> database \<Rightarrow> database" where
  "after_peer P h req db =
     (if ledger db then db_after (alone P db) (snd (run_state (serve (alone P db) h (fst req) (snd req)) [])) else db)"

definition beside_peer :: "aenv \<Rightarrow> aenv \<Rightarrow> AuthHandlers \<Rightarrow> (deeds \<Rightarrow> route \<times> http_request) \<Rightarrow> aenv" where
  "beside_peer A P h reqs = A\<lparr>av_Interfere := (\<lambda>tr. after_peer (P\<lparr>av_Before := av_Before A\<rparr>) h (reqs tr))\<rparr>"

interpretation sole: shared_database "alone P db" for P db
  by unfold_locales (simp add: alone_def)

lemma alone_simps [simp]: "av_Before (alone P db) = av_Before P" "av_Initial (alone P db) = db"
  by (simp_all add: alone_def)

lemma after_peer_evolves: "evolves (av_Before P) db (after_peer P h req db)"
proof (cases "ledger db")
  case True
  obtain resp tr where run: "run_state (serve (alone P db) h (fst req) (snd req)) [] = (resp, tr)" by (rule prod.exhaust)
  have "sole.lawful P db h db [] tr" by (rule hoareD[OF sole.serve_lawful[OF True] run]) simp
  then show ?thesis using True run by (simp add: after_peer_def)
qed (simp add: after_peer_def)

interpretation peer: shared_database "beside_peer A P h reqs" for A P h reqs
proof
  fix db tr
  show "evolves (av_Before (beside_peer A P h reqs)) db (av_Interfere (beside_peer A P h reqs) tr db)"
    using after_peer_evolves[of "P\<lparr>av_Before := av_Before A\<rparr>" db h "reqs tr"] by (simp add: beside_peer_def)
qed

section \<open>Properties\<close>

text \<open>
  C24. Four eyes: whenever a server that answers requests one after the other (while other servers that
  keep to the rules of the ledger use the same database) creates, updates or deletes a policy or an
  override through the approval workflow, then before that an account with the role of an approver or an
  admin had been read from the store, this account held the lease of the decision, the change it decides had
  been read, was asked for by somebody else and lies in the control namespace, and the call carries
  out exactly that change.
\<close>

lemma approvals_need_two_people:
  assumes rely: "\<And>db tr. evolves (av_Before A) db (av_Interfere A tr db)" and "ledger (av_Initial A)"
    and "handles A h [] (after @ e # before)" and "mutation e"
  shows "\<exists>ident rvw c. reviewer_seen rvw before \<and> lease_taken ident rvw before \<and> looked_up ident c before \<and>
    chg_UserID c \<noteq> rvw \<and> chg_ResourceNamespace c = ah_ControlNamespace h \<and> carries_out A c e before"
proof -
  have "shared_database A" by unfold_locales (rule rely)
  then have "justified mutation (reviewed A h) [] (after @ e # before)"
    using shared_database.serves_lawful[OF _ assms(3,2)] by simp
  from justifiedD[OF this assms(4)] show ?thesis
    by (auto simp: reviewed_def four_eyes_def entitled_def)
qed

text \<open>
  C25. The ledger of changes only moves forward: whatever requests a server answers, and whatever other servers do
  to the database between any two of its statements, no change disappears, what was asked for is never
  rewritten, and a row that is approved or rejected stays exactly as it is; every row stays well formed.
\<close>

lemma decided_changes_final:
  assumes rely: "\<And>db tr. evolves (av_Before A) db (av_Interfere A tr db)" and "ledger (av_Initial A)"
    and "handles A h [] tr" and "handles A h tr tr'"
  shows "ledger (db_after A tr) \<and>
    (\<forall>r\<in>set (db_Changes (db_after A tr)). \<exists>r'\<in>set (db_Changes (db_after A tr')).
       asked (row_Change r') = asked (row_Change r) \<and> (decided r \<longrightarrow> r' = r))"
proof -
  have A: "shared_database A" by unfold_locales (rule rely)
  have here: "ledger (db_after A tr)"
    using shared_database.serves_lawful[OF A assms(3,2)] ledger_evolves assms(2) by simp blast
  moreover have "evolves (av_Before A) (db_after A tr) (db_after A tr')"
    using shared_database.serves_lawful[OF A assms(4) here] by simp
  ultimately show ?thesis using evolves_succession by (fastforce simp: succeeds_def)
qed

section \<open>An example\<close>

definition ann :: User where
  "ann = \<lparr>user_ID = ''u1'', user_Username = ''ann'', user_PasswordHash = ''hash'', user_Role = ''approver'', user_CreatedAt = 0\<rparr>"

definition removal :: PendingChange where
  "removal = \<lparr>chg_ID = ''c1'', chg_UserID = ''u2'', chg_Username = ''bob'', chg_Action = ''delete'', chg_ResourceKind = ''PowerPolicy'',
     chg_ResourceNamespace = ''aura-system'', chg_ResourceName = ''nightly'', chg_ResourceVersion = ''7'', chg_Payload = '''',
     chg_Status = ''pending'', chg_CreatedAt = 0, chg_ReviewedBy = '''', chg_ReviewedAt = None\<rparr>"

definition nightly :: managed where
  "nightly = PolicyObject
     \<lparr>pp_Meta = \<lparr>om_Name = ''nightly'', om_GenerateName = '''', om_Namespace = ''aura-system'', om_UID = '''', om_ResourceVersion = ''7'',
        om_Labels = [], om_Annotations = [], om_CreationTimestamp = 0, om_DeletionTimestamp = None\<rparr>,
      pp_Spec = \<lparr>pps_Scope = \<lparr>scope_TargetRefs = [], scope_Namespaces = [], scope_NamespaceGroups = [], scope_NamespaceLabels = [],
          scope_WorkloadNames = [], scope_WorkloadLabels = []\<rparr>,
        pps_Schedule = \<lparr>psch_Windows = [], psch_DesiredState = ''on''\<rparr>, pps_Priority = 0, pps_Description = ''''\<rparr>,
      pp_Status = \<lparr>ppst_Conditions = [], ppst_AffectedTargets = 0, ppst_ActiveWindow = False, ppst_NextTransition = None\<rparr>\<rparr>"

definition demo_claims :: Claims where
  "demo_claims = \<lparr>cl_UserID = ''u1'', cl_Username = ''ann'', cl_Role = ''approver'', cl_ExpiresAt = Some Hour, cl_IssuedAt = Some 0,
     cl_Issuer = ''aura-power''\<rparr>"

definition demo_server :: aenv where
  "demo_server = \<lparr>av_Initial = \<lparr>db_Users = [ann], db_Changes = [\<lparr>row_Change = removal, row_ReviewedBy = None\<rparr>]\<rparr>,
     av_Interfere = (\<lambda>_ db. db), av_Fault = (\<lambda>_. None), av_Before = (<), av_Clock = (\<lambda>_. 1000), av_RandRead = (\<lambda>_. []),
     av_HashPassword = (\<lambda>_ p. Inr p), av_ComparePassword = (=), 
     av_SignedString = (\<lambda>_ c. if cl_UserID c = ''u1'' \<and> cl_Username c = ''ann'' \<and> cl_Role c = ''approver'' then Inr ''u1'' else Inl not_found),
     av_ParseWithClaims = (\<lambda>_ _ kf. case kf True of Inl e \<Rightarrow> Inl e | Inr _ \<Rightarrow> Inr \<lparr>tok_Claims = demo_claims, tok_Valid = True\<rparr>),
     av_GetManaged = (\<lambda>_ _ _. Inr nightly), av_CreateManaged = (\<lambda>_ m. Inr m), av_UpdateManaged = (\<lambda>_ m. Inr m),
     av_DeleteManaged = (\<lambda>_ _ _. Inr ()), av_CreateApproval = (\<lambda>_ ev. Inr ev), av_GetApproval = (\<lambda>_ _. Inl not_found),
     av_DecodePolicy = (\<lambda>_. Inl not_found), av_DecodeOverride = (\<lambda>_. Inl not_found), av_rnd = id\<rparr>"

definition demo_handlers :: AuthHandlers where
  "demo_handlers = NewAuthHandlers \<lparr>jwt_SecretKey = ''secret'', jwt_AccessTokenTTL = Hour, jwt_RefreshTokenTTL = 24 * Hour\<rparr> True []"

definition demo_request :: http_request where
  "demo_request = \<lparr>rq_Path = ''/api/v1/pending/c1/approve'', rq_Authorization = ''Bearer u1'', rq_Cookies = [], rq_TLS = True,
     rq_ForwardedProto = '''', rq_Param = ''c1''\<rparr>"

lemma demo_ledger: "ledger (av_Initial demo_server)"
  by (simp add: demo_server_def ledger_def ledger_row_def removal_def)

lemma demo_rely: "evolves (av_Before demo_server) db (av_Interfere demo_server tr db)"
  by (simp add: demo_server_def)

definition demo_trace :: deeds where
  "demo_trace = snd (run_state (serve demo_server demo_handlers PostApprove demo_request) [])"

lemma demo_serves: "handles demo_server demo_handlers [] demo_trace"
  unfolding demo_trace_def by (rule handles.request[OF handles.idle prod.collapse[symmetric]])

lemma demo_mutation: "5 < length demo_trace \<and> mutation (demo_trace ! 5)"
  by code_simp

lemma demo_split: "demo_trace = take 5 demo_trace @ demo_trace ! 5 # drop 6 demo_trace"
  using id_take_nth_drop[of 5 demo_trace] demo_mutation by simp

lemma demo_serves_split: "handles demo_server demo_handlers [] (take 5 demo_trace @ demo_trace ! 5 # drop 6 demo_trace)"
  using demo_serves by (simp only: demo_split[symmetric])

lemma approvals_need_two_people_witness:
  "mutation (demo_trace ! 5) \<and>
   (\<exists>ident rvw c. reviewer_seen rvw (drop 6 demo_trace) \<and> lease_taken ident rvw (drop 6 demo_trace) \<and>
      looked_up ident c (drop 6 demo_trace) \<and> chg_UserID c \<noteq> rvw \<and>
      chg_ResourceNamespace c = ah_ControlNamespace demo_handlers \<and> carries_out demo_server c (demo_trace ! 5) (drop 6 demo_trace))"
  using demo_mutation approvals_need_two_people[OF demo_rely demo_ledger demo_serves_split]
  by blast

text \<open>Two servers of which the other answers the same request between any two statements of the first.\<close>

definition demo_pair :: aenv where
  "demo_pair = beside_peer demo_server demo_server demo_handlers (\<lambda>_. (PostApprove, demo_request))"

lemma demo_pair_rely: "evolves (av_Before demo_pair) db (av_Interfere demo_pair tr db)"
  unfolding demo_pair_def by (rule peer.rely)

lemma demo_pair_ledger: "ledger (av_Initial demo_pair)"
  using demo_ledger by (simp add: demo_pair_def beside_peer_def)

lemma decided_changes_final_witness:
  "list_all (\<lambda>r. \<exists>r'\<in>set (db_Changes (db_after demo_pair (snd (run_state (serve demo_pair demo_handlers PostApprove demo_request) [])))).
        asked (row_Change r') = asked (row_Change r) \<and> (decided r \<longrightarrow> r' = r))
     (db_Changes (db_after demo_pair []))"
  unfolding list_all_iff
  by (rule conjunct2[OF decided_changes_final[OF demo_pair_rely demo_pair_ledger handles.idle
      handles.request[OF handles.idle prod.collapse[symmetric]]]])

end
