(* ===== verification/ApprovalOutcome.thy ===== *)
theory ApprovalOutcome
  imports ApprovalRun
begin

text \<open>
  What the answers of the approval handlers promise: a success means that the change is in the cluster, is
  recorded in the audit log and is final in the database; a decision is given up only if the cluster accepted
  no mutation; an interrupted decision is resumed after its lease.
\<close>

section \<open>What happened since\<close>

definition since :: "deeds \<Rightarrow> (deeds \<Rightarrow> bool) \<Rightarrow> deeds \<Rightarrow> bool" where
  "since base P tr \<longleftrightarrow> (\<exists>new. tr = new @ base \<and> P new)"

lemma since_start: "P [] \<Longrightarrow> since base P base"
  by (simp add: since_def)

lemma since_Cons: "since base P tr \<Longrightarrow> (\<And>new. P new \<Longrightarrow> Q (e # new)) \<Longrightarrow> since base Q (e # tr)"
  unfolding since_def by (metis append_Cons)

lemma since_mono: "since base P tr \<Longrightarrow> (\<And>new. P new \<Longrightarrow> Q new) \<Longrightarrow> since base Q tr"
  unfolding since_def by blast

lemma since_emits:
  assumes "emits E m" and "\<And>more new. (\<forall>e\<in>set more. E e) \<Longrightarrow> P new \<Longrightarrow> P (more @ new)"
  shows "keeps (since base P) m"
proof (rule hoareI)
  fix tr a tr' assume "since base P tr" and run: "run_state m tr = (a, tr')"
  then obtain new where "tr = new @ base" "P new" by (auto simp: since_def)
  moreover obtain more where "tr' = more @ tr" "\<forall>e\<in>set more. E e" using assms(1) run by (rule emitsD)
  ultimately show "since base P tr'" using assms(2) by (auto simp: since_def)
qed

fun accepted :: "deed \<Rightarrow> bool" where
  "accepted (CreateManaged _ r) = (\<exists>m. r = Inr m)"
| "accepted (UpdateManaged _ r) = (\<exists>m. r = Inr m)"
| "accepted (DeleteManaged _ _ r) = (r = Inr ())"
| "accepted _ = False"

fun gives_up :: "deed \<Rightarrow> bool" where
  "gives_up (Execute _ (CancelDecision _ _) _ _) = True"
| "gives_up _ = False"

section \<open>Giving up\<close>

abbreviation idle_events :: "deeds \<Rightarrow> bool" where
  "idle_events \<equiv> list_all (\<lambda>e. \<not> mutation e)"

lemma quiet_not_accepted: "\<not> mutation e \<Longrightarrow> \<not> accepted e"
  by (cases e) auto

lemma quiet_idle: "quiet m \<Longrightarrow> keeps (since base idle_events) m"
  by (erule since_emits) (auto simp: list_all_iff)

text \<open>What a read of the object shows when the change has not been made: the version the requester saw, or no object to create.\<close>

definition shows_undone :: "PendingChange \<Rightarrow> managed result \<Rightarrow> bool" where
  "shows_undone c got \<longleftrightarrow> (case got of
       Inl err \<Rightarrow> chg_Action c = ''create'' \<and> err_NotFound err
     | Inr live \<Rightarrow> chg_Action c \<in> {''update'', ''delete''} \<and> om_ResourceVersion (managed_Meta live) = chg_ResourceVersion c)"

text \<open>
  The change was left alone: no mutation was tried, or one was, was refused, and the very next step read the
  object of the change and found it as it was.
\<close>

definition left_alone :: "PendingChange \<Rightarrow> deeds \<Rightarrow> bool" where
  "left_alone c new \<longleftrightarrow> idle_events new \<or>
     (\<exists>post got e pre. new = post @ GetManaged (kindOf c) (changeKey c) got # e # pre \<and> mutation e \<and> \<not> accepted e \<and>
        idle_events post \<and> idle_events pre \<and> shows_undone c got)"

lemma left_alone_more: "idle_events ext \<Longrightarrow> left_alone c new \<Longrightarrow> left_alone c (ext @ new)"
  unfolding left_alone_def by (metis append_assoc list_all_append)

lemma left_alone_refused: "left_alone c new \<Longrightarrow> e \<in> set new \<Longrightarrow> \<not> accepted e"
  using quiet_not_accepted unfolding left_alone_def by (auto simp: list_all_iff)

lemma quiet_left_alone: "quiet m \<Longrightarrow> keeps (since base (left_alone c)) m"
  by (erule since_emits) (simp add: left_alone_more list_all_iff)

definition undone_unless :: "deeds \<Rightarrow> PendingChange \<Rightarrow> apply_error option \<Rightarrow> deeds \<Rightarrow> bool" where
  "undone_unless base c r tr \<longleftrightarrow> (\<forall>e. r = Some e \<longrightarrow> ap_NotApplied e \<longrightarrow> since base (left_alone c) tr)"

lemma undone_simps [simp]:
  "undone_unless base c None tr" "undone_unless base c (Some (uncertain op err)) tr"
  by (simp_all add: undone_unless_def uncertain_def)

lemma idle_undone: "since base idle_events tr \<Longrightarrow> undone_unless base c r tr"
  unfolding undone_unless_def by (auto simp: left_alone_def elim: since_mono)

text \<open>A mutation, followed by a look at what became of it if it was refused.\<close>

lemma mutate_undone:
  assumes ev: "\<And>r. mutation (ev r)" "\<And>e. \<not> accepted (ev (Inl e))"
    and look: "\<And>g err x. look g err = Some x \<Longrightarrow> ap_NotApplied x \<Longrightarrow> shows_undone c g"
  shows "hoare (since base idle_events)
    (do { r \<leftarrow> call f ev; case r of Inr _ \<Rightarrow> return None
        | Inl err \<Rightarrow> do { g \<leftarrow> getManaged A (kindOf c) (changeKey c); return (look g err) } })
    (undone_unless base c)"
proof (rule hoareI)
  fix tr r tr' assume idle: "since base idle_events tr"
    and run: "run_state (do { r \<leftarrow> call f ev; case r of Inr _ \<Rightarrow> return None
        | Inl err \<Rightarrow> do { g \<leftarrow> getManaged A (kindOf c) (changeKey c); return (look g err) } }) tr = (r, tr')"
  show "undone_unless base c r tr'"
  proof (cases "f tr")
    case (Inr v)
    then show ?thesis using run by simp
  next
    case (Inl err)
    obtain new where new: "tr = new @ base" "idle_events new" using idle by (auto simp: since_def)
    let ?e = "ev (Inl err)"
    let ?g = "av_GetManaged A (?e # tr) (kindOf c) (changeKey c)"
    have r: "r = look ?g err" "tr' = ([] @ GetManaged (kindOf c) (changeKey c) ?g # ?e # new) @ base"
      using run Inl new(1) by (simp_all add: getManaged_def)
    have "left_alone c ([] @ GetManaged (kindOf c) (changeKey c) ?g # ?e # new)" if "shows_undone c ?g"
      using that ev new(2) unfolding left_alone_def
      by (intro disjI2 exI[of _ "[]"] exI[of _ ?g] exI[of _ ?e] exI[of _ new]) simp
    then show ?thesis unfolding undone_unless_def since_def r(2) using look r(1) by metis
  qed
qed

lemma idle_return: "hoare (since base idle_events) (return r) (undone_unless base c)"
  by (rule hoare_return) (rule idle_undone)

lemma not_uncertain [simp]: "\<not> ap_NotApplied (uncertain op e)"
  by (simp add: uncertain_def)

lemma apply_undone:
  "chg_Action c = ''delete'' \<Longrightarrow> hoare (since base idle_events) (applyDelete A c (kindOf c) got) (undone_unless base c)"
  "chg_Action c = ''create'' \<Longrightarrow> hoare (since base idle_events) (applyCreate A c (kindOf c) m got) (undone_unless base c)"
  "chg_Action c = ''update'' \<Longrightarrow> hoare (since base idle_events) (applyUpdate A c (kindOf c) m got) (undone_unless base c)"
  unfolding applyDelete_def applyCreate_def applyUpdate_def deleteManaged_def createManaged_def updateManaged_def Let_def
  by (intro hoare_splits; intro idle_return mutate_undone; auto simp: shows_undone_def split: sum.splits if_splits)+

lemma applyPendingChange_undone:
  "hoare (since base idle_events) (applyPendingChange A h c) (undone_unless base c)"
proof -
  have "hoare (since base idle_events) (applyPendingObject A c (kindOf c)) (undone_unless base c)"
    unfolding applyPendingObject_def Let_def
    by (intro hoare_splits idle_return apply_undone hoare_bind[OF quiet_idle[OF quiet_basic(4)]]) auto
  then show ?thesis
    unfolding applyPendingChange_def by (auto simp: kindOf_def intro!: hoare_splits idle_return)
qed

abbreviation reserved :: "'a aio \<Rightarrow> bool" where
  "reserved m \<equiv> emits (\<lambda>e. \<not> gives_up e) m"

lemma reserved_Exec: "(\<And>db r db'. \<not> gives_up (Execute db w r db')) \<Longrightarrow> reserved (db_Exec A w)"
  unfolding db_Exec_def by (intro emits_intros) (simp split: prod.split)

lemma reserved_Query: "(\<And>db r. \<not> gives_up (ev db r)) \<Longrightarrow> reserved (db_Query A q ev)"
  unfolding db_Query_def by (intro emits_intros) (simp split: prod.split)

lemma reserved_basic [emits_intros]:
  "reserved (server_clock A)" "reserved (getUser A k)" "reserved (GetPendingChange A i)" "reserved (getManaged A kind key)"
  "reserved (createManaged A m)" "reserved (updateManaged A m)" "reserved (deleteManaged A m v)"
  "reserved (createApproval A ev)" "reserved (getApproval A key)"
  unfolding server_clock_def getUser_def GetPendingChange_def getManaged_def createManaged_def updateManaged_def deleteManaged_def
    createApproval_def getApproval_def
  by (intro emits_intros reserved_Query; simp)+

lemma reserved_steps [emits_intros]:
  "reserved (BeginPendingDecision A i rvw d)" "reserved (FinalizePendingDecision A i rvw d)" "reserved (requireCurrentReviewer A i)"
  "reserved (decisionOwner A c u)" "reserved (recordApprovalDecision A c u b)" "reserved (applyPendingChange A h c)"
  unfolding BeginPendingDecision_def FinalizePendingDecision_def requireCurrentReviewer_def decisionOwner_def recordApprovalDecision_def
    GetUserByID_def applyPendingChange_def applyPendingObject_def applyDelete_def applyCreate_def applyUpdate_def Let_def
  by (intro emits_intros reserved_Exec; simp)+

text \<open>A request that gives up left the change alone that it had looked up.\<close>

definition steady :: "string \<Rightarrow> deeds \<Rightarrow> bool" where
  "steady ident new \<longleftrightarrow> list_ex gives_up new \<longrightarrow> (\<exists>c. looked_up ident c new \<and> left_alone c new)"

abbreviation committed :: "deeds \<Rightarrow> bool" where
  "committed \<equiv> list_all (\<lambda>e. \<not> gives_up e)"

lemma reserved_committed: "reserved m \<Longrightarrow> keeps (since base committed) m"
  by (erule since_emits) (auto simp: list_all_iff)

lemma committed_steady: "since base committed tr \<Longrightarrow> since base (steady ident) tr"
  by (erule since_mono) (auto simp: steady_def list_ex_iff list_all_iff)

abbreviation calm :: "deeds \<Rightarrow> deeds \<Rightarrow> bool" where
  "calm base tr \<equiv> since base idle_events tr \<and> since base committed tr"

lemma calm_keeps: "quiet m \<Longrightarrow> reserved m \<Longrightarrow> keeps (calm base) m"
  by (rule hoare_conj[OF quiet_idle reserved_committed])

lemma calm_return: "hoare (calm base) (return resp) (\<lambda>_. since base (steady ident))"
  by (rule hoare_return) (blast intro: committed_steady)

lemma steady_tail: "reserved m \<Longrightarrow> hoare (since base committed) m (\<lambda>_. since base (steady ident))"
  by (rule hoare_weaken[OF reserved_committed]) (auto intro: committed_steady)

lemma looked_up_keeps: "emits E m \<Longrightarrow> keeps (since base (looked_up ident c)) m"
  by (erule since_emits) (auto simp: looked_up_def)

lemma Get_looked_up:
  "hoare (since base (\<lambda>_. True)) (GetPendingChange A ident) (\<lambda>r tr. \<forall>c. r = Inr c \<longrightarrow> since base (looked_up ident c) tr)"
proof (rule hoareI, intro allI impI)
  fix tr r tr' c assume base: "since base (\<lambda>_. True) tr" and run: "run_state (GetPendingChange A ident) tr = (r, tr')" and "r = Inr c"
  then obtain db row where "tr' = QueryChange db ident (Inr (Some row)) # tr" "c = scanChange row"
    by (auto simp: GetPendingChange_def db_Query_def read_answer_def Let_def split: option.splits)
  with base show "since base (looked_up ident c) tr'" by (fastforce simp: looked_up_def elim!: since_Cons)
qed

lemma since_any_quiet: "quiet m \<Longrightarrow> keeps (since base (\<lambda>_. True)) m"
  by (erule since_emits) simp

lemma Begin_looked_up:
  "hoare (since base (\<lambda>_. True)) (BeginPendingDecision A ident rvw d) (\<lambda>r tr. \<forall>c. r = Inr c \<longrightarrow> since base (looked_up ident c) tr)"
  unfolding BeginPendingDecision_def Let_def
  apply (rule hoare_if)
   apply (simp add: hoare_def)
  apply (rule hoare_bind[OF since_any_quiet[OF quiet_basic(1)]])
  apply (rule hoare_bind[OF since_any_quiet[OF quiet_Exec]])
  apply (intro hoare_splits)
    apply (simp add: hoare_def)
   apply (rule hoare_bind[OF since_any_quiet[OF quiet_basic(3)]])
   apply (intro hoare_splits; simp add: hoare_def)
  by (rule Get_looked_up)

lemma giving_up_steady:
  "hoare (\<lambda>tr. undone_unless base c (Some err) tr \<and> since base committed tr \<and> since base (looked_up ident c) tr)
     (do { _ \<leftarrow> (if ap_NotApplied err then CancelPendingDecision A i o' else return None); return resp })
     (\<lambda>_. since base (steady ident))"
proof (cases "ap_NotApplied err")
  case True
  have "hoare (\<lambda>tr. since base (left_alone c) tr \<and> since base (looked_up ident c) tr)
      (CancelPendingDecision A i o') (\<lambda>_ tr. since base (left_alone c) tr \<and> since base (looked_up ident c) tr)"
    by (intro hoare_conj quiet_left_alone looked_up_keeps[OF quiet_store(2)] quiet_store(2))
  then have "hoare (\<lambda>tr. since base (left_alone c) tr \<and> since base (looked_up ident c) tr)
      (do { _ \<leftarrow> CancelPendingDecision A i o'; return resp }) (\<lambda>_. since base (steady ident))"
    by (rule hoare_bind) (auto intro!: hoare_return simp: since_def steady_def)
  then show ?thesis using True by (simp add: undone_unless_def hoare_def)
next
  case False
  then show ?thesis by (auto simp: hoare_def intro: committed_steady)
qed

lemma handleApprove_steady: "hoare (calm base) (handleApprove A h ses rq) (\<lambda>_. since base (steady (rq_Param rq)))"
proof -
  have start: "hoare (calm base) (BeginPendingDecision A i rvw d)
      (\<lambda>r tr. calm base tr \<and> (\<forall>c. r = Inr c \<longrightarrow> since base (looked_up i c) tr))" for i rvw d
    by (rule hoare_weaken[OF hoare_conj[OF calm_keeps[OF quiet_store(1) reserved_steps(1)] Begin_looked_up]])
      (auto elim: since_mono)
  have owner: "keeps (\<lambda>tr. calm base tr \<and> since base (looked_up i c) tr) (decisionOwner A c u)" for i c u
    by (rule hoare_conj[OF calm_keeps[OF quiet_store(5) reserved_steps(4)] looked_up_keeps[OF quiet_store(5)]])
  have applying: "hoare (\<lambda>tr. calm base tr \<and> since base (looked_up i c) tr) (applyPendingChange A h c)
      (\<lambda>r tr. undone_unless base c r tr \<and> since base committed tr \<and> since base (looked_up i c) tr)" for i c
    by (rule hoare_weaken[OF hoare_conj[OF applyPendingChange_undone
          hoare_conj[OF reserved_committed looked_up_keeps]]]) (rule reserved_steps(6) | simp)+
  show ?thesis
    unfolding handleApprove_def Let_def
    apply (rule hoare_bind[OF calm_keeps], (rule emits_intros)+, rule hoare_sum, rule calm_return)
    apply (rule hoare_bind[OF calm_keeps], (rule emits_intros)+, rule hoare_sum, rule calm_return)
    apply (rule hoare_if, rule calm_return, rule hoare_if, rule calm_return)
    apply (rule hoare_bind[OF start], rule hoare_sum)
    subgoal by (rule hoare_pre[OF calm_return]) simp
    subgoal for _ _ _ _ _ change
      apply (rule hoare_bind[OF hoare_pre[OF owner[of "rq_Param rq" change]]])
      subgoal by simp
      apply (rule hoare_bind[OF applying])
      apply (rule hoare_option)
      subgoal by (rule hoare_pre[OF steady_tail]) (intro emits_intros, simp)
      subgoal by (simp only: giving_up_steady)
      done
    done
qed

section \<open>Success\<close>

text \<open>
  A typed read answers with an object of the kind and under the key that was asked for.
\<close>

fun managedKind :: "managed \<Rightarrow> managed_kind" where
  "managedKind (PolicyObject _) = PolicyKind"
| "managedKind (OverrideObject _) = OverrideKind"

definition managedKey :: "managed \<Rightarrow> NamespacedName" where
  "managedKey m = \<lparr>nn_Namespace = om_Namespace (managed_Meta m), nn_Name = om_Name (managed_Meta m)\<rparr>"

definition addressed_reads :: "aenv \<Rightarrow> bool" where
  "addressed_reads A \<longleftrightarrow> (\<forall>tr kind k m. av_GetManaged A tr kind k = Inr m \<longrightarrow> managedKind m = kind \<and> managedKey m = k)"

fun mutated :: "deed \<Rightarrow> managed option" where
  "mutated (CreateManaged m _) = Some m"
| "mutated (UpdateManaged m _) = Some m"
| "mutated (DeleteManaged m _ _) = Some m"
| "mutated _ = None"

text \<open>The object the payload of a change describes; its name and namespace are those of the change.\<close>

definition desires :: "aenv \<Rightarrow> PendingChange \<Rightarrow> managed \<Rightarrow> bool" where
  "desires A c desired \<longleftrightarrow> (\<exists>decoded. decodePayload A (kindOf c) (chg_Payload c) = Inr decoded \<and>
     desired = desiredObject c decoded \<and> managedKey desired = changeKey c)"

text \<open>
  The change is in the cluster: a mutation was accepted that carries the change out, on the object of the change (its kind, its
  namespace and its name), which has the specification of the payload unless it was deleted; or the object was read
  and had that specification already, or was absent already for a deletion.
\<close>

definition carried :: "aenv \<Rightarrow> PendingChange \<Rightarrow> deed \<Rightarrow> deeds \<Rightarrow> bool" where
  "carried A c e tr \<longleftrightarrow> accepted e \<and> carries_out A c e tr \<and>
     (\<exists>m. mutated e = Some m \<and> managedKind m = kindOf c \<and> managedKey m = changeKey c \<and>
        (chg_Action c \<noteq> ''delete'' \<longrightarrow> (\<exists>desired. desires A c desired \<and> pendingObjectEqual m desired)))"

definition in_place :: "aenv \<Rightarrow> PendingChange \<Rightarrow> managed result \<Rightarrow> bool" where
  "in_place A c got \<longleftrightarrow> (case got of
       Inl err \<Rightarrow> chg_Action c = ''delete'' \<and> err_NotFound err
     | Inr live \<Rightarrow> chg_Action c \<in> {''create'', ''update''} \<and> (\<exists>desired. desires A c desired \<and> pendingObjectEqual live desired))"

definition achieved :: "aenv \<Rightarrow> PendingChange \<Rightarrow> deeds \<Rightarrow> bool" where
  "achieved A c new \<longleftrightarrow>
     (\<exists>post e pre. new = post @ e # pre \<and> carried A c e pre) \<or>
     (\<exists>got. GetManaged (kindOf c) (changeKey c) got \<in> set new \<and> in_place A c got)"

lemma achieved_more: "achieved A c new \<Longrightarrow> achieved A c (ext @ new)"
  unfolding achieved_def by (metis append_assoc in_set_conv_decomp)

lemma achieved_intros:
  "carried A c e new \<Longrightarrow> achieved A c (e # new)"
  "in_place A c got \<Longrightarrow> achieved A c (GetManaged (kindOf c) (changeKey c) got # new)"
  "GetManaged (kindOf c) (changeKey c) got \<in> set new \<Longrightarrow> in_place A c got \<Longrightarrow> achieved A c new"
  unfolding achieved_def by (metis append_Nil, (metis list.set_intros(1), blast))

lemma scope_eq_refl [simp]: "scope_eq a a"
  by (simp add: scope_eq_def semantic_eq_map_iff)

lemma pendingObjectEqual_prepared [simp]:
  "pendingObjectEqual m (clearPendingObjectStatus (with_Meta f d)) = pendingObjectEqual m d"
  "pendingObjectEqual (clearPendingObjectStatus (with_Meta f d)) d"
  "managedKind m = managedKind d \<Longrightarrow> pendingObjectEqual (applyPendingObjectSpec m d) d"
  by (cases m; cases d; simp)+

lemma managed_identity [simp]:
  "managedKind (clearPendingObjectStatus m) = managedKind m" "managedKind (with_Meta f m) = managedKind m"
  "managedKind (desiredObject c m) = managedKind m" "managedKind (applyPendingObjectSpec m d) = managedKind m"
  "managedKey (clearPendingObjectStatus m) = managedKey m" "managedKey (applyPendingObjectSpec m d) = managedKey m"
  "managedKey (with_Meta (\<lambda>x. x\<lparr>om_ResourceVersion := v\<rparr>) m) = managedKey m"
  unfolding managedKey_def desiredObject_def by (cases m; cases d; simp)+

lemma decodePayload_kind: "decodePayload A kind p = Inr m \<Longrightarrow> managedKind m = kind"
  by (auto simp: decodePayload_def split: managed_kind.splits sum.splits)

lemma desires_kind: "desires A c d \<Longrightarrow> managedKind d = kindOf c"
  using decodePayload_kind by (auto simp: desires_def)

lemma since_Cons2: "since base P tr \<Longrightarrow> (\<And>new. P new \<Longrightarrow> Q (e # e' # new)) \<Longrightarrow> since base Q (e # e' # tr)"
  unfolding since_def by (metis append_Cons)

lemma carried_written:
  "carries_out A c e tr \<Longrightarrow> accepted e \<Longrightarrow> mutated e = Some m \<Longrightarrow> managedKind m = kindOf c \<Longrightarrow> managedKey m = changeKey c \<Longrightarrow>
   desires A c d \<Longrightarrow> pendingObjectEqual m d \<Longrightarrow> carried A c e tr"
  unfolding carried_def by blast

text \<open>The look that precedes the application is part of the trace.\<close>

abbreviation saw :: "deeds \<Rightarrow> PendingChange \<Rightarrow> managed result \<Rightarrow> deeds \<Rightarrow> bool" where
  "saw base c got \<equiv> since base (\<lambda>new. GetManaged (kindOf c) (changeKey c) got \<in> set new)"

abbreviation placed :: "PendingChange \<Rightarrow> managed result \<Rightarrow> bool" where
  "placed c got \<equiv> (\<forall>m. got = Inr m \<longrightarrow> managedKind m = kindOf c \<and> managedKey m = changeKey c)"

lemma saw_look:
  "addressed_reads A \<Longrightarrow> hoare (since base (\<lambda>_. True)) (getManaged A (kindOf c) (changeKey c)) (\<lambda>r tr. saw base c r tr \<and> placed c r)"
  unfolding getManaged_def by (rule hoare_call) (auto simp: addressed_reads_def elim: since_Cons)

lemma saw_achieved: "saw base c got tr \<Longrightarrow> in_place A c got \<Longrightarrow> since base (achieved A c) tr"
  by (erule since_mono) (rule achieved_intros)

lemma look_achieved: "saw base c got tr \<Longrightarrow> in_place A c g \<Longrightarrow>
  since base (achieved A c) (GetManaged (kindOf c) (changeKey c) g # e # tr)"
  by (erule since_Cons2) (rule achieved_intros)

lemma mutation_achieved:
  "saw base c got tr \<Longrightarrow> (\<And>new. GetManaged (kindOf c) (changeKey c) got \<in> set new \<Longrightarrow> carried A c e new) \<Longrightarrow>
   since base (achieved A c) (e # tr)"
  by (erule since_Cons) (blast intro: achieved_intros(1))

lemma applyDelete_achieved:
  assumes "chg_Action c = ''delete''" and "placed c got"
  shows "hoare (saw base c got) (applyDelete A c (kindOf c) got) (\<lambda>r tr. r = None \<longrightarrow> since base (achieved A c) tr)"
proof (cases got)
  case (Inl err)
  then show ?thesis using assms(1) by (auto simp: applyDelete_def hoare_def in_place_def intro: saw_achieved)
next
  case (Inr live)
  have "carried A c (DeleteManaged live (chg_ResourceVersion c) (Inr ())) new"
    if "om_ResourceVersion (managed_Meta live) = chg_ResourceVersion c"
      and "GetManaged (kindOf c) (changeKey c) (Inr live) \<in> set new" for new
    using that assms Inr by (simp add: carried_def)
  then show ?thesis
    using assms(1) Inr
    by (auto simp: applyDelete_def hoare_def deleteManaged_def getManaged_def in_place_def
        split: sum.splits if_splits intro: mutation_achieved look_achieved)
qed

lemma applyCreate_achieved:
  assumes "chg_Action c = ''create''" and "decodePayload A (kindOf c) (chg_Payload c) = Inr decoded"
    and "managedKey (desiredObject c decoded) = changeKey c"
  shows "hoare (saw base c got) (applyCreate A c (kindOf c) (desiredObject c decoded) got) (\<lambda>r tr. r = None \<longrightarrow> since base (achieved A c) tr)"
proof -
  let ?d = "desiredObject c decoded"
  let ?p = "clearPendingObjectStatus (with_Meta (\<lambda>m. m\<lparr>om_ResourceVersion := ''''\<rparr>) ?d)"
  have d: "desires A c ?d" using assms(2,3) by (auto simp: desires_def)
  have seen: "in_place A c (Inr live)" if "pendingObjectEqual live ?d" for live
    using that d assms(1) by (auto simp: in_place_def)
  show ?thesis
  proof (cases got)
    case (Inl err)
    have "carried A c (CreateManaged ?p (Inr m)) new"
      if "err_NotFound err" and "GetManaged (kindOf c) (changeKey c) (Inl err) \<in> set new" for m new
    proof -
      have "om_Name (managed_Meta ?d) = chg_ResourceName c" "om_Namespace (managed_Meta ?d) = chg_ResourceNamespace c"
        using assms(3) by (simp_all add: managedKey_def changeKey_def)
      then have "carries_out A c (CreateManaged ?p (Inr m)) new"
        using that assms(1,2) by auto
      then show ?thesis
        by (rule carried_written[where m = ?p, OF _ _ _ _ _ d])
          (use assms(3) decodePayload_kind[OF assms(2)] in simp_all)
    qed
    then show ?thesis
      using Inl seen
      by (auto simp: applyCreate_def hoare_def createManaged_def getManaged_def Let_def
          split: sum.splits if_splits intro: mutation_achieved look_achieved)
  next
    case (Inr live)
    then show ?thesis using seen by (auto simp: applyCreate_def hoare_def intro: saw_achieved)
  qed
qed

lemma applyUpdate_achieved:
  assumes "chg_Action c = ''update''" and "decodePayload A (kindOf c) (chg_Payload c) = Inr decoded"
    and "managedKey (desiredObject c decoded) = changeKey c" and "placed c got"
  shows "hoare (saw base c got) (applyUpdate A c (kindOf c) (desiredObject c decoded) got) (\<lambda>r tr. r = None \<longrightarrow> since base (achieved A c) tr)"
proof -
  let ?d = "desiredObject c decoded"
  have d: "desires A c ?d" using assms(2,3) by (auto simp: desires_def)
  have seen: "in_place A c (Inr live)" if "pendingObjectEqual live ?d" for live
    using that d assms(1) by (auto simp: in_place_def)
  show ?thesis
  proof (cases got)
    case (Inl err)
    then show ?thesis by (auto simp: applyUpdate_def hoare_def)
  next
    case (Inr live)
    have "carried A c (UpdateManaged (applyPendingObjectSpec live ?d) (Inr m)) new"
      if "om_ResourceVersion (managed_Meta live) = chg_ResourceVersion c"
        and "GetManaged (kindOf c) (changeKey c) (Inr live) \<in> set new" for m new
    proof -
      have equal: "pendingObjectEqual (applyPendingObjectSpec live ?d) ?d"
        using Inr assms(4) desires_kind[OF d] by (intro pendingObjectEqual_prepared(3)) simp
      have "carries_out A c (UpdateManaged (applyPendingObjectSpec live ?d) (Inr m)) new"
        using that assms(1,2) by auto
      then show ?thesis
        by (rule carried_written[OF _ _ _ _ _ d equal]) (use Inr assms(4) in simp_all)
    qed
    then show ?thesis
      using Inr seen
      by (auto simp: applyUpdate_def hoare_def updateManaged_def getManaged_def
          split: sum.splits if_splits intro: saw_achieved mutation_achieved look_achieved)
  qed
qed

lemma failed_achieved: "hoare P (return (Some err)) (\<lambda>r tr. r = None \<longrightarrow> Q tr)"
  by (simp add: hoare_def)

lemma applyPendingChange_achieved:
  assumes "addressed_reads A"
  shows "hoare (since base (\<lambda>_. True)) (applyPendingChange A h c) (\<lambda>r tr. r = None \<longrightarrow> since base (achieved A c) tr)"
proof -
  have "hoare (since base (\<lambda>_. True)) (applyPendingObject A c (kindOf c)) (\<lambda>r tr. r = None \<longrightarrow> since base (achieved A c) tr)"
    unfolding applyPendingObject_def Let_def
    by (rule hoare_bind[OF saw_look[OF assms]], rule hoare_assume)
      (intro hoare_splits; intro failed_achieved applyDelete_achieved applyCreate_achieved applyUpdate_achieved;
        auto simp: managedKey_def changeKey_def)
  then show ?thesis
    unfolding applyPendingChange_def by (auto simp: kindOf_def intro!: hoare_splits failed_achieved)
qed

text \<open>The decision is in the audit log.\<close>

definition audited :: "PendingChange \<Rightarrow> deeds \<Rightarrow> bool" where
  "audited c new \<longleftrightarrow> (\<exists>owner now ev. ev = approvalEvent c owner True now \<and>
     ((\<exists>r. CreateApproval ev (Inr r) \<in> set new) \<or>
      (\<exists>k r. GetApproval k (Inr r) \<in> set new \<and> sameDecision (pae_Spec r) (pae_Spec ev))))"

lemma audited_intros:
  "CreateApproval (approvalEvent c owner True now) (Inr r) \<in> set new \<Longrightarrow> audited c new"
  "GetApproval k (Inr r) \<in> set new \<Longrightarrow> sameDecision (pae_Spec r) (pae_Spec (approvalEvent c owner True now)) \<Longrightarrow> audited c new"
  unfolding audited_def by blast+

lemma audited_more: "audited c new \<Longrightarrow> audited c (ext @ new)"
  unfolding audited_def set_append by blast

lemma recordApprovalDecision_audited:
  "hoare (since base (\<lambda>_. True)) (recordApprovalDecision A c owner True) (\<lambda>r tr. r = None \<longrightarrow> since base (audited c) tr)"
proof (rule hoareI, rule impI)
  fix tr r tr' assume base: "since base (\<lambda>_. True) tr" and run: "run_state (recordApprovalDecision A c owner True) tr = (r, tr')" and "r = None"
  define ev where "ev = approvalEvent c owner True (av_Clock A tr)"
  from run \<open>r = None\<close> consider v where "tr' = CreateApproval ev (Inr v) # ServerClock (av_Clock A tr) # tr"
    | k e v where "tr' = GetApproval k (Inr v) # CreateApproval ev (Inl e) # ServerClock (av_Clock A tr) # tr"
        "sameDecision (pae_Spec v) (pae_Spec ev)"
    by (auto simp: recordApprovalDecision_def server_clock_def createApproval_def getApproval_def Let_def ev_def
        split: sum.splits if_splits)
  then show "since base (audited c) tr'"
  proof cases
    case 1
    with base show ?thesis by (auto simp: ev_def intro: audited_intros(1) elim!: since_Cons2)
  next
    case 2
    from base have "since base (\<lambda>_. True) (ServerClock (av_Clock A tr) # tr)" by (rule since_Cons)
    with 2 show ?thesis by (auto simp: ev_def intro: audited_intros(2) elim!: since_Cons2)
  qed
qed

text \<open>The decision is final in the database.\<close>

definition approved_by :: "string \<Rightarrow> string \<Rightarrow> pending_row \<Rightarrow> bool" where
  "approved_by ident rvw r \<longleftrightarrow>
     row_ID r = ident \<and> row_Status r = ''approved'' \<and> row_ReviewedBy r = Some rvw \<and> row_UserID r \<noteq> rvw"

context shared_database
begin

lemma Finalize_approved:
  assumes "ledger db0" and "evolved db0 tr"
    and "run_state (FinalizePendingDecision A ident rvw ''approve'') tr = (Inr c, tr')"
  shows "\<exists>r\<in>set (db_Changes (db_after A tr')). approved_by ident rvw r"
proof -
  define now where "now = av_Clock A tr"
  define w where "w = FinalizeDecision ''approved'' now ident ''approving'' rvw"
  define tr1 where "tr1 = ServerClock now # tr"
  obtain q tr2 where ex: "run_state (db_Exec A w) tr1 = (q, tr2)" by (rule prod.exhaust)
  have "run_state (case q of Inl e \<Rightarrow> return (Inl e)
      | Inr rows \<Rightarrow> if rows = 0 then return (Inl ErrPendingDecisionConflict) else GetPendingChange A ident) tr2 = (Inr c, tr')"
    using assms(3) ex by (simp add: FinalizePendingDecision_def server_clock_def w_def tr1_def now_def)
  then obtain n where q: "q = Inr n" "n \<noteq> 0" and g: "run_state (GetPendingChange A ident) tr2 = (Inr c, tr')"
    by (auto split: sum.splits if_splits)
  have l1: "ledger (db_found A tr1)"
    using ledger_evolves[OF evolved_found assms(1)] assms(2) by (simp add: tr1_def)
  have dbs: "db_after A tr2 = snd (sql_exec (av_Before A) w (db_found A tr1))" "Some n = fst (sql_exec (av_Before A) w (db_found A tr1))"
    using ex q by (auto simp: db_Exec_def statement_def Let_def split: prod.splits option.splits if_splits)
  then have "filter (finalizable ident ''approving'' rvw) (db_Changes (db_found A tr1)) \<noteq> []"
    using q(2) by (auto simp: w_def sql_update_def)
  then obtain r where r: "r \<in> set (db_Changes (db_found A tr1))" "finalizable ident ''approving'' rvw r"
    by (auto simp: filter_empty_conv)
  then have r': "finalized ''approved'' now r \<in> set (db_Changes (db_after A tr2))"
    unfolding dbs(1) w_def by (simp add: sql_update_def)
  have "approved_by ident rvw (finalized ''approved'' now r)" "decided (finalized ''approved'' now r)"
    using r l1 by (auto simp: approved_by_def finalizable_def finalized_def decided_def ledger_def ledger_row_def)
  moreover have "evolved (db_after A tr2) tr'" by (rule hoareD[OF basic_keeps(7) g]) simp
  ultimately show ?thesis
    using evolves_succession[OF _ r'] by (auto simp: succeeds_def)
qed

text \<open>What is known of a change while it is decided.\<close>

definition deciding :: "database \<Rightarrow> deeds \<Rightarrow> string \<Rightarrow> PendingChange \<Rightarrow> deeds \<Rightarrow> bool" where
  "deciding db base ident c tr \<longleftrightarrow> evolved db tr \<and> on_record c (db_after A tr) \<and> chg_ID c = ident \<and> since base (\<lambda>_. True) tr"

lemma deciding_keeps:
  assumes "\<And>db. keeps (evolved db) m" and "quiet m"
  shows "keeps (deciding db base ident c) m"
proof (rule hoareI)
  fix tr a tr' assume d: "deciding db base ident c tr" and run: "run_state m tr = (a, tr')"
  have "evolved (db_after A tr) tr'" by (rule hoareD[OF assms(1) run]) simp
  with d have "on_record c (db_after A tr')" by (auto simp: deciding_def intro: evolved_on_record)
  moreover have "evolved db tr'" by (rule hoareD[OF assms(1) run]) (use d in \<open>simp add: deciding_def\<close>)
  moreover have "since base (\<lambda>_. True) tr'"
    by (rule hoareD[OF since_emits[OF assms(2)] run]) (use d in \<open>simp_all add: deciding_def\<close>)
  ultimately show "deciding db base ident c tr'" using d by (simp add: deciding_def)
qed

lemma known_record: "known ident c tr \<Longrightarrow> on_record c (db_after A tr)" "known ident c tr \<Longrightarrow> chg_ID c = ident"
  by (simp_all add: known_def)

abbreviation arrived :: "database \<Rightarrow> deeds \<Rightarrow> deeds \<Rightarrow> bool" where
  "arrived db base tr \<equiv> evolved db tr \<and> since base (\<lambda>_. True) tr"

lemma since_any: "quiet m \<Longrightarrow> keeps (since base (\<lambda>_. True)) m"
  by (erule since_emits) simp

lemma arrived_keeps: "keeps (evolved db) m \<Longrightarrow> quiet m \<Longrightarrow> keeps (arrived db base) m"
  by (rule hoare_conj[OF _ since_any])

lemma arrived_look:
  "hoare (arrived db base) (GetPendingChange A ident) (\<lambda>r tr. arrived db base tr \<and> (\<forall>c. r = Inr c \<longrightarrow> known ident c tr))"
  by (rule hoare_weaken[OF hoare_conj[OF GetPendingChange_known since_any[OF quiet_basic(3)]]]) auto

lemma arrived_begin:
  assumes "ledger db"
  shows "hoare (\<lambda>tr. \<exists>c. (arrived db base tr \<and> known ident c tr) \<and> chg_UserID c \<noteq> rvw) (BeginPendingDecision A ident rvw ''approve'')
    (\<lambda>r tr. \<forall>c'. r = Inr c' \<longrightarrow> deciding db base ident c' tr)"
proof (rule hoare_ex)
  fix c :: PendingChange assume other: "chg_UserID c \<noteq> rvw"
  show "hoare (\<lambda>tr. arrived db base tr \<and> known ident c tr) (BeginPendingDecision A ident rvw ''approve'')
    (\<lambda>r tr. \<forall>c'. r = Inr c' \<longrightarrow> deciding db base ident c' tr)"
    by (rule hoare_weaken[OF hoare_conj[OF BeginPendingDecision_approve[OF assms, of c ident rvw] since_any[OF quiet_store(1), of base]]])
      (use other in \<open>auto simp: deciding_def known_record\<close>)
qed

definition promise :: "deeds \<Rightarrow> string \<Rightarrow> response \<Rightarrow> deeds \<Rightarrow> bool" where
  "promise base ident resp tr \<longleftrightarrow> (rs_Status resp = 200 \<longrightarrow>
     (\<exists>r\<in>set (db_Changes (db_after A tr)). \<exists>rvw. approved_by ident rvw r \<and>
        (\<exists>c. asked c = asked (row_Change r) \<and> since base (achieved A c) tr \<and> since base (audited c) tr)))"

lemma promise_failed [simp]: "rs_Status resp \<noteq> 200 \<Longrightarrow> promise base ident resp tr"
  by (simp add: promise_def)

lemma failed_return: "rs_Status resp \<noteq> 200 \<Longrightarrow> hoare P (return resp) (promise base ident)"
  by (simp add: hoare_def)

lemma finalize_promise:
  assumes "ledger db"
  shows "hoare (\<lambda>tr. deciding db base ident c tr \<and> since base (achieved A c) tr \<and> since base (audited c) tr)
    (do { f \<leftarrow> FinalizePendingDecision A ident rvw ''approve'';
          return (case f of Inl _ \<Rightarrow> reply 500 (ErrorBody msg) | Inr change \<Rightarrow> reply 200 (ChangeBody change)) })
    (promise base ident)"
proof (rule hoareI)
  fix tr resp tr'
  assume P: "deciding db base ident c tr \<and> since base (achieved A c) tr \<and> since base (audited c) tr"
    and run: "run_state (do { f \<leftarrow> FinalizePendingDecision A ident rvw ''approve'';
      return (case f of Inl _ \<Rightarrow> reply 500 (ErrorBody msg) | Inr change \<Rightarrow> reply 200 (ChangeBody change)) }) tr = (resp, tr')"
  obtain f where f: "run_state (FinalizePendingDecision A ident rvw ''approve'') tr = (f, tr')"
    and resp: "resp = (case f of Inl _ \<Rightarrow> reply 500 (ErrorBody msg) | Inr change \<Rightarrow> reply 200 (ChangeBody change))"
    using run by (auto split: prod.splits)
  show "promise base ident resp tr'"
  proof (cases f)
    case (Inl e)
    then show ?thesis using resp by (simp add: reply_def)
  next
    case (Inr change)
    have ev: "evolved db tr" using P by (simp add: deciding_def)
    obtain r where r: "r \<in> set (db_Changes (db_after A tr'))" "approved_by ident rvw r"
      using Finalize_approved[OF assms ev f[unfolded Inr]] by blast
    have d: "deciding db base ident c tr'"
      by (rule hoareD[OF deciding_keeps[OF write_keeps(6) quiet_store(3)] f]) (use P in simp)
    then have "asked (row_Change r) = asked c"
      using on_record_unique[OF ledger_here[OF assms] _ r(1)] r(2) by (simp add: deciding_def approved_by_def)
    moreover have "since base (achieved A c) tr'"
      by (rule hoareD[OF since_emits[OF quiet_store(3)] f]) (use P achieved_more in auto)
    moreover have "since base (audited c) tr'"
      by (rule hoareD[OF since_emits[OF quiet_store(3)] f]) (use P audited_more in auto)
    ultimately show ?thesis using r unfolding promise_def by metis
  qed
qed

lemma record_promise:
  "hoare (\<lambda>tr. deciding db base ident c tr \<and> since base (achieved A c) tr) (recordApprovalDecision A c owner True)
     (\<lambda>r tr. r = None \<longrightarrow> deciding db base ident c tr \<and> since base (achieved A c) tr \<and> since base (audited c) tr)"
proof -
  have "keeps (since base (achieved A c)) (recordApprovalDecision A c owner True)"
    by (rule since_emits[OF quiet_store(6)]) (rule achieved_more)
  from hoare_conj[OF recordApprovalDecision_audited hoare_conj[OF deciding_keeps[where db = db and base = base and ident = ident and c = c, OF decision_keeps(3) quiet_store(6)] this]]
  show ?thesis by (rule hoare_weaken) (auto simp: deciding_def)
qed

lemma apply_promise:
  assumes "addressed_reads A"
  shows "hoare (deciding db base ident c) (applyPendingChange A h c)
     (\<lambda>r tr. r = None \<longrightarrow> deciding db base ident c tr \<and> since base (achieved A c) tr)"
proof (rule hoareI, rule impI)
  fix tr r tr' assume d: "deciding db base ident c tr" and run: "run_state (applyPendingChange A h c) tr = (r, tr')" and "r = None"
  have s: "since base (achieved A c) tr'"
    using hoareD[OF applyPendingChange_achieved[OF assms] run] d \<open>r = None\<close> by (simp add: deciding_def)
  have "evolved (db_after A tr) tr'" by (rule hoareD[OF decision_keeps(4) run]) simp
  with d have "on_record c (db_after A tr')" by (auto simp: deciding_def intro: evolved_on_record)
  moreover have "evolved db tr'" by (rule hoareD[OF decision_keeps(4) run]) (use d in \<open>simp add: deciding_def\<close>)
  ultimately show "deciding db base ident c tr' \<and> since base (achieved A c) tr'"
    using d s by (auto simp: deciding_def elim: since_mono)
qed

lemma handleApprove_promise:
  assumes "ledger db" and "addressed_reads A"
  shows "hoare (arrived db base) (handleApprove A h ses rq) (promise base (rq_Param rq))"
  unfolding handleApprove_def Let_def
  apply (rule hoare_bind[OF arrived_keeps[OF decision_keeps(1) quiet_store(4)]])
  apply (rule hoare_sum)
  subgoal by (rule failed_return) (simp add: reply_def)
  apply (rule hoare_bind[OF arrived_look])
  apply (rule hoare_sum)
  subgoal by (rule failed_return) (simp add: reply_def)
  apply (rule hoare_if)
  subgoal by (rule failed_return) (simp add: reply_def)
  apply (rule hoare_if)
  subgoal by (rule failed_return) (simp add: reply_def)
  apply (rule hoare_bind[OF hoare_pre[OF arrived_begin[OF assms(1), where base = base and ident = "rq_Param rq" and rvw = "ses_UserID ses"]]])
  subgoal by auto
  apply (rule hoare_sum)
  subgoal by (rule failed_return) (simp add: reply_def)
  subgoal for _ _ _ change _ c
    apply (rule hoare_bind[OF hoare_pre[OF deciding_keeps[OF decision_keeps(2) quiet_store(5), where db = db and base = base and ident = "rq_Param rq" and c = c]]])
    subgoal by simp
    apply (rule hoare_bind[OF apply_promise[OF assms(2)]])
    apply (rule hoare_option)
    subgoal
      apply (rule hoare_bind[OF hoare_pre[OF record_promise[where db = db and base = base and ident = "rq_Param rq" and c = c]]])
      subgoal by simp
      apply (rule hoare_option)
      subgoal by (rule hoare_pre[OF finalize_promise[OF assms(1)]]) simp
      subgoal by (rule failed_return) (simp add: reply_def)
      done
    subgoal by (rule hoare_bind[OF hoare_pre[where P' = "\<lambda>_. True"]]) (auto simp: hoare_def reply_def)
    done
  done

end

section \<open>Leases\<close>

definition undisturbed :: "aenv \<Rightarrow> bool" where
  "undisturbed A \<longleftrightarrow> (\<forall>tr db. av_Interfere A tr db = db) \<and> (\<forall>tr. av_Fault A tr = None)"

lemma find_unique: "distinct (map f xs) \<Longrightarrow> x \<in> set xs \<Longrightarrow> find (\<lambda>y. f y = f x) xs = Some x"
  by (induction xs) (auto simp: image_iff)

lemma undisturbed_Exec:
  "undisturbed A \<Longrightarrow> sql_exec (av_Before A) w (db_after A tr) = (Some n, db') \<Longrightarrow>
   run_state (db_Exec A w) tr = (Inr n, Execute (db_after A tr) w (Inr n) db' # tr)"
  by (simp add: db_Exec_def statement_def db_found_def undisturbed_def)

lemma undisturbed_Get:
  assumes "undisturbed A" and "ledger (db_after A tr)" and "r \<in> set (db_Changes (db_after A tr))"
  shows "run_state (GetPendingChange A (row_ID r)) tr =
    (Inr (scanChange r), QueryChange (db_after A tr) (row_ID r) (Inr (Some r)) # tr)"
  using assms find_unique[of row_ID "db_Changes (db_after A tr)" r]
  by (simp add: GetPendingChange_def db_Query_def read_answer_def db_found_def undisturbed_def ledger_def)

lemma BeginPendingDecision_lease:
  assumes "undisturbed A" and "ledger (db_after A tr)" and "r \<in> set (db_Changes (db_after A tr))"
    and "row_UserID r \<noteq> rvw" and "run_state (BeginPendingDecision A (row_ID r) rvw ''approve'') tr = (res, tr')"
  shows "if leaseable (av_Before A) ''approving'' (row_ID r) (av_Clock A tr - 5 * Minute) r
    then res = Inr (scanChange (leased ''approving'' rvw (av_Clock A tr) r))
    else res = Inl ErrPendingDecisionConflict \<and> db_after A tr' = db_after A tr"
proof -
  define now where "now = av_Clock A tr"
  define L where "L = leaseable (av_Before A) ''approving'' (row_ID r) (now - 5 * Minute)"
  define w where "w = BeginDecision ''approving'' rvw now (row_ID r) (now - 5 * Minute)"
  define db where "db = db_after A tr"
  define db' where "db' = snd (sql_exec (av_Before A) w db)"
  define tr1 where "tr1 = ServerClock now # tr"
  have adm: "admissible w db"
    using assms(2-4) distinct_mapD[of row_ID "db_Changes db"] by (auto simp: w_def db_def ledger_def)
  have l': "ledger db'" unfolding db'_def by (rule ledger_exec[OF assms(2)[folded db_def] adm])
  have other: "L r' \<Longrightarrow> r' \<in> set (db_Changes db) \<Longrightarrow> r' = r" for r'
    using assms(2,3) distinct_mapD[of row_ID "db_Changes db" r' r] by (simp add: L_def leaseable_def ledger_def db_def)
  have n: "sql_exec (av_Before A) w db = (Some (length (filter L (db_Changes db))), db')"
    by (simp add: db'_def w_def sql_update_def L_def)
  have rows: "db_Changes db' = map (\<lambda>r. if L r then leased ''approving'' rvw now r else r) (db_Changes db)"
    by (simp add: db'_def w_def sql_update_def L_def)
  have ex: "run_state (db_Exec A w) tr1 = (Inr (length (filter L (db_Changes db))), Execute db w (Inr (length (filter L (db_Changes db)))) db' # tr1)"
    using undisturbed_Exec[OF assms(1), of w tr1] n by (simp add: tr1_def db_def)
  have run: "run_state (do { q \<leftarrow> db_Exec A w; case q of Inl e \<Rightarrow> return (Inl e)
      | Inr rows \<Rightarrow> if rows = 0 then do { g \<leftarrow> GetPendingChange A (row_ID r);
            case g of Inl getErr \<Rightarrow> return (Inl getErr) | Inr _ \<Rightarrow> return (Inl ErrPendingDecisionConflict) }
          else GetPendingChange A (row_ID r) }) tr1 = (res, tr')"
    using assms(5) by (simp add: BeginPendingDecision_def server_clock_def w_def tr1_def now_def)
  show ?thesis
  proof (cases "L r")
    case True
    then have some: "filter L (db_Changes db) \<noteq> []" using assms(3) by (auto simp: filter_empty_conv db_def)
    have mem: "leased ''approving'' rvw now r \<in> set (db_Changes db')"
      unfolding rows using True assms(3) by (force simp: db_def)
    have "run_state (GetPendingChange A (row_ID r)) (Execute db w (Inr (length (filter L (db_Changes db)))) db' # tr1) =
        (Inr (scanChange (leased ''approving'' rvw now r)), QueryChange db' (row_ID r) (Inr (Some (leased ''approving'' rvw now r)))
          # Execute db w (Inr (length (filter L (db_Changes db)))) db' # tr1)"
      using undisturbed_Get[OF assms(1), of "Execute db w (Inr (length (filter L (db_Changes db)))) db' # tr1" "leased ''approving'' rvw now r"] l' mem
      by simp
    then have "res = Inr (scanChange (leased ''approving'' rvw now r))" using run ex some by simp
    with True show ?thesis by (simp add: L_def now_def)
  next
    case False
    then have none: "filter L (db_Changes db) = []" using other by (auto simp: filter_empty_conv)
    then have same: "db_Changes db' = db_Changes db" unfolding rows by (auto simp: filter_empty_conv intro!: map_idI)
    have "db' = db" using same by (simp add: db'_def w_def sql_update_def)
    then have "res = Inl ErrPendingDecisionConflict \<and> db_after A tr' = db"
      using run ex none undisturbed_Get[OF assms(1), of "Execute db w (Inr 0) db # tr1" r] assms(2,3)
      by (auto simp: db_def)
    with False show ?thesis by (simp add: L_def now_def db_def)
  qed
qed

section \<open>Sessions\<close>

lemma AuthMiddleware_token:
  assumes "HasPrefix (rq_Path rq) ''/api/''" and "run_state (AuthMiddleware A s rq) tr = (Inr ses, tr')"
  shows "\<exists>t. av_ParseWithClaims A (av_Clock A tr) (sessionToken rq) (keyFunc s) = Inr t \<and> tok_Valid t \<and>
    ses_UserID ses = cl_UserID (tok_Claims t) \<and> ses_Role ses = cl_Role (tok_Claims t)"
  using assms
  by (auto simp: AuthMiddleware_def ValidateToken_def server_clock_def Let_def split: if_splits sum.splits)

lemma AuthMiddleware_events:
  "run_state (AuthMiddleware A s rq) tr = (r, tr') \<Longrightarrow> tr' = tr \<or> tr' = ServerClock (av_Clock A tr) # tr"
  "run_state (AuthMiddleware A s rq) tr = (Inl resp, tr') \<Longrightarrow> rs_Status resp = 401"
  by (auto simp: AuthMiddleware_def ValidateToken_def server_clock_def reply_def Let_def split: if_splits sum.splits)

text \<open>What the documentation of the JWT library promises: a token signed with the key is parsed, until its expiry, to its claims.\<close>

definition jwt_contract :: "aenv \<Rightarrow> bool" where
  "jwt_contract A \<longleftrightarrow> (\<forall>key c tok now kf t.
     av_SignedString A key c = Inr tok \<longrightarrow> kf True = Inr key \<longrightarrow> cl_ExpiresAt c = Some t \<longrightarrow> now + Second \<le> t \<longrightarrow>
     tok \<noteq> '''' \<and> (\<exists>token. av_ParseWithClaims A now tok kf = Inr token \<and> tok_Valid token \<and>
       cl_UserID (tok_Claims token) = cl_UserID c \<and> cl_Username (tok_Claims token) = cl_Username c \<and> cl_Role (tok_Claims token) = cl_Role c))"

lemma bearerToken_prefix [simp]: "bearerToken (''Bearer '' @ tok) = tok"
  by (simp add: bearerToken_def)

lemma signed_opens_session:
  assumes "jwt_contract A" and "av_SignedString A (jwt_SecretKey s) (tokenClaims user now t) = Inr tok"
    and "av_Clock A tr + Second \<le> t" and "HasPrefix (rq_Path rq) ''/api/''" and "rq_Authorization rq = ''Bearer '' @ tok"
  shows "fst (run_state (AuthMiddleware A s rq) tr) =
    Inr \<lparr>ses_UserID = user_ID user, ses_Username = user_Username user, ses_Role = user_Role user\<rparr>"
proof -
  have ok: "tok \<noteq> '''' \<and> (\<exists>token. av_ParseWithClaims A (av_Clock A tr) tok (keyFunc s) = Inr token \<and> tok_Valid token \<and>
      cl_UserID (tok_Claims token) = user_ID user \<and> cl_Username (tok_Claims token) = user_Username user \<and> cl_Role (tok_Claims token) = user_Role user)"
    using assms(1)[unfolded jwt_contract_def, rule_format, OF assms(2), of "keyFunc s" t "av_Clock A tr"] assms(3)
    by (simp add: keyFunc_def tokenClaims_def)
  then have "sessionToken rq = tok" unfolding sessionToken_def assms(5) bearerToken_prefix Let_def by simp
  then show ?thesis
    using assms(4) ok by (auto simp: AuthMiddleware_def ValidateToken_def server_clock_def)
qed

section \<open>Properties\<close>

text \<open>
  C26. Approved means applied: when an approval is answered with success, the change is on record as
  approved, and during this very request the cluster accepted a mutation that carries it out on the very object of the
  change (its kind, namespace and name; deleted or updated in the version the requester had seen; created or updated to
  the specification of the payload), or the object was read and found already as the change wants it, or already absent for a
  deletion; and the audit event of the decision was stored, or read back and found to describe the same decision.
\<close>

lemma approved_means_applied:
  assumes rely: "\<And>db tr. evolves (av_Before A) db (av_Interfere A tr db)" and "ledger (db_after A tr)" and "addressed_reads A"
    and "run_state (handleApprove A h ses rq) tr = (resp, tr')" and "rs_Status resp = 200"
  shows "\<exists>r\<in>set (db_Changes (db_after A tr')). \<exists>rvw c new. approved_by (rq_Param rq) rvw r \<and> asked c = asked (row_Change r) \<and>
    tr' = new @ tr \<and> achieved A c new \<and> audited c new"
proof -
  have "shared_database A" by unfold_locales (rule rely)
  then have "shared_database.promise A tr (rq_Param rq) resp tr'"
    by (rule hoareD[OF shared_database.handleApprove_promise[OF _ assms(2,3)] assms(4)]) (simp add: since_start)
  then obtain r rvw c where r: "r \<in> set (db_Changes (db_after A tr'))" "approved_by (rq_Param rq) rvw r" "asked c = asked (row_Change r)"
      "since tr (achieved A c) tr'" "since tr (audited c) tr'"
    using assms(5) by (auto simp: shared_database.promise_def[OF \<open>shared_database A\<close>])
  from r(4,5) obtain new where "tr' = new @ tr" "achieved A c new" "audited c new" by (auto simp: since_def)
  with r show ?thesis by blast
qed

text \<open>A server whose reads know one policy.\<close>

definition demo_addressed :: aenv where
  "demo_addressed = demo_server\<lparr>av_GetManaged := (\<lambda>_ kind k. if kind = PolicyKind \<and> k = managedKey nightly then Inr nightly else Inl not_found)\<rparr>"

definition demo_approval :: "response \<times> deeds" where
  "demo_approval = run_state (handleApprove demo_addressed demo_handlers
     \<lparr>ses_UserID = ''u1'', ses_Username = ''ann'', ses_Role = ''approver''\<rparr> demo_request) []"

lemma demo_approved: "rs_Status (fst demo_approval) = 200"
  by code_simp

lemma approved_means_applied_witness:
  "\<exists>r\<in>set (db_Changes (db_after demo_addressed (snd demo_approval))). \<exists>rvw c new. approved_by (rq_Param demo_request) rvw r \<and>
     asked c = asked (row_Change r) \<and> snd demo_approval = new @ [] \<and> achieved demo_addressed c new \<and> audited c new"
proof (rule approved_means_applied)
  show "addressed_reads demo_addressed"
    by (simp add: addressed_reads_def demo_addressed_def nightly_def)
  show "evolves (av_Before demo_addressed) db (av_Interfere demo_addressed tr db)" for db tr
    using demo_rely by (simp add: demo_addressed_def demo_server_def)
  show "ledger (db_after demo_addressed [])" using demo_ledger by (simp add: demo_addressed_def)
  show "run_state (handleApprove demo_addressed demo_handlers \<lparr>ses_UserID = ''u1'', ses_Username = ''ann'', ses_Role = ''approver''\<rparr>
      demo_request) [] = (fst demo_approval, snd demo_approval)"
    by (simp add: demo_approval_def)
qed (rule demo_approved)

text \<open>
  C27. Abandoned means untouched: a request that hands a change back to the reviewers (the lease of the decision is
  cancelled) had no mutation of the cluster accepted, and it knew: for the change it had looked up it tried no mutation at
  all, or the one it tried was refused and the next step read the object and found it in the version the
  requester had seen (for a creation: found none).  An approval whose effect is in doubt is never given up.
\<close>

lemma abandoned_means_untouched:
  assumes "run_state (handleApprove A h ses rq) tr = (resp, new @ tr)" and "Execute db (CancelDecision ident owner) r db' \<in> set new"
  shows "(\<forall>e\<in>set new. \<not> accepted e) \<and> (\<exists>c. looked_up (rq_Param rq) c new \<and> left_alone c new)"
proof -
  have "since tr (steady (rq_Param rq)) (new @ tr)" by (rule hoareD[OF handleApprove_steady assms(1)]) (simp add: since_start)
  then have "steady (rq_Param rq) new" by (simp add: since_def)
  moreover have "list_ex gives_up new" using assms(2) by (auto simp: list_ex_iff intro: bexI[of _ "Execute db (CancelDecision ident owner) r db'"])
  ultimately show ?thesis using left_alone_refused by (fastforce simp: steady_def)
qed

text \<open>A server whose deletions are refused.\<close>

definition demo_refusing :: aenv where
  "demo_refusing = demo_server\<lparr>av_DeleteManaged := (\<lambda>_ _ _. Inl not_found)\<rparr>"

definition demo_refused :: "response \<times> deeds" where
  "demo_refused = run_state (handleApprove demo_refusing demo_handlers
     \<lparr>ses_UserID = ''u1'', ses_Username = ''ann'', ses_Role = ''approver''\<rparr> demo_request) []"

lemma demo_gives_up: "list_ex gives_up (snd demo_refused)"
  by code_simp

lemma demo_tries: "list_ex mutation (snd demo_refused)"
  by code_simp

lemma gives_up_iff: "gives_up e \<longleftrightarrow> (\<exists>db ident owner r db'. e = Execute db (CancelDecision ident owner) r db')"
  by (cases e rule: gives_up.cases) auto

lemma abandoned_means_untouched_witness:
  "list_ex gives_up (snd demo_refused) \<and> list_ex mutation (snd demo_refused) \<and> list_all (\<lambda>e. \<not> accepted e) (snd demo_refused) \<and>
   (\<exists>c. looked_up (rq_Param demo_request) c (snd demo_refused) \<and> left_alone c (snd demo_refused))"
proof -
  obtain db ident owner r db' where e: "Execute db (CancelDecision ident owner) r db' \<in> set (snd demo_refused)"
    using demo_gives_up by (auto simp: list_ex_iff gives_up_iff)
  have "run_state (handleApprove demo_refusing demo_handlers \<lparr>ses_UserID = ''u1'', ses_Username = ''ann'', ses_Role = ''approver''\<rparr> demo_request) [] =
      (fst demo_refused, snd demo_refused @ [])"
    by (simp add: demo_refused_def)
  from abandoned_means_untouched[OF this e] demo_gives_up demo_tries show ?thesis by (simp add: list_all_iff)
qed

text \<open>
  C28. An interrupted approval can be resumed, and only once its lease has run out: five minutes after the last
  attempt any reviewer other than the requester takes the decision over, with the
  first reviewer still on record as its owner; until then the attempt is refused and changes nothing.
\<close>

lemma interrupted_approval_resumable:
  assumes "undisturbed A" and "av_Before A = (<)" and "ledger (db_after A tr)" and "r \<in> set (db_Changes (db_after A tr))"
    and "row_Status r = ''approving''" and "row_ReviewedAt r = Some t" and "row_UserID r \<noteq> rvw"
    and "run_state (BeginPendingDecision A (row_ID r) rvw ''approve'') tr = (res, tr')"
  shows "if t < av_Clock A tr - 5 * Minute
    then \<exists>c. res = Inr c \<and> asked c = asked (row_Change r) \<and> chg_Status c = ''approving'' \<and> Some (chg_ReviewedBy c) = row_ReviewedBy r \<and>
      chg_ReviewedAt c = Some (av_Clock A tr)
    else res = Inl ErrPendingDecisionConflict \<and> db_after A tr' = db_after A tr"
proof -
  have "ledger_row r" using assms(3,4) by (simp add: ledger_def)
  then obtain by' where "row_ReviewedBy r = Some by'" using assms(5) by (auto simp: ledger_row_def)
  then show ?thesis
    using BeginPendingDecision_lease[OF assms(1,3,4,7,8)] assms(2,5,6)
    by (auto simp: leaseable_def scanChange_def leased_def asked_def split: if_splits)
qed

text \<open>A server that finds an approval which another one began and did not end.\<close>

definition demo_row :: pending_row where
  "demo_row = leased ''approving'' ''u9'' 0 \<lparr>row_Change = removal, row_ReviewedBy = None\<rparr>"

definition demo_late :: aenv where
  "demo_late = demo_server\<lparr>av_Initial := \<lparr>db_Users = [ann], db_Changes = [demo_row]\<rparr>, av_Clock := (\<lambda>_. 6 * Minute)\<rparr>"

lemma interrupted_approval_resumable_witness:
  "if 0 < av_Clock demo_late [] - 5 * Minute
   then \<exists>c. fst (run_state (BeginPendingDecision demo_late (row_ID demo_row) ''u1'' ''approve'') []) = Inr c \<and> asked c = asked (row_Change demo_row) \<and>
     chg_Status c = ''approving'' \<and> Some (chg_ReviewedBy c) = row_ReviewedBy demo_row \<and> chg_ReviewedAt c = Some (av_Clock demo_late [])
   else fst (run_state (BeginPendingDecision demo_late (row_ID demo_row) ''u1'' ''approve'') []) = Inl ErrPendingDecisionConflict \<and>
     db_after demo_late (snd (run_state (BeginPendingDecision demo_late (row_ID demo_row) ''u1'' ''approve'') [])) = db_after demo_late []"
proof (rule interrupted_approval_resumable)
  show "undisturbed demo_late" by (simp add: undisturbed_def demo_late_def demo_server_def)
  show "av_Before demo_late = (<)" by (simp add: demo_late_def demo_server_def)
  show "ledger (db_after demo_late [])"
    by (simp add: demo_late_def demo_server_def ledger_def ledger_row_def demo_row_def leased_def removal_def)
  show "demo_row \<in> set (db_Changes (db_after demo_late []))" by (simp add: demo_late_def)
  show "row_Status demo_row = ''approving''" "row_ReviewedAt demo_row = Some 0" "row_UserID demo_row \<noteq> ''u1''"
    by (simp_all add: demo_row_def leased_def removal_def)
  show "run_state (BeginPendingDecision demo_late (row_ID demo_row) ''u1'' ''approve'') [] =
      (fst (run_state (BeginPendingDecision demo_late (row_ID demo_row) ''u1'' ''approve'') []),
       snd (run_state (BeginPendingDecision demo_late (row_ID demo_row) ''u1'' ''approve'') []))"
    by (rule prod.collapse[symmetric])
qed

text \<open>
  C29. A route that asks for roles runs its handler only for a request whose token is valid and carries one of
  them; otherwise the answer is 401 or 403 and nothing but the clock has been read.
\<close>

lemma protected_routes_need_role:
  assumes "HasPrefix (rq_Path rq) ''/api/''" and "required_roles rt = Some roles" and "run_state (serve A h rt rq) tr = (resp, tr')"
  shows "(\<exists>t. av_ParseWithClaims A (av_Clock A tr) (sessionToken rq) (keyFunc (ah_JWT h)) = Inr t \<and> tok_Valid t \<and>
      cl_Role (tok_Claims t) \<in> set roles) \<or>
    (rs_Status resp = 401 \<or> rs_Status resp = 403) \<and> (tr' = tr \<or> tr' = ServerClock (av_Clock A tr) # tr)"
proof -
  have "run_state (serveProtected A h rt rq) tr = (resp, tr')" using assms(2,3) by (cases rt) simp_all
  then obtain m tr1 where m: "run_state (AuthMiddleware A (ah_JWT h) rq) tr = (m, tr1)"
    and rest: "run_state (case m of Inl resp \<Rightarrow> return resp
       | Inr ses \<Rightarrow> (case RequireRole roles ses of Some resp \<Rightarrow> return resp | None \<Rightarrow> protectedHandler A h rt ses rq)) tr1 = (resp, tr')"
    unfolding serveProtected_def assms(2) option.case by (auto split: prod.splits)
  show ?thesis
  proof (cases m)
    case (Inl resp1)
    then show ?thesis using rest AuthMiddleware_events[of A "ah_JWT h" rq tr] m by auto
  next
    case (Inr ses)
    then have "(\<exists>t. av_ParseWithClaims A (av_Clock A tr) (sessionToken rq) (keyFunc (ah_JWT h)) = Inr t \<and> tok_Valid t \<and> ses_Role ses = cl_Role (tok_Claims t))"
      using AuthMiddleware_token[OF assms(1)] m by blast
    then show ?thesis
      using rest Inr AuthMiddleware_events(1)[OF m] by (auto simp: RequireRole_def reply_def list_ex_iff split: if_splits)
  qed
qed

lemma protected_routes_need_role_witness:
  "(\<exists>t. av_ParseWithClaims demo_server (av_Clock demo_server []) (sessionToken demo_request) (keyFunc (ah_JWT demo_handlers)) = Inr t \<and>
      tok_Valid t \<and> cl_Role (tok_Claims t) \<in> set [RoleApprover, RoleAdmin]) \<or>
   (rs_Status (fst (run_state (serve demo_server demo_handlers PostApprove demo_request) [])) = 401 \<or>
    rs_Status (fst (run_state (serve demo_server demo_handlers PostApprove demo_request) [])) = 403) \<and>
   (demo_trace = [] \<or> demo_trace = ServerClock (av_Clock demo_server []) # [])"
  unfolding demo_trace_def
  by (rule protected_routes_need_role[OF _ _ prod.collapse[symmetric]]) (simp_all add: demo_request_def HasPrefix_def)

text \<open>
  C30. Both tokens of a pair open the session of the user they were made for, each until its own expiry: the
  refresh token is accepted wherever the access token is, for the whole of its longer life.
\<close>

lemma token_pair_opens_sessions:
  assumes "jwt_contract A" and "fst (run_state (GenerateTokens A s user) tr0) = Inr tp" and "HasPrefix (rq_Path rq) ''/api/''"
    and "rq_Authorization rq = ''Bearer '' @ tp_AccessToken tp \<and> av_Clock A tr + Second \<le> av_Clock A tr0 + jwt_AccessTokenTTL s \<or>
         rq_Authorization rq = ''Bearer '' @ tp_RefreshToken tp \<and> av_Clock A tr + Second \<le> av_Clock A tr0 + jwt_RefreshTokenTTL s"
  shows "fst (run_state (AuthMiddleware A s rq) tr) =
    Inr \<lparr>ses_UserID = user_ID user, ses_Username = user_Username user, ses_Role = user_Role user\<rparr>"
proof -
  have "av_SignedString A (jwt_SecretKey s) (tokenClaims user (av_Clock A tr0) (av_Clock A tr0 + jwt_AccessTokenTTL s)) = Inr (tp_AccessToken tp)"
    "av_SignedString A (jwt_SecretKey s) (tokenClaims user (av_Clock A tr0) (av_Clock A tr0 + jwt_RefreshTokenTTL s)) = Inr (tp_RefreshToken tp)"
    using assms(2) by (auto simp: GenerateTokens_def server_clock_def Let_def split: sum.splits)
  then show ?thesis using assms(4) signed_opens_session[OF assms(1) _ _ assms(3)] by blast
qed

lemma token_pair_opens_sessions_witness:
  "\<exists>tp. fst (run_state (GenerateTokens demo_server (ah_JWT demo_handlers) ann) []) = Inr tp \<and>
     fst (run_state (AuthMiddleware demo_server (ah_JWT demo_handlers) demo_request) []) =
       Inr \<lparr>ses_UserID = user_ID ann, ses_Username = user_Username ann, ses_Role = user_Role ann\<rparr>"
proof -
  have contract: "jwt_contract demo_server"
    by (auto simp: jwt_contract_def demo_server_def demo_claims_def split: if_splits)
  have tp: "fst (run_state (GenerateTokens demo_server (ah_JWT demo_handlers) ann) []) =
      Inr \<lparr>tp_AccessToken = ''u1'', tp_RefreshToken = ''u1'', tp_ExpiresAt = (1000 + Hour) div Second\<rparr>"
    by (simp add: GenerateTokens_def server_clock_def demo_server_def demo_handlers_def NewAuthHandlers_def tokenClaims_def ann_def)
  have "fst (run_state (AuthMiddleware demo_server (ah_JWT demo_handlers) demo_request) []) =
      Inr \<lparr>ses_UserID = user_ID ann, ses_Username = user_Username ann, ses_Role = user_Role ann\<rparr>"
    by (rule token_pair_opens_sessions[OF contract tp])
      (simp_all add: demo_request_def HasPrefix_def demo_server_def demo_handlers_def NewAuthHandlers_def time_defs)
  with tp show ?thesis by blast
qed

end
