(* ===== verification/ApiSafety.thy ===== *)
theory ApiSafety
  imports ApiRoutes ApprovalOutcome
begin

text \<open>
  What a request to the API server can do to the cluster, and what its answers say.  The first part follows the
  writes through every handler and the middleware; the second compares the audit list and the audit export
  with the stored history, and the counts of the status with the targets.
\<close>

section \<open>Which calls write\<close>

fun reading :: "event \<Rightarrow> bool" where
  "reading (GetGroup _ _) = True"
| "reading (ListTargets _ _) = True"
| "reading (ListPolicies _ _) = True"
| "reading (ListOverrides _ _) = True"
| "reading (ListNamespaces _ _) = True"
| "reading (ListAuditEvents _ _ _ _) = True"
| "reading (Now _) = True"
| "reading _ = False"

fun clock_read :: "deed \<Rightarrow> bool" where
  "clock_read (ServerClock _) = True"
| "clock_read _ = False"

text \<open>Everything but the reads counts as a write.\<close>

fun api_write :: "api_event \<Rightarrow> bool" where
  "api_write (Kube e) = (\<not> reading e)"
| "api_write (Session e) = (\<not> clock_read e)"
| "api_write (CreateResource _ _) = True"
| "api_write (UpdateResource _ _) = True"
| "api_write (DeleteResource _ _ _) = True"
| "api_write _ = False"

fun write_namespace :: "api_event \<Rightarrow> string option" where
  "write_namespace (CreateResource obj _) = Some (om_Namespace (resource_Meta obj))"
| "write_namespace (UpdateResource obj _) = Some (om_Namespace (resource_Meta obj))"
| "write_namespace (DeleteResource _ key _) = Some (nn_Namespace key)"
| "write_namespace _ = None"

fun write_roles :: "api_event \<Rightarrow> Role list" where
  "write_roles (DeleteResource _ _ _) = [RoleAdmin]"
| "write_roles _ = [RoleApprover, RoleAdmin]"

text \<open>What a write does to which object, and the one write that a route is for.\<close>

datatype verb = Creates | Updates | Deletes

definition resource_Key :: "resource \<Rightarrow> NamespacedName" where
  "resource_Key obj = \<lparr>nn_Namespace = om_Namespace (resource_Meta obj), nn_Name = om_Name (resource_Meta obj)\<rparr>"

fun write_of :: "api_event \<Rightarrow> (verb \<times> resource_kind \<times> NamespacedName) option" where
  "write_of (CreateResource obj _) = Some (Creates, resource_Kind obj, resource_Key obj)"
| "write_of (UpdateResource obj _) = Some (Updates, resource_Kind obj, resource_Key obj)"
| "write_of (DeleteResource kind key _) = Some (Deletes, kind, key)"
| "write_of _ = None"

definition creation :: "string \<Rightarrow> resource result \<Rightarrow> (verb \<times> resource_kind \<times> NamespacedName) option" where
  "creation ns bound = (case bound of Inl _ \<Rightarrow> None
     | Inr obj \<Rightarrow> Some (Creates, resource_Kind obj, \<lparr>nn_Namespace = ns, nn_Name = om_Name (resource_Meta obj)\<rparr>))"

fun route_write :: "string \<Rightarrow> api_route \<Rightarrow> (verb \<times> resource_kind \<times> NamespacedName) option" where
  "route_write ns (PostPolicy bound) = creation ns (bound_as PolicyResource bound)"
| "route_write ns (PostOverride bound) = creation ns (bound_as OverrideResource bound)"
| "route_write ns (PostNamespaceGroup bound) = creation ns (bound_as GroupResource bound)"
| "route_write ns (PostNotificationChannel bound) = creation ns (bound_as ChannelResource bound)"
| "route_write ns (PutPolicy _ name _) = Some (Updates, PolicyResources, \<lparr>nn_Namespace = ns, nn_Name = name\<rparr>)"
| "route_write ns (PutNotificationChannel _ name _) = Some (Updates, ChannelResources, \<lparr>nn_Namespace = ns, nn_Name = name\<rparr>)"
| "route_write ns (DeletePolicy _ name) = Some (Deletes, PolicyResources, \<lparr>nn_Namespace = ns, nn_Name = name\<rparr>)"
| "route_write ns (DeleteOverride _ name) = Some (Deletes, OverrideResources, \<lparr>nn_Namespace = ns, nn_Name = name\<rparr>)"
| "route_write ns (DeleteNamespaceGroup _ name) = Some (Deletes, GroupResources, \<lparr>nn_Namespace = ns, nn_Name = name\<rparr>)"
| "route_write ns (DeleteNotificationChannel _ name) = Some (Deletes, ChannelResources, \<lparr>nn_Namespace = ns, nn_Name = name\<rparr>)"
| "route_write ns _ = None"

text \<open>An object that was read has the namespace and the name it was asked for.\<close>

definition faithful_reads :: "server_env \<Rightarrow> bool" where
  "faithful_reads S \<longleftrightarrow> (\<forall>tr k key obj. sv_GetResource S tr k key = Inr obj \<longrightarrow> resource_Key obj = key)"

lemma write_of_namespace:
  "write_namespace e = Some ns \<Longrightarrow> \<exists>verb kind name. write_of e = Some (verb, kind, \<lparr>nn_Namespace = ns, nn_Name = name\<rparr>)"
proof (cases e)
  case (DeleteResource kind key r)
  moreover assume "write_namespace e = Some ns"
  ultimately show ?thesis by (intro exI[of _ Deletes] exI[of _ kind] exI[of _ "nn_Name key"]) simp
qed (simp_all add: resource_Key_def)

section \<open>The calls of the handlers\<close>

abbreviation uneventful :: "api_event \<Rightarrow> bool" where
  "uneventful e \<equiv> \<not> api_write e"

definition confined :: "Server \<Rightarrow> Role list \<Rightarrow> (verb \<times> resource_kind \<times> NamespacedName) option \<Rightarrow> api_event \<Rightarrow> bool" where
  "confined s roles w e \<longleftrightarrow>
     (api_write e \<longrightarrow> write_namespace e = Some (controlNamespace s) \<and> write_roles e = roles \<and> write_of e = w)"

lemma harmless_confined: "emits uneventful m \<Longrightarrow> emits (confined s roles w) m"
  by (erule emits_mono) (simp add: confined_def)

lemma group_read_reading: "group_read e \<Longrightarrow> reading e"
  by (auto simp: group_read_def)

lemma emits_reading [emits_intros]:
  "emits reading (listTargets E ns)" "emits reading (listPolicies E ns)" "emits reading (listOverrides E ns)"
  "emits reading (listNamespaces E b)" "emits reading (listAuditEvents E ns labels tok)" "emits reading (time_Now E)"
  "emits reading (ResolveScope E ns sc)" "emits reading (convertRules E ep eo ps vs)"
  unfolding listTargets_def listPolicies_def listOverrides_def listNamespaces_def listAuditEvents_def time_Now_def
  by (auto intro!: emits_intros emits_mono[OF emits_ResolveScope group_read_reading] emits_mono[OF emits_convertRules group_read_reading])

lemma emits_preview [emits_intros]:
  "emits reading (handlePreviewPolicy E s ns name bound)" "emits reading (handlePreviewOverride E s ns name bound')"
proof -
  have load: "emits reading (loadState E s)" unfolding loadState_def by (intro emits_intros)
  show "emits reading (handlePreviewPolicy E s ns name bound)" "emits reading (handlePreviewOverride E s ns name bound')"
    unfolding handlePreviewPolicy_def handlePreviewOverride_def resolvePreviewPolicyScope_def resolvePreviewOverrideScope_def
    by (intro emits_intros load)+
qed

lemma harmless_kube [emits_intros]: "(\<And>E. emits reading (m E)) \<Longrightarrow> emits uneventful (kube S m)"
  by (rule emits_kube) simp_all

lemma uneventful_calls [emits_intros]:
  "emits uneventful (listLabelled S ns labels)" "emits uneventful (listLimited S ns n)" "emits uneventful (listGroups S ns)"
  "emits uneventful (listChannelObjects S ns)" "emits uneventful (pingStore S)" "emits uneventful (getResource S k key)"
  "emits uneventful (writeString S x)"
  unfolding server_calls by (intro emits_intros; simp)+

lemma harmless_get [emits_intros]: "emits A State_Monad.get"
  by (simp add: emits_def State_Monad.get_def)

lemma harmless_withTargets [emits_intros]: "(\<And>ts. emits uneventful (k ts)) \<Longrightarrow> emits uneventful (withTargets S s k)"
  unfolding withTargets_def by (intro emits_intros)

lemma harmless_writes [emits_intros]: "emits uneventful (writeSavings S ts)" "emits uneventful (writeEvents S es)"
  by (induction ts) (auto intro!: emits_intros, induction es, auto intro!: emits_intros)

lemma harmless_handlers [emits_intros]:
  "emits uneventful handleHealthz" "emits uneventful (handleReadyz S s b)" "emits uneventful (handleStatus S s)"
  "emits uneventful (handleDiscover S s)" "emits uneventful (handleListTargets S s q1 q2)"
  "emits uneventful (handleExplainTarget S s q1 q2 q3 q4)" "emits uneventful (handleSavings S s)"
  "emits uneventful (handleSavingsBreakdown S s)" "emits uneventful (handleSavingsExport S s)"
  "emits uneventful (handleListPolicies S s)" "emits uneventful (handleListOverrides S s)" "emits uneventful (handleListNamespaces S)"
  "emits uneventful (handleListNamespaceGroups S s)" "emits uneventful (handleListNotificationChannels S s)"
  unfolding handleHealthz_def handleReadyz_def handleStatus_def handleDiscover_def handleListTargets_def
    handleExplainTarget_def handleSavings_def handleSavingsBreakdown_def handleSavingsExport_def handleListPolicies_def
    handleListOverrides_def handleListNamespaces_def handleListNamespaceGroups_def handleListNotificationChannels_def Let_def
  by (intro emits_intros)+

text \<open>The handlers that write.\<close>

lemma resource_Meta_map [simp]: "resource_Meta (map_Meta f obj) = f (resource_Meta obj)"
  by (cases obj) simp_all

lemma requireControlNamespace_None: "requireControlNamespace s ns = None \<Longrightarrow> ns = controlNamespace s"
  by (simp add: requireControlNamespace_def split: if_splits)

lemma emits_read_then:
  assumes "\<And>r. A (ev r)" and "\<And>tr. emits A (f (answer tr))"
  shows "emits A (State_Monad.bind (call answer ev) f)"
  unfolding emits_def
proof
  fix tr
  obtain a tr' where f: "run_state (f (answer tr)) (ev (answer tr) # tr) = (a, tr')" by fastforce
  obtain new where "tr' = new @ ev (answer tr) # tr" "\<forall>e\<in>set new. A e" using assms(2) f by (rule emitsD)
  then show "\<exists>new. snd (run_state (State_Monad.bind (call answer ev) f) tr) = new @ tr \<and> (\<forall>e\<in>set new. A e)"
    using f assms(1) by (intro exI[of _ "new @ [ev (answer tr)]"]) auto
qed

lemma resource_identity [simp]:
  "resource_Kind (map_Meta f obj) = resource_Kind obj"
  "resource_Key (map_Meta (\<lambda>m. m\<lparr>om_Namespace := ns\<rparr>) obj) = \<lparr>nn_Namespace = ns, nn_Name = om_Name (resource_Meta obj)\<rparr>"
  by (cases obj; simp add: resource_Key_def)+

lemma confined_create_call:
  assumes "requireControlNamespace s (om_Namespace (resource_Meta obj)) = (None :: document answer option)"
    and "w = Some (Creates, resource_Kind obj, resource_Key obj)"
  shows "emits (confined s [RoleApprover, RoleAdmin] w) (createResource S obj)"
  unfolding server_calls assms(2) by (intro emits_intros) (simp add: confined_def requireControlNamespace_None[OF assms(1)])

lemma confined_create:
  "emits (confined s [RoleApprover, RoleAdmin] (creation (controlNamespace s) bound)) (createObject S s noun scope_of bound)"
proof (cases bound)
  case (Inl err)
  then show ?thesis by (simp add: createObject_def)
next
  case (Inr obj)
  let ?w = "creation (controlNamespace s) (Inr obj)"
  have create: "emits (confined s [RoleApprover, RoleAdmin] ?w)
      (createResource S (if om_Namespace (resource_Meta obj) = '''' then map_Meta (\<lambda>m. m\<lparr>om_Namespace := controlNamespace s\<rparr>) obj else obj))"
    if "requireControlNamespace s (om_Namespace (resource_Meta
      (if om_Namespace (resource_Meta obj) = '''' then map_Meta (\<lambda>m. m\<lparr>om_Namespace := controlNamespace s\<rparr>) obj else obj)))
      = (None :: document answer option)"
    using requireControlNamespace_None[OF that]
    by (intro confined_create_call[OF that]) (auto simp: creation_def resource_Key_def)
  have kube: "emits (confined s [RoleApprover, RoleAdmin] ?w) (kube S (\<lambda>E. ResolveScope E ns sc))" for ns sc
    by (intro harmless_confined emits_intros)
  show ?thesis unfolding createObject_def Let_def Inr sum.case by (intro emits_intros kube create)
qed

lemma confined_delete:
  "emits (confined s [RoleAdmin] (Some (Deletes, kind, \<lparr>nn_Namespace = controlNamespace s, nn_Name = name\<rparr>))) (deleteObject S s noun kind ns name)"
proof -
  have "emits (confined s [RoleAdmin] (Some (Deletes, kind, \<lparr>nn_Namespace = controlNamespace s, nn_Name = name\<rparr>)))
      (deleteResource S kind \<lparr>nn_Namespace = ns, nn_Name = name\<rparr>)"
    if "requireControlNamespace s ns = (None :: document answer option)"
    unfolding server_calls by (intro emits_intros) (simp add: confined_def requireControlNamespace_None[OF that])
  then show ?thesis unfolding deleteObject_def by (intro emits_intros) auto
qed

lemma confined_update_call:
  assumes "resource_Key obj = \<lparr>nn_Namespace = controlNamespace s, nn_Name = name\<rparr>" and "resource_Kind obj = kind"
  shows "emits (confined s [RoleApprover, RoleAdmin] (Some (Updates, kind, \<lparr>nn_Namespace = controlNamespace s, nn_Name = name\<rparr>)))
    (updateResource S obj)"
proof -
  have "om_Namespace (resource_Meta obj) = controlNamespace s" using assms(1) by (simp add: resource_Key_def)
  then show ?thesis using assms unfolding server_calls by (intro emits_intros) (simp add: confined_def)
qed

lemma confined_update:
  assumes "faithful_reads S"
  shows "emits (confined s [RoleApprover, RoleAdmin] (Some (Updates, PolicyResources, \<lparr>nn_Namespace = controlNamespace s, nn_Name = name\<rparr>)))
      (handleUpdatePolicy S s ns name bound)"
    and "emits (confined s [RoleApprover, RoleAdmin] (Some (Updates, ChannelResources, \<lparr>nn_Namespace = controlNamespace s, nn_Name = name\<rparr>)))
      (handleUpdateNotificationChannel S s ns name bound')"
proof -
  let ?A = "\<lambda>kind. confined s [RoleApprover, RoleAdmin] (Some (Updates, kind, \<lparr>nn_Namespace = controlNamespace s, nn_Name = name\<rparr>))"
  have kube: "emits (?A kind) (kube S (\<lambda>E. ResolveScope E ns sc))" for kind ns sc by (intro harmless_confined emits_intros)
  have here: "resource_Key obj = \<lparr>nn_Namespace = controlNamespace s, nn_Name = name\<rparr>"
    if "sv_GetResource S tr k \<lparr>nn_Namespace = ns, nn_Name = name\<rparr> = Inr obj" and "requireControlNamespace s ns = (None :: document answer option)" for tr k obj
    using assms that(1) requireControlNamespace_None[OF that(2)] by (fastforce simp: faithful_reads_def)
  have policy: "emits (?A PolicyResources) (updateResource S (PolicyResource (p\<lparr>pp_Spec := sp\<rparr>)))"
    if "resource_Key (PolicyResource p) = \<lparr>nn_Namespace = controlNamespace s, nn_Name = name\<rparr>" for p sp
    using that by (intro confined_update_call) (simp_all add: resource_Key_def)
  have channel: "emits (?A ChannelResources) (updateResource S (ChannelResource (c\<lparr>nc_Spec := sp\<rparr>)))"
    if "resource_Key (ChannelResource c) = \<lparr>nn_Namespace = controlNamespace s, nn_Name = name\<rparr>" for c sp
    using that by (intro confined_update_call) (simp_all add: resource_Key_def)
  show "emits (?A PolicyResources) (handleUpdatePolicy S s ns name bound)"
    unfolding handleUpdatePolicy_def getResource_def Let_def
    by (intro emits_option emits_return emits_read_then)
      (auto simp: confined_def[of s _ _ "GetResource _ _ _"] intro!: emits_intros kube policy split: sum.split resource.split dest: here)
  show "emits (?A ChannelResources) (handleUpdateNotificationChannel S s ns name bound')"
    unfolding handleUpdateNotificationChannel_def getResource_def Let_def
    by (intro emits_option emits_return emits_read_then)
      (auto simp: confined_def[of s _ _ "GetResource _ _ _"] intro!: emits_intros channel split: sum.split resource.split dest: here)
qed

text \<open>Handlers that may not return.\<close>

definition makes :: "(api_event \<Rightarrow> bool) \<Rightarrow> (api_trace \<Rightarrow> ('a \<times> api_trace) option) \<Rightarrow> bool" where
  "makes A h \<longleftrightarrow> (\<forall>tr a tr'. h tr = Some (a, tr') \<longrightarrow> (\<exists>new. tr' = new @ tr \<and> (\<forall>e\<in>set new. A e)))"

named_theorems makes_intros "introduction rules for the calls of a handler that may not return"

lemma makesD:
  assumes "makes A h" and "h tr = Some (a, tr')"
  obtains new where "tr' = new @ tr" and "\<forall>e\<in>set new. A e"
  using assms unfolding makes_def by blast

lemma makes_mono: "makes A h \<Longrightarrow> (\<And>e. A e \<Longrightarrow> B e) \<Longrightarrow> makes B h"
  unfolding makes_def by blast

lemma makes_returns [makes_intros]: "emits A m \<Longrightarrow> makes A (returns m)"
  unfolding makes_def returns_def by (auto elim: emitsD)

lemma makes_Some [makes_intros]: "makes A (\<lambda>tr. Some (a, tr))"
  by (simp add: makes_def)

lemma makes_sum [makes_intros]:
  "(\<And>e. makes A (f e)) \<Longrightarrow> (\<And>v. makes A (g v)) \<Longrightarrow> makes A (\<lambda>tr. case x of Inl e \<Rightarrow> f e tr | Inr v \<Rightarrow> g v tr)"
  by (cases x) simp_all

lemma makes_option [makes_intros]:
  "makes A f \<Longrightarrow> (\<And>v. makes A (g v)) \<Longrightarrow> makes A (\<lambda>tr. case x of None \<Rightarrow> f tr | Some v \<Rightarrow> g v tr)"
  by (cases x) simp_all

lemma makes_prod [makes_intros]: "(\<And>a b. makes A (f a b)) \<Longrightarrow> makes A (\<lambda>tr. case x of (a, b) \<Rightarrow> f a b tr)"
  by (cases x) simp

lemma makes_run [makes_intros]:
  assumes "emits A m" and "\<And>x. makes A (h x)"
  shows "makes A (\<lambda>tr. case run_state m tr of (x, tr) \<Rightarrow> h x tr)"
  unfolding makes_def
proof (intro allI impI)
  fix tr a tr' assume *: "(case run_state m tr of (x, tr) \<Rightarrow> h x tr) = Some (a, tr')"
  obtain x tr1 where run: "run_state m tr = (x, tr1)" by fastforce
  obtain n1 where "tr1 = n1 @ tr" "\<forall>e\<in>set n1. A e" using assms(1) run by (rule emitsD)
  moreover obtain n2 where "tr' = n2 @ tr1" "\<forall>e\<in>set n2. A e"
    using assms(2)[of x] * run by (auto elim: makesD)
  ultimately show "\<exists>new. tr' = new @ tr \<and> (\<forall>e\<in>set new. A e)" by (intro exI[of _ "n2 @ n1"]) auto
qed

lemma makes_then [makes_intros]:
  assumes "makes A g" and "\<And>x. makes A (h x)"
  shows "makes A (\<lambda>tr. case g tr of None \<Rightarrow> None | Some (x, tr) \<Rightarrow> h x tr)"
  unfolding makes_def
proof (intro allI impI)
  fix tr a tr' assume *: "(case g tr of None \<Rightarrow> None | Some (x, tr) \<Rightarrow> h x tr) = Some (a, tr')"
  then obtain x tr1 where g: "g tr = Some (x, tr1)" by (auto split: option.splits)
  obtain n1 where "tr1 = n1 @ tr" "\<forall>e\<in>set n1. A e" using assms(1) g by (rule makesD)
  moreover obtain n2 where "tr' = n2 @ tr1" "\<forall>e\<in>set n2. A e"
    using assms(2)[of x] * g by (auto elim: makesD)
  ultimately show "\<exists>new. tr' = new @ tr \<and> (\<forall>e\<in>set new. A e)" by (intro exI[of _ "n2 @ n1"]) auto
qed

text \<open>The walk over the pages makes the calls of the list and those of the visitor.\<close>

lemma makes_visit [makes_intros]:
  fixes s :: 's
  assumes visit: "\<And>s page. emits A (visit s page)" and page: "\<And>tok. emits A (kube S (\<lambda>E. listAuditEvents E ns labels tok))"
  shows "makes A (visitAuditPages S ns labels visit n tok s)"
  unfolding makes_def
proof (intro allI impI)
  fix tr a tr' assume run: "visitAuditPages S ns labels visit n tok s tr = Some (a, tr')"
  define P where "P = (\<lambda>(S' :: server_env) ns' labels' visit' (_ :: nat) (_ :: string) (_ :: 's) tr (_ :: 's \<times> nat \<times> go_error option, tr' :: api_trace).
    S' = S \<and> ns' = ns \<and> labels' = labels \<and> visit' = visit \<longrightarrow> (\<exists>new. tr' = new @ tr \<and> (\<forall>e\<in>set new. A e)))"
  have "P S ns labels visit n tok s tr (a, tr')"
  proof (rule visitAuditPages.raw_induct[OF _ run, where P = P])
    fix f S' ns' labels' visit' n tok s tr y
    assume IH: "\<And>S' ns' labels' visit' n tok s tr y. f S' ns' labels' visit' n tok s tr = Some y \<Longrightarrow> P S' ns' labels' visit' n tok s tr y"
      and step: "(case run_state (kube S' (\<lambda>E. listAuditEvents E ns' labels' tok)) tr of
        (l, tr) \<Rightarrow> (case l of Inl err \<Rightarrow> Some ((s, n, Some err), tr)
           | Inr page \<Rightarrow> let n = n + length (page_Items page)
               in (case run_state (visit' s (page_Items page)) tr of
                     ((s, err), tr) \<Rightarrow> (case err of Some e \<Rightarrow> Some ((s, n, Some e), tr)
                        | None \<Rightarrow> if page_Continue page = '''' then Some ((s, n, None), tr)
                            else f S' ns' labels' visit' n (page_Continue page) s tr)))) = Some y"
    show "P S' ns' labels' visit' n tok s tr y"
      unfolding P_def
    proof (clarify)
      fix a tr' assume y: "y = (a, tr')" and same: "S' = S" "ns' = ns" "labels' = labels" "visit' = visit"
      obtain l tr1 where list: "run_state (kube S (\<lambda>E. listAuditEvents E ns labels tok)) tr = (l, tr1)" by fastforce
      obtain n1 where n1: "tr1 = n1 @ tr" "\<forall>e\<in>set n1. A e" using page list by (rule emitsD)
      show "\<exists>new. tr' = new @ tr \<and> (\<forall>e\<in>set new. A e)"
      proof (cases l)
        case (Inl err)
        with step list n1 same y show ?thesis by auto
      next
        case (Inr pg)
        obtain s' err tr2 where v: "run_state (visit s (page_Items pg)) tr1 = ((s', err), tr2)" by (metis prod.exhaust)
        obtain n2 where n2: "tr2 = n2 @ tr1" "\<forall>e\<in>set n2. A e" using visit v by (rule emitsD)
        have "\<exists>new. tr' = new @ tr2 \<and> (\<forall>e\<in>set new. A e)"
          using step list Inr v same y IH[of S ns labels visit "n + length (page_Items pg)" "page_Continue pg" s' tr2 y]
          by (auto simp: P_def Let_def split: option.splits if_splits)
        then obtain n3 where "tr' = n3 @ tr2" "\<forall>e\<in>set n3. A e" by blast
        with n1 n2 show ?thesis by (intro exI[of _ "n3 @ n2 @ n1"]) auto
      qed
    qed
  qed
  then show "\<exists>new. tr' = new @ tr \<and> (\<forall>e\<in>set new. A e)" by (simp add: P_def)
qed

lemma harmless_walks [makes_intros]:
  "makes uneventful (handleDashboard S s)" "makes uneventful (handleAuditExport S s)"
  "makes uneventful (handleAuditList S s q1 q2 q3 q4 q5)"
proof -
  have page: "emits uneventful (kube S (\<lambda>E. listAuditEvents E ns labels tok))" for ns labels tok by (intro emits_intros)
  have retain: "emits uneventful (retain n s page)" for n s page by (simp add: retain_def)
  have export: "emits uneventful (exportPage S s page)" for s page unfolding exportPage_def by (intro emits_intros)
  show "makes uneventful (handleDashboard S s)"
    unfolding handleDashboard_def[abs_def] by (intro makes_intros emits_intros page retain)
  show "makes uneventful (handleAuditExport S s)"
    unfolding handleAuditExport_def[abs_def] by (intro makes_intros emits_intros page export)
  show "makes uneventful (handleAuditList S s q1 q2 q3 q4 q5)"
    unfolding handleAuditList_def[abs_def] Let_def by (intro makes_intros emits_intros page retain)
qed

text \<open>What a route may do is what it and its roles are for.\<close>

abbreviation permitted :: "Server \<Rightarrow> api_route \<Rightarrow> api_event \<Rightarrow> bool" where
  "permitted s rt e \<equiv> api_write e \<longrightarrow> write_namespace e = Some (controlNamespace s) \<and> route_roles rt = Some (write_roles e) \<and>
     write_of e = route_write (controlNamespace s) rt"

lemma api_handler_confined:
  assumes "faithful_reads S"
  shows "makes (permitted s rt) (api_handler S s store rt)"
proof -
  have confined: "makes (\<lambda>e. api_write e \<longrightarrow> write_namespace e = Some (controlNamespace s) \<and> Some roles = Some (write_roles e) \<and>
      write_of e = w) (returns m)"
    if "emits (confined s roles w) m" for roles w m
    by (rule makes_returns, rule emits_mono[OF that]) (simp add: confined_def)
  have uneventful: "makes A h" if "makes uneventful h" "\<And>e. \<not> api_write e \<Longrightarrow> A e" for A and h :: handling
    by (rule makes_mono[OF that])
  note creates = handleCreatePolicy_def handleCreateOverride_def handleCreateNamespaceGroup_def handleCreateNotificationChannel_def
    handleDeletePolicy_def handleDeleteOverride_def handleDeleteNamespaceGroup_def handleDeleteNotificationChannel_def
  show ?thesis
    by (cases rt)
      (simp_all only: api_handler.simps route_roles.simps route_write.simps creates,
       (rule confined confined_create confined_delete confined_update[OF assms] |
        (rule uneventful, (intro makes_intros emits_intros)[1], simp))+)
qed

section \<open>The newest events\<close>

lemma newest_Nil: "newest n [] = []"
  by (simp add: newest_def)

lemma length_newest: "length (newest n history) = min n (length history)"
  by (simp add: newest_def)

section \<open>The export\<close>

text \<open>What has been written of a response.\<close>

fun written_by :: "api_event \<Rightarrow> string" where
  "written_by (WriteString s (Inr _)) = s"
| "written_by _ = ''''"

definition written :: "api_trace \<Rightarrow> string" where
  "written tr = concat (map written_by (rev tr))"

lemma written_append [simp]: "written (new @ tr) = written tr @ written new"
  by (simp add: written_def)

lemma written_Cons [simp]: "written (e # tr) = written tr @ written_by e"
  by (simp add: written_def)

lemma written_Nil [simp]: "written [] = ''''"
  by (simp add: written_def)

lemma run_writeEvents:
  assumes "\<And>tr x. sv_WriteString S tr x = Inr ()"
  shows "\<exists>new. run_state (writeEvents S es) tr = (None, new @ tr) \<and> written new = concat (map (auditLine S) es)"
proof (induction es arbitrary: tr)
  case (Cons e es)
  obtain new where "run_state (writeEvents S es) (WriteString (auditLine S e) (Inr ()) # tr) = (None, new @ WriteString (auditLine S e) (Inr ()) # tr)"
    "written new = concat (map (auditLine S) es)"
    using Cons.IH by blast
  then show ?case
    by (intro exI[of _ "new @ [WriteString (auditLine S e) (Inr ())]"]) (simp add: writeString_def assms)
qed simp

lemma visit_export:
  assumes "hands_out S ns labels tok items" and "\<And>tr x. sv_WriteString S tr x = Inr ()"
  shows "\<exists>new. visitAuditPages S ns labels (exportPage S) n tok () tr = Some (((), n + length items, None), new @ tr) \<and>
    written new = concat (map (auditLine S) items)"
  using assms(1)
proof (induction tok items arbitrary: n tr rule: hands_out.induct)
  case (final tok items)
  let ?e = "Kube (ListAuditEvents ns labels tok (Inr \<lparr>page_Items = items, page_Continue = ''''\<rparr>))"
  obtain new where "run_state (writeEvents S items) (?e # tr) = (None, new @ ?e # tr)" "written new = concat (map (auditLine S) items)"
    using run_writeEvents[OF assms(2)] by blast
  then show ?case using final
    by (subst visitAuditPages.simps) (auto simp: run_page Let_def exportPage_def intro!: exI[of _ "new @ [?e]"])
next
  case (further tok ys tok' zs)
  let ?e = "Kube (ListAuditEvents ns labels tok (Inr \<lparr>page_Items = ys, page_Continue = tok'\<rparr>))"
  obtain n1 where n1: "run_state (writeEvents S ys) (?e # tr) = (None, n1 @ ?e # tr)" "written n1 = concat (map (auditLine S) ys)"
    using run_writeEvents[OF assms(2)] by blast
  obtain n2 where n2: "visitAuditPages S ns labels (exportPage S) (n + length ys) tok' () (n1 @ ?e # tr) =
      Some (((), n + length ys + length zs, None), n2 @ n1 @ ?e # tr)" "written n2 = concat (map (auditLine S) zs)"
    using further.IH by blast
  then show ?case using further.hyps(1,2) n1
    by (subst visitAuditPages.simps) (auto simp: run_page Let_def exportPage_def intro!: exI[of _ "n2 @ n1 @ [?e]"])
qed

definition header_cells :: "string list" where
  "header_cells = [''timestamp'', ''action'', ''target_namespace'', ''target_name'', ''target_kind'', ''result'', ''reason'',
     ''rule_name'', ''notification_suppressed'', ''notification_suppression_source'', ''notification_suppression_namespace_uid'']"

lemma auditHeader_cells: "auditHeader = csv_line header_cells"
  by code_simp

section \<open>Savings by namespace\<close>

lemma map_of_addTotal:
  "map_of (addTotal rnd ns cost totals) n =
     (if n = ns then Some (fadd rnd (case map_of totals ns of None \<Rightarrow> 0 | Some c \<Rightarrow> c) cost) else map_of totals n)"
  by (induction totals) auto

text \<open>The total of a namespace is the floating-point sum over its items in their order.\<close>

lemma namespaceTotals_sums:
  "map_of (namespaceTotals rnd items) ns =
     (let costs = map ws_EstCost (filter (\<lambda>w. ws_Namespace w = ns) items)
      in if costs = [] then None else Some (foldl (fadd rnd) 0 costs))"
proof (induction items rule: rev_induct)
  case (snoc w items)
  have "namespaceTotals rnd (items @ [w]) = addTotal rnd (ws_Namespace w) (ws_EstCost w) (namespaceTotals rnd items)"
    by (simp add: namespaceTotals_def)
  then show ?case using snoc by (auto simp: map_of_addTotal Let_def split: if_splits)
qed (simp add: namespaceTotals_def)

text \<open>A request that writes has passed the middleware of its route before its handler ran.\<close>

lemma serveApi_admitted:
  assumes run: "serveApi S s (Some j) store rt rq tr = Some (answer, new @ tr)" and e: "e \<in> set new" "api_write e"
    and "\<not> is_health rt"
  obtains ses evs where "run_state (AuthMiddleware (sv_Session S tr) j rq) [] = (Inr ses, evs)"
    "api_handler S s store rt (map Session evs @ tr) = Some (answer, new @ tr)"
    "\<And>roles. route_roles rt = Some roles \<Longrightarrow> RequireRole roles ses = None"
    "\<And>n. new @ tr = n @ map Session evs @ tr \<Longrightarrow> e \<in> set n"
proof -
  obtain m evs where m: "run_state (AuthMiddleware (sv_Session S tr) j rq) [] = (m, evs)" by fastforce
  have session: "run_state (in_session S (\<lambda>A. AuthMiddleware A j rq)) tr = (m, map Session evs @ tr)"
    by (simp add: in_session_def run_embed m)
  have quiet: "\<not> api_write (Session d)" if "d \<in> set evs" for d
    using AuthMiddleware_events(1)[OF m] that by auto
  have later: "e \<in> set n" if "new @ tr = n @ map Session evs @ tr" for n
    using that e quiet by auto
  have wrote: "new \<noteq> map Session evs" using e quiet by auto
  obtain ses where ses: "m = Inr ses"
    using run assms(4) session wrote by (cases m) (auto simp: serveApi_def)
  have rest: "(case (case route_roles rt of None \<Rightarrow> None | Some roles \<Rightarrow> RequireRole roles ses) of
       Some resp \<Rightarrow> Some (aborted resp, map Session evs @ tr)
     | None \<Rightarrow> api_handler S s store rt (map Session evs @ tr)) = Some (answer, new @ tr)"
    using run assms(4) session ses by (simp add: serveApi_def)
  then have "api_handler S s store rt (map Session evs @ tr) = Some (answer, new @ tr)"
    "\<And>roles. route_roles rt = Some roles \<Longrightarrow> RequireRole roles ses = None"
    using wrote by (auto split: option.splits)
  with that m ses later show ?thesis by blast
qed

section \<open>Properties\<close>


text \<open>A server with two pages of audit events that echoes what is written.\<close>

definition demo_event :: "go_time \<Rightarrow> string \<Rightarrow> PowerAuditEvent" where
  "demo_event created reason =
     \<lparr>pae_Meta = (png_Meta dev_group)\<lparr>om_CreationTimestamp := created\<rparr>,
      pae_Spec = \<lparr>aes_Timestamp = created, aes_Action = ''workload.restored'', aes_Actor = ''controller'',
        aes_Target = \<lparr>arr_Cluster = '''', arr_APIVersion = '''', arr_Namespace = ''dev'', arr_Name = ''web'',
          arr_Kind = ''Deployment'', arr_UID = ''u1''\<rparr>,
        aes_Result = ''success'', aes_Reason = reason, aes_RuleName = ''nightly'', aes_NotificationSuppressed = False,
        aes_NotificationSuppressionSource = '''', aes_NotificationSuppressionNamespaceUID = ''''\<rparr>\<rparr>"

definition demo_history :: "PowerAuditEvent list" where
  "demo_history = [demo_event 1 ''up, at last'', demo_event 2 ''up'']"

definition demo_api :: server_env where
  "demo_api = \<lparr>sv_Kube = (\<lambda>_. empty_cluster\<lparr>env_ListAuditEvents := (\<lambda>_ _ _ tok.
       if tok = '''' then Inr \<lparr>page_Items = [demo_event 1 ''up, at last''], page_Continue = ''next''\<rparr>
       else Inr \<lparr>page_Items = [demo_event 2 ''up''], page_Continue = ''''\<rparr>)\<rparr>),
     sv_Session = (\<lambda>_. demo_server), sv_ListLabelled = (\<lambda>_ _ _. Inr []), sv_ListLimited = (\<lambda>_ _ _. Inr []),
     sv_ListGroups = (\<lambda>_ _. Inr []), sv_ListChannels = (\<lambda>_ _. Inr []), sv_PingStore = (\<lambda>_. None),
     sv_GetResource = (\<lambda>_ _ _. Inl not_found), sv_CreateResource = (\<lambda>_ r. Inr r), sv_UpdateResource = (\<lambda>_ r. Inr r),
     sv_DeleteResource = (\<lambda>_ _ _. Inr ()), sv_WriteString = (\<lambda>_ _. Inr ()), sv_Enumerate = (\<lambda>_ m. m),
     sv_FormatFixed = (\<lambda>_ _. ''''), sv_FormatTime = (\<lambda>_. ''then''), sv_rnd = id\<rparr>"

definition demo_write :: "(document answer \<times> api_trace) option" where
  "demo_write = serveApi demo_api preview_server (Some (ah_JWT demo_handlers)) True
     (PostPolicy (Inr (office_policy\<lparr>pp_Meta := (pp_Meta office_policy)\<lparr>om_Namespace := ''''\<rparr>,
        pp_Spec := off_spec\<rparr>))) demo_request []"

lemma demo_write_runs:
  "(case demo_write of Some (Answer status _, e # _) \<Rightarrow> status = 201 \<and> api_write e \<and> write_roles e = [RoleApprover, RoleAdmin] | _ \<Rightarrow> False)"
  by code_simp


text \<open>
  C33. The audit list is exact: whenever the server hands out the selected events in any number of pages (empty ones
  included), the request returns, reports the number of all of them, and lists the newest of them, newest first and
  events of the same second in the order of the pages, as many as the limit allows, which is between 1 and 500.
  Sorting each page with what was kept gives what sorting the whole history would.
\<close>

theorem audit_list_exact:
  assumes "hands_out S (controlNamespace s) (auditQueryLabels ns name kind uid) '''' history"
  shows "\<exists>tr'. handleAuditList S s ns name kind uid q tr =
      Some (Answer 200 (AuditDocument (newest (parseAuditLimit q) history) (min (parseAuditLimit q) (length history)) (length history)), tr') \<and>
    1 \<le> parseAuditLimit q \<and> parseAuditLimit q \<le> 500"
proof -
  let ?n = "parseAuditLimit q"
  have "retain ?n (newest ?n xs) page = return (newest ?n (xs @ page), None)" for xs page
    by (simp add: retain_def retainNewest_newest)
  from visitAuditPages_exact[where g = "newest ?n" and xs = "[]", OF assms this, of 0 tr]
  obtain tr' where "visitAuditPages S (controlNamespace s) (auditQueryLabels ns name kind uid) (retain ?n) 0 '''' [] tr =
      Some ((newest ?n history, length history, None), tr')"
    by (auto simp: newest_Nil)
  then show ?thesis using parseAuditLimit_bounds[of q] by (simp add: handleAuditList_def length_newest)
qed

lemma demo_hands_out: "hands_out demo_api ns labels '''' demo_history"
  using hands_out.further[of demo_api ns labels "''''" "[demo_event 1 ''up, at last'']" "''next''" "[demo_event 2 ''up'']"]
    hands_out.final[of demo_api ns labels "''next''" "[demo_event 2 ''up'']"]
  by (simp add: demo_api_def demo_history_def)

theorem audit_list_exact_witness:
  "\<exists>tr'. handleAuditList demo_api preview_server ''dev'' ''web'' '''' '''' ''1'' [] =
     Some (Answer 200 (AuditDocument [demo_event 2 ''up''] 1 2), tr')"
proof -
  have "newest (parseAuditLimit ''1'') demo_history = [demo_event 2 ''up'']" "parseAuditLimit ''1'' = 1" "length demo_history = 2"
    by code_simp+
  then show ?thesis
    using audit_list_exact[OF demo_hands_out, of preview_server "''dev''" "''web''" "''''" "''''" "''1''" "[]"] by auto
qed

text \<open>
  C34. The audit export can be read back: when the server hands out the history and the response takes what is
  written, the request returns, and a CSV reader finds in the response the header and then one record of eleven fields
  for each event, in the order of the history, whose reason is the stored one whatever commas, quotes and line breaks it
  contains.  (The other fields are not escaped, so they must not contain any; Kubernetes names do not.)
\<close>

theorem audit_export_readable:
  assumes "hands_out S (controlNamespace s) [] '''' history" and "\<And>tr x. sv_WriteString S tr x = Inr ()"
    and "\<And>e. e \<in> set history \<Longrightarrow> printable S e"
  shows "\<exists>new. handleAuditExport S s tr = Some (Answer 200 StreamDocument, new @ tr) \<and>
    read_csv (written new) = Some (header_cells # map (auditCells S) history)"
proof -
  let ?h = "WriteString auditHeader (Inr ())"
  obtain new where walk: "visitAuditPages S (controlNamespace s) [] (exportPage S) 0 '''' () (?h # tr) =
      Some (((), 0 + length history, None), new @ ?h # tr)" and new: "written new = concat (map (auditLine S) history)"
    using visit_export[OF assms(1,2)] by blast
  have "map (auditLine S) history = map csv_line (map (auditCells S) history)"
    using auditLine_cells[OF assms(3)] by simp
  then have "written (new @ [?h]) = concat (map csv_line (header_cells # map (auditCells S) history))"
    by (simp add: new auditHeader_cells del: map_map)
  moreover have "[] \<notin> set (header_cells # map (auditCells S) history)"
    by (auto simp: header_cells_def auditCells_def Let_def)
  ultimately have "read_csv (written (new @ [?h])) = Some (header_cells # map (auditCells S) history)"
    by (metis read_csv_lines)
  then show ?thesis
    using walk by (intro exI[of _ "new @ [?h]"]) (simp add: handleAuditExport_def writeString_def assms(2))
qed

theorem audit_export_readable_witness:
  "\<exists>new. handleAuditExport demo_api preview_server [] = Some (Answer 200 StreamDocument, new @ []) \<and>
    read_csv (written new) = Some (header_cells # map (auditCells demo_api) demo_history)"
proof (rule audit_export_readable[OF demo_hands_out])
  show "sv_WriteString demo_api tr x = Inr ()" for tr x by (simp add: demo_api_def)
  have "list_all (printable demo_api) demo_history" by code_simp
  then show "e \<in> set demo_history \<Longrightarrow> printable demo_api e" for e by (simp add: list_all_iff)
qed

text \<open>
  An export that cannot read the history is not told from an empty one: the error is dropped, and the response is
  complete and successful.
\<close>

theorem audit_export_hides_errors:
  assumes "\<And>tr. env_ListAuditEvents (sv_Kube S tr) [] (controlNamespace s) [] '''' = Inl err" and "\<And>tr x. sv_WriteString S tr x = Inr ()"
  shows "\<exists>new. handleAuditExport S s tr = Some (Answer 200 StreamDocument, new @ tr) \<and> read_csv (written new) = Some [header_cells]"
proof -
  let ?new = "[Kube (ListAuditEvents (controlNamespace s) [] '''' (Inl err)), WriteString auditHeader (Inr ())]"
  have "handleAuditExport S s tr = Some (Answer 200 StreamDocument, ?new @ tr)"
    by (simp add: handleAuditExport_def writeString_def assms) (subst visitAuditPages.simps, simp add: run_page Let_def assms(1))
  moreover have "read_csv (written ?new) = Some [header_cells]"
    using read_csv_lines[of "[header_cells]"] by (simp add: auditHeader_cells) (simp add: header_cells_def)
  ultimately show ?thesis by blast
qed

text \<open>
  The counts of the status classify every listed target exactly once, a block before a divergence before the
  desired state.
\<close>

theorem status_classifies:
  assumes "run_state (handleStatus S s) tr = (Answer 200 (StatusDocument c), tr')"
  shows "\<exists>targets. Kube (ListTargets (controlNamespace s) (Inr targets)) \<in> set tr' \<and> stc_TotalTargets c = length targets \<and>
    stc_PoweredOn c + stc_PoweredOff c + stc_Blocked c + stc_Divergent c = length targets \<and>
    stc_PoweredOff c = length (filter (\<lambda>t. ts_DesiredState (pt_Status t) = ''off'' \<and> \<not> ts_Blocked (pt_Status t) \<and> \<not> ts_Divergent (pt_Status t)) targets)"
proof -
  have sum: "countClass ClassOn ts + countClass ClassOff ts + countClass ClassBlocked ts + countClass ClassDivergent ts = length ts" for ts
    by (induction ts) (auto simp: countClass_def statusClass_def)
  have off: "countClass ClassOff ts = length (filter (\<lambda>t. ts_DesiredState (pt_Status t) = ''off'' \<and> \<not> ts_Blocked (pt_Status t) \<and> \<not> ts_Divergent (pt_Status t)) ts)" for ts
    unfolding countClass_def by (rule arg_cong[where f = length], rule filter_cong) (auto simp: statusClass_def)
  note run = handleStatus_def withTargets_def kube_def run_embed listTargets_def listPolicies_def listOverrides_def
  obtain targets where targets: "env_ListTargets (sv_Kube S tr) [] (controlNamespace s) = Inr targets"
    using assms by (auto simp: run split: sum.splits)
  then have "Kube (ListTargets (controlNamespace s) (Inr targets)) \<in> set tr'" "stc_TotalTargets c = length targets"
      "stc_PoweredOn c = countClass ClassOn targets" "stc_PoweredOff c = countClass ClassOff targets"
      "stc_Blocked c = countClass ClassBlocked targets" "stc_Divergent c = countClass ClassDivergent targets"
    using assms by (auto simp: run)
  then show ?thesis using sum[of targets] off[of targets] by (intro exI[of _ targets]) simp
qed

text \<open>
  The dashboard counts a running cron job as powered off: it has no replicas, and the power state of a cron job, which
  the engine takes from its suspension, is not looked at when the replica count is zero.
\<close>

theorem dashboard_counts_cronjobs_off:
  assumes "tref_Kind (pt_TargetRef t) = WorkloadKindCronJob" and "oss_Suspended (ts_ObservedState (pt_Status t)) = False"
    and "oss_Replicas (ts_ObservedState (pt_Status t)) = 0"
  shows "looksOff t \<and> PowerStateFromObserved (tgt_ObservedState (toDomainTarget t)) (ref_Kind (tgt_Ref (toDomainTarget t))) = PowerStateOn"
  using assms by (simp add: looksOff_def PowerStateFromObserved_def toDomainTarget_def Let_def)

end
