(* ===== verification/DiscoveryLoop.thy ===== *)
theory DiscoveryLoop
  imports Discoverer Retry RuleReconcile AuditLog
begin

text \<open>
  The discovery loop (\<open>src/internal/adapters/driving/background/discovery.go\<close>): one cycle seeds the
  built-in schedules (\<open>builtin_schedules.go\<close>), discovers the workloads, creates or refreshes a
  \<open>PowerTarget\<close> for each (migrating the targets of older releases without losing their snapshots),
  removes orphaned targets and maintains the policies implied by namespace annotations.  Logging is
  left out.

  \<open>reflect.DeepEqual\<close> of two statuses or specifications is semantic equality here: the objects come
  from the API server, whose decoder leaves absent maps and lists nil, so that the difference between
  nil and empty does not arise.
\<close>

section \<open>Configuration and client calls\<close>

record DiscoveryConfig =
  dc_Interval :: go_duration
  dc_Namespace :: string
  dc_SystemNamespaces :: "string list"
  dc_OptInAnnotation :: string
  dc_ExemptAnnotation :: string
  dc_ArgoTrackingLabelKeys :: "string list"

text \<open>A nil executor or audit recorder is \<open>None\<close>.\<close>

record DiscoveryLoop =
  dl_DiscoverAll :: "string list \<Rightarrow> DiscoveredWorkload list result io"
  dl_Executor :: "WorkloadExecutor option"
  dl_Audit :: "(AuditEvent \<Rightarrow> go_error option io) option"
  dl_Config :: DiscoveryConfig

type_synonym retrier = "nat \<Rightarrow> (go_error \<Rightarrow> bool io) \<Rightarrow> (bool \<Rightarrow> go_error option io) \<Rightarrow> go_error option io"

definition createTarget :: "env \<Rightarrow> PowerTarget \<Rightarrow> PowerTarget result io" where
  "createTarget E t = call (\<lambda>tr. env_CreateTarget E tr t) (CreateTarget t)"

definition deleteTarget :: "env \<Rightarrow> PowerTarget \<Rightarrow> unit result io" where
  "deleteTarget E t = call (\<lambda>tr. env_DeleteTarget E tr t) (DeleteTarget t)"

definition updatePolicy :: "env \<Rightarrow> PowerPolicy \<Rightarrow> PowerPolicy result io" where
  "updatePolicy E p = call (\<lambda>tr. env_UpdatePolicy E tr p) (UpdatePolicy p)"

definition createPolicy :: "env \<Rightarrow> PowerPolicy \<Rightarrow> PowerPolicy result io" where
  "createPolicy E p = call (\<lambda>tr. env_CreatePolicy E tr p) (CreatePolicy p)"

definition getSchedule :: "env \<Rightarrow> NamespacedName \<Rightarrow> PowerSchedule result io" where
  "getSchedule E key = call (\<lambda>tr. env_GetSchedule E tr key) (GetSchedule key)"

definition listSchedules :: "env \<Rightarrow> PowerSchedule list result io" where
  "listSchedules E = call (\<lambda>tr. env_ListSchedules E tr) ListSchedules"

definition createSchedule :: "env \<Rightarrow> PowerSchedule \<Rightarrow> PowerSchedule result io" where
  "createSchedule E s = call (\<lambda>tr. env_CreateSchedule E tr s) (CreateSchedule s)"

lemmas loop_call_defs = createTarget_def deleteTarget_def updatePolicy_def createPolicy_def getSchedule_def
  listSchedules_def createSchedule_def

text \<open>The error of a call that returns nothing else.\<close>

definition error_of :: "'a result \<Rightarrow> go_error option" where
  "error_of r = (case r of Inl err \<Rightarrow> Some err | Inr _ \<Rightarrow> None)"

section \<open>Projection of a workload\<close>

definition powerTargetName :: "env \<Rightarrow> WorkloadRef \<Rightarrow> string" where
  "powerTargetName E ref = ''target-'' @ env_sha256 E
     (ref_Cluster ref @ NUL @ ref_APIVersion ref @ NUL @ ref_Namespace ref @ NUL @ ref_Kind ref @ NUL @ ref_Name ref @ NUL @ ref_UID ref)"

definition legacyName :: "WorkloadRef \<Rightarrow> string" where
  "legacyName ref = ref_Namespace ref @ ''--'' @ ref_Name ref"

definition targetReference :: "WorkloadRef \<Rightarrow> TargetReference" where
  "targetReference ref = \<lparr>tref_Cluster = ref_Cluster ref, tref_APIVersion = ref_APIVersion ref,
     tref_Namespace = ref_Namespace ref, tref_Name = ref_Name ref, tref_Kind = ref_Kind ref, tref_UID = ref_UID ref\<rparr>"

definition workloadIsPoweredDown :: "DiscoveredWorkload \<Rightarrow> bool" where
  "workloadIsPoweredDown wl = (if ref_Kind (dw_Ref wl) = WorkloadKindCronJob then dw_Suspended wl else dw_Replicas wl = 0)"

definition observedPowerState :: "DiscoveredWorkload \<Rightarrow> string" where
  "observedPowerState wl =
     (if ref_Kind (dw_Ref wl) = WorkloadKindCronJob \<and> dw_Suspended wl then ''off''
      else if ref_Kind (dw_Ref wl) \<noteq> WorkloadKindCronJob \<and> dw_Replicas wl = 0 then ''off''
      else ''on'')"

definition detectOwnership :: "DiscoveryLoop \<Rightarrow> DiscoveredWorkload \<Rightarrow> OwnershipSignal list" where
  "detectOwnership D wl =
     (let c = dl_Config D;
          ownership = DetectOwnershipWithArgoTracking (dw_Annotations wl) (dw_Labels wl) (dc_OptInAnnotation c)
            (dc_ArgoTrackingLabelKeys c) [dw_NamespaceAnnotations wl]
      in if dw_HPAControlled wl
         then ownership @ [\<lparr>own_Type = OwnershipHPA,
                own_OptedIn = (go_get (dw_Annotations wl) (dc_OptInAnnotation c) = ''true'' \<or>
                  go_get (dw_NamespaceAnnotations wl) (dc_OptInAnnotation c) = ''true'')\<rparr>]
         else ownership)"

definition ownershipSpecs :: "DiscoveryLoop \<Rightarrow> DiscoveredWorkload \<Rightarrow> OwnershipSpec list" where
  "ownershipSpecs D wl = map (\<lambda>s. \<lparr>os_Type = own_Type s, os_OptedIn = own_OptedIn s\<rparr>) (detectOwnership D wl)"

definition copyStringMap :: "strmap \<Rightarrow> strmap" where
  "copyStringMap source = source"

text \<open>The discovery projection of a status: the fields that discovery owns.\<close>

definition observe :: "DiscoveryLoop \<Rightarrow> DiscoveredWorkload \<Rightarrow> PowerTargetStatus \<Rightarrow> PowerTargetStatus" where
  "observe D wl st = st\<lparr>ts_WorkloadLabels := copyStringMap (dw_Labels wl), ts_NamespaceLabels := copyStringMap (dw_NamespaceLabels wl),
     ts_ObservedState := \<lparr>oss_Replicas = dw_Replicas wl, oss_Suspended = dw_Suspended wl, oss_ActiveJobs = dw_ActiveJobs wl,
       oss_PowerState = observedPowerState wl\<rparr>,
     ts_Ownership := ownershipSpecs D wl\<rparr>"

definition updateObservedState :: "env \<Rightarrow> DiscoveryLoop \<Rightarrow> PowerTarget \<Rightarrow> DiscoveredWorkload \<Rightarrow> go_error option io" where
  "updateObservedState E D target wl =
     (let updated = target\<lparr>pt_Status := observe D wl (pt_Status target)\<rparr> in
      if status_eq (pt_Status target) (pt_Status updated) then return None
      else do { u \<leftarrow> statusUpdateTarget E updated; return (error_of u) })"

text \<open>The zero \<open>PowerTargetStatus\<close>.\<close>

definition zero_status :: PowerTargetStatus where
  "zero_status = \<lparr>ts_WorkloadLabels = [], ts_NamespaceLabels = [],
     ts_ObservedState = \<lparr>oss_Replicas = 0, oss_Suspended = False, oss_ActiveJobs = 0, oss_PowerState = ''''\<rparr>,
     ts_DesiredState = '''', ts_Managed = False, ts_Divergent = False, ts_WinningRule = None, ts_SuppressedRules = [],
     ts_Blocked = False, ts_BlockReasons = [], ts_Snapshot = None, ts_Ownership = [], ts_Savings = None,
     ts_LastTransition = None, ts_LastReconciliation = None, ts_ConsecutiveFailures = 0, ts_Action = None, ts_Conditions = []\<rparr>"

section \<open>Exemption\<close>

definition legacySnapshotProvesPoweredDown :: "PowerTarget \<Rightarrow> DiscoveredWorkload \<Rightarrow> bool" where
  "legacySnapshotProvesPoweredDown legacy wl =
     (case ts_Snapshot (pt_Status legacy) of
        None \<Rightarrow> False
      | Some snapshot \<Rightarrow>
          if \<not> sn_Available snapshot \<or> sn_CapturedAt snapshot = None \<or>
             oss_PowerState (ts_ObservedState (pt_Status legacy)) \<noteq> ''off'' \<or> \<not> workloadIsPoweredDown wl
          then False
          else if ref_Kind (dw_Ref wl) = WorkloadKindCronJob then sn_Suspended snapshot \<noteq> None
          else (case sn_ReplicaCount snapshot of None \<Rightarrow> False | Some n \<Rightarrow> n > 0))"

text \<open>The snapshot that a restoration is given and the audit of it (whose result is ignored).\<close>

definition restoreSnapshot :: "SnapshotSpec \<Rightarrow> Snapshot" where
  "restoreSnapshot s = \<lparr>snap_ReplicaCount = sn_ReplicaCount s, snap_Suspended = sn_Suspended s,
     snap_Resources = \<lparr>res_CPUMillicores = 0, res_MemoryMiB = 0\<rparr>, snap_CapturedAt = zero_time, snap_ResourceVersion = ''''\<rparr>"

definition auditExemption :: "env \<Rightarrow> DiscoveryLoop \<Rightarrow> WorkloadRef \<Rightarrow> string \<Rightarrow> unit io" where
  "auditExemption E D ref reason =
     (case dl_Audit D of
        None \<Rightarrow> return ()
      | Some record_ev \<Rightarrow> do {
          now \<leftarrow> time_Now E;
          _ \<leftarrow> record_ev \<lparr>ae_ID = '''', ae_Timestamp = now, ae_Action = AuditWorkloadRestored,
               ae_Actor = ''system/exemption'', ae_Target = ref, ae_Result = ''success'', ae_Reason = reason,
               ae_RuleName = '''', ae_SuppressNotification = False, ae_NotificationSuppressionSource = '''',
               ae_NotificationSuppressionNamespaceUID = ''''\<rparr>;
          return ()
        })"

definition workloadName :: "DiscoveredWorkload \<Rightarrow> string" where
  "workloadName wl = ref_Namespace (dw_Ref wl) @ ''/'' @ ref_Name (dw_Ref wl)"

definition restoreLegacyBeforeExemption ::
  "env \<Rightarrow> DiscoveryLoop \<Rightarrow> DiscoveredWorkload \<Rightarrow> PowerTarget \<Rightarrow> go_error option io" where
  "restoreLegacyBeforeExemption E D wl legacy =
     (if tref_UID (pt_TargetRef legacy) \<noteq> '''' \<and> tref_UID (pt_TargetRef legacy) \<noteq> ref_UID (dw_Ref wl)
      then return (Some (errors_New (''refusing legacy exemption recovery for unverified workload identity '' @ workloadName wl)))
      else if \<not> workloadIsPoweredDown wl then do { d \<leftarrow> deleteTarget E legacy; return (error_of d) }
      else if \<not> legacySnapshotProvesPoweredDown legacy wl
      then return (Some (errors_New (''refusing exemption recovery without a verified legacy snapshot for '' @ workloadName wl)))
      else case (dl_Executor D, ts_Snapshot (pt_Status legacy)) of
        (Some X, Some s) \<Rightarrow> do {
          r \<leftarrow> ex_Restore X (dw_Ref wl) (restoreSnapshot s);
          case r of
            Some err \<Rightarrow> return (Some (wrap_error ''restore legacy target before exemption: '' err ''''))
          | None \<Rightarrow> do {
              _ \<leftarrow> auditExemption E D (dw_Ref wl) ''restored legacy snapshot before applying workload exemption'';
              return None
            }
        }
      | _ \<Rightarrow> return (Some (errors_New ''cannot restore exempt workload without executor'')))"

definition restoreBeforeExemption :: "env \<Rightarrow> DiscoveryLoop \<Rightarrow> DiscoveredWorkload \<Rightarrow> go_error option io" where
  "restoreBeforeExemption E D wl = do {
     g \<leftarrow> getTarget E False \<lparr>nn_Namespace = dc_Namespace (dl_Config D), nn_Name = powerTargetName E (dw_Ref wl)\<rparr>;
     case g of
       Inl err \<Rightarrow> return (if err_NotFound err then None else Some err)
     | Inr target \<Rightarrow>
         if tref_UID (pt_TargetRef target) = '''' \<or> tref_UID (pt_TargetRef target) \<noteq> ref_UID (dw_Ref wl)
         then return (Some (errors_New (''refusing exemption recovery for unverified workload identity '' @ workloadName wl)))
         else (case available target of
           None \<Rightarrow> do { d \<leftarrow> deleteTarget E target; return (error_of d) }
         | Some s \<Rightarrow>
             if workloadIsPoweredDown wl then
               (case dl_Executor D of
                  None \<Rightarrow> return (Some (errors_New ''cannot restore exempt workload without executor''))
                | Some X \<Rightarrow> do {
                    r \<leftarrow> ex_Restore X (dw_Ref wl) (restoreSnapshot s);
                    case r of
                      Some err \<Rightarrow> return (Some (wrap_error ''restore before exemption: '' err ''''))
                    | None \<Rightarrow> do {
                        _ \<leftarrow> auditExemption E D (dw_Ref wl) ''restored before applying workload exemption'';
                        return None
                      }
                  })
             else do { d \<leftarrow> deleteTarget E target; return (error_of d) })
   }"

section \<open>Targets\<close>

text \<open>One attempt to write the status of a new target: the created object first, a fresh read later.\<close>

definition writeNewStatus ::
  "env \<Rightarrow> DiscoveryLoop \<Rightarrow> DiscoveredWorkload \<Rightarrow> PowerTargetStatus option \<Rightarrow> PowerTarget \<Rightarrow> bool \<Rightarrow> go_error option io" where
  "writeNewStatus E D wl previous target firstAttempt = do {
     g \<leftarrow> (if firstAttempt then return (Inr target)
          else getTarget E False \<lparr>nn_Namespace = om_Namespace (pt_Meta target), nn_Name = om_Name (pt_Meta target)\<rparr>);
     case g of
       Inl err \<Rightarrow> return (Some err)
     | Inr current \<Rightarrow>
         let status = (case previous of None \<Rightarrow> pt_Status current | Some st \<Rightarrow> st)
         in do { u \<leftarrow> statusUpdateTarget E (current\<lparr>pt_Status := observe D wl status\<rparr>); return (error_of u) }
   }"

definition newPowerTarget ::
  "env \<Rightarrow> retrier \<Rightarrow> DiscoveryLoop \<Rightarrow> string \<Rightarrow> DiscoveredWorkload \<Rightarrow> PowerTargetStatus option \<Rightarrow> (bool \<times> go_error option) io" where
  "newPowerTarget E OnError D targetName wl previous = do {
     c \<leftarrow> createTarget E \<lparr>pt_Meta = \<lparr>om_Name = targetName, om_GenerateName = '''', om_Namespace = dc_Namespace (dl_Config D),
             om_UID = '''', om_ResourceVersion = '''',
             om_Labels = [(''power.aura.sh/target-namespace'', ref_Namespace (dw_Ref wl)),
                          (''power.aura.sh/target-name'', ref_Name (dw_Ref wl)),
                          (''power.aura.sh/target-kind'', ref_Kind (dw_Ref wl)),
                          (''power.aura.sh/target-uid'', ref_UID (dw_Ref wl))],
             om_Annotations = [], om_CreationTimestamp = zero_time, om_DeletionTimestamp = None\<rparr>,
           pt_TargetRef = targetReference (dw_Ref wl), pt_Status = zero_status\<rparr>;
     case c of
       Inl err \<Rightarrow> return (False, Some (wrap_error ''failed to create PowerTarget: '' err ''''))
     | Inr target \<Rightarrow> do {
         r \<leftarrow> OnError 8 (\<lambda>err. return (err_Conflict err \<or> err_NotFound err)) (writeNewStatus E D wl previous target);
         case r of
           Some err \<Rightarrow> return (True, Some (wrap_error ''created target but failed to update status: '' err ''''))
         | None \<Rightarrow> return (True, None)
       }
   }"

text \<open>
  The status of a legacy target that still belongs to the workload: the identity matches, or there was
  none and the snapshot proves that the workload is the one that was powered down.
\<close>

definition legacyStatus :: "PowerTarget \<Rightarrow> DiscoveredWorkload \<Rightarrow> PowerTargetStatus option" where
  "legacyStatus legacy wl =
     (if tref_UID (pt_TargetRef legacy) \<noteq> '''' \<and> tref_UID (pt_TargetRef legacy) = ref_UID (dw_Ref wl)
      then Some (pt_Status legacy)
      else if tref_UID (pt_TargetRef legacy) = '''' \<and> legacySnapshotProvesPoweredDown legacy wl
      then Some (pt_Status legacy) else None)"

definition legacyKey :: "DiscoveryLoop \<Rightarrow> DiscoveredWorkload \<Rightarrow> NamespacedName" where
  "legacyKey D wl = \<lparr>nn_Namespace = dc_Namespace (dl_Config D), nn_Name = legacyName (dw_Ref wl)\<rparr>"

text \<open>Resuming a migration that was interrupted; \<open>None\<close> means that there is none to resume.\<close>

definition clearPowerState :: "PowerTargetStatus \<Rightarrow> PowerTargetStatus" where
  "clearPowerState st = st\<lparr>ts_ObservedState := (ts_ObservedState st)\<lparr>oss_PowerState := ''''\<rparr>\<rparr>"

definition resumeMigration ::
  "env \<Rightarrow> DiscoveryLoop \<Rightarrow> DiscoveredWorkload \<Rightarrow> bool \<Rightarrow> PowerTarget \<Rightarrow> (bool \<times> go_error option) option io" where
  "resumeMigration E D wl exempt existing = do {
     l \<leftarrow> getTarget E False (legacyKey D wl);
     case l of
       Inl legacyErr \<Rightarrow>
         return (if err_NotFound legacyErr then None
                 else Some (False, Some (wrap_error ''failed to read legacy PowerTarget while resuming migration: '' legacyErr '''')))
     | Inr legacy \<Rightarrow>
         if tref_Kind (pt_TargetRef legacy) \<noteq> ref_Kind (dw_Ref wl) then return None
         else
           let previous = legacyStatus legacy wl in
           if workloadIsPoweredDown wl \<and> ts_Snapshot (pt_Status legacy) \<noteq> None \<and> previous = None
           then return (Some (False, Some (errors_New (''refusing to resume ambiguous legacy snapshot migration for '' @
                  workloadName wl @ ''; restore a verified live state first''))))
           else
             let existing = (case previous of None \<Rightarrow> existing | Some st \<Rightarrow> existing\<lparr>pt_Status := clearPowerState st\<rparr>)
             in do {
               u \<leftarrow> updateObservedState E D existing wl;
               case u of
                 Some err \<Rightarrow> return (Some (False, Some (wrap_error ''failed to resume legacy target status migration: '' err '''')))
               | None \<Rightarrow> do {
                   d \<leftarrow> deleteTarget E legacy;
                   case d of
                     Inl err \<Rightarrow> return (Some (False, Some (wrap_error ''resumed target migration but failed to remove legacy identity: '' err '''')))
                   | Inr _ \<Rightarrow>
                       if exempt then do { r \<leftarrow> restoreBeforeExemption E D wl; return (Some (False, r)) }
                       else return (Some (False, None))
                 }
             }
   }"

text \<open>A recreated workload is another identity: nothing of the old status survives.\<close>

definition rebindTarget :: "env \<Rightarrow> DiscoveredWorkload \<Rightarrow> PowerTarget \<Rightarrow> PowerTarget result io" where
  "rebindTarget E wl existing =
     (if tref_UID (pt_TargetRef existing) \<noteq> ref_UID (dw_Ref wl) \<or> tref_Kind (pt_TargetRef existing) \<noteq> ref_Kind (dw_Ref wl)
      then do {
        u \<leftarrow> statusUpdateTarget E (existing\<lparr>pt_Status := zero_status\<rparr>);
        case u of
          Inl err \<Rightarrow> return (Inl (wrap_error ''failed to clear stale target status: '' err ''''))
        | Inr existing \<Rightarrow> do {
            w \<leftarrow> updateTarget E (set_labels (go_put (go_put (om_Labels (pt_Meta existing))
                   ''power.aura.sh/target-kind'' (ref_Kind (dw_Ref wl))) ''power.aura.sh/target-uid'' (ref_UID (dw_Ref wl)))
                   (existing\<lparr>pt_TargetRef := targetReference (dw_Ref wl)\<rparr>));
            case w of
              Inl err \<Rightarrow> return (Inl (wrap_error ''failed to bind recreated target UID: '' err ''''))
            | Inr existing \<Rightarrow> return (Inr existing)
          }
      }
      else return (Inr existing))"

definition refreshTarget :: "env \<Rightarrow> DiscoveryLoop \<Rightarrow> DiscoveredWorkload \<Rightarrow> bool \<Rightarrow> PowerTarget \<Rightarrow> (bool \<times> go_error option) io" where
  "refreshTarget E D wl exempt existing = do {
     m \<leftarrow> (if oss_PowerState (ts_ObservedState (pt_Status existing)) = '''' then resumeMigration E D wl exempt existing
          else return None);
     case m of
       Some r \<Rightarrow> return r
     | None \<Rightarrow> do {
         b \<leftarrow> rebindTarget E wl existing;
         case b of
           Inl err \<Rightarrow> return (False, Some err)
         | Inr existing \<Rightarrow>
             if exempt then do { r \<leftarrow> restoreBeforeExemption E D wl; return (False, r) }
             else do { r \<leftarrow> updateObservedState E D existing wl; return (False, r) }
       }
   }"

text \<open>Creation of a target, taking over the status of the v2.1 target of the workload.\<close>

definition createOrMigrate :: "env \<Rightarrow> retrier \<Rightarrow> DiscoveryLoop \<Rightarrow> DiscoveredWorkload \<Rightarrow> bool \<Rightarrow> (bool \<times> go_error option) io" where
  "createOrMigrate E OnError D wl exempt = do {
     l \<leftarrow> getTarget E False (legacyKey D wl);
     case l of
       Inl legacyErr \<Rightarrow>
         if \<not> err_NotFound legacyErr
         then return (False, Some (wrap_error ''failed to read legacy PowerTarget: '' legacyErr ''''))
         else if exempt then return (False, None)
         else newPowerTarget E OnError D (powerTargetName E (dw_Ref wl)) wl None
     | Inr legacy \<Rightarrow>
         if tref_Kind (pt_TargetRef legacy) \<noteq> ref_Kind (dw_Ref wl) then
           (if exempt then return (False, None)
            else newPowerTarget E OnError D (powerTargetName E (dw_Ref wl)) wl None)
         else if exempt then do { r \<leftarrow> restoreLegacyBeforeExemption E D wl legacy; return (False, r) }
         else
           let previous = legacyStatus legacy wl in
           if workloadIsPoweredDown wl \<and> ts_Snapshot (pt_Status legacy) \<noteq> None \<and> previous = None
           then return (False, Some (errors_New (''refusing to migrate ambiguous legacy snapshot for '' @
                  workloadName wl @ ''; restore a verified live state first'')))
           else do {
             (created, createErr) \<leftarrow> newPowerTarget E OnError D (powerTargetName E (dw_Ref wl)) wl previous;
             case createErr of
               Some err \<Rightarrow> return (False, Some err)
             | None \<Rightarrow> do {
                 d \<leftarrow> deleteTarget E legacy;
                 case d of
                   Inl err \<Rightarrow> return (created, Some (wrap_error ''migrated target but failed to remove legacy identity: '' err ''''))
                 | Inr _ \<Rightarrow> return (created, None)
               }
           }
   }"

definition isExemptWorkload :: "DiscoveryLoop \<Rightarrow> DiscoveredWorkload \<Rightarrow> bool" where
  "isExemptWorkload D wl \<longleftrightarrow> go_get (dw_Annotations wl) (dc_ExemptAnnotation (dl_Config D)) = ''true''"

definition ensurePowerTarget :: "env \<Rightarrow> retrier \<Rightarrow> DiscoveryLoop \<Rightarrow> DiscoveredWorkload \<Rightarrow> (bool \<times> go_error option) io" where
  "ensurePowerTarget E OnError D wl =
     (if ref_Namespace (dw_Ref wl) \<in> set (dc_SystemNamespaces (dl_Config D)) then return (False, None)
      else do {
        g \<leftarrow> getTarget E False \<lparr>nn_Namespace = dc_Namespace (dl_Config D), nn_Name = powerTargetName E (dw_Ref wl)\<rparr>;
        case g of
          Inr existing \<Rightarrow> refreshTarget E D wl (isExemptWorkload D wl) existing
        | Inl err \<Rightarrow>
            if \<not> err_NotFound err then return (False, Some (wrap_error ''failed to read PowerTarget: '' err ''''))
            else createOrMigrate E OnError D wl (isExemptWorkload D wl)
      })"

section \<open>Orphans\<close>

definition expectedTargets :: "env \<Rightarrow> DiscoveryLoop \<Rightarrow> DiscoveredWorkload \<Rightarrow> string list" where
  "expectedTargets E D wl =
     (if ref_Namespace (dw_Ref wl) \<in> set (dc_SystemNamespaces (dl_Config D)) then []
      else if isExemptWorkload D wl then
        (if workloadIsPoweredDown wl then [powerTargetName E (dw_Ref wl), legacyName (dw_Ref wl)] else [])
      else powerTargetName E (dw_Ref wl) # (if workloadIsPoweredDown wl then [legacyName (dw_Ref wl)] else []))"

fun deleteOrphans :: "env \<Rightarrow> string list \<Rightarrow> PowerTarget list \<Rightarrow> nat io" where
  "deleteOrphans E expected [] = return 0"
| "deleteOrphans E expected (t # ts) =
     (if om_Name (pt_Meta t) \<notin> set expected then do {
        d \<leftarrow> deleteTarget E t;
        n \<leftarrow> deleteOrphans E expected ts;
        return (case d of Inl _ \<Rightarrow> n | Inr _ \<Rightarrow> n + 1)
      }
      else deleteOrphans E expected ts)"

definition cleanupOrphans :: "env \<Rightarrow> DiscoveryLoop \<Rightarrow> DiscoveredWorkload list \<Rightarrow> nat io" where
  "cleanupOrphans E D currentWorkloads = do {
     l \<leftarrow> listTargets E (dc_Namespace (dl_Config D));
     case l of
       Inl err \<Rightarrow> return 0
     | Inr targets \<Rightarrow> deleteOrphans E (concat (map (expectedTargets E D) currentWorkloads)) targets
   }"

section \<open>Policies from namespace annotations\<close>

definition parseNamespacePriority :: "string \<Rightarrow> int" where
  "parseNamespacePriority value =
     (case ParseInt 32 value of
        None \<Rightarrow> 0
      | Some parsed \<Rightarrow> if parsed < 0 \<or> parsed > 1000 then 0 else parsed)"

definition isOwnedNamespacePolicy :: "PowerPolicy \<Rightarrow> string \<Rightarrow> bool" where
  "isOwnedNamespacePolicy policy namespace \<longleftrightarrow>
     go_get (om_Labels (pp_Meta policy)) ''power.aura.sh/source'' = ''namespace-annotation'' \<and>
     go_get (om_Labels (pp_Meta policy)) ''power.aura.sh/namespace'' = namespace"

definition namespacePolicySpec :: "string \<Rightarrow> string \<Rightarrow> PowerSchedule \<Rightarrow> int \<Rightarrow> PowerPolicySpec" where
  "namespacePolicySpec namespace scheduleName schedule priority =
     \<lparr>pps_Scope = \<lparr>scope_TargetRefs = [], scope_Namespaces = [namespace], scope_NamespaceGroups = [],
        scope_NamespaceLabels = [], scope_WorkloadNames = [], scope_WorkloadLabels = []\<rparr>,
      pps_Schedule = \<lparr>psch_Windows = pss_Windows (ps_Spec schedule), psch_DesiredState = pss_DesiredState (ps_Spec schedule)\<rparr>,
      pps_Priority = priority,
      pps_Description = ''Auto-generated from namespace '' @ namespace @ '' annotation (schedule: '' @ scheduleName @ '')''\<rparr>"

definition policySpec_eq :: "PowerPolicySpec \<Rightarrow> PowerPolicySpec \<Rightarrow> bool" where
  "policySpec_eq a b \<longleftrightarrow>
     (let clear = (\<lambda>p. p\<lparr>pps_Scope := (pps_Scope p)\<lparr>scope_NamespaceLabels := [], scope_WorkloadLabels := []\<rparr>\<rparr>) in
      semantic_eq_map (scope_NamespaceLabels (pps_Scope a)) (scope_NamespaceLabels (pps_Scope b)) \<and>
      semantic_eq_map (scope_WorkloadLabels (pps_Scope a)) (scope_WorkloadLabels (pps_Scope b)) \<and>
      clear a = clear b)"

definition zero_policyStatus :: PowerPolicyStatus where
  "zero_policyStatus = \<lparr>ppst_Conditions = [], ppst_AffectedTargets = 0, ppst_ActiveWindow = False, ppst_NextTransition = None\<rparr>"

definition namespacePriority :: "ObjectMeta \<Rightarrow> int" where
  "namespacePriority ns =
     (let p = go_get (om_Annotations ns) ''aura.sh/power-priority''
      in if p \<noteq> '''' then parseNamespacePriority p else 0)"

text \<open>The body of the loop over the namespaces; \<open>schedules\<close> is the map from names, newest first.\<close>

definition ensureNamespacePolicy ::
  "env \<Rightarrow> DiscoveryLoop \<Rightarrow> (string \<times> PowerSchedule) list \<Rightarrow> ObjectMeta \<Rightarrow> unit io" where
  "ensureNamespacePolicy E D schedules ns =
     (let scheduleName = go_get (om_Annotations ns) ''aura.sh/default-schedule'' in
      if scheduleName = '''' \<or> om_Name ns \<in> set (dc_SystemNamespaces (dl_Config D)) then return ()
      else case map_of schedules scheduleName of
        None \<Rightarrow> return ()
      | Some schedule \<Rightarrow>
          let desiredSpec = namespacePolicySpec (om_Name ns) scheduleName schedule (namespacePriority ns);
              policyName = ''ns-default-'' @ om_Name ns
          in do {
            g \<leftarrow> getPolicy E \<lparr>nn_Namespace = dc_Namespace (dl_Config D), nn_Name = policyName\<rparr>;
            case g of
              Inr existingPolicy \<Rightarrow>
                if \<not> isOwnedNamespacePolicy existingPolicy (om_Name ns) then return ()
                else if policySpec_eq (pp_Spec existingPolicy) desiredSpec then return ()
                else do { _ \<leftarrow> updatePolicy E (existingPolicy\<lparr>pp_Spec := desiredSpec\<rparr>); return () }
            | Inl err \<Rightarrow>
                if \<not> err_NotFound err then return ()
                else do {
                  _ \<leftarrow> createPolicy E \<lparr>pp_Meta = \<lparr>om_Name = policyName, om_GenerateName = '''',
                          om_Namespace = dc_Namespace (dl_Config D), om_UID = '''', om_ResourceVersion = '''',
                          om_Labels = [(''power.aura.sh/source'', ''namespace-annotation''), (''power.aura.sh/namespace'', om_Name ns)],
                          om_Annotations = [], om_CreationTimestamp = zero_time, om_DeletionTimestamp = None\<rparr>,
                        pp_Spec = desiredSpec, pp_Status = zero_policyStatus\<rparr>;
                  return ()
                }
          })"

fun ensureNamespacePolicies ::
  "env \<Rightarrow> DiscoveryLoop \<Rightarrow> (string \<times> PowerSchedule) list \<Rightarrow> ObjectMeta list \<Rightarrow> unit io" where
  "ensureNamespacePolicies E D schedules [] = return ()"
| "ensureNamespacePolicies E D schedules (ns # nss) = do {
     _ \<leftarrow> ensureNamespacePolicy E D schedules ns;
     ensureNamespacePolicies E D schedules nss
   }"

definition processNamespaceAnnotations :: "env \<Rightarrow> DiscoveryLoop \<Rightarrow> unit io" where
  "processNamespaceAnnotations E D = do {
     n \<leftarrow> listNamespaces E False;
     case n of
       Inl err \<Rightarrow> return ()
     | Inr nsList \<Rightarrow> do {
         s \<leftarrow> listSchedules E;
         case s of
           Inl err \<Rightarrow> return ()
         | Inr schedules \<Rightarrow>
             ensureNamespacePolicies E D (rev (map (\<lambda>s. (om_Name (ps_Meta s), s)) schedules)) nsList
       }
   }"

section \<open>Built-in schedules\<close>

definition DefaultTimezone :: string where "DefaultTimezone = ''America/Sao_Paulo''"

definition builtInSchedule :: "string \<Rightarrow> string \<Rightarrow> PowerScheduleSpec \<Rightarrow> PowerSchedule" where
  "builtInSchedule namespace name spec =
     \<lparr>ps_Meta = \<lparr>om_Name = name, om_GenerateName = '''', om_Namespace = namespace, om_UID = '''', om_ResourceVersion = '''',
        om_Labels = [(''power.aura.sh/built-in'', ''true'')], om_Annotations = [], om_CreationTimestamp = zero_time,
        om_DeletionTimestamp = None\<rparr>, ps_Spec = spec\<rparr>"

definition businessHours :: "string \<Rightarrow> PowerScheduleSpec" where
  "businessHours timezone = \<lparr>pss_Windows = [\<lparr>tws_Start = ''08:00'', tws_End = ''18:00'', tws_Days = [1, 2, 3, 4, 5], tws_Timezone = timezone\<rparr>],
     pss_DesiredState = ''on'',
     pss_Description = ''Keep workloads on during business hours (Mon-Fri 08:00-18:00). Off otherwise.''\<rparr>"

definition alwaysOff :: PowerScheduleSpec where
  "alwaysOff = \<lparr>pss_Windows = [], pss_DesiredState = ''off'',
     pss_Description = ''Keep workloads off 24/7. Useful for deprecated namespaces.''\<rparr>"

definition weekdaysOnly :: "string \<Rightarrow> PowerScheduleSpec" where
  "weekdaysOnly timezone = \<lparr>pss_Windows = [\<lparr>tws_Start = ''00:00'', tws_End = ''23:59'', tws_Days = [1, 2, 3, 4, 5], tws_Timezone = timezone\<rparr>],
     pss_DesiredState = ''on'',
     pss_Description = ''Keep workloads on Mon-Fri only. Off on weekends.''\<rparr>"

definition builtInSchedules :: "string \<Rightarrow> string \<Rightarrow> PowerSchedule list" where
  "builtInSchedules timezone namespace =
     [builtInSchedule namespace ''business-hours'' (businessHours timezone),
      builtInSchedule namespace ''always-off'' alwaysOff,
      builtInSchedule namespace ''weekdays-only'' (weekdaysOnly timezone)]"

fun seedSchedules :: "env \<Rightarrow> PowerSchedule list \<Rightarrow> go_error option list io" where
  "seedSchedules E [] = return []"
| "seedSchedules E (s # ss) = do {
     g \<leftarrow> getSchedule E \<lparr>nn_Namespace = om_Namespace (ps_Meta s), nn_Name = om_Name (ps_Meta s)\<rparr>;
     case g of
       Inr _ \<Rightarrow> seedSchedules E ss
     | Inl err \<Rightarrow>
         if \<not> err_NotFound err then do {
           rest \<leftarrow> seedSchedules E ss;
           return (Some (wrap_error (''read built-in schedule '' @ om_Name (ps_Meta s) @ '': '') err '''') # rest)
         }
         else do {
           c \<leftarrow> createSchedule E s;
           rest \<leftarrow> seedSchedules E ss;
           return (case c of
               Inr _ \<Rightarrow> rest
             | Inl err \<Rightarrow> if err_AlreadyExists err then rest
                 else Some (wrap_error (''create built-in schedule '' @ om_Name (ps_Meta s) @ '': '') err '''') # rest)
         }
   }"

definition SeedBuiltInSchedules :: "env \<Rightarrow> string \<Rightarrow> string \<Rightarrow> go_error option io" where
  "SeedBuiltInSchedules E timezone namespace = do {
     errs \<leftarrow> seedSchedules E (builtInSchedules timezone namespace);
     return (errors_Join errs)
   }"

section \<open>A cycle\<close>

fun ensurePowerTargets :: "env \<Rightarrow> retrier \<Rightarrow> DiscoveryLoop \<Rightarrow> DiscoveredWorkload list \<Rightarrow> unit io" where
  "ensurePowerTargets E OnError D [] = return ()"
| "ensurePowerTargets E OnError D (wl # wls) = do {
     _ \<leftarrow> ensurePowerTarget E OnError D wl;
     ensurePowerTargets E OnError D wls
   }"

definition runDiscovery :: "env \<Rightarrow> retrier \<Rightarrow> DiscoveryLoop \<Rightarrow> string \<Rightarrow> unit io" where
  "runDiscovery E OnError D timezone = do {
     _ \<leftarrow> SeedBuiltInSchedules E timezone (dc_Namespace (dl_Config D));
     w \<leftarrow> dl_DiscoverAll D [];
     case w of
       Inl err \<Rightarrow> return ()
     | Inr workloads \<Rightarrow> do {
         _ \<leftarrow> ensurePowerTargets E OnError D workloads;
         _ \<leftarrow> cleanupOrphans E D workloads;
         processNamespaceAnnotations E D
       }
   }"

text \<open>The loop as the controller's \<open>main\<close> sets it up.\<close>

definition discoveryLoop :: "env \<Rightarrow> AuditRecorder \<Rightarrow> GuardrailConfig \<Rightarrow> string \<Rightarrow> go_duration \<Rightarrow> string list \<Rightarrow> DiscoveryLoop" where
  "discoveryLoop E A guardrailConfig controlNamespace interval argoKeys =
     \<lparr>dl_DiscoverAll = DiscoverAll E, dl_Executor = Some (NewExecutor E), dl_Audit = Some (Record E A),
      dl_Config = \<lparr>dc_Interval = interval, dc_Namespace = controlNamespace,
        dc_SystemNamespaces = gc_SystemNamespaces guardrailConfig, dc_OptInAnnotation = gc_OptInAnnotation guardrailConfig,
        dc_ExemptAnnotation = gc_ExemptAnnotation guardrailConfig, dc_ArgoTrackingLabelKeys = argoKeys\<rparr>\<rparr>"

end
