(* ===== verification/TargetSafety.thy ===== *)
theory TargetSafety
  imports TargetReconcile AuditLog
begin

text \<open>
  What a reconciliation may do to a workload.  The lemmas are proved for every executor and audit
  recorder that honour their contracts (locale \<open>reconciler_ports\<close>) and used for the wiring of
  \<open>src/cmd/controller/main.go\<close>.  The environment is unconstrained throughout: the API server may
  fail, answer from stale caches, or return anything else.
\<close>

section \<open>Guarded programs\<close>

text \<open>
  \<open>guarded G m tr\<close>: run from the trace \<open>tr\<close>, the program makes at most one workload write, and \<open>G\<close>
  holds of it and of the trace at that moment.
\<close>

definition guarded :: "(event \<Rightarrow> trace \<Rightarrow> bool) \<Rightarrow> 'a io \<Rightarrow> trace \<Rightarrow> bool" where
  "guarded G m tr \<longleftrightarrow>
     (\<exists>new. snd (run_state m tr) = new @ tr \<and> length (filter workload_write new) \<le> 1 \<and>
        (\<forall>post e pre. new = post @ e # pre \<longrightarrow> workload_write e \<longrightarrow> G e (pre @ tr)))"

abbreviation quiet :: "'a io \<Rightarrow> bool" where
  "quiet m \<equiv> emits (\<lambda>e. \<not> workload_write e) m"

lemma quiet_guarded: "quiet m \<Longrightarrow> guarded G m tr"
  unfolding emits_def guarded_def by (metis (no_types, lifting) filter_False in_set_conv_decomp
      le_zero_eq list.size(3) zero_le)

lemma guarded_then:
  assumes "quiet m" and "\<And>x tr1. run_state m tr = (x, tr1) \<Longrightarrow> guarded G (f x) tr1"
  shows "guarded G (State_Monad.bind m f) tr"
proof -
  obtain x tr1 where m: "run_state m tr = (x, tr1)" by fastforce
  obtain n1 where n1: "tr1 = n1 @ tr" "\<forall>e\<in>set n1. \<not> workload_write e" using assms(1) m by (rule emitsD)
  obtain n2 where n2: "snd (run_state (f x) tr1) = n2 @ tr1" "length (filter workload_write n2) \<le> 1"
    "\<forall>post e pre. n2 = post @ e # pre \<longrightarrow> workload_write e \<longrightarrow> G e (pre @ tr1)"
    using assms(2)[OF m] unfolding guarded_def by blast
  have "G e (pre @ tr)" if "n2 @ n1 = post @ e # pre" "workload_write e" for post e pre
  proof -
    from that(1) consider us where "n2 = post @ e # us" "pre = us @ n1" | us where "n1 = us @ e # pre"
      by (auto simp: append_eq_append_conv2 append_eq_Cons_conv Cons_eq_append_conv)
    then show ?thesis using n1 n2(3) that(2) by cases auto
  qed
  moreover have "filter workload_write n1 = []" using n1(2) by (simp add: filter_empty_conv)
  ultimately show ?thesis
    unfolding guarded_def using m n1 n2(1,2) by (intro exI[of _ "n2 @ n1"]) simp
qed

lemma guarded_finish:
  assumes "guarded G m tr" and "\<And>x. quiet (f x)"
  shows "guarded G (State_Monad.bind m f) tr"
proof -
  obtain x tr1 where m: "run_state m tr = (x, tr1)" by fastforce
  obtain n1 where n1: "tr1 = n1 @ tr" "length (filter workload_write n1) \<le> 1"
    "\<forall>post e pre. n1 = post @ e # pre \<longrightarrow> workload_write e \<longrightarrow> G e (pre @ tr)"
    using assms(1) m unfolding guarded_def by auto
  obtain y tr2 where f: "run_state (f x) tr1 = (y, tr2)" by fastforce
  obtain n2 where n2: "tr2 = n2 @ tr1" "\<forall>e\<in>set n2. \<not> workload_write e" using assms(2) f by (rule emitsD)
  have "G e (pre @ tr)" if "n2 @ n1 = post @ e # pre" "workload_write e" for post e pre
  proof -
    from that(1) consider us where "n2 = post @ e # us" | us where "n1 = us @ e # pre"
      by (auto simp: append_eq_append_conv2 append_eq_Cons_conv Cons_eq_append_conv)
    then show ?thesis using n1(3) n2(2) that(2) by cases auto
  qed
  moreover have "filter workload_write n2 = []" using n2(2) by (simp add: filter_empty_conv)
  ultimately show ?thesis
    unfolding guarded_def using m f n1(1,2) n2(1) by (intro exI[of _ "n2 @ n1"]) simp
qed

lemma guarded_weaken:
  assumes "guarded G m tr" and "\<And>e tr'. set tr \<subseteq> set tr' \<Longrightarrow> G e tr' \<Longrightarrow> H e tr'"
  shows "guarded H m tr"
proof -
  have "set tr \<subseteq> set (pre @ tr)" for pre by auto
  then show ?thesis using assms unfolding guarded_def by metis
qed

lemma guarded_prod: "(\<And>a b. x = (a, b) \<Longrightarrow> guarded G (f a b) tr) \<Longrightarrow> guarded G (case_prod f x) tr"
  by (cases x) auto

lemma guarded_option:
  "(x = None \<Longrightarrow> guarded G m tr) \<Longrightarrow> (\<And>v. x = Some v \<Longrightarrow> guarded G (f v) tr) \<Longrightarrow> guarded G (case_option m f x) tr"
  by (cases x) auto

lemma guarded_sum:
  "(\<And>e. x = Inl e \<Longrightarrow> guarded G (f e) tr) \<Longrightarrow> (\<And>v. x = Inr v \<Longrightarrow> guarded G (g v) tr) \<Longrightarrow> guarded G (case_sum f g x) tr"
  by (cases x) auto

lemma guarded_if:
  "(b \<Longrightarrow> guarded G m tr) \<Longrightarrow> (\<not> b \<Longrightarrow> guarded G m' tr) \<Longrightarrow> guarded G (if b then m else m') tr"
  by simp

lemmas guarded_splits = guarded_prod guarded_option guarded_sum guarded_if

lemma guarded_return [simp]: "guarded G (return x) tr"
  by (simp add: quiet_guarded)

text \<open>A program that satisfies a write contract is guarded by it.\<close>

lemma contract_guarded:
  assumes "write_contract W m" and "\<And>e. workload_read e \<Longrightarrow> \<not> workload_write e"
  shows "guarded (\<lambda>e _. W e) m tr"
proof -
  obtain writes reads where c: "snd (run_state m tr) = writes @ reads @ tr" "list_all workload_read reads"
    "length writes \<le> 1" "list_all W writes"
    using assms(1)[unfolded write_contract_def, THEN spec, of tr] by (elim exE conjE)
  have r: "\<forall>e\<in>set reads. \<not> workload_write e" using c(2) assms(2) by (auto simp: list_all_iff)
  then have "filter workload_write reads = []" by (simp add: filter_empty_conv)
  moreover have "length (filter workload_write writes) \<le> 1"
    using c(3) length_filter_le le_trans by blast
  moreover have "W e" if "writes @ reads = post @ e # pre" "workload_write e" for post e pre
  proof -
    have "e \<in> set (writes @ reads)" using that(1) by simp
    then show ?thesis using r c(4) that(2) by (auto simp: list_all_iff)
  qed
  ultimately show ?thesis
    unfolding guarded_def using c(1) by (intro exI[of _ "writes @ reads"]) simp
qed

lemma read_not_write: "workload_read e \<Longrightarrow> \<not> workload_write e"
  by (cases e) simp_all

section \<open>Evidence\<close>

text \<open>The intent of a decision was stored as an \<open>InProgress\<close> action, and read back unchanged.\<close>

definition intent_recorded :: "Decision \<Rightarrow> PowerTarget \<Rightarrow> trace \<Rightarrow> bool" where
  "intent_recorded d resp tr \<longleftrightarrow>
     (\<exists>sent a key persisted.
        StatusUpdateTarget sent (Inr resp) \<in> set tr \<and> ts_Action (pt_Status sent) = Some a \<and>
        act_Phase a = ''InProgress'' \<and> act_DesiredState a = dec_DesiredState d \<and>
        act_DecisionKey a = powerDecisionKey d \<and>
        GetTarget True key (Inr persisted) \<in> set tr \<and>
        actionIntentPersisted (ts_Action (pt_Status persisted)) (ts_Action (pt_Status resp)))"

text \<open>The live workload, of the referenced incarnation, or its live namespace carries the opt-in.\<close>

definition live_opt_in :: "GuardrailConfig \<Rightarrow> WorkloadRef \<Rightarrow> trace \<Rightarrow> bool" where
  "live_opt_in c ref tr \<longleftrightarrow>
     (\<exists>d ns. {GetDeployment True (ref_key ref) (Inr d), GetStatefulSet True (ref_key ref) (Inr d)} \<inter> set tr \<noteq> {} \<and>
        GetNamespace True (ref_Namespace ref) (Inr ns) \<in> set tr \<and> om_UID (wl_Meta d) = ref_UID ref \<and>
        (go_get (om_Annotations (wl_Meta d)) (gc_OptInAnnotation c) = ''true'' \<or>
         go_get (om_Annotations ns) (gc_OptInAnnotation c) = ''true''))"

text \<open>The live autoscalers were listed, and none scales the workload or there is a live opt-in.\<close>

definition hpa_cleared :: "GuardrailConfig \<Rightarrow> WorkloadRef \<Rightarrow> trace \<Rightarrow> bool" where
  "hpa_cleared c ref tr \<longleftrightarrow>
     (\<exists>hpas. ListHPAs True (ref_Namespace ref) (Inr hpas) \<in> set tr \<and>
        ((\<forall>h\<in>set hpas. \<not> hpa_targets ref h) \<or> live_opt_in c ref tr))"

text \<open>The snapshot the executor is given for a stored snapshot, with the given revision.\<close>

definition snapshot_of :: "SnapshotSpec \<Rightarrow> string \<Rightarrow> Snapshot" where
  "snapshot_of s rv = \<lparr>snap_ReplicaCount = sn_ReplicaCount s, snap_Suspended = sn_Suspended s,
     snap_Resources = \<lparr>res_CPUMillicores = 0, res_MemoryMiB = 0\<rparr>, snap_CapturedAt = zero_time,
     snap_ResourceVersion = rv\<rparr>"

definition down_authorised :: "GuardrailConfig \<Rightarrow> WorkloadRef \<Rightarrow> Decision \<Rightarrow> event \<Rightarrow> trace \<Rightarrow> bool" where
  "down_authorised c ref d e tr \<longleftrightarrow>
     (\<exists>resp s. intent_recorded d resp tr \<and> available resp = Some s \<and> hpa_cleared c ref tr \<and>
        off_write ref (snapshot_of s (sn_ResourceVersion s)) e)"

definition restore_authorised :: "WorkloadRef \<Rightarrow> Decision \<Rightarrow> event \<Rightarrow> trace \<Rightarrow> bool" where
  "restore_authorised ref d e tr \<longleftrightarrow>
     (\<exists>resp s. intent_recorded d resp tr \<and> available resp = Some s \<and>
        restore_write ref (snapshot_of s '''') e)"

lemma intent_recorded_mono: "intent_recorded d resp tr \<Longrightarrow> set tr \<subseteq> set tr' \<Longrightarrow> intent_recorded d resp tr'"
  unfolding intent_recorded_def by blast

lemma live_opt_in_mono: "live_opt_in c ref tr \<Longrightarrow> set tr \<subseteq> set tr' \<Longrightarrow> live_opt_in c ref tr'"
  unfolding live_opt_in_def by (elim exE conjE, intro exI conjI) auto

lemma hpa_cleared_mono: "hpa_cleared c ref tr \<Longrightarrow> set tr \<subseteq> set tr' \<Longrightarrow> hpa_cleared c ref tr'"
  unfolding hpa_cleared_def using live_opt_in_mono by (meson subsetD)

section \<open>Calls that never touch a workload\<close>

text \<open>An audit recorder that leaves workloads alone.\<close>

definition audit_quiet :: "TargetReconciler \<Rightarrow> bool" where
  "audit_quiet R \<longleftrightarrow> (\<forall>recorder ev. rec_Audit R = Some recorder \<longrightarrow> quiet (recorder ev))"

lemma quiet_ResolveScope: "quiet (ResolveScope E ns s)"
  by (rule emits_mono[OF emits_ResolveScope]) (auto simp: group_read_def)

lemma quiet_resolvePolicies: "quiet (resolvePolicies E ps)"
  by (induction ps) (auto intro!: emits_intros quiet_ResolveScope)

lemma quiet_resolveOverrides: "quiet (resolveOverrides E vs)"
  by (induction vs) (auto intro!: emits_intros quiet_ResolveScope)

lemma quiet_clients [emits_intros]:
  "quiet (getTarget E l k)" "quiet (updateTarget E t)" "quiet (statusUpdateTarget E t)"
  "quiet (listPolicies E ns)" "quiet (listOverrides E ns)" "quiet (listHPAs E ns)"
  "quiet (getNamespace E ns)" "quiet (recordAction a m ok)" "quiet (recordReconciliation d)"
  "quiet (getDeployment E l k)" "quiet (getStatefulSet E l k)" "quiet (getCronJob E l k)"
  by (simp_all add: client_defs workload_call_defs emits_call)

lemma quiet_loads [emits_intros]: "quiet (loadPolicies E R)" "quiet (loadOverrides E R)"
  unfolding loadPolicies_def loadOverrides_def
  by (intro emits_intros quiet_resolvePolicies quiet_resolveOverrides)+

lemma quiet_liveWorkload [emits_intros]: "quiet (liveWorkload E ref)"
  unfolding liveWorkload_def by (intro emits_intros)

lemma quiet_liveNotificationSuppression [emits_intros]: "quiet (liveNotificationSuppression E R ref)"
  unfolding liveNotificationSuppression_def by (intro emits_intros)

lemma quiet_liveHPAOptIn [emits_intros]: "quiet (liveHPAOptIn E R ref)"
  unfolding liveHPAOptIn_def by (intro emits_intros)

lemma quiet_failClosed [emits_intros]: "quiet (failClosed E t m e w)"
  unfolding failClosed_def by (intro emits_intros)

lemma quiet_admitLiveHPA [emits_intros]: "quiet (admitLiveHPA E R t ref)"
  unfolding admitLiveHPA_def by (intro emits_intros)

lemma quiet_completeAction [emits_intros]: "quiet (completeAction E t p m)"
  unfolding completeAction_def by (intro emits_intros) simp

lemma quiet_observeAction [emits_intros]: "quiet (observeAction E t ref d ob)"
  unfolding observeAction_def Let_def by (intro emits_intros) simp_all

lemma quiet_reconcileExistingAction [emits_intros]: "quiet (reconcileExistingAction E t ref d ob)"
  unfolding reconcileExistingAction_def by (intro emits_intros) simp

lemma quiet_beginAction [emits_intros]: "quiet (beginAction E R t d ref a n)"
  unfolding beginAction_def Let_def by (intro emits_intros) simp

lemma quiet_persistStatus [emits_intros]: "quiet (persistStatus E R st t start)"
  unfolding persistStatus_def by (intro emits_intros) simp

lemma quiet_recordAudit [emits_intros]: "audit_quiet R \<Longrightarrow> quiet (recordAudit E R t ref a r m n)"
  unfolding recordAudit_def audit_quiet_def
  by (intro emits_intros) (auto split: option.split)

lemma quiet_reconcilePendingAudit [emits_intros]: "audit_quiet R \<Longrightarrow> quiet (reconcilePendingAudit E R t ref m)"
  unfolding reconcilePendingAudit_def audit_quiet_def Let_def
  by (intro emits_intros) auto

lemma quiet_checkpointApplied [emits_intros]: "audit_quiet R \<Longrightarrow> quiet (checkpointApplied E R req ref d t a w)"
  unfolding checkpointApplied_def Let_def by (intro emits_intros) simp_all

section \<open>What the checks establish\<close>

lemma liveWorkload_run:
  assumes "run_state (liveWorkload E ref) tr = (Inr w, tr')"
    and "ref_Kind ref \<in> {WorkloadKindDeployment, WorkloadKindStatefulSet}"
  obtains d where "wl_Meta d = w"
    and "{GetDeployment True (ref_key ref) (Inr d), GetStatefulSet True (ref_key ref) (Inr d)} \<inter> set tr' \<noteq> {}"
  using assms
  by (auto simp: liveWorkload_def workload_call_defs split: if_splits sum.splits)

lemma liveHPAOptIn_True:
  assumes "run_state (liveHPAOptIn E R ref) tr = (Inr True, tr')"
  shows "live_opt_in (rec_Config R) ref tr'"
proof -
  have k: "ref_Kind ref \<in> {WorkloadKindDeployment, WorkloadKindStatefulSet}"
    using assms by (auto simp: liveHPAOptIn_def split: if_splits)
  obtain w tr1 where w: "run_state (liveWorkload E ref) tr = (Inr w, tr1)"
    using assms k by (auto simp: liveHPAOptIn_def split: if_splits prod.splits sum.splits)
  obtain d where d: "wl_Meta d = w"
    "{GetDeployment True (ref_key ref) (Inr d), GetStatefulSet True (ref_key ref) (Inr d)} \<inter> set tr1 \<noteq> {}"
    using w k by (rule liveWorkload_run)
  obtain ns where ns: "env_GetNamespace E tr1 True (ref_Namespace ref) = Inr ns" "om_UID w = ref_UID ref"
    "tr' = GetNamespace True (ref_Namespace ref) (Inr ns) # tr1"
    "go_get (om_Annotations w) (gc_OptInAnnotation (rec_Config R)) = ''true'' \<or>
     go_get (om_Annotations ns) (gc_OptInAnnotation (rec_Config R)) = ''true''"
    using assms k w by (auto simp: liveHPAOptIn_def getNamespace_def split: if_splits sum.splits)
  show ?thesis
    unfolding live_opt_in_def using d ns by (intro exI[of _ d] exI[of _ ns]) auto
qed

lemma admitLiveHPA_admits:
  assumes "run_state (admitLiveHPA E R t ref) tr = ((True, er, t'), tr')" and "rec_APIReader R"
  shows "hpa_cleared (rec_Config R) ref tr'"
proof -
  obtain hpas where h: "env_ListHPAs E tr True (ref_Namespace ref) = Inr hpas"
    using assms by (auto simp: admitLiveHPA_def listHPAs_def failClosed_def statusUpdateTarget_def Let_def
        split: sum.splits)
  let ?l = "ListHPAs True (ref_Namespace ref) (Inr hpas)"
  show ?thesis
  proof (cases "list_ex (hpa_targets ref) hpas")
    case False
    with assms h show ?thesis
      by (auto simp: admitLiveHPA_def listHPAs_def hpa_cleared_def list_ex_iff)
  next
    case True
    obtain r tr1 where r: "run_state (liveHPAOptIn E R ref) (?l # tr) = (r, tr1)" by fastforce
    have "r = Inr True \<and> tr' = tr1"
      using assms h True r
      by (auto simp: admitLiveHPA_def listHPAs_def failClosed_def statusUpdateTarget_def Let_def
          split: sum.splits if_splits)
    moreover have "set (?l # tr) \<subseteq> set tr1" by (rule emits_grows[OF quiet_liveHPAOptIn r])
    ultimately show ?thesis using liveHPAOptIn_True r by (auto simp: hpa_cleared_def)
  qed
qed

lemma intent_of_beginAction:
  obtains x where "ts_Action (pt_Status (initializeActionAudit E
      (set_status (\<lambda>st. st\<lparr>ts_Action := Some (newAction t d disp now)\<rparr>) t') ref a n)) = Some x"
    and "act_Phase x = ''InProgress''" and "act_DesiredState x = dec_DesiredState d"
    and "act_DecisionKey x = powerDecisionKey d"
  by (simp add: initializeActionAudit_def set_action_def set_status_def newAction_def Let_def)

lemma beginAction_ok:
  assumes "run_state (beginAction E R t d ref a n) tr = ((None, t'), tr')"
  shows "intent_recorded d t' tr' \<and> rec_APIReader R"
proof -
  obtain disp tr1 where l: "run_state (liveNotificationSuppression E R ref) tr = (Inr disp, tr1)"
    using assms by (auto simp: beginAction_def split: prod.splits sum.splits)
  then have "rec_APIReader R"
    by (auto simp: liveNotificationSuppression_def split: if_splits)
  moreover
  define sent where "sent = initializeActionAudit E
      (set_status (\<lambda>st. st\<lparr>ts_Action := Some (newAction t d disp (env_Now E tr1))\<rparr>) t) ref a n"
  obtain x where x: "ts_Action (pt_Status sent) = Some x" "act_Phase x = ''InProgress''"
    "act_DesiredState x = dec_DesiredState d" "act_DecisionKey x = powerDecisionKey d"
    unfolding sent_def by (rule intent_of_beginAction)
  let ?key = "\<lparr>nn_Namespace = om_Namespace (pt_Meta t'), nn_Name = om_Name (pt_Meta t')\<rparr>"
  have "\<exists>persisted. tr' = GetTarget True ?key (Inr persisted) # StatusUpdateTarget sent (Inr t') # Now (env_Now E tr1) # tr1 \<and>
      actionIntentPersisted (ts_Action (pt_Status persisted)) (ts_Action (pt_Status t'))"
    using assms l
    by (auto simp: beginAction_def client_defs time_Now_def Let_def simp flip: sent_def split: sum.splits if_splits)
  then obtain persisted where p: "tr' = GetTarget True ?key (Inr persisted) # StatusUpdateTarget sent (Inr t') # Now (env_Now E tr1) # tr1"
      "actionIntentPersisted (ts_Action (pt_Status persisted)) (ts_Action (pt_Status t'))"
    by blast
  then have "intent_recorded d t' tr'"
    unfolding intent_recorded_def
    by (intro exI[of _ sent] exI[of _ x] exI[of _ ?key] exI[of _ persisted]) (simp add: x)
  ultimately show ?thesis by blast
qed

section \<open>Reconciliation is guarded\<close>

locale reconciler_ports = workload_executor "rec_Executor R" for R :: TargetReconciler +
  assumes audit_leaves_workloads: "audit_quiet R"
begin

lemma quiet_capture: "quiet (captureAndPersistSnapshot E R t ref)"
  unfolding captureAndPersistSnapshot_def Let_def
  by (intro emits_intros emits_mono[OF capture_reads]) (simp_all add: read_not_write)

lemma executePowerDown_guarded:
  "guarded (\<lambda>e _. \<exists>s. available t = Some s \<and> off_write ref (snapshot_of s (sn_ResourceVersion s)) e)
     (executePowerDown R t ref) tr"
proof (cases "available t")
  case None
  then show ?thesis by (simp add: executePowerDown_def quiet_guarded)
next
  case (Some s)
  have "guarded (\<lambda>e _. off_write ref (snapshot_of s (sn_ResourceVersion s)) e)
      (ex_PowerDown (rec_Executor R) ref (snapshot_of s (sn_ResourceVersion s))) tr"
    by (rule contract_guarded[OF powerdown_contract]) (rule read_not_write)
  then show ?thesis using Some by (simp add: executePowerDown_def snapshot_of_def)
qed

lemma executeRestore_guarded:
  "guarded (\<lambda>e _. \<exists>s. available t = Some s \<and> restore_write ref (snapshot_of s '''') e)
     (executeRestore R t ref) tr"
proof (cases "available t")
  case None
  then show ?thesis by (simp add: executeRestore_def quiet_guarded)
next
  case (Some s)
  have "guarded (\<lambda>e _. restore_write ref (snapshot_of s '''') e)
      (ex_Restore (rec_Executor R) ref (snapshot_of s '''')) tr"
    by (rule contract_guarded[OF restore_contract]) (rule read_not_write)
  then show ?thesis using Some by (simp add: executeRestore_def snapshot_of_def)
qed

lemma restore_authorisedI:
  assumes "run_state (beginAction E R t d ref a n) tr = ((None, t1), tr1)"
  shows "guarded (restore_authorised ref d) (executeRestore R t1 ref) tr1"
  using executeRestore_guarded
proof (rule guarded_weaken)
  fix e tr' assume "set tr1 \<subseteq> set tr'" and "\<exists>s. available t1 = Some s \<and> restore_write ref (snapshot_of s '''') e"
  moreover have "intent_recorded d t1 tr1" using beginAction_ok[OF assms] by blast
  ultimately show "restore_authorised ref d e tr'"
    unfolding restore_authorised_def using intent_recorded_mono by blast
qed

lemma down_authorisedI:
  assumes "run_state (admitLiveHPA E R t ref) tr = ((True, er, t0), tr0)"
    and "run_state (beginAction E R t0 d ref a n) tr0 = ((None, t1), tr1)"
  shows "guarded (down_authorised (rec_Config R) ref d) (executePowerDown R t1 ref) tr1"
  using executePowerDown_guarded
proof (rule guarded_weaken)
  fix e tr' assume sub: "set tr1 \<subseteq> set tr'"
    and s: "\<exists>s. available t1 = Some s \<and> off_write ref (snapshot_of s (sn_ResourceVersion s)) e"
  have "set tr0 \<subseteq> set tr1" by (rule emits_grows[OF quiet_beginAction assms(2)])
  moreover have "intent_recorded d t1 tr1" "rec_APIReader R" using beginAction_ok[OF assms(2)] by blast+
  ultimately have "intent_recorded d t1 tr'" "hpa_cleared (rec_Config R) ref tr'"
    using sub admitLiveHPA_admits[OF assms(1)] intent_recorded_mono hpa_cleared_mono
    by (blast, meson subset_trans)
  with s show "down_authorised (rec_Config R) ref d e tr'"
    unfolding down_authorised_def by blast
qed

lemmas tails = emits_intros quiet_recordAudit[OF audit_leaves_workloads]
  quiet_checkpointApplied[OF audit_leaves_workloads]

lemma reconcileRestore_guarded:
  "guarded (restore_authorised ref d) (reconcileRestore E R req ref d t) tr"
  unfolding reconcileRestore_def
  apply (rule guarded_then[OF quiet_beginAction])
  apply (rule guarded_prod)
  apply (rule guarded_option)
  subgoal premises b
    using b by (intro guarded_finish restore_authorisedI) (auto intro!: tails simp: Let_def)
  subgoal by (simp add: quiet_guarded)
  done

lemma reconcilePowerDown_guarded:
  "guarded (down_authorised (rec_Config R) ref d) (reconcilePowerDown E R req ref d t) tr"
  unfolding reconcilePowerDown_def
  apply (rule guarded_then)
  subgoal by (intro emits_intros quiet_capture)
  apply (rule guarded_prod)
  apply (rule guarded_option)
  subgoal
    apply (rule guarded_then[OF quiet_admitLiveHPA])
    apply (intro guarded_prod guarded_if guarded_return)
    apply (rule guarded_then[OF quiet_beginAction])
    apply (rule guarded_prod)
    apply (rule guarded_option)
    subgoal by (rule guarded_finish, rule down_authorisedI, simp, simp) (auto intro!: tails simp: Let_def)
    subgoal by simp
    done
  subgoal by (rule quiet_guarded) (auto intro!: tails simp: Let_def)
  done

text \<open>What justifies the write, given the decision: its direction agrees with decision and observation.\<close>

lemma actOnDecision_guarded:
  "guarded (\<lambda>e tr'. \<not> IsBlocked d \<and> IsManaged d \<and>
       (let observed = PowerStateFromObserved (tgt_ObservedState dt) (ref_Kind (tgt_Ref dt)) in
        dec_DesiredState d = PowerStateOff \<and> observed = PowerStateOn \<and> down_authorised (rec_Config R) (tgt_Ref dt) d e tr' \<or>
        dec_DesiredState d = PowerStateOn \<and> observed = PowerStateOff \<and> restore_authorised (tgt_Ref dt) d e tr'))
     (actOnDecision E R req dt d st t start) tr"
  unfolding actOnDecision_def Let_def
  apply (rule guarded_if)
  subgoal
    apply (rule guarded_then[OF quiet_reconcileExistingAction])
    apply (intro guarded_prod guarded_if guarded_return)
    subgoal by (rule guarded_weaken[OF reconcilePowerDown_guarded]) simp
    subgoal by (rule guarded_weaken[OF reconcileRestore_guarded]) simp
    subgoal by (rule quiet_guarded[OF quiet_persistStatus])
    done
  subgoal by (rule quiet_guarded[OF quiet_persistStatus])
  done

end

section \<open>The evidence for a decision\<close>

text \<open>
  The decision was computed in this run: from a target read from the API, from rules each of which
  is a listed object with a resolved scope, at a time read from the clock.
\<close>

definition decided :: "env \<Rightarrow> TargetReconciler \<Rightarrow> NamespacedName \<Rightarrow> PowerTarget \<Rightarrow> Decision \<Rightarrow> trace \<Rightarrow> bool" where
  "decided E R req t d tr \<longleftrightarrow>
     (\<exists>ps vs policies overrides now.
        {GetTarget False req (Inr t), ListPolicies (rec_ControlNamespace R) (Inr ps),
         ListOverrides (rec_ControlNamespace R) (Inr vs), Now now} \<subseteq> set tr \<and>
        (\<forall>q\<in>set policies. \<exists>p\<in>set ps. \<exists>sc. q = (toDomainPolicy p)\<lparr>pol_Scope := sc\<rparr>) \<and>
        (\<forall>q\<in>set overrides. \<exists>v\<in>set vs. \<exists>sc. q = (toDomainOverride v)\<lparr>ovr_Scope := sc\<rparr>) \<and>
        d = ComputeDecision (env_tzdb E) (toDomainTarget t) policies overrides (rec_Config R) now)"

lemma decided_mono: "decided E R req t d tr \<Longrightarrow> set tr \<subseteq> set tr' \<Longrightarrow> decided E R req t d tr'"
  unfolding decided_def
  by (elim exE conjE, intro exI conjI) (erule (1) subset_trans, assumption+)

lemma resolvePolicies_from:
  "run_state (resolvePolicies E ps) tr = (qs, tr') \<Longrightarrow> q \<in> set qs \<Longrightarrow>
   \<exists>p\<in>set ps. \<exists>sc. q = (toDomainPolicy p)\<lparr>pol_Scope := sc\<rparr>"
  by (induction ps arbitrary: tr qs tr') (fastforce split: prod.splits sum.splits)+

lemma resolveOverrides_from:
  "run_state (resolveOverrides E vs) tr = (qs, tr') \<Longrightarrow> q \<in> set qs \<Longrightarrow>
   \<exists>v\<in>set vs. \<exists>sc. q = (toDomainOverride v)\<lparr>ovr_Scope := sc\<rparr>"
  by (induction vs arbitrary: tr qs tr') (fastforce split: prod.splits sum.splits)+

lemma loadPolicies_from:
  assumes "run_state (loadPolicies E R) tr = (Inr policies, tr')"
  obtains ps where "ListPolicies (rec_ControlNamespace R) (Inr ps) \<in> set tr'"
    and "\<forall>q\<in>set policies. \<exists>p\<in>set ps. \<exists>sc. q = (toDomainPolicy p)\<lparr>pol_Scope := sc\<rparr>"
proof -
  obtain ps where l: "env_ListPolicies E tr (rec_ControlNamespace R) = Inr ps"
    using assms by (auto simp: loadPolicies_def listPolicies_def namespaceListOptions_def split: sum.splits)
  then have r: "run_state (resolvePolicies E ps) (ListPolicies (rec_ControlNamespace R) (Inr ps) # tr) = (policies, tr')"
    using assms by (simp add: loadPolicies_def listPolicies_def namespaceListOptions_def split: prod.splits)
  have "ListPolicies (rec_ControlNamespace R) (Inr ps) \<in> set tr'"
    using emits_grows[OF quiet_resolvePolicies r] by simp
  with resolvePolicies_from[OF r] that show thesis by blast
qed

lemma loadOverrides_from:
  assumes "run_state (loadOverrides E R) tr = (Inr overrides, tr')"
  obtains vs where "ListOverrides (rec_ControlNamespace R) (Inr vs) \<in> set tr'"
    and "\<forall>q\<in>set overrides. \<exists>v\<in>set vs. \<exists>sc. q = (toDomainOverride v)\<lparr>ovr_Scope := sc\<rparr>"
proof -
  obtain vs where l: "env_ListOverrides E tr (rec_ControlNamespace R) = Inr vs"
    using assms by (auto simp: loadOverrides_def listOverrides_def namespaceListOptions_def split: sum.splits)
  then have r: "run_state (resolveOverrides E vs) (ListOverrides (rec_ControlNamespace R) (Inr vs) # tr) = (overrides, tr')"
    using assms by (simp add: loadOverrides_def listOverrides_def namespaceListOptions_def split: prod.splits)
  have "ListOverrides (rec_ControlNamespace R) (Inr vs) \<in> set tr'"
    using emits_grows[OF quiet_resolveOverrides r] by simp
  with resolveOverrides_from[OF r] that show thesis by blast
qed

text \<open>The justification of a workload write by everything that happened before it in the run.\<close>

definition authorised :: "env \<Rightarrow> TargetReconciler \<Rightarrow> NamespacedName \<Rightarrow> event \<Rightarrow> trace \<Rightarrow> bool" where
  "authorised E R req e tr \<longleftrightarrow>
     (\<exists>t d. decided E R req t d tr \<and> tref_UID (pt_TargetRef t) \<noteq> '''' \<and> IsManaged d \<and> \<not> IsBlocked d \<and>
        (let ref = tgt_Ref (toDomainTarget t);
             observed = PowerStateFromObserved (tgt_ObservedState (toDomainTarget t)) (ref_Kind ref)
         in dec_DesiredState d = PowerStateOff \<and> observed = PowerStateOn \<and> down_authorised (rec_Config R) ref d e tr \<or>
            dec_DesiredState d = PowerStateOn \<and> observed = PowerStateOff \<and> restore_authorised ref d e tr))"

lemma decidedI:
  assumes "run_state (getTarget E False req) tr0 = (Inr t, tr1)"
    and "run_state (loadPolicies E R) tr1 = (Inr policies, tr2)"
    and "run_state (loadOverrides E R) tr2 = (Inr overrides, tr3)"
    and "run_state (time_Now E) tr3 = (now, tr4)"
  shows "decided E R req t (ComputeDecision (env_tzdb E) (toDomainTarget t) policies overrides (rec_Config R) now) tr4"
proof -
  have "GetTarget False req (Inr t) \<in> set tr1" using assms(1) by (auto simp: getTarget_def)
  moreover obtain ps where "ListPolicies (rec_ControlNamespace R) (Inr ps) \<in> set tr2"
    "\<forall>q\<in>set policies. \<exists>p\<in>set ps. \<exists>sc. q = (toDomainPolicy p)\<lparr>pol_Scope := sc\<rparr>"
    using assms(2) by (rule loadPolicies_from)
  moreover obtain vs where "ListOverrides (rec_ControlNamespace R) (Inr vs) \<in> set tr3"
    "\<forall>q\<in>set overrides. \<exists>v\<in>set vs. \<exists>sc. q = (toDomainOverride v)\<lparr>ovr_Scope := sc\<rparr>"
    using assms(3) by (rule loadOverrides_from)
  moreover have "tr4 = Now now # tr3" using assms(4) by (auto simp: time_Now_def)
  moreover have "set tr1 \<subseteq> set tr2" "set tr2 \<subseteq> set tr3"
    using emits_grows[OF quiet_loads(1) assms(2)] emits_grows[OF quiet_loads(2) assms(3)] by blast+
  ultimately show ?thesis
    unfolding decided_def
    by (intro exI[of _ ps] exI[of _ vs] exI[of _ policies] exI[of _ overrides] exI[of _ now]) auto
qed

lemma ref_UID_toDomainTarget [simp]: "ref_UID (tgt_Ref (toDomainTarget t)) = tref_UID (pt_TargetRef t)"
  by (simp add: toDomainTarget_def Let_def)

context reconciler_ports
begin

lemma actOnDecision_authorised:
  assumes "decided E R req t d tr" and "ref_UID (tgt_Ref (toDomainTarget t)) \<noteq> ''''"
  shows "guarded (authorised E R req) (actOnDecision E R req (toDomainTarget t) d st t' start) tr"
  using actOnDecision_guarded
proof (rule guarded_weaken, elim conjE)
  fix e tr' assume "set tr \<subseteq> set tr'"
  with assms(1) have "decided E R req t d tr'" by (rule decided_mono)
  moreover assume "\<not> IsBlocked d" "IsManaged d"
    "let observed = PowerStateFromObserved (tgt_ObservedState (toDomainTarget t)) (ref_Kind (tgt_Ref (toDomainTarget t))) in
     dec_DesiredState d = PowerStateOff \<and> observed = PowerStateOn \<and> down_authorised (rec_Config R) (tgt_Ref (toDomainTarget t)) d e tr' \<or>
     dec_DesiredState d = PowerStateOn \<and> observed = PowerStateOff \<and> restore_authorised (tgt_Ref (toDomainTarget t)) d e tr'"
  ultimately show "authorised E R req e tr'"
    unfolding authorised_def using assms(2) by (intro exI[of _ t] exI[of _ d]) (simp add: Let_def)
qed

lemma Reconcile_guarded: "guarded (authorised E R req) (Reconcile E R req) tr"
  unfolding Reconcile_def
  apply (rule guarded_if, rule guarded_return)
  apply (rule guarded_then, (intro emits_intros; simp))
  apply (rule guarded_then[OF quiet_clients(1)])
  apply (rule guarded_sum, rule guarded_return)
  apply (rule guarded_then[OF quiet_loads(1)])
  apply (rule guarded_sum, rule guarded_return)
  apply (rule guarded_then[OF quiet_loads(2)])
  apply (rule guarded_sum, rule guarded_return)
  apply (unfold Let_def)
  apply (rule guarded_if, rule guarded_return)
  apply (rule guarded_then, (intro emits_intros; simp))
  apply (rule guarded_then, (intro emits_intros))
  apply (rule guarded_sum, rule guarded_return)
  apply (rule guarded_then[OF quiet_reconcilePendingAudit[OF audit_leaves_workloads]])
  apply (intro guarded_prod guarded_if guarded_return)
  subgoal premises p
    by (rule actOnDecision_authorised, rule decided_mono, rule decidedI[OF p(3)[unfolded p(4)] p(5)[unfolded p(6)] p(7)[unfolded p(8)] p(10)])
      (use emits_grows[OF _ p(11)] emits_grows[OF quiet_reconcilePendingAudit[OF audit_leaves_workloads] p(13)] p(9)
        in \<open>auto intro: emits_intros\<close>)
  done

end

section \<open>The production wiring\<close>

text \<open>The reconciler as the controller's \<open>main\<close> sets it up.\<close>

definition targetReconciler :: "env \<Rightarrow> AuditRecorder \<Rightarrow> GuardrailConfig \<Rightarrow> string \<Rightarrow> go_duration \<Rightarrow> TargetReconciler" where
  "targetReconciler E A guardrailConfig controlNamespace interval =
     \<lparr>rec_ControlNamespace = controlNamespace, rec_APIReader = True, rec_Config = guardrailConfig,
      rec_Executor = NewExecutor E, rec_Audit = Some (Record E A), rec_RequeueAfter = interval\<rparr>"

lemma audit_call_quiet: "audit_call e \<Longrightarrow> \<not> workload_write e"
  by (cases e) simp_all

interpretation wired: reconciler_ports "targetReconciler E A c ns q" for E A c ns q
proof -
  have x: "rec_Executor (targetReconciler E A c ns q) = NewExecutor E" by (simp add: targetReconciler_def)
  have "workload_executor (rec_Executor (targetReconciler E A c ns q))"
    unfolding x by (rule k8s.workload_executor_axioms)
  moreover have "audit_quiet (targetReconciler E A c ns q)"
    using emits_mono[OF emits_Record audit_call_quiet] by (simp add: audit_quiet_def targetReconciler_def)
  ultimately show "reconciler_ports (targetReconciler E A c ns q)"
    by (simp add: reconciler_ports_def reconciler_ports_axioms_def)
qed

section \<open>Settled actions\<close>

lemma observeAction_settled:
  assumes "ts_Action (pt_Status t) = Some a" and "\<not> actionSuperseded t a d" and "act_Phase a \<noteq> ''InProgress''"
    and "run_state (observeAction E t ref d ob) tr = ((h, err, t'), tr')"
  shows "h \<or> err \<noteq> None \<or> ob = dec_DesiredState d"
  using assms
  by (auto simp: observeAction_def Let_def split: if_splits option.splits prod.splits sum.splits)

lemma reconcileExistingAction_settled:
  assumes "ts_Action (pt_Status t) = Some a" and "\<not> actionSuperseded t a d" and "act_Phase a \<noteq> ''InProgress''"
    and "run_state (reconcileExistingAction E t ref d ob) tr = ((h, err, t'), tr')"
  shows "h \<or> err \<noteq> None \<or> ob = dec_DesiredState d"
proof (cases "alreadyRestored t (dec_DesiredState d) ob")
  case True
  then show ?thesis by (simp add: alreadyRestored_def)
next
  case False
  with assms(4) have "run_state (observeAction E t ref d ob) tr = ((h, err, t'), tr')"
    by (simp add: reconcileExistingAction_def)
  with assms(1-3) show ?thesis by (rule observeAction_settled)
qed

lemma actOnDecision_settled:
  assumes "ts_Action (pt_Status t) = Some a" and "\<not> actionSuperseded t a d" and "act_Phase a \<noteq> ''InProgress''"
  shows "guarded (\<lambda>_ _. False) (actOnDecision E R req dt d st t start) tr"
  unfolding actOnDecision_def Let_def
  apply (rule guarded_if)
  subgoal
    apply (rule guarded_then[OF quiet_reconcileExistingAction])
    apply (intro guarded_prod guarded_if guarded_return)
    subgoal premises p using reconcileExistingAction_settled[OF assms p(2)[unfolded p(3,4)]] p(5-) by auto
    subgoal premises p using reconcileExistingAction_settled[OF assms p(2)[unfolded p(3,4)]] p(5-) by auto
    subgoal by (rule quiet_guarded[OF quiet_persistStatus])
    done
  subgoal by (rule quiet_guarded[OF quiet_persistStatus])
  done

lemma guarded_False: "guarded (\<lambda>_ _. False) m tr \<Longrightarrow>
  \<exists>new. snd (run_state m tr) = new @ tr \<and> (\<forall>e\<in>set new. \<not> workload_write e)"
  unfolding guarded_def by (metis in_set_conv_decomp)

section \<open>A concrete run\<close>

text \<open>
  A cluster for examples: one Deployment with three replicas, one policy that wants the namespace
  \<open>dev\<close> off, no autoscaler, and an API server that stores what it is sent.
\<close>

definition off_policy :: PowerPolicy where
  "off_policy = \<lparr>pp_Meta = (png_Meta dev_group)\<lparr>om_Name := ''nights''\<rparr>,
     pp_Spec = \<lparr>pps_Scope = group_scope\<lparr>scope_Namespaces := [''dev''], scope_NamespaceGroups := []\<rparr>,
       pps_Schedule = \<lparr>psch_Windows = [], psch_DesiredState = ''off''\<rparr>,
       pps_Priority = 10, pps_Description = ''off''\<rparr>,
     pp_Status = \<lparr>ppst_Conditions = [], ppst_AffectedTargets = 0, ppst_ActiveWindow = False,
       ppst_NextTransition = None\<rparr>\<rparr>"

fun stored_target :: "trace \<Rightarrow> PowerTarget" where
  "stored_target (StatusUpdateTarget t _ # tr) = t"
| "stored_target (e # tr) = stored_target tr"
| "stored_target [] = web_target"

fun stored_audit :: "trace \<Rightarrow> PowerAuditEvent result" where
  "stored_audit (CreateAuditEvent a _ # tr) = Inr a"
| "stored_audit (e # tr) = stored_audit tr"
| "stored_audit [] = Inl not_found"

definition dev_cluster :: env where
  "dev_cluster = empty_cluster\<lparr>
     env_GetTarget := (\<lambda>tr _ _. Inr (stored_target tr)), env_ListPolicies := (\<lambda>_ _. Inr [off_policy]),
     env_ListOverrides := (\<lambda>_ _. Inr []), env_ListHPAs := (\<lambda>_ _ _. Inr []),
     env_GetDeployment := (\<lambda>_ _ _. Inr web_deployment),
     env_GetNamespace := (\<lambda>_ _ _. Inr ((png_Meta dev_group)\<lparr>om_Name := ''dev''\<rparr>)),
     env_GetAuditEvent := (\<lambda>tr _. stored_audit tr)\<rparr>"

definition dev_request :: NamespacedName where
  "dev_request = \<lparr>nn_Namespace = ''aura'', nn_Name = ''dev-web''\<rparr>"

definition dev_run :: "outcome \<times> trace" where
  "dev_run = run_state (Reconcile dev_cluster
     (targetReconciler dev_cluster sample_recorder DefaultGuardrailConfig ''aura'' (30 * Second)) dev_request) []"

lemma write_split:
  assumes "filter workload_write xs \<noteq> []"
  obtains post e pre where "workload_write e" and "xs = post @ e # pre"
  using assms by (metis filter_empty_conv split_list)

lemma dev_run_writes:
  "filter workload_write (snd dev_run) =
     [UpdateDeployment (web_deployment\<lparr>wl_Replicas := Some 0\<rparr>) (Inr (web_deployment\<lparr>wl_Replicas := Some 0\<rparr>))]"
  by code_simp

text \<open>The same workload in a protected namespace, powered off, with a policy that wants it on.\<close>

definition frozen_target :: PowerTarget where
  "frozen_target = web_target\<lparr>pt_TargetRef := (pt_TargetRef web_target)\<lparr>tref_Namespace := ''kube-system''\<rparr>,
     pt_Status := (pt_Status web_target)\<lparr>
       ts_ObservedState := \<lparr>oss_Replicas = 0, oss_Suspended = False, oss_ActiveJobs = 0, oss_PowerState = ''off''\<rparr>,
       ts_Snapshot := Some \<lparr>sn_Available = True, sn_ReplicaCount = Some 3, sn_Suspended = None,
         sn_Resources = \<lparr>res_CPUMillicores = 0, res_MemoryMiB = 0\<rparr>, sn_CapturedAt = None, sn_ResourceVersion = ''42''\<rparr>\<rparr>\<rparr>"

fun stored_frozen :: "trace \<Rightarrow> PowerTarget" where
  "stored_frozen (StatusUpdateTarget t _ # tr) = t"
| "stored_frozen (e # tr) = stored_frozen tr"
| "stored_frozen [] = frozen_target"

definition thaw_cluster :: env where
  "thaw_cluster = dev_cluster\<lparr>
     env_GetTarget := (\<lambda>tr live _. Inr (if live then stored_frozen tr else frozen_target)),
     env_ListPolicies := (\<lambda>_ _. Inr [off_policy\<lparr>pp_Spec := (pp_Spec off_policy)\<lparr>
       pps_Scope := group_scope\<lparr>scope_Namespaces := [''kube-system''], scope_NamespaceGroups := []\<rparr>,
       pps_Schedule := \<lparr>psch_Windows = [], psch_DesiredState = ''on''\<rparr>\<rparr>\<rparr>]),
     env_GetDeployment := (\<lambda>_ _ _. Inr (web_deployment\<lparr>wl_Replicas := Some 0\<rparr>))\<rparr>"

definition thaw_run :: "outcome \<times> trace" where
  "thaw_run = run_state (Reconcile thaw_cluster
     (targetReconciler thaw_cluster sample_recorder DefaultGuardrailConfig ''aura'' (30 * Second)) dev_request) []"

lemma thaw_run_writes: "filter workload_write (snd thaw_run) = [UpdateDeployment web_deployment (Inr web_deployment)]"
  by code_simp

lemma guarded_at: "guarded P m [] \<Longrightarrow> snd (run_state m []) = post @ e # pre \<Longrightarrow> workload_write e \<Longrightarrow> P e pre"
  by (simp add: guarded_def)

text \<open>In a protected namespace an authorised write restores.\<close>

lemma authorised_protected:
  assumes "authorised E (targetReconciler E A c ns q) req e pre"
    and "\<And>t. GetTarget False req (Inr t) \<in> set pre \<Longrightarrow>
      tref_Namespace (pt_TargetRef t) \<in> set (gc_SystemNamespaces c) \<union> set (gc_CustomBlocklist c)"
  shows "\<exists>ref d. dec_DesiredState d = PowerStateOn \<and> restore_authorised ref d e pre"
proof -
  obtain t d where d: "decided E (targetReconciler E A c ns q) req t d pre" "\<not> IsBlocked d"
    and cases: "dec_DesiredState d = PowerStateOff \<or>
      dec_DesiredState d = PowerStateOn \<and> restore_authorised (tgt_Ref (toDomainTarget t)) d e pre"
    using assms(1) by (auto simp: authorised_def Let_def)
  obtain policies overrides now where dd: "GetTarget False req (Inr t) \<in> set pre"
    "d = ComputeDecision (env_tzdb E) (toDomainTarget t) policies overrides c now"
    using d(1) by (auto simp: decided_def targetReconciler_def)
  have "IsSystemNamespace (ref_Namespace (tgt_Ref (toDomainTarget t))) c"
    using assms(2)[OF dd(1)] by (simp add: IsSystemNamespace_iff toDomainTarget_def Let_def)
  then have "dec_DesiredState d \<noteq> PowerStateOff"
    using d(2) ComputeDecision_not_exempt[of "env_tzdb E" "toDomainTarget t" policies overrides c now]
    by (auto simp: dd(2) ComputeDecision_blocked_iff EvaluateGuardrails_Nil_iff)
  with cases show ?thesis by blast
qed

section \<open>Properties\<close>

text \<open>
  C1. Safety of reconciliation, for every behaviour of the API server and every starting point: one
  reconciliation makes at most one write to a workload.  Before it, in this run, the target and
  all rules were read, and the decision computed from them governs the target, is not blocked and contradicts the
  observed state; the intent was stored as an in-progress action and read back unchanged from the
  API server; an available recovery snapshot was at hand; and for a power-down the live autoscalers were inspected and
  do not scale the workload or are opted in.  A power-down write is zero replicas (or suspension) on the bound
  incarnation at the captured revision, a restoration write the stored value.
\<close>

theorem Reconcile_writes_authorised:
  "\<exists>new. snd (run_state (Reconcile E (targetReconciler E A c ns q) req) tr) = new @ tr \<and>
     length (filter workload_write new) \<le> 1 \<and>
     (\<forall>post e pre. new = post @ e # pre \<longrightarrow> workload_write e \<longrightarrow>
        authorised E (targetReconciler E A c ns q) req e (pre @ tr))"
  by (rule wired.Reconcile_guarded[unfolded guarded_def])

theorem Reconcile_writes_authorised_witness:
  "length (filter workload_write (snd dev_run)) = 1 \<and>
   (\<exists>e pre. e \<in> set (snd dev_run) \<and> workload_write e \<and>
      authorised dev_cluster (targetReconciler dev_cluster sample_recorder DefaultGuardrailConfig ''aura'' (30 * Second))
        dev_request e pre)"
proof -
  obtain e post pre where e: "workload_write e" "snd dev_run = post @ e # pre"
    by (rule write_split[of "snd dev_run"]) (simp_all add: dev_run_writes)
  then have "authorised dev_cluster (targetReconciler dev_cluster sample_recorder DefaultGuardrailConfig ''aura'' (30 * Second))
        dev_request e pre"
    using Reconcile_writes_authorised[of dev_cluster sample_recorder DefaultGuardrailConfig "''aura''" "30 * Second" dev_request "[]"]
    by (simp add: dev_run_def)
  with e dev_run_writes show ?thesis by auto
qed

text \<open>
  C3. No write loops: once a mutation for a decision has been accepted (the action is applied,
  converged or contended, for the same decision key, desired state and retry token), acting on that decision again never writes
  to the workload, whatever the executor does and whatever was observed.
\<close>

theorem settled_action_never_repeated:
  assumes "ts_Action (pt_Status t) = Some a" and "act_DesiredState a = dec_DesiredState d"
    and "act_DecisionKey a = powerDecisionKey d" and "act_Phase a \<in> {''Applied'', ''Converged'', ''Contended''}"
    and "go_get (om_Annotations (pt_Meta t)) retryActionAnnotation = act_RetryToken a"
  shows "\<exists>new. snd (run_state (actOnDecision E R req dt d st t start) tr) = new @ tr \<and>
     (\<forall>e\<in>set new. \<not> workload_write e)"
proof (rule guarded_False, rule actOnDecision_settled)
  show "\<not> actionSuperseded t a d" using assms(2-5) by (auto simp: actionSuperseded_def)
qed (use assms in auto)

definition applied_target :: PowerTarget where
  "applied_target = set_status (\<lambda>st. st\<lparr>ts_Action := Some ((convergedAction web_target zero_Decision 0)\<lparr>act_Phase := ''Applied''\<rparr>)\<rparr>) web_target"

theorem settled_action_never_repeated_witness:
  "\<exists>new. snd (run_state (actOnDecision dev_cluster (targetReconciler dev_cluster sample_recorder DefaultGuardrailConfig ''aura'' 0)
      dev_request (toDomainTarget web_target) zero_Decision (pt_Status web_target) applied_target 0) []) = new @ [] \<and>
     (\<forall>e\<in>set new. \<not> workload_write e)"
  by (rule settled_action_never_repeated[where a = "(convergedAction web_target zero_Decision 0)\<lparr>act_Phase := ''Applied''\<rparr>"])
    (simp_all add: applied_target_def set_status_def convergedAction_def)

text \<open>
  C2. Protected namespaces end to end: if the target read by a reconciliation lies in a system
  namespace or on the blocklist, every write the reconciliation makes to a workload restores it.
\<close>

theorem Reconcile_protected_only_restores:
  assumes "snd (run_state (Reconcile E (targetReconciler E A c ns q) req) []) = post @ e # pre"
    and "workload_write e"
    and "\<And>t. GetTarget False req (Inr t) \<in> set pre \<Longrightarrow>
      tref_Namespace (pt_TargetRef t) \<in> set (gc_SystemNamespaces c) \<union> set (gc_CustomBlocklist c)"
  shows "\<exists>ref d. dec_DesiredState d = PowerStateOn \<and> restore_authorised ref d e pre"
  using authorised_protected[OF guarded_at[OF wired.Reconcile_guarded assms(1,2)] assms(3)] .

theorem Reconcile_protected_only_restores_witness:
  "\<exists>e pre ref d. e \<in> set (snd thaw_run) \<and> workload_write e \<and> dec_DesiredState d = PowerStateOn \<and>
     restore_authorised ref d e pre"
proof -
  obtain e post pre where e: "workload_write e" "snd thaw_run = post @ e # pre"
    by (rule write_split[of "snd thaw_run"]) (simp_all add: thaw_run_writes)
  have reads: "list_all (\<lambda>e. case e of GetTarget l k (Inr t) \<Rightarrow>
      tref_Namespace (pt_TargetRef t) \<in> set (gc_SystemNamespaces DefaultGuardrailConfig) | _ \<Rightarrow> True) (snd thaw_run)"
    by code_simp
  have "\<exists>ref d. dec_DesiredState d = PowerStateOn \<and> restore_authorised ref d e pre"
  proof (rule Reconcile_protected_only_restores)
    show "snd (run_state (Reconcile thaw_cluster
      (targetReconciler thaw_cluster sample_recorder DefaultGuardrailConfig ''aura'' (30 * Second)) dev_request) []) = post @ e # pre"
      using e(2) by (simp add: thaw_run_def)
    fix t assume "GetTarget False dev_request (Inr t) \<in> set pre"
    then have "GetTarget False dev_request (Inr t) \<in> set (snd thaw_run)" by (simp add: e(2))
    from bspec[OF reads[unfolded list_all_iff] this]
    show "tref_Namespace (pt_TargetRef t) \<in> set (gc_SystemNamespaces DefaultGuardrailConfig) \<union>
      set (gc_CustomBlocklist DefaultGuardrailConfig)"
      by simp
  qed (rule e(1))
  with e show ?thesis by (metis in_set_conv_decomp)
qed

end
