(* ===== verification/DiscoverySafety.thy ===== *)
theory DiscoverySafety
  imports DiscoveryLoop TraceInvariants TargetSafety
begin

text \<open>
  What a discovery cycle may destroy and what it may do to a workload.  The lemmas are proved for every
  executor, audit recorder, discoverer and retry helper that honour their contracts (locale
  \<open>discovery_ports\<close>) and used for the wiring of \<open>src/cmd/controller/main.go\<close>.
\<close>

section \<open>The ports\<close>

fun listing :: "event \<Rightarrow> bool" where
  "listing (ListNamespaces _ _) = True"
| "listing (ListDeployments _ _) = True"
| "listing (ListStatefulSets _ _) = True"
| "listing (ListCronJobs _ _) = True"
| "listing (ListHPAs _ _ _) = True"
| "listing _ = False"

lemma emits_DiscoverAll: "emits listing (DiscoverAll E nss)"
  unfolding DiscoverAll_def discovery_call_defs by (intro emits_intros) simp_all

section \<open>What warrants an effect\<close>

text \<open>
  The API server answers with the object that was asked for: a read returns the target with the key, a
  creation the target with the name and namespace that were sent.
\<close>

definition targetKey :: "PowerTarget \<Rightarrow> NamespacedName" where
  "targetKey t = \<lparr>nn_Namespace = om_Namespace (pt_Meta t), nn_Name = om_Name (pt_Meta t)\<rparr>"

definition keyed_targets :: "env \<Rightarrow> bool" where
  "keyed_targets E \<longleftrightarrow> (\<forall>tr l k t. env_GetTarget E tr l k = Inr t \<longrightarrow> targetKey t = k) \<and>
     (\<forall>tr t u. env_CreateTarget E tr t = Inr u \<longrightarrow> targetKey u = targetKey t)"

text \<open>The key of the target that the workload has in this release.\<close>

definition primaryKey :: "env \<Rightarrow> DiscoveryLoop \<Rightarrow> DiscoveredWorkload \<Rightarrow> NamespacedName" where
  "primaryKey E D wl = \<lparr>nn_Namespace = dc_Namespace (dl_Config D), nn_Name = powerTargetName E (dw_Ref wl)\<rparr>"

text \<open>
  A target may be deleted when it is dispensable for the recovery of the workload: the workload runs,
  the target holds no available snapshot, or the target is the one of the older release and the last
  thing that happened is that its snapshot was stored in the workload's target of this release.
\<close>

definition moved :: "env \<Rightarrow> DiscoveryLoop \<Rightarrow> DiscoveredWorkload \<Rightarrow> PowerTarget \<Rightarrow> trace \<Rightarrow> bool" where
  "moved E D wl t tr \<longleftrightarrow> (keyed_targets E \<longrightarrow> targetKey t = legacyKey D wl \<and>
     (\<exists>t' u pre. tr = StatusUpdateTarget t' (Inr u) # pre \<and> targetKey t' = primaryKey E D wl \<and>
        ts_Snapshot (pt_Status t') = ts_Snapshot (pt_Status t)))"

definition dispensable :: "env \<Rightarrow> DiscoveryLoop \<Rightarrow> DiscoveredWorkload \<Rightarrow> PowerTarget \<Rightarrow> trace \<Rightarrow> bool" where
  "dispensable E D wl t tr \<longleftrightarrow> \<not> workloadIsPoweredDown wl \<or> available t = None \<or> moved E D wl t tr"

text \<open>
  A workload may be written to restore it before an exemption: it is exempt and powered down, and the
  write restores the available snapshot of a target that was read, and whose identity does not
  contradict the workload.
\<close>

definition rescued :: "DiscoveryLoop \<Rightarrow> DiscoveredWorkload \<Rightarrow> event \<Rightarrow> trace \<Rightarrow> bool" where
  "rescued D wl e tr \<longleftrightarrow> isExemptWorkload D wl \<and> workloadIsPoweredDown wl \<and>
     (\<exists>k t s. GetTarget False k (Inr t) \<in> set tr \<and> tref_UID (pt_TargetRef t) \<in> {'''', ref_UID (dw_Ref wl)} \<and>
        available t = Some s \<and> restore_write (dw_Ref wl) (snapshot_of s '''') e)"

fun discovery_effect :: "event \<Rightarrow> bool" where
  "discovery_effect (DeleteTarget _ _) = True"
| "discovery_effect e = workload_write e"

definition warranted :: "env \<Rightarrow> DiscoveryLoop \<Rightarrow> DiscoveredWorkload \<Rightarrow> event \<Rightarrow> trace \<Rightarrow> bool" where
  "warranted E D wl e tr \<longleftrightarrow> (\<forall>t r. e = DeleteTarget t r \<longrightarrow> dispensable E D wl t tr) \<and> (workload_write e \<longrightarrow> rescued D wl e tr)"

lemma moved_Cons:
  "targetKey t = legacyKey D wl \<Longrightarrow> targetKey t' = primaryKey E D wl \<Longrightarrow>
   ts_Snapshot (pt_Status t') = ts_Snapshot (pt_Status t) \<Longrightarrow> moved E D wl t (StatusUpdateTarget t' (Inr u) # tr)"
  by (auto simp: moved_def)

lemma rescued_mono: "rescued D wl e tr \<Longrightarrow> set tr \<subseteq> set tr' \<Longrightarrow> rescued D wl e tr'"
  unfolding rescued_def by blast

text \<open>
  Calls of a program that is justified by a fact that only grows.  (The justification of a deletion does
  not grow, it is what happened last, so this is not an instance of \<open>justification\<close>.)
\<close>

lemma justified_stable:
  assumes "emits A m" and "\<And>e tr. A e \<Longrightarrow> relevant e \<Longrightarrow> P tr \<Longrightarrow> G e tr"
    and "\<And>tr tr'. P tr \<Longrightarrow> set tr \<subseteq> set tr' \<Longrightarrow> P tr'"
  shows "hoare (\<lambda>tr. justified relevant G base tr \<and> P tr) m (\<lambda>_. justified relevant G base)"
proof (rule hoareI)
  fix tr a tr' assume P: "justified relevant G base tr \<and> P tr" and run: "run_state m tr = (a, tr')"
  obtain new where new: "tr' = new @ tr" "\<forall>e\<in>set new. A e" using assms(1) run by (rule emitsD)
  have "G e (pre @ tr)" if "new = post @ e # pre" and "relevant e" for post e pre
    using that new(2) P assms(2)[of e "pre @ tr"] assms(3)[of tr "pre @ tr"] by auto
  then have "justified relevant G tr tr'" unfolding justified_def using new(1) by blast
  with P show "justified relevant G base tr'" by (blast intro: justified_trans)
qed

lemma justified_irrelevant: "emits (\<lambda>e. \<not> relevant e) m \<Longrightarrow> keeps (justified relevant G base) m"
  using justified_stable[of "\<lambda>e. \<not> relevant e" m relevant "\<lambda>_. True"] by simp

abbreviation sound :: "env \<Rightarrow> DiscoveryLoop \<Rightarrow> DiscoveredWorkload \<Rightarrow> trace \<Rightarrow> trace \<Rightarrow> bool" where
  "sound E D wl \<equiv> justified discovery_effect (warranted E D wl)"

lemma deleteTarget_sound:
  "hoare (\<lambda>tr. sound E D wl base tr \<and> dispensable E D wl t tr) (deleteTarget E t) (\<lambda>_. sound E D wl base)"
  by (auto simp: hoare_def deleteTarget_def warranted_def intro!: justified_Cons)

lemma delete_keeps:
  "\<not> workloadIsPoweredDown wl \<or> available t = None \<Longrightarrow> keeps (sound E D wl base) (deleteTarget E t)"
  by (rule hoare_pre[OF deleteTarget_sound]) (auto simp: dispensable_def)

text \<open>A call without such an effect.\<close>

abbreviation harmless :: "'a io \<Rightarrow> bool" where
  "harmless m \<equiv> emits (\<lambda>e. \<not> discovery_effect e) m"

lemma harmless_sound: "harmless m \<Longrightarrow> keeps (sound E D wl base) m"
  by (rule justified_irrelevant)

lemma harmless_calls:
  "harmless (getTarget E l k)" "harmless (statusUpdateTarget E t)" "harmless (updateTarget E t)"
  "harmless (createTarget E t)" "harmless (updateObservedState E D t wl')" "harmless (listTargets E ns)"
  "harmless (getPolicy E k)" "harmless (updatePolicy E p)" "harmless (createPolicy E p)"
  "harmless (getSchedule E k)" "harmless (createSchedule E s)" "harmless (listSchedules E)"
  "harmless (listNamespaces E l)" "harmless (time_Now E)"
  by (simp_all add: updateObservedState_def client_defs loop_call_defs rule_call_defs discovery_call_defs time_Now_def
      Let_def emits_intros)

lemma harmless_audit: "emits audit_call m \<Longrightarrow> harmless m"
  by (erule emits_mono) (auto elim!: audit_call.elims)

text \<open>Refreshing a target that has not been observed yet stores its snapshot.\<close>

lemma observe_keeps [simp]: "ts_Snapshot (observe D wl st) = ts_Snapshot st"
  by (simp add: observe_def)

lemma observe_changes:
  "oss_PowerState (ts_ObservedState st) = '''' \<Longrightarrow> \<not> status_eq st (observe D wl st)"
  by (auto simp: status_eq_def observe_def observedPowerState_def dest!: arg_cong[where f = "\<lambda>s. oss_PowerState (ts_ObservedState s)"])

lemma updateObservedState_stores:
  assumes "oss_PowerState (ts_ObservedState (pt_Status t)) = ''''" and "ts_Snapshot (pt_Status t) = ts_Snapshot (pt_Status l)"
    and "keyed_targets E \<longrightarrow> targetKey l = legacyKey D wl \<and> targetKey t = primaryKey E D wl"
  shows "hoare (sound E D wl base) (updateObservedState E D t wl') (\<lambda>u tr. sound E D wl base tr \<and> (u = None \<longrightarrow> moved E D wl l tr))"
proof -
  have "hoare (\<lambda>_. True) (updateObservedState E D t wl') (\<lambda>u tr. u = None \<longrightarrow> moved E D wl l tr)"
    using observe_changes[OF assms(1)] assms(2,3)
    by (auto simp: hoare_def updateObservedState_def statusUpdateTarget_def error_of_def moved_def targetKey_def Let_def
        split: sum.splits)
  from hoare_conj[OF harmless_sound[OF harmless_calls(5)] this] show ?thesis by (rule hoare_pre) simp
qed

section \<open>The ports of the loop\<close>

locale discovery_ports = retry_OnError OnError for OnError :: retrier +
  fixes D :: DiscoveryLoop
  assumes executor_contract: "dl_Executor D = Some X \<Longrightarrow> workload_executor X"
    and audit_calls: "dl_Audit D = Some rec \<Longrightarrow> emits audit_call (rec ev)"
    and discover_lists: "emits listing (dl_DiscoverAll D nss)"
begin

lemmas emits_OnError = retry_emits[OF retry_OnError_axioms]

lemma harmless_writeNewStatus: "harmless (writeNewStatus E D wl previous t first)"
  unfolding writeNewStatus_def by (intro emits_intros harmless_calls)

lemma harmless_newPowerTarget: "harmless (newPowerTarget E OnError D name wl previous)"
  unfolding newPowerTarget_def
  by (intro emits_intros emits_OnError harmless_calls harmless_writeNewStatus) simp

lemma harmless_auditExemption: "harmless (auditExemption E D ref reason)"
  unfolding auditExemption_def
  by (intro emits_intros harmless_calls harmless_audit audit_calls) simp_all

text \<open>A new target that took over a status stores its snapshot.\<close>

lemma writeNewStatus_stores:
  assumes "keyed_targets E \<longrightarrow> targetKey l = legacyKey D wl \<and> targetKey t = primaryKey E D wl"
    and "run_state (writeNewStatus E D wl (Some (pt_Status l)) t first) s = (None, s')"
  shows "moved E D wl l s'"
proof -
  obtain c r where c: "first \<and> c = t \<or> env_GetTarget E s False (targetKey t) = Inr c"
    and s': "\<exists>pre. s' = StatusUpdateTarget (c\<lparr>pt_Status := observe D wl (pt_Status l)\<rparr>) (Inr r) # pre"
    using assms(2)
    by (auto simp: writeNewStatus_def getTarget_def statusUpdateTarget_def error_of_def targetKey_def Let_def
        split: sum.splits if_splits)
  have "targetKey c = targetKey t" if "keyed_targets E"
    using c that unfolding keyed_targets_def by metis
  then show ?thesis using assms(1) s' by (auto simp: moved_def targetKey_def)
qed

lemma newPowerTarget_stores:
  assumes "keyed_targets E \<longrightarrow> targetKey l = legacyKey D wl"
    and "run_state (newPowerTarget E OnError D (powerTargetName E (dw_Ref wl)) wl (Some (pt_Status l))) s = ((c, None), s')"
  shows "moved E D wl l s'"
proof -
  obtain n t s1 where t: "env_CreateTarget E s n = Inr t" "targetKey n = primaryKey E D wl"
    and run: "run_state (OnError 8 (\<lambda>err. return (err_Conflict err \<or> err_NotFound err)) (writeNewStatus E D wl (Some (pt_Status l)) t)) s1 = (None, s')"
    using assms(2)
    by (auto simp: newPowerTarget_def createTarget_def targetKey_def primaryKey_def split: sum.splits prod.splits option.splits)
  obtain first s2 where "run_state (writeNewStatus E D wl (Some (pt_Status l)) t first) s2 = (None, s')"
    using OnError_success[OF _ run] by auto
  then show ?thesis
    using writeNewStatus_stores[of E l wl t first s2 s'] assms(1) t unfolding keyed_targets_def by metis
qed

lemma newPowerTarget_sound:
  assumes "keyed_targets E \<longrightarrow> targetKey l = legacyKey D wl"
  shows "hoare (sound E D wl base) (newPowerTarget E OnError D (powerTargetName E (dw_Ref wl)) wl previous)
     (\<lambda>r tr. sound E D wl base tr \<and> (snd r = None \<longrightarrow> previous = Some (pt_Status l) \<longrightarrow> moved E D wl l tr))"
proof -
  have "hoare (\<lambda>_. True) (newPowerTarget E OnError D (powerTargetName E (dw_Ref wl)) wl previous)
      (\<lambda>r tr. snd r = None \<longrightarrow> previous = Some (pt_Status l) \<longrightarrow> moved E D wl l tr)"
    using newPowerTarget_stores[OF assms] by (auto intro!: hoareI)
  from hoare_conj[OF harmless_sound[OF harmless_newPowerTarget] this] show ?thesis by (rule hoare_pre) simp
qed

lemma restore_sound:
  assumes "dl_Executor D = Some X" and "isExemptWorkload D wl" and "workloadIsPoweredDown wl"
    and "available t = Some s" and "tref_UID (pt_TargetRef t) \<in> {'''', ref_UID (dw_Ref wl)}"
  shows "hoare (\<lambda>tr. sound E D wl base tr \<and> GetTarget False k (Inr t) \<in> set tr) (ex_Restore X (dw_Ref wl) (restoreSnapshot s))
     (\<lambda>_. sound E D wl base)"
proof (rule justified_stable[OF workload_executor.restore_emits[OF executor_contract[OF assms(1)]]])
  fix e tr
  assume e: "workload_read e \<or> restore_write (dw_Ref wl) (restoreSnapshot s) e" and "discovery_effect e"
    and tr: "GetTarget False k (Inr t) \<in> set tr"
  then have "restore_write (dw_Ref wl) (snapshot_of s '''') e"
    by (auto simp: restoreSnapshot_def snapshot_of_def elim!: workload_read.elims)
  moreover from this have "e \<noteq> DeleteTarget t' r" for t' r by auto
  ultimately show "warranted E D wl e tr"
    using assms tr unfolding warranted_def rescued_def by blast
qed auto

text \<open>The read that a later write refers to.\<close>

lemma sound_read:
  assumes "\<And>err. keeps (sound E D wl base) (f (Inl err))"
    and "\<And>t. (keyed_targets E \<longrightarrow> targetKey t = k) \<Longrightarrow>
      hoare (\<lambda>tr. sound E D wl base tr \<and> GetTarget False k (Inr t) \<in> set tr) (f (Inr t)) (\<lambda>_. sound E D wl base)"
  shows "keeps (sound E D wl base) (State_Monad.bind (getTarget E False k) f)"
proof (rule hoare_bind)
  let ?R = "\<lambda>g tr. \<forall>t. g = Inr t \<longrightarrow> GetTarget False k (Inr t) \<in> set tr \<and> (keyed_targets E \<longrightarrow> targetKey t = k)"
  have "hoare (\<lambda>_. True) (getTarget E False k) ?R"
    by (auto simp: hoare_def getTarget_def keyed_targets_def)
  from hoare_conj[OF harmless_sound[OF harmless_calls(1)] this]
  show "hoare (sound E D wl base) (getTarget E False k) (\<lambda>g tr. sound E D wl base tr \<and> ?R g tr)"
    by (rule hoare_pre) simp
  fix g
  show "hoare (\<lambda>tr. sound E D wl base tr \<and> ?R g tr) (f g) (\<lambda>_. sound E D wl base)"
  proof (cases g)
    case (Inr t)
    show ?thesis
    proof (cases "keyed_targets E \<longrightarrow> targetKey t = k")
      case True
      then show ?thesis using assms(2)[of t] Inr by (auto intro: hoare_pre)
    next
      case False
      then show ?thesis using Inr by (auto intro: hoare_False)
    qed
  qed (use assms(1) in simp)
qed

lemma keeps_after:
  assumes "hoare P m (\<lambda>_. sound E D wl base)" and "\<And>x. harmless (f x)"
  shows "hoare P (State_Monad.bind m f) (\<lambda>_. sound E D wl base)"
  by (rule hoare_bind[OF assms(1)]) (rule harmless_sound[OF assms(2)])

lemma sound_return: "hoare (\<lambda>tr. sound E D wl base tr \<and> P tr) (return x) (\<lambda>_. sound E D wl base)"
  by (simp add: hoare_def)

lemmas harmless_parts = emits_intros harmless_calls harmless_auditExemption

lemma restoreLegacyBeforeExemption_sound:
  assumes "isExemptWorkload D wl"
  shows "hoare (\<lambda>tr. sound E D wl base tr \<and> GetTarget False k (Inr t) \<in> set tr) (restoreLegacyBeforeExemption E D wl t) (\<lambda>_. sound E D wl base)"
proof (cases "workloadIsPoweredDown wl \<and> legacySnapshotProvesPoweredDown t wl")
  case True
  then obtain s where s: "ts_Snapshot (pt_Status t) = Some s" "available t = Some s"
    by (auto simp: legacySnapshotProvesPoweredDown_def available_def split: option.splits if_splits)
  show ?thesis
    unfolding restoreLegacyBeforeExemption_def using True s(1)
    by (auto intro!: hoare_splits keeps_after harmless_parts restore_sound[OF _ assms _ s(2)] sound_return)
next
  case False
  then have "keeps (sound E D wl base) (restoreLegacyBeforeExemption E D wl t)"
    unfolding restoreLegacyBeforeExemption_def by (auto intro!: hoare_splits keeps_after delete_keeps)
  then show ?thesis by (rule hoare_pre) simp
qed

lemma delete_sound:
  "\<not> workloadIsPoweredDown wl \<or> available t = None \<Longrightarrow>
   hoare (\<lambda>tr. sound E D wl base tr \<and> P tr) (do { d \<leftarrow> deleteTarget E t; return (error_of d) }) (\<lambda>_. sound E D wl base)"
  by (rule hoare_pre[OF keeps_after[OF delete_keeps]]) auto

lemma restoreBeforeExemption_sound:
  assumes "isExemptWorkload D wl"
  shows "keeps (sound E D wl base) (restoreBeforeExemption E D wl)"
  unfolding restoreBeforeExemption_def
proof (rule sound_read, goal_cases)
  case (2 t)
  show ?case
    by (auto intro!: hoare_splits keeps_after harmless_parts restore_sound[OF _ assms, where t = t] delete_sound sound_return)
qed simp

text \<open>Where the snapshot of the old target may be needed it was taken over; the old target may go.\<close>

lemma legacy_dispensable:
  assumes "\<not> (workloadIsPoweredDown wl \<and> ts_Snapshot (pt_Status l) \<noteq> None \<and> legacyStatus l wl = None)"
  shows "legacyStatus l wl = Some (pt_Status l) \<or> \<not> workloadIsPoweredDown wl \<or> available l = None"
  using assms by (auto simp: legacyStatus_def available_def split: if_splits option.splits)

lemma delete_legacy:
  assumes "\<not> (workloadIsPoweredDown wl \<and> ts_Snapshot (pt_Status l) \<noteq> None \<and> legacyStatus l wl = None)"
  shows "hoare (\<lambda>tr. sound E D wl base tr \<and> (legacyStatus l wl = Some (pt_Status l) \<longrightarrow> moved E D wl l tr)) (deleteTarget E l) (\<lambda>_. sound E D wl base)"
  by (rule hoare_pre[OF deleteTarget_sound]) (use legacy_dispensable[OF assms] in \<open>auto simp: dispensable_def\<close>)

lemma migrated_sound:
  fixes E wl existing l
  defines "t \<equiv> (case legacyStatus l wl of None \<Rightarrow> existing | Some st \<Rightarrow> existing\<lparr>pt_Status := clearPowerState st\<rparr>)"
  assumes "keyed_targets E \<longrightarrow> targetKey l = legacyKey D wl \<and> targetKey existing = primaryKey E D wl"
  shows "hoare (sound E D wl base) (updateObservedState E D t wl)
     (\<lambda>u tr. sound E D wl base tr \<and> (u = None \<longrightarrow> legacyStatus l wl = Some (pt_Status l) \<longrightarrow> moved E D wl l tr))"
proof (cases "legacyStatus l wl = Some (pt_Status l)")
  case True
  then show ?thesis unfolding t_def using updateObservedState_stores[of t l E D wl base wl] assms(2)
    by (simp add: t_def clearPowerState_def targetKey_def)
next
  case False
  then show ?thesis by (simp add: harmless_sound harmless_calls)
qed

lemma resumeMigration_sound:
  assumes "exempt = isExemptWorkload D wl" and "keyed_targets E \<longrightarrow> targetKey existing = primaryKey E D wl"
  shows "keeps (sound E D wl base) (resumeMigration E D wl exempt existing)"
  unfolding resumeMigration_def
proof (rule sound_read, goal_cases)
  case (2 l)
  have keys: "keyed_targets E \<longrightarrow> targetKey l = legacyKey D wl \<and> targetKey existing = primaryKey E D wl"
    using 2 assms(2) by simp
  show ?case
    apply (simp only: sum.case Let_def)
    apply (intro hoare_if sound_return)
    apply (rule hoare_pre[OF hoare_bind[OF migrated_sound[OF keys]]])
     apply (rule hoare_option)
      apply (rule hoare_bind[OF hoare_pre[OF delete_legacy]])
    using restoreBeforeExemption_sound assms
    by (auto intro!: hoare_splits hoare_bind hoare_return)
qed simp

lemma harmless_rebindTarget: "harmless (rebindTarget E wl existing)"
  unfolding rebindTarget_def by (intro harmless_parts)

lemma refreshTarget_sound:
  assumes "exempt = isExemptWorkload D wl" and "keyed_targets E \<longrightarrow> targetKey existing = primaryKey E D wl"
  shows "keeps (sound E D wl base) (refreshTarget E D wl exempt existing)"
  unfolding refreshTarget_def
  using assms(1) resumeMigration_sound[OF assms] restoreBeforeExemption_sound
  by (intro hoare_bind[where R = "\<lambda>_. sound E D wl base"] hoare_splits harmless_sound[OF harmless_rebindTarget]
      harmless_sound[OF harmless_calls(5)]) simp_all

lemma createOrMigrate_sound:
  assumes "exempt = isExemptWorkload D wl"
  shows "keeps (sound E D wl base) (createOrMigrate E OnError D wl exempt)"
  unfolding createOrMigrate_def
proof (rule sound_read, goal_cases)
  case 1
  show ?case by (simp add: harmless_sound harmless_newPowerTarget)
next
  case (2 l)
  have new: "hoare (\<lambda>tr. sound E D wl base tr \<and> P tr) (newPowerTarget E OnError D name wl None) (\<lambda>_. sound E D wl base)" for P name
    by (rule hoare_pre[OF harmless_sound[OF harmless_newPowerTarget]]) simp
  show ?case
    apply (simp only: sum.case Let_def)
    apply (intro hoare_if sound_return new)
     apply (rule keeps_after)
      apply (rule restoreLegacyBeforeExemption_sound)
      using assms apply simp
     apply simp
    apply (rule hoare_pre[OF hoare_bind[OF newPowerTarget_sound[OF 2]]])
     apply (rule hoare_prod, rule hoare_option)
      apply (rule hoare_bind[OF hoare_pre[OF delete_legacy]])
    by (auto intro!: hoare_splits hoare_return)
qed

theorem ensurePowerTarget_sound: "keeps (sound E D wl base) (ensurePowerTarget E OnError D wl)"
proof (cases "ref_Namespace (dw_Ref wl) \<in> set (dc_SystemNamespaces (dl_Config D))")
  case False
  have refresh: "hoare (\<lambda>tr. sound E D wl base tr \<and> P tr) (refreshTarget E D wl (isExemptWorkload D wl) t) (\<lambda>_. sound E D wl base)"
    if "keyed_targets E \<longrightarrow> targetKey t = primaryKey E D wl" for P t
    using refreshTarget_sound[OF refl that] by (rule hoare_pre) simp
  show ?thesis
    unfolding ensurePowerTarget_def if_not_P[OF False] primaryKey_def[symmetric]
    by (rule sound_read) (simp_all add: refresh createOrMigrate_sound)
qed (simp add: ensurePowerTarget_def)

text \<open>A whole cycle: the workload writes come from the exempt ones among the discovered workloads.\<close>

lemma ensurePowerTarget_rescues:
  "keeps (justified workload_write (\<lambda>e tr. ref_Namespace (dw_Ref wl) \<notin> set (dc_SystemNamespaces (dl_Config D)) \<and> rescued D wl e tr) base)
     (ensurePowerTarget E OnError D wl)"
proof (rule hoareI)
  let ?J = "justified workload_write (\<lambda>e tr. ref_Namespace (dw_Ref wl) \<notin> set (dc_SystemNamespaces (dl_Config D)) \<and> rescued D wl e tr)"
  fix tr a tr' assume base: "?J base tr" and run: "run_state (ensurePowerTarget E OnError D wl) tr = (a, tr')"
  have "?J tr tr'"
  proof (cases "ref_Namespace (dw_Ref wl) \<in> set (dc_SystemNamespaces (dl_Config D))")
    case True
    then show ?thesis using run by (simp add: ensurePowerTarget_def)
  next
    case False
    have "sound E D wl tr tr'" using hoareD[OF ensurePowerTarget_sound run] by simp
    then show ?thesis
    proof (rule justified_mono)
      fix e assume "workload_write e" then show "discovery_effect e" by (cases e) simp_all
    qed (use False in \<open>simp add: warranted_def\<close>)
  qed
  with base show "?J base tr'" by (rule justified_trans)
qed

lemma ensurePowerTargets_rescues:
  "keeps (justified workload_write (\<lambda>e tr. \<exists>wl\<in>set wls. ref_Namespace (dw_Ref wl) \<notin> set (dc_SystemNamespaces (dl_Config D)) \<and> rescued D wl e tr) base)
     (ensurePowerTargets E OnError D wls)"
proof (rule hoareI)
  let ?J = "\<lambda>wls. justified workload_write (\<lambda>e tr. \<exists>wl\<in>set wls. ref_Namespace (dw_Ref wl) \<notin> set (dc_SystemNamespaces (dl_Config D)) \<and> rescued D wl e tr)"
  fix tr a tr' assume base: "?J wls base tr" and run: "run_state (ensurePowerTargets E OnError D wls) tr = (a, tr')"
  have "?J wls tr tr'" using run
  proof (induction wls arbitrary: tr)
    case (Cons wl wls)
    then obtain b tr1 where 1: "run_state (ensurePowerTarget E OnError D wl) tr = (b, tr1)"
      and 2: "run_state (ensurePowerTargets E OnError D wls) tr1 = (a, tr')"
      by (auto split: prod.splits)
    have "?J (wl # wls) tr tr1"
      by (rule justified_mono[OF hoareD[OF ensurePowerTarget_rescues 1 justified_refl]]) simp_all
    moreover have "?J (wl # wls) tr1 tr'"
      by (rule justified_mono[OF Cons.IH[OF 2]]) auto
    ultimately show ?case by (rule justified_trans)
  qed simp
  with base show "?J wls base tr'" by (rule justified_trans)
qed

end

section \<open>The wiring\<close>

lemma discovery_wired:
  assumes "retry_OnError OnError"
  shows "discovery_ports OnError (discoveryLoop E A c ns i ks)"
proof -
  have "workload_executor X" if "dl_Executor (discoveryLoop E A c ns i ks) = Some X" for X
    using that k8s.workload_executor_axioms by (auto simp: discoveryLoop_def)
  then show ?thesis
    using assms emits_Record emits_DiscoverAll
    by (auto simp: discovery_ports_def discovery_ports_axioms_def discoveryLoop_def)
qed

interpretation wired_loop: discovery_ports "\<lambda>steps p fn. attempts steps p fn True" "discoveryLoop E A c ns i ks" for E A c ns i ks
  by (rule discovery_wired) (rule client_go.retry_OnError_axioms)

text \<open>The names of the two releases differ: one has a single dash, the other at least two.\<close>

lemma legacyName_other:
  assumes "\<forall>s. CHR ''-'' \<notin> set (env_sha256 E s)"
  shows "powerTargetName E ref \<noteq> legacyName ref'"
proof
  assume eq: "powerTargetName E ref = legacyName ref'"
  have "count_list (powerTargetName E ref) (CHR ''-'') = 1"
    using assms by (simp add: powerTargetName_def count_list_0_iff)
  moreover have "2 \<le> count_list (legacyName ref') (CHR ''-'')" by (simp add: legacyName_def)
  ultimately show False using eq by simp
qed

section \<open>Orphans\<close>

text \<open>The workload still needs the target with this name.\<close>

definition claims :: "env \<Rightarrow> DiscoveryLoop \<Rightarrow> string \<Rightarrow> DiscoveredWorkload \<Rightarrow> bool" where
  "claims E D name wl \<longleftrightarrow>
     ref_Namespace (dw_Ref wl) \<notin> set (dc_SystemNamespaces (dl_Config D)) \<and>
     (name = powerTargetName E (dw_Ref wl) \<and> (workloadIsPoweredDown wl \<or> \<not> isExemptWorkload D wl) \<or>
      name = legacyName (dw_Ref wl) \<and> workloadIsPoweredDown wl)"

lemma expectedTargets_claims: "name \<in> set (expectedTargets E D wl) \<longleftrightarrow> claims E D name wl"
  by (auto simp: expectedTargets_def claims_def)

fun deletion_of :: "event \<Rightarrow> PowerTarget option" where
  "deletion_of (DeleteTarget t _) = Some t"
| "deletion_of _ = None"

lemma deleteOrphans_exact:
  assumes "run_state (deleteOrphans E expected ts) tr = (n, tr')"
  shows "\<exists>new. tr' = new @ tr \<and> List.map_filter deletion_of (rev new) = filter (\<lambda>t. om_Name (pt_Meta t) \<notin> set expected) ts \<and>
    n = length (filter (\<lambda>e. \<exists>t. e = DeleteTarget t (Inr ())) new)"
  using assms
proof (induction ts arbitrary: tr n)
  case (Cons t ts)
  show ?case
  proof (cases "om_Name (pt_Meta t) \<in> set expected")
    case True
    with Cons show ?thesis by simp
  next
    case False
    let ?d = "env_DeleteTarget E tr t"
    obtain m where m: "run_state (deleteOrphans E expected ts) (DeleteTarget t ?d # tr) = (m, tr')"
      "n = (case ?d of Inl _ \<Rightarrow> m | Inr _ \<Rightarrow> m + 1)"
      using Cons.prems False by (auto simp: deleteTarget_def split: prod.splits)
    from Cons.IH[OF m(1)] obtain new where "tr' = new @ DeleteTarget t ?d # tr"
      "List.map_filter deletion_of (rev new) = filter (\<lambda>t. om_Name (pt_Meta t) \<notin> set expected) ts"
      "m = length (filter (\<lambda>e. \<exists>t. e = DeleteTarget t (Inr ())) new)" by blast
    then show ?thesis
      using False m(2) by (intro exI[of _ "new @ [DeleteTarget t ?d]"]) (auto simp: map_filter_def split: sum.splits)
  qed
qed (simp add: map_filter_def)

section \<open>A cycle\<close>

lemma quiet_deleteOrphans: "quiet (deleteOrphans E expected ts)"
  by (induction ts) (auto simp: deleteTarget_def intro!: emits_intros)

lemma quiet_cleanupOrphans: "quiet (cleanupOrphans E D wls)"
  unfolding cleanupOrphans_def listTargets_def by (intro emits_intros quiet_deleteOrphans) simp

lemma quiet_ensureNamespacePolicies: "quiet (ensureNamespacePolicies E D schedules nss)"
  by (induction nss) (auto simp: ensureNamespacePolicy_def loop_call_defs getPolicy_def Let_def intro!: emits_intros)

lemma quiet_processNamespaceAnnotations: "quiet (processNamespaceAnnotations E D)"
  unfolding processNamespaceAnnotations_def listNamespaces_def listSchedules_def
  by (intro emits_intros quiet_ensureNamespacePolicies) simp_all

lemma harmless_seedSchedules: "harmless (seedSchedules E ss)"
  by (induction ss) (auto intro!: emits_intros harmless_calls)

lemma harmless_SeedBuiltInSchedules: "harmless (SeedBuiltInSchedules E tz ns)"
  unfolding SeedBuiltInSchedules_def by (intro emits_intros harmless_seedSchedules)

lemma quiet_justified: "quiet m \<Longrightarrow> run_state m tr = (a, tr') \<Longrightarrow> justified workload_write G tr tr'"
  by (erule (1) emitsD) (auto simp: justified_def)

context discovery_ports
begin

text \<open>What the writes of the cycle are justified by: one of the discovered workloads.\<close>

abbreviation rescues :: "DiscoveredWorkload list \<Rightarrow> event \<Rightarrow> trace \<Rightarrow> bool" where
  "rescues wls e tr \<equiv> \<exists>wl\<in>set wls. ref_Namespace (dw_Ref wl) \<notin> set (dc_SystemNamespaces (dl_Config D)) \<and> rescued D wl e tr"

lemma runDiscovery_effects:
  assumes run: "run_state (runDiscovery E OnError D tz) [] = ((), post @ e # pre)" and e: "discovery_effect e"
  shows "\<exists>tr0 wls tr1. run_state (dl_DiscoverAll D []) tr0 = (Inr wls, tr1) \<and> set tr1 \<subseteq> set pre \<and>
    (workload_write e \<longrightarrow> rescues wls e pre)"
proof -
  let ?tr' = "post @ e # pre"
  obtain x tr0 where seed: "run_state (SeedBuiltInSchedules E tz (dc_Namespace (dl_Config D))) [] = (x, tr0)"
    by (rule prod.exhaust)
  obtain w tr1 where disc: "run_state (dl_DiscoverAll D []) tr0 = (w, tr1)" by (rule prod.exhaust)
  have harmless0: "\<forall>e\<in>set tr0. \<not> discovery_effect e" using harmless_SeedBuiltInSchedules seed by (rule emitsD) simp
  have harmless1: "\<forall>e\<in>set tr1. \<not> discovery_effect e"
  proof (rule emitsD[OF discover_lists disc])
    fix new assume "tr1 = new @ tr0" and "\<forall>e\<in>set new. listing e"
    moreover have "listing e \<Longrightarrow> \<not> discovery_effect e" for e by (auto elim!: listing.elims)
    ultimately show ?thesis using harmless0 by auto
  qed
  obtain wls where w: "w = Inr wls"
    using run seed disc harmless1 e by (cases w) (auto simp: runDiscovery_def)
  obtain a tr2 where t2: "run_state (ensurePowerTargets E OnError D wls) tr1 = (a, tr2)" by (rule prod.exhaust)
  obtain b tr3 where t3: "run_state (cleanupOrphans E D wls) tr2 = (b, tr3)" by (rule prod.exhaust)
  have t4: "run_state (processNamespaceAnnotations E D) tr3 = ((), ?tr')"
    using run seed disc w t2 t3 by (simp add: runDiscovery_def)
  have "justified workload_write (rescues wls) tr1 ?tr'"
    using hoareD[OF ensurePowerTargets_rescues t2 justified_refl] quiet_justified[OF quiet_cleanupOrphans t3]
      quiet_justified[OF quiet_processNamespaceAnnotations t4] by (blast intro: justified_trans)
  then obtain new where new: "?tr' = new @ tr1"
    "\<forall>post e pre. new = post @ e # pre \<longrightarrow> workload_write e \<longrightarrow> rescues wls e (pre @ tr1)"
    by (auto simp: justified_def)
  obtain us where "new = post @ e # us" "pre = us @ tr1"
    using new(1) harmless1 e by (auto simp: append_eq_append_conv2 append_eq_Cons_conv Cons_eq_append_conv)
  then show ?thesis using new(2) disc w by (intro exI[of _ tr0] exI[of _ wls] exI[of _ tr1]) auto
qed

end

section \<open>Concrete runs\<close>

text \<open>
  A cluster with one exempt Deployment that was powered down, whose snapshot is in a target; and the
  same Deployment without exemption, whose snapshot is in the target of an older release.
\<close>

definition parked :: Deployment where
  "parked = web_deployment\<lparr>wl_Meta := (wl_Meta web_deployment)\<lparr>om_Annotations := [(''aura.sh/power-exempt'', ''true'')]\<rparr>, wl_Replicas := Some 0\<rparr>"

definition parked_target :: PowerTarget where
  "parked_target = web_target\<lparr>pt_Status := (pt_Status web_target)\<lparr>
     ts_ObservedState := \<lparr>oss_Replicas = 0, oss_Suspended = False, oss_ActiveJobs = 0, oss_PowerState = ''off''\<rparr>,
     ts_Snapshot := Some \<lparr>sn_Available = True, sn_ReplicaCount = Some 3, sn_Suspended = None,
       sn_Resources = \<lparr>res_CPUMillicores = 0, res_MemoryMiB = 0\<rparr>, sn_CapturedAt = Some 0, sn_ResourceVersion = ''42''\<rparr>\<rparr>\<rparr>"

definition parked_cluster :: env where
  "parked_cluster = busy_cluster\<lparr>env_ListDeployments := (\<lambda>_ _. Inr [parked]), env_GetDeployment := (\<lambda>_ _ _. Inr parked),
     env_GetTarget := (\<lambda>_ _ _. Inr parked_target), env_ListTargets := (\<lambda>_ _. Inr [parked_target])\<rparr>"

definition sample_loop :: "env \<Rightarrow> DiscoveryLoop" where
  "sample_loop E = discoveryLoop E sample_recorder DefaultGuardrailConfig ''aura'' (30 * Second) []"

definition parked_run :: trace where
  "parked_run = snd (run_state (runDiscovery parked_cluster (\<lambda>steps p fn. attempts steps p fn True) (sample_loop parked_cluster) ''UTC'') [])"

lemma parked_run_writes: "filter workload_write parked_run = [UpdateDeployment (parked\<lparr>wl_Replicas := Some 3\<rparr>) (Inr (parked\<lparr>wl_Replicas := Some 3\<rparr>))]"
  by code_simp

definition old_workload :: DiscoveredWorkload where
  "old_workload = \<lparr>dw_Ref = \<lparr>ref_Cluster = '''', ref_APIVersion = ''apps/v1'', ref_Namespace = ''dev'', ref_Name = ''web'',
       ref_Kind = ''Deployment'', ref_UID = ''u1''\<rparr>, dw_Replicas = 0, dw_Suspended = False, dw_ActiveJobs = 0, dw_Annotations = [],
     dw_Labels = [], dw_NamespaceLabels = [], dw_NamespaceAnnotations = [],
     dw_Resources = \<lparr>res_CPUMillicores = 0, res_MemoryMiB = 0\<rparr>, dw_HPAControlled = False\<rparr>"

definition old_target :: PowerTarget where
  "old_target = parked_target\<lparr>pt_Meta := (pt_Meta parked_target)\<lparr>om_Namespace := ''aura'', om_Name := ''dev--web''\<rparr>\<rparr>"

definition old_cluster :: env where
  "old_cluster = empty_cluster\<lparr>env_sha256 := (\<lambda>_. ''0a1b''), env_CreateTarget := (\<lambda>_ t. Inr t),
     env_GetTarget := (\<lambda>_ _ k. if k = \<lparr>nn_Namespace = ''aura'', nn_Name = ''dev--web''\<rparr> then Inr old_target else Inl not_found)\<rparr>"

definition old_run :: trace where
  "old_run = snd (run_state (ensurePowerTarget old_cluster (\<lambda>steps p fn. attempts steps p fn True) (sample_loop old_cluster) old_workload) [])"

lemma old_run_deletes: "List.map_filter deletion_of old_run = [old_target]"
  by code_simp

section \<open>Properties\<close>

text \<open>
  C16. Discovery never destroys the way back: when ensuring the target of a workload deletes a
  \<open>PowerTarget\<close> (after a migration, a resumed migration or an exemption), the workload is running, or
  the deleted target held no available snapshot, or what happened last before the deletion is that the
  snapshot was stored with success in another target, the one of this workload in this release.  The
  API server is taken to answer with the objects it was asked for, the digest to be hexadecimal.
\<close>

theorem ensurePowerTarget_keeps_recovery:
  assumes "retry_OnError OnError" and "keyed_targets E" and "\<forall>s. CHR ''-'' \<notin> set (env_sha256 E s)"
    and "run_state (ensurePowerTarget E OnError (discoveryLoop E A c ns i ks) wl) [] = (r, post @ DeleteTarget t d # pre)"
  shows "\<not> workloadIsPoweredDown wl \<or> available t = None \<or>
    (\<exists>t' u pre'. pre = StatusUpdateTarget t' (Inr u) # pre' \<and> ts_Snapshot (pt_Status t') = ts_Snapshot (pt_Status t) \<and>
       targetKey t' = \<lparr>nn_Namespace = ns, nn_Name = powerTargetName E (dw_Ref wl)\<rparr> \<and> targetKey t' \<noteq> targetKey t)"
proof -
  let ?D = "discoveryLoop E A c ns i ks"
  have "sound E ?D wl [] (post @ DeleteTarget t d # pre)"
    using hoareD[OF discovery_ports.ensurePowerTarget_sound[OF discovery_wired[OF assms(1)]] assms(4)] by simp
  then have "dispensable E ?D wl t pre" by (auto dest!: justifiedD simp: warranted_def)
  moreover have "primaryKey E ?D wl \<noteq> legacyKey ?D wl"
    using legacyName_other[OF assms(3)] by (simp add: primaryKey_def legacyKey_def)
  moreover have "dc_Namespace (dl_Config ?D) = ns" by (simp add: discoveryLoop_def)
  ultimately show ?thesis
    using assms(2) unfolding dispensable_def moved_def primaryKey_def by metis
qed

theorem ensurePowerTarget_keeps_recovery_witness:
  "\<exists>pre post d t' u. old_run = post @ DeleteTarget old_target d # StatusUpdateTarget t' (Inr u) # pre \<and>
     workloadIsPoweredDown old_workload \<and> available old_target \<noteq> None \<and>
     ts_Snapshot (pt_Status t') = ts_Snapshot (pt_Status old_target) \<and>
     targetKey t' = \<lparr>nn_Namespace = ''aura'', nn_Name = ''target-0a1b''\<rparr>"
proof -
  have "\<exists>d. DeleteTarget old_target d \<in> set old_run"
  proof -
    have "old_target \<in> set (List.map_filter deletion_of old_run)" by (simp add: old_run_deletes)
    then obtain e where "e \<in> set old_run" "deletion_of e = Some old_target" by (auto simp: map_filter_def)
    moreover from this(2) obtain d where "e = DeleteTarget old_target d" by (cases e) simp_all
    ultimately show ?thesis by blast
  qed
  then obtain post d pre where split: "old_run = post @ DeleteTarget old_target d # pre" by (metis split_list)
  have down: "workloadIsPoweredDown old_workload" "available old_target \<noteq> None"
    by (simp_all add: workloadIsPoweredDown_def old_workload_def available_def old_target_def parked_target_def WorkloadKindCronJob_def)
  have keyed: "keyed_targets old_cluster" and hex: "\<forall>s. CHR ''-'' \<notin> set (env_sha256 old_cluster s)"
    by (auto simp: keyed_targets_def old_cluster_def old_target_def targetKey_def)
  have name: "powerTargetName old_cluster (dw_Ref old_workload) = ''target-0a1b''"
    by (simp add: powerTargetName_def old_cluster_def)
  obtain r where "run_state (ensurePowerTarget old_cluster (\<lambda>steps p fn. attempts steps p fn True) (sample_loop old_cluster) old_workload) []
      = (r, post @ DeleteTarget old_target d # pre)"
    using split by (auto simp: old_run_def prod_eq_iff)
  from ensurePowerTarget_keeps_recovery[OF client_go.retry_OnError_axioms keyed hex this[unfolded sample_loop_def]] down split name
  show ?thesis by (metis (no_types, lifting))
qed

text \<open>
  C17. What discovery may do to a workload: every workload write and every deletion of a target in a
  cycle come after a complete discovery, and a workload write restores a discovered workload outside
  the system namespaces that is exempt and powered down, from the available snapshot of a target that was read
  in this cycle and whose recorded identity does not contradict the workload.
\<close>

theorem runDiscovery_only_rescues:
  assumes "retry_OnError OnError"
    and "run_state (runDiscovery E OnError (discoveryLoop E A c ns i ks) tz) [] = ((), post @ e # pre)"
    and "discovery_effect e"
  shows "\<exists>tr0 wls tr1. run_state (DiscoverAll E []) tr0 = (Inr wls, tr1) \<and> set tr1 \<subseteq> set pre \<and>
    (workload_write e \<longrightarrow> (\<exists>wl\<in>set wls. ref_Namespace (dw_Ref wl) \<notin> set (gc_SystemNamespaces c) \<and>
       rescued (discoveryLoop E A c ns i ks) wl e pre))"
  using discovery_ports.runDiscovery_effects[OF discovery_wired[OF assms(1)] assms(2,3)]
  by (simp add: discoveryLoop_def)

theorem runDiscovery_only_rescues_witness:
  "\<exists>e post pre wl. parked_run = post @ e # pre \<and> workload_write e \<and> rescued (sample_loop parked_cluster) wl e pre"
proof -
  obtain post e pre where e: "workload_write e" and split: "parked_run = post @ e # pre"
    by (rule write_split[of parked_run]) (simp_all add: parked_run_writes)
  then have "run_state (runDiscovery parked_cluster (\<lambda>steps p fn. attempts steps p fn True) (sample_loop parked_cluster) ''UTC'') []
      = ((), post @ e # pre)"
    by (simp add: parked_run_def prod_eq_iff)
  moreover have "discovery_effect e" using e by (cases e) simp_all
  ultimately show ?thesis
    using runDiscovery_only_rescues[OF client_go.retry_OnError_axioms, of parked_cluster sample_recorder DefaultGuardrailConfig
        "''aura''" "30 * Second" "[]" "''UTC''" post e pre] e split
    unfolding sample_loop_def by blast
qed

text \<open>
  C18. Orphan removal is exact: of the listed targets, in their order, exactly those are deleted that no discovered
  workload claims, and the result counts the deletions that succeeded.  A workload outside the system namespaces
  claims its target unless it is exempt and running, and while it is powered down also
  the target of the older release, so that neither record of a powered-down workload is removed.
\<close>

theorem cleanupOrphans_exact:
  assumes "run_state (cleanupOrphans E D wls) tr = (n, tr')"
    and "env_ListTargets E tr (dc_Namespace (dl_Config D)) = Inr ts"
  shows "\<exists>new. tr' = new @ ListTargets (dc_Namespace (dl_Config D)) (Inr ts) # tr \<and>
    List.map_filter deletion_of (rev new) = filter (\<lambda>t. \<not> list_ex (claims E D (om_Name (pt_Meta t))) wls) ts \<and>
    n = length (filter (\<lambda>e. \<exists>t. e = DeleteTarget t (Inr ())) new)"
proof -
  have "run_state (deleteOrphans E (concat (map (expectedTargets E D) wls)) ts) (ListTargets (dc_Namespace (dl_Config D)) (Inr ts) # tr) = (n, tr')"
    using assms by (simp add: cleanupOrphans_def listTargets_def)
  from deleteOrphans_exact[OF this] show ?thesis by (simp add: expectedTargets_claims list_ex_iff)
qed

theorem cleanupOrphans_exact_witness:
  "\<exists>n tr'. run_state (cleanupOrphans parked_cluster (sample_loop parked_cluster) []) [] = (n, tr') \<and>
     DeleteTarget parked_target (Inr ()) \<in> set tr' \<and> n = 1"
proof -
  obtain n tr' where run: "run_state (cleanupOrphans parked_cluster (sample_loop parked_cluster) []) [] = (n, tr')"
    by (rule prod.exhaust)
  have "env_ListTargets parked_cluster [] (dc_Namespace (dl_Config (sample_loop parked_cluster))) = Inr [parked_target]"
    by (simp add: parked_cluster_def)
  from cleanupOrphans_exact[OF run this] have "n = 1 \<and> DeleteTarget parked_target (Inr ()) \<in> set tr'"
    using run by (auto simp: cleanupOrphans_def deleteTarget_def parked_cluster_def busy_cluster_def empty_cluster_def
        listTargets_def split: prod.splits)
  with run show ?thesis by blast
qed

end
