(* ===== verification/Startup.thy ===== *)
theory Startup
  imports ApiSafety DiscoverySafety AuditHistory Savings
begin

text \<open>
  How the two binaries configure what the other theories model (\<open>src/cmd/controller/main.go\<close> and
  \<open>src/cmd/server/main.go\<close>): the environment variables, the guardrails and the loops of the controller, the
  periodic cleanup of the audit history, and the initial administrator of the API server.  Setting up the manager,
  the cluster clients, logging and the shutdown by signals are calls of libraries and are left out.
\<close>

section \<open>Environment variables\<close>

text \<open>\<open>os.LookupEnv\<close> is a map; \<open>os.Getenv\<close> gives the empty string for a variable that is not set.\<close>

type_synonym environment = "string \<Rightarrow> string option"

definition Getenv :: "environment \<Rightarrow> string \<Rightarrow> string" where
  "Getenv vars key = (case vars key of None \<Rightarrow> '''' | Some v \<Rightarrow> v)"

definition getEnvOrDefault :: "environment \<Rightarrow> string \<Rightarrow> string \<Rightarrow> string" where
  "getEnvOrDefault vars key defaultVal = (if Getenv vars key \<noteq> '''' then Getenv vars key else defaultVal)"

text \<open>\<open>strconv.ParseBool\<close>.\<close>

definition ParseBool :: "string \<Rightarrow> bool option" where
  "ParseBool s =
     (if s \<in> {''1'', ''t'', ''T'', ''true'', ''TRUE'', ''True''} then Some True
      else if s \<in> {''0'', ''f'', ''F'', ''false'', ''FALSE'', ''False''} then Some False
      else None)"

definition envBool :: "environment \<Rightarrow> string \<Rightarrow> bool \<Rightarrow> bool" where
  "envBool vars key defaultValue =
     (case vars key of
        None \<Rightarrow> defaultValue
      | Some v \<Rightarrow> (case ParseBool v of None \<Rightarrow> defaultValue | Some parsed \<Rightarrow> parsed))"

definition envInt :: "environment \<Rightarrow> string \<Rightarrow> int \<Rightarrow> int" where
  "envInt vars key defaultValue =
     (case Atoi (Getenv vars key) of
        Some parsed \<Rightarrow> if Getenv vars key \<noteq> '''' \<and> parsed > 0 \<and> parsed \<le> 65535 then parsed else defaultValue
      | None \<Rightarrow> defaultValue)"

text \<open>\<open>parse\<close> is \<open>time.ParseDuration\<close>.  (Both binaries have this function.)\<close>

definition durationEnv :: "(string \<Rightarrow> go_duration option) \<Rightarrow> environment \<Rightarrow> string \<Rightarrow> go_duration \<Rightarrow> go_duration" where
  "durationEnv parse vars key fallback =
     (if Getenv vars key \<noteq> '''' then
        (case parse (Getenv vars key) of Some parsed \<Rightarrow> if parsed > 0 then parsed else fallback | None \<Rightarrow> fallback)
      else fallback)"

definition splitAndTrim :: "string \<Rightarrow> string list" where
  "splitAndTrim s = filter (\<lambda>p. p \<noteq> '''') (map TrimSpace (SplitByte CHR '','' s))"

section \<open>The controller\<close>

definition guardrailConfig :: "environment \<Rightarrow> GuardrailConfig" where
  "guardrailConfig vars =
     (if Getenv vars ''SYSTEM_NAMESPACES'' \<noteq> ''''
      then DefaultGuardrailConfig\<lparr>gc_SystemNamespaces := splitAndTrim (Getenv vars ''SYSTEM_NAMESPACES'')\<rparr>
      else if Getenv vars ''EXTRA_SYSTEM_NAMESPACES'' \<noteq> ''''
      then DefaultGuardrailConfig\<lparr>gc_SystemNamespaces :=
        gc_SystemNamespaces DefaultGuardrailConfig @ splitAndTrim (Getenv vars ''EXTRA_SYSTEM_NAMESPACES'')\<rparr>
      else DefaultGuardrailConfig)"

record controller =
  ctl_LeaderElection :: bool
  ctl_LeaderElectionID :: string
  ctl_WebhookPort :: "int option"
  ctl_Target :: TargetReconciler
  ctl_Discovery :: DiscoveryLoop

text \<open>\<open>A\<close> is the audit recorder for the control namespace.\<close>

definition controllerNamespace :: "environment \<Rightarrow> string" where
  "controllerNamespace vars = getEnvOrDefault vars ''CONTROL_NAMESPACE'' ''aura-system''"

definition setupController ::
  "(string \<Rightarrow> go_duration option) \<Rightarrow> environment \<Rightarrow> env \<Rightarrow> AuditRecorder \<Rightarrow> controller" where
  "setupController parse vars E A =
     \<lparr>ctl_LeaderElection = envBool vars ''LEADER_ELECTION_ENABLED'' True,
      ctl_LeaderElectionID = getEnvOrDefault vars ''LEADER_ELECTION_ID'' ''aura-power-controller-leader.power.aura.sh'',
      ctl_WebhookPort = (if envBool vars ''WEBHOOK_ENABLED'' False then Some (envInt vars ''WEBHOOK_PORT'' 9443) else None),
      ctl_Target = targetReconciler E A (guardrailConfig vars) (controllerNamespace vars)
        (durationEnv parse vars ''RECONCILIATION_INTERVAL'' (30 * Second)),
      ctl_Discovery = discoveryLoop E A (guardrailConfig vars) (controllerNamespace vars)
        (durationEnv parse vars ''DISCOVERY_INTERVAL'' (60 * Second)) (splitAndTrim (Getenv vars ''ARGO_TRACKING_LABEL_KEYS''))\<rparr>"

text \<open>The time zone of the built-in schedules.\<close>

definition builtinTimezone :: "environment \<Rightarrow> string \<Rightarrow> string" where
  "builtinTimezone vars tz =
     (if Getenv vars ''BUILTIN_SCHEDULE_TIMEZONE'' \<noteq> '''' then Getenv vars ''BUILTIN_SCHEDULE_TIMEZONE'' else tz)"

subsection \<open>The cleanup of the audit history\<close>

definition cleanupInterval :: "(string \<Rightarrow> go_duration option) \<Rightarrow> environment \<Rightarrow> go_duration" where
  "cleanupInterval parse vars = durationEnv parse vars ''AUDIT_CLEANUP_INTERVAL'' (6 * Hour)"

text \<open>
  The loop of \<open>runAuditCleanup\<close> up to the given number of ticks; what happens between two ticks is not its own.  An
  error is only logged.
\<close>

fun cleanupTicks :: "env \<Rightarrow> AuditRecorder \<Rightarrow> int \<Rightarrow> (trace \<Rightarrow> trace) \<Rightarrow> nat \<Rightarrow> trace \<Rightarrow> trace option" where
  "cleanupTicks E A retentionDays others 0 tr = Some tr"
| "cleanupTicks E A retentionDays others (Suc n) tr =
     (case CleanupExpired E A retentionDays (others tr @ tr) of
        None \<Rightarrow> None
      | Some (_, tr) \<Rightarrow> cleanupTicks E A retentionDays others n tr)"

definition runAuditCleanup :: "environment \<Rightarrow> env \<Rightarrow> AuditRecorder \<Rightarrow> (trace \<Rightarrow> trace) \<Rightarrow> nat \<Rightarrow> trace \<Rightarrow> trace option" where
  "runAuditCleanup vars E A others ticks tr =
     cleanupTicks E A (auditRetentionDays (Getenv vars ''AUDIT_RETENTION_DAYS'')) others ticks tr"

section \<open>The API server\<close>

text \<open>\<open>None\<close> is \<open>os.Exit(1)\<close> because there is no secret.\<close>

record api_server =
  api_Port :: string
  api_Server :: Server
  api_JWT :: JWTService
  api_Admin :: "(string \<times> string) option"

definition setupServer :: "(string \<Rightarrow> go_duration option) \<Rightarrow> environment \<Rightarrow> api_server option" where
  "setupServer parse vars =
     (if getEnvOrDefault vars ''JWT_SECRET'' '''' = '''' then None
      else Some \<lparr>api_Port = getEnvOrDefault vars ''API_PORT'' ''8080'',
        api_Server = \<lparr>srv_ControlNamespace = getEnvOrDefault vars ''CONTROL_NAMESPACE'' ''aura-system'',
          srv_GuardrailConfig = DefaultGuardrailConfig\<rparr>,
        api_JWT = \<lparr>jwt_SecretKey = getEnvOrDefault vars ''JWT_SECRET'' '''',
          jwt_AccessTokenTTL = durationEnv parse vars ''ACCESS_TOKEN_TTL'' Hour,
          jwt_RefreshTokenTTL = durationEnv parse vars ''REFRESH_TOKEN_TTL'' (7 * 24 * Hour)\<rparr>,
        api_Admin = (if getEnvOrDefault vars ''ADMIN_PASSWORD'' '''' \<noteq> ''''
          then Some (getEnvOrDefault vars ''ADMIN_USERNAME'' ''admin'', getEnvOrDefault vars ''ADMIN_PASSWORD'' '''') else None)\<rparr>)"

text \<open>The initial administrator: created, or given the role back.\<close>

definition ensureInitialAdmin :: "aenv \<Rightarrow> string \<Rightarrow> string \<Rightarrow> unit aio" where
  "ensureInitialAdmin A adminUser adminPass =
     (if adminPass \<noteq> '''' then do {
        g \<leftarrow> GetUserByUsername A adminUser;
        case g of
          Inl getErr \<Rightarrow> do { _ \<leftarrow> CreateUser A adminUser adminPass RoleAdmin; return () }
        | Inr existing \<Rightarrow>
            if user_Role existing \<noteq> RoleAdmin then do { _ \<leftarrow> UpdateUser A (user_ID existing) RoleAdmin; return () }
            else return ()
      }
      else return ())"

section \<open>Lemmas\<close>

subsection \<open>Lists in variables\<close>

text \<open>Texts that survive \<open>splitAndTrim\<close>; names of namespaces are of this form.\<close>

definition listable :: "string \<Rightarrow> bool" where
  "listable w \<longleftrightarrow> w \<noteq> [] \<and> list_all (\<lambda>c. c \<noteq> CHR '','' \<and> is_plain c) w"

lemma splitAndTrim_Join:
  assumes "list_all listable ws" and "ws \<noteq> []"
  shows "splitAndTrim (Join ws '','') = ws"
proof -
  have w: "w \<noteq> [] \<and> CHR '','' \<notin> set w \<and> TrimSpace w = w" if "w \<in> set ws" for w
  proof -
    have "w \<noteq> []" and c: "\<forall>c\<in>set w. c \<noteq> CHR '','' \<and> is_plain c"
      using assms(1) that by (simp_all add: list_all_iff listable_def)
    moreover have "TrimSpace w = w" by (rule TrimSpace_plain) (simp add: list_all_iff c)
    ultimately show ?thesis by blast
  qed
  then have "SplitByte CHR '','' (Join ws '','') = ws" using Split_Join[OF assms(2)] by simp
  moreover have "map TrimSpace ws = ws" using w by (intro map_idI) simp
  moreover have "filter (\<lambda>p. p \<noteq> '''') ws = ws" using w by simp
  ultimately show ?thesis by (simp add: splitAndTrim_def)
qed

lemma Join_nonempty: "list_all listable ws \<Longrightarrow> ws \<noteq> [] \<Longrightarrow> Join ws '','' \<noteq> ''''"
  by (cases ws rule: remdups_adj.cases) (simp_all add: listable_def)

text \<open>What the two variables mean.\<close>

lemma guardrails_replaced:
  assumes "list_all listable names" and "names \<noteq> []" and "vars ''SYSTEM_NAMESPACES'' = Some (Join names '','')"
  shows "gc_SystemNamespaces (guardrailConfig vars) = names"
  using assms Join_nonempty[OF assms(1,2)] by (simp add: guardrailConfig_def Getenv_def splitAndTrim_Join)

lemma guardrails_extended:
  assumes "list_all listable names" and "names \<noteq> []" and "Getenv vars ''SYSTEM_NAMESPACES'' = ''''"
    and "vars ''EXTRA_SYSTEM_NAMESPACES'' = Some (Join names '','')"
  shows "gc_SystemNamespaces (guardrailConfig vars) = gc_SystemNamespaces DefaultGuardrailConfig @ names"
  using assms Join_nonempty[OF assms(1,2)] by (simp add: guardrailConfig_def Getenv_def splitAndTrim_Join)

text \<open>The variable lists these names; when there are none it is not set (or empty, which is the same).\<close>

definition lists_names :: "environment \<Rightarrow> string \<Rightarrow> string list \<Rightarrow> bool" where
  "lists_names vars key names \<longleftrightarrow>
     (if names = [] then Getenv vars key = '''' else list_all listable names \<and> vars key = Some (Join names '',''))"

lemma guardrails_listed:
  assumes "lists_names vars ''SYSTEM_NAMESPACES'' replaced" and "lists_names vars ''EXTRA_SYSTEM_NAMESPACES'' extra"
  shows "set (gc_SystemNamespaces (guardrailConfig vars)) = (if replaced \<noteq> [] then set replaced
      else {''kube-system'', ''kube-public'', ''kube-node-lease'', ''aura-system''} \<union> set extra)"
proof (cases "replaced = []")
  case False
  with assms(1) guardrails_replaced[of replaced vars] show ?thesis by (simp add: lists_names_def)
next
  case True
  with assms(1) have unset: "Getenv vars ''SYSTEM_NAMESPACES'' = ''''" by (simp add: lists_names_def)
  show ?thesis
  proof (cases "extra = []")
    case True
    with unset \<open>replaced = []\<close> assms(2) show ?thesis
      by (simp add: lists_names_def guardrailConfig_def) (auto simp: DefaultGuardrailConfig_def)
  next
    case False
    with unset \<open>replaced = []\<close> assms(2) guardrails_extended[of extra vars] show ?thesis
      by (auto simp: lists_names_def DefaultGuardrailConfig_def)
  qed
qed

lemma gc_CustomBlocklist_guardrailConfig [simp]: "gc_CustomBlocklist (guardrailConfig vars) = []"
  by (simp add: guardrailConfig_def DefaultGuardrailConfig_def)

text \<open>Durations are always positive, so neither a ticker nor a requeue is given zero.\<close>

lemma durationEnv_positive: "0 < fallback \<Longrightarrow> 0 < durationEnv parse vars key fallback"
  by (simp add: durationEnv_def split: option.splits)

lemma setupController_intervals:
  "0 < rec_RequeueAfter (ctl_Target (setupController parse vars E A))"
  "0 < dc_Interval (dl_Config (ctl_Discovery (setupController parse vars E A)))"
  "0 < cleanupInterval parse vars"
  by (simp_all add: setupController_def targetReconciler_def discoveryLoop_def cleanupInterval_def durationEnv_positive time_defs)

lemma auditRetentionDays_positive: "0 < auditRetentionDays v"
  by (simp add: auditRetentionDays_def split: option.splits)

text \<open>Without the two variables both binaries use the same guardrails; then a preview can be right.\<close>

lemma same_guardrails:
  assumes "Getenv vars ''SYSTEM_NAMESPACES'' = ''''" and "Getenv vars ''EXTRA_SYSTEM_NAMESPACES'' = ''''"
    and "setupServer parse vars' = Some srv"
  shows "srv_GuardrailConfig (api_Server srv) = guardrailConfig vars"
  using assms by (auto simp: setupServer_def guardrailConfig_def split: if_splits)

text \<open>With them they differ: the API server previews a change of a workload that the controller protects.\<close>

lemma preview_ignores_extra_namespaces:
  assumes "list_all listable names" and "names \<noteq> []" and "Getenv vars ''SYSTEM_NAMESPACES'' = ''''"
    and "vars ''EXTRA_SYSTEM_NAMESPACES'' = Some (Join names '','')" and "setupServer parse vars = Some srv"
    and "ns \<in> set names" and "ns \<notin> set (gc_SystemNamespaces DefaultGuardrailConfig)"
  shows "IsSystemNamespace ns (guardrailConfig vars)" and "\<not> IsSystemNamespace ns (srv_GuardrailConfig (api_Server srv))"
proof -
  show "IsSystemNamespace ns (guardrailConfig vars)"
    using guardrails_extended[OF assms(1-4)] assms(6) by (simp add: IsSystemNamespace_iff)
  have "srv_GuardrailConfig (api_Server srv) = DefaultGuardrailConfig"
    using assms(5) by (auto simp: setupServer_def split: if_splits)
  with assms(7) show "\<not> IsSystemNamespace ns (srv_GuardrailConfig (api_Server srv))"
    by (simp add: IsSystemNamespace_iff) (simp add: DefaultGuardrailConfig_def)
qed

subsection \<open>The cleanup loop\<close>

lemma CleanupExpired_run:
  assumes "CleanupExpired E A days tr = Some ((n, err), tr')"
  shows "\<exists>new now. tr' = new @ Now now # tr \<and> length (deletions new) \<le> maxDeletesPerRun \<and>
    (\<forall>e\<in>set new. cleanup_event (now + retentionOffset days) e)"
proof -
  let ?now = "env_Now E tr"
  have "cleanupPages E (ar_Namespace A) (?now + retentionOffset days) '''' 0 (Now ?now # tr) = Some ((n, err), tr')"
    using assms by (simp add: CleanupExpired_def time_Now_def)
  from cleanupPages_sound[OF this] show ?thesis
    by (auto simp: maxDeletesPerRun_def deletions_append)
qed

text \<open>Whatever was deleted had been created before a cutoff, which lies at an offset from a clock reading before the deletion.\<close>

fun deleted_before :: "go_duration \<Rightarrow> trace \<Rightarrow> bool" where
  "deleted_before offset [] \<longleftrightarrow> True"
| "deleted_before offset (e # tr) \<longleftrightarrow> (\<forall>i r. e = DeleteAuditEvent i r \<longrightarrow>
     (\<exists>now. Now now \<in> set tr \<and> om_CreationTimestamp (pae_Meta i) < now + offset)) \<and> deleted_before offset tr"

lemma deleted_before_append: "deleted_before d xs \<Longrightarrow> deleted_before d ys \<Longrightarrow> deleted_before d (xs @ ys)"
  by (induction xs) auto

lemma deleted_before_idle: "\<forall>i r. DeleteAuditEvent i r \<notin> set tr \<Longrightarrow> deleted_before d tr"
  by (induction tr) auto

lemma deleted_before_cleanup:
  "\<forall>e\<in>set new. cleanup_event (now + d) e \<Longrightarrow> Now now \<in> set tr \<Longrightarrow> deleted_before d tr \<Longrightarrow> deleted_before d (new @ tr)"
  by (induction new) (auto simp: cleanup_event_def)

lemma deletions_none: "\<forall>i r. DeleteAuditEvent i r \<notin> set tr \<Longrightarrow> deletions tr = []"
  by (induction tr rule: deletions.induct) auto

lemma cleanupTicks_deletions:
  assumes idle: "\<And>tr i r. DeleteAuditEvent i r \<notin> set (others tr)"
  shows "cleanupTicks E A days others ticks tr = Some tr' \<Longrightarrow>
    \<exists>new. tr' = new @ tr \<and> length (deletions new) \<le> ticks * maxDeletesPerRun \<and> deleted_before (retentionOffset days) new"
proof (induction ticks arbitrary: tr)
  case (Suc n)
  obtain m err tr1 where run: "CleanupExpired E A days (others tr @ tr) = Some ((m, err), tr1)"
    and rest: "cleanupTicks E A days others n tr1 = Some tr'"
    using Suc.prems by (auto split: option.splits)
  obtain new now where new: "tr1 = new @ Now now # others tr @ tr" "length (deletions new) \<le> maxDeletesPerRun"
    "\<forall>e\<in>set new. cleanup_event (now + retentionOffset days) e"
    using CleanupExpired_run[OF run] by blast
  obtain new' where new': "tr' = new' @ tr1" "length (deletions new') \<le> n * maxDeletesPerRun" "deleted_before (retentionOffset days) new'"
    using Suc.IH[OF rest] by blast
  have others: "deleted_before (retentionOffset days) (Now now # others tr)" using deleted_before_idle[of "others tr"] idle by simp
  have "deleted_before (retentionOffset days) (new' @ new @ Now now # others tr)"
    by (intro deleted_before_append new'(3) deleted_before_cleanup[OF new(3) _ others]) simp
  moreover have "length (deletions (new' @ new @ Now now # others tr)) \<le> Suc n * maxDeletesPerRun"
    using new(2) new'(2) deletions_none[of "others tr"] idle by (simp add: deletions_append)
  moreover have "tr' = (new' @ new @ Now now # others tr) @ tr" by (simp add: new(1) new'(1))
  ultimately show ?case by blast
qed simp

subsection \<open>The initial administrator\<close>

lemma undisturbed_getUser:
  "undisturbed A \<Longrightarrow> run_state (getUser A k) tr =
     (case find (user_matches k) (db_Users (db_after A tr)) of None \<Rightarrow> Inl ErrUserNotFound | Some u \<Rightarrow> Inr u,
      QueryUser (db_after A tr) k (Inr (find (user_matches k) (db_Users (db_after A tr)))) # tr)"
  by (simp add: getUser_def db_Query_def read_answer_def db_found_def undisturbed_def split: option.splits)

definition with_admin :: "string \<Rightarrow> User list \<Rightarrow> User list" where
  "with_admin name us = map (\<lambda>u. if user_Username u = name then u\<lparr>user_Role := RoleAdmin\<rparr> else u) us"

lemma ensureInitialAdmin_existing:
  assumes "undisturbed A" and "ledger (db_after A tr)" and "adminPass \<noteq> ''''"
    and "u \<in> set (db_Users (db_after A tr))" and "user_Username u = adminUser"
    and "run_state (ensureInitialAdmin A adminUser adminPass) tr = ((), tr')"
  shows "db_after A tr' = (db_after A tr)\<lparr>db_Users := with_admin adminUser (db_Users (db_after A tr))\<rparr>"
proof -
  define db where "db = db_after A tr"
  have ids: "distinct (map user_ID (db_Users db))" "distinct (map user_Username (db_Users db))"
    using assms(2) by (simp_all add: ledger_def db_def)
  have u: "u \<in> set (db_Users db)" using assms(4) by (simp add: db_def)
  have found: "find (user_matches (ByUsername adminUser)) (db_Users db) = Some u"
  proof -
    have "user_matches (ByUsername adminUser) = (\<lambda>y. user_Username y = user_Username u)"
      using assms(5) by (simp add: fun_eq_iff)
    with find_unique[OF ids(2) u] show ?thesis by simp
  qed
  have same: "user_ID v = user_ID u \<longleftrightarrow> user_Username v = adminUser" if "v \<in> set (db_Users db)" for v
    using distinct_mapD[OF ids(1) that u] distinct_mapD[OF ids(2) that u] assms(5) by auto
  have upd: "map (\<lambda>v. if user_ID v = user_ID u then v\<lparr>user_Role := RoleAdmin\<rparr> else v) (db_Users db) = with_admin adminUser (db_Users db)"
    unfolding with_admin_def using same by (intro map_cong) simp_all
  show ?thesis
  proof (cases "user_Role u = RoleAdmin")
    case True
    have "v\<lparr>user_Role := RoleAdmin\<rparr> = v" if "v \<in> set (db_Users db)" "user_Username v = adminUser" for v
      using True distinct_mapD[OF ids(2) that(1) u] that(2) assms(5) by simp
    then have "with_admin adminUser (db_Users db) = db_Users db"
      unfolding with_admin_def by (intro map_idI) simp
    with True assms(3,6) show ?thesis
      by (simp add: ensureInitialAdmin_def GetUserByUsername_def undisturbed_getUser[OF assms(1)] found[unfolded db_def] db_def)
        auto
  next
    case False
    then show ?thesis using assms(3,6)
      by (simp add: ensureInitialAdmin_def GetUserByUsername_def undisturbed_getUser[OF assms(1)] found[unfolded db_def]
          UpdateUser_def undisturbed_Exec[OF assms(1)] sql_update_def upd[unfolded db_def] split: prod.splits)
        auto
  qed
qed

lemma ensureInitialAdmin_new:
  assumes "undisturbed A" and "adminPass \<noteq> ''''" and "adminUser \<notin> user_Username ` set (db_Users (db_after A tr))"
    and hash: "\<And>tr. \<exists>h. av_HashPassword A tr adminPass = Inr h"
    and fresh: "\<And>tr'. hex_EncodeToString (take 16 (av_RandRead A tr')) \<notin> user_ID ` set (db_Users (db_after A tr))"
    and "run_state (ensureInitialAdmin A adminUser adminPass) tr = ((), tr')"
  shows "\<exists>u. db_after A tr' = (db_after A tr)\<lparr>db_Users := db_Users (db_after A tr) @ [u]\<rparr> \<and>
    user_Username u = adminUser \<and> user_Role u = RoleAdmin"
proof -
  define db where "db = db_after A tr"
  have none: "find (user_matches (ByUsername adminUser)) (db_Users db) = None"
    using assms(3) by (auto simp: find_None_iff db_def)
  define q where "q = QueryUser db (ByUsername adminUser) (Inr None) # tr"
  obtain h where h: "av_HashPassword A q adminPass = Inr h" using hash by blast
  define tr1 where "tr1 = HashPasswordCall adminPass (Inr h) # q"
  define i where "i = take 16 (av_RandRead A tr1)"
  define tr2 where "tr2 = ServerClock (av_Clock A (RandRead i # tr1)) # RandRead i # tr1"
  define u where "u = \<lparr>user_ID = hex_EncodeToString i, user_Username = adminUser, user_PasswordHash = h, user_Role = RoleAdmin,
    user_CreatedAt = av_Clock A (RandRead i # tr1)\<rparr>"
  have after: "db_after A tr2 = db" by (simp add: tr2_def tr1_def q_def)
  have "\<not> list_ex (\<lambda>v. user_ID v = user_ID u \<or> user_Username v = user_Username u) (db_Users db)"
    using assms(3) fresh[of tr1] by (auto simp: list_ex_iff u_def db_def i_def image_iff)
  then have ins: "run_state (db_Exec A (InsertUser u)) tr2 =
      (Inr 1, Execute db (InsertUser u) (Inr 1) (db\<lparr>db_Users := db_Users db @ [u]\<rparr>) # tr2)"
    using undisturbed_Exec[OF assms(1), of "InsertUser u" tr2] by (simp add: after)
  have steps: "run_state (GetUserByUsername A adminUser) tr = (Inl ErrUserNotFound, q)"
    "run_state (HashPassword A adminPass) q = (Inr h, tr1)"
    "run_state (GenerateID A) tr1 = (hex_EncodeToString i, RandRead i # tr1)"
    "run_state (server_clock A) (RandRead i # tr1) = (av_Clock A (RandRead i # tr1), tr2)"
    using none h[unfolded q_def db_def]
    by (simp_all add: GetUserByUsername_def undisturbed_getUser[OF assms(1)] q_def db_def HashPassword_def
        tr1_def GenerateID_def i_def server_clock_def tr2_def)
  have "run_state (CreateUser A adminUser adminPass RoleAdmin) q =
      (Inr u, Execute db (InsertUser u) (Inr 1) (db\<lparr>db_Users := db_Users db @ [u]\<rparr>) # tr2)"
    using ins by (simp add: CreateUser_def steps u_def Let_def)
  then have "run_state (ensureInitialAdmin A adminUser adminPass) tr =
      ((), Execute db (InsertUser u) (Inr 1) (db\<lparr>db_Users := db_Users db @ [u]\<rparr>) # tr2)"
    using assms(2) by (simp add: ensureInitialAdmin_def steps)
  with assms(6) show ?thesis by (auto simp: u_def db_def)
qed

subsection \<open>What a preview predicts\<close>

text \<open>The cluster with these policies.\<close>

definition with_policies :: "PowerPolicy list \<Rightarrow> env \<Rightarrow> env" where
  "with_policies ps E = E\<lparr>env_ListPolicies := (\<lambda>_ _. Inr ps)\<rparr>"

lemma with_policies_simps [simp]:
  "env_ListPolicies (with_policies ps E) tr ns = Inr ps" "env_GetGroup (with_policies ps E) = env_GetGroup E"
  by (simp_all add: with_policies_def)

lemma resolveGroups_with_policies [simp]: "resolveGroups (with_policies ps E) ns names seen res = resolveGroups E ns names seen res"
  by (induction names arbitrary: seen res) (simp_all add: getGroup_def prod.case_eq_if)

lemma resolvePolicies_with_policies [simp]: "resolvePolicies (with_policies qs E) ps = resolvePolicies E ps"
  by (induction ps) (simp_all add: ResolveScope_def)

text \<open>The rules that the reconciler loads from it.\<close>

lemma loads_with_policies:
  assumes "quiet_groups E G"
  shows "value_of (loadPolicies (with_policies ps E) R) = Inr (value_of (resolvePolicies E ps))"
proof -
  have "quiet_groups (with_policies ps E) G" using assms by (simp add: quiet_groups_def)
  from quiet_groups.value_loadPolicies[OF this, of R ps] show ?thesis by simp
qed

text \<open>
  The system namespaces of the guardrails count only for a target in one of them: two configurations that differ there
  decide alike for a target whose namespace is protected by both or by none.
\<close>

lemma ComputeDecision_system_namespaces:
  assumes "c' = c\<lparr>gc_SystemNamespaces := names\<rparr>"
    and "IsSystemNamespace (ref_Namespace (tgt_Ref t)) c' \<longleftrightarrow> IsSystemNamespace (ref_Namespace (tgt_Ref t)) c"
  shows "ComputeDecision tz t ps vs c' now = ComputeDecision tz t ps vs c now"
proof -
  have "ownershipBlock c' = ownershipBlock c" by (simp add: assms(1) ownershipBlock_def fun_eq_iff)
  moreover have "checkSystemNamespace t c' = checkSystemNamespace t c" using assms(2) by (simp add: checkSystemNamespace_def)
  moreover have "IsExempt t c' = IsExempt t c" "IsOptedIn t c' = IsOptedIn t c"
    by (simp_all add: assms(1) IsExempt_def IsOptedIn_def)
  ultimately have "EvaluateGuardrails t c' = EvaluateGuardrails t c" "IsExempt t c' = IsExempt t c"
    by (simp_all add: EvaluateGuardrails_def checkOwnership_def)
  then show ?thesis by (simp add: ComputeDecision_eq Let_def)
qed

lemma guardrailConfig_update: "\<exists>names. guardrailConfig vars = DefaultGuardrailConfig\<lparr>gc_SystemNamespaces := names\<rparr>"
proof -
  have "DefaultGuardrailConfig = DefaultGuardrailConfig\<lparr>gc_SystemNamespaces := gc_SystemNamespaces DefaultGuardrailConfig\<rparr>" by simp
  then show ?thesis by (metis guardrailConfig_def)
qed

lemma setupServer_simps:
  assumes "setupServer parse vars = Some srv"
  shows "srv_GuardrailConfig (api_Server srv) = DefaultGuardrailConfig" "controlNamespace (api_Server srv) = controllerNamespace vars"
  using assms by (auto simp: setupServer_def controlNamespace_def controllerNamespace_def getEnvOrDefault_def split: if_splits)

lemma setupController_simps:
  "rec_Config (ctl_Target (setupController parse vars E A)) = guardrailConfig vars"
  "rec_ControlNamespace (ctl_Target (setupController parse vars E A)) = controllerNamespace vars"
  by (simp_all add: setupController_def targetReconciler_def)

text \<open>
  In such a cluster the decision on which a reconciliation acts is \<open>ComputeDecision\<close> with these rules and the
  configuration of the reconciler, at an instant that it reads from the clock.
\<close>

lemma Reconcile_decision:
  assumes quiet: "quiet_groups E G" and lists: "\<And>tr. env_ListPolicies E tr (rec_ControlNamespace R) = Inr ps"
      "\<And>tr. env_ListOverrides E tr (rec_ControlNamespace R) = Inr vs"
    and target: "\<And>tr. env_GetTarget E tr False req = Inr t" "tref_UID (pt_TargetRef t) \<noteq> ''''"
    and managed: "namespaceIsManaged (rec_ControlNamespace R) (nn_Namespace req)"
  shows "\<exists>tr1 now start. run_state (Reconcile E R req) tr = run_state (
    let decision = ComputeDecision (env_tzdb E) (toDomainTarget t) (value_of (resolvePolicies E ps))
          (value_of (resolveOverrides E vs)) (rec_Config R) now;
        marked = updateTargetStatus (env_rnd E) t decision now
    in do {
      u \<leftarrow> (if \<not> semantic_eq_map (om_Labels (pt_Meta t)) (om_Labels (pt_Meta marked)) then updateTarget E marked
           else return (Inr marked));
      case u of
        Inl err \<Rightarrow> return (Result errorRequeueAfter)
      | Inr target \<Rightarrow> do {
          (handled, err, target) \<leftarrow> reconcilePendingAudit E R target (tgt_Ref (toDomainTarget t)) (nn_String req);
          if err \<noteq> None then return (Result errorRequeueAfter)
          else if handled then return (Result (requeueAfter R))
          else actOnDecision E R req (toDomainTarget t) decision (pt_Status t) target start
        }
    }) (Now now # tr1)"
proof -
  let ?tr = "GetTarget False req (Inr t) # Now (env_Now E tr) # tr"
  have loaded: "value_of (loadPolicies E R) = Inr (value_of (resolvePolicies E ps))"
    "value_of (loadOverrides E R) = Inr (value_of (resolveOverrides E vs))"
    by (rule quiet_groups.value_loadPolicies[OF quiet] quiet_groups.value_loadOverrides[OF quiet], rule lists)+
  obtain tr1 where policies: "run_state (loadPolicies E R) ?tr = (Inr (value_of (resolvePolicies E ps)), tr1)"
    using quiet_groups.timeless_loads[OF quiet lists, THEN timeless_value] loaded by (metis prod.collapse)
  obtain tr2 where overrides: "run_state (loadOverrides E R) tr1 = (Inr (value_of (resolveOverrides E vs)), tr2)"
    using quiet_groups.timeless_loads[OF quiet lists, THEN timeless_value] loaded by (metis prod.collapse)
  show ?thesis
    by (rule exI[of _ tr2], rule exI[of _ "env_Now E tr2"], rule exI[of _ "env_Now E tr"])
      (simp add: Reconcile_def managed time_Now_def getTarget_def target policies overrides Let_def)
qed

section \<open>Properties\<close>

text \<open>
  C31. What a preview predicts: for the API server and a controller that work in the same control namespace and on the same
  cluster, whose objects do not change meanwhile, and for policies that pass the schema of the custom
  resource, an answered preview of a policy lists the workloads that turn on, turn off and are blocked, in the order of the
  targets.  For each target whose namespace both binaries protect or neither does, these are the changes of the decision that
  the reconciler of this controller takes, with the rules it loads and its own guardrails, when
  the policy is added (a stored policy of the same name counts neither before nor after).  For any other target the preview shows
  what the same reconciler would decide if it protected the built-in system namespaces, as the server ignores the variables
  that configure them.
\<close>

theorem preview_predicts_controller:
  fixes E name spec ps vs ts parse vars parse' vars' srv A
  defines "s \<equiv> api_Server srv" and "R \<equiv> ctl_Target (setupController parse vars E A)"
  defines "kept \<equiv> filter (\<lambda>p. (controlNamespace s, name) \<noteq> (om_Namespace (pp_Meta p), om_Name (pp_Meta p))) ps"
    and "alike \<equiv> \<lambda>t. IsSystemNamespace (ref_Namespace (tgt_Ref t)) (rec_Config R) =
      IsSystemNamespace (ref_Namespace (tgt_Ref t)) (srv_GuardrailConfig s)"
  assumes server: "setupServer parse' vars' = Some srv" and same: "controllerNamespace vars = controllerNamespace vars'"
    and "quiet_groups E G"
    and lists: "\<And>tr. env_ListTargets E tr (controlNamespace s) = Inr ts" "\<And>tr. env_ListPolicies E tr (controlNamespace s) = Inr ps"
      "\<And>tr. env_ListOverrides E tr (controlNamespace s) = Inr vs"
    and crd: "crd_policy spec" "list_all (\<lambda>p. crd_policy (pp_Spec p)) ps"
    and run: "run_state (handlePreviewPolicy E s None (Some name) (Inr spec)) tr = (Answer 200 r, tr')"
  shows "\<exists>created now rules rules' overrides. {Now created, Now now} \<subseteq> set tr' \<and>
    value_of (loadPolicies (with_policies kept E) R) = Inr rules \<and>
    value_of (loadPolicies (with_policies (kept @ [proposedPolicy (rec_ControlNamespace R) name spec created]) E) R) = Inr rules' \<and>
    value_of (loadOverrides E R) = Inr overrides \<and>
    (let decide = (\<lambda>c rules t. ComputeDecision (env_tzdb E) t rules overrides c now);
         change = (\<lambda>t. let c = if alike t then rec_Config R
             else (rec_Config R)\<lparr>gc_SystemNamespaces := gc_SystemNamespaces DefaultGuardrailConfig\<rparr>
           in impact_of (decide c rules t) (decide c rules' t));
         targets = map toDomainTarget ts
     in prv_AffectedOn r = refs_with change TurnsOn targets \<and> prv_AffectedOff r = refs_with change TurnsOff targets \<and>
        map bt_Ref (prv_Blocked r) = refs_with change Refused targets \<and>
        prv_TotalAffected r = int (length (filter (\<lambda>t. change t \<in> {TurnsOn, TurnsOff, Refused}) targets)))"
proof -
  note quiet = \<open>quiet_groups E G\<close>
  have s: "srv_GuardrailConfig s = DefaultGuardrailConfig" "controlNamespace s = controllerNamespace vars"
    using setupServer_simps[OF server] same by (simp_all add: s_def)
  have R: "rec_Config R = guardrailConfig vars" "rec_ControlNamespace R = controllerNamespace vars"
    by (simp_all add: R_def setupController_simps)
  obtain names where names: "rec_Config R = DefaultGuardrailConfig\<lparr>gc_SystemNamespaces := names\<rparr>"
    using guardrailConfig_update R(1) by metis
  then have default: "(rec_Config R)\<lparr>gc_SystemNamespaces := gc_SystemNamespaces DefaultGuardrailConfig\<rparr> = DefaultGuardrailConfig" by simp
  have decide: "ComputeDecision tz t qs ws (if alike t then rec_Config R else DefaultGuardrailConfig) now =
      ComputeDecision tz t qs ws DefaultGuardrailConfig now" for tz t qs ws now
    using ComputeDecision_system_namespaces[OF names] by (simp add: alike_def s(1))
  have overrides: "value_of (loadOverrides E R) = Inr (value_of (resolveOverrides E vs))"
    using quiet_groups.value_loadOverrides[OF quiet] lists(3) R(2) s(2) by simp
  obtain created now where clock: "{Now created, Now now} \<subseteq> set tr'" and changes: "
    (let rules = value_of (resolvePolicies E kept);
         rules' = value_of (resolvePolicies E (kept @ [proposedPolicy (controlNamespace s) name spec created]));
         overrides = value_of (resolveOverrides E vs);
         decide = (\<lambda>rules t. ComputeDecision (env_tzdb E) t rules overrides (srv_GuardrailConfig s) now);
         change = (\<lambda>t. impact_of (decide rules t) (decide rules' t));
         targets = map toDomainTarget ts
     in prv_AffectedOn r = refs_with change TurnsOn targets \<and> prv_AffectedOff r = refs_with change TurnsOff targets \<and>
        map bt_Ref (prv_Blocked r) = refs_with change Refused targets \<and>
        prv_TotalAffected r = int (length (filter (\<lambda>t. change t \<in> {TurnsOn, TurnsOff, Refused}) targets)))"
    unfolding kept_def using previewed_changes[OF quiet lists crd run] by blast
  show ?thesis
    by (rule exI[of _ created], rule exI[of _ now], (rule exI)+, rule conjI[OF clock], rule conjI[OF loads_with_policies[OF quiet]],
      rule conjI[OF loads_with_policies[OF quiet]], rule conjI[OF overrides], insert changes)
      (simp only: Let_def if_distrib[symmetric] decide default s R(2))
qed

text \<open>
  A preview by a configured server, for a controller that also protects the namespace \<open>stage\<close>: the workload in the
  namespace \<open>dev\<close> is to be turned off.
\<close>

definition preview_vars :: environment where
  "preview_vars = [''JWT_SECRET'' \<mapsto> ''secret'', ''EXTRA_SYSTEM_NAMESPACES'' \<mapsto> ''stage'']"

definition preview_api :: Server where
  "preview_api = \<lparr>srv_ControlNamespace = ''aura-system'', srv_GuardrailConfig = DefaultGuardrailConfig\<rparr>"

lemma preview_api_eq: "\<exists>srv. setupServer (\<lambda>_. None) preview_vars = Some srv \<and> api_Server srv = preview_api"
  by (simp add: setupServer_def getEnvOrDefault_def Getenv_def preview_vars_def preview_api_def)

definition demo_preview :: "previewResponse answer \<times> trace" where
  "demo_preview = run_state (handlePreviewPolicy still_cluster preview_api None (Some ''nightly'') (Inr off_spec)) []"

lemma demo_preview_answer:
  "fst demo_preview = Answer 200 \<lparr>prv_AffectedOn = [], prv_AffectedOff = [web_ref], prv_Blocked = [], prv_Unsupported = [],
     prv_Conflicts = [], prv_TotalAffected = 1\<rparr>"
  by code_simp

lemma preview_names: "gc_SystemNamespaces (guardrailConfig preview_vars) = gc_SystemNamespaces DefaultGuardrailConfig @ [''stage'']"
  by (rule guardrails_extended) (simp_all add: preview_vars_def Getenv_def listable_def is_plain_def is_space_def)

theorem preview_predicts_controller_witness:
  "\<exists>created now rules rules'. {Now created, Now now} \<subseteq> set (snd demo_preview) \<and>
     value_of (loadPolicies (with_policies [] still_cluster)
       (ctl_Target (setupController (\<lambda>_. None) preview_vars still_cluster sample_recorder))) = Inr rules \<and>
     value_of (loadPolicies (with_policies [proposedPolicy ''aura-system'' ''nightly'' off_spec created] still_cluster)
       (ctl_Target (setupController (\<lambda>_. None) preview_vars still_cluster sample_recorder))) = Inr rules' \<and>
     [web_ref] = refs_with (\<lambda>t. impact_of
         (ComputeDecision (env_tzdb still_cluster) t rules [] (guardrailConfig preview_vars) now)
         (ComputeDecision (env_tzdb still_cluster) t rules' [] (guardrailConfig preview_vars) now)) TurnsOff [toDomainTarget web_target]"
proof -
  obtain srv where srv: "setupServer (\<lambda>_. None) preview_vars = Some srv" "api_Server srv = preview_api"
    using preview_api_eq by blast
  have quiet: "quiet_groups still_cluster (\<lambda>_. Inl not_found)" by unfold_locales simp
  have run: "run_state (handlePreviewPolicy still_cluster (api_Server srv) None (Some ''nightly'') (Inr off_spec)) [] =
    (Answer 200 \<lparr>prv_AffectedOn = [], prv_AffectedOff = [web_ref], prv_Blocked = [], prv_Unsupported = [],
     prv_Conflicts = [], prv_TotalAffected = 1\<rparr>, snd demo_preview)"
    using demo_preview_answer unfolding demo_preview_def srv(2) by (metis prod.collapse)
  have crd: "crd_policy off_spec" by (simp add: off_spec_def crd_policy_def)
  have namespaces: "controllerNamespace preview_vars = ''aura-system''"
    by (simp add: controllerNamespace_def getEnvOrDefault_def Getenv_def preview_vars_def)
  have none: "value_of (loadOverrides still_cluster (ctl_Target (setupController (\<lambda>_. None) preview_vars still_cluster sample_recorder))) = Inr []"
    using quiet_groups.value_loadOverrides[OF quiet, of _ "[]"] by (simp add: value_of_def)
  have alike: "IsSystemNamespace ''dev'' (guardrailConfig preview_vars) = IsSystemNamespace ''dev'' DefaultGuardrailConfig"
    by (simp add: IsSystemNamespace_iff preview_names) (simp add: DefaultGuardrailConfig_def)
  have dev: "ref_Namespace (tgt_Ref (toDomainTarget web_target)) = ''dev''" by code_simp
  let ?R = "ctl_Target (setupController (\<lambda>_. None) preview_vars still_cluster sample_recorder)"
  let ?c = "\<lambda>t. if IsSystemNamespace (ref_Namespace (tgt_Ref t)) (guardrailConfig preview_vars) =
        IsSystemNamespace (ref_Namespace (tgt_Ref t)) DefaultGuardrailConfig then guardrailConfig preview_vars
      else (guardrailConfig preview_vars)\<lparr>gc_SystemNamespaces := gc_SystemNamespaces DefaultGuardrailConfig\<rparr>"
  have same: "controllerNamespace preview_vars = controllerNamespace preview_vars" by simp
  note predicted = preview_predicts_controller[where ts = "[web_target]" and ps = "[]" and vs = "[]" and parse = "\<lambda>_. None"
      and vars = preview_vars and A = sample_recorder, OF srv(1) same quiet still_cluster_simps(2-4) crd list.pred_inject(1) run]
  have api: "srv_GuardrailConfig (api_Server srv) = DefaultGuardrailConfig" by (simp add: srv(2) preview_api_def)
  obtain created now rules rules' overrides where p: "{Now created, Now now} \<subseteq> set (snd demo_preview)"
    "value_of (loadPolicies (with_policies [] still_cluster) ?R) = Inr rules"
    "value_of (loadPolicies (with_policies [proposedPolicy ''aura-system'' ''nightly'' off_spec created] still_cluster) ?R) = Inr rules'"
    "value_of (loadOverrides still_cluster ?R) = Inr overrides"
    "[web_ref] = refs_with (\<lambda>t. impact_of (ComputeDecision (env_tzdb still_cluster) t rules overrides (?c t) now)
        (ComputeDecision (env_tzdb still_cluster) t rules' overrides (?c t) now)) TurnsOff [toDomainTarget web_target]"
    using predicted unfolding Let_def setupController_simps namespaces api append_Nil filter.simps list.map previewResponse.simps
    by (elim exE conjE) (rule that; assumption)
  moreover have "overrides = []" using p(4) none by simp
  moreover have "?c (toDomainTarget web_target) = guardrailConfig preview_vars" using alike by (simp add: dev)
  ultimately have "[web_ref] = refs_with (\<lambda>t. impact_of
         (ComputeDecision (env_tzdb still_cluster) t rules [] (guardrailConfig preview_vars) now)
         (ComputeDecision (env_tzdb still_cluster) t rules' [] (guardrailConfig preview_vars) now)) TurnsOff [toDomainTarget web_target]"
    by (simp add: refs_with_def)
  with p(1-3) show ?thesis by blast
qed

text \<open>
  C35. Which namespaces the two variables protect, and that the protection holds end to end.  When
  \<open>SYSTEM_NAMESPACES\<close> lists names, the guardrail recognises exactly these: neither the built-in
  namespaces nor those of \<open>EXTRA_SYSTEM_NAMESPACES\<close> count.  When it is not set, the built-in namespaces and those of
  \<open>EXTRA_SYSTEM_NAMESPACES\<close> are recognised.  In both cases every write to a workload that a reconciliation of the controller so
  configured makes restores it, provided that the target it read lies in a recognised namespace.
\<close>

theorem configured_namespaces_protected:
  fixes parse vars E A replaced extra
  defines "protected \<equiv> if replaced \<noteq> [] then set replaced
      else {''kube-system'', ''kube-public'', ''kube-node-lease'', ''aura-system''} \<union> set extra"
    and "R \<equiv> ctl_Target (setupController parse vars E A)"
  assumes "lists_names vars ''SYSTEM_NAMESPACES'' replaced" and "lists_names vars ''EXTRA_SYSTEM_NAMESPACES'' extra"
  shows "(\<forall>ns. IsSystemNamespace ns (rec_Config R) \<longleftrightarrow> ns \<in> protected) \<and>
    (\<forall>req post e pre. snd (run_state (Reconcile E R req) []) = post @ e # pre \<and> workload_write e \<and>
       (\<forall>t. GetTarget False req (Inr t) \<in> set pre \<longrightarrow> tref_Namespace (pt_TargetRef t) \<in> protected) \<longrightarrow>
       (\<exists>ref d. dec_DesiredState d = PowerStateOn \<and> restore_authorised ref d e pre))"
proof -
  have target: "R = targetReconciler E A (guardrailConfig vars)
      (controllerNamespace vars) (durationEnv parse vars ''RECONCILIATION_INTERVAL'' (30 * Second))"
    by (simp add: R_def setupController_def)
  then have cfg: "rec_Config R = guardrailConfig vars" by (simp add: targetReconciler_def)
  have names: "set (gc_SystemNamespaces (guardrailConfig vars)) = protected"
    using guardrails_listed[OF assms(3,4)] by (simp add: protected_def)
  have "\<exists>ref d. dec_DesiredState d = PowerStateOn \<and> restore_authorised ref d e pre"
    if run: "snd (run_state (Reconcile E R req) []) = post @ e # pre" "workload_write e"
      and reads: "\<And>t. GetTarget False req (Inr t) \<in> set pre \<Longrightarrow> tref_Namespace (pt_TargetRef t) \<in> protected" for req post e pre
    using authorised_protected[OF guarded_at[OF wired.Reconcile_guarded run(1)[unfolded target] run(2)]] reads
    by (simp add: names)
  then show ?thesis by (simp add: cfg IsSystemNamespace_iff names) blast
qed

text \<open>A controller that protects two more namespaces, on a cluster in which it restores a workload.\<close>

definition demo_vars :: environment where
  "demo_vars = [''CONTROL_NAMESPACE'' \<mapsto> ''aura'', ''EXTRA_SYSTEM_NAMESPACES'' \<mapsto> ''stage,dev'']"

definition demo_reconcile :: trace where
  "demo_reconcile = snd (run_state (Reconcile thaw_cluster
     (ctl_Target (setupController (\<lambda>_. None) demo_vars thaw_cluster sample_recorder)) dev_request) [])"

lemma demo_vars_lists:
  "lists_names demo_vars ''SYSTEM_NAMESPACES'' []" "lists_names demo_vars ''EXTRA_SYSTEM_NAMESPACES'' [''stage'', ''dev'']"
  by (simp_all add: lists_names_def demo_vars_def Getenv_def listable_def is_plain_def is_space_def)

lemma demo_reconcile_eq:
  "demo_reconcile = snd (run_state (Reconcile thaw_cluster (targetReconciler thaw_cluster sample_recorder
     (DefaultGuardrailConfig\<lparr>gc_SystemNamespaces :=
        [''kube-system'', ''kube-public'', ''kube-node-lease'', ''aura-system'', ''stage'', ''dev'']\<rparr>) ''aura'' (30 * Second)) dev_request) [])"
proof -
  have "splitAndTrim ''stage,dev'' = [''stage'', ''dev'']"
    using splitAndTrim_Join[of "[''stage'', ''dev'']"] by (simp add: listable_def is_plain_def is_space_def)
  then have "guardrailConfig demo_vars = DefaultGuardrailConfig\<lparr>gc_SystemNamespaces :=
      [''kube-system'', ''kube-public'', ''kube-node-lease'', ''aura-system'', ''stage'', ''dev'']\<rparr>"
    by (simp add: guardrailConfig_def demo_vars_def Getenv_def) (simp add: DefaultGuardrailConfig_def)
  then show ?thesis
    by (simp add: demo_reconcile_def setupController_def controllerNamespace_def getEnvOrDefault_def durationEnv_def demo_vars_def Getenv_def)
qed

lemma demo_reconcile_writes: "filter workload_write demo_reconcile = [UpdateDeployment web_deployment (Inr web_deployment)]"
  unfolding demo_reconcile_eq by code_simp

theorem configured_namespaces_protected_witness:
  "\<exists>e pre ref d. e \<in> set demo_reconcile \<and> workload_write e \<and> dec_DesiredState d = PowerStateOn \<and> restore_authorised ref d e pre"
proof -
  obtain e post pre where e: "workload_write e" "demo_reconcile = post @ e # pre"
    by (rule write_split[of demo_reconcile]) (simp_all add: demo_reconcile_writes)
  have reads: "list_all (\<lambda>e. case e of GetTarget l k (Inr t) \<Rightarrow> tref_Namespace (pt_TargetRef t) \<in>
      {''kube-system'', ''kube-public'', ''kube-node-lease'', ''aura-system''} \<union> {''stage'', ''dev''} | _ \<Rightarrow> True) demo_reconcile"
    unfolding demo_reconcile_eq by code_simp
  have "tref_Namespace (pt_TargetRef t) \<in> {''kube-system'', ''kube-public'', ''kube-node-lease'', ''aura-system''} \<union> {''stage'', ''dev''}"
    if "GetTarget False dev_request (Inr t) \<in> set pre" for t
  proof -
    have "GetTarget False dev_request (Inr t) \<in> set demo_reconcile" using that by (simp add: e(2))
    from bspec[OF reads[unfolded list_all_iff] this] show ?thesis by simp
  qed
  then have "\<exists>ref d. dec_DesiredState d = PowerStateOn \<and> restore_authorised ref d e pre"
    using configured_namespaces_protected[OF demo_vars_lists, of "\<lambda>_. None" thaw_cluster sample_recorder, THEN conjunct2,
      rule_format, of dev_request post e pre] e by (simp add: demo_reconcile_def)
  with e show ?thesis by (metis in_set_conv_decomp)
qed

text \<open>
  C36. The retention of the audit history over the whole life of the controller, for every value of
  \<open>AUDIT_RETENTION_DAYS\<close> (an invalid one means 7 days): whatever else runs between the ticks, the cleanup deletes at most 500
  events a tick, and each of them had been created before a cutoff computed from a clock reading before the deletion.  Up to
  106751 days the cutoff is the reading less the configured days; from 106752 to 213503 days the multiplication of the durations
  overflows and the cutoff lies in the future, so that the retention protects nothing.
\<close>

theorem audit_retention_enforced:
  defines "days \<equiv> \<lambda>vars. auditRetentionDays (Getenv vars ''AUDIT_RETENTION_DAYS'')"
  assumes "runAuditCleanup vars E A others ticks tr = Some tr'"
    and "\<And>tr i r. DeleteAuditEvent i r \<notin> set (others tr)"
  shows "\<exists>new offset. tr' = new @ tr \<and> deleted_before offset new \<and> length (deletions new) \<le> ticks * 500 \<and>
    (days vars \<le> 106751 \<longrightarrow> offset = - (days vars * 24 * Hour)) \<and>
    (106752 \<le> days vars \<and> days vars \<le> 213503 \<longrightarrow> offset = 2 ^ 64 - days vars * 24 * Hour \<and> 0 < offset)"
proof -
  obtain new where "tr' = new @ tr" "length (deletions new) \<le> ticks * maxDeletesPerRun"
    "deleted_before (retentionOffset (days vars)) new"
    using cleanupTicks_deletions[of others E A "days vars" ticks tr tr'] assms(2,3) by (auto simp: runAuditCleanup_def days_def)
  then show ?thesis
    using retentionOffset_exact[of "days vars"] retentionOffset_wraps[of "days vars"]
      auditRetentionDays_positive[of "Getenv vars ''AUDIT_RETENTION_DAYS''"]
    by (intro exI[of _ new] exI[of _ "retentionOffset (days vars)"]) (auto simp: maxDeletesPerRun_def days_def)
qed

lemma expired_cluster_cleanup:
  "\<exists>tr'. runAuditCleanup Map.empty expired_cluster sample_recorder (\<lambda>_. []) 1 [] = Some tr' \<and> deletions tr' = [old_event]"
proof -
  have days: "auditRetentionDays (Getenv Map.empty ''AUDIT_RETENTION_DAYS'') = 7"
    by (simp add: Getenv_def auditRetentionDays_def Atoi_def ParseInt_def)
  have pages: "env_ListAuditEvents expired_cluster tr ns [] tok = Inr \<lparr>page_Items = [old_event], page_Continue = ''''\<rparr>" for tr ns tok
    by (simp add: expired_cluster_def)
  have del: "env_DeleteAuditEvent expired_cluster tr old_event = Inr ()" and now: "env_Now expired_cluster tr = 8 * 24 * Hour" for tr
    by (simp_all add: expired_cluster_def empty_cluster_def)
  have old: "om_CreationTimestamp (pae_Meta old_event) < 8 * 24 * Hour - 7 * 24 * Hour"
    by (simp add: old_event_def newAuditEvent_def Let_def time_defs)
  show ?thesis
    using old by (simp add: runAuditCleanup_def days CleanupExpired_def time_Now_def now retentionOffset_exact
        cleanupPages_single[OF pages] deleteAuditEvent_def del maxDeletesPerRun_def Let_def)
qed

theorem audit_retention_enforced_witness:
  "\<exists>tr'. runAuditCleanup Map.empty expired_cluster sample_recorder (\<lambda>_. []) 1 [] = Some tr' \<and>
     deleted_before (- (7 * 24 * Hour)) tr' \<and> deletions tr' = [old_event]"
proof -
  obtain tr' where run: "runAuditCleanup Map.empty expired_cluster sample_recorder (\<lambda>_. []) 1 [] = Some tr'"
    "deletions tr' = [old_event]"
    using expired_cluster_cleanup by blast
  have days: "auditRetentionDays (Getenv Map.empty ''AUDIT_RETENTION_DAYS'') = 7"
    by (simp add: Getenv_def auditRetentionDays_def Atoi_def ParseInt_def)
  from audit_retention_enforced[OF run(1)] run show ?thesis by (simp add: days)
qed

text \<open>
  The configured administrator can always get in again after a restart: on a database of its own, with random
  identifiers that are not in use and passwords that can be hashed, the start of the server leaves an account of this name with the role
  of an administrator, an existing one with its identifier and password, and touches no other account and no change.
\<close>

theorem initial_admin_ensured:
  assumes "undisturbed A" and "ledger (db_after A tr)" and "adminPass \<noteq> ''''"
    and "\<And>tr. \<exists>h. av_HashPassword A tr adminPass = Inr h"
    and "\<And>tr'. hex_EncodeToString (take 16 (av_RandRead A tr')) \<notin> user_ID ` set (db_Users (db_after A tr))"
    and "run_state (ensureInitialAdmin A adminUser adminPass) tr = ((), tr')"
  shows "\<exists>new. db_after A tr' = (db_after A tr)\<lparr>db_Users := with_admin adminUser (db_Users (db_after A tr)) @ new\<rparr> \<and>
    (\<exists>u\<in>set (db_Users (db_after A tr')). user_Username u = adminUser \<and> user_Role u = RoleAdmin) \<and>
    (\<forall>u\<in>set new. user_Username u = adminUser)"
proof (cases "adminUser \<in> user_Username ` set (db_Users (db_after A tr))")
  case True
  then obtain u where u: "u \<in> set (db_Users (db_after A tr))" "user_Username u = adminUser" by blast
  then have "u\<lparr>user_Role := RoleAdmin\<rparr> \<in> set (with_admin adminUser (db_Users (db_after A tr)))"
    by (force simp: with_admin_def)
  with u ensureInitialAdmin_existing[OF assms(1-3) u assms(6)] show ?thesis
    by (intro exI[of _ "[]"] conjI bexI[of _ "u\<lparr>user_Role := RoleAdmin\<rparr>"]) simp_all
next
  case False
  then have keep: "with_admin adminUser (db_Users (db_after A tr)) = db_Users (db_after A tr)"
    unfolding with_admin_def by (intro map_idI) auto
  obtain u where "db_after A tr' = (db_after A tr)\<lparr>db_Users := db_Users (db_after A tr) @ [u]\<rparr>"
    "user_Username u = adminUser" "user_Role u = RoleAdmin"
    using ensureInitialAdmin_new[OF assms(1,3) False assms(4-6)] by blast
  with keep show ?thesis by (intro exI[of _ "[u]"]) simp
qed

definition demo_start :: deeds where
  "demo_start = snd (run_state (ensureInitialAdmin demo_server ''root'' ''pw'') [])"

theorem initial_admin_ensured_witness:
  "\<exists>new. db_after demo_server demo_start = (db_after demo_server [])\<lparr>db_Users := with_admin ''root'' [ann] @ new\<rparr> \<and>
     (\<exists>u\<in>set (db_Users (db_after demo_server demo_start)). user_Username u = ''root'' \<and> user_Role u = RoleAdmin) \<and>
     list_all (\<lambda>u. user_Username u = ''root'') new"
proof -
  have db: "db_Users (av_Initial demo_server) = [ann]" by (simp add: demo_server_def)
  have "run_state (ensureInitialAdmin demo_server ''root'' ''pw'') [] = ((), demo_start)"
    by (simp add: demo_start_def prod_eq_iff)
  moreover have "ledger (db_after demo_server [])" using demo_ledger by simp
  moreover have "undisturbed demo_server" by (simp add: undisturbed_def demo_server_def)
  moreover have "hex_EncodeToString (take 16 (av_RandRead demo_server tr')) \<notin> user_ID ` set (db_Users (db_after demo_server []))" for tr'
    by (simp add: demo_server_def hex_EncodeToString_def ann_def)
  moreover have "\<exists>h. av_HashPassword demo_server tr ''pw'' = Inr h" for tr by (simp add: demo_server_def)
  ultimately show ?thesis
    using initial_admin_ensured[of demo_server "[]" "''pw''" "''root''" demo_start] by (simp add: db list_all_iff)
qed

end
