(* ===== verification/MetricsApi.thy ===== *)
theory MetricsApi
  imports Startup
begin

text \<open>
  The metrics endpoints of the API server (\<open>src/internal/adapters/driving/api/metrics_handlers.go\<close>) and the clients
  behind them (\<open>src/internal/adapters/driven/prometheus/client.go\<close> and \<open>src/internal/adapters/driven/opencost/client.go\<close>, with the
  types of \<open>src/internal/ports/metrics_provider.go\<close>).  A run is the trace of the clock readings and HTTP requests.  The
  network may answer anything; the JSON decoder, \<open>strconv.ParseFloat\<close>, \<open>Duration.String\<close> and the parser of URLs
  are arguments.
\<close>

section \<open>Types\<close>

text \<open>A parsed value need not be finite.\<close>

datatype sample_value = Finite float64 | NaN | PosInf | NegInf

record MetricsSample =
  ms_Timestamp :: go_time
  ms_Value :: sample_value

record ClusterMetrics =
  cm_CPUUsage :: "MetricsSample list"
  cm_CPUCapacity :: "MetricsSample list"
  cm_CPURequested :: "MetricsSample list"
  cm_MemoryUsage :: "MetricsSample list"
  cm_MemoryCapacity :: "MetricsSample list"
  cm_MemoryRequested :: "MetricsSample list"
  cm_NodeCount :: "MetricsSample list"

record NamespaceMetrics =
  nm_Namespace :: string
  nm_CPUUsage :: "MetricsSample list"
  nm_CPURequested :: "MetricsSample list"
  nm_MemoryUsage :: "MetricsSample list"
  nm_MemoryRequested :: "MetricsSample list"

record WorkloadMetrics =
  wm_Namespace :: string
  wm_Name :: string
  wm_CPUUsage :: "MetricsSample list"
  wm_CPURequested :: "MetricsSample list"
  wm_MemoryUsage :: "MetricsSample list"
  wm_MemoryRequested :: "MetricsSample list"

record NodeMetrics =
  nom_NodeCount :: "MetricsSample list"
  nom_TotalCost :: "MetricsSample list"
  nom_SavedCost :: "MetricsSample list"

record CostSummary =
  cs_TotalClusterCostPerHour :: float64
  cs_CostByNamespace :: "(string \<times> float64) list"
  cs_SavedCostPerHour :: float64
  cs_ProjectedMonthlySavings :: float64

record MetricsRange =
  mr_Duration :: go_duration
  mr_Step :: go_duration

definition ParseRange :: "string \<Rightarrow> MetricsRange" where
  "ParseRange r =
     (if r = ''1h'' then \<lparr>mr_Duration = Hour, mr_Step = 15 * Second\<rparr>
      else if r = ''6h'' then \<lparr>mr_Duration = 6 * Hour, mr_Step = Minute\<rparr>
      else if r = ''24h'' then \<lparr>mr_Duration = 24 * Hour, mr_Step = 5 * Minute\<rparr>
      else if r = ''7d'' then \<lparr>mr_Duration = 7 * 24 * Hour, mr_Step = 30 * Minute\<rparr>
      else \<lparr>mr_Duration = 24 * Hour, mr_Step = 5 * Minute\<rparr>)"

text \<open>Prometheus' answers: an \<open>interface{}\<close> of the decoder is a number, a string or something else.\<close>

datatype jvalue = JNumber float64 | JString string | JOther

record promResult =
  prm_Values :: "jvalue list list"

record promResponse =
  prm_Status :: string
  prm_Error :: string
  prm_Result :: "promResult list"

record openCostAlloc =
  oca_Name :: string
  oca_CPUCost :: float64
  oca_MemoryCost :: float64
  oca_TotalCost :: float64

text \<open>Each map in the order in which Go enumerates it.\<close>

record openCostResponse =
  oc_Code :: int
  oc_Data :: "(string \<times> openCostAlloc) list list"

section \<open>Calls\<close>

text \<open>The header \<open>Authorization\<close>; the second of two settings replaces the first.\<close>

datatype authorization = NoAuthorization | Bearer string | Basic string string

record http_answer =
  ha_StatusCode :: int
  ha_Body :: string

datatype (plugins only: code size) metric_event = ReadClock go_time | HttpGet string authorization "http_answer result"

type_synonym 'a mio = "(metric_event list, 'a) state"

record menv =
  mv_Now :: "metric_event list \<Rightarrow> go_time"
  mv_NewRequest :: "string \<Rightarrow> go_error option"
  mv_Do :: "metric_event list \<Rightarrow> string \<Rightarrow> authorization \<Rightarrow> http_answer result"
  mv_DecodeProm :: "string \<Rightarrow> promResponse result"
  mv_DecodeCost :: "string \<Rightarrow> openCostResponse result"
  mv_ParseFloat :: "string \<Rightarrow> sample_value option"
  mv_DurationString :: "go_duration \<Rightarrow> string"
  mv_rnd :: rounding

definition clock_now :: "menv \<Rightarrow> go_time mio" where
  "clock_now M = call (mv_Now M) ReadClock"

text \<open>\<open>NewRequestWithContext\<close> and \<open>Do\<close>; the flag tells that building the request failed.\<close>

definition http_get :: "menv \<Rightarrow> string \<Rightarrow> authorization \<Rightarrow> (bool \<times> go_error + http_answer) mio" where
  "http_get M url auth =
     (case mv_NewRequest M url of
        Some err \<Rightarrow> return (Inl (True, err))
      | None \<Rightarrow> do {
          r \<leftarrow> call (\<lambda>tr. mv_Do M tr url auth) (HttpGet url auth);
          return (case r of Inl err \<Rightarrow> Inl (False, err) | Inr a \<Rightarrow> Inr a)
        })"

section \<open>The Prometheus client\<close>

record PromConfig =
  prc_URL :: string
  prc_BearerToken :: string
  prc_BasicUser :: string
  prc_BasicPass :: string

definition addAuth :: "PromConfig \<Rightarrow> authorization" where
  "addAuth c =
     (let auth = (if prc_BearerToken c \<noteq> '''' then Bearer (prc_BearerToken c) else NoAuthorization)
      in if prc_BasicUser c \<noteq> '''' then Basic (prc_BasicUser c) (prc_BasicPass c) else auth)"

definition prom_IsAvailable :: "menv \<Rightarrow> PromConfig \<Rightarrow> bool mio" where
  "prom_IsAvailable M c = do {
     r \<leftarrow> http_get M (prc_URL c @ ''/-/healthy'') (addAuth c);
     return (case r of Inl _ \<Rightarrow> False | Inr resp \<Rightarrow> ha_StatusCode resp = 200)
   }"

text \<open>\<open>url.QueryEscape\<close>.\<close>

definition upper_hex :: "nat \<Rightarrow> char" where
  "upper_hex n = (if n < 10 then char_of (48 + n) else char_of (55 + n))"

definition unreserved :: "char \<Rightarrow> bool" where
  "unreserved c \<longleftrightarrow> is_digit c \<or> (65 \<le> (of_char c :: nat) \<and> of_char c \<le> (90 :: nat)) \<or>
     (97 \<le> (of_char c :: nat) \<and> of_char c \<le> (122 :: nat)) \<or> c \<in> {CHR ''-'', CHR ''_'', CHR ''.'', CHR ''~''}"

definition QueryEscape :: "string \<Rightarrow> string" where
  "QueryEscape s = concat (map (\<lambda>c. if unreserved c then [c] else if c = CHR '' '' then ''+''
     else [CHR ''%'', upper_hex (of_char c div 16), upper_hex (of_char c mod 16)]) s)"

text \<open>\<open>time.Unix\<close> of a number of seconds, cut to an integer (for numbers in the range of \<open>int64\<close>).\<close>

definition unix_time :: "float64 \<Rightarrow> go_time" where
  "unix_time ts = (if ts \<ge> 0 then \<lfloor>ts\<rfloor> else \<lceil>ts\<rceil>) * Second"

definition parseSample :: "menv \<Rightarrow> jvalue list \<Rightarrow> MetricsSample option" where
  "parseSample M v =
     (case v of
        [JNumber ts, JString valStr] \<Rightarrow>
          map_option (\<lambda>val. \<lparr>ms_Timestamp = unix_time ts, ms_Value = val\<rparr>) (mv_ParseFloat M valStr)
      | _ \<Rightarrow> None)"

definition parseSamples :: "menv \<Rightarrow> promResponse \<Rightarrow> MetricsSample list" where
  "parseSamples M resp = concat (map (\<lambda>result. List.map_filter (parseSample M) (prm_Values result)) (prm_Result resp))"

text \<open>\<open>url.Values.Encode\<close> sorts the keys.\<close>

definition rangeURL :: "menv \<Rightarrow> PromConfig \<Rightarrow> string \<Rightarrow> go_time \<Rightarrow> go_time \<Rightarrow> go_duration \<Rightarrow> string" where
  "rangeURL M c query start end' step =
     prc_URL c @ ''/api/v1/query_range?end='' @ QueryEscape (go_itoa (end' div Second)) @ ''&query='' @ QueryEscape query
       @ ''&start='' @ QueryEscape (go_itoa (start div Second)) @ ''&step='' @ QueryEscape (mv_DurationString M step)"

definition queryRange ::
  "menv \<Rightarrow> PromConfig \<Rightarrow> string \<Rightarrow> go_time \<Rightarrow> go_time \<Rightarrow> go_duration \<Rightarrow> MetricsSample list result mio" where
  "queryRange M c query start end' step = do {
     r \<leftarrow> http_get M (rangeURL M c query start end' step) (addAuth c);
     return (case r of
         Inl (unbuilt, err) \<Rightarrow> Inl (if unbuilt then err else wrap_error ''prometheus request failed: '' err '''')
       | Inr resp \<Rightarrow>
           if ha_StatusCode resp \<noteq> 200
           then Inl (errors_New (''prometheus returned '' @ go_itoa (ha_StatusCode resp) @ '': '' @ ha_Body resp))
           else (case mv_DecodeProm M (ha_Body resp) of
               Inl err \<Rightarrow> Inl (wrap_error ''failed to decode prometheus response: '' err '''')
             | Inr promResp \<Rightarrow>
                 if prm_Status promResp \<noteq> ''success'' then Inl (errors_New (''prometheus query failed: '' @ prm_Error promResp))
                 else Inr (parseSamples M promResp)))
   }"

text \<open>The queries.\<close>

definition quoted :: "string \<Rightarrow> string" where
  "quoted s = CHR 0x22 # s @ [CHR 0x22]"

definition no_pause :: string where
  "no_pause = ''container!='' @ quoted '''' @ '',container!='' @ quoted ''POD''"

definition cpuUsageQuery :: string where
  "cpuUsageQuery = ''sum(rate(container_cpu_usage_seconds_total{'' @ no_pause @ ''}[5m]))''"

definition allocatableQuery :: "string \<Rightarrow> string" where
  "allocatableQuery res = ''sum(kube_node_status_allocatable{resource='' @ quoted res @ ''})''"

definition memoryUsageQuery :: string where
  "memoryUsageQuery = ''sum(container_memory_working_set_bytes{'' @ no_pause @ ''})''"

definition requestedQuery :: "string \<Rightarrow> string" where
  "requestedQuery res = ''sum(kube_pod_container_resource_requests{resource='' @ quoted res @ ''})''"

definition nodeCountQuery :: string where
  "nodeCountQuery = ''count(kube_node_info)''"

text \<open>In the queries of namespaces and workloads the names are put between quotes as they are.\<close>

definition container_in :: "string \<Rightarrow> string" where
  "container_in selector = ''container!='' @ quoted '''' @ '','' @ selector"

definition cpuUsageIn :: "string \<Rightarrow> string" where
  "cpuUsageIn selector = ''sum(rate(container_cpu_usage_seconds_total{'' @ container_in selector @ ''}[5m]))''"

definition memoryUsageIn :: "string \<Rightarrow> string" where
  "memoryUsageIn selector = ''sum(container_memory_working_set_bytes{'' @ container_in selector @ ''})''"

definition in_namespace :: "string \<Rightarrow> string" where
  "in_namespace namespace = ''namespace='' @ quoted namespace"

definition requestedIn :: "string \<Rightarrow> string \<Rightarrow> string" where
  "requestedIn res namespace = ''sum(kube_pod_container_resource_requests{resource='' @ quoted res @ '','' @ in_namespace namespace
     @ ''}) or sum(cluster:namespace:pod_'' @ res @ '':active:kube_pod_container_resource_requests{'' @ in_namespace namespace @ ''})''"

definition podSelector :: "string \<Rightarrow> string \<Rightarrow> string" where
  "podSelector namespace name = in_namespace namespace @ '',pod=~'' @ quoted (name @ ''-.*'')"

text \<open>A query whose error ends the function, after the text put before it.\<close>

definition required :: "string \<Rightarrow> 'a result mio \<Rightarrow> ('a \<Rightarrow> 'b result mio) \<Rightarrow> 'b result mio" where
  "required front m k = do {
     r \<leftarrow> m;
     case r of Inl err \<Rightarrow> return (Inl (wrap_error front err '''')) | Inr x \<Rightarrow> k x
   }"

text \<open>A query whose error leaves no samples.\<close>

definition optional :: "MetricsSample list result mio \<Rightarrow> MetricsSample list mio" where
  "optional m = do { r \<leftarrow> m; return (case r of Inl _ \<Rightarrow> [] | Inr xs \<Rightarrow> xs) }"

definition GetClusterMetrics :: "menv \<Rightarrow> PromConfig \<Rightarrow> MetricsRange \<Rightarrow> ClusterMetrics result mio" where
  "GetClusterMetrics M c r = do {
     end' \<leftarrow> clock_now M;
     let q = (\<lambda>query. queryRange M c query (end' - mr_Duration r) end' (mr_Step r));
     required ''cpu usage query: '' (q cpuUsageQuery) (\<lambda>cpuUsage.
     required ''cpu capacity query: '' (q (allocatableQuery ''cpu'')) (\<lambda>cpuCap.
     required ''memory usage query: '' (q memoryUsageQuery) (\<lambda>memUsage.
     required ''memory capacity query: '' (q (allocatableQuery ''memory'')) (\<lambda>memCap.
     required ''node count query: '' (q nodeCountQuery) (\<lambda>nodeCount. do {
       cpuRequested \<leftarrow> optional (q (requestedQuery ''cpu''));
       memRequested \<leftarrow> optional (q (requestedQuery ''memory''));
       return (Inr \<lparr>cm_CPUUsage = cpuUsage, cm_CPUCapacity = cpuCap, cm_CPURequested = cpuRequested,
         cm_MemoryUsage = memUsage, cm_MemoryCapacity = memCap, cm_MemoryRequested = memRequested, cm_NodeCount = nodeCount\<rparr>)
     })))))
   }"

definition GetNamespaceMetrics :: "menv \<Rightarrow> PromConfig \<Rightarrow> string \<Rightarrow> MetricsRange \<Rightarrow> NamespaceMetrics result mio" where
  "GetNamespaceMetrics M c namespace r = do {
     end' \<leftarrow> clock_now M;
     let q = (\<lambda>query. queryRange M c query (end' - mr_Duration r) end' (mr_Step r));
     required '''' (q (cpuUsageIn (in_namespace namespace))) (\<lambda>cpuUsage. do {
       cpuReq \<leftarrow> optional (q (requestedIn ''cpu'' namespace));
       required '''' (q (memoryUsageIn (in_namespace namespace))) (\<lambda>memUsage. do {
         memReq \<leftarrow> optional (q (requestedIn ''memory'' namespace));
         return (Inr \<lparr>nm_Namespace = namespace, nm_CPUUsage = cpuUsage, nm_CPURequested = cpuReq,
           nm_MemoryUsage = memUsage, nm_MemoryRequested = memReq\<rparr>)
       })
     })
   }"

definition GetWorkloadMetrics :: "menv \<Rightarrow> PromConfig \<Rightarrow> string \<Rightarrow> string \<Rightarrow> MetricsRange \<Rightarrow> WorkloadMetrics result mio" where
  "GetWorkloadMetrics M c namespace name r = do {
     end' \<leftarrow> clock_now M;
     let q = (\<lambda>query. queryRange M c query (end' - mr_Duration r) end' (mr_Step r));
     required '''' (q (cpuUsageIn (podSelector namespace name))) (\<lambda>cpuUsage.
     required '''' (q (memoryUsageIn (podSelector namespace name))) (\<lambda>memUsage.
     return (Inr \<lparr>wm_Namespace = namespace, wm_Name = name, wm_CPUUsage = cpuUsage, wm_CPURequested = [],
       wm_MemoryUsage = memUsage, wm_MemoryRequested = []\<rparr>)))
   }"

definition GetNodeMetrics :: "menv \<Rightarrow> PromConfig \<Rightarrow> MetricsRange \<Rightarrow> NodeMetrics result mio" where
  "GetNodeMetrics M c r = do {
     end' \<leftarrow> clock_now M;
     required '''' (queryRange M c nodeCountQuery (end' - mr_Duration r) end' (mr_Step r)) (\<lambda>nodeCount.
       return (Inr \<lparr>nom_NodeCount = nodeCount, nom_TotalCost = [], nom_SavedCost = []\<rparr>))
   }"

section \<open>The OpenCost client\<close>

text \<open>The configuration is the URL.\<close>

definition cost_IsAvailable :: "menv \<Rightarrow> string \<Rightarrow> bool mio" where
  "cost_IsAvailable M url = do {
     r \<leftarrow> http_get M (url @ ''/healthz'') NoAuthorization;
     return (case r of Inl _ \<Rightarrow> False | Inr resp \<Rightarrow> ha_StatusCode resp = 200)
   }"

fun setCost :: "string \<Rightarrow> float64 \<Rightarrow> (string \<times> float64) list \<Rightarrow> (string \<times> float64) list" where
  "setCost ns cost [] = [(ns, cost)]"
| "setCost ns cost ((n, c) # costs) = (if n = ns then (n, cost) # costs else (n, c) # setCost ns cost costs)"

definition addAllocation :: "rounding \<Rightarrow> string \<times> openCostAlloc \<Rightarrow> CostSummary \<Rightarrow> CostSummary" where
  "addAllocation rnd = (\<lambda>(ns, alloc) summary.
     summary\<lparr>cs_CostByNamespace := setCost ns (oca_TotalCost alloc) (cs_CostByNamespace summary),
       cs_TotalClusterCostPerHour := fadd rnd (cs_TotalClusterCostPerHour summary) (oca_TotalCost alloc)\<rparr>)"

definition summarize :: "rounding \<Rightarrow> openCostResponse \<Rightarrow> CostSummary" where
  "summarize rnd resp = fold (fold (addAllocation rnd)) (oc_Data resp)
     \<lparr>cs_TotalClusterCostPerHour = 0, cs_CostByNamespace = [], cs_SavedCostPerHour = 0, cs_ProjectedMonthlySavings = 0\<rparr>"

definition GetCostSummary :: "menv \<Rightarrow> string \<Rightarrow> CostSummary result mio" where
  "GetCostSummary M url = do {
     r \<leftarrow> http_get M (url @ ''/allocation/compute?window=1h&aggregate=namespace&accumulate=false'') NoAuthorization;
     return (case r of
         Inl (unbuilt, err) \<Rightarrow> Inl (if unbuilt then err else wrap_error ''opencost request failed: '' err '''')
       | Inr resp \<Rightarrow>
           if ha_StatusCode resp \<noteq> 200
           then Inl (errors_New (''opencost returned '' @ go_itoa (ha_StatusCode resp) @ '': '' @ ha_Body resp))
           else (case mv_DecodeCost M (ha_Body resp) of
               Inl err \<Rightarrow> Inl (wrap_error ''failed to decode opencost response: '' err '''')
             | Inr ocResp \<Rightarrow> Inr (summarize (mv_rnd M) ocResp)))
   }"

definition GetWorkloadCostPerHour :: "menv \<Rightarrow> string \<Rightarrow> string \<Rightarrow> string \<Rightarrow> float64 result mio" where
  "GetWorkloadCostPerHour M url namespace name = do {
     r \<leftarrow> http_get M (url @ ''/allocation/compute?window=1h&aggregate=controller&filterNamespaces='' @ namespace @ ''&accumulate=false'')
            NoAuthorization;
     return (case r of
         Inl (_, err) \<Rightarrow> Inl err
       | Inr resp \<Rightarrow>
           if ha_StatusCode resp \<noteq> 200 then Inl (errors_New (''opencost returned '' @ go_itoa (ha_StatusCode resp)))
           else (case mv_DecodeCost M (ha_Body resp) of
               Inl err \<Rightarrow> Inl err
             | Inr ocResp \<Rightarrow>
                 (case find (\<lambda>(controller, alloc). controller = namespace @ ''/'' @ name \<or> controller = name) (concat (oc_Data ocResp)) of
                    None \<Rightarrow> Inr 0
                  | Some (_, alloc) \<Rightarrow> Inr (oca_TotalCost alloc))))
   }"

section \<open>The handlers\<close>

datatype metrics_document =
    ClusterDocument ClusterMetrics
  | NamespaceDocument NamespaceMetrics
  | WorkloadDocument WorkloadMetrics
  | NodesDocument NodeMetrics
  | CostDocument CostSummary

text \<open>\<open>HandlerPanic\<close>: the panic is caught by \<open>gin.Recovery\<close>, which answers with 500 and no body.\<close>

datatype metrics_answer =
    MetricsError int string "string option"
  | MetricsOK metrics_document
  | HandlerPanic

text \<open>
  A field of an interface type: \<open>None\<close> is the nil interface, \<open>Some None\<close> an interface that holds a nil pointer.  Calling a
  method of the client on a nil pointer panics where the method reads the configuration.
\<close>

type_synonym 'c provider = "'c option option"

record metrics_server =
  mts_Metrics :: "PromConfig provider"
  mts_Cost :: "string provider"

definition whenAvailable ::
  "'c provider \<Rightarrow> ('c \<Rightarrow> bool mio) \<Rightarrow> metrics_answer \<Rightarrow> ('c \<Rightarrow> 'a result mio) \<Rightarrow> ('a \<Rightarrow> metrics_document) \<Rightarrow> metrics_answer mio" where
  "whenAvailable p ready unavailable get wrap =
     (case p of
        None \<Rightarrow> return unavailable
      | Some None \<Rightarrow> return HandlerPanic
      | Some (Some c) \<Rightarrow> do {
          a \<leftarrow> ready c;
          if \<not> a then return unavailable
          else do {
            r \<leftarrow> get c;
            return (case r of Inl err \<Rightarrow> MetricsError 500 (err_Text err) None | Inr x \<Rightarrow> MetricsOK (wrap x))
          }
        })"

definition no_metrics :: "string option \<Rightarrow> metrics_answer" where
  "no_metrics message = MetricsError 503 ''metrics provider not available'' message"

text \<open>\<open>DefaultQuery("range", "24h")\<close>.\<close>

definition rangeOf :: "string option \<Rightarrow> MetricsRange" where
  "rangeOf query = ParseRange (case query of None \<Rightarrow> ''24h'' | Some r \<Rightarrow> r)"

definition handleClusterMetrics :: "menv \<Rightarrow> metrics_server \<Rightarrow> string option \<Rightarrow> metrics_answer mio" where
  "handleClusterMetrics M s period = whenAvailable (mts_Metrics s) (prom_IsAvailable M)
     (no_metrics (Some ''Configure Prometheus or metrics-server in the Helm values to enable metrics.''))
     (\<lambda>c. GetClusterMetrics M c (rangeOf period)) ClusterDocument"

definition handleNamespaceMetrics :: "menv \<Rightarrow> metrics_server \<Rightarrow> string \<Rightarrow> string option \<Rightarrow> metrics_answer mio" where
  "handleNamespaceMetrics M s namespace period = whenAvailable (mts_Metrics s) (prom_IsAvailable M) (no_metrics None)
     (\<lambda>c. GetNamespaceMetrics M c namespace (rangeOf period)) NamespaceDocument"

definition handleWorkloadMetrics :: "menv \<Rightarrow> metrics_server \<Rightarrow> string \<Rightarrow> string \<Rightarrow> string option \<Rightarrow> metrics_answer mio" where
  "handleWorkloadMetrics M s namespace name period = whenAvailable (mts_Metrics s) (prom_IsAvailable M) (no_metrics None)
     (\<lambda>c. GetWorkloadMetrics M c namespace name (rangeOf period)) WorkloadDocument"

definition handleNodeMetrics :: "menv \<Rightarrow> metrics_server \<Rightarrow> string option \<Rightarrow> metrics_answer mio" where
  "handleNodeMetrics M s period = whenAvailable (mts_Metrics s) (prom_IsAvailable M) (no_metrics None)
     (\<lambda>c. GetNodeMetrics M c (rangeOf period)) NodesDocument"

definition handleCostSummary :: "menv \<Rightarrow> metrics_server \<Rightarrow> metrics_answer mio" where
  "handleCostSummary M s = whenAvailable (mts_Cost s) (cost_IsAvailable M)
     (MetricsError 503 ''cost provider not available'' (Some ''Configure OpenCost in the Helm values to enable cost data.''))
     (GetCostSummary M) CostDocument"

datatype metrics_route =
    MetricsCluster "string option"
  | MetricsNamespace string "string option"
  | MetricsWorkload string string "string option"
  | MetricsNodes "string option"
  | MetricsCost

text \<open>The group has no middleware of its own: unlike the routes of \<open>setupRoutes\<close> these need no session.\<close>

fun metrics_handler :: "menv \<Rightarrow> metrics_server \<Rightarrow> metrics_route \<Rightarrow> metrics_answer mio" where
  "metrics_handler M s (MetricsCluster period) = handleClusterMetrics M s period"
| "metrics_handler M s (MetricsNamespace ns period) = handleNamespaceMetrics M s ns period"
| "metrics_handler M s (MetricsWorkload ns name period) = handleWorkloadMetrics M s ns name period"
| "metrics_handler M s (MetricsNodes period) = handleNodeMetrics M s period"
| "metrics_handler M s MetricsCost = handleCostSummary M s"

text \<open>
  How \<open>main\<close> of the server registers the routes (\<open>None\<close>: not at all): a client variable that was not set is passed
  on as a nil pointer in an interface.
\<close>

definition metricsServer :: "environment \<Rightarrow> metrics_server option" where
  "metricsServer vars =
     (let prometheusURL = getEnvOrDefault vars ''PROMETHEUS_URL'' '''';
          opencostURL = getEnvOrDefault vars ''OPENCOST_URL'' '''';
          promProvider = (if prometheusURL \<noteq> ''''
            then Some \<lparr>prc_URL = prometheusURL, prc_BearerToken = '''', prc_BasicUser = '''', prc_BasicPass = ''''\<rparr> else None);
          costDataProvider = (if opencostURL \<noteq> '''' then Some opencostURL else None)
      in if promProvider \<noteq> None \<or> costDataProvider \<noteq> None
         then Some \<lparr>mts_Metrics = Some promProvider, mts_Cost = Some costDataProvider\<rparr> else None)"

section \<open>Lemmas\<close>

subsection \<open>Encoding of queries\<close>

text \<open>Specification: reading the query part of a URL.\<close>

definition hex_value :: "char \<Rightarrow> nat" where
  "hex_value c = (if is_digit c then of_char c - 48 else of_char c - 55)"

fun QueryUnescape :: "string \<Rightarrow> string" where
  "QueryUnescape [] = []"
| "QueryUnescape (c # s) =
     (if c = CHR ''+'' then CHR '' '' # QueryUnescape s
      else if c = CHR ''%'' then
        (case s of x # y # rest \<Rightarrow> char_of (16 * hex_value x + hex_value y) # QueryUnescape rest | _ \<Rightarrow> [])
      else c # QueryUnescape s)"

definition parse_pair :: "string \<Rightarrow> string \<times> string" where
  "parse_pair s = (QueryUnescape (takeWhile (\<lambda>c. c \<noteq> CHR ''='') s), QueryUnescape (tl (dropWhile (\<lambda>c. c \<noteq> CHR ''='') s)))"

definition parse_query :: "string \<Rightarrow> (string \<times> string) list" where
  "parse_query s = map parse_pair (SplitByte CHR ''&'' s)"

lemma hex_value_upper: "n < 16 \<Longrightarrow> hex_value (upper_hex n) = n"
  by (auto simp: hex_value_def upper_hex_def is_digit_def)

lemma unreserved_plain: "unreserved c \<Longrightarrow> c \<notin> {CHR ''+'', CHR ''%'', CHR ''&'', CHR ''='', CHR '' ''}"
  by (auto simp: unreserved_def is_digit_def)

lemma high_nibble: "of_char c div 16 < (16 :: nat)"
  using nat_of_char_less_256[of c] by linarith

lemma upper_hex_unreserved: "n < 16 \<Longrightarrow> unreserved (upper_hex n)"
  by (auto simp: unreserved_def upper_hex_def is_digit_def)

lemma hex_digits: "char_of (16 * hex_value (upper_hex (of_char c div 16)) + hex_value (upper_hex (of_char c mod 16))) = c"
proof -
  have "16 * hex_value (upper_hex (of_char c div 16)) + hex_value (upper_hex (of_char c mod 16)) = of_char c"
    using hex_value_upper[OF high_nibble] hex_value_upper[of "of_char c mod 16"] by simp
  then show ?thesis by (simp only: char_of_char)
qed

lemma QueryUnescape_Escape: "QueryUnescape (QueryEscape s) = s"
proof (induction s)
  case (Cons c s)
  then show ?case using unreserved_plain[of c] hex_digits[of c] by (auto simp: QueryEscape_def)
qed (simp add: QueryEscape_def)

text \<open>What separates parameters does not occur in an encoded text.\<close>

definition inert :: "string \<Rightarrow> bool" where
  "inert s \<longleftrightarrow> CHR ''&'' \<notin> set s \<and> CHR ''='' \<notin> set s"

lemma inert_QueryEscape: "inert (QueryEscape s)"
proof -
  have "c \<noteq> CHR ''&'' \<and> c \<noteq> CHR ''=''" if c: "c \<in> set (QueryEscape s)" for c
  proof -
    obtain x where "c \<in> set (if unreserved x then [x] else if x = CHR '' '' then ''+''
        else [CHR ''%'', upper_hex (of_char x div 16), upper_hex (of_char x mod 16)])"
      using c unfolding QueryEscape_def set_concat set_map by blast
    then show ?thesis
      using unreserved_plain[of c] upper_hex_unreserved[OF high_nibble, of x] upper_hex_unreserved[of "of_char x mod 16"]
      by (auto split: if_splits)
  qed
  then show ?thesis unfolding inert_def by blast
qed

lemma parse_pair_encoded: "inert k \<Longrightarrow> parse_pair (k @ CHR ''='' # QueryEscape v) = (QueryUnescape k, v)"
proof -
  assume k: "inert k"
  have "takeWhile (\<lambda>c. c \<noteq> CHR ''='') (k @ CHR ''='' # QueryEscape v) = k"
    and "dropWhile (\<lambda>c. c \<noteq> CHR ''='') (k @ CHR ''='' # QueryEscape v) = CHR ''='' # QueryEscape v"
    using k by (induction k) (auto simp: inert_def)
  then show ?thesis by (simp add: parse_pair_def QueryUnescape_Escape)
qed

text \<open>The parameters of a range query arrive as they were given.\<close>

lemma rangeURL_parameters:
  "\<exists>q. rangeURL M c query start end' step = prc_URL c @ ''/api/v1/query_range?'' @ q \<and>
     parse_query q = [(''end'', go_itoa (end' div Second)), (''query'', query), (''start'', go_itoa (start div Second)),
       (''step'', mv_DurationString M step)]"
proof -
  define pair where "pair k v = k @ CHR ''='' # QueryEscape v" for k v
  let ?ps = "[pair ''end'' (go_itoa (end' div Second)), pair ''query'' query, pair ''start'' (go_itoa (start div Second)),
    pair ''step'' (mv_DurationString M step)]"
  have "parse_pair (pair k v) = (QueryUnescape k, v) \<and> CHR ''&'' \<notin> set (pair k v)" if "inert k" for k v
    using parse_pair_encoded[OF that] inert_QueryEscape[of v] that by (auto simp: pair_def inert_def)
  then have pairs: "\<forall>k\<in>{''end'', ''query'', ''start'', ''step''}. \<forall>v. parse_pair (pair k v) = (k, v) \<and> CHR ''&'' \<notin> set (pair k v)"
    by (simp add: inert_def)
  then have "SplitByte CHR ''&'' (Join ?ps ''&'') = ?ps" by (intro Split_Join) simp_all
  with pairs have "parse_query (Join ?ps ''&'') = [(''end'', go_itoa (end' div Second)), (''query'', query),
      (''start'', go_itoa (start div Second)), (''step'', mv_DurationString M step)]"
    by (simp only: parse_query_def list.map) simp
  moreover have "rangeURL M c query start end' step = prc_URL c @ ''/api/v1/query_range?'' @ Join ?ps ''&''"
    by (simp add: rangeURL_def pair_def)
  ultimately show ?thesis by blast
qed

subsection \<open>What a query returns\<close>

text \<open>The samples are those of a successful answer, in the trace, to a request with these parameters.\<close>

definition range_request :: "PromConfig \<Rightarrow> string \<Rightarrow> string" where
  "range_request c q = prc_URL c @ ''/api/v1/query_range?'' @ q"

definition asks :: "menv \<Rightarrow> string \<Rightarrow> go_time \<Rightarrow> MetricsRange \<Rightarrow> string \<Rightarrow> bool" where
  "asks M query now r q \<longleftrightarrow> parse_query q = [(''end'', go_itoa (now div Second)), (''query'', query),
     (''start'', go_itoa ((now - mr_Duration r) div Second)), (''step'', mv_DurationString M (mr_Step r))]"

definition succeeded :: "menv \<Rightarrow> http_answer \<Rightarrow> MetricsSample list \<Rightarrow> bool" where
  "succeeded M resp xs \<longleftrightarrow> ha_StatusCode resp = 200 \<and>
     (\<exists>promResp. mv_DecodeProm M (ha_Body resp) = Inr promResp \<and> prm_Status promResp = ''success'' \<and> xs = parseSamples M promResp)"

definition measured ::
  "menv \<Rightarrow> PromConfig \<Rightarrow> string \<Rightarrow> go_time \<Rightarrow> MetricsRange \<Rightarrow> metric_event list \<Rightarrow> MetricsSample list \<Rightarrow> bool" where
  "measured M c query now r tr xs \<longleftrightarrow>
     (\<exists>q resp. HttpGet (range_request c q) (addAuth c) (Inr resp) \<in> set tr \<and> asks M query now r q \<and> succeeded M resp xs)"

lemma measuredI:
  "HttpGet (range_request c q) (addAuth c) (Inr resp) \<in> set tr \<Longrightarrow> asks M query now r q \<Longrightarrow> ha_StatusCode resp = 200 \<Longrightarrow>
   mv_DecodeProm M (ha_Body resp) = Inr promResp \<Longrightarrow> prm_Status promResp = ''success'' \<Longrightarrow>
   measured M c query now r tr (parseSamples M promResp)"
  unfolding measured_def succeeded_def by blast

lemma measured_mono: "measured M c query now r tr xs \<Longrightarrow> set tr \<subseteq> set tr' \<Longrightarrow> measured M c query now r tr' xs"
  unfolding measured_def by blast

lemma queryRange_measured:
  assumes "run_state (queryRange M c query (now - mr_Duration r) now (mr_Step r)) tr = (res, tr')"
  shows "set tr \<subseteq> set tr' \<and> (\<forall>xs. res = Inr xs \<longrightarrow> measured M c query now r tr' xs)"
proof -
  obtain q where q: "rangeURL M c query (now - mr_Duration r) now (mr_Step r) = range_request c q" "asks M query now r q"
    using rangeURL_parameters[of M c query "now - mr_Duration r" now "mr_Step r"] by (auto simp: range_request_def asks_def)
  show ?thesis
    using assms q(2) unfolding queryRange_def http_get_def q(1)
    by (auto intro: measuredI split: option.splits sum.splits if_splits)
qed

lemma required_Inr:
  "run_state (required front m k) tr = (Inr y, tr') \<Longrightarrow>
   \<exists>x tr1. run_state m tr = (Inr x, tr1) \<and> run_state (k x) tr1 = (Inr y, tr')"
  by (auto simp: required_def split: prod.splits sum.splits)

lemma required_measured:
  assumes "run_state (required front (queryRange M c query (now - mr_Duration r) now (mr_Step r)) k) tr = (Inr y, tr')"
  obtains xs tr1 where "measured M c query now r tr1 xs" "set tr \<subseteq> set tr1" "run_state (k xs) tr1 = (Inr y, tr')"
  using required_Inr[OF assms] queryRange_measured by metis

lemma optional_measured:
  assumes "run_state (optional (queryRange M c query (now - mr_Duration r) now (mr_Step r))) tr = (xs, tr')"
  shows "set tr \<subseteq> set tr' \<and> (xs = [] \<or> measured M c query now r tr' xs)"
proof -
  obtain res tr1 where run: "run_state (queryRange M c query (now - mr_Duration r) now (mr_Step r)) tr = (res, tr1)" by fastforce
  with assms have "tr' = tr1" "xs = (case res of Inl _ \<Rightarrow> [] | Inr xs \<Rightarrow> xs)" by (auto simp: optional_def)
  with queryRange_measured[OF run] show ?thesis by (cases res) auto
qed

lemma GetClusterMetrics_measured:
  assumes "run_state (GetClusterMetrics M c r) tr = (Inr m, tr')"
  shows "\<exists>now. ReadClock now \<in> set tr' \<and>
    measured M c cpuUsageQuery now r tr' (cm_CPUUsage m) \<and> measured M c (allocatableQuery ''cpu'') now r tr' (cm_CPUCapacity m) \<and>
    measured M c memoryUsageQuery now r tr' (cm_MemoryUsage m) \<and>
    measured M c (allocatableQuery ''memory'') now r tr' (cm_MemoryCapacity m) \<and>
    measured M c nodeCountQuery now r tr' (cm_NodeCount m) \<and>
    (cm_CPURequested m = [] \<or> measured M c (requestedQuery ''cpu'') now r tr' (cm_CPURequested m)) \<and>
    (cm_MemoryRequested m = [] \<or> measured M c (requestedQuery ''memory'') now r tr' (cm_MemoryRequested m))"
proof -
  let ?now = "mv_Now M tr"
  let ?q = "\<lambda>query. queryRange M c query (?now - mr_Duration r) ?now (mr_Step r)"
  have "run_state (required ''cpu usage query: '' (?q cpuUsageQuery) (\<lambda>cpuUsage.
     required ''cpu capacity query: '' (?q (allocatableQuery ''cpu'')) (\<lambda>cpuCap.
     required ''memory usage query: '' (?q memoryUsageQuery) (\<lambda>memUsage.
     required ''memory capacity query: '' (?q (allocatableQuery ''memory'')) (\<lambda>memCap.
     required ''node count query: '' (?q nodeCountQuery) (\<lambda>nodeCount. do {
       cpuRequested \<leftarrow> optional (?q (requestedQuery ''cpu''));
       memRequested \<leftarrow> optional (?q (requestedQuery ''memory''));
       return (Inr \<lparr>cm_CPUUsage = cpuUsage, cm_CPUCapacity = cpuCap, cm_CPURequested = cpuRequested,
         cm_MemoryUsage = memUsage, cm_MemoryCapacity = memCap, cm_MemoryRequested = memRequested, cm_NodeCount = nodeCount\<rparr>)
     })))))) (ReadClock ?now # tr) = (Inr m, tr')"
    using assms by (simp add: GetClusterMetrics_def clock_now_def Let_def)
  then obtain a tr1 b tr2 d tr3 e tr4 f tr5 where
      a: "measured M c cpuUsageQuery ?now r tr1 a" "set (ReadClock ?now # tr) \<subseteq> set tr1"
    and b: "measured M c (allocatableQuery ''cpu'') ?now r tr2 b" "set tr1 \<subseteq> set tr2"
    and d: "measured M c memoryUsageQuery ?now r tr3 d" "set tr2 \<subseteq> set tr3"
    and e: "measured M c (allocatableQuery ''memory'') ?now r tr4 e" "set tr3 \<subseteq> set tr4"
    and f: "measured M c nodeCountQuery ?now r tr5 f" "set tr4 \<subseteq> set tr5"
    and rest: "run_state (do {
       cpuRequested \<leftarrow> optional (?q (requestedQuery ''cpu''));
       memRequested \<leftarrow> optional (?q (requestedQuery ''memory''));
       return (Inr \<lparr>cm_CPUUsage = a, cm_CPUCapacity = b, cm_CPURequested = cpuRequested,
         cm_MemoryUsage = d, cm_MemoryCapacity = e, cm_MemoryRequested = memRequested, cm_NodeCount = f\<rparr>)
     }) tr5 = (Inr m :: ClusterMetrics result, tr')"
    by (elim required_measured) (rule that)
  obtain g tr6 h tr7 where g: "run_state (optional (?q (requestedQuery ''cpu''))) tr5 = (g, tr6)"
    and h: "run_state (optional (?q (requestedQuery ''memory''))) tr6 = (h, tr7)" by (metis surj_pair)
  from rest have m: "m = \<lparr>cm_CPUUsage = a, cm_CPUCapacity = b, cm_CPURequested = g, cm_MemoryUsage = d, cm_MemoryCapacity = e,
      cm_MemoryRequested = h, cm_NodeCount = f\<rparr>" and tr': "tr' = tr7"
    by (simp_all add: g h)
  note last = optional_measured[OF g] optional_measured[OF h]
  have subs: "set tr5 \<subseteq> set tr7" "set tr4 \<subseteq> set tr7" "set tr3 \<subseteq> set tr7" "set tr2 \<subseteq> set tr7" "set tr1 \<subseteq> set tr7"
    using b(2) d(2) e(2) f(2) last by blast+
  have "ReadClock ?now \<in> set tr7" using a(2) subs(5) by auto
  moreover note measured_mono[OF a(1) subs(5)] measured_mono[OF b(1) subs(4)] measured_mono[OF d(1) subs(3)]
    measured_mono[OF e(1) subs(2)] measured_mono[OF f(1) subs(1)]
  moreover have "g = [] \<or> measured M c (requestedQuery ''cpu'') ?now r tr7 g"
    using last measured_mono by blast
  ultimately show ?thesis unfolding m tr' using last by (intro exI[of _ ?now]) simp
qed

subsection \<open>The network\<close>

text \<open>The calls that the routes make: only these four addresses, without credentials.\<close>

definition provider_call :: "environment \<Rightarrow> metric_event \<Rightarrow> bool" where
  "provider_call vars e \<longleftrightarrow>
     (case e of
        ReadClock _ \<Rightarrow> True
      | HttpGet url auth _ \<Rightarrow> auth = NoAuthorization \<and>
          (Getenv vars ''PROMETHEUS_URL'' \<noteq> '''' \<and>
             (url = Getenv vars ''PROMETHEUS_URL'' @ ''/-/healthy'' \<or>
              HasPrefix url (Getenv vars ''PROMETHEUS_URL'' @ ''/api/v1/query_range?'')) \<or>
           Getenv vars ''OPENCOST_URL'' \<noteq> '''' \<and>
             (url = Getenv vars ''OPENCOST_URL'' @ ''/healthz'' \<or>
              url = Getenv vars ''OPENCOST_URL'' @ ''/allocation/compute?window=1h&aggregate=namespace&accumulate=false'')))"

lemma emits_http_get: "(\<And>r. P (HttpGet url auth r)) \<Longrightarrow> emits P (http_get M url auth)"
  unfolding http_get_def by (intro emits_intros)

lemma emits_required: "emits P m \<Longrightarrow> (\<And>x. emits P (k x)) \<Longrightarrow> emits P (required front m k)"
  unfolding required_def by (intro emits_intros)

lemma emits_optional: "emits P m \<Longrightarrow> emits P (optional m)"
  unfolding optional_def by (intro emits_intros)

definition prom_call :: "PromConfig \<Rightarrow> metric_event \<Rightarrow> bool" where
  "prom_call c e \<longleftrightarrow> (case e of ReadClock _ \<Rightarrow> True | HttpGet url auth _ \<Rightarrow> auth = addAuth c \<and>
     (url = prc_URL c @ ''/-/healthy'' \<or> HasPrefix url (prc_URL c @ ''/api/v1/query_range?'')))"

lemma emits_queryRange: "emits (prom_call c) (queryRange M c query start end' step)"
proof -
  have "HasPrefix (rangeURL M c query start end' step) (prc_URL c @ ''/api/v1/query_range?'')"
    using rangeURL_parameters[of M c query start end' step] by (auto simp: HasPrefix_def)
  then show ?thesis unfolding queryRange_def by (intro emits_intros emits_http_get) (simp add: prom_call_def)
qed

lemma emits_prom:
  "emits (prom_call c) (prom_IsAvailable M c)" "emits (prom_call c) (GetClusterMetrics M c r)"
  "emits (prom_call c) (GetNamespaceMetrics M c ns r)" "emits (prom_call c) (GetWorkloadMetrics M c ns name r)"
  "emits (prom_call c) (GetNodeMetrics M c r)"
  unfolding prom_IsAvailable_def GetClusterMetrics_def GetNamespaceMetrics_def GetWorkloadMetrics_def GetNodeMetrics_def clock_now_def
  by (intro emits_intros emits_http_get emits_required emits_optional emits_queryRange; simp add: prom_call_def)+

lemma emits_whenAvailable:
  "(\<And>c. p = Some (Some c) \<Longrightarrow> emits P (ready c)) \<Longrightarrow> (\<And>c. p = Some (Some c) \<Longrightarrow> emits P (get c)) \<Longrightarrow>
   emits P (whenAvailable p ready unavailable get wrap)"
  unfolding whenAvailable_def by (auto intro!: emits_intros)

lemma emits_metrics_handler:
  assumes "metricsServer vars = Some s"
  shows "emits (provider_call vars) (metrics_handler M s rt)"
proof -
  have prom: "emits (provider_call vars) m" if "mts_Metrics s = Some (Some c)" "emits (prom_call c) m" for c and m :: "'a mio"
  proof (rule emits_mono[OF that(2)])
    fix e assume "prom_call c e"
    moreover have "prc_URL c = Getenv vars ''PROMETHEUS_URL''" "Getenv vars ''PROMETHEUS_URL'' \<noteq> ''''" "addAuth c = NoAuthorization"
      using assms that(1) by (auto simp: metricsServer_def getEnvOrDefault_def addAuth_def Let_def split: if_splits)
    ultimately show "provider_call vars e" by (auto simp: prom_call_def provider_call_def split: metric_event.splits)
  qed
  have cost: "c = Getenv vars ''OPENCOST_URL'' \<and> Getenv vars ''OPENCOST_URL'' \<noteq> ''''" if "mts_Cost s = Some (Some c)" for c
    using assms that by (auto simp: metricsServer_def getEnvOrDefault_def Let_def split: if_splits)
  show ?thesis
  proof (cases rt)
    case MetricsCost
    have "emits (provider_call vars) (cost_IsAvailable M c)" "emits (provider_call vars) (GetCostSummary M c)"
      if "mts_Cost s = Some (Some c)" for c
      using cost[OF that] unfolding cost_IsAvailable_def GetCostSummary_def
      by (auto intro!: emits_intros emits_http_get simp: provider_call_def)
    then show ?thesis by (simp add: MetricsCost handleCostSummary_def emits_whenAvailable)
  qed (simp_all add: handleClusterMetrics_def handleNamespaceMetrics_def handleWorkloadMetrics_def handleNodeMetrics_def
      emits_whenAvailable prom emits_prom)
qed

lemma whenAvailable_OK:
  assumes "run_state (whenAvailable p ready unavailable get wrap) tr = (MetricsOK d, tr')" and "\<And>d. unavailable \<noteq> MetricsOK d"
  obtains c tr1 x where "p = Some (Some c)" "run_state (get c) tr1 = (Inr x, tr')" "d = wrap x"
  using assms by (auto simp: whenAvailable_def split: option.splits prod.splits if_splits sum.splits)

subsection \<open>Costs\<close>

lemma setCost_new: "ns \<notin> fst ` set costs \<Longrightarrow> setCost ns cost costs = costs @ [(ns, cost)]"
  by (induction costs) auto

text \<open>
  For one set of allocations (the window is not split) and exact arithmetic the summary lists the cost of every
  namespace, and the total is their sum.
\<close>

lemma summarize_one:
  assumes "distinct (map fst allocs)"
  shows "cs_CostByNamespace (summarize id \<lparr>oc_Code = code, oc_Data = [allocs]\<rparr>) = map (\<lambda>(ns, a). (ns, oca_TotalCost a)) allocs"
    and "cs_TotalClusterCostPerHour (summarize id \<lparr>oc_Code = code, oc_Data = [allocs]\<rparr>) = (\<Sum>(ns, a)\<leftarrow>allocs. oca_TotalCost a)"
proof -
  define start where "start = \<lparr>cs_TotalClusterCostPerHour = 0, cs_CostByNamespace = [], cs_SavedCostPerHour = 0, cs_ProjectedMonthlySavings = 0\<rparr>"
  have "cs_CostByNamespace (fold (addAllocation id) allocs start) = map (\<lambda>(ns, a). (ns, oca_TotalCost a)) allocs \<and>
      cs_TotalClusterCostPerHour (fold (addAllocation id) allocs start) = (\<Sum>(ns, a)\<leftarrow>allocs. oca_TotalCost a)"
    using assms
  proof (induction allocs rule: rev_induct)
    case (snoc x xs)
    have "fst x \<notin> fst ` set (map (\<lambda>(ns, a). (ns, oca_TotalCost a)) xs)" using snoc.prems by (force simp: image_iff)
    with snoc show ?case by (auto simp: addAllocation_def setCost_new fadd_def split_beta)
  qed (simp add: start_def)
  then show "cs_CostByNamespace (summarize id \<lparr>oc_Code = code, oc_Data = [allocs]\<rparr>) = map (\<lambda>(ns, a). (ns, oca_TotalCost a)) allocs"
    and "cs_TotalClusterCostPerHour (summarize id \<lparr>oc_Code = code, oc_Data = [allocs]\<rparr>) = (\<Sum>(ns, a)\<leftarrow>allocs. oca_TotalCost a)"
    by (simp_all add: summarize_def start_def)
qed

section \<open>Properties\<close>

text \<open>
  C37. Cluster metrics are what Prometheus measured: a successful answer comes from a configured client, and each series in it is
  parsed from a successful answer to a request for the query of this series over the period that was asked for,
  ending at the time of the request; only the two series of requested resources may be missing instead.
\<close>

theorem cluster_metrics_measured:
  assumes "run_state (handleClusterMetrics M s period) tr = (MetricsOK d, tr')"
  shows "\<exists>c m now. mts_Metrics s = Some (Some c) \<and> d = ClusterDocument m \<and> ReadClock now \<in> set tr' \<and>
    (let ok = (\<lambda>query. measured M c query now (rangeOf period) tr') in
     ok cpuUsageQuery (cm_CPUUsage m) \<and> ok (allocatableQuery ''cpu'') (cm_CPUCapacity m) \<and>
     ok memoryUsageQuery (cm_MemoryUsage m) \<and> ok (allocatableQuery ''memory'') (cm_MemoryCapacity m) \<and>
     ok nodeCountQuery (cm_NodeCount m) \<and>
     (cm_CPURequested m = [] \<or> ok (requestedQuery ''cpu'') (cm_CPURequested m)) \<and>
     (cm_MemoryRequested m = [] \<or> ok (requestedQuery ''memory'') (cm_MemoryRequested m)))"
proof -
  obtain c tr1 m where c: "mts_Metrics s = Some (Some c)" and m: "run_state (GetClusterMetrics M c (rangeOf period)) tr1 = (Inr m, tr')"
    and d: "d = ClusterDocument m"
    by (rule whenAvailable_OK[OF assms[unfolded handleClusterMetrics_def]]) (simp_all add: no_metrics_def)
  from GetClusterMetrics_measured[OF m] obtain now where "ReadClock now \<in> set tr'" and
    "measured M c cpuUsageQuery now (rangeOf period) tr' (cm_CPUUsage m) \<and>
     measured M c (allocatableQuery ''cpu'') now (rangeOf period) tr' (cm_CPUCapacity m) \<and>
     measured M c memoryUsageQuery now (rangeOf period) tr' (cm_MemoryUsage m) \<and>
     measured M c (allocatableQuery ''memory'') now (rangeOf period) tr' (cm_MemoryCapacity m) \<and>
     measured M c nodeCountQuery now (rangeOf period) tr' (cm_NodeCount m) \<and>
     (cm_CPURequested m = [] \<or> measured M c (requestedQuery ''cpu'') now (rangeOf period) tr' (cm_CPURequested m)) \<and>
     (cm_MemoryRequested m = [] \<or> measured M c (requestedQuery ''memory'') now (rangeOf period) tr' (cm_MemoryRequested m))"
    by blast
  with c d show ?thesis unfolding Let_def by blast
qed

definition demo_prom :: menv where
  "demo_prom = \<lparr>mv_Now = (\<lambda>_. 7200 * Second), mv_NewRequest = (\<lambda>_. None),
     mv_Do = (\<lambda>_ url _. Inr \<lparr>ha_StatusCode = 200, ha_Body = take 1 url\<rparr>),
     mv_DecodeProm = (\<lambda>_. Inr \<lparr>prm_Status = ''success'', prm_Error = '''',
       prm_Result = [\<lparr>prm_Values = [[JNumber 3600, JString ''1''], [JNumber 3660]]\<rparr>]\<rparr>),
     mv_DecodeCost = (\<lambda>_. Inl not_found), mv_ParseFloat = (\<lambda>s. if s = ''1'' then Some (Finite 1) else None),
     mv_DurationString = (\<lambda>_. ''15s''), mv_rnd = id\<rparr>"

definition demo_metrics_server :: metrics_server where
  "demo_metrics_server = \<lparr>mts_Metrics = Some (Some \<lparr>prc_URL = ''http://prometheus'', prc_BearerToken = '''', prc_BasicUser = '''',
     prc_BasicPass = ''''\<rparr>), mts_Cost = Some None\<rparr>"

definition demo_cluster :: "metrics_answer \<times> metric_event list" where
  "demo_cluster = run_state (handleClusterMetrics demo_prom demo_metrics_server (Some ''1h'')) []"

definition one_sample :: "MetricsSample list" where
  "one_sample = [\<lparr>ms_Timestamp = 3600 * Second, ms_Value = Finite 1\<rparr>]"

lemma demo_cluster_answer:
  "fst demo_cluster = MetricsOK (ClusterDocument \<lparr>cm_CPUUsage = one_sample, cm_CPUCapacity = one_sample, cm_CPURequested = one_sample,
     cm_MemoryUsage = one_sample, cm_MemoryCapacity = one_sample, cm_MemoryRequested = one_sample, cm_NodeCount = one_sample\<rparr>)"
proof -
  have "run_state (queryRange demo_prom c query start end' step) tr =
      (Inr one_sample, HttpGet (rangeURL demo_prom c query start end' step) (addAuth c)
         (Inr \<lparr>ha_StatusCode = 200, ha_Body = take 1 (rangeURL demo_prom c query start end' step)\<rparr>) # tr)"
    for c query start end' step tr
    by (simp add: queryRange_def http_get_def demo_prom_def parseSamples_def parseSample_def List.map_filter_simps
        unix_time_def one_sample_def)
  then show ?thesis
    by (simp add: demo_cluster_def handleClusterMetrics_def whenAvailable_def demo_metrics_server_def prom_IsAvailable_def
        GetClusterMetrics_def required_def optional_def clock_now_def Let_def)
      (simp add: http_get_def demo_prom_def)
qed

theorem cluster_metrics_measured_witness:
  "\<exists>c now. measured demo_prom c cpuUsageQuery now (rangeOf (Some ''1h'')) (snd demo_cluster) one_sample \<and>
     ReadClock now \<in> set (snd demo_cluster)"
proof -
  have "run_state (handleClusterMetrics demo_prom demo_metrics_server (Some ''1h'')) [] =
      (MetricsOK (ClusterDocument \<lparr>cm_CPUUsage = one_sample, cm_CPUCapacity = one_sample, cm_CPURequested = one_sample,
         cm_MemoryUsage = one_sample, cm_MemoryCapacity = one_sample, cm_MemoryRequested = one_sample, cm_NodeCount = one_sample\<rparr>),
       snd demo_cluster)"
    using demo_cluster_answer by (simp add: demo_cluster_def prod_eq_iff)
  from cluster_metrics_measured[OF this] show ?thesis by (auto simp: Let_def)
qed

text \<open>
  A client that is not configured makes its routes panic instead of answering 503 as soon as the other one is: \<open>main\<close> passes
  the nil pointer on in an interface, which the handlers do not take for nil.
\<close>

theorem unset_client_panics:
  assumes "metricsServer vars = Some s"
  shows "Getenv vars ''PROMETHEUS_URL'' = '''' \<Longrightarrow> run_state (metrics_handler M s (MetricsCluster period)) tr = (HandlerPanic, tr)"
    and "Getenv vars ''OPENCOST_URL'' = '''' \<Longrightarrow> run_state (metrics_handler M s MetricsCost) tr = (HandlerPanic, tr)"
  using assms
  by (auto simp: metricsServer_def getEnvOrDefault_def handleClusterMetrics_def handleCostSummary_def whenAvailable_def Let_def
      split: if_splits)

end
