(* ===== verification/NamespaceRules.thy ===== *)
theory NamespaceRules
  imports DiscoverySafety Scopes
begin

text \<open>
  The rules that discovery makes: the policies implied by namespace annotations and the built-in
  schedules they can refer to (\<open>discovery.go\<close> and \<open>builtin_schedules.go\<close> under
  \<open>src/internal/adapters/driving/background/\<close>).
\<close>

section \<open>Policies from annotations\<close>

fun policy_written :: "event \<Rightarrow> PowerPolicy option" where
  "policy_written (UpdatePolicy p _) = Some p"
| "policy_written (CreatePolicy p _) = Some p"
| "policy_written _ = None"

fun writes_policy :: "event \<Rightarrow> bool" where
  "writes_policy (UpdatePolicy _ _) = True"
| "writes_policy (CreatePolicy _ _) = True"
| "writes_policy _ = False"

text \<open>
  The policy written for a namespace: marked as owned by discovery for this namespace, with the
  specification that the annotation asks for; an existing policy was owned before and keeps the rest.
\<close>

definition implied :: "DiscoveryLoop \<Rightarrow> (string \<times> PowerSchedule) list \<Rightarrow> ObjectMeta \<Rightarrow> event \<Rightarrow> trace \<Rightarrow> bool" where
  "implied D schedules m e tr \<longleftrightarrow>
     (\<exists>p s. policy_written e = Some p \<and> om_Name m \<notin> set (dc_SystemNamespaces (dl_Config D)) \<and>
        map_of schedules (go_get (om_Annotations m) ''aura.sh/default-schedule'') = Some s \<and>
        go_get (om_Annotations m) ''aura.sh/default-schedule'' \<noteq> '''' \<and>
        pp_Spec p = namespacePolicySpec (om_Name m) (go_get (om_Annotations m) ''aura.sh/default-schedule'') s (namespacePriority m) \<and>
        isOwnedNamespacePolicy p (om_Name m) \<and>
        (\<forall>r. e = UpdatePolicy p r \<longrightarrow> (\<exists>k q. GetPolicy k (Inr q) \<in> set tr \<and> p = q\<lparr>pp_Spec := pp_Spec p\<rparr>)))"

lemma owned_labels: "isOwnedNamespacePolicy \<lparr>pp_Meta = \<lparr>om_Name = n, om_GenerateName = g, om_Namespace = cns, om_UID = u, om_ResourceVersion = v,
    om_Labels = [(''power.aura.sh/source'', ''namespace-annotation''), (''power.aura.sh/namespace'', ns)],
    om_Annotations = a, om_CreationTimestamp = c, om_DeletionTimestamp = x\<rparr>, pp_Spec = sp, pp_Status = st\<rparr> ns"
  by (simp add: isOwnedNamespacePolicy_def go_get_def)

lemma ensureNamespacePolicy_implied:
  assumes "run_state (ensureNamespacePolicy E D schedules m) tr = ((), tr')"
  shows "justified writes_policy (implied D schedules m) tr tr'"
proof -
  let ?n = "go_get (om_Annotations m) ''aura.sh/default-schedule''"
  let ?k = "\<lparr>nn_Namespace = dc_Namespace (dl_Config D), nn_Name = ''ns-default-'' @ om_Name m\<rparr>"
  let ?g = "env_GetPolicy E tr ?k"
  show ?thesis
  proof (cases "?n = '''' \<or> om_Name m \<in> set (dc_SystemNamespaces (dl_Config D)) \<or> map_of schedules ?n = None")
    case True
    then show ?thesis using assms by (auto simp: ensureNamespacePolicy_def Let_def split: if_splits)
  next
    case False
    then obtain s where s: "map_of schedules ?n = Some s" by auto
    show ?thesis
    proof (cases ?g)
      case (Inl err)
      then show ?thesis
        using assms False s
        by (auto simp: ensureNamespacePolicy_def getPolicy_def createPolicy_def Let_def implied_def owned_labels
            intro!: justified_Cons split: if_splits)
    next
      case (Inr q)
      then show ?thesis
        using assms False s
        by (auto simp: ensureNamespacePolicy_def getPolicy_def updatePolicy_def Let_def implied_def isOwnedNamespacePolicy_def
            intro!: justified_Cons exI[of _ ?k] exI[of _ q] split: if_splits)
    qed
  qed
qed

lemma ensureNamespacePolicies_implied:
  "run_state (ensureNamespacePolicies E D schedules nss) tr = ((), tr') \<Longrightarrow>
   justified writes_policy (\<lambda>e tr. \<exists>m\<in>set nss. implied D schedules m e tr) tr tr'"
proof (induction nss arbitrary: tr)
  case (Cons m nss)
  then obtain tr1 where 1: "run_state (ensureNamespacePolicy E D schedules m) tr = ((), tr1)"
    and 2: "run_state (ensureNamespacePolicies E D schedules nss) tr1 = ((), tr')"
    by (auto split: prod.splits)
  have "justified writes_policy (\<lambda>e tr. \<exists>m\<in>set (m # nss). implied D schedules m e tr) tr tr1"
    by (rule justified_mono[OF ensureNamespacePolicy_implied[OF 1]]) simp_all
  moreover have "justified writes_policy (\<lambda>e tr. \<exists>m\<in>set (m # nss). implied D schedules m e tr) tr1 tr'"
    by (rule justified_mono[OF Cons.IH[OF 2]]) auto
  ultimately show ?case by (rule justified_trans)
qed simp

lemma parseNamespacePriority_bounds: "0 \<le> parseNamespacePriority v \<and> parseNamespacePriority v \<le> 1000"
  by (auto simp: parseNamespacePriority_def split: option.splits)

lemma namespacePriority_bounds: "0 \<le> namespacePriority m \<and> namespacePriority m \<le> 1000"
  using parseNamespacePriority_bounds by (simp add: namespacePriority_def Let_def)

lemma namespaceScope_matches:
  "MatchesScope t (toDomainScope (pps_Scope (namespacePolicySpec ns n s pr))) \<longleftrightarrow> ref_Namespace (tgt_Ref t) = ns"
  by (auto simp: MatchesScope_admits scope_admits_def admits_any_def toDomainScope_def toDomainTargetReferences_def namespacePolicySpec_def)

section \<open>Built-in schedules\<close>

lemma weekday_window:
  assumes "LoadLocation tz zone = Some loc" and "ToMinutes (parseTimeOfDay start) \<le> ToMinutes (parseTimeOfDay stop)"
  shows "IsInWindow tz (toDomainTimeWindow \<lparr>tws_Start = start, tws_End = stop, tws_Days = [1, 2, 3, 4, 5], tws_Timezone = zone\<rparr>) now \<longleftrightarrow>
    t_Weekday (time_In now loc) \<in> {1..5} \<and> time_In now loc mod 86400 div 60 \<in> {ToMinutes (parseTimeOfDay start)..<ToMinutes (parseTimeOfDay stop)}"
  using assms t_Weekday_bounds[of "time_In now loc"]
  by (auto simp: IsInWindow_def isDayMatch_def containsDay_iff toDomainTimeWindow_def CrossesMidnight_def minutes_of_day Let_def)

lemma parse_times:
  "ToMinutes (parseTimeOfDay ''08:00'') = 480" "ToMinutes (parseTimeOfDay ''18:00'') = 1080"
  "ToMinutes (parseTimeOfDay ''00:00'') = 0" "ToMinutes (parseTimeOfDay ''23:59'') = 1439"
  by (simp_all add: parseTimeOfDay_def byte_digit_def ToMinutes_def)

lemma schedule_of_policy:
  "pp_Spec p = namespacePolicySpec ns n s prio \<Longrightarrow>
   pol_Schedule (toDomainPolicy p) = \<lparr>sch_Windows = map toDomainTimeWindow (pss_Windows (ps_Spec s)), sch_DesiredState = pss_DesiredState (ps_Spec s)\<rparr>"
  by (simp add: toDomainPolicy_def namespacePolicySpec_def)

lemma window_schedule:
  "EvaluateSchedule tz \<lparr>sch_Windows = [w], sch_DesiredState = ''on''\<rparr> now = (if IsInWindow tz w now then PowerStateOn else PowerStateOff)"
  by (simp add: EvaluateSchedule_def IsInAnyWindow_def Opposite_def power_state_defs)

section \<open>Properties\<close>

text \<open>
  C19. Discovery changes only its own rules, and only inside the annotated namespace: every policy that is
  created or updated while the annotations are processed belongs to a listed namespace outside the system
  namespaces whose annotation names a listed schedule, is marked as owned by discovery for that
  namespace (an update keeps everything but the specification of a policy that was read and already
  was), selects exactly the targets in that namespace, and has a priority from 0 to 1000 whatever the
  annotation says.
\<close>

theorem annotation_policies_confined:
  assumes "run_state (processNamespaceAnnotations E D) [] = ((), post @ e # pre)" and "policy_written e = Some p"
  shows "\<exists>nss m ss s. ListNamespaces False (Inr nss) \<in> set pre \<and> m \<in> set nss \<and> ListSchedules (Inr ss) \<in> set pre \<and> s \<in> set ss \<and>
    om_Name m \<notin> set (dc_SystemNamespaces (dl_Config D)) \<and>
    go_get (om_Annotations m) ''aura.sh/default-schedule'' = om_Name (ps_Meta s) \<and>
    isOwnedNamespacePolicy p (om_Name m) \<and>
    (\<forall>r. e = UpdatePolicy p r \<longrightarrow> (\<exists>k q. GetPolicy k (Inr q) \<in> set pre \<and> p = q\<lparr>pp_Spec := pp_Spec p\<rparr>)) \<and>
    (\<forall>t. MatchesScope t (toDomainScope (pps_Scope (pp_Spec p))) \<longleftrightarrow> ref_Namespace (tgt_Ref t) = om_Name m) \<and>
    0 \<le> pps_Priority (pp_Spec p) \<and> pps_Priority (pp_Spec p) \<le> 1000"
proof -
  have w: "writes_policy e" using assms(2) by (cases e) simp_all
  obtain nss ss where l: "env_ListNamespaces E [] False = Inr nss"
    "env_ListSchedules E [ListNamespaces False (Inr nss)] = Inr ss"
    using assms w by (auto simp: processNamespaceAnnotations_def listNamespaces_def listSchedules_def append_eq_Cons_conv
        Cons_eq_append_conv split: sum.splits)
  let ?start = "[ListSchedules (Inr ss), ListNamespaces False (Inr nss)]"
  let ?schedules = "rev (map (\<lambda>s. (om_Name (ps_Meta s), s)) ss)"
  have "run_state (ensureNamespacePolicies E D ?schedules nss) ?start = ((), post @ e # pre)"
    using assms(1) l by (simp add: processNamespaceAnnotations_def listNamespaces_def listSchedules_def)
  from ensureNamespacePolicies_implied[OF this] obtain new where new: "post @ e # pre = new @ ?start"
    "\<forall>post e pre. new = post @ e # pre \<longrightarrow> writes_policy e \<longrightarrow> (\<exists>m\<in>set nss. implied D ?schedules m e (pre @ ?start))"
    by (auto simp: justified_def)
  obtain us where us: "new = post @ e # us" "pre = us @ ?start"
    using new(1) w by (auto simp: append_eq_append_conv2 append_eq_Cons_conv Cons_eq_append_conv)
  then obtain m where m: "m \<in> set nss" "implied D ?schedules m e pre"
    using new(2)[rule_format, OF us(1) w] by auto
  from m(2) obtain s where s: "map_of ?schedules (go_get (om_Annotations m) ''aura.sh/default-schedule'') = Some s"
    "pp_Spec p = namespacePolicySpec (om_Name m) (go_get (om_Annotations m) ''aura.sh/default-schedule'') s (namespacePriority m)"
    "om_Name m \<notin> set (dc_SystemNamespaces (dl_Config D))" "isOwnedNamespacePolicy p (om_Name m)"
    "\<forall>r. e = UpdatePolicy p r \<longrightarrow> (\<exists>k q. GetPolicy k (Inr q) \<in> set pre \<and> p = q\<lparr>pp_Spec := pp_Spec p\<rparr>)"
    unfolding implied_def assms(2) option.inject by blast
  have "s \<in> set ss" "go_get (om_Annotations m) ''aura.sh/default-schedule'' = om_Name (ps_Meta s)"
    using map_of_SomeD[OF s(1)] by auto
  moreover have "0 \<le> pps_Priority (pp_Spec p) \<and> pps_Priority (pp_Spec p) \<le> 1000"
    using namespacePriority_bounds s(2) by (simp add: namespacePolicySpec_def)
  moreover have "\<forall>t. MatchesScope t (toDomainScope (pps_Scope (pp_Spec p))) \<longleftrightarrow> ref_Namespace (tgt_Ref t) = om_Name m"
    using namespaceScope_matches s(2) by simp
  ultimately show ?thesis using m(1) us(2) s(3,4,5) by (intro exI[of _ nss] exI[of _ m] exI[of _ ss] exI[of _ s]) simp
qed

definition annotated_cluster :: env where
  "annotated_cluster = empty_cluster\<lparr>env_ListNamespaces := (\<lambda>_ _. Inr [(png_Meta dev_group)\<lparr>om_Name := ''dev'',
       om_Annotations := [(''aura.sh/default-schedule'', ''always-off''), (''aura.sh/power-priority'', ''99999'')]\<rparr>]),
     env_ListSchedules := (\<lambda>_. Inr (builtInSchedules ''UTC'' ''aura''))\<rparr>"

definition annotated_run :: trace where
  "annotated_run = snd (run_state (processNamespaceAnnotations annotated_cluster (sample_loop annotated_cluster)) [])"

theorem annotation_policies_confined_witness:
  "\<exists>e pre p. annotated_run = e # pre \<and> policy_written e = Some p \<and> 0 \<le> pps_Priority (pp_Spec p) \<and> pps_Priority (pp_Spec p) \<le> 1000"
proof -
  have "writes_policy (hd annotated_run) \<and> annotated_run \<noteq> []" by code_simp
  then obtain e pre where e: "annotated_run = e # pre" "writes_policy e" by (metis list.collapse)
  then obtain p where p: "policy_written e = Some p" by (cases e) auto
  have "run_state (processNamespaceAnnotations annotated_cluster (sample_loop annotated_cluster)) [] = ((), [] @ e # pre)"
    using e(1) by (simp add: annotated_run_def prod_eq_iff)
  from annotation_policies_confined[OF this p] e p show ?thesis by blast
qed

text \<open>
  C20. What the built-in schedules mean once a namespace refers to them: \<open>always-off\<close> is off at every instant,
  \<open>business-hours\<close> is on exactly from Monday to Friday from 08:00 to 18:00 local time, and \<open>weekdays-only\<close>
  is on exactly from Monday to Friday \<^emph>\<open>before 23:59\<close>: in the last minute of every weekday it is off,
  although its description promises to keep workloads on from Monday to Friday.
\<close>

theorem builtin_schedule_semantics:
  assumes "LoadLocation tz zone = Some loc" and "s \<in> set (builtInSchedules zone cns)"
    and "pp_Spec p = namespacePolicySpec ns (om_Name (ps_Meta s)) s prio"
  shows "EvaluateSchedule tz (pol_Schedule (toDomainPolicy p)) now =
    (if t_Weekday (time_In now loc) \<in> {1..5} \<and>
        (let minute = time_In now loc mod 86400 div 60 in
         om_Name (ps_Meta s) = ''business-hours'' \<and> 8 * 60 \<le> minute \<and> minute < 18 * 60 \<or>
         om_Name (ps_Meta s) = ''weekdays-only'' \<and> minute < 23 * 60 + 59)
     then PowerStateOn else PowerStateOff)"
proof -
  note schedule = schedule_of_policy[OF assms(3)]
  have nonneg: "0 \<le> time_In now loc mod 86400 div 60" by (simp add: pos_imp_zdiv_nonneg_iff)
  consider "s = builtInSchedule cns ''business-hours'' (businessHours zone)" | "s = builtInSchedule cns ''always-off'' alwaysOff"
    | "s = builtInSchedule cns ''weekdays-only'' (weekdaysOnly zone)"
    using assms(2) by (auto simp: builtInSchedules_def)
  then show ?thesis
  proof cases
    case 1
    then show ?thesis using schedule weekday_window[OF assms(1), of "''08:00''" "''18:00''" now]
      by (simp add: builtInSchedule_def businessHours_def window_schedule parse_times Let_def)
  next
    case 2
    then show ?thesis using schedule
      by (simp add: builtInSchedule_def alwaysOff_def EvaluateSchedule_def PowerStateOff_def)
  next
    case 3
    then show ?thesis using schedule weekday_window[OF assms(1), of "''00:00''" "''23:59''" now] nonneg
      by (simp add: builtInSchedule_def weekdaysOnly_def window_schedule parse_times Let_def)
  qed
qed

text \<open>Friday 1970-01-02, 23:59:30 UTC.\<close>

definition friday_last_minute :: go_time where
  "friday_last_minute = (86400 + 86370) * Second"

theorem builtin_schedule_semantics_witness:
  "EvaluateSchedule (\<lambda>_. None) (pol_Schedule (toDomainPolicy (off_policy\<lparr>pp_Spec :=
     namespacePolicySpec ''dev'' ''weekdays-only'' (builtInSchedule ''aura'' ''weekdays-only'' (weekdaysOnly ''UTC'')) 0\<rparr>)))
     friday_last_minute = PowerStateOff"
  using builtin_schedule_semantics[of "\<lambda>_. None" "''UTC''" "\<lambda>_. 0" "builtInSchedule ''aura'' ''weekdays-only'' (weekdaysOnly ''UTC'')" "''aura''"
      "off_policy\<lparr>pp_Spec := namespacePolicySpec ''dev'' ''weekdays-only'' (builtInSchedule ''aura'' ''weekdays-only'' (weekdaysOnly ''UTC'')) 0\<rparr>"
      "''dev''" 0 friday_last_minute]
  by (simp add: LoadLocation_def builtInSchedules_def builtInSchedule_def friday_last_minute_def time_In_def Second_def)

end
