(* ===== verification/Dispatcher.thy ===== *)
theory Dispatcher
  imports Notifications
begin

text \<open>
  The dispatcher of notifications: deduplication, grouping and throttling of a batch, the durable
  record of every attempt, and the recovery of attempts whose outcome is unknown
  (\<open>src/internal/adapters/driven/notifications/dispatcher.go\<close>).
\<close>

section \<open>The dispatcher\<close>

type_synonym throttle = "string \<rightharpoonup> go_time"

record Dispatcher =
  d_ControlNamespace :: string
  d_Senders :: "(string \<times> Sender) list"

definition RegisterSender :: "Sender \<Rightarrow> Dispatcher \<Rightarrow> Dispatcher" where
  "RegisterSender s d = d\<lparr>d_Senders := (sd_Type s, s) # d_Senders d\<rparr>"

definition NewDispatcherForNamespace :: "nenv \<Rightarrow> string \<Rightarrow> Dispatcher" where
  "NewDispatcherForNamespace N controlNamespace =
     RegisterSender (SlackSender N) (RegisterSender (GenericSender N) (RegisterSender (GoogleChatSender N)
       \<lparr>d_ControlNamespace = controlNamespace, d_Senders = []\<rparr>))"

definition NewDispatcher :: "nenv \<Rightarrow> Dispatcher" where
  "NewDispatcher N = NewDispatcherForNamespace N ''''"

text \<open>An empty namespace lists all of them.\<close>

definition listChannels :: "nenv \<Rightarrow> Dispatcher \<Rightarrow> PowerNotificationChannel list result nio" where
  "listChannels N d = call (\<lambda>tr. ne_ListChannels N tr (d_ControlNamespace d)) (ListChannels (d_ControlNamespace d))"

definition ErrQueueFull :: go_error where
  "ErrQueueFull = errors_New ''notification queue is full''"

definition queueCapacity :: nat where "queueCapacity = 500"

definition dispatcher_Enqueue :: "Event \<Rightarrow> Event list \<Rightarrow> go_error option \<times> Event list" where
  "dispatcher_Enqueue event queue =
     (if length queue < queueCapacity then (None, queue @ [event]) else (Some ErrQueueFull, queue))"

section \<open>Identities\<close>

definition eventIdentity :: "Event \<Rightarrow> string" where
  "eventIdentity event = ev_Action event @ ''/'' @ ev_Result event @ ''/'' @ ev_RuleName event @ ''/'' @
     ntr_Namespace (ev_Target event) @ ''/'' @ ntr_Kind (ev_Target event) @ ''/'' @ ntr_Name (ev_Target event) @ ''/'' @
     ntr_UID (ev_Target event)"

definition eventDeduplicationIdentity :: "Event \<Rightarrow> string" where
  "eventDeduplicationIdentity event =
     (if ev_AuditEventRef event \<noteq> '''' then eventIdentity event @ ''/'' @ ev_AuditEventRef event else eventIdentity event)"

definition batchThrottleKey :: "nenv \<Rightarrow> PowerNotificationChannel \<Rightarrow> Event list \<Rightarrow> string" where
  "batchThrottleKey N channel events =
     om_Namespace (nc_Meta channel) @ ''/'' @ om_Name (nc_Meta channel) @ ''/batch/'' @
     ne_sha256 N (Join (sort_Strings (map eventIdentity events)) nl)"

definition eventSeed :: "nenv \<Rightarrow> Event \<Rightarrow> string" where
  "eventSeed N event =
     (if ev_AuditEventRef event = '''' then eventIdentity event @ ''/'' @ ne_RFC3339Nano N (ev_Timestamp event)
      else ev_AuditEventRef event)"

definition correlatedEventIDs :: "nenv \<Rightarrow> Event list \<Rightarrow> string list \<times> string list" where
  "correlatedEventIDs N events =
     (sort_Strings (map (\<lambda>event. ''event-'' @ ne_sha256 N (eventSeed N event)) events),
      sort_Strings (filter (\<lambda>ref. ref \<noteq> '''') (map ev_AuditEventRef events)))"

section \<open>The batch\<close>

text \<open>\<open>contains\<close> of the package is list membership.\<close>

definition contains :: "string list \<Rightarrow> string \<Rightarrow> bool" where
  "contains slice item = list_ex (\<lambda>s. s = item) slice"

fun deduplicate :: "string list \<Rightarrow> Event list \<Rightarrow> Event list" where
  "deduplicate seen [] = []"
| "deduplicate seen (ev # batch) =
     (let key = eventDeduplicationIdentity ev in
      if contains seen key then deduplicate seen batch else ev # deduplicate (key # seen) batch)"

definition channelAccepts :: "PowerNotificationChannel \<Rightarrow> Event \<Rightarrow> bool" where
  "channelAccepts ch ev \<longleftrightarrow>
     \<not> (length (ncs_Events (nc_Spec ch)) > 0 \<and> \<not> contains (ncs_Events (nc_Spec ch)) (ev_Action ev)) \<and>
     \<not> (length (ncs_NamespaceFilter (nc_Spec ch)) > 0 \<and> \<not> contains (ncs_NamespaceFilter (nc_Spec ch)) (ntr_Namespace (ev_Target ev)))"

definition attemptedRefs :: "PowerNotificationChannelStatus \<Rightarrow> string list" where
  "attemptedRefs status = concat (map na_AuditEventRefs (ncst_RecentAttempts status)) @
     (case ncst_LastAttempt status of None \<Rightarrow> [] | Some a \<Rightarrow> na_AuditEventRefs a)"

definition excludeAttemptedEvents :: "PowerNotificationChannelStatus \<Rightarrow> Event list \<Rightarrow> Event list" where
  "excludeAttemptedEvents status events =
     filter (\<lambda>event. \<not> (ev_AuditEventRef event \<noteq> '''' \<and> contains (attemptedRefs status) (ev_AuditEventRef event))) events"

type_synonym semanticKey = "string \<times> string \<times> string"

definition semanticKeyOf :: "Event \<Rightarrow> semanticKey" where
  "semanticKeyOf event = (ev_Action event, ev_Result event, ev_RuleName event)"

text \<open>The groups so far and the map from a key to the index of its group.\<close>

definition groupStep :: "Event \<Rightarrow> Event list list \<times> (semanticKey \<times> nat) list \<Rightarrow> Event list list \<times> (semanticKey \<times> nat) list" where
  "groupStep event = (\<lambda>(groups, indexes).
     case map_of indexes (semanticKeyOf event) of
       Some i \<Rightarrow> (groups[i := groups ! i @ [event]], indexes)
     | None \<Rightarrow> (groups @ [[event]], (semanticKeyOf event, length groups) # indexes))"

definition groupBatchEvents :: "Event list \<Rightarrow> Event list list" where
  "groupBatchEvents events = fst (fold groupStep events ([], []))"

text \<open>The names of the workloads; \<open>i\<close> is the position of the next one.\<close>

fun batchNames :: "nat \<Rightarrow> nat \<Rightarrow> Event list \<Rightarrow> string" where
  "batchNames n i [] = ''''"
| "batchNames n i (event # events) =
     (if i > 4 then '' (+'' @ go_itoa (int n - 5) @ '' more)''
      else (if i > 0 then '', '' else '''') @
           ntr_Namespace (ev_Target event) @ ''/'' @ ntr_Name (ev_Target event) @ '' ('' @ ntr_Kind (ev_Target event) @ '')'' @
           batchNames n (i + 1) events)"

text \<open>The groups are never empty.\<close>

definition summarizeBatch :: "Event list \<Rightarrow> Event" where
  "summarizeBatch events =
     (if length events = 1 then hd events
      else (hd events)\<lparr>ev_Reason := go_itoa (int (length events)) @ '' workload(s): '' @ batchNames (length events) 0 events\<rparr>)"

definition throttleDuration :: "nenv \<Rightarrow> PowerNotificationChannel \<Rightarrow> go_duration" where
  "throttleDuration N ch =
     (if ncs_Throttle (nc_Spec ch) \<noteq> ''''
      then (case ne_ParseDuration N (ncs_Throttle (nc_Spec ch)) of
              Some parsed \<Rightarrow> if parsed > 0 then parsed else 5 * Minute
            | None \<Rightarrow> 5 * Minute)
      else 5 * Minute)"

definition pruneThrottle :: "go_time \<Rightarrow> throttle \<Rightarrow> throttle" where
  "pruneThrottle now throttle = (\<lambda>key. case throttle key of None \<Rightarrow> None | Some expiresAt \<Rightarrow> if now < expiresAt then Some expiresAt else None)"

definition isThrottled :: "nenv \<Rightarrow> throttle \<Rightarrow> string \<Rightarrow> bool nio" where
  "isThrottled N throttle key =
     (case throttle key of
        None \<Rightarrow> return False
      | Some expiresAt \<Rightarrow> do { now \<leftarrow> clock N; return (now < expiresAt) })"

section \<open>Destinations\<close>

definition validateWebhookURL :: "nenv \<Rightarrow> string \<Rightarrow> string result" where
  "validateWebhookURL N value =
     (let bad = Inl (errors_New ''webhook endpoint must be an absolute HTTP(S) URL without userinfo; endpoint details <redacted>'') in
      case ne_ParseRequestURI N value of
        None \<Rightarrow> bad
      | Some parsed \<Rightarrow>
          if url_Host parsed = '''' \<or> (url_Scheme parsed \<noteq> ''http'' \<and> url_Scheme parsed \<noteq> ''https'') \<or> url_User parsed then bad
          else Inr value)"

definition resolveWebhookURL :: "nenv \<Rightarrow> PowerNotificationChannel \<Rightarrow> string result nio" where
  "resolveWebhookURL N channel =
     (if ncs_URL (nc_Spec channel) \<noteq> '''' then return (validateWebhookURL N (ncs_URL (nc_Spec channel)))
      else case ncs_URLFrom (nc_Spec channel) of
        None \<Rightarrow> return (Inl (errors_New ''channel has neither url nor urlFrom configured''))
      | Some from \<Rightarrow>
          let key = \<lparr>nn_Namespace = om_Namespace (nc_Meta channel), nn_Name = skr_Name from\<rparr>;
              secretName = nn_Namespace key @ ''/'' @ nn_Name key
          in do {
            s \<leftarrow> getSecret N key;
            case s of
              Inl err \<Rightarrow> return (Inl (wrap_error (''read referenced Secret '' @ secretName @ '': '') err ''''))
            | Inr data \<Rightarrow>
                return (case map_of data (skr_Key from) of
                    None \<Rightarrow> Inl (errors_New (''referenced Secret '' @ secretName @ '' does not contain key '' @ ne_Quote N (skr_Key from)))
                  | Some value \<Rightarrow>
                      if TrimSpace value = ''''
                      then Inl (errors_New (''referenced Secret '' @ secretName @ '' contains an empty key '' @ ne_Quote N (skr_Key from)))
                      else validateWebhookURL N (TrimSpace value))
          })"

definition redactedDeliveryFailure :: string where
  "redactedDeliveryFailure = ''notification delivery failed; endpoint and transport details <redacted>''"

definition redactDeliveryError :: "go_error \<Rightarrow> string \<Rightarrow> go_error" where
  "redactDeliveryError err secretURL =
     (if err_Canceled err then errors_New ''notification delivery canceled; endpoint details <redacted>''
      else if err_DeadlineExceeded err then errors_New ''notification delivery timed out; endpoint details <redacted>''
      else errors_New redactedDeliveryFailure)"

section \<open>Attempts\<close>

definition maxRecentNotificationAttempts :: nat where "maxRecentNotificationAttempts = 20"

text \<open>The first attempt with this identifier is replaced.\<close>

fun replaceAttempt :: "NotificationAttemptStatus \<Rightarrow> NotificationAttemptStatus list \<Rightarrow> NotificationAttemptStatus list option" where
  "replaceAttempt attempt [] = None"
| "replaceAttempt attempt (a # as) =
     (if na_ID a = na_ID attempt then Some (attempt # as)
      else case replaceAttempt attempt as of None \<Rightarrow> None | Some as' \<Rightarrow> Some (a # as'))"

definition storeAttempt :: "NotificationAttemptStatus \<Rightarrow> PowerNotificationChannelStatus \<Rightarrow> PowerNotificationChannelStatus" where
  "storeAttempt attempt status =
     (case replaceAttempt attempt (ncst_RecentAttempts status) of
        Some as \<Rightarrow> status\<lparr>ncst_LastAttempt := Some attempt, ncst_RecentAttempts := as\<rparr>
      | None \<Rightarrow>
          let as = ncst_RecentAttempts status @ [attempt];
              overflow = length as - maxRecentNotificationAttempts
          in status\<lparr>ncst_LastAttempt := Some attempt, ncst_RecentAttempts := drop overflow as\<rparr>)"

definition writeChannelStatus ::
  "nenv \<Rightarrow> NamespacedName \<Rightarrow> (PowerNotificationChannelStatus \<Rightarrow> PowerNotificationChannelStatus nio) \<Rightarrow> go_error option nio" where
  "writeChannelStatus N key mutate = do {
     g \<leftarrow> getChannel N key;
     case g of
       Inl err \<Rightarrow> return (Some err)
     | Inr current \<Rightarrow> do {
         status \<leftarrow> mutate (nc_Status current);
         u \<leftarrow> statusUpdateChannel N (current\<lparr>nc_Status := status\<rparr>);
         return (case u of Inl err \<Rightarrow> Some err | Inr _ \<Rightarrow> None)
       }
   }"

definition updateChannelStatus ::
  "nenv \<Rightarrow> nretrier \<Rightarrow> NamespacedName \<Rightarrow> (PowerNotificationChannelStatus \<Rightarrow> PowerNotificationChannelStatus nio) \<Rightarrow> go_error option nio" where
  "updateChannelStatus N OnError key mutate =
     OnError 5 (\<lambda>_. do { c \<leftarrow> ctx_Err N; return (c = None) }) (\<lambda>_. writeChannelStatus N key mutate)"

definition channelKey :: "PowerNotificationChannel \<Rightarrow> NamespacedName" where
  "channelKey channel = \<lparr>nn_Namespace = om_Namespace (nc_Meta channel), nn_Name = om_Name (nc_Meta channel)\<rparr>"

definition newAttempt :: "nenv \<Rightarrow> PowerNotificationChannel \<Rightarrow> Event list \<Rightarrow> go_time \<Rightarrow> NotificationAttemptStatus" where
  "newAttempt N channel events now =
     (let (eventIDs, auditRefs) = correlatedEventIDs N events;
          seed = om_Namespace (nc_Meta channel) @ ''/'' @ om_Name (nc_Meta channel) @ NUL @ Join eventIDs nl @ NUL @ go_itoa now
      in \<lparr>na_ID = ''attempt-'' @ ne_sha256 N seed, na_EventIDs = eventIDs, na_AuditEventRefs = auditRefs, na_Phase = ''InProgress'',
          na_StartedAt = now, na_CompletedAt = None, na_ProviderStatusCode = 0, na_AttemptCount = 0, na_Response = ''''\<rparr>)"

definition beginAttempt ::
  "nenv \<Rightarrow> nretrier \<Rightarrow> PowerNotificationChannel \<Rightarrow> Event list \<Rightarrow> (NotificationAttemptStatus \<times> go_error option) nio" where
  "beginAttempt N OnError channel events = do {
     now \<leftarrow> clock N;
     let attempt = newAttempt N channel events now in do {
       err \<leftarrow> updateChannelStatus N OnError (channelKey channel) (\<lambda>status. return (storeAttempt attempt status));
       return (attempt, err)
     }
   }"

text \<open>What finishing an attempt does to the status; counters do not move twice for one attempt.\<close>

definition completedAttempt ::
  "go_time \<Rightarrow> NotificationAttemptStatus \<Rightarrow> DeliveryResponse \<Rightarrow> go_error option \<Rightarrow> NotificationAttemptStatus" where
  "completedAttempt now attempt response deliveryErr =
     (let completed = attempt\<lparr>na_CompletedAt := Some now, na_ProviderStatusCode := wrap32 (dr_StatusCode response),
            na_AttemptCount := wrap32 (dr_Attempts response)\<rparr>
      in case deliveryErr of
           None \<Rightarrow> completed\<lparr>na_Phase := ''Succeeded'', na_Response := ''accepted''\<rparr>
         | Some err \<Rightarrow> completed\<lparr>na_Phase := ''Failed'', na_Response := err_Text err\<rparr>)"

definition countOutcome :: "go_time \<Rightarrow> go_error option \<Rightarrow> PowerNotificationChannelStatus \<Rightarrow> PowerNotificationChannelStatus" where
  "countOutcome now deliveryErr status =
     (case deliveryErr of
        None \<Rightarrow> status\<lparr>ncst_TotalSent := wrap64 (ncst_TotalSent status + 1), ncst_LastNotification := Some now, ncst_LastError := ''''\<rparr>
      | Some err \<Rightarrow> status\<lparr>ncst_TotalErrors := wrap64 (ncst_TotalErrors status + 1), ncst_LastError := err_Text err\<rparr>)"

definition alreadyCompleted :: "NotificationAttemptStatus \<Rightarrow> PowerNotificationChannelStatus \<Rightarrow> bool" where
  "alreadyCompleted attempt status \<longleftrightarrow>
     (case ncst_LastAttempt status of None \<Rightarrow> False | Some a \<Rightarrow> na_ID a = na_ID attempt \<and> na_Phase a \<noteq> ''InProgress'')"

definition completeAttempt ::
  "go_time \<Rightarrow> NotificationAttemptStatus \<Rightarrow> DeliveryResponse \<Rightarrow> go_error option \<Rightarrow> PowerNotificationChannelStatus \<Rightarrow> PowerNotificationChannelStatus" where
  "completeAttempt now attempt response deliveryErr status =
     (if alreadyCompleted attempt status then status
      else storeAttempt (completedAttempt now attempt response deliveryErr) (countOutcome now deliveryErr status))"

definition finishAttempt ::
  "nenv \<Rightarrow> nretrier \<Rightarrow> PowerNotificationChannel \<Rightarrow> NotificationAttemptStatus \<Rightarrow> DeliveryResponse \<Rightarrow> go_error option \<Rightarrow> go_error option nio" where
  "finishAttempt N OnError channel attempt response deliveryErr = do {
     now \<leftarrow> clock N;
     updateChannelStatus N OnError (channelKey channel) (\<lambda>status. return (completeAttempt now attempt response deliveryErr status))
   }"

section \<open>Delivery\<close>

definition recordUndelivered ::
  "nenv \<Rightarrow> nretrier \<Rightarrow> PowerNotificationChannel \<Rightarrow> Event list \<Rightarrow> string \<Rightarrow> go_error \<Rightarrow> string \<Rightarrow> go_error option nio" where
  "recordUndelivered N OnError channel events operation err secretURL = do {
     (attempt, persistErr) \<leftarrow> beginAttempt N OnError channel events;
     case persistErr of
       Some e \<Rightarrow> return (Some (wrap_error (operation @ '': persist notification attempt before delivery: '') e ''''))
     | None \<Rightarrow>
         let safeErr = redactDeliveryError err secretURL in do {
           u \<leftarrow> finishAttempt N OnError channel attempt \<lparr>dr_StatusCode = 0, dr_Attempts = 0\<rparr> (Some safeErr);
           return (case u of
               Some e \<Rightarrow> errors_Join [Some safeErr, Some (wrap_error ''persist notification failure: '' e '''')]
             | None \<Rightarrow> Some safeErr)
         }
   }"

definition send :: "Sender \<Rightarrow> string \<Rightarrow> Event \<Rightarrow> (DeliveryResponse \<times> go_error option) nio" where
  "send sender url payload =
     (case sd_SendWithResult sender of
        Some observable \<Rightarrow> observable url payload
      | None \<Rightarrow> do { err \<leftarrow> sd_Send sender url payload; return (\<lparr>dr_StatusCode = 0, dr_Attempts = 1\<rparr>, err) })"

definition deliver ::
  "nenv \<Rightarrow> nretrier \<Rightarrow> PowerNotificationChannel \<Rightarrow> Event list \<Rightarrow> Event \<Rightarrow> Sender \<Rightarrow> string \<Rightarrow> (bool \<times> go_error option) nio" where
  "deliver N OnError channel events payload sender url = do {
     (attempt, persistErr) \<leftarrow> beginAttempt N OnError channel events;
     case persistErr of
       Some e \<Rightarrow> return (False, Some (wrap_error ''persist notification attempt before delivery: '' e ''''))
     | None \<Rightarrow> do {
         (response, err) \<leftarrow> send sender url (payload\<lparr>ev_AttemptID := na_ID attempt, ev_EventIDs := na_EventIDs attempt,
           ev_AuditEventRefs := na_AuditEventRefs attempt\<rparr>);
         case err of
           Some e \<Rightarrow>
             let safeErr = redactDeliveryError e url in do {
               u \<leftarrow> finishAttempt N OnError channel attempt response (Some safeErr);
               return (False, case u of
                   Some ue \<Rightarrow> errors_Join [Some safeErr, Some (wrap_error ''persist notification failure: '' ue '''')]
                 | None \<Rightarrow> Some safeErr)
             }
         | None \<Rightarrow> do {
             u \<leftarrow> finishAttempt N OnError channel attempt response None;
             return (True, case u of
                 Some ue \<Rightarrow> Some (wrap_error ''notification delivered but success status was not persisted: '' ue '''')
               | None \<Rightarrow> None)
           }
       }
   }"

section \<open>Dispatching\<close>

text \<open>The loop over the groups of a channel.\<close>

primrec deliverGroups ::
  "nenv \<Rightarrow> nretrier \<Rightarrow> PowerNotificationChannel \<Rightarrow> Sender \<Rightarrow> string \<Rightarrow> Event list list \<Rightarrow> throttle \<Rightarrow> (go_error option list \<times> throttle) nio" where
  "deliverGroups N OnError ch sender url [] throttle = return ([], throttle)"
| "deliverGroups N OnError ch sender url (g # groups) throttle = do {
     throttled \<leftarrow> isThrottled N throttle (batchThrottleKey N ch g);
     if throttled then deliverGroups N OnError ch sender url groups throttle
     else do {
       (delivered, err) \<leftarrow> deliver N OnError ch g (summarizeBatch g) sender url;
       throttle \<leftarrow> (if delivered then do { now \<leftarrow> clock N; return (throttle(batchThrottleKey N ch g \<mapsto> now + throttleDuration N ch)) }
                   else return throttle);
       (errs, throttle) \<leftarrow> deliverGroups N OnError ch sender url groups throttle;
       return (err # errs, throttle)
     }
   }"

primrec recordGroups ::
  "nenv \<Rightarrow> nretrier \<Rightarrow> PowerNotificationChannel \<Rightarrow> string \<Rightarrow> go_error \<Rightarrow> Event list list \<Rightarrow> go_error option list nio" where
  "recordGroups N OnError ch operation err [] = return []"
| "recordGroups N OnError ch operation err (g # groups) = do {
     e \<leftarrow> recordUndelivered N OnError ch g operation err '''';
     es \<leftarrow> recordGroups N OnError ch operation err groups;
     return (e # es)
   }"

definition unsupportedProvider :: "nenv \<Rightarrow> PowerNotificationChannel \<Rightarrow> go_error" where
  "unsupportedProvider N ch = errors_New (''unsupported provider type '' @ ne_Quote N (ncs_Type (nc_Spec ch)))"

text \<open>The body of the loop over the channels.\<close>

definition dispatchToChannel ::
  "nenv \<Rightarrow> nretrier \<Rightarrow> Dispatcher \<Rightarrow> Event list \<Rightarrow> throttle \<Rightarrow> PowerNotificationChannel \<Rightarrow> (go_error option list \<times> throttle) nio" where
  "dispatchToChannel N OnError d filtered throttle ch =
     (if \<not> ncs_Enabled (nc_Spec ch) then return ([], throttle)
      else
        let channelEvents = excludeAttemptedEvents (nc_Status ch) (filter (channelAccepts ch) filtered) in
        if length channelEvents = 0 then return ([], throttle)
        else
          let groups = groupBatchEvents channelEvents in do {
            r \<leftarrow> resolveWebhookURL N ch;
            case r of
              Inl err \<Rightarrow> do { es \<leftarrow> recordGroups N OnError ch ''resolve webhook URL'' err groups; return (es, throttle) }
            | Inr url \<Rightarrow>
                (case map_of (d_Senders d) (ncs_Type (nc_Spec ch)) of
                   None \<Rightarrow> do {
                     es \<leftarrow> recordGroups N OnError ch ''select notification sender'' (unsupportedProvider N ch) groups;
                     return (es, throttle)
                   }
                 | Some sender \<Rightarrow> deliverGroups N OnError ch sender url groups throttle)
          })"

primrec dispatchToChannels ::
  "nenv \<Rightarrow> nretrier \<Rightarrow> Dispatcher \<Rightarrow> Event list \<Rightarrow> PowerNotificationChannel list \<Rightarrow> throttle \<Rightarrow> (go_error option list \<times> throttle) nio" where
  "dispatchToChannels N OnError d filtered [] throttle = return ([], throttle)"
| "dispatchToChannels N OnError d filtered (ch # chs) throttle = do {
     (es, throttle) \<leftarrow> dispatchToChannel N OnError d filtered throttle ch;
     (es', throttle) \<leftarrow> dispatchToChannels N OnError d filtered chs throttle;
     return (es @ es', throttle)
   }"

definition dispatchBatch ::
  "nenv \<Rightarrow> nretrier \<Rightarrow> Dispatcher \<Rightarrow> throttle \<Rightarrow> Event list \<Rightarrow> (go_error option \<times> throttle) nio" where
  "dispatchBatch N OnError d throttle batch = do {
     now \<leftarrow> clock N;
     let throttle = pruneThrottle now throttle in
     if length batch = 0 then return (None, throttle)
     else
       let filtered = deduplicate [] batch in
       if length filtered = 0 then return (None, throttle)
       else do {
         l \<leftarrow> listChannels N d;
         case l of
           Inl err \<Rightarrow> return (Some (wrap_error ''list notification channels: '' err ''''), throttle)
         | Inr channels \<Rightarrow> do {
             (errs, throttle) \<leftarrow> dispatchToChannels N OnError d filtered channels throttle;
             return (errors_Join errs, throttle)
           }
       }
   }"

text \<open>The dispatch of a single event, with a throttle key of its own.\<close>

definition dispatchEventTo ::
  "nenv \<Rightarrow> nretrier \<Rightarrow> Dispatcher \<Rightarrow> Event \<Rightarrow> throttle \<Rightarrow> PowerNotificationChannel \<Rightarrow> (go_error option \<times> throttle) nio" where
  "dispatchEventTo N OnError d event throttle ch =
     (if \<not> ncs_Enabled (nc_Spec ch) \<or> \<not> channelAccepts ch event \<or> length (excludeAttemptedEvents (nc_Status ch) [event]) = 0
      then return (None, throttle)
      else
        let key = om_Name (nc_Meta ch) @ ''/'' @ eventIdentity event in do {
          throttled \<leftarrow> isThrottled N throttle key;
          if throttled then return (None, throttle)
          else do {
            r \<leftarrow> resolveWebhookURL N ch;
            case r of
              Inl err \<Rightarrow> do { e \<leftarrow> recordUndelivered N OnError ch [event] ''resolve webhook URL'' err ''''; return (e, throttle) }
            | Inr url \<Rightarrow>
                (case map_of (d_Senders d) (ncs_Type (nc_Spec ch)) of
                   None \<Rightarrow> do {
                     e \<leftarrow> recordUndelivered N OnError ch [event] ''select notification sender'' (unsupportedProvider N ch) '''';
                     return (e, throttle)
                   }
                 | Some sender \<Rightarrow> do {
                     (delivered, err) \<leftarrow> deliver N OnError ch [event] event sender url;
                     throttle \<leftarrow> (if delivered then do { now \<leftarrow> clock N; return (throttle(key \<mapsto> now + throttleDuration N ch)) }
                                 else return throttle);
                     return (err, throttle)
                   })
          }
        })"

primrec dispatchEventToAll ::
  "nenv \<Rightarrow> nretrier \<Rightarrow> Dispatcher \<Rightarrow> Event \<Rightarrow> PowerNotificationChannel list \<Rightarrow> throttle \<Rightarrow> (go_error option list \<times> throttle) nio" where
  "dispatchEventToAll N OnError d event [] throttle = return ([], throttle)"
| "dispatchEventToAll N OnError d event (ch # chs) throttle = do {
     (e, throttle) \<leftarrow> dispatchEventTo N OnError d event throttle ch;
     (es, throttle) \<leftarrow> dispatchEventToAll N OnError d event chs throttle;
     return (e # es, throttle)
   }"

definition dispatch :: "nenv \<Rightarrow> nretrier \<Rightarrow> Dispatcher \<Rightarrow> throttle \<Rightarrow> Event \<Rightarrow> (go_error option \<times> throttle) nio" where
  "dispatch N OnError d throttle event = do {
     now \<leftarrow> clock N;
     l \<leftarrow> listChannels N d;
     case l of
       Inl err \<Rightarrow> return (Some (wrap_error ''list notification channels: '' err ''''), pruneThrottle now throttle)
     | Inr channels \<Rightarrow> do {
         (errs, throttle) \<leftarrow> dispatchEventToAll N OnError d event channels (pruneThrottle now throttle);
         return (errors_Join errs, throttle)
       }
   }"

section \<open>Recovery\<close>

definition unknownDeliveryOutcome :: string where
  "unknownDeliveryOutcome = ''delivery outcome unknown after dispatcher interruption; automatic redelivery suppressed''"

definition recoverable :: "go_time \<Rightarrow> NotificationAttemptStatus \<Rightarrow> bool" where
  "recoverable startedBefore attempt \<longleftrightarrow> na_Phase attempt = ''InProgress'' \<and> \<not> na_StartedAt attempt > startedBefore"

definition hasRecoverable :: "go_time \<Rightarrow> PowerNotificationChannelStatus \<Rightarrow> bool" where
  "hasRecoverable startedBefore status \<longleftrightarrow>
     list_ex (recoverable startedBefore) (ncst_RecentAttempts status) \<or>
     (case ncst_LastAttempt status of None \<Rightarrow> False | Some a \<Rightarrow> recoverable startedBefore a)"

definition failUnknown :: "go_time \<Rightarrow> NotificationAttemptStatus \<Rightarrow> NotificationAttemptStatus" where
  "failUnknown now attempt = attempt\<lparr>na_Phase := ''Failed'', na_CompletedAt := Some now, na_Response := unknownDeliveryOutcome\<rparr>"

text \<open>The loop over the recent attempts: the attempts, the error counter and the recovered identifiers.\<close>

fun recoverRecent ::
  "go_time \<Rightarrow> go_time \<Rightarrow> NotificationAttemptStatus list \<Rightarrow> int \<Rightarrow> NotificationAttemptStatus list \<times> int \<times> string list" where
  "recoverRecent startedBefore now [] errors = ([], errors, [])"
| "recoverRecent startedBefore now (a # as) errors =
     (if \<not> recoverable startedBefore a
      then (let (as', errors', ids) = recoverRecent startedBefore now as errors in (a # as', errors', ids))
      else (let (as', errors', ids) = recoverRecent startedBefore now as (wrap64 (errors + 1))
            in (failUnknown now a # as', errors', na_ID a # ids)))"

definition recoverStatus :: "go_time \<Rightarrow> go_time \<Rightarrow> PowerNotificationChannelStatus \<Rightarrow> PowerNotificationChannelStatus" where
  "recoverStatus startedBefore now status =
     (let (recent, errors, recovered) = recoverRecent startedBefore now (ncst_RecentAttempts status) (ncst_TotalErrors status);
          status = status\<lparr>ncst_RecentAttempts := recent, ncst_TotalErrors := errors\<rparr>;
          status = (case ncst_LastAttempt status of
              None \<Rightarrow> status
            | Some a \<Rightarrow>
                if recoverable startedBefore a
                then status\<lparr>ncst_TotalErrors := (if contains recovered (na_ID a) then errors else wrap64 (errors + 1)),
                       ncst_LastAttempt := Some (failUnknown now a)\<rparr>
                else status)
      in status\<lparr>ncst_LastError := unknownDeliveryOutcome\<rparr>)"

primrec recoverChannels :: "nenv \<Rightarrow> nretrier \<Rightarrow> go_time \<Rightarrow> PowerNotificationChannel list \<Rightarrow> go_error option list nio" where
  "recoverChannels N OnError startedBefore [] = return []"
| "recoverChannels N OnError startedBefore (ch # chs) =
     (if \<not> hasRecoverable startedBefore (nc_Status ch) then recoverChannels N OnError startedBefore chs
      else do {
        err \<leftarrow> updateChannelStatus N OnError (channelKey ch) (\<lambda>status. do { now \<leftarrow> clock N; return (recoverStatus startedBefore now status) });
        errs \<leftarrow> recoverChannels N OnError startedBefore chs;
        return (case err of
            None \<Rightarrow> errs
          | Some e \<Rightarrow> Some (wrap_error (''recover notification channel '' @ om_Namespace (nc_Meta ch) @ ''/'' @ om_Name (nc_Meta ch) @ '': '') e '''') # errs)
      })"

definition recoverIncompleteAttempts :: "nenv \<Rightarrow> nretrier \<Rightarrow> Dispatcher \<Rightarrow> go_time \<Rightarrow> go_error option nio" where
  "recoverIncompleteAttempts N OnError d startedBefore = do {
     l \<leftarrow> listChannels N d;
     case l of
       Inl err \<Rightarrow> return (Some (wrap_error ''list notification channels for recovery: '' err ''''))
     | Inr channels \<Rightarrow> do {
         errs \<leftarrow> recoverChannels N OnError startedBefore channels;
         return (errors_Join errs)
       }
   }"

end
