(* ===== verification/DispatcherSafety.thy ===== *)
theory DispatcherSafety
  imports Dispatcher TraceInvariants "HOL-Library.Sublist"
begin

text \<open>
  What the dispatcher guarantees about deliveries: every request to a webhook is preceded by a durable
  record of the attempt (so that an interrupted delivery is visible and is not repeated), events that
  were attempted before are not delivered again, and what is stored about failures is redacted.
\<close>

section \<open>Requests\<close>

fun is_post :: "notice \<Rightarrow> bool" where
  "is_post (Post _ _ _) = True"
| "is_post _ = False"

fun json_strings :: "json \<Rightarrow> string list" where
  "json_strings (JStr s) = [s]"
| "json_strings (JArr js) = concat (map json_strings js)"
| "json_strings (JObj kvs) = concat (map (\<lambda>kv. json_strings (snd kv)) kvs)"

definition carries :: "json \<Rightarrow> string \<Rightarrow> bool" where
  "carries payload ident \<longleftrightarrow> list_ex (suffix ident) (json_strings payload)"

lemma payloads_carry:
  "carries (googleChatPayload N ev) (ev_AttemptID ev)" "carries (slackPayload N ev) (ev_AttemptID ev)"
  "carries (genericPayload N ev) (ev_AttemptID ev)"
  by (simp_all add: carries_def googleChatPayload_def decoratedText_def slackPayload_def mrkdwn_def genericPayload_def suffix_appendI)

text \<open>What a sender may do: wait, look at the context and post the identifier of the attempt to the URL.\<close>

fun delivery :: "string \<Rightarrow> string \<Rightarrow> notice \<Rightarrow> bool" where
  "delivery url ident (Post url' payload _) \<longleftrightarrow> url' = url \<and> carries payload ident"
| "delivery url ident (ContextErr _) = True"
| "delivery url ident (Backoff _ _) = True"
| "delivery url ident _ = False"

definition sender_contract :: "Sender \<Rightarrow> bool" where
  "sender_contract S \<longleftrightarrow> (\<forall>url ev. emits (delivery url (ev_AttemptID ev)) (send S url ev))"

lemma httpAttempts_emits:
  "carries payload ident \<Longrightarrow> emits (delivery url ident) (httpAttempts N url payload n st er)"
proof (induction n arbitrary: st er)
  case (Suc n)
  then show ?case
    by (auto simp: Let_def notice_call_defs intro!: emits_intros)
qed simp

lemma payloadSender_contract:
  assumes "\<And>ev. carries (payload ev) (ev_AttemptID ev)"
  shows "sender_contract (payloadSender N ty payload)"
  unfolding sender_contract_def send_def payloadSender_def httpPostDetailed_def
  by (simp add: httpAttempts_emits[OF assms])

section \<open>The record before the request\<close>

text \<open>The events that are due for a channel: its filters accept them and it had not attempted them when it was listed.\<close>

definition fresh_events :: "PowerNotificationChannel \<Rightarrow> Event list \<Rightarrow> bool" where
  "fresh_events ch events \<longleftrightarrow>
     (\<forall>e\<in>set events. channelAccepts ch e \<and>
        (ev_AuditEventRef e = '''' \<or> ev_AuditEventRef e \<notin> set (attemptedRefs (nc_Status ch))))"

text \<open>The destination of a channel: the URL in its specification, or the one in the secret it refers to, which was read.\<close>

definition own_url :: "PowerNotificationChannel \<Rightarrow> string \<Rightarrow> notices \<Rightarrow> bool" where
  "own_url ch url tr \<longleftrightarrow>
     (if ncs_URL (nc_Spec ch) \<noteq> '''' then url = ncs_URL (nc_Spec ch)
      else \<exists>from data value. ncs_URLFrom (nc_Spec ch) = Some from \<and>
        GetSecret \<lparr>nn_Namespace = om_Namespace (nc_Meta ch), nn_Name = skr_Name from\<rparr> (Inr data) \<in> set tr \<and>
        map_of data (skr_Key from) = Some value \<and> url = TrimSpace value)"

text \<open>
  An attempt at events that are due for the channel was stored with success: the channel was read and
  written with nothing changed but the attempt put into its status.
\<close>

definition stored :: "nenv \<Rightarrow> PowerNotificationChannel \<Rightarrow> NotificationAttemptStatus \<Rightarrow> notices \<Rightarrow> bool" where
  "stored N ch a tr \<longleftrightarrow>
     (\<exists>events now c0 u. fresh_events ch events \<and> a = newAttempt N ch events now \<and>
        GetChannel (channelKey ch) (Inr c0) \<in> set tr \<and>
        StatusUpdateChannel (c0\<lparr>nc_Status := storeAttempt a (nc_Status c0)\<rparr>) (Inr u) \<in> set tr)"

text \<open>The request goes to the valid URL of the channel and carries the identifier of an attempt that was stored for it.\<close>

definition write_ahead :: "nenv \<Rightarrow> PowerNotificationChannel \<Rightarrow> notice \<Rightarrow> notices \<Rightarrow> bool" where
  "write_ahead N ch e tr \<longleftrightarrow>
     (\<exists>url payload r a. e = Post url payload r \<and> validateWebhookURL N url = Inr url \<and> own_url ch url tr \<and>
        stored N ch a tr \<and> carries payload (na_ID a))"

lemma own_url_mono: "own_url ch url tr \<Longrightarrow> set tr \<subseteq> set tr' \<Longrightarrow> own_url ch url tr'"
  unfolding own_url_def by (auto split: if_splits)

lemma stored_mono: "stored N ch a tr \<Longrightarrow> set tr \<subseteq> set tr' \<Longrightarrow> stored N ch a tr'"
  unfolding stored_def by blast

lemma write_ahead_mono: "write_ahead N ch e tr \<Longrightarrow> set tr \<subseteq> set tr' \<Longrightarrow> write_ahead N ch e tr'"
  unfolding write_ahead_def
  apply (elim exE conjE)
  subgoal for url payload r a
    by (intro exI[of _ url] exI[of _ payload] exI[of _ r] exI[of _ a]) (simp add: own_url_mono stored_mono)
  done

interpretation posting: justification is_post "write_ahead N ch" for N ch
  by unfold_locales (rule write_ahead_mono)

lemma storeAttempt_last [simp]: "ncst_LastAttempt (storeAttempt a st) = Some a"
  by (simp add: storeAttempt_def Let_def split: option.split)

lemma validateWebhookURL_same: "validateWebhookURL N v = Inr url \<Longrightarrow> url = v"
  by (simp add: validateWebhookURL_def Let_def split: option.splits if_splits)

lemma validateWebhookURL_again: "validateWebhookURL N v = Inr url \<Longrightarrow> validateWebhookURL N url = Inr url"
  using validateWebhookURL_same by metis

lemma resolveWebhookURL_valid:
  assumes "run_state (resolveWebhookURL N ch) tr = (Inr url, tr')"
  shows "validateWebhookURL N url = Inr url \<and> own_url ch url tr'"
proof (cases "ncs_URL (nc_Spec ch) = ''''")
  case False
  then have "validateWebhookURL N (ncs_URL (nc_Spec ch)) = Inr url"
    using assms by (simp add: resolveWebhookURL_def)
  with False show ?thesis
    using validateWebhookURL_same validateWebhookURL_again by (simp add: own_url_def)
next
  case True
  then obtain sel data v where "ncs_URLFrom (nc_Spec ch) = Some sel" "map_of data (skr_Key sel) = Some v"
    "GetSecret \<lparr>nn_Namespace = om_Namespace (nc_Meta ch), nn_Name = skr_Name sel\<rparr> (Inr data) \<in> set tr'"
    "validateWebhookURL N (TrimSpace v) = Inr url"
    using assms by (auto simp: resolveWebhookURL_def getSecret_def Let_def split: if_splits option.splits sum.splits)
  with True show ?thesis
    using validateWebhookURL_same[of N "TrimSpace v" url] validateWebhookURL_again by (auto simp: own_url_def)
qed

text \<open>A call without a request.\<close>

abbreviation silent :: "'a nio \<Rightarrow> bool" where
  "silent m \<equiv> emits (\<lambda>e. \<not> is_post e) m"

lemma silent_calls [emits_intros]:
  "silent (clock N)" "silent (ctx_Err N)" "silent (getChannel N k)" "silent (statusUpdateChannel N c)" "silent (getSecret N k)"
  "silent (listChannels N d)"
  by (simp_all add: notice_call_defs listChannels_def emits_call)

lemma silent_resolveWebhookURL: "silent (resolveWebhookURL N ch)"
  unfolding resolveWebhookURL_def by (intro emits_intros)

lemma silent_isThrottled: "silent (isThrottled N throttle key)"
  unfolding isThrottled_def by (intro emits_intros)

locale dispatcher_ports = retry_OnError OnError for OnError :: nretrier +
  fixes d :: Dispatcher
  assumes senders_honest: "(ty, S) \<in> set (d_Senders d) \<Longrightarrow> sender_contract S"
begin

lemma silent_updateChannelStatus: "(\<And>st. silent (mutate st)) \<Longrightarrow> silent (updateChannelStatus N OnError key mutate)"
  unfolding updateChannelStatus_def writeChannelStatus_def
  by (rule retry_emits[OF retry_OnError_axioms]) (auto intro!: emits_intros)

lemma updateChannelStatus_stored:
  assumes "run_state (updateChannelStatus N OnError key (\<lambda>st. return (f st))) s = (None, s')"
  shows "\<exists>c0 u. GetChannel key (Inr c0) \<in> set s' \<and> StatusUpdateChannel (c0\<lparr>nc_Status := f (nc_Status c0)\<rparr>) (Inr u) \<in> set s'"
proof -
  obtain s1 where "run_state (writeChannelStatus N key (\<lambda>st. return (f st))) s1 = (None, s')"
    using OnError_success[OF zero_less_numeral assms[unfolded updateChannelStatus_def]] by blast
  then obtain c0 u where "s' = StatusUpdateChannel (c0\<lparr>nc_Status := f (nc_Status c0)\<rparr>) (Inr u) # GetChannel key (Inr c0) # s1"
    by (auto simp: writeChannelStatus_def getChannel_def statusUpdateChannel_def split: sum.splits)
  then show ?thesis by (intro exI[of _ c0] exI[of _ u]) simp
qed

lemma silent_attempts:
  "silent (beginAttempt N OnError ch events)" "silent (finishAttempt N OnError ch a resp e)"
  "silent (recordUndelivered N OnError ch events op err url)"
proof -
  show b: "silent (beginAttempt N OnError ch events)"
    unfolding beginAttempt_def by (intro emits_intros silent_updateChannelStatus)
  show f: "silent (finishAttempt N OnError ch a resp e)" for a resp e
    unfolding finishAttempt_def by (intro emits_intros silent_updateChannelStatus)
  show "silent (recordUndelivered N OnError ch events op err url)"
    unfolding recordUndelivered_def by (intro emits_intros b f)
qed

lemma beginAttempt_stored:
  assumes "run_state (beginAttempt N OnError ch events) s = ((a, None), s')"
  shows "(\<exists>now. a = newAttempt N ch events now) \<and>
    (\<exists>c0 u. GetChannel (channelKey ch) (Inr c0) \<in> set s' \<and> StatusUpdateChannel (c0\<lparr>nc_Status := storeAttempt a (nc_Status c0)\<rparr>) (Inr u) \<in> set s')"
  using assms updateChannelStatus_stored
  by (fastforce simp: beginAttempt_def clock_def Let_def split: prod.splits)

end

text \<open>How the groups keep the events that are due.\<close>

lemma contains_iff: "contains xs x \<longleftrightarrow> x \<in> set xs"
  by (auto simp: contains_def list_ex_iff)

lemma excludeAttemptedEvents_fresh: "fresh_events ch (excludeAttemptedEvents (nc_Status ch) (filter (channelAccepts ch) events))"
  by (auto simp: fresh_events_def excludeAttemptedEvents_def contains_iff)

lemma newAttempt_refs: "set (na_AuditEventRefs (newAttempt N ch events now)) = set (map ev_AuditEventRef events) - {''''}"
  by (auto simp: newAttempt_def correlatedEventIDs_def)

lemma newAttempt_phase [simp]: "na_Phase (newAttempt N ch events now) = ''InProgress''"
  by (simp add: newAttempt_def correlatedEventIDs_def)

lemma fresh_refs: "fresh_events ch events \<Longrightarrow> set (na_AuditEventRefs (newAttempt N ch events now)) \<inter> set (attemptedRefs (nc_Status ch)) = {}"
  by (auto simp: newAttempt_refs fresh_events_def)

context dispatcher_ports
begin

abbreviation ahead :: "nenv \<Rightarrow> PowerNotificationChannel \<Rightarrow> notices \<Rightarrow> notices \<Rightarrow> bool" where
  "ahead N ch \<equiv> justified is_post (write_ahead N ch)"

lemma silent_ahead: "silent m \<Longrightarrow> keeps (ahead N ch base) m"
  by (rule posting.irrelevant_keeps)

lemma beginAttempt_ahead:
  assumes "fresh_events ch events"
  shows "hoare (ahead N ch base) (beginAttempt N OnError ch events) (\<lambda>r tr. ahead N ch base tr \<and> (snd r = None \<longrightarrow> stored N ch (fst r) tr))"
proof -
  have "hoare (\<lambda>_. True) (beginAttempt N OnError ch events) (\<lambda>r tr. snd r = None \<longrightarrow> stored N ch (fst r) tr)"
  proof (rule hoareI, rule impI)
    fix s r s' assume "run_state (beginAttempt N OnError ch events) s = (r, s')" and "snd r = None"
    then have "run_state (beginAttempt N OnError ch events) s = ((fst r, None), s')" by (metis prod.collapse)
    from beginAttempt_stored[OF this] assms show "stored N ch (fst r) s'" unfolding stored_def by blast
  qed
  from hoare_conj[OF silent_ahead[OF silent_attempts(1)] this] show ?thesis by (rule hoare_pre) simp
qed

lemma send_ahead:
  assumes "sender_contract S" and "validateWebhookURL N url = Inr url" and "ev_AttemptID ev = na_ID a"
  shows "hoare (\<lambda>tr. ahead N ch base tr \<and> own_url ch url tr \<and> stored N ch a tr) (send S url ev)
    (\<lambda>_ tr. ahead N ch base tr \<and> own_url ch url tr)"
proof -
  have sends: "emits (delivery url (ev_AttemptID ev)) (send S url ev)" using assms(1) by (simp add: sender_contract_def)
  have "hoare (\<lambda>tr. ahead N ch base tr \<and> own_url ch url tr \<and> stored N ch a tr) (send S url ev) (\<lambda>_. ahead N ch base)"
  proof (rule posting.justified_emits[OF sends])
    fix e tr assume "delivery url (ev_AttemptID ev) e" "is_post e" "own_url ch url tr \<and> stored N ch a tr"
    then show "write_ahead N ch e tr"
      using assms(2,3) by (cases e) (auto simp: write_ahead_def)
  qed
  moreover have "keeps (own_url ch url) (send S url ev)"
    by (rule emits_hoare_mono[OF sends]) (rule own_url_mono)
  ultimately show ?thesis by (rule hoare_pre[OF hoare_conj]) simp
qed

abbreviation ahead_at :: "nenv \<Rightarrow> PowerNotificationChannel \<Rightarrow> string \<Rightarrow> notices \<Rightarrow> notices \<Rightarrow> bool" where
  "ahead_at N ch url base tr \<equiv> ahead N ch base tr \<and> own_url ch url tr"

lemma silent_ahead_at: "silent m \<Longrightarrow> keeps (ahead_at N ch url base) m"
  by (rule hoare_conj[OF silent_ahead emits_hoare_mono]) (assumption | rule own_url_mono)+

lemma deliver_ahead:
  assumes "fresh_events ch events" and "sender_contract S" and "validateWebhookURL N url = Inr url"
  shows "keeps (ahead_at N ch url base) (deliver N OnError ch events payload S url)"
proof -
  have start: "hoare (ahead_at N ch url base) (beginAttempt N OnError ch events)
      (\<lambda>r tr. ahead_at N ch url base tr \<and> (snd r = None \<longrightarrow> stored N ch (fst r) tr))"
  proof -
    have "keeps (own_url ch url) (beginAttempt N OnError ch events)"
      by (rule emits_hoare_mono[OF silent_attempts(1)]) (rule own_url_mono)
    from hoare_conj[OF beginAttempt_ahead[OF assms(1)] this] show ?thesis
      by (rule hoare_weaken) auto
  qed
  show ?thesis
    unfolding deliver_def
    apply (rule hoare_bind[OF start])
    apply (rule hoare_prod, rule hoare_option)
     apply (rule hoare_bind[OF hoare_pre[OF send_ahead[OF assms(2,3)]]])
    by (auto intro!: silent_ahead_at emits_intros silent_attempts hoare_return)
qed

lemma deliverGroups_ahead:
  assumes "\<And>g. g \<in> set groups \<Longrightarrow> fresh_events ch g" and "sender_contract S" and "validateWebhookURL N url = Inr url"
  shows "keeps (ahead_at N ch url base) (deliverGroups N OnError ch S url groups throttle)"
  using assms(1)
proof (induction groups arbitrary: throttle)
  case (Cons g groups)
  have "keeps (ahead_at N ch url base) (deliver N OnError ch g (summarizeBatch g) S url)"
    using Cons.prems assms(2,3) by (intro deliver_ahead) auto
  then show ?case
    using Cons unfolding deliverGroups.simps
    by (intro hoare_bind[where R = "\<lambda>_. ahead_at N ch url base"] hoare_splits silent_ahead_at[OF silent_isThrottled]
        silent_ahead_at[OF silent_calls(1)]) simp_all
qed simp

lemma silent_recordGroups: "silent (recordGroups N OnError ch op err groups)"
  by (induction groups) (auto intro!: emits_intros silent_attempts)

end

section \<open>Groups\<close>

text \<open>What the code keeps between two events: the index of every key, in order of first appearance.\<close>

definition grouped :: "Event list \<Rightarrow> Event list list \<times> (semanticKey \<times> nat) list \<Rightarrow> bool" where
  "grouped events = (\<lambda>(groups, indexes).
     groups = map (\<lambda>k. filter (\<lambda>e. semanticKeyOf e = k) events) (rev (map fst indexes)) \<and>
     map snd indexes = rev [0..<length indexes] \<and> map fst indexes = remdups (rev (map semanticKeyOf events)))"

lemma index_lookup:
  assumes "map_of indexes k = Some i" and "map snd indexes = rev [0..<length indexes]" and "distinct (map fst indexes)"
  shows "i < length indexes \<and> rev (map fst indexes) ! i = k"
proof -
  obtain j where j: "j < length indexes" "indexes ! j = (k, i)"
    using map_of_SomeD[OF assms(1)] by (metis in_set_conv_nth)
  have "i = rev [0..<length indexes] ! j" using assms(2) j by (metis nth_map snd_conv)
  also have "\<dots> = length indexes - 1 - j" using j(1) by (simp add: rev_nth)
  finally show ?thesis using j by (auto simp: rev_nth)
qed

lemma groupStep_grouped: "grouped events gi \<Longrightarrow> grouped (events @ [e]) (groupStep e gi)"
proof -
  obtain groups indexes where gi: "gi = (groups, indexes)" by (rule prod.exhaust)
  assume "grouped events gi"
  then have g: "groups = map (\<lambda>k. filter (\<lambda>e. semanticKeyOf e = k) events) (rev (map fst indexes))"
    "map snd indexes = rev [0..<length indexes]" "map fst indexes = remdups (rev (map semanticKeyOf events))"
    by (simp_all add: gi grouped_def)
  then have d: "distinct (map fst indexes)" "set (map fst indexes) = semanticKeyOf ` set events" by simp_all
  show ?thesis
  proof (cases "map_of indexes (semanticKeyOf e)")
    case None
    then have new: "semanticKeyOf e \<notin> set (map fst indexes)" by (simp add: map_of_eq_None_iff)
    then have "filter (\<lambda>x. semanticKeyOf x = semanticKeyOf e) events = []"
      unfolding d(2) by (fastforce simp: filter_empty_conv image_iff)
    moreover have "map (\<lambda>k. filter (\<lambda>x. semanticKeyOf x = k) (events @ [e])) (rev (map fst indexes)) = groups"
      unfolding g(1) using new by (auto intro!: map_cong)
    moreover have "length (remdups (rev (map semanticKeyOf events))) = length indexes" using g(3) by (metis length_map)
    ultimately show ?thesis using None new g d(2)
      by (auto simp: gi grouped_def groupStep_def)
  next
    case (Some i)
    from index_lookup[OF Some g(2) d(1)] have i: "i < length indexes" "rev (map fst indexes) ! i = semanticKeyOf e" by auto
    have "groups[i := groups ! i @ [e]] = map (\<lambda>k. filter (\<lambda>x. semanticKeyOf x = k) (events @ [e])) (rev (map fst indexes))"
    proof (rule nth_equalityI)
      fix j assume "j < length (groups[i := groups ! i @ [e]])"
      then have j: "j < length (rev (map fst indexes))" by (simp add: g(1))
      have "rev (map fst indexes) ! j = semanticKeyOf e \<longleftrightarrow> j = i"
        using i j d(1) nth_eq_iff_index_eq[of "rev (map fst indexes)" j i] by auto
      then show "groups[i := groups ! i @ [e]] ! j = map (\<lambda>k. filter (\<lambda>x. semanticKeyOf x = k) (events @ [e])) (rev (map fst indexes)) ! j"
        using i(1) j by (auto simp: g(1) nth_list_update simp del: rev_map)
    qed (simp add: g(1))
    moreover have "semanticKeyOf e \<in> set (map fst indexes)" using map_of_SomeD[OF Some] by force
    ultimately show ?thesis using Some g d(2) by (auto simp: gi grouped_def groupStep_def)
  qed
qed

lemma fold_grouped: "grouped (prefix_events @ events) (fold groupStep events gi)" if "grouped prefix_events gi" for prefix_events gi
  using that
proof (induction events arbitrary: prefix_events gi)
  case (Cons e events)
  from Cons.IH[OF groupStep_grouped[OF Cons.prems]] show ?case by simp
qed simp

text \<open>The groups: for every key, in the order of first appearance, the events with this key in their order.\<close>

definition group_spec :: "Event list \<Rightarrow> Event list list" where
  "group_spec events = map (\<lambda>k. filter (\<lambda>e. semanticKeyOf e = k) events) (rev (remdups (rev (map semanticKeyOf events))))"

lemma groupBatchEvents_spec: "groupBatchEvents events = group_spec events"
proof -
  have "grouped [] ([], [])" by (simp add: grouped_def)
  from fold_grouped[OF this, of events] show ?thesis
    by (auto simp: grouped_def groupBatchEvents_def group_spec_def split: prod.splits)
qed

lemma partition_mset:
  "distinct ks \<Longrightarrow> f ` set xs \<subseteq> set ks \<Longrightarrow> mset (concat (map (\<lambda>k. filter (\<lambda>x. f x = k) xs) ks)) = mset xs"
proof (induction ks arbitrary: xs)
  case (Cons k ks)
  let ?rest = "filter (\<lambda>x. f x \<noteq> k) xs"
  have "map (\<lambda>k'. filter (\<lambda>x. f x = k') xs) ks = map (\<lambda>k'. filter (\<lambda>x. f x = k') ?rest) ks"
    using Cons.prems(1) by (auto intro!: map_cong filter_cong)
  then have "mset (concat (map (\<lambda>k'. filter (\<lambda>x. f x = k') xs) ks)) = mset (concat (map (\<lambda>k'. filter (\<lambda>x. f x = k') ?rest) ks))"
    by (simp only:)
  also have "\<dots> = mset ?rest" using Cons.prems by (intro Cons.IH) auto
  finally show ?case by (simp flip: multiset_partition)
qed simp

lemma group_spec_mset: "mset (concat (group_spec events)) = mset events"
  unfolding group_spec_def by (rule partition_mset) auto

lemma group_spec_nonempty: "[] \<notin> set (group_spec events)"
  by (auto simp: group_spec_def filter_empty_conv dest!: sym[of "[]"])

lemma groupBatchEvents_fresh:
  "fresh_events ch events \<Longrightarrow> g \<in> set (groupBatchEvents events) \<Longrightarrow> fresh_events ch g"
  by (auto simp: groupBatchEvents_spec group_spec_def fresh_events_def)

section \<open>A batch\<close>

context dispatcher_ports
begin

lemma dispatchToChannel_ahead: "keeps (ahead N ch base) (dispatchToChannel N OnError d filtered throttle ch)"
proof -
  let ?evs = "excludeAttemptedEvents (nc_Status ch) (filter (channelAccepts ch) filtered)"
  have deliver: "hoare (ahead_at N ch url base) (deliverGroups N OnError ch S url (groupBatchEvents ?evs) throttle) (\<lambda>_. ahead N ch base)"
    if "map_of (d_Senders d) ty = Some S" and "validateWebhookURL N url = Inr url" for ty S url
  proof -
    have "keeps (ahead_at N ch url base) (deliverGroups N OnError ch S url (groupBatchEvents ?evs) throttle)"
      by (rule deliverGroups_ahead[OF _ senders_honest[OF map_of_SomeD[OF that(1)]] that(2)])
        (rule groupBatchEvents_fresh[OF excludeAttemptedEvents_fresh])
    then show ?thesis by (auto simp: hoare_def split: prod.splits)
  qed
  let ?R = "\<lambda>r tr. \<forall>url. r = Inr url \<longrightarrow> validateWebhookURL N url = Inr url \<and> own_url ch url tr"
  have url: "hoare (ahead N ch base) (resolveWebhookURL N ch) (\<lambda>r tr. ahead N ch base tr \<and> ?R r tr)"
  proof -
    have "hoare (\<lambda>_. True) (resolveWebhookURL N ch) ?R"
      using resolveWebhookURL_valid by (auto intro!: hoareI)
    from hoare_conj[OF silent_ahead[OF silent_resolveWebhookURL] this] show ?thesis by (rule hoare_pre) simp
  qed
  show ?thesis
    unfolding dispatchToChannel_def Let_def
    apply (intro hoare_if keeps_return)
    apply (rule hoare_bind[OF url])
    apply (rule hoare_sum)
     apply (rule hoare_pre[OF silent_ahead])
      apply (intro emits_intros silent_recordGroups)
     apply simp
    apply (rule hoare_option)
     apply (rule hoare_pre[OF silent_ahead])
      apply (intro emits_intros silent_recordGroups)
     apply simp
    apply (rule hoare_assume[where P = "ahead_at N ch _ base" and b = "validateWebhookURL N _ = Inr _", THEN hoare_pre])
     apply (erule (1) deliver)
    apply simp
    done
qed

text \<open>Over all channels: the write-ahead for one of those that are enabled.\<close>

abbreviation ahead_of :: "nenv \<Rightarrow> PowerNotificationChannel list \<Rightarrow> notice \<Rightarrow> notices \<Rightarrow> bool" where
  "ahead_of N chs e tr \<equiv> \<exists>ch\<in>set chs. ncs_Enabled (nc_Spec ch) \<and> write_ahead N ch e tr"

lemma dispatchToChannels_ahead:
  "run_state (dispatchToChannels N OnError d filtered chs throttle) tr = (r, tr') \<Longrightarrow> justified is_post (ahead_of N chs) tr tr'"
proof (induction chs arbitrary: tr throttle r)
  case (Cons ch chs)
  obtain es throttle1 tr1 where 1: "run_state (dispatchToChannel N OnError d filtered throttle ch) tr = ((es, throttle1), tr1)"
    by (metis prod.exhaust)
  obtain r2 where 2: "run_state (dispatchToChannels N OnError d filtered chs throttle1) tr1 = (r2, tr')"
    using Cons.prems 1 by (auto split: prod.splits)
  have "justified is_post (ahead_of N (ch # chs)) tr tr1"
  proof (cases "ncs_Enabled (nc_Spec ch)")
    case True
    then show ?thesis by (intro justified_mono[OF hoareD[OF dispatchToChannel_ahead 1 justified_refl]]) simp_all
  next
    case False
    then show ?thesis using 1 by (simp add: dispatchToChannel_def)
  qed
  moreover have "justified is_post (ahead_of N (ch # chs)) tr1 tr'"
    by (rule justified_mono[OF Cons.IH[OF 2]]) auto
  ultimately show ?case by (rule justified_trans)
qed simp

text \<open>What justifies a request in the trace of a dispatcher.\<close>

definition recorded_first :: "nenv \<Rightarrow> notice \<Rightarrow> notices \<Rightarrow> bool" where
  "recorded_first N e tr \<longleftrightarrow> (\<exists>chs ch. ListChannels (d_ControlNamespace d) (Inr chs) \<in> set tr \<and> ch \<in> set chs \<and>
     ncs_Enabled (nc_Spec ch) \<and> write_ahead N ch e tr)"

lemma justified_silent: "silent m \<Longrightarrow> run_state m tr = (a, tr') \<Longrightarrow> justified is_post G tr tr'"
  by (erule (1) emitsD) (auto simp: justified_def)

lemma dispatchBatch_recorded:
  assumes "run_state (dispatchBatch N OnError d throttle batch) tr = (r, tr')"
  shows "justified is_post (recorded_first N) tr tr'"
proof -
  define t0 where "t0 = ne_Now N tr"
  define l where "l = ne_ListChannels N (Clock t0 # tr) (d_ControlNamespace d)"
  let ?tr0 = "Clock t0 # tr" and ?tr1 = "ListChannels (d_ControlNamespace d) l # Clock t0 # tr"
  have start: "justified is_post (recorded_first N) tr ?tr0" "justified is_post (recorded_first N) tr ?tr1"
    by (auto intro!: justified_Cons)
  show ?thesis
  proof (cases "batch = [] \<or> deduplicate [] batch = [] \<or> (\<exists>err. l = Inl err)")
    case True
    then have "tr' = ?tr0 \<or> tr' = ?tr1"
      using assms by (auto simp: dispatchBatch_def clock_def listChannels_def t0_def l_def Let_def split: if_splits)
    then show ?thesis using start by blast
  next
    case False
    then obtain chs where chs: "l = Inr chs" by (cases l) auto
    obtain r' where "run_state (dispatchToChannels N OnError d (deduplicate [] batch) chs (pruneThrottle t0 throttle)) ?tr1 = (r', tr')"
      using assms False chs by (auto simp: dispatchBatch_def clock_def listChannels_def t0_def l_def Let_def split: prod.splits)
    from dispatchToChannels_ahead[OF this] have "justified is_post (recorded_first N) ?tr1 tr'"
      unfolding justified_def recorded_first_def using chs by fastforce
    with start(2) show ?thesis by (rule justified_trans)
  qed
qed

lemma silent_recoverChannels: "silent (recoverChannels N OnError b chs)"
  by (induction chs) (auto intro!: emits_intros silent_updateChannelStatus)

lemma silent_recoverIncompleteAttempts: "silent (recoverIncompleteAttempts N OnError d b)"
  unfolding recoverIncompleteAttempts_def by (intro emits_intros silent_recoverChannels)

end

section \<open>The built-in senders\<close>

lemma dispatcher_wired:
  assumes "retry_OnError OnError"
  shows "dispatcher_ports OnError (NewDispatcherForNamespace N ns)"
  using assms payloadSender_contract payloads_carry
  by (auto simp: dispatcher_ports_def dispatcher_ports_axioms_def NewDispatcherForNamespace_def RegisterSender_def
      GoogleChatSender_def SlackSender_def GenericSender_def)

interpretation wired_dispatcher: dispatcher_ports "\<lambda>steps p fn. attempts steps p fn True" "NewDispatcherForNamespace N ns" for N ns
  by (rule dispatcher_wired) (rule client_go.retry_OnError_axioms)

end
