(* ===== verification/DispatcherHistory.thy ===== *)
theory DispatcherHistory
  imports DispatcherSafety
begin

text \<open>
  What the dispatcher writes into the status of a channel: the history of attempts stays bounded and
  consistent, the counters move once per attempt, and no text from a transport error or an endpoint reaches the
  status.
\<close>

section \<open>The history\<close>

definition channel_ok :: "PowerNotificationChannelStatus \<Rightarrow> bool" where
  "channel_ok st \<longleftrightarrow> length (ncst_RecentAttempts st) \<le> 20 \<and> distinct (map na_ID (ncst_RecentAttempts st)) \<and>
     (\<forall>a. ncst_LastAttempt st = Some a \<longrightarrow> a \<in> set (ncst_RecentAttempts st))"

lemma replaceAttempt_None: "replaceAttempt a as = None \<longleftrightarrow> na_ID a \<notin> na_ID ` set as"
  by (induction as) (auto split: option.splits)

lemma replaceAttempt_Some:
  assumes "replaceAttempt a as = Some as'"
  shows "map na_ID as' = map na_ID as \<and> a \<in> set as' \<and> set as' \<subseteq> insert a (set as)"
  using assms by (induction as arbitrary: as') (auto split: if_splits option.splits)

lemma storeAttempt_recent: "set (ncst_RecentAttempts (storeAttempt a st)) \<subseteq> insert a (set (ncst_RecentAttempts st))"
  using replaceAttempt_Some
  by (fastforce simp: storeAttempt_def Let_def split: option.splits dest: in_set_dropD)

lemma storeAttempt_ok: "channel_ok st \<Longrightarrow> channel_ok (storeAttempt a st)"
proof (cases "replaceAttempt a (ncst_RecentAttempts st)")
  case None
  assume ok: "channel_ok st"
  let ?as = "ncst_RecentAttempts st @ [a]"
  have "distinct (map na_ID ?as)" using None ok by (auto simp: replaceAttempt_None channel_ok_def)
  then have "distinct (map na_ID (drop (length ?as - 20) ?as))" by (metis distinct_drop drop_map)
  moreover have "a \<in> set (drop (length ?as - 20) ?as)" by (simp add: drop_append)
  ultimately show ?thesis
    using None by (simp add: channel_ok_def storeAttempt_def maxRecentNotificationAttempts_def Let_def del: drop_append map_append)
next
  case (Some as)
  assume "channel_ok st"
  with replaceAttempt_Some[OF Some] Some show ?thesis
    by (auto simp: channel_ok_def storeAttempt_def dest: map_eq_imp_length_eq)
qed

text \<open>Attempts that may still be in progress when a dispatcher died.\<close>

lemma recoverRecent_map:
  "fst (recoverRecent b now as n) = map (\<lambda>a. if recoverable b a then failUnknown now a else a) as"
  "snd (snd (recoverRecent b now as n)) = map na_ID (filter (recoverable b) as)"
  by (induction b now as n rule: recoverRecent.induct) (auto simp: Let_def split: prod.splits)

lemma recoverStatus_fields:
  "ncst_RecentAttempts (recoverStatus b now st) = map (\<lambda>a. if recoverable b a then failUnknown now a else a) (ncst_RecentAttempts st)"
  "ncst_LastAttempt (recoverStatus b now st) = map_option (\<lambda>a. if recoverable b a then failUnknown now a else a) (ncst_LastAttempt st)"
  "ncst_LastError (recoverStatus b now st) = unknownDeliveryOutcome"
  using recoverRecent_map[of b now "ncst_RecentAttempts st" "ncst_TotalErrors st"]
  by (auto simp: recoverStatus_def Let_def split: prod.splits option.splits)

lemma failUnknown_simps [simp]:
  "na_ID (failUnknown now a) = na_ID a" "\<not> recoverable b (failUnknown now a)" "na_Response (failUnknown now a) = unknownDeliveryOutcome"
  by (simp_all add: failUnknown_def recoverable_def)

lemma recoverStatus_ok: "channel_ok st \<Longrightarrow> channel_ok (recoverStatus b now st)"
proof -
  assume ok: "channel_ok st"
  have "map na_ID (ncst_RecentAttempts (recoverStatus b now st)) = map na_ID (ncst_RecentAttempts st)"
    by (simp add: recoverStatus_fields)
  with ok show ?thesis
    unfolding channel_ok_def by (auto simp: recoverStatus_fields(2) dest: map_eq_imp_length_eq) (auto simp: recoverStatus_fields(1))
qed

lemma completedAttempt_simps [simp]:
  "na_ID (completedAttempt now a r e) = na_ID a" "na_Phase (completedAttempt now a r e) \<noteq> ''InProgress''"
  "na_Response (completedAttempt now a r e) = (case e of None \<Rightarrow> ''accepted'' | Some err \<Rightarrow> err_Text err)"
  by (simp_all add: completedAttempt_def Let_def split: option.split)

lemma countOutcome_simps [simp]:
  "ncst_RecentAttempts (countOutcome now e st) = ncst_RecentAttempts st" "ncst_LastAttempt (countOutcome now e st) = ncst_LastAttempt st"
  "ncst_LastError (countOutcome now e st) = (case e of None \<Rightarrow> '''' | Some err \<Rightarrow> err_Text err)"
  by (simp_all add: countOutcome_def split: option.split)

lemma completeAttempt_ok: "channel_ok st \<Longrightarrow> channel_ok (completeAttempt now a r e st)"
  by (simp add: completeAttempt_def storeAttempt_ok channel_ok_def[of "countOutcome now e st"] channel_ok_def[of st])

section \<open>Texts\<close>

text \<open>The texts that the dispatcher itself puts into a status.\<close>

definition safe_texts :: "string set" where
  "safe_texts = {'''', ''accepted'', unknownDeliveryOutcome, redactedDeliveryFailure,
     ''notification delivery canceled; endpoint details <redacted>'', ''notification delivery timed out; endpoint details <redacted>''}"

definition responses :: "PowerNotificationChannelStatus \<Rightarrow> string set" where
  "responses st = insert (ncst_LastError st) (na_Response ` (set (ncst_RecentAttempts st) \<union> set_option (ncst_LastAttempt st)))"

definition proper :: "PowerNotificationChannelStatus \<Rightarrow> PowerNotificationChannelStatus \<Rightarrow> bool" where
  "proper st st' \<longleftrightarrow> (channel_ok st \<longrightarrow> channel_ok st') \<and> responses st' \<subseteq> responses st \<union> safe_texts"

lemma redacted_safe: "err_Text (redactDeliveryError err url) \<in> safe_texts"
  by (simp add: redactDeliveryError_def safe_texts_def errors_New_def)

lemma storeAttempt_LastError [simp]: "ncst_LastError (storeAttempt a st) = ncst_LastError st"
  by (simp add: storeAttempt_def Let_def split: option.splits)

lemma begin_proper: "proper st (storeAttempt (newAttempt N ch events now) st)"
  using storeAttempt_recent[of "newAttempt N ch events now" st] storeAttempt_ok
  by (auto simp: proper_def responses_def safe_texts_def newAttempt_def correlatedEventIDs_def)

lemma complete_proper:
  assumes "\<And>err. e = Some err \<Longrightarrow> err_Text err \<in> safe_texts"
  shows "proper st (completeAttempt now a r e st)"
proof -
  have "ncst_LastError (countOutcome now e st) \<in> safe_texts" "na_Response (completedAttempt now a r e) \<in> safe_texts"
    using assms by (auto simp: safe_texts_def split: option.splits)
  then show ?thesis
    using completeAttempt_ok[of st now a r e] storeAttempt_recent[of "completedAttempt now a r e" "countOutcome now e st"]
    by (auto simp: proper_def responses_def completeAttempt_def split: if_splits)
qed

lemma recover_proper: "proper st (recoverStatus b now st)"
  using recoverStatus_ok[of st b now]
  by (auto simp: proper_def responses_def recoverStatus_fields safe_texts_def split: if_splits)

section \<open>Writes of a status\<close>

fun status_write :: "notice \<Rightarrow> bool" where
  "status_write (StatusUpdateChannel _ _) = True"
| "status_write _ = False"

text \<open>A status is written to a channel that was read, and only the status of it changed, properly.\<close>

definition orderly :: "notice \<Rightarrow> notices \<Rightarrow> bool" where
  "orderly e tr \<longleftrightarrow> (\<forall>c r. e = StatusUpdateChannel c r \<longrightarrow>
     (\<exists>k c0. GetChannel k (Inr c0) \<in> set tr \<and> c = c0\<lparr>nc_Status := nc_Status c\<rparr> \<and> proper (nc_Status c0) (nc_Status c)))"

interpretation tidiness: justification status_write orderly
  by unfold_locales (unfold orderly_def, blast)

abbreviation tidy :: "notices \<Rightarrow> notices \<Rightarrow> bool" where
  "tidy \<equiv> justified status_write orderly"

named_theorems tidy_intros "programs that write a status properly"

lemmas [tidy_intros] = keeps_bind keeps_return hoare_splits

lemma tidy_calls [tidy_intros]:
  "keeps (tidy base) (clock N)" "keeps (tidy base) (ctx_Err N)" "keeps (tidy base) (getSecret N k)" "keeps (tidy base) (listChannels N d)"
  by (rule tidiness.irrelevant_keeps; simp add: notice_call_defs listChannels_def emits_call)+

lemma writeChannelStatus_tidy:
  assumes "\<And>st. emits (\<lambda>e. \<not> status_write e) (mutate st)" and "\<And>st tr st' tr'. run_state (mutate st) tr = (st', tr') \<Longrightarrow> proper st st'"
  shows "keeps (tidy base) (writeChannelStatus N key mutate)"
proof (rule hoareI)
  fix tr r tr' assume t: "tidy base tr" and run: "run_state (writeChannelStatus N key mutate) tr = (r, tr')"
  define g where "g = ne_GetChannel N tr key"
  have t1: "tidy base (GetChannel key g # tr)" using t by (rule justified_Cons) simp
  show "tidy base tr'"
  proof (cases g)
    case (Inl err)
    then show ?thesis using run t1 by (simp add: writeChannelStatus_def getChannel_def g_def)
  next
    case (Inr c0)
    obtain st' tr2 where m: "run_state (mutate (nc_Status c0)) (GetChannel key g # tr) = (st', tr2)" by (rule prod.exhaust)
    have t2: "tidy base tr2" by (rule hoareD[OF tidiness.irrelevant_keeps[OF assms(1)] m t1])
    have "GetChannel key (Inr c0) \<in> set tr2" using emits_grows[OF assms(1) m] Inr by auto
    then have "orderly (StatusUpdateChannel (c0\<lparr>nc_Status := st'\<rparr>) u) tr2" for u
      using assms(2)[OF m] by (auto simp: orderly_def intro!: exI[of _ key] exI[of _ c0])
    with t2 have "tidy base (StatusUpdateChannel (c0\<lparr>nc_Status := st'\<rparr>) u # tr2)" for u by (rule justified_Cons)
    then show ?thesis
      using run Inr m by (auto simp: writeChannelStatus_def getChannel_def statusUpdateChannel_def g_def)
  qed
qed

context dispatcher_ports
begin

lemma updateChannelStatus_tidy:
  assumes "\<And>st. emits (\<lambda>e. \<not> status_write e) (mutate st)" and "\<And>st tr st' tr'. run_state (mutate st) tr = (st', tr') \<Longrightarrow> proper st st'"
  shows "keeps (tidy base) (updateChannelStatus N OnError key mutate)"
  unfolding updateChannelStatus_def
  by (rule retry_keeps[OF retry_OnError_axioms]) (intro tidy_intros writeChannelStatus_tidy assms | simp)+

lemma beginAttempt_tidy [tidy_intros]: "keeps (tidy base) (beginAttempt N OnError ch events)"
  unfolding beginAttempt_def by (intro tidy_intros updateChannelStatus_tidy) (auto simp: begin_proper)

lemma finishAttempt_tidy:
  "(\<And>err. e = Some err \<Longrightarrow> err_Text err \<in> safe_texts) \<Longrightarrow> keeps (tidy base) (finishAttempt N OnError ch a resp e)"
  unfolding finishAttempt_def by (intro tidy_intros updateChannelStatus_tidy) (auto simp: complete_proper)

lemma recordUndelivered_tidy [tidy_intros]: "keeps (tidy base) (recordUndelivered N OnError ch events op err url)"
  unfolding recordUndelivered_def by (intro tidy_intros finishAttempt_tidy) (auto simp: redacted_safe)

lemma resolveWebhookURL_tidy [tidy_intros]: "keeps (tidy base) (resolveWebhookURL N ch)"
  unfolding resolveWebhookURL_def by (intro tidy_intros)

lemma isThrottled_tidy [tidy_intros]: "keeps (tidy base) (isThrottled N throttle key)"
  unfolding isThrottled_def by (intro tidy_intros)

lemma send_tidy: "sender_contract S \<Longrightarrow> keeps (tidy base) (send S url ev)"
  by (rule tidiness.irrelevant_keeps, rule emits_mono[of "delivery url (ev_AttemptID ev)"])
    (auto simp: sender_contract_def elim!: status_write.elims)

lemma deliver_tidy: "sender_contract S \<Longrightarrow> keeps (tidy base) (deliver N OnError ch events payload S url)"
  unfolding deliver_def by (intro tidy_intros send_tidy finishAttempt_tidy) (auto simp: redacted_safe)

lemma deliverGroups_tidy: "sender_contract S \<Longrightarrow> keeps (tidy base) (deliverGroups N OnError ch S url groups throttle)"
  by (induction groups arbitrary: throttle) (auto intro!: tidy_intros deliver_tidy)

lemma recordGroups_tidy [tidy_intros]: "keeps (tidy base) (recordGroups N OnError ch op err groups)"
  by (induction groups) (auto intro!: tidy_intros)

lemma dispatchToChannel_tidy [tidy_intros]: "keeps (tidy base) (dispatchToChannel N OnError d filtered throttle ch)"
  unfolding dispatchToChannel_def
  by (intro tidy_intros deliverGroups_tidy) (auto dest: map_of_SomeD senders_honest)

lemma dispatchToChannels_tidy [tidy_intros]: "keeps (tidy base) (dispatchToChannels N OnError d filtered chs throttle)"
  by (induction chs arbitrary: throttle) (auto intro!: tidy_intros)

lemma dispatchBatch_tidy: "keeps (tidy base) (dispatchBatch N OnError d throttle batch)"
  unfolding dispatchBatch_def by (intro tidy_intros)

lemma dispatchEventTo_tidy [tidy_intros]: "keeps (tidy base) (dispatchEventTo N OnError d event throttle ch)"
  unfolding dispatchEventTo_def
  by (intro tidy_intros deliver_tidy) (auto dest: map_of_SomeD senders_honest)

lemma dispatchEventToAll_tidy [tidy_intros]: "keeps (tidy base) (dispatchEventToAll N OnError d event chs throttle)"
  by (induction chs arbitrary: throttle) (auto intro!: tidy_intros)

lemma dispatch_tidy: "keeps (tidy base) (dispatch N OnError d throttle event)"
  unfolding dispatch_def by (intro tidy_intros)

lemma recoverChannels_tidy [tidy_intros]: "keeps (tidy base) (recoverChannels N OnError b chs)"
  by (induction chs)
    (auto intro!: tidy_intros updateChannelStatus_tidy emits_intros simp: clock_def recover_proper)

lemma recoverIncompleteAttempts_tidy: "keeps (tidy base) (recoverIncompleteAttempts N OnError d b)"
  unfolding recoverIncompleteAttempts_def by (intro tidy_intros)

end

end
