(* ===== verification/DispatcherRun.thy ===== *)
theory DispatcherRun
  imports DispatcherHistory
begin

text \<open>
  The loop of the dispatcher as a state machine (\<open>Dispatcher.Run\<close> and \<open>Dispatcher.Enqueue\<close>).  Producers
  put events into the bounded queue at any time; the loop collects a batch from it until a timer
  fires, dispatches the batch, recovers old attempts when a ticker fires while it is idle, and ends
  when its context is cancelled, which drops a batch that was being collected.  A dispatch takes time
  during which producers go on, but it does not touch the queue, so it is one step here.
\<close>

section \<open>The machine\<close>

datatype phase = Idle | Collecting "Event list" | Stopped

record runner =
  rn_Queue :: "Event list"
  rn_Phase :: phase
  rn_Throttle :: throttle
  rn_Trace :: notices

datatype action = Accept Event | Reject Event | Receive Event | Fire "Event list" | Tick | Cancel

definition recoverStale :: "nenv \<Rightarrow> nretrier \<Rightarrow> Dispatcher \<Rightarrow> go_error option nio" where
  "recoverStale N OnError d = do { now \<leftarrow> clock N; recoverIncompleteAttempts N OnError d (now - Minute) }"

inductive run_step :: "nenv \<Rightarrow> nretrier \<Rightarrow> Dispatcher \<Rightarrow> runner \<Rightarrow> action \<Rightarrow> runner \<Rightarrow> bool" for N OnError d where
  accept: "dispatcher_Enqueue ev (rn_Queue s) = (None, q) \<Longrightarrow> run_step N OnError d s (Accept ev) (s\<lparr>rn_Queue := q\<rparr>)"
| reject: "dispatcher_Enqueue ev (rn_Queue s) = (Some err, q) \<Longrightarrow> run_step N OnError d s (Reject ev) (s\<lparr>rn_Queue := q\<rparr>)"
| first: "rn_Phase s = Idle \<Longrightarrow> rn_Queue s = ev # q \<Longrightarrow>
     run_step N OnError d s (Receive ev) (s\<lparr>rn_Queue := q, rn_Phase := Collecting [ev]\<rparr>)"
| more: "rn_Phase s = Collecting batch \<Longrightarrow> rn_Queue s = ev # q \<Longrightarrow>
     run_step N OnError d s (Receive ev) (s\<lparr>rn_Queue := q, rn_Phase := Collecting (batch @ [ev])\<rparr>)"
| fire: "rn_Phase s = Collecting batch \<Longrightarrow>
     run_state (dispatchBatch N OnError d (rn_Throttle s) batch) (rn_Trace s) = ((err, throttle), tr) \<Longrightarrow>
     run_step N OnError d s (Fire batch) (s\<lparr>rn_Phase := Idle, rn_Throttle := throttle, rn_Trace := tr\<rparr>)"
| tick: "rn_Phase s = Idle \<Longrightarrow> run_state (recoverStale N OnError d) (rn_Trace s) = (err, tr) \<Longrightarrow>
     run_step N OnError d s Tick (s\<lparr>rn_Trace := tr\<rparr>)"
| cancel: "rn_Phase s \<noteq> Stopped \<Longrightarrow> run_step N OnError d s Cancel (s\<lparr>rn_Phase := Stopped\<rparr>)"

text \<open>The state in which the loop begins, after the recovery of everything an earlier process left.\<close>

definition started :: "nenv \<Rightarrow> nretrier \<Rightarrow> Dispatcher \<Rightarrow> runner" where
  "started N OnError d =
     \<lparr>rn_Queue = [], rn_Phase = Idle, rn_Throttle = Map.empty,
      rn_Trace = snd (run_state (do { now \<leftarrow> clock N; recoverIncompleteAttempts N OnError d now }) [])\<rparr>"

inductive executes :: "nenv \<Rightarrow> nretrier \<Rightarrow> Dispatcher \<Rightarrow> action list \<Rightarrow> runner \<Rightarrow> bool" for N OnError d where
  start: "executes N OnError d [] (started N OnError d)"
| extend: "executes N OnError d as s \<Longrightarrow> run_step N OnError d s a s' \<Longrightarrow> executes N OnError d (as @ [a]) s'"

inductive_cases run_stepE: "run_step N OnError d s a s'"

section \<open>The queue\<close>

fun accepted :: "action \<Rightarrow> Event list" where
  "accepted (Accept ev) = [ev]"
| "accepted _ = []"

fun fired :: "action \<Rightarrow> Event list" where
  "fired (Fire batch) = batch"
| "fired _ = []"

fun collecting :: "phase \<Rightarrow> Event list" where
  "collecting (Collecting batch) = batch"
| "collecting _ = []"

definition conserved :: "action list \<Rightarrow> runner \<Rightarrow> bool" where
  "conserved as s \<longleftrightarrow> length (rn_Queue s) \<le> queueCapacity \<and>
     (\<exists>lost. concat (map accepted as) = concat (map fired as) @ lost @ rn_Queue s \<and>
        (rn_Phase s \<noteq> Stopped \<longrightarrow> lost = collecting (rn_Phase s)))"

lemma run_step_conserved: "run_step N OnError d s a s' \<Longrightarrow> conserved as s \<Longrightarrow> conserved (as @ [a]) s'"
  by (induction rule: run_step.induct) (auto simp: conserved_def dispatcher_Enqueue_def split: if_splits)

lemma executes_conserved: "executes N OnError d as s \<Longrightarrow> conserved as s"
proof (induction rule: executes.induct)
  case start
  show ?case by (simp add: started_def conserved_def)
next
  case (extend as s a s')
  show ?case by (rule run_step_conserved[OF extend.hyps(2) extend.IH])
qed

text \<open>The trace of the loop is tidy and every request in it was recorded before, from the first recovery on.\<close>

context dispatcher_ports
begin

definition accountable :: "nenv \<Rightarrow> notices \<Rightarrow> bool" where
  "accountable N tr \<longleftrightarrow> tidy [] tr \<and> justified is_post (recorded_first N) [] tr"

lemma accountable_batch:
  assumes "accountable N tr" and "run_state (dispatchBatch N OnError d throttle batch) tr = (r, tr')"
  shows "accountable N tr'"
  using assms hoareD[OF dispatchBatch_tidy assms(2)] justified_trans[OF _ dispatchBatch_recorded[OF assms(2)]]
  by (simp add: accountable_def)

lemma accountable_recovery:
  assumes "accountable N tr" and "run_state (do { now \<leftarrow> clock N; recoverIncompleteAttempts N OnError d (f now) }) tr = (r, tr')"
  shows "accountable N tr'"
proof -
  have tidy: "keeps (tidy []) (do { now \<leftarrow> clock N; recoverIncompleteAttempts N OnError d (f now) })"
    by (intro tidy_intros recoverIncompleteAttempts_tidy)
  have silent: "silent (do { now \<leftarrow> clock N; recoverIncompleteAttempts N OnError d (f now) })"
    by (intro emits_intros silent_recoverIncompleteAttempts)
  show ?thesis
    using assms(1) hoareD[OF tidy assms(2)] justified_trans[OF _ justified_silent[OF silent assms(2)]]
    unfolding accountable_def by blast
qed

lemma run_step_accountable: "run_step N OnError d s a s' \<Longrightarrow> accountable N (rn_Trace s) \<Longrightarrow> accountable N (rn_Trace s')"
proof (induction rule: run_step.induct)
  case (fire s batch err throttle tr)
  from accountable_batch[OF fire.prems fire.hyps(2)] show ?case by simp
next
  case (tick s err tr)
  from accountable_recovery[OF tick.prems tick.hyps(2)[unfolded recoverStale_def]] show ?case by simp
qed simp_all

lemma executes_accountable: "executes N OnError d as s \<Longrightarrow> accountable N (rn_Trace s)"
proof (induction rule: executes.induct)
  case start
  have "accountable N []" by (simp add: accountable_def)
  then show ?case unfolding started_def runner.simps by (rule accountable_recovery[where f = "\<lambda>now. now"]) (rule prod.collapse[symmetric])
next
  case (extend as s a s')
  show ?case by (rule run_step_accountable[OF extend.hyps(2) extend.IH])
qed

end

section \<open>Repeated writes\<close>

lemma recoverRecent_done: "list_all (\<lambda>a. \<not> recoverable b a) as \<Longrightarrow> recoverRecent b now as n = (as, n, [])"
  by (induction as arbitrary: n) auto

lemma recoverStatus_done:
  assumes "list_all (\<lambda>a. \<not> recoverable b a) (ncst_RecentAttempts st)" and "\<And>a. ncst_LastAttempt st = Some a \<Longrightarrow> \<not> recoverable b a"
    and "ncst_LastError st = unknownDeliveryOutcome"
  shows "recoverStatus b now st = st"
  using assms by (auto simp: recoverStatus_def recoverRecent_done split: option.splits)

lemma recovered_not_recoverable [simp]: "\<not> recoverable b (if recoverable b a then failUnknown now a else a)"
  by simp

lemma recoverStatus_idempotent: "recoverStatus b now' (recoverStatus b now st) = recoverStatus b now st"
  by (rule recoverStatus_done) (auto simp: recoverStatus_fields list_all_iff)

lemma completeAttempt_idempotent: "completeAttempt now' a r' e' (completeAttempt now a r e st) = completeAttempt now a r e st"
  by (simp add: completeAttempt_def alreadyCompleted_def)

section \<open>Requests of a sender\<close>

definition accepting :: "int \<Rightarrow> bool" where
  "accepting code \<longleftrightarrow> 200 \<le> code \<and> code < 300"

lemma httpAttempts_spec:
  assumes "run_state (httpAttempts N url p n st er) tr = ((resp, err), tr')" and "n \<le> 3"
  shows "\<exists>new. tr' = new @ tr \<and> length (filter is_post new) \<le> n \<and>
    (err = None \<longrightarrow> (n = 0 \<and> er = None) \<or> (\<exists>code rest. new = Post url p (Inr code) # rest \<and> accepting code \<and> dr_StatusCode resp = code)) \<and>
    (\<forall>code. Post url p (Inr code) \<in> set new \<longrightarrow> accepting code \<longrightarrow> err = None) \<and>
    int (length (filter is_post new)) + (3 - int n) \<le> dr_Attempts resp \<and> dr_Attempts resp \<le> 3"
  using assms
proof (induction n arbitrary: st er tr)
  case (Suc n)
  let ?attempt = "2 - int n"
  define w where "w = (if ?attempt > 0 then ne_Wait N tr (?attempt * ?attempt * Second) else None)"
  define t1 where "t1 = (if ?attempt > 0 then [Backoff (?attempt * ?attempt * Second) w] else [])"
  define c where "c = ne_CtxErr N (t1 @ tr)"
  define res where "res = ne_Do N (ContextErr c # t1 @ tr) url p"
  let ?t2 = "ContextErr c # t1"
  let ?t3 = "Post url p res # ?t2"
  have t1: "filter is_post t1 = []" "Post u q v \<notin> set t1" for u q v by (simp_all add: t1_def)
  show ?case
  proof (cases "w \<noteq> None \<or> c \<noteq> None \<or> ne_NewRequest N url \<noteq> None")
    case True
    then have "tr' \<in> {t1 @ tr, ?t2 @ tr} \<and> err \<noteq> None \<and> dr_Attempts resp \<in> {?attempt, ?attempt + 1}"
      using Suc.prems(1)
      by (auto simp: Let_def notice_call_defs w_def t1_def c_def split: if_splits option.splits) (metis+)
    then obtain t where "tr' = t @ tr" "filter is_post t = []" "\<forall>u q v. Post u q v \<notin> set t" "err \<noteq> None"
      "dr_Attempts resp \<in> {?attempt, ?attempt + 1}"
      using t1 by (elim conjE insertE emptyE) auto
    then show ?thesis using Suc.prems(2) by (intro exI[of _ t]) auto
  next
    case False
    show ?thesis
    proof (cases "\<exists>code. res = Inr code \<and> accepting code")
      case True
      then have "tr' = ?t3 @ tr \<and> err = None \<and> res = Inr (dr_StatusCode resp) \<and> dr_Attempts resp = ?attempt + 1"
        using Suc.prems(1) False
        by (auto simp: Let_def notice_call_defs w_def t1_def c_def res_def accepting_def split: if_splits option.splits)
      then show ?thesis using t1 True Suc.prems(2) by (intro exI[of _ ?t3]) auto
    next
      case rejected: False
      obtain st2 er2 where er2: "er2 \<noteq> None" "run_state (httpAttempts N url p n st2 er2) (?t3 @ tr) = ((resp, err), tr')"
        using Suc.prems(1) False rejected
        by (auto simp: Let_def notice_call_defs w_def t1_def c_def res_def accepting_def split: if_splits option.splits sum.splits)
      from Suc.IH[OF er2(2)] Suc.prems(2) obtain new where new: "tr' = new @ ?t3 @ tr" "length (filter is_post new) \<le> n"
        "err = None \<longrightarrow> (\<exists>code rest. new = Post url p (Inr code) # rest \<and> accepting code \<and> dr_StatusCode resp = code)"
        "\<forall>code. Post url p (Inr code) \<in> set new \<longrightarrow> accepting code \<longrightarrow> err = None"
        "int (length (filter is_post new)) + (3 - int n) \<le> dr_Attempts resp" "dr_Attempts resp \<le> 3"
        using er2(1) by auto
      show ?thesis using new t1 rejected by (intro exI[of _ "new @ ?t3"]) auto
    qed
  qed
qed auto

section \<open>A concrete run\<close>

text \<open>
  One enabled channel with a webhook that answers, and two power-downs and a failure in a batch.
\<close>

definition web_event :: "string \<Rightarrow> string \<Rightarrow> string \<Rightarrow> Event" where
  "web_event ref name action = \<lparr>ev_AuditEventRef = ref, ev_AttemptID = '''', ev_EventIDs = [], ev_AuditEventRefs = [], ev_Action = action,
     ev_Target = \<lparr>ntr_Namespace = ''dev'', ntr_Name = name, ntr_Kind = ''Deployment'', ntr_UID = ''u1''\<rparr>,
     ev_Result = ''success'', ev_Reason = ''off'', ev_RuleName = ''nights'', ev_Timestamp = 0\<rparr>"

definition ops_channel :: PowerNotificationChannel where
  "ops_channel = \<lparr>nc_Meta = \<lparr>om_Name = ''ops'', om_GenerateName = '''', om_Namespace = ''aura'', om_UID = '''', om_ResourceVersion = '''',
       om_Labels = [], om_Annotations = [], om_CreationTimestamp = 0, om_DeletionTimestamp = None\<rparr>,
     nc_Spec = \<lparr>ncs_Type = ''generic'', ncs_URL = ''https://ops'', ncs_URLFrom = None, ncs_Events = [], ncs_NamespaceFilter = [],
       ncs_Throttle = '''', ncs_Enabled = True\<rparr>,
     nc_Status = \<lparr>ncst_LastNotification = None, ncst_LastError = '''', ncst_TotalSent = 0, ncst_TotalErrors = 0,
       ncst_LastAttempt = None, ncst_RecentAttempts = []\<rparr>\<rparr>"

definition ops_network :: nenv where
  "ops_network = \<lparr>ne_Now = (\<lambda>tr. int (length tr)), ne_ListChannels = (\<lambda>_ _. Inr [ops_channel]), ne_GetChannel = (\<lambda>_ _. Inr ops_channel),
     ne_StatusUpdateChannel = (\<lambda>_ c. Inr c), ne_GetSecret = (\<lambda>_ _. Inr []), ne_CtxErr = (\<lambda>_. None), ne_Wait = (\<lambda>_ _. None),
     ne_NewRequest = (\<lambda>_. None), ne_Do = (\<lambda>_ _ _. Inr 200), ne_sha256 = id, ne_RFC3339 = (\<lambda>_. ''''), ne_RFC3339Nano = (\<lambda>_. ''''),
     ne_ClockFormat = (\<lambda>_. ''''), ne_Quote = id, ne_ParseDuration = (\<lambda>_. None),
     ne_ParseRequestURI = (\<lambda>_. Some \<lparr>url_Scheme = ''https'', url_Host = ''ops'', url_User = False\<rparr>)\<rparr>"

definition ops_retry :: nretrier where
  "ops_retry = (\<lambda>steps p fn. attempts steps p fn True)"

definition ops_dispatcher :: Dispatcher where
  "ops_dispatcher = NewDispatcherForNamespace ops_network ''aura''"

definition ops_batch :: "Event list" where
  "ops_batch = [web_event ''aura/e1'' ''web'' ''workload.powered_down'']"

definition ops_fired :: "(go_error option \<times> throttle) \<times> notices" where
  "ops_fired = run_state (dispatchBatch ops_network ops_retry ops_dispatcher Map.empty ops_batch) (rn_Trace (started ops_network ops_retry ops_dispatcher))"

lemma ops_fired_posts: "list_ex is_post (snd ops_fired) \<and> list_ex status_write (snd ops_fired)"
  by code_simp

lemma ops_retry_contract: "retry_OnError ops_retry"
  unfolding ops_retry_def by (rule client_go.retry_OnError_axioms)

lemma ops_execution:
  "\<exists>s. executes ops_network ops_retry ops_dispatcher
     [Accept (hd ops_batch), Receive (hd ops_batch), Fire ops_batch] s \<and> rn_Trace s = snd ops_fired"
proof -
  let ?s0 = "started ops_network ops_retry ops_dispatcher"
  let ?s1 = "?s0\<lparr>rn_Queue := ops_batch\<rparr>" and ?s2 = "?s0\<lparr>rn_Queue := [], rn_Phase := Collecting ops_batch\<rparr>"
  let ?s3 = "?s2\<lparr>rn_Phase := Idle, rn_Throttle := snd (fst ops_fired), rn_Trace := snd ops_fired\<rparr>"
  have 0: "executes ops_network ops_retry ops_dispatcher [] ?s0" by (rule executes.start)
  have "run_step ops_network ops_retry ops_dispatcher ?s0 (Accept (hd ops_batch)) ?s1"
    using run_step.accept[of "hd ops_batch" ?s0 ops_batch ops_network ops_retry ops_dispatcher]
    by (simp add: dispatcher_Enqueue_def started_def queueCapacity_def ops_batch_def)
  from executes.extend[OF 0 this] have 1: "executes ops_network ops_retry ops_dispatcher [Accept (hd ops_batch)] ?s1" by simp
  have "run_step ops_network ops_retry ops_dispatcher ?s1 (Receive (hd ops_batch)) ?s2"
    using run_step.first[of ?s1 "hd ops_batch" "[]" ops_network ops_retry ops_dispatcher] by (simp add: started_def ops_batch_def)
  from executes.extend[OF 1 this] have 2: "executes ops_network ops_retry ops_dispatcher [Accept (hd ops_batch), Receive (hd ops_batch)] ?s2"
    by simp
  have "run_step ops_network ops_retry ops_dispatcher ?s2 (Fire ops_batch) ?s3"
    using run_step.fire[of ?s2 ops_batch ops_network ops_retry ops_dispatcher "fst (fst ops_fired)" "snd (fst ops_fired)" "snd ops_fired"]
    by (simp add: ops_fired_def started_def)
  from executes.extend[OF 2 this] show ?thesis by (intro exI[of _ ?s3]) simp
qed

section \<open>Properties\<close>

text \<open>
  C21. Deliveries are recorded first: in every reachable state of the dispatcher, whatever API server, webhooks and
  producers do, each request to a webhook was made for an enabled channel of the control namespace,
  to the valid URL of that channel (its own or the one in the secret it refers to, as read), and
  carried the identifier of an attempt, in progress, at events that the filters of that channel accept and that
  its listed status had not recorded as attempted; before the request that attempt had been stored
  with success: the channel was read under its key and its status written with the attempt put into it
  and nothing else changed.
\<close>

theorem delivery_recorded_first:
  assumes "retry_OnError OnError" and "executes N OnError (NewDispatcherForNamespace N ns) as s"
    and "rn_Trace s = rest @ Post url payload r # pre"
  shows "\<exists>chs ch events now c0 u. let a = newAttempt N ch events now; c = c0\<lparr>nc_Status := storeAttempt a (nc_Status c0)\<rparr> in
    ListChannels ns (Inr chs) \<in> set pre \<and> ch \<in> set chs \<and> ncs_Enabled (nc_Spec ch) \<and>
    own_url ch url pre \<and> validateWebhookURL N url = Inr url \<and> carries payload (na_ID a) \<and>
    GetChannel (channelKey ch) (Inr c0) \<in> set pre \<and> StatusUpdateChannel c (Inr u) \<in> set pre \<and>
    ncst_LastAttempt (nc_Status c) = Some a \<and> na_Phase a = ''InProgress'' \<and>
    (\<forall>e\<in>set events. channelAccepts ch e \<and>
       (ev_AuditEventRef e = '''' \<or> ev_AuditEventRef e \<notin> set (attemptedRefs (nc_Status ch))))"
proof -
  note ports = dispatcher_wired[OF assms(1), of N ns]
  have ns: "d_ControlNamespace (NewDispatcherForNamespace N ns) = ns"
    by (simp add: NewDispatcherForNamespace_def RegisterSender_def)
  have "justified is_post (dispatcher_ports.recorded_first (NewDispatcherForNamespace N ns) N) [] (rest @ Post url payload r # pre)"
    using dispatcher_ports.executes_accountable[OF ports assms(2)] assms(3) dispatcher_ports.accountable_def[OF ports] by simp
  then have "dispatcher_ports.recorded_first (NewDispatcherForNamespace N ns) N (Post url payload r) pre"
    by (rule justifiedD) simp
  then obtain chs ch events now c0 u where "ListChannels ns (Inr chs) \<in> set pre" "ch \<in> set chs" "ncs_Enabled (nc_Spec ch)"
    "own_url ch url pre" "validateWebhookURL N url = Inr url" "fresh_events ch events"
    "carries payload (na_ID (newAttempt N ch events now))" "GetChannel (channelKey ch) (Inr c0) \<in> set pre"
    "StatusUpdateChannel (c0\<lparr>nc_Status := storeAttempt (newAttempt N ch events now) (nc_Status c0)\<rparr>) (Inr u) \<in> set pre"
    unfolding dispatcher_ports.recorded_first_def[OF ports] ns write_ahead_def stored_def by blast
  then show ?thesis
    unfolding Let_def fresh_events_def
    by (intro exI[of _ chs] exI[of _ ch] exI[of _ events] exI[of _ now] exI[of _ c0] exI[of _ u]) simp
qed

theorem delivery_recorded_first_witness:
  "\<exists>s rest url payload r pre ch events now c0 u. executes ops_network ops_retry ops_dispatcher [Accept (hd ops_batch), Receive (hd ops_batch), Fire ops_batch] s \<and>
     rn_Trace s = rest @ Post url payload r # pre \<and> own_url ch url pre \<and> GetChannel (channelKey ch) (Inr c0) \<in> set pre \<and>
     StatusUpdateChannel (c0\<lparr>nc_Status := storeAttempt (newAttempt ops_network ch events now) (nc_Status c0)\<rparr>) (Inr u) \<in> set pre"
proof -
  obtain s where s: "executes ops_network ops_retry ops_dispatcher [Accept (hd ops_batch), Receive (hd ops_batch), Fire ops_batch] s"
    "rn_Trace s = snd ops_fired" using ops_execution by blast
  obtain e where "e \<in> set (snd ops_fired)" "is_post e" using ops_fired_posts by (auto simp: list_ex_iff)
  then obtain url payload r where "Post url payload r \<in> set (snd ops_fired)" by (metis is_post.elims(2))
  then obtain rest pre where split: "rn_Trace s = rest @ Post url payload r # pre" using s(2) by (metis split_list)
  from delivery_recorded_first[OF ops_retry_contract s(1)[unfolded ops_dispatcher_def] split] s(1) split
  show ?thesis unfolding Let_def by blast
qed

text \<open>
  C22. The status of a channel stays bounded, consistent and free of secrets: in every reachable state of the
  dispatcher, each status that was written belongs to a channel that was read before and changes
  nothing else of it; if the history of attempts that was read had at most 20 entries with distinct
  identifiers and contained the latest attempt, so has the one that was written; and every error or
  response text in it was there before or is one of six fixed texts, whatever the transport
  reported and whatever the webhook URL is.
\<close>

theorem channel_status_disciplined:
  assumes "retry_OnError OnError" and "executes N OnError (NewDispatcherForNamespace N ns) as s"
    and "rn_Trace s = rest @ StatusUpdateChannel c r # pre"
  shows "\<exists>k c0. GetChannel k (Inr c0) \<in> set pre \<and> c = c0\<lparr>nc_Status := nc_Status c\<rparr> \<and>
    (channel_ok (nc_Status c0) \<longrightarrow> channel_ok (nc_Status c)) \<and>
    responses (nc_Status c) \<subseteq> responses (nc_Status c0) \<union> safe_texts"
proof -
  note ports = dispatcher_wired[OF assms(1), of N ns]
  have "tidy [] (rest @ StatusUpdateChannel c r # pre)"
    using dispatcher_ports.executes_accountable[OF ports assms(2)] assms(3) dispatcher_ports.accountable_def[OF ports] by simp
  then have "orderly (StatusUpdateChannel c r) pre" by (rule justifiedD) simp
  then show ?thesis unfolding orderly_def proper_def by blast
qed

theorem channel_status_disciplined_witness:
  "\<exists>s rest c r pre k c0. executes ops_network ops_retry ops_dispatcher [Accept (hd ops_batch), Receive (hd ops_batch), Fire ops_batch] s \<and>
     rn_Trace s = rest @ StatusUpdateChannel c r # pre \<and> GetChannel k (Inr c0) \<in> set pre"
proof -
  obtain s where s: "executes ops_network ops_retry ops_dispatcher [Accept (hd ops_batch), Receive (hd ops_batch), Fire ops_batch] s"
    "rn_Trace s = snd ops_fired" using ops_execution by blast
  obtain e where "e \<in> set (snd ops_fired)" "status_write e" using ops_fired_posts by (auto simp: list_ex_iff)
  then obtain c r where "StatusUpdateChannel c r \<in> set (snd ops_fired)" by (metis status_write.elims(2))
  then obtain rest pre where split: "rn_Trace s = rest @ StatusUpdateChannel c r # pre" using s(2) by (metis split_list)
  from channel_status_disciplined[OF ops_retry_contract s(1)[unfolded ops_dispatcher_def] split] s(1) split show ?thesis by blast
qed

text \<open>
  C23. No accepted event is lost or reordered: in every execution of the dispatcher, the accepted events are, in
  their order, the events of the dispatched batches, then the batch being collected, then the
  queue, which never exceeds its capacity; only a cancellation can drop events, and then only a
  batch that was being collected.
\<close>

theorem queue_conserves_events:
  assumes "executes N OnError d as s"
  shows "length (rn_Queue s) \<le> queueCapacity \<and>
    (\<exists>lost. concat (map accepted as) = concat (map fired as) @ lost @ rn_Queue s \<and>
       (rn_Phase s \<noteq> Stopped \<longrightarrow> lost = collecting (rn_Phase s)))"
  using executes_conserved[OF assms] by (simp add: conserved_def)

theorem queue_conserves_events_witness:
  "\<exists>s. length (rn_Queue s) \<le> queueCapacity \<and> executes ops_network ops_retry ops_dispatcher
     [Accept (hd ops_batch), Receive (hd ops_batch), Fire ops_batch] s"
  using ops_execution queue_conserves_events[of ops_network ops_retry ops_dispatcher] by blast

text \<open>
  Counters move once: finishing an attempt or recovering the attempts of a dead dispatcher a second
  time, as happens when the answer to a successful write was lost and the write is retried, changes
  nothing, whatever the second try finds as time, response and error.
\<close>

theorem status_updates_idempotent:
  "completeAttempt now' a r' e' (completeAttempt now a r e st) = completeAttempt now a r e st \<and>
   recoverStatus b now' (recoverStatus b now st) = recoverStatus b now st"
  by (simp add: completeAttempt_idempotent recoverStatus_idempotent)

text \<open>
  A delivery makes at most three requests, for every behaviour of the network: it reports success
  exactly if a request was answered with a code from 200 to 299, that request is the last call it makes,
  and the reported code is that of the answer; the reported number of attempts is between
  the number of requests and three.
\<close>

theorem httpPostDetailed_bounded:
  assumes "run_state (httpPostDetailed N url payload) [] = ((resp, err), tr)"
  shows "length (filter is_post tr) \<le> 3 \<and>
    (err = None \<longleftrightarrow> (\<exists>code. Post url payload (Inr code) \<in> set tr \<and> accepting code)) \<and>
    (err = None \<longrightarrow> (\<exists>rest. tr = Post url payload (Inr (dr_StatusCode resp)) # rest)) \<and>
    int (length (filter is_post tr)) \<le> dr_Attempts resp \<and> dr_Attempts resp \<le> 3"
  using httpAttempts_spec[OF assms[unfolded httpPostDetailed_def]] by auto

theorem httpPostDetailed_bounded_witness:
  "length (filter is_post (snd (run_state (httpPostDetailed ops_network ''https://ops'' (JStr ''hello'')) []))) \<le> 3"
  using httpPostDetailed_bounded[of ops_network "''https://ops''" "JStr ''hello''"] by (metis prod.collapse)

text \<open>
  Grouping is truthful: the index map of \<open>groupBatchEvents\<close> implements the partition of the events by
  action, result and rule, with the groups in the order of their first event and the events of a
  group in their original order, so that no message mixes outcomes and no event is dropped or repeated.
\<close>

theorem groupBatchEvents_refines:
  "groupBatchEvents events = group_spec events \<and> mset (concat (groupBatchEvents events)) = mset events \<and> [] \<notin> set (groupBatchEvents events)"
  by (simp add: groupBatchEvents_spec group_spec_mset group_spec_nonempty)

end
