(* ===== verification/Spec2Isabelle.thy ===== *)
theory Spec2Isabelle
  imports Readiness CliSession MetricsApi Preview Webhook AuditHistory Savings NamespaceRules DispatcherRun ApprovalOutcome
begin

text \<open>
  Aura Power powers workloads of a Kubernetes cluster down and up again.  Users state policies (recurring windows or schedules) and
  temporary overrides as custom resources; a discovery loop keeps one \<open>PowerTarget\<close> per workload; a reconciler decides for each
  target whether its workload should run, and scales it accordingly.  An API server shows the state, previews changes and runs an
  approval workflow, and a command line client talks to it.  This development models the program in \<open>src\<close> file by file
  and proves what makes it correct.

  \<^bold>\<open>How a run is modelled.\<close>  Pure functions of the source are HOL functions.  A function that talks to the outside is a
  program in the state monad over the trace of its calls, newest first, each recorded with its arguments and its answer
  (\<open>Effects\<close>, and the event types of \<open>Notifications\<close>, \<open>AuthStore\<close>, \<open>ApiEffects\<close>, \<open>MetricsApi\<close>, \<open>CliSession\<close>).  Answers come
  from an environment (records \<open>env\<close>, \<open>nenv\<close>, \<open>aenv\<close>, \<open>server_env\<close>, \<open>menv\<close>, \<open>cenv\<close>), any function of the trace so far.
  Theorems therefore hold for stale caches, concurrent writers, lost answers and failures of every kind; where
  one needs more of the environment, that is a hypothesis of it.  Errors are values of \<open>go_error\<close>, and a fallible function
  returns \<open>go_error + 'a\<close>.

  \<^bold>\<open>The decision\<close> (\<open>src/internal/core/domain\<close>)
  \<^item> \<open>DomainTypes\<close>: \<open>types.go\<close>; \<open>TimeWindows\<close>: \<open>timewindow.go\<close>; \<open>Scopes\<close>: \<open>scope.go\<close>; \<open>Guardrails\<close>: \<open>guardrails.go\<close>;
    \<open>Engine\<close>: \<open>engine.go\<close>; \<open>Preview\<close>: \<open>preview.go\<close>; \<open>Savings\<close>: \<open>savings.go\<close>.
  \<^item> The lemmas relate the minute arithmetic of a window to a set of occurrences that may run past midnight, the scope matcher to an
    intersection of selectors, and the sorted rules to a written-out ranking (\<open>ranked_before\<close>) whose outcome does not depend on the order of
    the lists; a protected namespace never gets an off decision.

  \<^bold>\<open>The controller\<close> (\<open>src/cmd/controller\<close>, \<open>src/internal/adapters\<close>)
  \<^item> \<open>ApiTypes\<close>: \<open>src/api/v1alpha1\<close>; \<open>Selection\<close>: \<open>selection/scope.go\<close> and the conversions to the domain; \<open>Webhook\<close>: the two
    admission validators.
  \<^item> \<open>Executor\<close>: \<open>driven/kubernetes/executor.go\<close>, with its contract as the locale \<open>workload_executor\<close>; \<open>AuditLog\<close> and
    \<open>AuditHistory\<close>: \<open>audit.go\<close>; \<open>Discoverer\<close>: \<open>discovery.go\<close>.
  \<^item> \<open>TargetStatus\<close>, \<open>TargetReconcile\<close>, \<open>TargetSafety\<close>: \<open>driving/reconciler/target_reconciler.go\<close>.  A write to a workload is always the
    one that the current decision asks for, on the observed incarnation, after its intent and a snapshot were stored and the live
    autoscalers were looked at; a settled action is not repeated.
  \<^item> \<open>RuleReconcile\<close>: \<open>override_reconciler.go\<close> and \<open>policy_reconciler.go\<close>.
  \<^item> \<open>DiscoveryLoop\<close>, \<open>DiscoverySafety\<close>, \<open>NamespaceRules\<close>: \<open>driving/background\<close>.  A cycle never deletes the last recovery snapshot
    of a workload that is down, and only restores workloads.
  \<^item> \<open>Notifications\<close>, \<open>Dispatcher\<close>, \<open>DispatcherSafety\<close>, \<open>DispatcherHistory\<close>, \<open>DispatcherRun\<close>: \<open>driven/notifications\<close>.  The loop is the
    step relation \<open>run_step\<close>; in its reachable states each webhook request follows an attempt stored in the status of the channel
    it goes to, and no accepted event is lost while the loop runs.
  \<^item> \<open>Startup\<close>: what \<open>main.go\<close> of both binaries reads from environment variables, how it wires the parts, the cleanup of the audit
    history, and what the variables imply: which namespaces are protected, how far the cutoff of the cleanup lies back, and which
    previews of the server agree with the controller so configured; \<open>Readiness\<close>: the schema check behind the readiness endpoint.

  \<^bold>\<open>The API server\<close> (\<open>src/cmd/server\<close>, \<open>src/internal/adapters/driving/api\<close>, \<open>driven/auth\<close>)
  \<^item> \<open>AuthStore\<close>: \<open>store.go\<close> and \<open>sqlite_store.go\<close>; \<open>ChangeLedger\<close>: the rules that the processes sharing the database keep (locale
    \<open>shared_database\<close>); \<open>Sessions\<close>: \<open>jwt.go\<close> and \<open>auth_middleware.go\<close>; \<open>Approval\<close>, \<open>ApprovalSafety\<close>, \<open>ApprovalRun\<close>, \<open>ApprovalOutcome\<close>:
    \<open>auth_handlers.go\<close>.  Each change of the cluster through the workflow is exactly the one that was asked for, by somebody else than
    its reviewer; decided changes are final under any interleaving of servers; an interrupted decision can be resumed.
  \<^item> \<open>ApiEffects\<close>, \<open>ApiHandlers\<close>, \<open>ApiRoutes\<close>: \<open>handlers.go\<close> and the routes of \<open>server.go\<close>; \<open>AuditPages\<close>: \<open>audit_pages.go\<close>;
    \<open>ApiPreview\<close>: \<open>preview.go\<close>, whose conversions are related to those of the reconciler; \<open>ApiSafety\<close>: a request writes at most the
    object its route names, in the control namespace and with a role, the audit list is the newest part of the history, and the CSV
    export can be read back.
  \<^item> \<open>MetricsApi\<close>: \<open>metrics_handlers.go\<close> with the Prometheus and the OpenCost client.

  \<^bold>\<open>The command line client\<close> (\<open>src/internal/cli\<close>)
  \<^item> \<open>CliSession\<close>: \<open>httpclient.go\<close>, \<open>login.go\<close> and \<open>override.go\<close>.  A request is repeated at most once, after the tokens were renewed and
    stored; the command for overrides asks for exactly what its flags say.

  \<^bold>\<open>Shared theories.\<close>  \<open>Prelude\<close> and \<open>GoStrings\<close> hold the part of Go and of its standard library that the program uses (strings are byte
  lists, times are nanoseconds, sorting is the insertion sort of package \<open>slices\<close>, and its users rely only on the contract \<open>sort_func\<close>), with the shared rewrite rules.
  \<open>Effects\<close> has the calls of the controllers and a small logic of traces (\<open>emits\<close>, \<open>hoare\<close>, \<open>keeps\<close>, with the collection
  \<open>emits_intros\<close>); \<open>Retry\<close> the contract of \<open>retry.OnError\<close> (locale \<open>retry_OnError\<close>); \<open>TraceInvariants\<close> the locale
  \<open>justification\<close>: every call of a kind was justified by what happened before it.  Further interfaces are \<open>reconciler_ports\<close>,
  \<open>discovery_ports\<close>, \<open>dispatcher_ports\<close> and \<open>quiet_groups\<close>.  Every locale is interpreted on the definitions of the program.

  \<^bold>\<open>Bounds and termination.\<close>  Recursion over data terminates.  The loops over the pages of a list (\<open>listPages\<close>, \<open>cleanupPages\<close>,
  \<open>visitAuditPages\<close>) last as long as the server hands out tokens; they are partial functions with \<open>None\<close> for not returning, and theorems about
  them prove that they return when the pages end.  Retries and deliveries are counted (at most three requests a delivery).  The
  loop of the dispatcher and the ticks of the cleanup go on for ever; they are a step relation and a number of ticks, and the
  theorems hold for every reachable state and every number.  Durations are 64-bit in the source: \<open>AuditHistory\<close> has the overflow of the
  retention period written out, and the conversions to \<open>int32\<close> wrap.

  \<^bold>\<open>Parameters.\<close>  Code that is not under \<open>src\<close> is an argument of the model: the time zone database, \<open>retry.OnError\<close>, SHA-256, bcrypt
  and JWT, the JSON and YAML decoders, the parsers of durations, floats and URLs, the formatting of times and floats, the comparison of
  times in SQLite, and the rounding of floating point.

  \<^bold>\<open>Not modelled:\<close> logging and the Prometheus counters, the manager and its leader election, informer caches (their staleness is in the
  environment), generated copies and scheme registration, the profiling listener, serving the panel, and the commands that only print an
  answer of the server.
\<close>

end
